(* ===== verification/Py_Prelude.thy ===== *)
theory Py_Prelude
  imports Complex_Main "HOL-Library.Sublist" "HOL-Library.Char_ord" "HOL-Library.List_Lexorder"
begin

text \<open>
  What every component shares: the exceptions of the program as values, the result type with
  its sequencing operators and loops, and the string operations of the Python standard library
  that the sources use (\<open>strip\<close>, \<open>split\<close>, \<open>join\<close>, \<open>splitlines\<close>, the character classes of the
  regular expressions). Strings are lists of 8-bit characters; text outside Latin-1 is not
  represented.
\<close>

named_theorems res_simps \<open>inversion rules for the result type\<close>
named_theorems py_simps \<open>equations of the Python value model\<close>

section \<open>Exceptions and results\<close>

text \<open>
  The exception classes raised under \<^verbatim>\<open>fragma/\<close> and the built-in ones the code catches.
  Every project class is a subclass of \<^verbatim>\<open>ValueError\<close>; \<^verbatim>\<open>json.JSONDecodeError\<close> and
  \<^verbatim>\<open>UnicodeError\<close> are too, so a handler for \<^verbatim>\<open>ValueError\<close> catches them all.
\<close>

datatype exn_class =
    ValueError | KeyError | TypeError | AttributeError | IndexError | OSError | StructError
  | UnicodeError | AnalysisPolicyError | ReportError | SourceError | SuiteError | CoverageError
  | ELFError | ConcurrencyError | ConcurrencyEvidenceError | IpcRefcountError
  | LlscProgressError | ProvenanceError | FrontendError | ReplayError | LayoutError
  | AdapterError | ProfileError | ToolchainError | NativeError | S390Error | Common24Error
  | CalibrationError | ControlsError | RV32ZeropadError | CacheMthreadError

datatype exn = Exn exn_class string

type_synonym 'a res = "exn + 'a"

fun is_value_error :: "exn \<Rightarrow> bool" where
  "is_value_error (Exn c m) = (c \<notin> {KeyError, TypeError, AttributeError, IndexError, OSError, StructError})"

definition bind_res :: "'a res \<Rightarrow> ('a \<Rightarrow> 'b res) \<Rightarrow> 'b res" where
  "bind_res m f = (case m of Inl e \<Rightarrow> Inl e | Inr x \<Rightarrow> f x)"

definition check :: "bool \<Rightarrow> exn \<Rightarrow> unit res" where
  "check c e = (if c then Inr () else Inl e)"

definition res_ok :: "'a res \<Rightarrow> bool" where
  "res_ok m = (case m of Inl e \<Rightarrow> False | Inr x \<Rightarrow> True)"

lemma bind_res_simps [simp]:
  "bind_res (Inl e) f = Inl e" "bind_res (Inr x) f = f x"
  by (simp_all add: bind_res_def)

lemma bind_res_Inr [res_simps]: "bind_res m f = Inr y \<longleftrightarrow> (\<exists>x. m = Inr x \<and> f x = Inr y)"
  by (cases m) auto

lemma bind_res_Inl [res_simps]:
  "bind_res m f = Inl e \<longleftrightarrow> m = Inl e \<or> (\<exists>x. m = Inr x \<and> f x = Inl e)"
  by (cases m) auto

lemma bind_res_cong [fundef_cong]:
  "m = m' \<Longrightarrow> (\<And>x. m' = Inr x \<Longrightarrow> f x = g x) \<Longrightarrow> bind_res m f = bind_res m' g"
  by (cases m') auto

lemma check_iff [res_simps]: "check c e = Inr u \<longleftrightarrow> c" "check c e = Inl x \<longleftrightarrow> \<not> c \<and> x = e"
  by (auto simp: check_def)

lemma check_simps [simp]: "check True e = Inr ()" "check False e = Inl e"
  by (simp_all add: check_def)

lemma if_Inl_Inr [res_simps]:
  "(if c then Inl e else k) = Inr y \<longleftrightarrow> \<not> c \<and> k = Inr y"
  "(if c then k else Inl e) = Inr y \<longleftrightarrow> c \<and> k = Inr y"
  by auto

lemma case_option_Inr [res_simps]:
  "(case v of None \<Rightarrow> Inl e | Some x \<Rightarrow> f x) = Inr y \<longleftrightarrow> (\<exists>x. v = Some x \<and> f x = Inr y)"
  by (cases v) auto

text \<open>A match on a list with one element, or at least one, that raises otherwise.\<close>

lemma case_single_Inr [res_simps]:
  "(case xs of [] \<Rightarrow> Inl e | x # ys \<Rightarrow> (case ys of [] \<Rightarrow> f x | z # zs \<Rightarrow> Inl e')) = Inr y
     \<longleftrightarrow> (\<exists>x. xs = [x] \<and> f x = Inr y)"
  by (auto split: list.splits)

lemma case_Cons_Inr [res_simps]:
  "(case xs of [] \<Rightarrow> Inl e | x # ys \<Rightarrow> g x ys) = Inr y \<longleftrightarrow> (\<exists>x ys. xs = x # ys \<and> g x ys = Inr y)"
  by (cases xs) auto

lemma res_ok_simps [simp]: "res_ok (Inl e) = False" "res_ok (Inr x) = True"
  by (simp_all add: res_ok_def)

lemma map_sum_Inr: "map_sum id f m = Inr y \<longleftrightarrow> (\<exists>x. m = Inr x \<and> f x = y)"
  by (cases m) auto

lemma res_ok_iff: "res_ok m \<longleftrightarrow> (\<exists>x. m = Inr x)"
  by (cases m) auto

section \<open>Loops that may raise\<close>

fun foldM :: "('s \<Rightarrow> 'a \<Rightarrow> 's res) \<Rightarrow> 's \<Rightarrow> 'a list \<Rightarrow> 's res" where
  "foldM f s [] = Inr s"
| "foldM f s (x # xs) = bind_res (f s x) (\<lambda>s'. foldM f s' xs)"

fun mapM :: "('a \<Rightarrow> 'b res) \<Rightarrow> 'a list \<Rightarrow> 'b list res" where
  "mapM f [] = Inr []"
| "mapM f (x # xs) = bind_res (f x) (\<lambda>y. bind_res (mapM f xs) (\<lambda>ys. Inr (y # ys)))"

fun allM :: "('a \<Rightarrow> unit res) \<Rightarrow> 'a list \<Rightarrow> unit res" where
  "allM f [] = Inr ()"
| "allM f (x # xs) = bind_res (f x) (\<lambda>_. allM f xs)"

text \<open>The loop rule: what every iteration that does not raise keeps, the whole loop keeps.\<close>

lemma foldM_invariant:
  assumes "foldM f s xs = Inr t" and "P s"
    and "\<And>s x s'. P s \<Longrightarrow> x \<in> set xs \<Longrightarrow> f s x = Inr s' \<Longrightarrow> P s'"
  shows "P t"
  using assms
proof (induction xs arbitrary: s)
  case Nil
  then show ?case by simp
next
  case (Cons x xs)
  from Cons.prems(1) obtain s' where s': "f s x = Inr s'" "foldM f s' xs = Inr t"
    by (auto simp: res_simps)
  have "P s'" by (rule Cons.prems(3) [OF Cons.prems(2) _ s'(1)]) simp
  with s'(2) show ?case
  proof (rule Cons.IH)
    fix u y u' assume "P u" "y \<in> set xs" "f u y = Inr u'"
    then show "P u'" using Cons.prems(3) [of u y u'] by simp
  qed
qed

text \<open>The same rule for a property of the elements already read and the state they led to.\<close>

lemma foldM_prefix_invariant:
  assumes "foldM f s xs = Inr t" and "P ys s"
    and "\<And>ys s x s'. P ys s \<Longrightarrow> x \<in> set xs \<Longrightarrow> f s x = Inr s' \<Longrightarrow> P (ys @ [x]) s'"
  shows "P (ys @ xs) t"
  using assms
proof (induction xs arbitrary: s ys)
  case Nil
  then show ?case by simp
next
  case (Cons x xs)
  from Cons.prems(1) obtain s' where s': "f s x = Inr s'" "foldM f s' xs = Inr t"
    by (auto simp: res_simps)
  have "P (ys @ [x]) s'" by (rule Cons.prems(3) [OF Cons.prems(2) _ s'(1)]) simp
  from Cons.IH [OF s'(2) this] Cons.prems(3) show ?case by simp
qed

lemma foldM_append: "foldM f s (xs @ ys) = bind_res (foldM f s xs) (\<lambda>t. foldM f t ys)"
proof (induction xs arbitrary: s)
  case (Cons x xs)
  then show ?case by (cases "f s x") simp_all
qed simp

lemma mapM_Inr_iff: "mapM f xs = Inr ys \<longleftrightarrow> list_all2 (\<lambda>x y. f x = Inr y) xs ys"
proof (induction xs arbitrary: ys)
  case (Cons x xs)
  then show ?case by (cases ys) (auto simp: res_simps)
qed auto

lemma mapM_length: "mapM f xs = Inr ys \<Longrightarrow> length ys = length xs"
  by (auto simp: mapM_Inr_iff dest: list_all2_lengthD)

lemma mapM_set: "mapM f xs = Inr ys \<Longrightarrow> y \<in> set ys \<Longrightarrow> \<exists>x\<in>set xs. f x = Inr y"
  by (force simp: mapM_Inr_iff list_all2_conv_all_nth in_set_conv_nth)

lemma mapM_nth: "mapM f xs = Inr ys \<Longrightarrow> i < length xs \<Longrightarrow> f (xs ! i) = Inr (ys ! i)"
  by (auto simp: mapM_Inr_iff list_all2_conv_all_nth)

lemma mapM_map: "(\<And>x. x \<in> set xs \<Longrightarrow> f (g x) = Inr (h x)) \<Longrightarrow> mapM f (map g xs) = Inr (map h xs)"
  by (induction xs) auto

lemma allM_iff [res_simps]: "allM f xs = Inr u \<longleftrightarrow> (\<forall>x\<in>set xs. f x = Inr ())"
  by (induction xs) (auto simp: res_simps)

section \<open>Option and list helpers\<close>

fun those_all :: "'a option list \<Rightarrow> 'a list option" where
  "those_all [] = Some []"
| "those_all (None # xs) = None"
| "those_all (Some x # xs) = map_option (Cons x) (those_all xs)"

lemma those_all_Some_iff: "those_all os = Some xs \<longleftrightarrow> os = map Some xs"
proof (induction os arbitrary: xs)
  case (Cons o' os)
  then show ?case by (cases o'; cases xs) auto
qed auto

lemma those_all_map_Some [simp]: "those_all (map Some xs) = Some xs"
  by (simp add: those_all_Some_iff)

text \<open>\<^verbatim>\<open>list.index\<close>: the first position, the length of the list when there is none.\<close>

fun index_of :: "'a \<Rightarrow> 'a list \<Rightarrow> nat" where
  "index_of x [] = 0"
| "index_of x (y # ys) = (if x = y then 0 else Suc (index_of x ys))"

lemma index_of_less [simp]: "index_of x xs < length xs \<longleftrightarrow> x \<in> set xs"
  by (induction xs) auto

lemma index_of_append:
  "index_of x (xs @ ys) = (if x \<in> set xs then index_of x xs else length xs + index_of x ys)"
  by (induction xs) auto

lemma index_of_nth: "x \<in> set xs \<Longrightarrow> xs ! index_of x xs = x"
  by (induction xs) auto

text \<open>\<^verbatim>\<open>dict.fromkeys\<close>: the distinct elements in the order of their first occurrence.\<close>

fun from_keys :: "'a list \<Rightarrow> 'a list \<Rightarrow> 'a list" where
  "from_keys seen [] = []"
| "from_keys seen (x # xs) =
     (if x \<in> set seen then from_keys seen xs else x # from_keys (x # seen) xs)"

lemma from_keys_props:
  "set (from_keys seen xs) = set xs - set seen \<and> distinct (from_keys seen xs)"
  by (induction xs arbitrary: seen) auto

lemma set_from_keys [simp]: "set (from_keys seen xs) = set xs - set seen"
  by (simp add: from_keys_props)

lemma distinct_from_keys [simp]: "distinct (from_keys seen xs)"
  by (simp add: from_keys_props)

text \<open>\<^verbatim>\<open>Counter\<close>: how often each key occurs, in the order of first occurrence.\<close>

definition counter :: "'a list \<Rightarrow> ('a \<times> nat) list" where
  "counter xs = map (\<lambda>x. (x, count_list xs x)) (from_keys [] xs)"

section \<open>Strings\<close>

definition starts_with :: "string \<Rightarrow> string \<Rightarrow> bool" where
  "starts_with p s = (take (length p) s = p)"

definition ends_with :: "string \<Rightarrow> string \<Rightarrow> bool" where
  "ends_with p s = starts_with (rev p) (rev s)"

text \<open>\<^verbatim>\<open>p in s\<close> for strings.\<close>

fun contains :: "string \<Rightarrow> string \<Rightarrow> bool" where
  "contains p [] = (p = [])"
| "contains p (c # s) = (starts_with p (c # s) \<or> contains p s)"

lemma starts_with_code [code]:
  "starts_with [] s = True" "starts_with (c # p) [] = False"
  "starts_with (c # p) (d # s) = (if c = d then starts_with p s else False)"
  by (simp_all add: starts_with_def)

lemma starts_with_append [simp]: "starts_with p (p @ s)"
  by (simp add: starts_with_def)

lemma starts_with_iff: "starts_with p s \<longleftrightarrow> (\<exists>t. s = p @ t)"
  by (metis append_eq_conv_conj append_take_drop_id starts_with_def)

lemma contains_iff: "contains p s \<longleftrightarrow> (\<exists>a b. s = a @ p @ b)"
proof (induction s)
  case (Cons c s)
  have "(\<exists>a b. c # s = a @ p @ b) \<longleftrightarrow> (\<exists>b. c # s = p @ b) \<or> (\<exists>a b. s = a @ p @ b)"
    by (metis append_Cons append_Nil neq_Nil_conv list.inject)
  then show ?case by (simp add: Cons starts_with_iff)
qed auto

definition remove_prefix :: "string \<Rightarrow> string \<Rightarrow> string" where
  "remove_prefix p s = (if starts_with p s then drop (length p) s else s)"

definition lstrip_char :: "char \<Rightarrow> string \<Rightarrow> string" where
  "lstrip_char c s = dropWhile (\<lambda>x. x = c) s"

text \<open>\<^verbatim>\<open>s.split(c, 1)[0]\<close> and the rest after the separator.\<close>

definition before :: "char \<Rightarrow> string \<Rightarrow> string" where
  "before c s = takeWhile (\<lambda>x. x \<noteq> c) s"

definition after :: "char \<Rightarrow> string \<Rightarrow> string" where
  "after c s = drop 1 (dropWhile (\<lambda>x. x \<noteq> c) s)"

lemma before_after: "c \<in> set s \<Longrightarrow> before c s @ [c] @ after c s = s"
proof (induction s)
  case (Cons x s)
  then show ?case by (auto simp: before_def after_def)
qed simp

fun split_on :: "char \<Rightarrow> string \<Rightarrow> string list" where
  "split_on c [] = [[]]"
| "split_on c (x # s) =
     (if x = c then [] # split_on c s
      else (case split_on c s of [] \<Rightarrow> [[x]] | w # ws \<Rightarrow> (x # w) # ws))"

fun join :: "string \<Rightarrow> string list \<Rightarrow> string" where
  "join sep [] = []"
| "join sep [w] = w"
| "join sep (w # v # ws) = w @ sep @ join sep (v # ws)"

lemma split_on_nonempty [simp]: "split_on c s \<noteq> []"
  by (induction s) (auto split: list.splits)

lemma split_on_no_sep: "c \<notin> set w \<Longrightarrow> split_on c w = [w]"
  by (induction w) auto

lemma split_on_append:
  "c \<notin> set w \<Longrightarrow> split_on c (w @ c # s) = w # split_on c s"
  by (induction w) auto

text \<open>Splitting what was joined gives the words back, when no word holds the separator.\<close>

lemma split_join:
  assumes "ws \<noteq> []" and "\<And>w. w \<in> set ws \<Longrightarrow> c \<notin> set w"
  shows "split_on c (join [c] ws) = ws"
  using assms
proof (induction "[c]" ws rule: join.induct)
  case (2 w)
  then show ?case by (simp add: split_on_no_sep)
next
  case (3 w v ws)
  then show ?case by (simp add: split_on_append)
qed simp

definition is_space :: "char \<Rightarrow> bool" where
  "is_space c = (c \<in> {CHR '' '', CHR 0x09, CHR 0x0A, CHR 0x0B, CHR 0x0C, CHR 0x0D,
                      CHR 0x1C, CHR 0x1D, CHR 0x1E, CHR 0x1F, CHR 0x85, CHR 0xA0})"

definition strip :: "string \<Rightarrow> string" where
  "strip s = rev (dropWhile is_space (rev (dropWhile is_space s)))"

text \<open>\<^verbatim>\<open>s.strip()\<close> used as a condition: some character is not white space.\<close>

definition not_blank :: "string \<Rightarrow> bool" where
  "not_blank s = (\<exists>c\<in>set s. \<not> is_space c)"

lemma not_blank_strip: "not_blank s \<longleftrightarrow> strip s \<noteq> []"
proof -
  have "strip s = [] \<longleftrightarrow> (\<forall>c\<in>set (dropWhile is_space s). is_space c)"
    by (simp add: strip_def)
  also have "\<dots> \<longleftrightarrow> (\<forall>c\<in>set s. is_space c)"
    by (induction s) auto
  finally show ?thesis by (auto simp: not_blank_def)
qed

subsection \<open>Character classes of the regular expressions\<close>

definition in_range :: "char \<Rightarrow> char \<Rightarrow> char \<Rightarrow> bool" where
  "in_range lo hi c = (of_char lo \<le> (of_char c :: nat) \<and> of_char c \<le> (of_char hi :: nat))"

definition is_lower :: "char \<Rightarrow> bool" where "is_lower c = in_range CHR ''a'' CHR ''z'' c"
definition is_upper :: "char \<Rightarrow> bool" where "is_upper c = in_range CHR ''A'' CHR ''Z'' c"
definition is_digit :: "char \<Rightarrow> bool" where "is_digit c = in_range CHR ''0'' CHR ''9'' c"
definition is_lhex :: "char \<Rightarrow> bool" where
  "is_lhex c = (is_digit c \<or> in_range CHR ''a'' CHR ''f'' c)"
definition is_ident_start :: "char \<Rightarrow> bool" where
  "is_ident_start c = (is_lower c \<or> is_upper c \<or> c = CHR ''_'')"
definition is_ident_char :: "char \<Rightarrow> bool" where
  "is_ident_char c = (is_ident_start c \<or> is_digit c)"

lemmas char_class_defs = in_range_def is_lower_def is_upper_def is_digit_def is_lhex_def
  is_ident_start_def is_ident_char_def

text \<open>\<open>\w\<close> on a \<^verbatim>\<open>str\<close>: the letters, digits and numeric signs of Latin-1, and the underscore.\<close>

definition is_word :: "char \<Rightarrow> bool" where
  "is_word c = (is_ident_char c \<or> c \<in> {CHR 0xAA, CHR 0xB2, CHR 0xB3, CHR 0xB5, CHR 0xB9, CHR 0xBA}
     \<or> in_range CHR 0xBC CHR 0xBE c \<or> in_range CHR 0xC0 CHR 0xD6 c \<or> in_range CHR 0xD8 CHR 0xF6 c
     \<or> in_range CHR 0xF8 CHR 0xFF c)"

text \<open>Case folding of ASCII letters, for patterns compiled with \<^verbatim>\<open>re.I\<close>.\<close>

definition to_lower :: "string \<Rightarrow> string" where
  "to_lower s = map (\<lambda>c. if is_upper c then char_of (of_char c + 32 :: nat) else c) s"

text \<open>\<^verbatim>\<open>re.search(r"\bw\b", s)\<close> for a word \<open>w\<close>; \<open>prev\<close> says whether a word character stands before.\<close>

fun word_search :: "string \<Rightarrow> bool \<Rightarrow> string \<Rightarrow> bool" where
  "word_search w prev [] = False"
| "word_search w prev (c # s) =
     (\<not> prev \<and> starts_with w (c # s) \<and> (case drop (length w) (c # s) of [] \<Rightarrow> True | d # _ \<Rightarrow> \<not> is_word d)
      \<or> word_search w (is_word c) s)"

text \<open>\<^verbatim>\<open>re.fullmatch(r"[A-Za-z_][A-Za-z0-9_]*", s)\<close>\<close>

fun is_ident :: "string \<Rightarrow> bool" where
  "is_ident [] = False"
| "is_ident (c # s) = (is_ident_start c \<and> list_all is_ident_char s)"

text \<open>\<^verbatim>\<open>re.fullmatch(r"[0-9a-f]{n}", s)\<close>: SHA-256 digests and git object names.\<close>

definition is_hex :: "nat \<Rightarrow> string \<Rightarrow> bool" where
  "is_hex n s = (length s = n \<and> list_all is_lhex s)"

lemma is_ident_chars: "is_ident s \<Longrightarrow> c \<in> set s \<Longrightarrow> is_ident_char c"
  by (cases s) (auto simp: list_all_iff is_ident_char_def)

lemma is_ident_char_not [simp]:
  "\<not> is_ident_char CHR ''-''" "\<not> is_ident_char CHR '',''" "\<not> is_ident_char CHR '':''"
  "\<not> is_ident_char CHR ''=''" "\<not> is_ident_char CHR ''/''" "\<not> is_ident_char CHR '' ''"
  by (simp_all add: char_class_defs of_char_def)

lemma is_ident_no_char: "is_ident s \<Longrightarrow> \<not> is_ident_char c \<Longrightarrow> c \<notin> set s"
  using is_ident_chars by blast

subsection \<open>Numbers as text\<close>

definition digit_char :: "nat \<Rightarrow> char" where
  "digit_char d = char_of (48 + d :: nat)"

definition digit_value :: "char \<Rightarrow> nat" where
  "digit_value c = of_char c - 48"

fun nat_str :: "nat \<Rightarrow> string" where
  "nat_str n = (if n < 10 then [digit_char n] else nat_str (n div 10) @ [digit_char (n mod 10)])"

declare nat_str.simps [simp del]

definition int_str :: "int \<Rightarrow> string" where
  "int_str i = (if i < 0 then CHR ''-'' # nat_str (nat (- i)) else nat_str (nat i))"

definition str_nat :: "string \<Rightarrow> nat" where
  "str_nat s = foldl (\<lambda>a c. 10 * a + digit_value c) 0 s"

lemma digit_char_value [simp]: "d < 10 \<Longrightarrow> digit_value (digit_char d) = d"
  by (simp add: digit_char_def digit_value_def)

lemma digit_char_is_digit: "d < 10 \<Longrightarrow> is_digit (digit_char d)"
  by (simp add: digit_char_def is_digit_def in_range_def)

text \<open>\<^verbatim>\<open>int(str(n)) == n\<close>.\<close>

lemma str_nat_nat_str [simp]: "str_nat (nat_str n) = n"
proof (induction n rule: nat_str.induct)
  case (1 n)
  then show ?case by (subst nat_str.simps) (auto simp: str_nat_def)
qed

lemma nat_str_digits: "c \<in> set (nat_str n) \<Longrightarrow> is_digit c"
proof (induction n rule: nat_str.induct)
  case (1 n)
  then show ?case
    by (subst (asm) nat_str.simps) (auto simp: digit_char_is_digit split: if_splits)
qed

lemma nat_str_nonempty [simp]: "nat_str n \<noteq> []"
  by (subst nat_str.simps) simp

text \<open>\<^verbatim>\<open>int(s)\<close>: surrounding blanks, a sign, digits with single underscores between them.\<close>

fun digits_us :: "string \<Rightarrow> bool" where
  "digits_us [] = False"
| "digits_us [c] = is_digit c"
| "digits_us (c # d # s) =
     (is_digit c \<and> (if d = CHR ''_'' then digits_us s else digits_us (d # s)))"

definition py_int :: "string \<Rightarrow> int option" where
  "py_int s0 = (let s = strip s0;
       neg = (case s of [] \<Rightarrow> False | c # _ \<Rightarrow> c = CHR ''-'');
       signed = (case s of [] \<Rightarrow> False | c # _ \<Rightarrow> c = CHR ''-'' \<or> c = CHR ''+'');
       body = (if signed then tl s else s)
     in if digits_us body
        then (let n = int (str_nat (filter is_digit body)) in Some (if neg then - n else n))
        else None)"

subsection \<open>Lines\<close>

definition is_line_break :: "char \<Rightarrow> bool" where
  "is_line_break c = (c \<in> {CHR 0x0A, CHR 0x0B, CHR 0x0C, CHR 0x0D, CHR 0x1C, CHR 0x1D, CHR 0x1E, CHR 0x85})"

text \<open>\<^verbatim>\<open>str.splitlines()\<close>: \<^verbatim>\<open>\r\n\<close> is one break and a final break opens no further line.\<close>

fun splitlines_acc :: "string \<Rightarrow> string \<Rightarrow> string list" where
  "splitlines_acc acc [] = (if acc = [] then [] else [rev acc])"
| "splitlines_acc acc [c] = (if is_line_break c then [rev acc] else [rev (c # acc)])"
| "splitlines_acc acc (c # d # s) =
     (if c = CHR 0x0D \<and> d = CHR 0x0A then rev acc # splitlines_acc [] s
      else if is_line_break c then rev acc # splitlines_acc [] (d # s)
      else splitlines_acc (c # acc) (d # s))"

definition splitlines :: "string \<Rightarrow> string list" where
  "splitlines s = splitlines_acc [] s"

text \<open>
  Reading text with universal newlines, and \<^verbatim>\<open>s.replace("\r\n", "\n").replace("\r", "\n")\<close>: every
  carriage return, with a line feed after it or not, becomes one line feed.
\<close>

fun universal_newlines :: "string \<Rightarrow> string" where
  "universal_newlines [] = []"
| "universal_newlines [c] = (if c = CHR 0x0D then [CHR 0x0A] else [c])"
| "universal_newlines (c # d # s) =
     (if c = CHR 0x0D then CHR 0x0A # (if d = CHR 0x0A then universal_newlines s else universal_newlines (d # s))
      else c # universal_newlines (d # s))"

text \<open>The text before and after the first occurrence of \<open>p\<close>: \<^verbatim>\<open>s.find(p)\<close> with its two slices.\<close>

fun cut :: "string \<Rightarrow> string \<Rightarrow> (string \<times> string) option" where
  "cut p [] = (if p = [] then Some ([], []) else None)"
| "cut p (c # s) = (if starts_with p (c # s) then Some ([], drop (length p) (c # s))
                    else map_option (\<lambda>(a, b). (c # a, b)) (cut p s))"

lemma cut_Some: "cut p s = Some (a, b) \<Longrightarrow> s = a @ p @ b"
  by (induction s arbitrary: a) (auto simp: starts_with_iff split: if_splits)

lemma cut_None: "cut p s = None \<longleftrightarrow> \<not> contains p s"
  by (induction s) auto

end
