(* ===== verification/Py_Value.thy ===== *)
theory Py_Value
  imports Py_Prelude
begin

text \<open>
  The JSON values the program validates, as a datatype, with the Python operations the
  validators use on them: \<open>==\<close> (which identifies booleans with integers and ignores the order
  of dictionary entries), truth values, \<open>.get\<close> and indexing with its exceptions, and the strict
  comparison by canonical text (\<^verbatim>\<open>integrity._same_json\<close>, \<^verbatim>\<open>replay.canonical\<close>).
  A dictionary is its list of entries in insertion order; \<open>wf_py\<close> says that no key occurs twice,
  as in every dictionary Python can build.
\<close>

section \<open>Values\<close>

text \<open>A Python float read from JSON: an exact rational, an infinity or not-a-number.\<close>

datatype pyfloat = Fin rat | PosInf | NegInf | NaN

datatype py =
    PNone
  | PBool bool
  | PInt int
  | PFloat pyfloat
  | PStr string
  | PList "py list"
  | PDict "(string \<times> py) list"

type_synonym pydict = "(string \<times> py) list"

definition keys :: "pydict \<Rightarrow> string list" where
  "keys d = map fst d"

fun wf_py :: "py \<Rightarrow> bool"
and wf_list :: "py list \<Rightarrow> bool"
and wf_dict :: "pydict \<Rightarrow> bool" where
  "wf_py (PList xs) = wf_list xs"
| "wf_py (PDict d) = (distinct (keys d) \<and> wf_dict d)"
| "wf_py _ = True"
| "wf_list [] = True"
| "wf_list (x # xs) = (wf_py x \<and> wf_list xs)"
| "wf_dict [] = True"
| "wf_dict ((k, v) # d) = (wf_py v \<and> wf_dict d)"

section \<open>Equality\<close>

fun float_eq :: "pyfloat \<Rightarrow> pyfloat \<Rightarrow> bool" where
  "float_eq (Fin a) (Fin b) = (a = b)"
| "float_eq PosInf PosInf = True"
| "float_eq NegInf NegInf = True"
| "float_eq _ _ = False"

definition of_bool_int :: "bool \<Rightarrow> int" where
  "of_bool_int b = (if b then 1 else 0)"

text \<open>
  Python's \<open>==\<close>: \<open>True == 1\<close> and \<open>1 == 1.0\<close> hold, lists are compared element by element and
  dictionaries by their sets of entries.
\<close>

fun py_eq :: "py \<Rightarrow> py \<Rightarrow> bool"
and list_eq :: "py list \<Rightarrow> py list \<Rightarrow> bool"
and dict_le :: "pydict \<Rightarrow> pydict \<Rightarrow> bool" where
  "py_eq PNone b = (b = PNone)"
| "py_eq (PBool x) b = (case b of PBool y \<Rightarrow> x = y | PInt n \<Rightarrow> of_bool_int x = n
     | PFloat f \<Rightarrow> f = Fin (of_int (of_bool_int x)) | _ \<Rightarrow> False)"
| "py_eq (PInt m) b = (case b of PBool y \<Rightarrow> m = of_bool_int y | PInt n \<Rightarrow> m = n
     | PFloat f \<Rightarrow> f = Fin (of_int m) | _ \<Rightarrow> False)"
| "py_eq (PFloat f) b = (case b of PBool y \<Rightarrow> f = Fin (of_int (of_bool_int y))
     | PInt n \<Rightarrow> f = Fin (of_int n) | PFloat g \<Rightarrow> float_eq f g | _ \<Rightarrow> False)"
| "py_eq (PStr s) b = (b = PStr s)"
| "py_eq (PList xs) b = (case b of PList ys \<Rightarrow> list_eq xs ys | _ \<Rightarrow> False)"
| "py_eq (PDict d) b = (case b of PDict e \<Rightarrow> length d = length e \<and> dict_le d e | _ \<Rightarrow> False)"
| "list_eq [] ys = (ys = [])"
| "list_eq (x # xs) ys = (case ys of [] \<Rightarrow> False | y # ys' \<Rightarrow> py_eq x y \<and> list_eq xs ys')"
| "dict_le [] e = True"
| "dict_le ((k, v) # d) e = (case map_of e k of None \<Rightarrow> False | Some w \<Rightarrow> py_eq v w \<and> dict_le d e)"

lemma py_eq_PStr [simp]: "py_eq v (PStr s) \<longleftrightarrow> v = PStr s"
  by (cases v) auto

lemma py_eq_PNone [simp]: "py_eq v PNone \<longleftrightarrow> v = PNone"
  by (cases v) auto

text \<open>Comparing with the integer 1, as every \<^verbatim>\<open>schema_version != 1\<close> does, admits \<open>True\<close> and \<open>1.0\<close>.\<close>

lemma py_eq_PInt:
  "py_eq v (PInt n) \<longleftrightarrow>
     v = PInt n \<or> (\<exists>b. v = PBool b \<and> of_bool_int b = n) \<or> v = PFloat (Fin (of_int n))"
  by (cases v) auto

lemma map_PStr_eq [simp]: "map PStr xs = map PStr ys \<longleftrightarrow> xs = ys"
  by (simp add: inj_map_eq_map inj_def)

lemma list_eq_strings [simp]: "list_eq vs (map PStr ss) \<longleftrightarrow> vs = map PStr ss"
proof (induction vs arbitrary: ss)
  case (Cons v vs)
  then show ?case by (cases ss) auto
qed auto

lemma py_eq_strings [simp]: "py_eq v (PList (map PStr ss)) \<longleftrightarrow> v = PList (map PStr ss)"
  by (cases v) auto

text \<open>A value is equal to itself unless a NaN occurs in it.\<close>

fun nan_free :: "py \<Rightarrow> bool"
and nan_free_list :: "py list \<Rightarrow> bool"
and nan_free_dict :: "pydict \<Rightarrow> bool" where
  "nan_free (PFloat f) = (f \<noteq> NaN)"
| "nan_free (PList xs) = nan_free_list xs"
| "nan_free (PDict d) = nan_free_dict d"
| "nan_free _ = True"
| "nan_free_list [] = True"
| "nan_free_list (x # xs) = (nan_free x \<and> nan_free_list xs)"
| "nan_free_dict [] = True"
| "nan_free_dict ((k, v) # d) = (nan_free v \<and> nan_free_dict d)"

lemma float_eq_refl: "f \<noteq> NaN \<Longrightarrow> float_eq f f"
  by (cases f) auto

lemma map_of_distinct: "distinct (keys d) \<Longrightarrow> (k, v) \<in> set d \<Longrightarrow> map_of d k = Some v"
  by (simp add: keys_def)

lemma dict_le_entry:
  "distinct (keys e) \<Longrightarrow> (k, v) \<in> set e \<Longrightarrow> dict_le ((k, v) # d) e \<longleftrightarrow> py_eq v v \<and> dict_le d e"
  by (simp add: map_of_distinct)

lemma py_eq_refl:
  "wf_py v \<Longrightarrow> nan_free v \<Longrightarrow> py_eq v v"
  "wf_list vs \<Longrightarrow> nan_free_list vs \<Longrightarrow> list_eq vs vs"
  "wf_dict d \<Longrightarrow> nan_free_dict d \<Longrightarrow> (\<forall>e. distinct (keys e) \<longrightarrow> set d \<subseteq> set e \<longrightarrow> dict_le d e)"
  by (induction v and vs and d rule: wf_py_wf_list_wf_dict.induct)
     (auto simp: float_eq_refl dict_le_entry simp del: dict_le.simps(2))

section \<open>Truth values, types, look-up\<close>

fun truthy :: "py \<Rightarrow> bool" where
  "truthy PNone = False"
| "truthy (PBool b) = b"
| "truthy (PInt n) = (n \<noteq> 0)"
| "truthy (PFloat f) = (f \<noteq> Fin 0)"
| "truthy (PStr s) = (s \<noteq> [])"
| "truthy (PList xs) = (xs \<noteq> [])"
| "truthy (PDict d) = (d \<noteq> [])"

fun is_str :: "py \<Rightarrow> bool" where "is_str (PStr s) = True" | "is_str _ = False"
fun is_dict :: "py \<Rightarrow> bool" where "is_dict (PDict d) = True" | "is_dict _ = False"
fun is_list :: "py \<Rightarrow> bool" where "is_list (PList d) = True" | "is_list _ = False"
fun is_int :: "py \<Rightarrow> bool" where "is_int (PInt d) = True" | "is_int _ = False"
fun is_bool :: "py \<Rightarrow> bool" where "is_bool (PBool d) = True" | "is_bool _ = False"

fun as_str :: "py \<Rightarrow> string option" where "as_str (PStr s) = Some s" | "as_str _ = None"
fun as_int :: "py \<Rightarrow> int option" where "as_int (PInt s) = Some s" | "as_int _ = None"
fun as_dict :: "py \<Rightarrow> pydict option" where "as_dict (PDict s) = Some s" | "as_dict _ = None"
fun as_list :: "py \<Rightarrow> py list option" where "as_list (PList s) = Some s" | "as_list _ = None"

text \<open>A match on one type of value that raises on every other.\<close>

lemma case_py_Inr [res_simps]:
  "(case v of PStr s \<Rightarrow> f1 s | _ \<Rightarrow> Inl e) = Inr y \<longleftrightarrow> (\<exists>s. v = PStr s \<and> f1 s = Inr y)"
  "(case v of PDict d \<Rightarrow> f2 d | _ \<Rightarrow> Inl e) = Inr y \<longleftrightarrow> (\<exists>d. v = PDict d \<and> f2 d = Inr y)"
  "(case v of PList vs \<Rightarrow> f3 vs | _ \<Rightarrow> Inl e) = Inr y \<longleftrightarrow> (\<exists>vs. v = PList vs \<and> f3 vs = Inr y)"
  "(case v of PInt n \<Rightarrow> f4 n | _ \<Rightarrow> Inl e) = Inr y \<longleftrightarrow> (\<exists>n. v = PInt n \<and> f4 n = Inr y)"
  "(case v of PBool b \<Rightarrow> f5 b | _ \<Rightarrow> Inl e) = Inr y \<longleftrightarrow> (\<exists>b. v = PBool b \<and> f5 b = Inr y)"
  by (auto split: py.splits)

lemma is_str_iff: "is_str v \<longleftrightarrow> (\<exists>s. v = PStr s)" by (cases v) auto
lemma is_dict_iff: "is_dict v \<longleftrightarrow> (\<exists>s. v = PDict s)" by (cases v) auto
lemma is_list_iff: "is_list v \<longleftrightarrow> (\<exists>s. v = PList s)" by (cases v) auto
lemma is_int_iff: "is_int v \<longleftrightarrow> (\<exists>s. v = PInt s)" by (cases v) auto
lemma is_bool_iff: "is_bool v \<longleftrightarrow> (\<exists>s. v = PBool s)" by (cases v) auto

lemma as_str_Some [res_simps]: "as_str v = Some s \<longleftrightarrow> v = PStr s" by (cases v) auto
lemma as_int_Some [res_simps]: "as_int v = Some s \<longleftrightarrow> v = PInt s" by (cases v) auto
lemma as_dict_Some [res_simps]: "as_dict v = Some s \<longleftrightarrow> v = PDict s" by (cases v) auto
lemma as_list_Some [res_simps]: "as_list v = Some s \<longleftrightarrow> v = PList s" by (cases v) auto

text \<open>\<^verbatim>\<open>isinstance(v, list) and all(isinstance(x, str) for x in v)\<close>, with the strings.\<close>

fun as_strs :: "py \<Rightarrow> string list option" where
  "as_strs (PList vs) = those_all (map as_str vs)"
| "as_strs _ = None"

lemma map_as_str_iff: "map as_str vs = map Some ss \<longleftrightarrow> vs = map PStr ss"
proof (induction vs arbitrary: ss)
  case (Cons v vs)
  then show ?case by (cases ss) (auto simp: as_str_Some)
qed auto

lemma as_strs_Some [res_simps]: "as_strs v = Some ss \<longleftrightarrow> v = PList (map PStr ss)"
  by (cases v) (auto simp: those_all_Some_iff map_as_str_iff)

lemma as_strs_map [simp]: "as_strs (PList (map PStr ss)) = Some ss"
  by (rule as_strs_Some [THEN iffD2]) simp

text \<open>\<^verbatim>\<open>d.get(k)\<close>, \<^verbatim>\<open>d.get(k, default)\<close>, \<^verbatim>\<open>k in d\<close> and \<^verbatim>\<open>d[k]\<close>.\<close>

definition dget :: "pydict \<Rightarrow> string \<Rightarrow> py" where
  "dget d k = (case map_of d k of None \<Rightarrow> PNone | Some v \<Rightarrow> v)"

definition dget_or :: "pydict \<Rightarrow> string \<Rightarrow> py \<Rightarrow> py" where
  "dget_or d k x = (case map_of d k of None \<Rightarrow> x | Some v \<Rightarrow> v)"

definition has_key :: "pydict \<Rightarrow> string \<Rightarrow> bool" where
  "has_key d k = (map_of d k \<noteq> None)"

definition ditem :: "pydict \<Rightarrow> string \<Rightarrow> py res" where
  "ditem d k = (case map_of d k of None \<Rightarrow> Inl (Exn KeyError k) | Some v \<Rightarrow> Inr v)"

lemma ditem_Inr [res_simps]: "ditem d k = Inr v \<longleftrightarrow> map_of d k = Some v"
  by (simp add: ditem_def split: option.splits)

lemma has_key_iff: "has_key d k \<longleftrightarrow> k \<in> set (keys d)"
  by (auto simp: has_key_def keys_def map_of_eq_None_iff)

lemma dget_Cons [simp]: "dget ((k, v) # d) k' = (if k = k' then v else dget d k')"
  by (simp add: dget_def)

lemma dget_Nil [simp]: "dget [] k = PNone"
  by (simp add: dget_def)

lemma dget_or_Cons [simp]: "dget_or ((k, v) # d) k' x = (if k = k' then v else dget_or d k' x)"
  by (simp add: dget_or_def)

lemma dget_or_Nil [simp]: "dget_or [] k x = x"
  by (simp add: dget_or_def)

lemma has_key_simps [simp]: "has_key [] k = False"
  "has_key ((k, v) # d) k' = (k = k' \<or> has_key d k')"
  by (auto simp: has_key_def)

text \<open>
  Indexing or \<open>.get\<close> on a value whose type is not known: a list, a string, a number or
  \<open>None\<close> indexed by a string is a \<^verbatim>\<open>TypeError\<close>, and has no \<open>get\<close> attribute.
\<close>

definition pindex :: "py \<Rightarrow> string \<Rightarrow> py res" where
  "pindex v k = (case v of PDict d \<Rightarrow> ditem d k | _ \<Rightarrow> Inl (Exn TypeError k))"

definition pget :: "py \<Rightarrow> string \<Rightarrow> py res" where
  "pget v k = (case v of PDict d \<Rightarrow> Inr (dget d k) | _ \<Rightarrow> Inl (Exn AttributeError k))"

definition pget_or :: "py \<Rightarrow> string \<Rightarrow> py \<Rightarrow> py res" where
  "pget_or v k x = (case v of PDict d \<Rightarrow> Inr (dget_or d k x) | _ \<Rightarrow> Inl (Exn AttributeError k))"

lemma pget_or_Inr [res_simps]: "pget_or v k x = Inr w \<longleftrightarrow> (\<exists>d. v = PDict d \<and> dget_or d k x = w)"
  by (cases v) (auto simp: pget_or_def)

lemma pindex_Inr [res_simps]: "pindex v k = Inr w \<longleftrightarrow> (\<exists>d. v = PDict d \<and> map_of d k = Some w)"
  by (cases v) (auto simp: pindex_def res_simps)

lemma pget_Inr [res_simps]: "pget v k = Inr w \<longleftrightarrow> (\<exists>d. v = PDict d \<and> dget d k = w)"
  by (cases v) (auto simp: pget_def)

text \<open>\<^verbatim>\<open>d.update(k=v)\<close> and \<^verbatim>\<open>d[k] = v\<close>: a present key keeps its place.\<close>

fun dset :: "pydict \<Rightarrow> string \<Rightarrow> py \<Rightarrow> pydict" where
  "dset [] k v = [(k, v)]"
| "dset ((k', v') # d) k v = (if k = k' then (k, v) # d else (k', v') # dset d k v)"

lemma dget_dset [simp]: "dget (dset d k v) k' = (if k' = k then v else dget d k')"
  by (induction d) (auto split: prod.splits)

lemma keys_dset: "set (keys (dset d k v)) = insert k (set (keys d))"
  by (induction d k v rule: dset.induct) (auto simp: keys_def)

lemma distinct_dset: "distinct (keys d) \<Longrightarrow> distinct (keys (dset d k v))"
proof (induction d)
  case (Cons a d)
  obtain k' v' where a: "a = (k', v')" by (cases a)
  have "set (map fst (dset d k v)) = insert k (set (map fst d))"
    using keys_dset [of d k v] by (simp add: keys_def)
  with Cons show ?case by (auto simp: keys_def a)
qed (simp add: keys_def)

section \<open>Strict comparison by canonical text\<close>

text \<open>
  \<^verbatim>\<open>json.dumps(v, sort_keys=True, allow_nan=False)\<close> fails on a non-finite float and otherwise
  is a text that determines the value up to the order of dictionary entries: an integer, a
  float and a boolean never have the same text. \<open>canon\<close> is that value with its entries sorted;
  two values have the same text exactly when they have the same \<open>canon\<close>.
\<close>

fun finite_py :: "py \<Rightarrow> bool"
and finite_list :: "py list \<Rightarrow> bool"
and finite_dict :: "pydict \<Rightarrow> bool" where
  "finite_py (PFloat f) = (case f of Fin r \<Rightarrow> True | _ \<Rightarrow> False)"
| "finite_py (PList xs) = finite_list xs"
| "finite_py (PDict d) = finite_dict d"
| "finite_py _ = True"
| "finite_list [] = True"
| "finite_list (x # xs) = (finite_py x \<and> finite_list xs)"
| "finite_dict [] = True"
| "finite_dict ((k, v) # d) = (finite_py v \<and> finite_dict d)"

fun canon :: "py \<Rightarrow> py"
and canon_list :: "py list \<Rightarrow> py list"
and canon_dict :: "pydict \<Rightarrow> pydict" where
  "canon (PList xs) = PList (canon_list xs)"
| "canon (PDict d) = PDict (sort_key fst (canon_dict d))"
| "canon v = v"
| "canon_list [] = []"
| "canon_list (x # xs) = canon x # canon_list xs"
| "canon_dict [] = []"
| "canon_dict ((k, v) # d) = (k, canon v) # canon_dict d"

definition same_json :: "py \<Rightarrow> py \<Rightarrow> bool" where
  "same_json l r = (finite_py l \<and> finite_py r \<and> canon l = canon r)"

lemma canon_list_map: "canon_list xs = map canon xs"
  by (induction xs) auto

lemma canon_dict_map: "canon_dict d = map (\<lambda>(k, v). (k, canon v)) d"
  by (induction d) auto

lemma keys_canon_dict [simp]: "map fst (canon_dict d) = map fst d"
  by (simp add: canon_dict_map comp_def split_def)

lemma map_of_canon_dict: "map_of (canon_dict d) k = map_option canon (map_of d k)"
  by (induction d) auto

lemma canon_eq_simps:
  "canon v = PNone \<longleftrightarrow> v = PNone"
  "canon v = PBool b \<longleftrightarrow> v = PBool b"
  "canon v = PInt n \<longleftrightarrow> v = PInt n"
  "canon v = PFloat f \<longleftrightarrow> v = PFloat f"
  "canon v = PStr s \<longleftrightarrow> v = PStr s"
  by (cases v; auto)+

lemma eq_canon_simps:
  "PNone = canon v \<longleftrightarrow> v = PNone"
  "PBool b = canon v \<longleftrightarrow> v = PBool b"
  "PInt n = canon v \<longleftrightarrow> v = PInt n"
  "PFloat f = canon v \<longleftrightarrow> v = PFloat f"
  "PStr s = canon v \<longleftrightarrow> v = PStr s"
  by (cases v; auto)+

lemma finite_nan_free:
  "finite_py v \<Longrightarrow> nan_free v" "finite_list vs \<Longrightarrow> nan_free_list vs"
  "finite_dict d \<Longrightarrow> nan_free_dict d"
  by (induction v and vs and d rule: finite_py_finite_list_finite_dict.induct)
     (auto split: pyfloat.splits)

end
