(* ===== verification/Host.thy ===== *)
theory Host
  imports Py_Value
begin

text \<open>
  The machine the program runs on, as far as the sources observe it: file contents, symbolic
  links, path resolution and the SHA-256 function, all fields of one snapshot that the operations
  take as an argument. Two snapshots stand for two moments of a run. Path syntax is
  \<^verbatim>\<open>pathlib.PurePosixPath\<close>: empty and \<open>.\<close> components vanish, joining with an absolute path
  starts over.
\<close>

record host =
  contents :: "string \<Rightarrow> string option" \<comment> \<open>bytes of a regular file, following links\<close>
  is_symlink :: "string \<Rightarrow> bool"
  is_dir :: "string \<Rightarrow> bool"
  resolve :: "string \<Rightarrow> string"
  sha256_hex :: "string \<Rightarrow> string"
  float_text :: "pyfloat \<Rightarrow> string" \<comment> \<open>\<^verbatim>\<open>float.__repr__\<close>\<close>

definition is_file :: "host \<Rightarrow> string \<Rightarrow> bool" where
  "is_file h p = (contents h p \<noteq> None)"

text \<open>\<^verbatim>\<open>sources.sha256\<close> of a file that exists.\<close>

definition file_sha256 :: "host \<Rightarrow> string \<Rightarrow> string option" where
  "file_sha256 h p = map_option (sha256_hex h) (contents h p)"

section \<open>Paths\<close>

definition is_absolute :: "string \<Rightarrow> bool" where
  "is_absolute p = starts_with ''/'' p"

definition path_parts :: "string \<Rightarrow> string list" where
  "path_parts p = filter (\<lambda>c. c \<noteq> [] \<and> c \<noteq> ''.'') (split_on CHR ''/'' p)"

text \<open>Exactly two leading slashes are kept, as POSIX lets them mean something else.\<close>

definition path_root :: "string \<Rightarrow> string" where
  "path_root p = (if starts_with ''//'' p \<and> \<not> starts_with ''///'' p then ''//''
                  else if starts_with ''/'' p then ''/'' else [])"

text \<open>\<^verbatim>\<open>str(Path(p))\<close>, and \<^verbatim>\<open>str(Path(p).absolute())\<close> of an absolute path.\<close>

definition path_str :: "string \<Rightarrow> string" where
  "path_str p = (if path_root p = [] \<and> path_parts p = [] then ''.''
                 else path_root p @ join ''/'' (path_parts p))"

definition path_join :: "string \<Rightarrow> string \<Rightarrow> string" where
  "path_join a b = (if is_absolute b then path_str b else path_str (a @ ''/'' @ b))"

text \<open>\<^verbatim>\<open>p.is_relative_to(root)\<close>, lexically on the components.\<close>

definition is_relative_to :: "string \<Rightarrow> string \<Rightarrow> bool" where
  "is_relative_to p base =
     (path_root p = path_root base
      \<and> take (length (path_parts base)) (path_parts p) = path_parts base)"

lemma join_split [simp]: "join [c] (split_on c s) = s"
proof (induction s)
  case (Cons x s)
  obtain w ws where s: "split_on c s = w # ws" by (cases "split_on c s") auto
  with Cons show ?case by (cases ws) auto
qed simp

lemma split_on_no_sep_set: "w \<in> set (split_on c s) \<Longrightarrow> c \<notin> set w"
proof (induction s arbitrary: w)
  case (Cons x s)
  obtain v vs where "split_on c s = v # vs" by (cases "split_on c s") auto
  with Cons show ?case by (auto split: if_splits)
qed simp

lemma path_parts_join:
  assumes "\<forall>w\<in>set ws. w \<noteq> [] \<and> w \<noteq> ''.'' \<and> CHR ''/'' \<notin> set w"
  shows "path_parts (join ''/'' ws) = ws"
proof (cases "ws = []")
  case True
  then show ?thesis by (simp add: path_parts_def)
next
  case False
  then have "split_on CHR ''/'' (join ''/'' ws) = ws" using assms by (intro split_join) auto
  then show ?thesis using assms by (simp add: path_parts_def)
qed

lemma path_parts_slash [simp]: "path_parts (CHR ''/'' # p) = path_parts p"
  by (simp add: path_parts_def)

lemma path_parts_props: "w \<in> set (path_parts p) \<Longrightarrow> w \<noteq> [] \<and> w \<noteq> ''.'' \<and> CHR ''/'' \<notin> set w"
  using split_on_no_sep_set by (fastforce simp: path_parts_def)

lemma path_parts_idem: "path_parts (join ''/'' (path_parts p)) = path_parts p"
  using path_parts_props by (intro path_parts_join) blast

lemma join_head:
  assumes "\<forall>w\<in>set ws. w \<noteq> [] \<and> CHR ''/'' \<notin> set w" and "ws \<noteq> []"
  shows "\<exists>c s. join ''/'' ws = c # s \<and> c \<noteq> CHR ''/''"
proof -
  obtain w vs where ws: "ws = w # vs" using assms(2) by (cases ws) auto
  with assms(1) obtain c s where "w = c # s" "c \<noteq> CHR ''/''" by (cases w) auto
  with ws show ?thesis by (cases vs) auto
qed

lemma path_root_cases: "path_root p \<in> {[], ''/'', ''//''}"
  by (simp add: path_root_def)

text \<open>Normalising a path twice changes nothing.\<close>

lemma path_str_idem [simp]: "path_str (path_str p) = path_str p"
proof -
  let ?ps = "path_parts p"
  have root: "path_root (path_root p @ join ''/'' ?ps) = path_root p"
    if "path_root p \<noteq> [] \<or> ?ps \<noteq> []"
  proof (cases "?ps = []")
    case True
    with that path_root_cases [of p] show ?thesis
      by (auto simp: path_root_def [of "''/''"] path_root_def [of "''//''"] starts_with_def)
  next
    case False
    then obtain c s where "join ''/'' ?ps = c # s" "c \<noteq> CHR ''/''"
      using join_head [of ?ps] path_parts_props by blast
    with path_root_cases [of p] show ?thesis
      by (auto simp: path_root_def [of "_ # _"] starts_with_def)
  qed
  have parts: "path_parts (path_root p @ join ''/'' ?ps) = ?ps"
    using path_root_cases [of p] path_parts_idem [of p] by auto
  show ?thesis
  proof (cases "path_root p = [] \<and> ?ps = []")
    case True
    then show ?thesis by (simp add: path_str_def) (simp add: path_root_def path_parts_def starts_with_def)
  next
    case False
    then show ?thesis by (auto simp: path_str_def root parts)
  qed
qed

lemma path_str_absolute: "is_absolute p \<Longrightarrow> is_absolute (path_str p)"
  by (auto simp: is_absolute_def path_str_def path_root_def starts_with_def)

section \<open>JSON text\<close>

text \<open>
  \<^verbatim>\<open>json.dumps(v, sort_keys=True, separators=(",", ":"))\<close> of a value without duplicate keys. Strings
  are escaped to printable ASCII; the digits of a float are the machine's.
\<close>

definition hex_digit :: "nat \<Rightarrow> char" where
  "hex_digit n = (if n < 10 then char_of (48 + n) else char_of (87 + n))"

definition json_char :: "char \<Rightarrow> string" where
  "json_char c =
     (if c = CHR 0x22 then [CHR 0x5C, CHR 0x22] else if c = CHR 0x5C then [CHR 0x5C, CHR 0x5C]
      else if c = CHR 0x0A then [CHR 0x5C, CHR ''n''] else if c = CHR 0x0D then [CHR 0x5C, CHR ''r'']
      else if c = CHR 0x09 then [CHR 0x5C, CHR ''t''] else if c = CHR 0x0C then [CHR 0x5C, CHR ''f'']
      else if c = CHR 0x08 then [CHR 0x5C, CHR ''b'']
      else if in_range CHR '' '' CHR 0x7E c then [c]
      else [CHR 0x5C, CHR ''u'', CHR ''0'', CHR ''0'', hex_digit (of_char c div 16), hex_digit (of_char c mod 16)])"

definition json_string :: "string \<Rightarrow> string" where
  "json_string s = CHR 0x22 # concat (map json_char s) @ [CHR 0x22]"

fun json_plain :: "host \<Rightarrow> py \<Rightarrow> string"
and json_elems :: "host \<Rightarrow> py list \<Rightarrow> string list"
and json_entries :: "host \<Rightarrow> pydict \<Rightarrow> string list" where
  "json_plain h PNone = ''null''"
| "json_plain h (PBool b) = (if b then ''true'' else ''false'')"
| "json_plain h (PInt n) = int_str n"
| "json_plain h (PFloat f) = float_text h f"
| "json_plain h (PStr s) = json_string s"
| "json_plain h (PList vs) = ''['' @ join '','' (json_elems h vs) @ '']''"
| "json_plain h (PDict d) = ''{'' @ join '','' (json_entries h d) @ ''}''"
| "json_elems h [] = []"
| "json_elems h (v # vs) = json_plain h v # json_elems h vs"
| "json_entries h [] = []"
| "json_entries h ((k, v) # d) = (json_string k @ '':'' @ json_plain h v) # json_entries h d"

definition json_text :: "host \<Rightarrow> py \<Rightarrow> string" where
  "json_text h v = json_plain h (canon v)"

end
