(* ===== verification/Report_Rows.thy ===== *)
theory Report_Rows
  imports Host "HOL-Library.Multiset"
begin

text \<open>
  \<^verbatim>\<open>fragma/report.py\<close>, first half: Frama-C's two reports as typed rows. The WP report is a JSON
  array of goals, each checked field by field and given an outcome; the property report is a
  tab-separated table whose rows are given an outcome by \<open>CSV_STATUSES\<close>, joined when the exporter
  repeats one selected property and marked when two rows cannot be told apart. The names a row
  can be claimed under (\<^verbatim>\<open>_property_aliases\<close>) and Eva's reached-invalid checks close the theory.
  Error messages keep their constant part.
\<close>

section \<open>Outcomes\<close>

datatype outcome = OValid | OInvalid | OUnknown | OTimeout | OToolError | OInconsistent
  | OInconclusive | OPending | OAssumed | OUnreachable

abbreviation report_error :: "string \<Rightarrow> exn" where
  "report_error m \<equiv> Exn ReportError m"

definition WP_VERDICTS :: "string list" where
  "WP_VERDICTS = [''valid'', ''invalid'', ''unknown'', ''timeout'', ''failed'', ''noresult'', ''error'']"

definition CSV_HEADER :: "string list" where
  "CSV_HEADER = [''directory'', ''file'', ''line'', ''function'', ''property kind'', ''status'', ''property'']"

definition CSV_STATUSES :: "(string \<times> outcome) list" where
  "CSV_STATUSES =
    [(''Valid'', OValid), (''Invalid'', OInvalid), (''Unknown'', OUnknown),
     (''Partially proven'', OPending), (''Considered valid'', OAssumed),
     (''Inconsistent'', OInconsistent), (''Never tried'', OUnknown),
     (''Valid_under_hyp'', OPending), (''Invalid_under_hyp'', OPending),
     (''Valid_but_dead'', OUnreachable), (''Invalid_but_dead'', OUnreachable),
     (''Unknown_but_dead'', OUnreachable), (''Considered_valid'', OAssumed),
     (''Valid (under hypotheses)'', OPending), (''Invalid (under hypotheses)'', OPending),
     (''Valid (dead)'', OUnreachable), (''Invalid (dead)'', OUnreachable),
     (''Unknown (dead)'', OUnreachable), (''Unreachable'', OUnreachable), (''Dead'', OUnreachable),
     (''Invalid or unreachable'', OUnreachable)]"

text \<open>
  \<^verbatim>\<open>_read\<close>: a report must exist and hold more than white space. \<^verbatim>\<open>Path.read_text\<close> turns every
  carriage return, with a line feed after it or not, into one line feed.
\<close>

definition read_report :: "host \<Rightarrow> string \<Rightarrow> string res" where
  "read_report h path = (case contents h path of
     None \<Rightarrow> Inl (report_error ''Cannot read report'')
   | Some t \<Rightarrow> if \<not> not_blank t then Inl (report_error ''Empty report'') else Inr (universal_newlines t))"

section \<open>WP goals\<close>

record wp_goal =
  g_goal :: string
  g_property :: string
  g_function :: string
  g_file :: string
  g_verdict :: string
  g_line :: int
  g_smoke :: bool
  g_passed :: bool
  g_outcome :: outcome
  g_path :: string
  g_seconds :: rat \<comment> \<open>exact sum; the rounding of float addition is not represented\<close>

text \<open>One prover record: its elapsed time and its success count.\<close>

definition prover_time :: "py \<Rightarrow> rat option" where
  "prover_time v = (case v of PInt n \<Rightarrow> if n < 0 then None else Some (of_int n)
     | PFloat (Fin r) \<Rightarrow> if r < 0 then None else Some r
     | _ \<Rightarrow> None)"

definition prover_record :: "py \<Rightarrow> (rat \<times> int) res" where
  "prover_record v = (case v of
     PDict d \<Rightarrow>
       if \<not> is_str (dget d ''prover'') then Inl (report_error ''Malformed WP prover record'')
       else (case prover_time (dget d ''time'') of
          None \<Rightarrow> Inl (report_error ''Invalid WP prover elapsed time'')
        | Some t \<Rightarrow> (case dget d ''success'' of
             PInt n \<Rightarrow> if n < 0 then Inl (report_error ''Invalid WP prover success count'') else Inr (t, n)
           | _ \<Rightarrow> Inl (report_error ''Invalid WP prover success count'')))
   | _ \<Rightarrow> Inl (report_error ''Malformed WP prover record''))"

definition text_field :: "pydict \<Rightarrow> string \<Rightarrow> string res" where
  "text_field d f = (case dget d f of
     PStr s \<Rightarrow> if not_blank s then Inr s else Inl (report_error (''WP goal has no '' @ f))
   | _ \<Rightarrow> Inl (report_error (''WP goal has no '' @ f)))"

text \<open>
  A smoke goal tries to prove an inconsistency, so proving it is the failure; an ordinary goal's
  \<open>passed\<close> field must agree with its verdict, and a valid one needs a successful prover.
\<close>

definition smoke_outcome :: "string \<Rightarrow> bool \<Rightarrow> outcome" where
  "smoke_outcome verdict passed =
     (if verdict \<in> {''failed'', ''error''} then OToolError
      else if verdict = ''valid'' \<or> \<not> passed then OInconsistent
      else OInconclusive)"

definition verdict_outcome :: "string \<Rightarrow> outcome" where
  "verdict_outcome v =
     (if v = ''failed'' \<or> v = ''error'' then OToolError
      else if v = ''noresult'' \<or> v = ''unknown'' then OUnknown
      else if v = ''valid'' then OValid
      else if v = ''invalid'' then OInvalid
      else OTimeout)"

definition goal_outcome :: "string \<Rightarrow> bool \<Rightarrow> bool \<Rightarrow> (rat \<times> int) list \<Rightarrow> outcome res" where
  "goal_outcome verdict smoke passed provers =
     (if smoke then Inr (smoke_outcome verdict passed)
      else if passed \<noteq> (verdict = ''valid'')
      then Inl (report_error ''Contradictory WP verdict/passed fields'')
      else if verdict = ''valid'' \<and> \<not> (\<exists>(t, n)\<in>set provers. 0 < n)
      then Inl (report_error ''Valid WP goal has no successful prover result'')
      else Inr (verdict_outcome verdict))"

definition wp_row :: "host \<Rightarrow> string list \<Rightarrow> py \<Rightarrow> wp_goal res" where
  "wp_row h seen original = (case original of
     PDict d \<Rightarrow>
       bind_res (text_field d ''goal'') (\<lambda>goal.
       bind_res (text_field d ''property'') (\<lambda>prop.
       bind_res (text_field d ''function'') (\<lambda>func.
       bind_res (text_field d ''file'') (\<lambda>file.
       bind_res (text_field d ''verdict'') (\<lambda>verdict.
       if goal \<in> set seen then Inl (report_error ''Duplicate WP goal'')
       else (case dget d ''line'' of
         PInt line \<Rightarrow>
           if line < 1 then Inl (report_error ''WP goal has no valid source line'')
           else (case (dget d ''smoke'', dget d ''passed'') of
             (PBool smoke, PBool passed) \<Rightarrow>
               if verdict \<notin> set WP_VERDICTS then Inl (report_error ''Unknown WP verdict'')
               else (case dget d ''provers'' of
                 PList (p # ps) \<Rightarrow>
                   bind_res (mapM prover_record (p # ps)) (\<lambda>provers.
                   bind_res (goal_outcome verdict smoke passed provers) (\<lambda>outcome.
                   Inr \<lparr>g_goal = goal, g_property = prop, g_function = func, g_file = file,
                        g_verdict = verdict, g_line = line, g_smoke = smoke, g_passed = passed,
                        g_outcome = outcome, g_path = resolve h file,
                        g_seconds = sum_list (map fst provers)\<rparr>))
               | _ \<Rightarrow> Inl (report_error ''WP goal has no prover result''))
           | _ \<Rightarrow> Inl (report_error ''WP goal has no Boolean smoke/passed fields''))
       | _ \<Rightarrow> Inl (report_error ''WP goal has no valid source line'')))))))
   | _ \<Rightarrow> Inl (report_error ''WP goal is not an object''))"

definition wp_step :: "host \<Rightarrow> wp_goal list \<Rightarrow> py \<Rightarrow> wp_goal list res" where
  "wp_step h rows original =
     bind_res (wp_row h (map g_goal rows) original) (\<lambda>row. Inr (rows @ [row]))"

definition wp_rows :: "host \<Rightarrow> py \<Rightarrow> wp_goal list res" where
  "wp_rows h data = (case data of
     PList (x # xs) \<Rightarrow> foldM (wp_step h) [] (x # xs)
   | _ \<Rightarrow> Inl (report_error ''WP report must contain a nonempty goal array''))"

section \<open>The property table\<close>

record prow =
  p_path :: string
  p_file :: string
  p_directory :: string
  p_line :: int
  p_function :: string
  p_kind :: string
  p_status :: string
  p_outcome :: outcome
  p_property :: string
  p_names :: "string list"
  p_report_row :: nat
  p_occurrences :: "nat list" \<comment> \<open>\<open>exported_occurrences\<close>; empty when the key is absent\<close>
  p_ambiguous :: bool \<comment> \<open>\<open>exported_identity_ambiguous\<close>\<close>

type_synonym row_identity = "string \<times> int \<times> string \<times> string \<times> string"

definition row_identity :: "prow \<Rightarrow> row_identity" where
  "row_identity r = (p_path r, p_line r, p_function r, p_kind r, p_property r)"

text \<open>
  \<^verbatim>\<open>csv.reader(StringIO(text), delimiter="\t", quoting=QUOTE_NONE, strict=True)\<close> on a text read by
  \<open>read_report\<close>, which holds no carriage return: one record per line, an empty line being a record
  with no field; a field beyond the reader's default limit is a \<^verbatim>\<open>csv.Error\<close>.
\<close>

definition tsv_line :: "string \<Rightarrow> string list res" where
  "tsv_line l = (let fields = (if l = [] then [] else split_on CHR 0x09 l) in
     if \<exists>f\<in>set fields. 131072 < int (length f) then Inl (report_error ''Malformed property TSV'')
     else Inr fields)"

definition tsv_rows :: "string \<Rightarrow> string list list res" where
  "tsv_rows text =
     (let ls = split_on CHR 0x0A text;
          ls = (if last ls = [] then butlast ls else ls)
      in mapM tsv_line ls)"

text \<open>Named assertion locations: \<open>(path, line)\<close>, or \<open>(path, line, function)\<close>.\<close>

type_synonym location = "string \<times> int \<times> string option"

definition lookup_name :: "(location \<times> string) list \<Rightarrow> string \<Rightarrow> int \<Rightarrow> string \<Rightarrow> string option" where
  "lookup_name names path line func =
     (case map_of names (path, line, Some func) of
        Some n \<Rightarrow> Some n
      | None \<Rightarrow> map_of names (path, line, None))"

text \<open>\<^verbatim>\<open>re.match(r"^([A-Za-z_]\w*):\s", prop)\<close>\<close>

definition leading_label :: "string \<Rightarrow> string option" where
  "leading_label prop =
     (let l = before CHR '':'' prop; rest = after CHR '':'' prop in
      if CHR '':'' \<in> set prop \<and> l \<noteq> [] \<and> is_ident_start (hd l) \<and> list_all is_word l \<and> (case rest of [] \<Rightarrow> False | c # _ \<Rightarrow> is_space c)
      then Some l else None)"

definition assertion_suffix :: "string \<Rightarrow> string option" where
  "assertion_suffix kind =
     map_of [(''postcondition'', ''ensures''), (''user assertion'', ''assert''),
             (''user check'', ''check''), (''loop invariant'', ''loop_invariant'')] kind"

definition row_names :: "(location \<times> string) list \<Rightarrow> string \<Rightarrow> int \<Rightarrow> string \<Rightarrow> string \<Rightarrow> string \<Rightarrow> string list" where
  "row_names names path line func kind prop =
     (case lookup_name names path line func of
        Some m \<Rightarrow>
          if m \<noteq> [] \<and> kind \<in> {''user assertion'', ''user check''}
          then [m, func @ ''_'' @ (if kind = ''user assertion'' then ''assert'' else ''check'') @ ''_'' @ m]
          else []
      | None \<Rightarrow> [])
     @ (case leading_label prop of
          None \<Rightarrow> []
        | Some l \<Rightarrow> l # (case assertion_suffix kind of None \<Rightarrow> []
                        | Some sfx \<Rightarrow> [func @ ''_'' @ sfx @ ''_'' @ l]))"

text \<open>The row of one table line, or the exception of a malformed one.\<close>

definition table_row :: "host \<Rightarrow> string \<Rightarrow> (location \<times> string) list \<Rightarrow> nat \<Rightarrow> string list \<Rightarrow> prow res" where
  "table_row h base names number values = (case values of
     [directory, file, line, func, kind, status, prop] \<Rightarrow>
       if func = [] \<or> prop = [] \<or> kind = [] \<or> file = []
       then Inl (report_error ''Property TSV row lacks identity'')
       else (case py_int line of
          None \<Rightarrow> Inl (report_error ''Invalid property TSV line'')
        | Some n \<Rightarrow> (case map_of CSV_STATUSES status of
             None \<Rightarrow> Inl (report_error ''Unknown property status/source line'')
           | Some outcome \<Rightarrow>
               if n < 1 then Inl (report_error ''Unknown property status/source line'')
               else let full = path_join directory file;
                        path = resolve h (if is_absolute full then full else path_join base full)
                    in Inr \<lparr>p_path = path, p_file = file, p_directory = directory, p_line = n,
                            p_function = func, p_kind = kind, p_status = status, p_outcome = outcome,
                            p_property = prop, p_names = row_names names path n func kind prop,
                            p_report_row = number, p_occurrences = [], p_ambiguous = False\<rparr>))
   | _ \<Rightarrow> Inl (report_error ''Malformed property TSV row''))"

text \<open>
  Rows already read are mutated through shared references; here the list of rows is the state
  and the rows of one identity are those of the list.
\<close>

definition mark_ambiguous :: "row_identity \<Rightarrow> prow list \<Rightarrow> prow list" where
  "mark_ambiguous i rows = map (\<lambda>r. if row_identity r = i then r\<lparr>p_ambiguous := True\<rparr> else r) rows"

fun add_occurrence :: "row_identity \<Rightarrow> nat \<Rightarrow> prow list \<Rightarrow> prow list" where
  "add_occurrence i n [] = []"
| "add_occurrence i n (r # rows) =
     (if row_identity r = i
      then r\<lparr>p_occurrences := (if p_occurrences r = [] then [p_report_row r] else p_occurrences r) @ [n]\<rparr> # rows
      else r # add_occurrence i n rows)"

definition insert_row :: "string list option \<Rightarrow> prow list \<Rightarrow> prow \<Rightarrow> prow list res" where
  "insert_row selected rows r =
     (let previous = filter (\<lambda>q. row_identity q = row_identity r) rows in
      if previous = [] then Inr (rows @ [r])
      else (case selected of
         None \<Rightarrow> Inl (report_error ''Duplicate property TSV row'')
       | Some fs \<Rightarrow>
           if p_function r \<in> set fs \<and> (\<forall>q\<in>set previous. p_status q = p_status r)
           then Inr (add_occurrence (row_identity r) (p_report_row r) rows)
           else if p_function r \<notin> set fs \<and> (\<exists>q\<in>set previous. p_status q \<noteq> p_status r)
           then Inl (report_error ''Duplicate property TSV row'')
           else Inr (mark_ambiguous (row_identity r) rows @ [r\<lparr>p_ambiguous := True\<rparr>])))"

definition insert_table_row ::
  "host \<Rightarrow> string \<Rightarrow> (location \<times> string) list \<Rightarrow> string list option \<Rightarrow> prow list
   \<Rightarrow> nat \<times> string list \<Rightarrow> prow list res" where
  "insert_table_row h base names selected rows line =
     bind_res (table_row h base names (fst line) (snd line)) (insert_row selected rows)"

text \<open>
  \<^verbatim>\<open>parse_properties\<close> on the text of the report; \<open>names\<close> is the merged map of the named
  assertions (\<^verbatim>\<open>named_assertions\<close> and \<^verbatim>\<open>names_by_location\<close>).
\<close>

definition parse_properties ::
  "host \<Rightarrow> string \<Rightarrow> (location \<times> string) list \<Rightarrow> string list option \<Rightarrow> string \<Rightarrow> prow list res" where
  "parse_properties h base names selected text =
     (if (case selected of None \<Rightarrow> False | Some fs \<Rightarrow> fs = [] \<or> [] \<in> set fs)
      then Inl (report_error ''Selected property scope must contain nonempty function names'')
      else bind_res (tsv_rows text) (\<lambda>rows. case rows of
        [] \<Rightarrow> Inl (report_error ''Unexpected Frama-C property TSV header'')
      | header # body \<Rightarrow>
          if header \<noteq> CSV_HEADER then Inl (report_error ''Unexpected Frama-C property TSV header'')
          else if body = [] then Inl (report_error ''Property report contains only a header, no properties'')
          else foldM (insert_table_row h base names selected) [] (enumerate 2 body)))"

section \<open>Aliases and reached-invalid checks\<close>

definition alias_compatible :: "string \<Rightarrow> string \<Rightarrow> bool" where
  "alias_compatible kind prop \<longleftrightarrow>
     (kind = ''postcondition'' \<and> (contains ''_ensures'' prop \<or> contains ''_exits'' prop)) \<or>
     (kind = ''termination clause'' \<and> (contains ''_terminates'' prop \<or> contains ''_termination'' prop)) \<or>
     (kind = ''assigns clause'' \<and> contains ''_assigns'' prop) \<or>
     (kind = ''loop invariant'' \<and> contains ''_loop_invariant'' prop) \<or>
     (kind = ''loop variant'' \<and> contains ''_loop_variant'' prop) \<or>
     (starts_with ''precondition'' kind \<and> contains ''_requires'' prop) \<or>
     (kind = ''user assertion'' \<and> contains ''_assert_'' prop) \<or>
     (kind = ''user check'' \<and> contains ''_check_'' prop) \<or>
     (kind \<notin> {''postcondition'', ''termination clause'', ''assigns clause'', ''loop invariant'',
               ''user assertion'', ''user check''} \<and> contains ''_assert_rte_'' prop)"

definition property_aliases :: "prow \<Rightarrow> wp_goal list \<Rightarrow> string list" where
  "property_aliases row goals =
     p_names row @ map g_property (filter (\<lambda>g. \<not> g_smoke g \<and> g_function g = p_function row
         \<and> g_line g = p_line row \<and> g_path g = p_path row \<and> alias_compatible (p_kind row) (g_property g)) goals)"

definition reached_invalid_message :: "string \<Rightarrow> string" where
  "reached_invalid_message name =
     ''check '' @ [CHR 0x27] @ name @ [CHR 0x27] @ '' got status invalid.''"

text \<open>
  \<^verbatim>\<open>_eva_reached_invalid_checks\<close>: an expected name with one exported check row of the ambiguous
  status and one located alarm of the exact message is recovered as reached and invalid.
\<close>

definition reached_rows :: "prow list \<Rightarrow> string \<Rightarrow> prow list" where
  "reached_rows props name = filter (\<lambda>r. p_kind r = ''user check''
     \<and> p_status r = ''Invalid or unreachable'' \<and> name \<in> set (p_names r)) props"

definition reached_alarm :: "prow \<Rightarrow> string \<Rightarrow> py \<Rightarrow> bool" where
  "reached_alarm row name w = (case w of
     PDict d \<Rightarrow> dget d ''plugin'' = PStr ''eva:alarm'' \<and> dget d ''severity'' = PStr ''warning''
       \<and> dget d ''path'' = PStr (p_path row) \<and> py_eq (dget d ''line'') (PInt (p_line row))
       \<and> dget d ''message'' = PStr (reached_invalid_message name)
   | _ \<Rightarrow> False)"

definition reached_invalid_check :: "prow list \<Rightarrow> py list \<Rightarrow> string \<Rightarrow> (prow \<times> py) option" where
  "reached_invalid_check props warnings name = (case reached_rows props name of
     [row] \<Rightarrow> (case filter (reached_alarm row name) warnings of [w] \<Rightarrow> Some (row, w) | _ \<Rightarrow> None)
   | _ \<Rightarrow> None)"

definition eva_reached_invalid_checks ::
  "prow list \<Rightarrow> py list \<Rightarrow> string list \<Rightarrow> (string \<times> prow \<times> py) list" where
  "eva_reached_invalid_checks props warnings names =
     List.map_filter (\<lambda>n. map_option (Pair n) (reached_invalid_check props warnings n)) names"

section \<open>No table line is lost or merged silently\<close>

text \<open>The table lines a row stands for.\<close>

definition row_numbers :: "prow \<Rightarrow> nat list" where
  "row_numbers r = (if p_occurrences r = [] then [p_report_row r] else p_occurrences r)"

definition same_identity :: "prow list \<Rightarrow> row_identity \<Rightarrow> prow list" where
  "same_identity rows i = filter (\<lambda>q. row_identity q = i) rows"

definition ambiguity_marked :: "prow list \<Rightarrow> bool" where
  "ambiguity_marked rows \<longleftrightarrow>
     (\<forall>r\<in>set rows. 1 < length (same_identity rows (row_identity r)) \<longrightarrow> p_ambiguous r)"

text \<open>A row tells the truth about the lines \<open>ys\<close> it stands for.\<close>

definition row_reports ::
  "(nat \<Rightarrow> string list \<Rightarrow> prow res) \<Rightarrow> (nat \<times> string list) list \<Rightarrow> prow \<Rightarrow> bool" where
  "row_reports row ys r \<longleftrightarrow>
     (\<forall>n\<in>set (row_numbers r). \<exists>v q. (n, v) \<in> set ys \<and> row n v = Inr q
        \<and> row_identity q = row_identity r \<and> p_status q = p_status r)"

definition table_inv ::
  "(nat \<Rightarrow> string list \<Rightarrow> prow res) \<Rightarrow> (nat \<times> string list) list \<Rightarrow> prow list \<Rightarrow> bool" where
  "table_inv row ys rows \<longleftrightarrow>
     mset (concat (map row_numbers rows)) = mset (map fst ys)
     \<and> (\<forall>r\<in>set rows. row_reports row ys r) \<and> ambiguity_marked rows"

lemma table_row_number:
  assumes "table_row h base names n v = Inr r"
  shows "p_report_row r = n \<and> p_occurrences r = [] \<and> \<not> p_ambiguous r"
proof -
  have "length v = 7"
    using assms by (auto simp: table_row_def split: list.splits)
  then obtain d f l fn k st p where "v = [d, f, l, fn, k, st, p]"
    by (auto simp: numeral_eq_Suc length_Suc_conv)
  with assms show ?thesis
    by (auto simp: table_row_def Let_def split: if_splits option.splits)
qed

lemma row_numbers_fresh: "table_row h base names n v = Inr r \<Longrightarrow> row_numbers r = [n]"
  by (simp add: row_numbers_def table_row_number)

lemma identity_ambiguous [simp]:
  "row_identity (r\<lparr>p_ambiguous := b\<rparr>) = row_identity r" "row_numbers (r\<lparr>p_ambiguous := b\<rparr>) = row_numbers r"
  by (simp_all add: row_identity_def row_numbers_def)

lemma row_reports_snoc: "row_reports row ys r \<Longrightarrow> row_reports row (ys @ [x]) r"
  unfolding row_reports_def set_append by blast

lemma row_reports_ambiguous [simp]: "row_reports row ys (r\<lparr>p_ambiguous := b\<rparr>) = row_reports row ys r"
  by (simp add: row_reports_def)

lemma row_reports_fresh:
  assumes "row n v = Inr r" and "row_numbers r = [n]"
  shows "row_reports row (ys @ [(n, v)]) r"
  unfolding row_reports_def assms(2) using assms(1) by simp blast

lemma mark_ambiguous_numbers: "map row_numbers (mark_ambiguous i rows) = map row_numbers rows"
  by (auto simp: mark_ambiguous_def)

lemma mark_ambiguous_same: "length (same_identity (mark_ambiguous i rows) j) = length (same_identity rows j)"
proof -
  have "row_identity (if row_identity r = i then r\<lparr>p_ambiguous := True\<rparr> else r) = row_identity r" for r
    by simp
  then show ?thesis by (simp add: same_identity_def mark_ambiguous_def filter_map comp_def)
qed

lemma mark_ambiguous_marked:
  assumes "r \<in> set (mark_ambiguous i rows)" and "row_identity r = i"
  shows "p_ambiguous r"
proof -
  obtain q where q: "r = (if row_identity q = i then q\<lparr>p_ambiguous := True\<rparr> else q)"
    using assms(1) unfolding mark_ambiguous_def set_map by blast
  show ?thesis using assms(2) by (cases "row_identity q = i") (simp_all add: q)
qed

text \<open>Adding an occurrence changes the numbers of one row and nothing else.\<close>

lemma add_occurrence_split:
  assumes "same_identity rows i \<noteq> []"
  shows "\<exists>a r b. rows = a @ r # b \<and> row_identity r = i \<and> r \<in> set (same_identity rows i)
           \<and> add_occurrence i n rows = a @ r\<lparr>p_occurrences := row_numbers r @ [n]\<rparr> # b"
  using assms
proof (induction rows)
  case (Cons r rows)
  show ?case
  proof (cases "row_identity r = i")
    case True
    then show ?thesis
      by (intro exI [of _ "[]"] exI [of _ r] exI [of _ rows]) (simp add: same_identity_def row_numbers_def)
  next
    case False
    with Cons obtain a r' b where "rows = a @ r' # b" "row_identity r' = i" "r' \<in> set (same_identity rows i)"
      "add_occurrence i n rows = a @ r'\<lparr>p_occurrences := row_numbers r' @ [n]\<rparr> # b"
      by (auto simp: same_identity_def)
    with False show ?thesis
      by (intro exI [of _ "r # a"] exI [of _ r'] exI [of _ b]) (simp add: same_identity_def)
  qed
qed (simp add: same_identity_def)

lemma row_identity_occurrences [simp]: "row_identity (r\<lparr>p_occurrences := ns\<rparr>) = row_identity r"
  by (simp add: row_identity_def)

lemma row_numbers_occurrences [simp]: "row_numbers (r\<lparr>p_occurrences := ns @ [n]\<rparr>) = ns @ [n]"
  by (simp add: row_numbers_def)

lemma table_inv_append:
  assumes "table_inv row ys rows" and "row n v = Inr r" and "row_numbers r = [n]"
    and "same_identity rows (row_identity r) = []"
  shows "table_inv row (ys @ [(n, v)]) (rows @ [r])"
proof -
  have other: "row_identity q \<noteq> row_identity r" if "q \<in> set rows" for q
    using that assms(4) by (auto simp: same_identity_def filter_empty_conv)
  have "same_identity (rows @ [r]) (row_identity q) = same_identity rows (row_identity q)"
    if "q \<in> set rows" for q
    using other [OF that] by (simp add: same_identity_def)
  moreover have "same_identity (rows @ [r]) (row_identity r) = [r]"
    using assms(4) by (simp add: same_identity_def)
  ultimately have "ambiguity_marked (rows @ [r])"
    using assms(1) by (simp add: table_inv_def ambiguity_marked_def)
  moreover have "\<forall>q\<in>set rows. row_reports row (ys @ [(n, v)]) q"
    using assms(1) by (simp add: table_inv_def row_reports_snoc)
  ultimately show ?thesis
    using assms(1) by (simp add: table_inv_def assms(3) row_reports_fresh [of row, OF assms(2,3)])
qed

lemma table_inv_ambiguous:
  assumes "table_inv row ys rows" and "row n v = Inr r" and "row_numbers r = [n]"
  shows "table_inv row (ys @ [(n, v)]) (mark_ambiguous (row_identity r) rows @ [r\<lparr>p_ambiguous := True\<rparr>])"
proof -
  let ?i = "row_identity r" and ?m = "mark_ambiguous (row_identity r) rows"
  have nums: "mset (concat (map row_numbers (?m @ [r\<lparr>p_ambiguous := True\<rparr>]))) = mset (map fst (ys @ [(n, v)]))"
    using assms(1,3) by (simp add: table_inv_def mark_ambiguous_numbers)
  have rep: "row_reports row (ys @ [(n, v)]) q" if "q \<in> set ?m" for q
    using that assms(1) by (auto simp: mark_ambiguous_def table_inv_def intro: row_reports_snoc)
  have "row_reports row (ys @ [(n, v)]) r" by (rule row_reports_fresh) (use assms in auto)
  moreover have "p_ambiguous q" if q: "q \<in> set ?m"
    and l: "1 < length (same_identity (?m @ [r\<lparr>p_ambiguous := True\<rparr>]) (row_identity q))" for q
  proof (cases "row_identity q = ?i")
    case True
    then show ?thesis using q mark_ambiguous_marked by blast
  next
    case False
    then have "1 < length (same_identity rows (row_identity q))"
      using l by (simp add: same_identity_def) (simp add: mark_ambiguous_same [unfolded same_identity_def])
    moreover from q False have "q \<in> set rows" by (auto simp: mark_ambiguous_def split: if_splits)
    ultimately show ?thesis using assms(1) by (auto simp: table_inv_def ambiguity_marked_def)
  qed
  ultimately show ?thesis using nums rep by (auto simp: table_inv_def ambiguity_marked_def)
qed

lemma table_inv_occurrence:
  assumes "table_inv row ys rows" and "row n v = Inr r" and "same_identity rows (row_identity r) \<noteq> []"
    and "\<forall>q\<in>set (same_identity rows (row_identity r)). p_status q = p_status r"
  shows "table_inv row (ys @ [(n, v)]) (add_occurrence (row_identity r) n rows)"
proof -
  obtain a q b where split: "rows = a @ q # b" "row_identity q = row_identity r"
      "q \<in> set (same_identity rows (row_identity r))"
      "add_occurrence (row_identity r) n rows = a @ q\<lparr>p_occurrences := row_numbers q @ [n]\<rparr> # b"
    using add_occurrence_split [OF assms(3)] by blast
  let ?q = "q\<lparr>p_occurrences := row_numbers q @ [n]\<rparr>"
  have status: "p_status q = p_status r" using assms(4) split(3) by blast
  have "row_reports row ys q" using assms(1) split(1) by (simp add: table_inv_def)
  then have "row_reports row (ys @ [(n, v)]) ?q"
    using assms(2) split(2) status by (fastforce simp: row_reports_def)
  moreover have "row_reports row (ys @ [(n, v)]) p" if "p \<in> set a \<union> set b" for p
    using that assms(1) split(1) by (auto simp: table_inv_def intro: row_reports_snoc)
  moreover have "same_identity (a @ ?q # b) j = [] \<longleftrightarrow> same_identity rows j = []"
    "length (same_identity (a @ ?q # b) j) = length (same_identity rows j)" for j
    by (auto simp: same_identity_def split(1))
  then have "ambiguity_marked (a @ ?q # b)"
    using assms(1) split(1) by (simp add: table_inv_def ambiguity_marked_def)
  moreover have "mset (concat (map row_numbers (a @ ?q # b))) = mset (map fst (ys @ [(n, v)]))"
    using assms(1) split(1) by (simp add: table_inv_def)
  ultimately show ?thesis by (simp add: table_inv_def split(4))
qed

lemma table_inv_insert:
  assumes "table_inv (table_row h base names) ys rows"
    and "insert_table_row h base names selected rows (n, v) = Inr rows'"
  shows "table_inv (table_row h base names) (ys @ [(n, v)]) rows'"
proof -
  obtain r where r: "table_row h base names n v = Inr r" "insert_row selected rows r = Inr rows'"
    using assms(2) by (auto simp: insert_table_row_def res_simps)
  have num: "row_numbers r = [n]" by (rule row_numbers_fresh [OF r(1)])
  have rr: "p_report_row r = n" using r(1) by (simp add: table_row_number)
  show ?thesis
  proof (cases "same_identity rows (row_identity r) = []")
    case True
    then have "rows' = rows @ [r]" using r(2) by (simp add: insert_row_def same_identity_def)
    with True show ?thesis using table_inv_append [of "table_row h base names"] assms(1) r(1) num by simp
  next
    case False
    with r(2) obtain fs where "selected = Some fs"
      by (auto simp: insert_row_def same_identity_def Let_def split: option.splits)
    with False r(2) consider
        "rows' = add_occurrence (row_identity r) n rows"
        "\<forall>q\<in>set (same_identity rows (row_identity r)). p_status q = p_status r"
      | "rows' = mark_ambiguous (row_identity r) rows @ [r\<lparr>p_ambiguous := True\<rparr>]"
      by (auto simp: insert_row_def same_identity_def Let_def rr split: if_splits)
    then show ?thesis
      by cases (auto intro!: table_inv_occurrence table_inv_ambiguous assms(1) r(1) num False)
  qed
qed

text \<open>
  C6. When \<^verbatim>\<open>parse_properties\<close> succeeds, every line of the exported table is represented by exactly
  one row: the numbers the rows carry are those of all lines, each once; each number's line has
  the identity and the status of its row; and rows that share an identity are all marked
  ambiguous, so that no consumer can take one of them for the whole property.
\<close>

theorem table_conserved:
  assumes "parse_properties h base names selected text = Inr rows"
  shows "\<exists>body. tsv_rows text = Inr (CSV_HEADER # body)
    \<and> mset (concat (map row_numbers rows)) = mset [2..<2 + length body]
    \<and> (\<forall>r\<in>set rows. \<forall>n\<in>set (row_numbers r). \<exists>q. table_row h base names n (body ! (n - 2)) = Inr q
          \<and> row_identity q = row_identity r \<and> p_status q = p_status r)
    \<and> ambiguity_marked rows"
proof -
  obtain body where body: "tsv_rows text = Inr (CSV_HEADER # body)"
      "foldM (insert_table_row h base names selected) [] (enumerate 2 body) = Inr rows"
    using assms by (cases "tsv_rows text"; cases "projr (tsv_rows text)")
      (auto simp: parse_properties_def split: if_splits)
  let ?lines = "enumerate 2 body"
  have "table_inv (table_row h base names) ([] @ ?lines) rows"
  proof (rule foldM_prefix_invariant [OF body(2)])
    show "table_inv (table_row h base names) [] []"
      by (simp add: table_inv_def ambiguity_marked_def)
    fix ys s x s' assume "table_inv (table_row h base names) ys s" "insert_table_row h base names selected s x = Inr s'"
    then show "table_inv (table_row h base names) (ys @ [x]) s'" by (cases x) (auto intro: table_inv_insert)
  qed
  then have inv: "table_inv (table_row h base names) ?lines rows" by simp
  have nth: "body ! (n - 2) = v" if "(n, v) \<in> set ?lines" for n v
    using that by (auto simp: in_set_enumerate_eq)
  have "\<exists>q. table_row h base names n (body ! (n - 2)) = Inr q
          \<and> row_identity q = row_identity r \<and> p_status q = p_status r"
    if "r \<in> set rows" "n \<in> set (row_numbers r)" for r n
    using inv that nth by (fastforce simp: table_inv_def row_reports_def)
  moreover have "map fst ?lines = [2..<2 + length body]" by simp
  ultimately show ?thesis using body(1) inv by (auto simp: table_inv_def)
qed

definition tab_line :: "string list \<Rightarrow> string" where
  "tab_line fs = join [CHR 0x09] fs @ [CHR 0x0A]"

definition sample_table :: string where
  "sample_table = concat (map tab_line
     [CSV_HEADER,
      [''d'', ''a.c'', ''7'', ''f'', ''precondition of g'', ''Valid'', ''x''],
      [''d'', ''a.c'', ''7'', ''f'', ''precondition of g'', ''Valid'', ''x''],
      [''d'', ''a.c'', ''8'', ''f'', ''user assertion'', ''Unknown'', ''y: z''],
      [''d'', ''a.c'', ''8'', ''f'', ''user assertion'', ''Valid'', ''y: z'']])"

definition plain_host :: host where
  "plain_host = \<lparr>contents = (\<lambda>p. None), is_symlink = (\<lambda>p. False), is_dir = (\<lambda>p. False), resolve = (\<lambda>p. p), sha256_hex = (\<lambda>s. s), float_text = (\<lambda>f. [])\<rparr>"

definition sample_rows :: "prow list" where
  "sample_rows = (case parse_properties plain_host ''/k'' [] (Some [''f'']) sample_table of Inr rs \<Rightarrow> rs | Inl e \<Rightarrow> [])"


lemma sample_rows_ok: "res_ok (parse_properties plain_host ''/k'' [] (Some [''f'']) sample_table)"
  by code_simp

lemma sample_rows_parsed: "parse_properties plain_host ''/k'' [] (Some [''f'']) sample_table = Inr sample_rows"
  using sample_rows_ok by (auto simp: sample_rows_def res_ok_iff)

lemma sample_rows_shape:
  "map row_numbers sample_rows = [[2, 3], [4], [5]]" "map p_ambiguous sample_rows = [False, True, True]"
  by code_simp+

text \<open>Two equal lines become one row; two contradictory ones stay apart, marked.\<close>

theorem table_conserved_witness:
  "\<exists>body. tsv_rows sample_table = Inr (CSV_HEADER # body)
    \<and> mset (concat (map row_numbers sample_rows)) = mset [2..<2 + length body]
    \<and> ambiguity_marked sample_rows"
  using table_conserved [OF sample_rows_parsed] by blast

section \<open>What an accepted WP goal says\<close>

text \<open>The success counts of the provers of one goal object.\<close>

definition prover_successes :: "py \<Rightarrow> int list" where
  "prover_successes v = (case v of
     PDict d \<Rightarrow> (case dget d ''provers'' of
        PList ps \<Rightarrow> List.map_filter (\<lambda>p. case p of PDict e \<Rightarrow> as_int (dget e ''success'') | _ \<Rightarrow> None) ps
      | _ \<Rightarrow> [])
   | _ \<Rightarrow> [])"

definition goal_lawful :: "py \<Rightarrow> wp_goal \<Rightarrow> bool" where
  "goal_lawful v g \<longleftrightarrow>
     g_verdict g \<in> set WP_VERDICTS \<and> 1 \<le> g_line g \<and> 0 \<le> g_seconds g
     \<and> (g_outcome g = OValid \<longleftrightarrow> \<not> g_smoke g \<and> g_verdict g = ''valid'')
     \<and> (\<not> g_smoke g \<longrightarrow> g_passed g = (g_verdict g = ''valid''))
     \<and> (g_outcome g = OValid \<longrightarrow> (\<exists>n\<in>set (prover_successes v). 0 < n))
     \<and> (\<not> g_smoke g \<longrightarrow> g_outcome g \<in> {OValid, OInvalid, OUnknown, OTimeout, OToolError})
     \<and> (g_smoke g \<longrightarrow> g_outcome g \<in> {OToolError, OInconsistent, OInconclusive})
     \<and> (g_smoke g \<and> (g_verdict g = ''valid'' \<or> \<not> g_passed g) \<longrightarrow> g_outcome g \<noteq> OInconclusive)"

lemma prover_record_Inr:
  "prover_record v = Inr (t, n) \<Longrightarrow> 0 \<le> t \<and> (\<exists>d. v = PDict d \<and> dget d ''success'' = PInt n)"
  by (auto simp: prover_record_def prover_time_def
      split: py.splits if_splits option.splits pyfloat.splits)

lemma prover_success_in:
  assumes "mapM prover_record ps = Inr rs" and "(t, n) \<in> set rs" and "v = PDict d"
    and "dget d ''provers'' = PList ps"
  shows "n \<in> set (prover_successes v)"
proof -
  obtain p where "p \<in> set ps" "prover_record p = Inr (t, n)" using mapM_set [OF assms(1,2)] by blast
  moreover from this obtain e where "p = PDict e" "dget e ''success'' = PInt n"
    using prover_record_Inr by blast
  ultimately show ?thesis
    using assms(3,4) by (force simp: prover_successes_def List.map_filter_def)
qed

lemma prover_seconds: "mapM prover_record ps = Inr rs \<Longrightarrow> 0 \<le> sum_list (map fst rs)"
  by (rule sum_list_nonneg) (use mapM_set prover_record_Inr in fastforce)

lemma wp_row_lawful:
  assumes "wp_row h seen v = Inr g"
  shows "goal_lawful v g \<and> g_goal g \<notin> set seen"
proof -
  obtain d where d: "v = PDict d" using assms by (cases v) (auto simp: wp_row_def)
  from assms obtain goal pr func fl verdict line smoke passed p ps rs out where
    w: "verdict \<in> set WP_VERDICTS" "\<not> line < 1" "goal \<notin> set seen"
      "dget d ''provers'' = PList (p # ps)" "mapM prover_record (p # ps) = Inr rs"
      "goal_outcome verdict smoke passed rs = Inr out"
    and g: "g = \<lparr>g_goal = goal, g_property = pr, g_function = func, g_file = fl,
                 g_verdict = verdict, g_line = line, g_smoke = smoke, g_passed = passed,
                 g_outcome = out, g_path = resolve h fl, g_seconds = sum_list (map fst rs)\<rparr>"
    unfolding d wp_row_def
    by (clarsimp simp: res_simps split: if_splits)
  have "\<exists>n\<in>set (prover_successes v). 0 < n" if "\<exists>(t, n)\<in>set rs. 0 < n"
    using that prover_success_in [OF w(5) _ d w(4)] by blast
  then show ?thesis
    using w prover_seconds [OF w(5)]
    by (auto simp: g goal_lawful_def goal_outcome_def smoke_outcome_def verdict_outcome_def
        WP_VERDICTS_def split: if_splits)
qed

lemma wp_rows_inv:
  assumes "foldM (wp_step h) [] vs = Inr rows"
  shows "distinct (map g_goal rows) \<and> list_all2 goal_lawful vs rows"
proof -
  have "(\<lambda>vs rows. distinct (map g_goal rows) \<and> list_all2 goal_lawful vs rows) ([] @ vs) rows"
  proof (rule foldM_prefix_invariant [OF assms])
    fix ys s x s'
    assume inv: "distinct (map g_goal s) \<and> list_all2 goal_lawful ys s" and st: "wp_step h s x = Inr s'"
    then obtain g where "wp_row h (map g_goal s) x = Inr g" "s' = s @ [g]"
      by (auto simp: wp_step_def res_simps)
    with wp_row_lawful inv
    show "distinct (map g_goal s') \<and> list_all2 goal_lawful (ys @ [x]) s'"
      by (fastforce intro: list_all2_appendI)
  qed simp
  then show ?thesis by simp
qed

text \<open>
  A WP report that \<^verbatim>\<open>_wp_rows\<close> accepts has one row per goal object, in order and under distinct
  goal names, and no row claims more than its object says: \<open>valid\<close> is the outcome exactly of the
  ordinary goals whose verdict is valid, and then some prover reports a success; a smoke goal is
  never \<open>valid\<close>, and one that was proved or did not pass is never reported as merely inconclusive.
\<close>

theorem wp_rows_lawful:
  assumes "wp_rows h (PList vs) = Inr rows"
  shows "distinct (map g_goal rows) \<and> list_all2 goal_lawful vs rows \<and> rows \<noteq> []"
proof -
  obtain v vs' where vs: "vs = v # vs'" using assms by (cases vs) (auto simp: wp_rows_def)
  with assms have "foldM (wp_step h) [] vs = Inr rows" by (simp add: wp_rows_def)
  from wp_rows_inv [OF this] vs show ?thesis by auto
qed

definition sample_goal :: "string \<Rightarrow> bool \<Rightarrow> string \<Rightarrow> bool \<Rightarrow> int \<Rightarrow> py" where
  "sample_goal name smoke verdict passed n = PDict
     [(''goal'', PStr name), (''property'', PStr (name @ ''_p'')), (''function'', PStr ''f''),
      (''file'', PStr ''a.c''), (''verdict'', PStr verdict), (''line'', PInt 7),
      (''smoke'', PBool smoke), (''passed'', PBool passed),
      (''provers'', PList [PDict [(''prover'', PStr ''Alt-Ergo''), (''time'', PFloat (Fin (1/2))), (''success'', PInt n)]])]"

lemma wp_rows_lawful_witness:
  "distinct (map g_goal (projr (wp_rows plain_host (PList [sample_goal ''g'' False ''valid'' True 1, sample_goal ''s'' True ''timeout'' True 0]))))"
proof -
  let ?v = "PList [sample_goal ''g'' False ''valid'' True 1, sample_goal ''s'' True ''timeout'' True 0]"
  have "res_ok (wp_rows plain_host ?v)" by code_simp
  then obtain rows where rows: "wp_rows plain_host ?v = Inr rows" by (auto simp: res_ok_iff)
  from wp_rows_lawful [OF rows] show ?thesis by (simp add: rows)
qed

end
