(* ===== verification/Report_Review.thy ===== *)
theory Report_Review
  imports Report_Rows
begin

text \<open>
  \<^verbatim>\<open>fragma/report.py\<close>, the two envelopes that may waive a finding: reviews of single smoke goals
  and warnings (\<^verbatim>\<open>_validated_reviews\<close>) and native observations of false calibration assertions
  (\<^verbatim>\<open>_validated_native\<close>). A waiver must name exactly one observed item and be bound by the hashes
  of the review context.
\<close>

section \<open>Review paths and hashes\<close>

definition review_path :: "host \<Rightarrow> string \<Rightarrow> py \<Rightarrow> string res" where
  "review_path h base filename = (case filename of
     PStr f \<Rightarrow>
       if \<not> not_blank f then Inl (report_error ''Review has no exact file path'')
       else (let p = resolve h (path_join base f) in
         if is_relative_to p base then Inr p
         else Inl (report_error ''Review file is outside its validated source root''))
   | _ \<Rightarrow> Inl (report_error ''Review has no exact file path''))"

definition hash_step ::
  "host \<Rightarrow> string \<Rightarrow> (string \<times> string) list \<Rightarrow> string \<times> py \<Rightarrow> (string \<times> string) list res" where
  "hash_step h base acc entry =
     bind_res (review_path h base (PStr (fst entry))) (\<lambda>p. case snd entry of
       PStr d \<Rightarrow> if p \<in> set (map fst acc) \<or> \<not> is_hex 64 d
                 then Inl (report_error ''Review has duplicate paths or malformed SHA256 hashes'')
                 else Inr (acc @ [(p, d)])
     | _ \<Rightarrow> Inl (report_error ''Review has duplicate paths or malformed SHA256 hashes''))"

definition check_paths :: "host \<Rightarrow> string \<Rightarrow> string list \<Rightarrow> unit res" where
  "check_paths h base fs = allM (\<lambda>f. bind_res (review_path h base (PStr f)) (\<lambda>p. Inr ())) fs"

definition review_metadata :: "host \<Rightarrow> string \<Rightarrow> py \<Rightarrow> (string \<times> string) list res" where
  "review_metadata h base v = (case v of
     PDict d \<Rightarrow>
       (case dget d ''file_hashes'' of
          PDict (e # es) \<Rightarrow>
            bind_res (foldM (hash_step h base) [] (e # es)) (\<lambda>normalized.
            (case as_strs (dget d ''review_evidence'') of
               Some evidence \<Rightarrow>
                 if evidence = [] \<or> \<not> list_all not_blank evidence \<or> \<not> distinct evidence
                 then Inl (report_error ''Review requires distinct nonempty review_evidence paths'')
                 else bind_res (check_paths h base evidence) (\<lambda>_. Inr normalized)
             | None \<Rightarrow> Inl (report_error ''Review requires distinct nonempty review_evidence paths'')))
        | _ \<Rightarrow> Inl (report_error ''Review requires nonempty file_hashes''))
   | _ \<Rightarrow> Inl (report_error ''Review record must be an object''))"

section \<open>Reviews\<close>

record reviews =
  rv_context :: py
  rv_smoke :: "(string \<times> pydict) list" \<comment> \<open>by goal name\<close>
  rv_warnings :: "(nat \<times> pydict) list" \<comment> \<open>by position in the warning list\<close>
  rv_unreachable :: "(prow \<times> pydict) list"

definition no_reviews :: reviews where
  "no_reviews = \<lparr>rv_context = PNone, rv_smoke = [], rv_warnings = [], rv_unreachable = []\<rparr>"

text \<open>A string field that is present and not blank, and a positive line number.\<close>

definition text_of :: "pydict \<Rightarrow> string \<Rightarrow> string option" where
  "text_of d f = (case dget d f of PStr s \<Rightarrow> if not_blank s then Some s else None | _ \<Rightarrow> None)"

definition line_of :: "pydict \<Rightarrow> int option" where
  "line_of d = (case dget d ''line'' of PInt n \<Rightarrow> if n < 1 then None else Some n | _ \<Rightarrow> None)"

definition need :: "'a option \<Rightarrow> string \<Rightarrow> 'a res" where
  "need v m = (case v of None \<Rightarrow> Inl (report_error m) | Some x \<Rightarrow> Inr x)"

text \<open>
  \<^verbatim>\<open>re.fullmatch(r"(.+)_wp_smoke_dead_<kind>_s[0-9]+", p)\<close> with its first group; the digits are the
  maximal final ones because the character before them is not a digit.
\<close>

definition dead_group :: "string \<Rightarrow> string \<Rightarrow> string option" where
  "dead_group kind p =
     (let digits = takeWhile is_digit (rev p); rest = rev (dropWhile is_digit (rev p));
          tail = ''_wp_smoke_dead_'' @ kind @ ''_s''; group = take (length rest - length tail) rest
      in if digits \<noteq> [] \<and> ends_with tail rest \<and> length tail < length rest \<and> CHR 0x0A \<notin> set group
         then Some group else None)"

definition dead_property :: "string \<Rightarrow> bool" where
  "dead_property p = (dead_group ''call'' p \<noteq> None \<or> dead_group ''code'' p \<noteq> None)"

text \<open>\<^verbatim>\<open>re.search(r"skipp\w* (?:a )?(?:w1|w2|...)", s, re.I)\<close> for lower-case words.\<close>

definition skip_here :: "string list \<Rightarrow> string \<Rightarrow> bool" where
  "skip_here ws s = (starts_with ''skipp'' s \<and>
     (let rest = dropWhile is_word (drop 5 s) in
      starts_with '' '' rest \<and>
      (\<exists>w\<in>set ws. starts_with w (tl rest) \<or>
         (starts_with ''a '' (tl rest) \<and> starts_with w (drop 2 (tl rest))))))"

fun skip_search_low :: "string list \<Rightarrow> string \<Rightarrow> bool" where
  "skip_search_low ws [] = False"
| "skip_search_low ws (c # s) = (skip_here ws (c # s) \<or> skip_search_low ws s)"

definition skip_search :: "string list \<Rightarrow> string \<Rightarrow> bool" where
  "skip_search ws s = skip_search_low ws (to_lower s)"

definition skipped_proof :: "string \<Rightarrow> bool" where
  "skipped_proof m = skip_search [''goal'', ''function'', ''property''] m"

subsection \<open>One smoke review\<close>

definition smoke_matches :: "wp_goal list \<Rightarrow> string \<Rightarrow> string \<Rightarrow> string \<Rightarrow> int \<Rightarrow> string \<Rightarrow> wp_goal list" where
  "smoke_matches goals goal prop func line path =
     filter (\<lambda>g. g_smoke g \<and> g_goal g = goal \<and> g_property g = prop \<and> g_function g = func
        \<and> g_line g = line \<and> g_path g = path) goals"

definition named_field :: "pydict \<Rightarrow> string \<Rightarrow> string option" where
  "named_field d f = (case dget d f of PStr s \<Rightarrow> if s = [] then None else Some s | _ \<Rightarrow> None)"

text \<open>The reviewed unreachable trap of a dead call: the one row it names, or an exception.\<close>

definition trap_row ::
  "host \<Rightarrow> string \<Rightarrow> prow list \<Rightarrow> string list \<Rightarrow> reviews \<Rightarrow> string \<Rightarrow> string \<Rightarrow> int \<Rightarrow> py \<Rightarrow> prow res" where
  "trap_row h base props funcs rv prop path line v = (case v of
     PDict t \<Rightarrow>
       (case (named_field t ''file'', named_field t ''function'', named_field t ''kind'',
              named_field t ''status'', named_field t ''property'', as_int (dget t ''line'')) of
          (Some tfile, Some tfunc, Some tkind, Some tstatus, Some tprop, Some tline) \<Rightarrow>
            bind_res (review_path h base (PStr tfile)) (\<lambda>tpath.
            if tpath \<noteq> path \<or> tline \<noteq> line \<or> tfunc \<in> set funcs \<or> tkind \<noteq> ''user assertion''
               \<or> tprop \<noteq> CHR 0x5C # ''false'' \<or> map_of CSV_STATUSES tstatus \<noteq> Some OUnreachable
               \<or> dead_group ''call'' prop \<noteq> Some tfunc
            then Inl (report_error ''Reviewed false property is not the exact unselected dead-call trap'')
            else (case filter (\<lambda>r. p_path r = tpath \<and> p_line r = tline \<and> p_function r = tfunc
                      \<and> p_kind r = tkind \<and> p_status r = tstatus \<and> p_property r = tprop) props of
                [r] \<Rightarrow> if r \<in> set (map fst (rv_unreachable rv))
                       then Inl (report_error ''Reviewed unreachable property is absent, ambiguous, or duplicated'')
                       else Inr r
              | _ \<Rightarrow> Inl (report_error ''Reviewed unreachable property is absent, ambiguous, or duplicated'')))
        | _ \<Rightarrow> Inl (report_error ''Malformed reviewed unreachable property identity''))
   | _ \<Rightarrow> Inl (report_error ''Malformed reviewed unreachable property identity''))"

definition smoke_review ::
  "host \<Rightarrow> string \<Rightarrow> wp_goal list \<Rightarrow> prow list \<Rightarrow> string list \<Rightarrow> (string \<times> string) list
   \<Rightarrow> reviews \<Rightarrow> pydict \<Rightarrow> reviews res" where
  "smoke_review h base goals props funcs hashes rv d =
     bind_res (need (text_of d ''goal'') ''Smoke review is missing goal'') (\<lambda>goal.
     bind_res (need (text_of d ''property'') ''Smoke review is missing property'') (\<lambda>prop.
     bind_res (need (text_of d ''function'') ''Smoke review is missing function'') (\<lambda>func.
     bind_res (need (text_of d ''file'') ''Smoke review is missing file'') (\<lambda>file.
     bind_res (need (line_of d) ''Smoke review requires an exact source line'') (\<lambda>line.
     bind_res (review_path h base (PStr file)) (\<lambda>path.
     if path \<notin> set (map fst hashes) \<or> func \<notin> set funcs
     then Inl (report_error ''Smoke review is outside its hashed selected-function scope'')
     else if \<not> dead_property prop
     then Inl (report_error ''Only individually reviewed dead-call/dead-code smoke may be scoped out'')
     else (case smoke_matches goals goal prop func line path of
        [g] \<Rightarrow>
          if g_outcome g \<noteq> OInconsistent
          then Inl (report_error ''Smoke review is stale, ambiguous, or not a proved dead path'')
          else if goal \<in> set (map fst (rv_smoke rv))
          then Inl (report_error ''Duplicate smoke review'')
          else (let rv1 = rv\<lparr>rv_smoke := rv_smoke rv @ [(goal, d)]\<rparr>; trap = dget d ''unreachable_property'' in
            if trap = PNone then Inr rv1
            else bind_res (trap_row h base props funcs rv prop path line trap) (\<lambda>r.
              Inr (rv1\<lparr>rv_unreachable := rv_unreachable rv1 @ [(r, d)]\<rparr>)))
      | _ \<Rightarrow> Inl (report_error ''Smoke review is stale, ambiguous, or not a proved dead path''))))))))"

subsection \<open>One warning review\<close>

definition hashable :: "py \<Rightarrow> bool" where
  "hashable v = (case v of PList _ \<Rightarrow> False | PDict _ \<Rightarrow> False | _ \<Rightarrow> True)"

text \<open>
  Whether one observed warning is the reviewed one. \<open>record_path\<close> is the resolved path of a located
  review. Resolving the path of an observed warning may itself raise, and so may the look-up of an
  unhashable function name in a set.
\<close>

definition warning_located ::
  "host \<Rightarrow> string \<Rightarrow> (string \<times> int) option \<Rightarrow> pydict \<Rightarrow> bool res" where
  "warning_located h base located w =
     (let wfile = (if has_key w ''path'' then dget w ''path'' else dget w ''file'') in
      if wfile \<noteq> PNone \<or> dget w ''line'' \<noteq> PNone \<or> located \<noteq> None
      then (case located of
          None \<Rightarrow> Inr False
        | Some (path, line) \<Rightarrow>
            if wfile = PNone \<or> \<not> py_eq (dget w ''line'') (PInt line) then Inr False
            else bind_res (review_path h base wfile) (\<lambda>p. Inr (p = path)))
      else Inr True)"

definition warning_function_ok :: "string list \<Rightarrow> pydict \<Rightarrow> bool res" where
  "warning_function_ok funcs w =
     (if \<not> has_key w ''function'' then Inr True
      else if \<not> hashable (dget w ''function'') then Inl (Exn TypeError ''unhashable type'')
      else Inr (dget w ''function'' \<in> set (map PStr funcs)))"

definition warning_match ::
  "host \<Rightarrow> string \<Rightarrow> string list \<Rightarrow> (string \<times> int) option \<Rightarrow> string \<Rightarrow> string \<Rightarrow> py \<Rightarrow> bool res" where
  "warning_match h base funcs located message plugin v = (case v of
     PDict w \<Rightarrow>
       if dget w ''message'' = PStr message \<and> dget w ''plugin'' = PStr plugin \<and> dget w ''severity'' = PStr ''warning''
       then bind_res (warning_located h base located w) (\<lambda>here.
            if here then warning_function_ok funcs w else Inr False)
       else Inr False
   | _ \<Rightarrow> Inr False)"

definition warning_matches ::
  "host \<Rightarrow> string \<Rightarrow> string list \<Rightarrow> (string \<times> int) option \<Rightarrow> string \<Rightarrow> string \<Rightarrow> py list \<Rightarrow> nat list res" where
  "warning_matches h base funcs located message plugin ws =
     bind_res (mapM (warning_match h base funcs located message plugin) ws) (\<lambda>bs.
       Inr (filter (\<lambda>i. bs ! i) [0..<length bs]))"

text \<open>The location a warning review declares: none, or a hashed file with a line.\<close>

definition review_location ::
  "host \<Rightarrow> string \<Rightarrow> (string \<times> string) list \<Rightarrow> pydict \<Rightarrow> (string \<times> int) option res" where
  "review_location h base hashes d =
     (if has_key d ''file'' \<noteq> has_key d ''line''
      then Inl (report_error ''Located warning review requires both file and line'')
      else if \<not> has_key d ''file'' then Inr None
      else bind_res (review_path h base (dget d ''file'')) (\<lambda>p.
        if p \<notin> set (map fst hashes)
        then Inl (report_error ''Located warning review is outside its hashed source location'')
        else (case line_of d of
            None \<Rightarrow> Inl (report_error ''Located warning review is outside its hashed source location'')
          | Some n \<Rightarrow> Inr (Some (p, n)))))"

definition warning_review ::
  "host \<Rightarrow> string \<Rightarrow> py list \<Rightarrow> string list \<Rightarrow> (string \<times> string) list \<Rightarrow> reviews \<Rightarrow> pydict \<Rightarrow> reviews res" where
  "warning_review h base warnings funcs hashes rv d =
     bind_res (need (text_of d ''message'') ''Warning review is missing exact message'') (\<lambda>message.
     bind_res (need (text_of d ''plugin'') ''Warning review is missing exact plugin'') (\<lambda>plugin.
     bind_res (need (if dget d ''severity'' = PStr ''warning'' then as_strs (dget d ''functions'') else None)
        ''Warning review must bind warning severity and the exact analyzed functions'') (\<lambda>fs.
     if [] \<in> set fs \<or> \<not> distinct fs \<or> set fs \<noteq> set funcs
     then Inl (report_error ''Warning review must bind warning severity and the exact analyzed functions'')
     else if skipped_proof message
     then Inl (report_error ''A review cannot waive skipped proof goals, functions, or properties'')
     else
       bind_res (review_location h base hashes d) (\<lambda>located.
       bind_res (warning_matches h base funcs located message plugin warnings) (\<lambda>matched.
       (case matched of
          [i] \<Rightarrow> if i \<in> set (map fst (rv_warnings rv))
                 then Inl (report_error ''Warning review is stale, ambiguous, or duplicated'')
                 else Inr (rv\<lparr>rv_warnings := rv_warnings rv @ [(i, d)]\<rparr>)
        | _ \<Rightarrow> Inl (report_error ''Warning review is stale, ambiguous, or duplicated'')))))))"

section \<open>The review envelope\<close>

text \<open>What every review record needs: hashes bound by the context, and a rationale.\<close>

definition bound_record ::
  "host \<Rightarrow> string \<Rightarrow> (string \<times> string) list \<Rightarrow> py \<Rightarrow> (pydict \<times> (string \<times> string) list) res" where
  "bound_record h base context_hashes v =
     bind_res (review_metadata h base v) (\<lambda>hashes. case v of
       PDict d \<Rightarrow>
         if text_of d ''reason'' = None then Inl (report_error ''Review has no individual rationale'')
         else if \<exists>(p, x)\<in>set hashes. map_of context_hashes p \<noteq> Some x
         then Inl (report_error ''Review file hashes are not bound by the validated context'')
         else Inr (d, hashes)
     | _ \<Rightarrow> Inl (report_error ''Review record must be an object''))"

definition smoke_step ::
  "host \<Rightarrow> string \<Rightarrow> wp_goal list \<Rightarrow> prow list \<Rightarrow> string list \<Rightarrow> (string \<times> string) list
   \<Rightarrow> reviews \<Rightarrow> py \<Rightarrow> reviews res" where
  "smoke_step h base goals props funcs context_hashes rv v =
     bind_res (bound_record h base context_hashes v) (\<lambda>(d, hashes).
       smoke_review h base goals props funcs hashes rv d)"

definition warning_step ::
  "host \<Rightarrow> string \<Rightarrow> py list \<Rightarrow> string list \<Rightarrow> (string \<times> string) list \<Rightarrow> reviews \<Rightarrow> py \<Rightarrow> reviews res" where
  "warning_step h base warnings funcs context_hashes rv v =
     bind_res (bound_record h base context_hashes v) (\<lambda>(d, hashes).
       warning_review h base warnings funcs hashes rv d)"

definition declared_records :: "pydict \<Rightarrow> pydict \<Rightarrow> string \<Rightarrow> py list res" where
  "declared_records target env category = (case dget env category of
     PList vs \<Rightarrow> if py_eq (PList vs) (dget_or target category (PList [])) then Inr vs
                 else Inl (report_error (''Validated '' @ category @ '' differ from the declared records''))
   | _ \<Rightarrow> Inl (report_error (''Validated '' @ category @ '' differ from the declared records'')))"

text \<open>
  A \<open>Missing RTE guards\<close> warning may be reviewed only together with every companion guard
  diagnostic of the same plugin; a message that is not a string has no \<open>startswith\<close>.
\<close>

definition guard_companion :: "py \<Rightarrow> py \<Rightarrow> bool res" where
  "guard_companion plugin w = (case w of
     PDict d \<Rightarrow>
       if \<not> py_eq (dget d ''plugin'') plugin then Inr False
       else (case dget_or d ''message'' (PStr []) of
          PStr m \<Rightarrow> Inr (starts_with ''Skipped RTE guards:'' m \<or> starts_with ''-wp-rte can annotate'' m)
        | _ \<Rightarrow> Inl (Exn AttributeError ''startswith''))
   | _ \<Rightarrow> Inr False)"

definition guard_check :: "py list \<Rightarrow> reviews \<Rightarrow> nat \<times> pydict \<Rightarrow> unit res" where
  "guard_check warnings rv entry =
     (if dget (snd entry) ''message'' \<noteq> PStr ''Missing RTE guards'' then Inr ()
      else bind_res (mapM (guard_companion (dget (snd entry) ''plugin'')) warnings) (\<lambda>bs.
        let companions = filter (\<lambda>i. bs ! i) [0..<length bs] in
        check (companions \<noteq> [] \<and> set companions \<subseteq> set (map fst (rv_warnings rv)))
          (report_error ''Missing RTE guards cannot be reviewed without every observed companion guard diagnostic'')))"

definition kernel_revision_of :: "pydict \<Rightarrow> string option" where
  "kernel_revision_of d = (case dget d ''kernel_revision'' of
     PStr r \<Rightarrow> if is_hex 40 r then Some r else None | _ \<Rightarrow> None)"

definition envelope_binds :: "pydict \<Rightarrow> pydict \<Rightarrow> string \<Rightarrow> string \<Rightarrow> unit res" where
  "envelope_binds target env field target_field =
     check (is_str (dget env field) \<and> dget env field = dget target target_field)
       (report_error (''Review envelope is for a different '' @ field))"

definition envelope_root :: "host \<Rightarrow> pydict \<Rightarrow> string res" where
  "envelope_root h env = (case dget env ''source_root'' of
     PStr r \<Rightarrow> if is_absolute r then Inr (resolve h r)
              else Inl (report_error ''Review requires an absolute validated source_root'')
   | _ \<Rightarrow> Inl (report_error ''Review requires an absolute validated source_root''))"

definition envelope_context :: "pydict \<Rightarrow> pydict \<Rightarrow> pydict res" where
  "envelope_context target env = (case dget env ''review_context'' of
     PDict context \<Rightarrow>
       if \<not> py_eq (PDict context) (dget target ''review_context'')
       then Inl (report_error ''Review context differs from the declared context'')
       else (case kernel_revision_of context of
          None \<Rightarrow> Inl (report_error ''Review context requires an exact kernel revision'')
        | Some r \<Rightarrow> if dget_or target ''kernel_revision'' (PStr r) \<noteq> PStr r
                    then Inl (report_error ''Review context has a different kernel revision'')
                    else Inr context)
   | _ \<Rightarrow> Inl (report_error ''Review context differs from the declared context''))"

definition review_envelope ::
  "host \<Rightarrow> pydict \<Rightarrow> pydict \<Rightarrow> wp_goal list \<Rightarrow> prow list \<Rightarrow> py list \<Rightarrow> string list \<Rightarrow> reviews res" where
  "review_envelope h target env goals props warnings funcs =
     bind_res (check (dget env ''status'' = PStr ''passed'')
       (report_error ''Review metadata has not passed the external provenance gate'')) (\<lambda>_.
     bind_res (envelope_binds target env ''target_id'' ''id'') (\<lambda>_.
     bind_res (envelope_binds target env ''profile'' ''profile'') (\<lambda>_.
     bind_res (envelope_binds target env ''analysis'' ''analysis'') (\<lambda>_.
     bind_res (envelope_root h env) (\<lambda>base.
     bind_res (envelope_context target env) (\<lambda>context.
     bind_res (review_metadata h base (PDict context)) (\<lambda>context_hashes.
     bind_res (declared_records target env ''reviewed_smoke'') (\<lambda>smoke.
     bind_res (foldM (smoke_step h base goals props funcs context_hashes)
                 (no_reviews\<lparr>rv_context := PDict context\<rparr>) smoke) (\<lambda>rv1.
     bind_res (declared_records target env ''reviewed_warnings'') (\<lambda>records.
     bind_res (foldM (warning_step h base warnings funcs context_hashes) rv1 records) (\<lambda>rv.
     bind_res (allM (guard_check warnings rv) (rv_warnings rv)) (\<lambda>_. Inr rv))))))))))))"

definition validated_reviews ::
  "host \<Rightarrow> pydict \<Rightarrow> py \<Rightarrow> wp_goal list \<Rightarrow> prow list \<Rightarrow> py list \<Rightarrow> string list \<Rightarrow> reviews res" where
  "validated_reviews h target envelope goals props warnings funcs = (case envelope of
     PNone \<Rightarrow> if truthy (dget target ''reviewed_smoke'') \<or> truthy (dget target ''reviewed_warnings'')
              then Inl (report_error ''Declared reviews require externally validated review metadata'')
              else Inr no_reviews
   | PDict env \<Rightarrow> review_envelope h target env goals props warnings funcs
   | _ \<Rightarrow> Inl (report_error ''Review metadata has not passed the external provenance gate''))"

section \<open>Native observations\<close>

record native_record =
  nv_property :: prow
  nv_observation :: pydict
  nv_receipt :: pydict

text \<open>Iterating a JSON value, and the set of its elements, which must be hashable.\<close>

definition py_iter :: "py \<Rightarrow> py list res" where
  "py_iter v = (case v of PList vs \<Rightarrow> Inr vs | PStr s \<Rightarrow> Inr (map (\<lambda>c. PStr [c]) s)
     | PDict d \<Rightarrow> Inr (map PStr (keys d)) | _ \<Rightarrow> Inl (Exn TypeError ''not iterable''))"

definition py_set :: "py \<Rightarrow> py list res" where
  "py_set v = bind_res (py_iter v) (\<lambda>vs.
     if list_all hashable vs then Inr (from_keys [] vs) else Inl (Exn TypeError ''unhashable type''))"

text \<open>One observation of the calibration's assertion \<open>name\<close>; \<open>Some\<close> record for a false one.\<close>

definition native_step ::
  "host \<Rightarrow> string \<Rightarrow> string \<Rightarrow> string \<Rightarrow> py list \<Rightarrow> pydict \<Rightarrow> prow list
   \<Rightarrow> (string \<times> native_record) list \<Rightarrow> pydict \<times> string \<Rightarrow> (string \<times> native_record) list res" where
  "native_step h base expected_path entry negative receipt props acc observation =
     (let ob = fst observation; name = snd observation; neg = PStr name \<in> set negative in
      bind_res (check (dget ob ''expected'' = PBool (\<not> neg) \<and> dget ob ''observed'' = PBool (\<not> neg)
          \<and> dget ob ''reached'' = PBool True)
        (report_error ''Native observation is not the expected reached Boolean check'')) (\<lambda>_.
      bind_res (if dget ob ''function'' \<noteq> PStr entry
                then Inl (report_error ''Native observation lacks exact reviewed assertion identity'')
                else need (line_of ob) ''Native observation lacks exact reviewed assertion identity'') (\<lambda>line.
      bind_res (review_path h base (dget ob ''file'')) (\<lambda>path.
      if path \<noteq> expected_path \<or> text_of ob ''acsl'' = None \<or> text_of ob ''native_expression'' = None
      then Inl (report_error ''Native observation lacks exact reviewed assertion identity'')
      else (case filter (\<lambda>r. p_path r = expected_path \<and> p_line r = line \<and> p_function r = entry
                  \<and> p_kind r = ''user assertion'' \<and> name \<in> set (p_names r)) props of
         [r] \<Rightarrow>
           if neg then
             (if p_status r \<notin> {''Invalid'', ''Invalid or unreachable''}
              then Inl (report_error ''Native false observation does not match an EVA invalid/ambiguous assertion'')
              else Inr (acc @ [(name, \<lparr>nv_property = r, nv_observation = ob, nv_receipt = receipt\<rparr>)]))
           else if p_outcome r \<noteq> OValid
           then Inl (report_error ''Native execution cannot replace a failed positive EVA property'')
           else Inr acc
       | _ \<Rightarrow> Inl (report_error ''Native observation is missing or ambiguous in the analyzer report''))))))"

definition native_binds :: "pydict \<Rightarrow> pydict \<Rightarrow> string \<Rightarrow> string \<Rightarrow> unit res" where
  "native_binds target env field target_field =
     check (is_str (dget target target_field) \<and> dget env field = dget target target_field)
       (report_error (''Native observation has a different '' @ field))"

definition native_root :: "host \<Rightarrow> pydict \<Rightarrow> string res" where
  "native_root h env = (case dget env ''source_root'' of
     PStr r \<Rightarrow> if kernel_revision_of env \<noteq> None \<and> is_absolute r then Inr (resolve h r)
              else Inl (report_error ''Native observation lacks exact revision/source-root identity'')
   | _ \<Rightarrow> Inl (report_error ''Native observation lacks exact revision/source-root identity''))"

definition native_receipt :: "pydict \<Rightarrow> pydict res" where
  "native_receipt env = (case dget env ''receipt'' of
     PDict r \<Rightarrow> (case dget r ''sha256'' of
        PStr d \<Rightarrow> if is_hex 64 d then Inr r else Inl (report_error ''Native observation lacks a hashed runtime receipt'')
      | _ \<Rightarrow> Inl (report_error ''Native observation lacks a hashed runtime receipt''))
   | _ \<Rightarrow> Inl (report_error ''Native observation lacks a hashed runtime receipt''))"

text \<open>The observations, one per required property and in its order.\<close>

definition native_observations :: "pydict \<Rightarrow> pydict \<Rightarrow> string list \<Rightarrow> py list \<Rightarrow> (pydict \<times> string) list res" where
  "native_observations target env required negative =
     (case dget env ''properties'' of
        PList vs \<Rightarrow> (case those_all (map as_dict vs) of
            Some obs \<Rightarrow> if negative \<noteq> [] \<and> map (\<lambda>ob. dget ob ''name'') obs = map PStr required
                       then Inr (zip obs required)
                       else Inl (report_error ''Native observations must exactly cover the ordered required properties'')
          | None \<Rightarrow> Inl (report_error ''Native observations must exactly cover the ordered required properties''))
      | _ \<Rightarrow> Inl (report_error ''Native observations must exactly cover the ordered required properties''))"

definition native_envelope ::
  "host \<Rightarrow> pydict \<Rightarrow> pydict \<Rightarrow> string list \<Rightarrow> prow list \<Rightarrow> (string \<times> native_record) list res" where
  "native_envelope h target env required props =
     bind_res (check (dget env ''status'' = PStr ''passed'' \<and> dget env ''kind'' = PStr ''native-specification-calibration''
         \<and> dget target ''role'' = PStr ''calibration'' \<and> dget target ''analysis'' = PStr ''eva'')
       (report_error ''Native observations require a passed external gate for an EVA calibration'')) (\<lambda>_.
     bind_res (native_binds target env ''target_id'' ''id'') (\<lambda>_.
     bind_res (native_binds target env ''profile'' ''profile'') (\<lambda>_.
     bind_res (native_binds target env ''source'' ''source'') (\<lambda>_.
     bind_res (native_binds target env ''entry'' ''entry'') (\<lambda>_.
     bind_res (check (dget env ''target_sha256'' = PStr (sha256_hex h (json_text h (PDict target))))
       (report_error ''Native observation target declaration changed'')) (\<lambda>_.
     bind_res (native_root h env) (\<lambda>base.
     bind_res (review_path h base (if has_key target ''driver'' then dget target ''driver'' else dget target ''harness''))
       (\<lambda>expected_path.
     bind_res (native_receipt env) (\<lambda>receipt.
     bind_res (review_path h base (dget receipt ''path'')) (\<lambda>_.
     bind_res (py_set (dget_or target ''expected_invalid'' (PList []))) (\<lambda>negative.
     bind_res (native_observations target env required negative) (\<lambda>obs.
     bind_res (need (as_str (dget target ''entry'')) ''Native observation has a different entry'') (\<lambda>entry.
       foldM (native_step h base expected_path entry negative receipt props) [] obs)))))))))))))"

definition validated_native ::
  "host \<Rightarrow> pydict \<Rightarrow> py \<Rightarrow> string list \<Rightarrow> prow list \<Rightarrow> (string \<times> native_record) list res" where
  "validated_native h target envelope required props = (case envelope of
     PNone \<Rightarrow> Inr []
   | PDict env \<Rightarrow> native_envelope h target env required props
   | _ \<Rightarrow> Inl (report_error ''Native observations require a passed external gate for an EVA calibration''))"

section \<open>A waiver names one observed item\<close>

text \<open>What a recorded smoke review and a recorded warning review stand for.\<close>

definition smoke_waiver_ok :: "wp_goal list \<Rightarrow> string list \<Rightarrow> string \<times> pydict \<Rightarrow> bool" where
  "smoke_waiver_ok goals funcs e \<longleftrightarrow>
     (\<exists>g\<in>set goals. g_goal g = fst e \<and> g_smoke g \<and> g_outcome g = OInconsistent
        \<and> g_function g \<in> set funcs \<and> dead_property (g_property g)
        \<and> dget (snd e) ''goal'' = PStr (fst e) \<and> text_of (snd e) ''reason'' \<noteq> None)"

definition warning_waiver_ok :: "py list \<Rightarrow> nat \<times> pydict \<Rightarrow> bool" where
  "warning_waiver_ok warnings e \<longleftrightarrow>
     (\<exists>w m. fst e < length warnings \<and> warnings ! fst e = PDict w \<and> dget w ''severity'' = PStr ''warning''
        \<and> dget w ''message'' = PStr m \<and> dget (snd e) ''message'' = PStr m \<and> \<not> skipped_proof m
        \<and> text_of (snd e) ''reason'' \<noteq> None)"

definition reviews_ok :: "wp_goal list \<Rightarrow> py list \<Rightarrow> string list \<Rightarrow> reviews \<Rightarrow> bool" where
  "reviews_ok goals warnings funcs rv \<longleftrightarrow>
     distinct (map fst (rv_smoke rv)) \<and> (\<forall>e\<in>set (rv_smoke rv). smoke_waiver_ok goals funcs e)
     \<and> distinct (map fst (rv_warnings rv)) \<and> (\<forall>e\<in>set (rv_warnings rv). warning_waiver_ok warnings e)"

lemma text_of_Some [res_simps]: "text_of d f = Some s \<longleftrightarrow> dget d f = PStr s \<and> not_blank s"
  by (auto simp: text_of_def split: py.splits)

lemma need_Inr [res_simps]: "need v m = Inr x \<longleftrightarrow> v = Some x"
  by (auto simp: need_def split: option.splits)

lemma bound_record_reason:
  "bound_record h base ch v = Inr (d, hs) \<Longrightarrow> text_of d ''reason'' \<noteq> None"
  by (auto simp: bound_record_def res_simps)

lemma smoke_review_waiver:
  assumes "smoke_review h base goals props funcs hashes rv d = Inr rv'" and "text_of d ''reason'' \<noteq> None"
  shows "\<exists>n. rv_smoke rv' = rv_smoke rv @ [(n, d)] \<and> n \<notin> fst ` set (rv_smoke rv)
           \<and> smoke_waiver_ok goals funcs (n, d) \<and> rv_warnings rv' = rv_warnings rv"
proof -
  from assms(1) obtain goal pr func fl line path g where
    w: "text_of d ''goal'' = Some goal" "func \<in> set funcs" "dead_property pr"
      "smoke_matches goals goal pr func line path = [g]" "g_outcome g = OInconsistent"
      "goal \<notin> set (map fst (rv_smoke rv))"
      "rv_smoke rv' = rv_smoke rv @ [(goal, d)]" "rv_warnings rv' = rv_warnings rv"
    unfolding smoke_review_def
    by (clarsimp simp: res_simps) (auto simp: Let_def res_simps split: if_splits)
  from w(4) have "g \<in> set goals" "g_smoke g" "g_goal g = goal" "g_property g = pr" "g_function g = func"
    by (auto simp: smoke_matches_def filter_eq_Cons_iff)
  with w assms(2) show ?thesis
    by (intro exI [of _ goal]) (auto simp: smoke_waiver_ok_def res_simps)
qed

lemma warning_match_True:
  "warning_match h base funcs located m p v = Inr True \<Longrightarrow>
     \<exists>w. v = PDict w \<and> dget w ''message'' = PStr m \<and> dget w ''severity'' = PStr ''warning''"
  by (auto simp: warning_match_def split: py.splits if_splits)

lemma warning_matches_nth:
  assumes "warning_matches h base funcs located m p ws = Inr is" and "i \<in> set is"
  shows "i < length ws \<and> (\<exists>w. ws ! i = PDict w \<and> dget w ''message'' = PStr m \<and> dget w ''severity'' = PStr ''warning'')"
proof -
  obtain bs where bs: "mapM (warning_match h base funcs located m p) ws = Inr bs" "is = filter (\<lambda>i. bs ! i) [0..<length bs]"
    using assms(1) by (auto simp: warning_matches_def res_simps)
  then have "i < length ws" "bs ! i" using assms(2) mapM_length [OF bs(1)] by auto
  with mapM_nth [OF bs(1)] have "warning_match h base funcs located m p (ws ! i) = Inr True" by fastforce
  with \<open>i < length ws\<close> show ?thesis using warning_match_True by blast
qed

lemma warning_review_waiver:
  assumes "warning_review h base warnings funcs hashes rv d = Inr rv'" and "text_of d ''reason'' \<noteq> None"
  shows "\<exists>i. rv_warnings rv' = rv_warnings rv @ [(i, d)] \<and> i \<notin> fst ` set (rv_warnings rv)
           \<and> warning_waiver_ok warnings (i, d) \<and> rv_smoke rv' = rv_smoke rv"
proof -
  from assms(1) obtain m p located i where
    w: "text_of d ''message'' = Some m" "\<not> skipped_proof m"
      "warning_matches h base funcs located m p warnings = Inr [i]"
      "i \<notin> set (map fst (rv_warnings rv))" "rv' = rv\<lparr>rv_warnings := rv_warnings rv @ [(i, d)]\<rparr>"
    unfolding warning_review_def
    by (clarsimp simp: res_simps)
  with warning_matches_nth [OF w(3), of i] assms(2) show ?thesis
    by (intro exI [of _ i]) (auto simp: warning_waiver_ok_def res_simps)
qed

lemma smoke_step_ok:
  assumes "reviews_ok goals warnings funcs rv" and "smoke_step h base goals props funcs ch rv v = Inr rv'"
  shows "reviews_ok goals warnings funcs rv'"
proof -
  obtain d hs where "bound_record h base ch v = Inr (d, hs)" "smoke_review h base goals props funcs hs rv d = Inr rv'"
    using assms(2) by (auto simp: smoke_step_def res_simps)
  from smoke_review_waiver [OF this(2) bound_record_reason [OF this(1)]] assms(1)
  show ?thesis by (auto simp: reviews_ok_def)
qed

lemma warning_step_ok:
  assumes "reviews_ok goals warnings funcs rv" and "warning_step h base warnings funcs ch rv v = Inr rv'"
  shows "reviews_ok goals warnings funcs rv'"
proof -
  obtain d hs where "bound_record h base ch v = Inr (d, hs)" "warning_review h base warnings funcs hs rv d = Inr rv'"
    using assms(2) by (auto simp: warning_step_def res_simps)
  from warning_review_waiver [OF this(2) bound_record_reason [OF this(1)]] assms(1)
  show ?thesis by (auto simp: reviews_ok_def)
qed

lemma review_envelope_ok:
  assumes "review_envelope h target env goals props warnings funcs = Inr rv"
  shows "reviews_ok goals warnings funcs rv"
proof -
  obtain base ch ctx sm recs rv1 where
    folds: "foldM (smoke_step h base goals props funcs ch) (no_reviews\<lparr>rv_context := PDict ctx\<rparr>) sm = Inr rv1"
      "foldM (warning_step h base warnings funcs ch) rv1 recs = Inr rv"
    using assms by (auto simp: review_envelope_def res_simps)
  have "reviews_ok goals warnings funcs rv1"
  proof (rule foldM_invariant [OF folds(1)])
    show "reviews_ok goals warnings funcs (no_reviews\<lparr>rv_context := PDict ctx\<rparr>)"
      by (simp add: reviews_ok_def no_reviews_def)
  qed (blast intro: smoke_step_ok)
  then show ?thesis
    by (rule foldM_invariant [OF folds(2)]) (blast intro: warning_step_ok)
qed

text \<open>
  C9. Every waiver of an accepted review envelope is about one observed item: a smoke waiver names
  an observed smoke goal that was proved inconsistent, lies in an analysed function and is a
  dead-call or dead-code goal; a warning waiver names a position of the warning list that holds a
  warning of exactly the reviewed message, never a skipped goal, function or property; no two
  waivers name the same item and each gives a reason.
\<close>

theorem reviews_sound:
  assumes "validated_reviews h target envelope goals props warnings funcs = Inr rv"
  shows "reviews_ok goals warnings funcs rv"
proof (cases envelope)
  case PNone
  with assms have "rv = no_reviews" by (simp add: validated_reviews_def split: if_splits)
  then show ?thesis by (simp add: reviews_ok_def no_reviews_def)
next
  case (PDict env)
  with assms show ?thesis by (simp add: validated_reviews_def review_envelope_ok)
qed (use assms in \<open>simp_all add: validated_reviews_def\<close>)

definition sample_context :: pydict where
  "sample_context = [(''kernel_revision'', PStr (replicate 40 CHR ''0'')),
     (''file_hashes'', PDict [(''a.c'', PStr (replicate 64 CHR ''a''))]),
     (''review_evidence'', PList [PStr ''notes.txt''])]"

definition sample_smoke_record :: pydict where
  "sample_smoke_record = [(''goal'', PStr ''g''), (''property'', PStr ''trap_wp_smoke_dead_call_s3''),
     (''function'', PStr ''f''), (''file'', PStr ''a.c''), (''line'', PInt 7), (''reason'', PStr ''dead''),
     (''file_hashes'', PDict [(''a.c'', PStr (replicate 64 CHR ''a''))]),
     (''review_evidence'', PList [PStr ''notes.txt''])]"

definition sample_review_target :: pydict where
  "sample_review_target = [(''id'', PStr ''t''), (''profile'', PStr ''p''), (''analysis'', PStr ''wp''),
     (''review_context'', PDict sample_context), (''reviewed_smoke'', PList [PDict sample_smoke_record])]"

definition sample_envelope :: pydict where
  "sample_envelope = [(''status'', PStr ''passed''), (''target_id'', PStr ''t''), (''profile'', PStr ''p''),
     (''analysis'', PStr ''wp''), (''source_root'', PStr ''/r''), (''review_context'', PDict sample_context),
     (''reviewed_smoke'', PList [PDict sample_smoke_record]), (''reviewed_warnings'', PList [])]"

definition sample_smoke_goal :: wp_goal where
  "sample_smoke_goal = \<lparr>g_goal = ''g'', g_property = ''trap_wp_smoke_dead_call_s3'', g_function = ''f'',
     g_file = ''a.c'', g_verdict = ''valid'', g_line = 7, g_smoke = True, g_passed = True,
     g_outcome = OInconsistent, g_path = ''/r/a.c'', g_seconds = 0\<rparr>"

lemma reviews_sound_witness:
  "reviews_ok [sample_smoke_goal] [] [''f'']
     (projr (validated_reviews plain_host sample_review_target (PDict sample_envelope) [sample_smoke_goal] [] [] [''f'']))
   \<and> map fst (rv_smoke (projr (validated_reviews plain_host sample_review_target (PDict sample_envelope)
        [sample_smoke_goal] [] [] [''f'']))) = [''g'']"
proof -
  let ?run = "validated_reviews plain_host sample_review_target (PDict sample_envelope) [sample_smoke_goal] [] [] [''f'']"
  have "map_sum id (\<lambda>rv. map fst (rv_smoke rv)) ?run = Inr [''g'']" by code_simp
  then obtain rv where "?run = Inr rv" "map fst (rv_smoke rv) = [''g'']" by (cases ?run) auto
  with reviews_sound [OF this(1)] show ?thesis by simp
qed

text \<open>What an accepted native observation stands for.\<close>

definition native_ok :: "pydict \<Rightarrow> prow list \<Rightarrow> string \<times> native_record \<Rightarrow> bool" where
  "native_ok target props e \<longleftrightarrow>
     (\<exists>vs. py_set (dget_or target ''expected_invalid'' (PList [])) = Inr vs \<and> PStr (fst e) \<in> set vs)
     \<and> nv_property (snd e) \<in> set props \<and> p_kind (nv_property (snd e)) = ''user assertion''
     \<and> fst e \<in> set (p_names (nv_property (snd e)))
     \<and> p_status (nv_property (snd e)) \<in> {''Invalid'', ''Invalid or unreachable''}
     \<and> dget (nv_observation (snd e)) ''observed'' = PBool False
     \<and> dget (nv_observation (snd e)) ''reached'' = PBool True"

lemma native_step_Inr:
  assumes "native_step h base ep entry neg receipt props acc obs = Inr acc'"
  shows "acc' = acc \<or> (\<exists>e. acc' = acc @ [e] \<and> PStr (fst e) \<in> set neg \<and> nv_property (snd e) \<in> set props
     \<and> p_kind (nv_property (snd e)) = ''user assertion'' \<and> fst e \<in> set (p_names (nv_property (snd e)))
     \<and> p_status (nv_property (snd e)) \<in> {''Invalid'', ''Invalid or unreachable''}
     \<and> dget (nv_observation (snd e)) ''observed'' = PBool False
     \<and> dget (nv_observation (snd e)) ''reached'' = PBool True)"
proof (cases "PStr (snd obs) \<in> set neg")
  case True
  with assms show ?thesis
    by (auto simp: native_step_def Let_def res_simps filter_eq_Cons_iff split: if_splits)
next
  case False
  with assms show ?thesis
    by (auto simp: native_step_def Let_def res_simps split: if_splits)
qed

text \<open>
  C10. Native execution corroborates only what the analyzer already calls invalid: every accepted
  observation belongs to a calibration, is about a declared negative property, was observed
  reached and false, and names one exported user assertion whose status is invalid (or invalid or
  unreachable).
\<close>

theorem native_sound:
  assumes "validated_native h target envelope required props = Inr accepted" and "e \<in> set accepted"
  shows "dget target ''role'' = PStr ''calibration'' \<and> native_ok target props e"
proof -
  obtain env where env: "envelope = PDict env" "native_envelope h target env required props = Inr accepted"
    using assms by (cases envelope) (auto simp: validated_native_def)
  from env(2) obtain base ep entry neg receipt obs where
    w: "dget target ''role'' = PStr ''calibration''"
      "py_set (dget_or target ''expected_invalid'' (PList [])) = Inr neg"
      "foldM (native_step h base ep entry neg receipt props) [] obs = Inr accepted"
    by (auto simp: native_envelope_def res_simps)
  have "\<forall>e\<in>set accepted. native_ok target props e"
  proof (rule foldM_invariant [OF w(3)])
    fix acc x acc' assume "\<forall>e\<in>set acc. native_ok target props e"
      and "native_step h base ep entry neg receipt props acc x = Inr acc'"
    with native_step_Inr [OF this(2)] w(2) show "\<forall>e\<in>set acc'. native_ok target props e"
      unfolding native_ok_def by auto
  qed simp
  with assms(2) w(1) show ?thesis by blast
qed

definition sample_native_target :: pydict where
  "sample_native_target = [(''id'', PStr ''t''), (''profile'', PStr ''p''), (''source'', PStr ''a.c''),
     (''role'', PStr ''calibration''), (''analysis'', PStr ''eva''), (''entry'', PStr ''m''),
     (''harness'', PStr ''a.c''), (''expected_invalid'', PList [PStr ''n''])]"

definition sample_observation :: pydict where
  "sample_observation = [(''name'', PStr ''n''), (''expected'', PBool False), (''observed'', PBool False),
     (''reached'', PBool True), (''function'', PStr ''m''), (''line'', PInt 7), (''file'', PStr ''a.c''),
     (''acsl'', PStr ''x > 0''), (''native_expression'', PStr ''x > 0'')]"

definition sample_native_envelope :: pydict where
  "sample_native_envelope = [(''status'', PStr ''passed''), (''kind'', PStr ''native-specification-calibration''),
     (''target_id'', PStr ''t''), (''profile'', PStr ''p''), (''source'', PStr ''a.c''), (''entry'', PStr ''m''),
     (''target_sha256'', PStr (json_text plain_host (PDict sample_native_target))),
     (''kernel_revision'', PStr (replicate 40 CHR ''0'')), (''source_root'', PStr ''/r''),
     (''receipt'', PDict [(''path'', PStr ''log''), (''sha256'', PStr (replicate 64 CHR ''a''))]),
     (''properties'', PList [PDict sample_observation])]"

definition sample_native_row :: prow where
  "sample_native_row = \<lparr>p_path = ''/r/a.c'', p_file = ''a.c'', p_directory = ''.'', p_line = 7, p_function = ''m'',
     p_kind = ''user assertion'', p_status = ''Invalid or unreachable'', p_outcome = OUnreachable,
     p_property = ''x > 0'', p_names = [''n''], p_report_row = 2, p_occurrences = [], p_ambiguous = False\<rparr>"

lemma native_sound_witness:
  "native_ok sample_native_target [sample_native_row]
     (hd (projr (validated_native plain_host sample_native_target (PDict sample_native_envelope) [''n''] [sample_native_row])))"
proof -
  let ?run = "validated_native plain_host sample_native_target (PDict sample_native_envelope) [''n''] [sample_native_row]"
  have "map_sum id length ?run = Inr 1" by code_simp
  then obtain acc where run: "?run = Inr acc" and "length acc = 1" by (cases ?run) auto
  then have "hd acc \<in> set acc" by (cases acc) auto
  from native_sound [OF run this] show ?thesis by (simp add: run)
qed

end
