(* ===== verification/Report_Evaluate.thy ===== *)
theory Report_Evaluate
  imports Report_Review
begin

text \<open>
  \<^verbatim>\<open>fragma/report.py\<close>, the evaluation policy: \<^verbatim>\<open>evaluate_target\<close> turns the parsed evidence of one
  analyzer run into issues, and into a verdict only when there is none; \<^verbatim>\<open>finalize_companions\<close>
  settles the calibrations that wait for a companion. The code appends to one list of issues while
  it walks the evidence; here each walk is a function that returns its issues, and the list is
  their concatenation in the code's order. A Python set is iterated in an arbitrary order; the
  model uses the declared order.
\<close>

section \<open>Issues and the result\<close>

record issue =
  i_kind :: string
  i_message :: string
  i_data :: pydict

abbreviation mk_issue :: "string \<Rightarrow> string \<Rightarrow> pydict \<Rightarrow> issue" where
  "mk_issue k m d \<equiv> \<lparr>i_kind = k, i_message = m, i_data = d\<rparr>"

definition outcome_name :: "outcome \<Rightarrow> string" where
  "outcome_name out = (case out of OValid \<Rightarrow> ''valid'' | OInvalid \<Rightarrow> ''invalid'' | OUnknown \<Rightarrow> ''unknown''
     | OTimeout \<Rightarrow> ''timeout'' | OToolError \<Rightarrow> ''tool-error'' | OInconsistent \<Rightarrow> ''inconsistent''
     | OInconclusive \<Rightarrow> ''inconclusive'' | OPending \<Rightarrow> ''pending'' | OAssumed \<Rightarrow> ''assumed''
     | OUnreachable \<Rightarrow> ''unreachable'')"

text \<open>The order in which issue kinds decide the status, most severe first.\<close>

definition SEVERITY :: "string list" where
  "SEVERITY = [''tool-error'', ''inconsistent'', ''unsupported'', ''review-required'', ''incomplete'',
               ''invalid'', ''timeout'', ''unknown'']"

definition issues_status :: "issue list \<Rightarrow> string" where
  "issues_status is = (case filter (\<lambda>k. k \<in> i_kind ` set is) SEVERITY of k # _ \<Rightarrow> k | [] \<Rightarrow> ''failed'')"

record smoke_summary =
  s_goals :: "wp_goal list"
  s_inconsistent :: nat
  s_inconclusive :: nat
  s_reviewed :: nat

record evaluation =
  e_target_id :: py
  e_profile :: py
  e_source :: py
  e_role :: py
  e_analysis :: py
  e_status :: string
  e_functions :: py
  e_accepted :: bool
  e_verified :: bool
  e_local_passed :: bool
  e_issues :: "issue list"
  e_unresolved_dependencies :: "(prow \<times> string list) list"
  e_omissions :: "string list"
  e_trusted :: "prow list"
  e_confirmed_invalid :: "string list"
  e_native_invalid :: "native_record list"
  e_eva_invalid :: "(string \<times> prow \<times> py) list"
  e_selected_ambiguities :: "prow list"
  e_duplicate_groups :: "prow list"
  e_unselected_ambiguities :: "prow list"
  e_review_context :: py
  e_reviewed_smoke :: "(wp_goal \<times> pydict) list"
  e_reviewed_warnings :: "(nat \<times> py \<times> pydict) list"
  e_reviewed_unreachable :: "(prow \<times> pydict) list"
  e_required_companion :: py
  e_expected_unresolved :: py
  e_expected_invalid :: py
  e_companion_map :: py
  e_mapping_reason :: py
  e_smoke :: smoke_summary
  e_goal_counts :: "(outcome \<times> nat) list"
  e_property_counts :: "(outcome \<times> nat) list"
  e_seconds :: rat
  e_companion :: "(py \<times> py \<times> string list \<times> py) option"
    \<comment> \<open>\<open>companion_evidence\<close>: companion, property map, its confirmed invalid properties, reason\<close>

definition initial_evaluation :: "pydict \<Rightarrow> evaluation" where
  "initial_evaluation target =
     \<lparr>e_target_id = dget target ''id'', e_profile = dget target ''profile'', e_source = dget target ''source'',
      e_role = dget_or target ''role'' (PStr ''proof''), e_analysis = dget target ''analysis'',
      e_status = ''incomplete'', e_functions = dget_or target ''functions'' (PList []),
      e_accepted = False, e_verified = False, e_local_passed = False, e_issues = [],
      e_unresolved_dependencies = [], e_omissions = [], e_trusted = [], e_confirmed_invalid = [],
      e_native_invalid = [], e_eva_invalid = [], e_selected_ambiguities = [], e_duplicate_groups = [],
      e_unselected_ambiguities = [], e_review_context = PNone, e_reviewed_smoke = [],
      e_reviewed_warnings = [], e_reviewed_unreachable = [],
      e_required_companion = dget target ''required_companion'',
      e_expected_unresolved = dget_or target ''expected_unresolved'' (PList []),
      e_expected_invalid = dget_or target ''expected_invalid'' (PList []),
      e_companion_map = dget_or target ''companion_property_map'' (PDict []),
      e_mapping_reason = dget target ''companion_mapping_reason'',
      e_smoke = \<lparr>s_goals = [], s_inconsistent = 0, s_inconclusive = 0, s_reviewed = 0\<rparr>,
      e_goal_counts = [], e_property_counts = [], e_seconds = 0, e_companion = None\<rparr>"

section \<open>The declaration of the target\<close>

definition returncode_issues :: "py \<Rightarrow> issue list" where
  "returncode_issues rc = (if rc = PInt 0 then []
     else [mk_issue ''tool-error'' ''Analyzer process did not complete successfully'' [(''returncode'', rc)]])"

text \<open>Nonempty lists of distinct nonempty strings.\<close>

definition name_list :: "py \<Rightarrow> string list option" where
  "name_list v = (case as_strs v of
     Some ns \<Rightarrow> if ns \<noteq> [] \<and> [] \<notin> set ns \<and> distinct ns then Some ns else None
   | None \<Rightarrow> None)"

definition structure_issues :: "(string \<times> py) list \<Rightarrow> issue list" where
  "structure_issues declared = List.map_filter (\<lambda>(name, v). case name_list v of Some ns \<Rightarrow> None
     | None \<Rightarrow> Some (mk_issue ''incomplete'' (''Target must declare nonempty distinct '' @ name) [])) declared"

text \<open>The names of a set of JSON values; the other elements equal no name.\<close>

definition names_of :: "py list \<Rightarrow> string list" where
  "names_of vs = List.map_filter as_str vs"

definition companion_map_ok :: "py \<Rightarrow> py list \<Rightarrow> bool" where
  "companion_map_ok mapping unresolved = (case mapping of
     PDict d \<Rightarrow> set (map PStr (keys d)) = set unresolved
       \<and> list_all (\<lambda>(k, v). case v of PStr s \<Rightarrow> s \<noteq> [] | _ \<Rightarrow> False) d
   | _ \<Rightarrow> False)"

definition expectation_issues ::
  "pydict \<Rightarrow> string list \<Rightarrow> string list \<Rightarrow> string list \<Rightarrow> py list \<Rightarrow> py list \<Rightarrow> issue list" where
  "expectation_issues target funcs analysis_funcs required unresolved invalid =
     (if (\<exists>x\<in>set invalid. \<exists>y\<in>set unresolved. py_eq x y)
         \<or> \<not> set (unresolved @ invalid) \<subseteq> set (map PStr required)
      then [mk_issue ''incomplete'' ''Calibration expectations must be disjoint subsets of required properties'' []] else [])
     @ (if (invalid \<noteq> [] \<or> unresolved \<noteq> []) \<and> dget target ''role'' \<noteq> PStr ''calibration''
        then [mk_issue ''incomplete'' ''Only calibration targets can declare expected failures'' []] else [])
     @ (if unresolved \<noteq> [] \<and> \<not> truthy (dget target ''required_companion'')
        then [mk_issue ''incomplete'' ''Expected solver uncertainty requires an independent invalidating companion'' []] else [])
     @ (if \<not> companion_map_ok (dget_or target ''companion_property_map'' (PDict [])) unresolved
        then [mk_issue ''incomplete'' ''Every expected unresolved property requires an exact companion property mapping'' []] else [])
     @ (if \<not> set funcs \<subseteq> set analysis_funcs
        then [mk_issue ''incomplete'' ''analysis_functions must include every source function'' []] else [])"

section \<open>The property rows\<close>

text \<open>
  The rows the policy is given are those of \<^verbatim>\<open>parse_properties\<close>; an element that is not an object
  with the six keys is \<open>None\<close>, and no list at all is the outer \<open>None\<close>. The outcome is recomputed
  from the status.
\<close>

type_synonym row_input = "prow option list option"

definition row_list :: "row_input \<Rightarrow> prow option list" where
  "row_list props = (case props of None \<Rightarrow> [] | Some rs \<Rightarrow> rs)"

definition normalize_row :: "prow option \<Rightarrow> prow option" where
  "normalize_row v = (case v of None \<Rightarrow> None
     | Some r \<Rightarrow> map_option (\<lambda>out. r\<lparr>p_outcome := out\<rparr>) (map_of CSV_STATUSES (p_status r)))"

definition row_input_issue :: "prow option \<Rightarrow> issue option" where
  "row_input_issue v = (case v of
      None \<Rightarrow> Some (mk_issue ''tool-error'' ''Malformed consolidated property record'' [])
    | Some r \<Rightarrow> if map_of CSV_STATUSES (p_status r) = None
        then Some (mk_issue ''tool-error'' ''Unknown consolidated property status'' [(''property_status'', PStr (p_status r))])
        else None)"

definition row_input_issues :: "row_input \<Rightarrow> issue list" where
  "row_input_issues props =
     (if row_list props = [] then [mk_issue ''incomplete'' ''Missing or empty consolidated property report'' []] else [])
     @ List.map_filter row_input_issue (row_list props)"

definition normalized_rows :: "row_input \<Rightarrow> prow list" where
  "normalized_rows props = List.map_filter normalize_row (row_list props)"

section \<open>WP evidence\<close>

text \<open>What the walks over the evidence share.\<close>

record evidence =
  v_target :: pydict
  v_functions :: "string list"
  v_analysis :: "string list" \<comment> \<open>\<open>analysis_funcs\<close>\<close>
  v_required :: "string list"
  v_unresolved :: "string list"
  v_invalid :: "string list"
  v_rows :: "prow list"
  v_goals :: "wp_goal list"
  v_eva :: "(string \<times> prow \<times> py) list" \<comment> \<open>recovered reached-invalid checks\<close>
  v_reviews :: reviews
  v_native :: "(string \<times> native_record) list"

definition eva_check_confirms :: "evidence \<Rightarrow> prow \<Rightarrow> string \<Rightarrow> bool" where
  "eva_check_confirms ev row name =
     (case map_of (v_eva ev) name of None \<Rightarrow> False | Some (r, w) \<Rightarrow> row = r)"

definition proof_goals :: "evidence \<Rightarrow> wp_goal list" where
  "proof_goals ev = filter (\<lambda>g. \<not> g_smoke g) (v_goals ev)"

definition smoke_reviewed :: "evidence \<Rightarrow> wp_goal \<Rightarrow> bool" where
  "smoke_reviewed ev g = (g_goal g \<in> fst ` set (rv_smoke (v_reviews ev)))"

definition goal_expected :: "evidence \<Rightarrow> wp_goal \<Rightarrow> bool" where
  "goal_expected ev g =
     (g_outcome g = OValid
      \<or> (g_property g \<in> set (v_unresolved ev) \<and> g_outcome g \<in> {OUnknown, OTimeout})
      \<or> (g_property g \<in> set (v_invalid ev) \<and> g_outcome g = OInvalid))"

definition goal_issues :: "evidence \<Rightarrow> wp_goal \<Rightarrow> issue list" where
  "goal_issues ev g =
     (if g_function g \<notin> set (v_analysis ev)
      then [mk_issue ''incomplete'' ''WP report contains an unexpected function'' [(''function'', PStr (g_function g))]] else [])
     @ (if g_smoke g then
          (if g_outcome g = OInconsistent then
             (if smoke_reviewed ev g then []
              else [mk_issue ''inconsistent'' ''Smoke test detected inconsistent assumptions or a dead path requiring individual review'' [(''goal'', PStr (g_goal g))]])
           else if g_outcome g = OToolError then [mk_issue ''tool-error'' ''Smoke test tool failure'' [(''goal'', PStr (g_goal g))]]
           else [])
        else if goal_expected ev g then []
        else [mk_issue (outcome_name (g_outcome g)) ''Required proof goal did not pass''
                [(''goal'', PStr (g_goal g)), (''property'', PStr (g_property g))]])"

definition function_goal_issues :: "evidence \<Rightarrow> issue list" where
  "function_goal_issues ev = List.map_filter (\<lambda>f.
     if \<exists>g\<in>set (v_goals ev). \<not> g_smoke g \<and> g_function g = f then None
     else Some (mk_issue ''incomplete'' ''No proof goals for selected function'' [(''function'', PStr f)])) (v_analysis ev)"

definition named_goals :: "evidence \<Rightarrow> string \<Rightarrow> wp_goal list" where
  "named_goals ev name = filter (\<lambda>g. g_property g = name) (proof_goals ev)"

definition required_goal_issues :: "evidence \<Rightarrow> string \<Rightarrow> issue list" where
  "required_goal_issues ev name =
     (let matched = named_goals ev name; data = [(''property'', PStr name)] in
      if matched = [] then [mk_issue ''incomplete'' ''Missing required named property'' data]
      else if name \<in> set (v_unresolved ev) \<and> list_all (\<lambda>g. g_outcome g = OValid) matched
      then [mk_issue ''review-required'' ''Expected unresolved property became valid'' data]
      else if name \<in> set (v_invalid ev) \<and> \<not> list_ex (\<lambda>g. g_outcome g = OInvalid) matched
      then [mk_issue (if list_all (\<lambda>g. g_outcome g = OValid) matched then ''review-required'' else ''incomplete'')
              ''Expected invalidity was not established'' data]
      else [])"

definition confirmed_by_wp :: "evidence \<Rightarrow> string \<Rightarrow> bool" where
  "confirmed_by_wp ev name =
     (\<not> (name \<in> set (v_unresolved ev) \<and> list_all (\<lambda>g. g_outcome g = OValid) (named_goals ev name))
      \<and> name \<in> set (v_invalid ev) \<and> list_ex (\<lambda>g. g_outcome g = OInvalid) (named_goals ev name))"

definition baseline_goal_issues :: "evidence \<Rightarrow> issue list res" where
  "baseline_goal_issues ev =
     bind_res (py_iter (dget_or (v_target ev) ''required_goals'' (PList []))) (\<lambda>names.
       Inr (List.map_filter (\<lambda>n. if \<exists>g\<in>set (v_goals ev). PStr (g_goal g) = n then None
         else Some (mk_issue ''incomplete'' ''Missing named baseline proof goal'' [(''goal'', n)])) names))"

text \<open>The exporter omits loop variants, so their goals have no row; every other goal needs one.\<close>

definition goal_in_table :: "evidence \<Rightarrow> wp_goal \<Rightarrow> bool" where
  "goal_in_table ev g = (\<exists>r\<in>set (v_rows ev). p_path r = g_path g \<and> p_line r = g_line g
     \<and> p_function r = g_function g \<and> g_property g \<in> set (property_aliases r [g]))"

definition variant_goal :: "wp_goal \<Rightarrow> bool" where
  "variant_goal g = contains ''_loop_variant'' (g_property g)"

definition dependency_issues :: "evidence \<Rightarrow> issue list" where
  "dependency_issues ev = List.map_filter (\<lambda>g.
     if goal_in_table ev g \<or> variant_goal g then None
     else Some (mk_issue ''incomplete'' ''WP property is missing from the consolidated dependency report''
       [(''property'', PStr (g_property g)), (''goal'', PStr (g_goal g))])) (proof_goals ev)"

definition wp_issues :: "evidence \<Rightarrow> issue list res" where
  "wp_issues ev =
     bind_res (baseline_goal_issues ev) (\<lambda>baseline. Inr
       (function_goal_issues ev @ concat (map (goal_issues ev) (v_goals ev))
        @ concat (map (required_goal_issues ev) (v_required ev)) @ baseline @ dependency_issues ev
        @ (if truthy (dget (v_target ev) ''require_smoke'') \<and> filter g_smoke (v_goals ev) = []
           then [mk_issue ''incomplete'' ''Required smoke test evidence is missing'' []] else [])))"

section \<open>Eva evidence\<close>

text \<open>The entry point joins the analysed functions; an unhashable one cannot be added to the set.\<close>

definition eva_entry :: "pydict \<Rightarrow> py" where
  "eva_entry target = dget_or target ''entry'' (PStr ''main'')"

definition eva_functions :: "pydict \<Rightarrow> string list \<Rightarrow> string list" where
  "eva_functions target funcs = (case eva_entry target of
     PStr e \<Rightarrow> if e \<in> set funcs then funcs else funcs @ [e] | _ \<Rightarrow> funcs)"

definition eva_function_issues :: "evidence \<Rightarrow> issue list" where
  "eva_function_issues ev = List.map_filter (\<lambda>f.
     if \<exists>r\<in>set (v_rows ev). PStr (p_function r) = f then None
     else Some (mk_issue ''incomplete'' ''No property evidence for selected EVA function'' [(''function'', f)]))
     (map PStr (v_functions ev) @ (if eva_entry (v_target ev) \<in> set (map PStr (v_functions ev)) then [] else [eva_entry (v_target ev)]))"

definition named_rows :: "evidence \<Rightarrow> string \<Rightarrow> prow list" where
  "named_rows ev name = filter (\<lambda>r. p_function r \<in> set (v_analysis ev) \<and> name \<in> set (p_names r)) (v_rows ev)"

definition confirmed_by_eva :: "evidence \<Rightarrow> string \<Rightarrow> bool" where
  "confirmed_by_eva ev name =
     (named_rows ev name \<noteq> [] \<and> name \<in> set (v_invalid ev)
      \<and> list_all (\<lambda>r. p_outcome r = OInvalid \<or> eva_check_confirms ev r name) (named_rows ev name))"

definition native_confirms :: "evidence \<Rightarrow> prow \<Rightarrow> string \<Rightarrow> bool" where
  "native_confirms ev row name =
     (case map_of (v_native ev) name of None \<Rightarrow> False | Some n \<Rightarrow> row = nv_property n)"

definition confirmed_by_native :: "evidence \<Rightarrow> string \<Rightarrow> bool" where
  "confirmed_by_native ev name =
     (name \<in> set (v_invalid ev) \<and> \<not> confirmed_by_eva ev name
      \<and> (case named_rows ev name of [r] \<Rightarrow> native_confirms ev r name | _ \<Rightarrow> False))"

definition required_row_issues :: "evidence \<Rightarrow> string \<Rightarrow> issue list" where
  "required_row_issues ev name =
     (let matched = named_rows ev name; data = [(''property'', PStr name)] in
      if matched = []
      then [mk_issue ''incomplete'' ''Missing required named EVA property; provide exact source-location mapping'' data]
      else if name \<in> set (v_invalid ev)
      then (if confirmed_by_eva ev name \<or> confirmed_by_native ev name then []
            else [mk_issue (if list_all (\<lambda>r. p_outcome r = OValid) matched then ''review-required'' else ''incomplete'')
                    ''Expected EVA invalidity was not established'' data])
      else if \<not> list_all (\<lambda>r. p_outcome r = OValid) matched
      then [mk_issue ''incomplete'' ''Required EVA property is not unconditionally valid'' data]
      else [])"

definition eva_issues :: "py \<Rightarrow> evidence \<Rightarrow> issue list" where
  "eva_issues wp_goals ev =
     (if truthy wp_goals then [mk_issue ''incomplete'' ''EVA target unexpectedly supplied WP goals'' []] else [])
     @ eva_function_issues ev @ concat (map (required_row_issues ev) (v_required ev))"

section \<open>The consolidated rows\<close>

definition selected_rows :: "evidence \<Rightarrow> prow list" where
  "selected_rows ev = filter (\<lambda>r. p_function r \<in> set (v_analysis ev)) (v_rows ev)"

definition expected_aliases :: "evidence \<Rightarrow> prow \<Rightarrow> string list" where
  "expected_aliases ev r = filter (\<lambda>n. n \<in> set (v_invalid ev)) (property_aliases r (v_goals ev))"

definition trusted_row :: "prow \<Rightarrow> bool" where
  "trusted_row r = (p_outcome r = OAssumed \<and> p_kind r \<in> {''precondition'', ''axiom'', ''assumption''})"

text \<open>The rows that raise no issue although they are not valid, each as the calibration expects it.\<close>

definition row_expected :: "evidence \<Rightarrow> prow \<Rightarrow> bool" where
  "row_expected ev r =
     ((expected_aliases ev r \<noteq> []
       \<and> (p_outcome r = OInvalid \<or> (\<exists>n\<in>set (expected_aliases ev r). eva_check_confirms ev r n)))
      \<or> (p_outcome r = OUnreachable \<and> (\<exists>n\<in>set (expected_aliases ev r). native_confirms ev r n))
      \<or> ((\<exists>n\<in>set (property_aliases r (v_goals ev)). n \<in> set (v_unresolved ev))
         \<and> p_outcome r \<in> {OUnknown, OPending}))"

definition row_data :: "prow \<Rightarrow> pydict" where
  "row_data r = [(''function'', PStr (p_function r)), (''path'', PStr (p_path r)), (''line'', PInt (p_line r)),
                 (''property'', PStr (p_property r))]"

definition row_issues :: "evidence \<Rightarrow> row_identity list \<Rightarrow> prow \<Rightarrow> issue list" where
  "row_issues ev seen r =
     (if p_ambiguous r \<or> row_identity r \<in> set seen
      then [mk_issue ''incomplete'' ''Selected property has an ambiguous exported identity'' (row_data r)] else [])
     @ (if p_outcome r = OValid \<or> trusted_row r \<or> row_expected ev r then []
        else [mk_issue (if p_outcome r \<in> {OPending, OAssumed, OUnreachable} then ''incomplete'' else outcome_name (p_outcome r))
                ''Consolidated property is not unconditionally proved''
                (row_data r @ [(''property_status'', PStr (p_status r))])])"

fun rows_issues :: "evidence \<Rightarrow> row_identity list \<Rightarrow> prow list \<Rightarrow> issue list" where
  "rows_issues ev seen [] = []"
| "rows_issues ev seen (r # rs) = row_issues ev seen r @ rows_issues ev (row_identity r # seen) rs"

definition consolidated_issues :: "evidence \<Rightarrow> issue list" where
  "consolidated_issues ev =
     (if selected_rows ev = []
      then [mk_issue ''incomplete'' ''Consolidated report has no selected-function properties'' []] else [])
     @ rows_issues ev [] (selected_rows ev)"

section \<open>The warnings\<close>

definition claims_runtime_safety :: "pydict \<Rightarrow> bool res" where
  "claims_runtime_safety target = (case dget_or target ''claims'' (PList []) of
     PList vs \<Rightarrow> Inr (PStr ''runtime-safety'' \<in> set vs)
   | PStr s \<Rightarrow> Inr (contains ''runtime-safety'' s)
   | PDict d \<Rightarrow> Inr (has_key d ''runtime-safety'')
   | _ \<Rightarrow> Inl (Exn TypeError ''not iterable''))"

text \<open>Message and severity of a well-formed diagnostic.\<close>

definition diagnostic :: "py \<Rightarrow> (string \<times> string) option" where
  "diagnostic w = (case w of
     PStr m \<Rightarrow> Some (m, [])
   | PDict d \<Rightarrow> (case (dget d ''message'', dget d ''severity'') of
        (PStr m, PStr s) \<Rightarrow> if s \<in> {''warning'', ''error'', ''unsupported''} then Some (m, s) else None
      | _ \<Rightarrow> None)
   | _ \<Rightarrow> None)"

definition unsupported_message :: "string \<Rightarrow> bool" where
  "unsupported_message m = (word_search ''unsupported'' False (to_lower m) \<or> contains ''not supported'' (to_lower m)
     \<or> skip_search [''goal'', ''function'', ''property'', ''rte guards''] m)"

definition warning_issues :: "evidence \<Rightarrow> nat \<times> py \<Rightarrow> issue list res" where
  "warning_issues ev e = (case diagnostic (snd e) of
     None \<Rightarrow> Inr [mk_issue ''tool-error'' ''Malformed warning diagnostic'' [(''warning_index'', PInt (int (fst e)))]]
   | Some (m, severity) \<Rightarrow>
       if severity = ''error'' then Inr [mk_issue ''tool-error'' m []]
       else if fst e \<in> fst ` set (rv_warnings (v_reviews ev)) then Inr []
       else if severity = ''unsupported'' \<or> unsupported_message m then Inr [mk_issue ''unsupported'' m []]
       else if contains ''Missing RTE guards'' m
       then bind_res (claims_runtime_safety (v_target ev)) (\<lambda>claimed. Inr
              (if claimed then [mk_issue ''incomplete'' ''Runtime-safety claim lacks RTE guards'' []] else []))
       else Inr [])"

definition warnings_issues :: "evidence \<Rightarrow> py list \<Rightarrow> issue list res" where
  "warnings_issues ev ws = bind_res (mapM (warning_issues ev) (enumerate 0 ws)) (\<lambda>is. Inr (concat is))"

definition reviewed_warnings :: "evidence \<Rightarrow> py list \<Rightarrow> (nat \<times> py \<times> pydict) list" where
  "reviewed_warnings ev ws = List.map_filter (\<lambda>(i, w). case diagnostic w of
       Some (m, s) \<Rightarrow> if s = ''error'' then None
          else map_option (\<lambda>d. (i, w, d)) (map_of (rv_warnings (v_reviews ev)) i)
     | None \<Rightarrow> None) (enumerate 0 ws)"

section \<open>The evaluation of one target\<close>

text \<open>\<^verbatim>\<open>except (ReportError, OSError, ValueError)\<close>: the exception becomes an issue.\<close>

definition guarded :: "'a \<Rightarrow> 'a res \<Rightarrow> (issue list \<times> 'a) res" where
  "guarded dflt m = (case m of
     Inr x \<Rightarrow> Inr ([], x)
   | Inl (Exn c msg) \<Rightarrow>
       if is_value_error (Exn c msg) \<or> c = OSError then Inr ([mk_issue ''review-required'' msg []], dflt)
       else Inl (Exn c msg))"

text \<open>The WP goals of a WP target; a malformed report is a tool error, an absent one is incomplete.\<close>

definition target_goals :: "host \<Rightarrow> pydict \<Rightarrow> py \<Rightarrow> issue list \<times> wp_goal list" where
  "target_goals h target wp_goals =
     (if dget target ''analysis'' \<noteq> PStr ''wp'' then ([], [])
      else (case wp_rows h wp_goals of
         Inr gs \<Rightarrow> ([], gs)
       | Inl (Exn c msg) \<Rightarrow> ([mk_issue (if truthy wp_goals then ''tool-error'' else ''incomplete'') msg []], [])))"

definition analysis_issues :: "py \<Rightarrow> evidence \<Rightarrow> issue list res" where
  "analysis_issues wp_goals ev =
     (if dget (v_target ev) ''analysis'' = PStr ''wp'' then wp_issues ev
      else if dget (v_target ev) ''analysis'' = PStr ''eva''
      then (if hashable (eva_entry (v_target ev)) then Inr (eva_issues wp_goals ev)
            else Inl (Exn TypeError ''unhashable type''))
      else Inr [mk_issue ''unsupported'' ''Unsupported analysis kind'' [(''analysis'', dget (v_target ev) ''analysis'')]])"

definition row_aliases :: "evidence \<Rightarrow> prow \<Rightarrow> prow \<times> string list" where
  "row_aliases ev r = (r, remdups (sort (property_aliases r (v_goals ev))))"

text \<open>The descriptive fields of the result, all of them read off the evidence.\<close>

definition fill_evaluation :: "evidence \<Rightarrow> py list \<Rightarrow> evaluation \<Rightarrow> evaluation" where
  "fill_evaluation ev ws e =
     (let wp = (dget (v_target ev) ''analysis'' = PStr ''wp'');
          eva = (dget (v_target ev) ''analysis'' = PStr ''eva'');
          smokes = (if wp then filter g_smoke (v_goals ev) else []);
          bad = filter (\<lambda>g. g_outcome g = OInconsistent) smokes
      in e\<lparr>e_smoke := \<lparr>s_goals = smokes, s_inconsistent = length bad,
               s_inconclusive = length (filter (\<lambda>g. g_outcome g \<notin> {OInconsistent, OToolError}) smokes),
               s_reviewed = length (filter (smoke_reviewed ev) bad)\<rparr>,
           e_reviewed_smoke := List.map_filter (\<lambda>g. map_option (Pair g) (map_of (rv_smoke (v_reviews ev)) (g_goal g))) bad,
           e_eva_invalid := v_eva ev,
           e_review_context := rv_context (v_reviews ev),
           e_reviewed_unreachable := rv_unreachable (v_reviews ev),
           e_omissions := (if wp then map g_goal (filter (\<lambda>g. \<not> goal_in_table ev g \<and> variant_goal g) (proof_goals ev)) else []),
           e_confirmed_invalid :=
             (if wp then filter (confirmed_by_wp ev) (v_required ev)
              else if eva then filter (\<lambda>n. confirmed_by_eva ev n \<or> confirmed_by_native ev n) (v_required ev) else []),
           e_native_invalid := (if eva then List.map_filter (map_of (v_native ev)) (filter (confirmed_by_native ev) (v_required ev)) else []),
           e_selected_ambiguities := filter p_ambiguous (selected_rows ev),
           e_duplicate_groups := filter (\<lambda>r. 1 < length (p_occurrences r)) (selected_rows ev),
           e_unselected_ambiguities := filter (\<lambda>r. p_ambiguous r \<and> p_function r \<notin> set (v_analysis ev)) (v_rows ev),
           e_trusted := filter trusted_row (selected_rows ev),
           e_unresolved_dependencies := map (row_aliases ev) (filter (\<lambda>r. p_outcome r = OPending) (selected_rows ev)),
           e_reviewed_warnings := reviewed_warnings ev ws,
           e_goal_counts := counter (map g_outcome (proof_goals ev)),
           e_property_counts := counter (map p_outcome (selected_rows ev)),
           e_seconds := sum_list (map g_seconds (v_goals ev))\<rparr>)"

definition conclude :: "pydict \<Rightarrow> bool \<Rightarrow> issue list \<Rightarrow> evaluation \<Rightarrow> evaluation" where
  "conclude target uncertain is e =
     (if is \<noteq> [] then e\<lparr>e_issues := is, e_status := issues_status is\<rparr>
      else if uncertain then e\<lparr>e_local_passed := True, e_status := ''needs-companion''\<rparr>
      else (let v = (dget_or target ''role'' (PStr ''proof'') = PStr ''proof'') in
        e\<lparr>e_local_passed := True, e_accepted := True, e_verified := v,
          e_status := (if v then ''passed'' else ''calibration-passed'')\<rparr>))"

text \<open>The list of diagnostics, and the evidence with the issues met while it was gathered.\<close>

definition warning_list :: "py \<Rightarrow> py list" where
  "warning_list warnings = (case warnings of PList vs \<Rightarrow> vs | _ \<Rightarrow> [])"

definition gather ::
  "host \<Rightarrow> pydict \<Rightarrow> py \<Rightarrow> row_input \<Rightarrow> py \<Rightarrow> py \<Rightarrow> py \<Rightarrow> string list \<Rightarrow> string list \<Rightarrow> string list
   \<Rightarrow> py list \<Rightarrow> py list \<Rightarrow> (issue list \<times> evidence) res" where
  "gather h target wp_goals props warnings review native funcs afs required unresolved invalid =
     (let rows = normalized_rows props; ws = warning_list warnings; goals = target_goals h target wp_goals in
      bind_res (guarded no_reviews (validated_reviews h target review (snd goals) rows ws afs)) (\<lambda>rv.
      bind_res (guarded [] (validated_native h target native required rows)) (\<lambda>nv.
      Inr (fst goals @ fst rv @ fst nv,
        \<lparr>v_target = target, v_functions = funcs,
         v_analysis = (if dget target ''analysis'' = PStr ''eva'' then eva_functions target afs else afs),
         v_required = required, v_unresolved = names_of unresolved, v_invalid = names_of invalid,
         v_rows = rows, v_goals = snd goals,
         v_eva = eva_reached_invalid_checks rows ws (names_of invalid), v_reviews = snd rv, v_native = snd nv\<rparr>))))"

definition input_issues ::
  "pydict \<Rightarrow> py \<Rightarrow> row_input \<Rightarrow> py \<Rightarrow> string list \<Rightarrow> string list \<Rightarrow> string list \<Rightarrow> py list \<Rightarrow> py list \<Rightarrow> issue list" where
  "input_issues target rc props warnings funcs afs required unresolved invalid =
     returncode_issues rc @ expectation_issues target funcs afs required unresolved invalid
     @ row_input_issues props
     @ (if is_list warnings then [] else [mk_issue ''tool-error'' ''Warnings must be a diagnostic array'' []])"

definition evaluate_evidence ::
  "host \<Rightarrow> pydict \<Rightarrow> py \<Rightarrow> row_input \<Rightarrow> py \<Rightarrow> py \<Rightarrow> py \<Rightarrow> py \<Rightarrow> string list \<Rightarrow> string list \<Rightarrow> string list
   \<Rightarrow> evaluation res" where
  "evaluate_evidence h target wp_goals props rc warnings review native funcs afs required =
     bind_res (py_set (dget_or target ''expected_unresolved'' (PList []))) (\<lambda>unresolved.
     bind_res (py_set (dget_or target ''expected_invalid'' (PList []))) (\<lambda>invalid.
     bind_res (gather h target wp_goals props warnings review native funcs afs required unresolved invalid) (\<lambda>gathered.
     bind_res (analysis_issues wp_goals (snd gathered)) (\<lambda>analysis.
     bind_res (warnings_issues (snd gathered) (warning_list warnings)) (\<lambda>diagnostics.
     Inr (conclude target (unresolved \<noteq> [])
       (input_issues target rc props warnings funcs afs required unresolved invalid
        @ fst gathered @ analysis @ consolidated_issues (snd gathered) @ diagnostics)
       (fill_evaluation (snd gathered) (warning_list warnings) (initial_evaluation target))))))))"

definition evaluate_target ::
  "host \<Rightarrow> pydict \<Rightarrow> py \<Rightarrow> row_input \<Rightarrow> py \<Rightarrow> py \<Rightarrow> py \<Rightarrow> py \<Rightarrow> evaluation res" where
  "evaluate_target h target wp_goals props rc warnings review native =
     (let fs = dget target ''functions'';
          afs = dget_or target ''analysis_functions'' fs;
          req = dget target ''required_properties'' in
      (case (name_list fs, name_list afs, name_list req) of
         (Some funcs, Some analysis_funcs, Some required) \<Rightarrow>
           evaluate_evidence h target wp_goals props rc warnings review native funcs analysis_funcs required
       | _ \<Rightarrow> Inr ((initial_evaluation target)
           \<lparr>e_issues := returncode_issues rc
              @ structure_issues [(''functions'', fs), (''analysis_functions'', afs), (''required_properties'', req)],
            e_status := (if py_eq rc (PInt 0) then ''incomplete'' else ''tool-error'')\<rparr>)))"

section \<open>No verdict beside an issue\<close>

lemma guarded_Inr:
  "guarded dflt m = Inr x \<longleftrightarrow>
     (\<exists>y. m = Inr y \<and> x = ([], y))
     \<or> (\<exists>c msg. m = Inl (Exn c msg) \<and> (is_value_error (Exn c msg) \<or> c = OSError)
          \<and> x = ([mk_issue ''review-required'' msg []], dflt))"
  by (auto simp: guarded_def split: sum.splits exn.splits)

text \<open>The two ways an evaluation ends: a target without proper names, or a judged one.\<close>

definition target_names :: "pydict \<Rightarrow> (string list \<times> string list \<times> string list) option" where
  "target_names target =
     (case (name_list (dget target ''functions''),
            name_list (dget_or target ''analysis_functions'' (dget target ''functions'')),
            name_list (dget target ''required_properties'')) of
        (Some fs, Some afs, Some req) \<Rightarrow> Some (fs, afs, req) | _ \<Rightarrow> None)"

lemma evaluate_target_malformed:
  assumes "evaluate_target h target wp_goals props rc warnings review native = Inr e" and "target_names target = None"
  shows "\<not> e_accepted e \<and> \<not> e_verified e \<and> \<not> e_local_passed e \<and> e_issues e \<noteq> []
     \<and> (\<forall>i\<in>set (e_issues e). i_kind i \<in> {''tool-error'', ''incomplete''}) \<and> e_status e \<in> {''tool-error'', ''incomplete''}"
proof -
  let ?fs = "dget target ''functions''" and ?req = "dget target ''required_properties''"
  let ?afs = "dget_or target ''analysis_functions'' ?fs"
  let ?is = "structure_issues [(''functions'', ?fs), (''analysis_functions'', ?afs), (''required_properties'', ?req)]"
  have "e = (initial_evaluation target)\<lparr>e_issues := returncode_issues rc @ ?is,
            e_status := (if py_eq rc (PInt 0) then ''incomplete'' else ''tool-error'')\<rparr>"
    using assms by (auto simp: evaluate_target_def target_names_def Let_def split: option.splits)
  moreover have "?is \<noteq> []" "\<forall>i\<in>set ?is. i_kind i = ''incomplete''"
    using assms(2) by (auto simp: target_names_def structure_issues_def List.map_filter_simps split: option.splits)
  ultimately show ?thesis by (auto simp: initial_evaluation_def returncode_issues_def split: if_splits)
qed

lemma evaluate_target_judged:
  assumes "evaluate_target h target wp_goals props rc warnings review native = Inr e"
    and "target_names target = Some (fs, afs, req)"
  obtains unresolved invalid found ev analysis diagnostics where
    "py_set (dget_or target ''expected_unresolved'' (PList [])) = Inr unresolved"
    "py_set (dget_or target ''expected_invalid'' (PList [])) = Inr invalid"
    "gather h target wp_goals props warnings review native fs afs req unresolved invalid = Inr (found, ev)"
    "analysis_issues wp_goals ev = Inr analysis" "warnings_issues ev (warning_list warnings) = Inr diagnostics"
    "e = conclude target (unresolved \<noteq> [])
       (input_issues target rc props warnings fs afs req unresolved invalid
        @ found @ analysis @ consolidated_issues ev @ diagnostics)
       (fill_evaluation ev (warning_list warnings) (initial_evaluation target))"
proof -
  from assms(2) have "evaluate_target h target wp_goals props rc warnings review native
      = evaluate_evidence h target wp_goals props rc warnings review native fs afs req"
    by (auto simp: evaluate_target_def target_names_def Let_def split: option.splits)
  with assms(1) show thesis using that
    by (clarsimp simp: evaluate_evidence_def res_simps)
qed

lemma map_filter_Nil [simp]: "List.map_filter f xs = [] \<longleftrightarrow> (\<forall>x\<in>set xs. f x = None)"
  by (auto simp: List.map_filter_def filter_empty_conv)

lemma set_map_filter_iff: "y \<in> set (List.map_filter f xs) \<longleftrightarrow> (\<exists>x\<in>set xs. f x = Some y)"
  by (force simp: List.map_filter_def)

text \<open>The fields of a verdict.\<close>

lemma conclude_verdict:
  "e_issues (conclude target u is (fill_evaluation ev ws (initial_evaluation target))) = is"
  "e_local_passed (conclude target u is (fill_evaluation ev ws (initial_evaluation target))) \<longleftrightarrow> is = []"
  "e_accepted (conclude target u is (fill_evaluation ev ws (initial_evaluation target))) \<longleftrightarrow> is = [] \<and> \<not> u"
  "e_verified (conclude target u is (fill_evaluation ev ws (initial_evaluation target))) \<longleftrightarrow>
     is = [] \<and> \<not> u \<and> dget_or target ''role'' (PStr ''proof'') = PStr ''proof''"
  "e_status (conclude target u is (fill_evaluation ev ws (initial_evaluation target))) =
     (if is \<noteq> [] then issues_status is else if u then ''needs-companion''
      else if dget_or target ''role'' (PStr ''proof'') = PStr ''proof'' then ''passed'' else ''calibration-passed'')"
  by (auto simp: conclude_def fill_evaluation_def initial_evaluation_def Let_def)

text \<open>A target that passes the local policy left no issue in any of the walks.\<close>

lemma local_passedE:
  assumes "evaluate_target h target wp_goals props rc warnings review native = Inr e" and "e_local_passed e"
  obtains fs afs req unresolved invalid ev rv nv where
    "target_names target = Some (fs, afs, req)"
    "py_set (dget_or target ''expected_unresolved'' (PList [])) = Inr unresolved"
    "py_set (dget_or target ''expected_invalid'' (PList [])) = Inr invalid"
    "input_issues target rc props warnings fs afs req unresolved invalid = []"
    "fst (target_goals h target wp_goals) = []"
    "validated_reviews h target review (snd (target_goals h target wp_goals)) (normalized_rows props)
       (warning_list warnings) afs = Inr rv"
    "validated_native h target native req (normalized_rows props) = Inr nv"
    "ev = \<lparr>v_target = target, v_functions = fs,
       v_analysis = (if dget target ''analysis'' = PStr ''eva'' then eva_functions target afs else afs),
       v_required = req, v_unresolved = names_of unresolved, v_invalid = names_of invalid,
       v_rows = normalized_rows props, v_goals = snd (target_goals h target wp_goals),
       v_eva = eva_reached_invalid_checks (normalized_rows props) (warning_list warnings) (names_of invalid),
       v_reviews = rv, v_native = nv\<rparr>"
    "analysis_issues wp_goals ev = Inr []" "consolidated_issues ev = []"
    "warnings_issues ev (warning_list warnings) = Inr []"
    "e_accepted e \<longleftrightarrow> unresolved = []"
    "e_verified e \<longleftrightarrow> unresolved = [] \<and> dget_or target ''role'' (PStr ''proof'') = PStr ''proof''"
proof -
  obtain fs afs req where names: "target_names target = Some (fs, afs, req)"
    using evaluate_target_malformed [OF assms(1)] assms(2) by (cases "target_names target") auto
  from assms(1) names obtain unresolved invalid found ev analysis diagnostics where
    j: "py_set (dget_or target ''expected_unresolved'' (PList [])) = Inr unresolved"
    "py_set (dget_or target ''expected_invalid'' (PList [])) = Inr invalid"
    "gather h target wp_goals props warnings review native fs afs req unresolved invalid = Inr (found, ev)"
    "analysis_issues wp_goals ev = Inr analysis" "warnings_issues ev (warning_list warnings) = Inr diagnostics"
    "e = conclude target (unresolved \<noteq> [])
       (input_issues target rc props warnings fs afs req unresolved invalid
        @ found @ analysis @ consolidated_issues ev @ diagnostics)
       (fill_evaluation ev (warning_list warnings) (initial_evaluation target))"
    by (rule evaluate_target_judged)
  from assms(2) have empty: "input_issues target rc props warnings fs afs req unresolved invalid = []" "found = []"
      "analysis = []" "consolidated_issues ev = []" "diagnostics = []"
    by (simp_all add: j(6) conclude_verdict)
  from j(3) empty(2) obtain rv nv where
    g: "fst (target_goals h target wp_goals) = []"
      "validated_reviews h target review (snd (target_goals h target wp_goals)) (normalized_rows props)
         (warning_list warnings) afs = Inr rv"
      "validated_native h target native req (normalized_rows props) = Inr nv"
      "ev = \<lparr>v_target = target, v_functions = fs,
         v_analysis = (if dget target ''analysis'' = PStr ''eva'' then eva_functions target afs else afs),
         v_required = req, v_unresolved = names_of unresolved, v_invalid = names_of invalid,
         v_rows = normalized_rows props, v_goals = snd (target_goals h target wp_goals),
         v_eva = eva_reached_invalid_checks (normalized_rows props) (warning_list warnings) (names_of invalid),
         v_reviews = rv, v_native = nv\<rparr>"
    by (auto simp: gather_def Let_def res_simps guarded_Inr)
  show thesis
    by (rule that [OF names j(1,2) empty(1) g])
       (use j(4,5) empty in \<open>simp_all add: j(6) conclude_verdict\<close>)
qed

section \<open>What a verdict rests on\<close>

definition row_clean :: "evidence \<Rightarrow> prow \<Rightarrow> bool" where
  "row_clean ev r = (\<not> p_ambiguous r \<and> (p_outcome r = OValid \<or> trusted_row r \<or> row_expected ev r))"

lemma rows_issues_Nil:
  "rows_issues ev seen rs = [] \<longleftrightarrow>
     (\<forall>r\<in>set rs. row_clean ev r) \<and> row_identity ` set rs \<inter> set seen = {} \<and> distinct (map row_identity rs)"
proof (induction rs arbitrary: seen)
  case (Cons r rs)
  have "row_issues ev seen r = [] \<longleftrightarrow> row_clean ev r \<and> row_identity r \<notin> set seen"
    by (auto simp: row_issues_def row_clean_def)
  with Cons show ?case by auto
qed simp

lemma consolidated_issues_Nil:
  "consolidated_issues ev = [] \<longleftrightarrow>
     selected_rows ev \<noteq> [] \<and> distinct (map row_identity (selected_rows ev))
     \<and> (\<forall>r\<in>set (selected_rows ev). row_clean ev r)"
  by (auto simp: consolidated_issues_def rows_issues_Nil)

lemma goal_issues_Nil:
  "goal_issues ev g = [] \<longleftrightarrow>
     g_function g \<in> set (v_analysis ev)
     \<and> (if g_smoke g then g_outcome g \<noteq> OToolError \<and> (g_outcome g = OInconsistent \<longrightarrow> smoke_reviewed ev g)
        else goal_expected ev g)"
  by (auto simp: goal_issues_def)

lemma required_goal_issues_Nil:
  assumes "required_goal_issues ev n = []"
  shows "named_goals ev n \<noteq> [] \<and> (n \<in> set (v_invalid ev) \<longrightarrow> confirmed_by_wp ev n)"
  using assms by (auto simp: required_goal_issues_def confirmed_by_wp_def Let_def split: if_splits)

lemma wp_issues_Nil:
  assumes "wp_issues ev = Inr []"
  shows "(\<forall>f\<in>set (v_analysis ev). \<exists>g\<in>set (v_goals ev). \<not> g_smoke g \<and> g_function g = f)
     \<and> (\<forall>g\<in>set (v_goals ev). goal_issues ev g = [])
     \<and> (\<forall>n\<in>set (v_required ev). required_goal_issues ev n = [])
     \<and> (\<forall>g\<in>set (proof_goals ev). goal_in_table ev g \<or> variant_goal g)"
  using assms by (auto simp: wp_issues_def function_goal_issues_def dependency_issues_def res_simps split: if_splits)

lemma required_row_issues_Nil:
  assumes "required_row_issues ev n = []"
  shows "named_rows ev n \<noteq> []
     \<and> (n \<in> set (v_invalid ev) \<longrightarrow> confirmed_by_eva ev n \<or> confirmed_by_native ev n)
     \<and> (n \<notin> set (v_invalid ev) \<longrightarrow> (\<forall>r\<in>set (named_rows ev n). p_outcome r = OValid))"
  using assms by (auto simp: required_row_issues_def Let_def list_all_iff split: if_splits)

text \<open>Declared expectations, once the declaration raised no issue.\<close>

lemma input_issues_Nil:
  assumes "input_issues target rc props warnings fs afs req unresolved invalid = []"
  shows "rc = PInt 0 \<and> set fs \<subseteq> set afs \<and> set unresolved \<union> set invalid \<subseteq> set (map PStr req) \<and> is_list warnings
     \<and> (dget target ''role'' \<noteq> PStr ''calibration'' \<longrightarrow> unresolved = [] \<and> invalid = [])
     \<and> None \<notin> set (row_list props) \<and> row_list props \<noteq> []"
  using assms by (auto simp: input_issues_def returncode_issues_def expectation_issues_def row_input_issues_def row_input_issue_def split: if_splits)

lemma proof_role_not_calibration:
  "dget_or target ''role'' (PStr ''proof'') = PStr ''proof'' \<Longrightarrow> dget target ''role'' \<noteq> PStr ''calibration''"
  by (auto simp: dget_or_def dget_def split: option.splits)

lemma names_of_Nil [simp]: "names_of [] = []"
  by (simp add: names_of_def List.map_filter_def)

lemma names_of_set: "n \<in> set (names_of vs) \<longleftrightarrow> PStr n \<in> set vs"
  by (auto simp: names_of_def set_map_filter_iff as_str_Some)

lemma expected_nothing:
  assumes "v_invalid ev = []" and "v_unresolved ev = []"
  shows "\<not> row_expected ev r" "goal_expected ev g \<longleftrightarrow> g_outcome g = OValid"
  using assms by (auto simp: row_expected_def expected_aliases_def goal_expected_def)

definition smoke_accounted :: "reviews \<Rightarrow> wp_goal \<Rightarrow> bool" where
  "smoke_accounted rv g =
     (g_outcome g \<noteq> OToolError \<and> (g_outcome g = OInconsistent \<longrightarrow> g_goal g \<in> fst ` set (rv_smoke rv)))"

text \<open>The rows of some functions leave nothing unproved: every one is valid or a listed assumption.\<close>

definition rows_proved :: "string list \<Rightarrow> prow list \<Rightarrow> bool" where
  "rows_proved fs rows =
     (let sel = filter (\<lambda>r. p_function r \<in> set fs) rows in
      sel \<noteq> [] \<and> distinct (map row_identity sel)
      \<and> (\<forall>r\<in>set sel. \<not> p_ambiguous r \<and> (p_outcome r = OValid \<or> trusted_row r)))"

lemma consolidated_proved:
  assumes "consolidated_issues ev = []" and "v_invalid ev = []" and "v_unresolved ev = []"
  shows "rows_proved (v_analysis ev) (v_rows ev)"
  using assms expected_nothing(1) [OF assms(2,3)]
  by (auto simp: consolidated_issues_Nil rows_proved_def selected_rows_def row_clean_def Let_def)

text \<open>
  C1. A WP target is reported as verified only on complete evidence: the analyzer returned 0, the
  target is a proof, the report parsed, every analysed function has proof goals, every goal
  belongs to an analysed function, every proof goal is valid, every smoke goal is accounted for
  (inconsistent ones by a validated individual review), every required property has a goal, and in
  the consolidated table every row of an analysed function is valid or a trusted assumption, no
  two of them sharing an identity.
\<close>

theorem verified_wp_complete:
  assumes "evaluate_target h target wp_goals props rc warnings review native = Inr e"
    and "e_verified e" and "dget target ''analysis'' = PStr ''wp''"
  shows "rc = PInt 0 \<and> dget_or target ''role'' (PStr ''proof'') = PStr ''proof''
    \<and> (\<exists>fs afs req goals rv.
         target_names target = Some (fs, afs, req) \<and> set fs \<subseteq> set afs \<and> wp_rows h wp_goals = Inr goals
         \<and> validated_reviews h target review goals (normalized_rows props) (warning_list warnings) afs = Inr rv
         \<and> (\<forall>f\<in>set afs. \<exists>g\<in>set goals. \<not> g_smoke g \<and> g_function g = f)
         \<and> (\<forall>g\<in>set goals. g_function g \<in> set afs \<and> (if g_smoke g then smoke_accounted rv g else g_outcome g = OValid))
         \<and> (\<forall>n\<in>set req. \<exists>g\<in>set goals. \<not> g_smoke g \<and> g_property g = n)
         \<and> rows_proved afs (normalized_rows props))"
proof -
  have "e_local_passed e"
    using assms(1,2) evaluate_target_malformed [OF assms(1)]
    by (cases "target_names target") (auto elim!: evaluate_target_judged [OF assms(1)] simp: conclude_verdict)
  with assms(1) obtain fs afs req unresolved invalid ev rv nv where
    p: "target_names target = Some (fs, afs, req)"
    "input_issues target rc props warnings fs afs req unresolved invalid = []"
    "fst (target_goals h target wp_goals) = []"
    "validated_reviews h target review (snd (target_goals h target wp_goals)) (normalized_rows props) (warning_list warnings) afs = Inr rv"
    "ev = \<lparr>v_target = target, v_functions = fs,
       v_analysis = (if dget target ''analysis'' = PStr ''eva'' then eva_functions target afs else afs),
       v_required = req, v_unresolved = names_of unresolved, v_invalid = names_of invalid,
       v_rows = normalized_rows props, v_goals = snd (target_goals h target wp_goals),
       v_eva = eva_reached_invalid_checks (normalized_rows props) (warning_list warnings) (names_of invalid),
       v_reviews = rv, v_native = nv\<rparr>"
    "analysis_issues wp_goals ev = Inr []" "consolidated_issues ev = []"
    "e_verified e \<longleftrightarrow> unresolved = [] \<and> dget_or target ''role'' (PStr ''proof'') = PStr ''proof''"
    by (rule local_passedE)
  from p(8) assms(2) have role: "dget_or target ''role'' (PStr ''proof'') = PStr ''proof''" by simp
  note input = input_issues_Nil [OF p(2)]
  have none: "unresolved = []" "invalid = []" using input proof_role_not_calibration [OF role] by auto
  obtain goals where goals: "wp_rows h wp_goals = Inr goals" "snd (target_goals h target wp_goals) = goals"
    using p(3) assms(3) by (auto simp: target_goals_def split: sum.splits exn.splits)
  have ev: "v_analysis ev = afs" "v_goals ev = goals" "v_required ev = req" "v_rows ev = normalized_rows props"
      "v_invalid ev = []" "v_unresolved ev = []" "v_reviews ev = rv" "v_target ev = target"
    by (simp_all add: p(5) assms(3) goals none)
  have wp: "wp_issues ev = Inr []" using p(6) assms(3) by (simp add: analysis_issues_def ev)
  note w = wp_issues_Nil [OF wp, unfolded ev]
  have "\<exists>g\<in>set goals. \<not> g_smoke g \<and> g_property g = n" if "n \<in> set req" for n
    using w that required_goal_issues_Nil [of ev n] by (auto simp: named_goals_def proof_goals_def ev filter_empty_conv)
  moreover have "g_function g \<in> set afs \<and> (if g_smoke g then smoke_accounted rv g else g_outcome g = OValid)"
    if "g \<in> set goals" for g
    using w that expected_nothing(2) [OF ev(5,6)]
    by (auto simp: goal_issues_Nil ev smoke_accounted_def smoke_reviewed_def split: if_splits)
  moreover have "rows_proved afs (normalized_rows props)"
    using consolidated_proved [OF p(7) ev(5,6)] by (simp add: ev)
  ultimately show ?thesis
    using role input p(1,4) goals w by (simp add: goals)
qed

subsection \<open>The status names the most severe issue\<close>

definition known_issue :: "issue \<Rightarrow> bool" where
  "known_issue i = (i_kind i \<in> set SEVERITY)"

lemma known_issue_mk [simp]: "known_issue (mk_issue k m d) \<longleftrightarrow> k \<in> set SEVERITY"
  by (simp add: known_issue_def)

lemma known_kinds [simp]:
  "''tool-error'' \<in> set SEVERITY" "''inconsistent'' \<in> set SEVERITY" "''unsupported'' \<in> set SEVERITY"
  "''review-required'' \<in> set SEVERITY" "''incomplete'' \<in> set SEVERITY" "''invalid'' \<in> set SEVERITY"
  "''timeout'' \<in> set SEVERITY" "''unknown'' \<in> set SEVERITY"
  by (simp_all add: SEVERITY_def)

lemma issues_status_known:
  assumes "is \<noteq> []" and "\<forall>i\<in>set is. known_issue i"
  shows "issues_status is \<in> set SEVERITY \<and> (\<exists>i\<in>set is. i_kind i = issues_status is)
     \<and> (\<forall>i\<in>set is. index_of (issues_status is) SEVERITY \<le> index_of (i_kind i) SEVERITY)"
proof -
  let ?ks = "filter (\<lambda>k. k \<in> i_kind ` set is) SEVERITY"
  have first: "\<forall>k\<in>set ?ks. index_of (hd ?ks) SEVERITY \<le> index_of k SEVERITY"
    by (auto simp: SEVERITY_def)
  from assms obtain i where "i \<in> set is" "i_kind i \<in> set SEVERITY" by (cases "is") (auto simp: known_issue_def)
  then have ne: "?ks \<noteq> []" by (auto simp: filter_empty_conv)
  then have st: "issues_status is = hd ?ks" by (auto simp: issues_status_def split: list.splits)
  have "hd ?ks \<in> set ?ks" using ne by (rule hd_in_set)
  then show ?thesis using first assms(2) unfolding st by (auto simp: known_issue_def)
qed

lemma outcome_known:
  "out \<in> {OInvalid, OUnknown, OTimeout, OToolError, OInconsistent} \<Longrightarrow> outcome_name out \<in> set SEVERITY"
  by (auto simp: outcome_name_def)

lemma normalized_outcome:
  "r \<in> set (normalized_rows props) \<Longrightarrow>
     p_outcome r \<in> {OValid, OInvalid, OUnknown, OInconsistent, OPending, OAssumed, OUnreachable}"
proof -
  assume "r \<in> set (normalized_rows props)"
  then obtain q out where q: "map_of CSV_STATUSES (p_status q) = Some out" "r = q\<lparr>p_outcome := out\<rparr>"
    by (auto simp: normalized_rows_def normalize_row_def set_map_filter_iff split: option.splits)
  have "out \<in> snd ` set CSV_STATUSES" using map_of_SomeD [OF q(1)] by force
  then show ?thesis by (auto simp: q(2) CSV_STATUSES_def)
qed

lemma rows_issues_known:
  assumes "\<forall>r\<in>set rs. p_outcome r \<in> {OValid, OInvalid, OUnknown, OInconsistent, OPending, OAssumed, OUnreachable}"
  shows "\<forall>i\<in>set (rows_issues ev seen rs). known_issue i"
  using assms
proof (induction rs arbitrary: seen)
  case (Cons r rs)
  from Cons.prems have "p_outcome r \<in> {OValid, OInvalid, OUnknown, OInconsistent, OPending, OAssumed, OUnreachable}" by simp
  then have "\<forall>i\<in>set (row_issues ev seen r). known_issue i"
    by (auto simp: row_issues_def outcome_name_def trusted_row_def)
  with Cons show ?case by auto
qed simp

lemma wp_rows_outcomes:
  assumes "wp_rows h v = Inr goals" and "g \<in> set goals" and "\<not> g_smoke g"
  shows "g_outcome g \<in> {OValid, OInvalid, OUnknown, OTimeout, OToolError}"
proof -
  obtain vs where vs: "v = PList vs" using assms(1) by (auto simp: wp_rows_def res_simps)
  have "foldM (wp_step h) [] vs = Inr goals"
    using assms(1) by (cases vs) (auto simp: vs wp_rows_def)
  from wp_rows_inv [OF this] assms(2,3) show ?thesis
    by (auto simp: goal_lawful_def list_all2_conv_all_nth in_set_conv_nth)
qed

lemma goal_issues_known:
  assumes "\<not> g_smoke g \<longrightarrow> g_outcome g \<in> {OValid, OInvalid, OUnknown, OTimeout, OToolError}"
  shows "\<forall>i\<in>set (goal_issues ev g). known_issue i"
  using assms by (auto simp: goal_issues_def outcome_name_def goal_expected_def)

lemma analysis_issues_known:
  assumes "analysis_issues wp_goals ev = Inr is"
    and "\<forall>g\<in>set (v_goals ev). \<not> g_smoke g \<longrightarrow> g_outcome g \<in> {OValid, OInvalid, OUnknown, OTimeout, OToolError}"
  shows "\<forall>i\<in>set is. known_issue i"
proof -
  have "\<forall>g\<in>set (v_goals ev). \<forall>i\<in>set (goal_issues ev g). known_issue i"
    using assms(2) goal_issues_known by blast
  moreover have "\<forall>i\<in>set (required_goal_issues ev n). known_issue i" for n
    by (simp add: required_goal_issues_def Let_def)
  moreover have "\<forall>i\<in>set (required_row_issues ev n). known_issue i" for n
    by (simp add: required_row_issues_def Let_def)
  ultimately show ?thesis using assms(1)
    by (auto simp: analysis_issues_def wp_issues_def eva_issues_def function_goal_issues_def dependency_issues_def
        baseline_goal_issues_def eva_function_issues_def set_map_filter_iff res_simps split: if_splits)
qed

lemma warning_issues_known: "warning_issues ev e = Inr is \<Longrightarrow> \<forall>i\<in>set is. known_issue i"
  by (cases "diagnostic (snd e)") (auto simp: warning_issues_def res_simps split: if_splits)

lemma warnings_issues_known:
  assumes "warnings_issues ev ws = Inr is"
  shows "\<forall>i\<in>set is. known_issue i"
proof -
  obtain iss where "mapM (warning_issues ev) (enumerate 0 ws) = Inr iss" "is = concat iss"
    using assms by (auto simp: warnings_issues_def res_simps)
  then show ?thesis using mapM_set warning_issues_known by fastforce
qed

lemma row_input_issue_known: "row_input_issue v = Some i \<Longrightarrow> known_issue i"
  by (cases v) (auto simp: row_input_issue_def split: if_splits)

lemma input_issues_known: "\<forall>i\<in>set (input_issues target rc props warnings fs afs req unresolved invalid). known_issue i"
proof -
  have "\<forall>i\<in>set (row_input_issues props). known_issue i"
    by (auto simp: row_input_issues_def set_map_filter_iff row_input_issue_known)
  then show ?thesis
    by (auto simp: input_issues_def returncode_issues_def expectation_issues_def)
qed

lemma gather_known:
  assumes "gather h target wp_goals props warnings review native fs afs req unresolved invalid = Inr (found, ev)"
  shows "(\<forall>i\<in>set found. known_issue i) \<and> v_goals ev = snd (target_goals h target wp_goals) \<and> v_rows ev = normalized_rows props"
  using assms by (auto simp: gather_def Let_def res_simps guarded_Inr target_goals_def split: sum.splits exn.splits if_splits)


lemma conclude_confirmed:
  "e_confirmed_invalid (conclude target u is (fill_evaluation ev ws (initial_evaluation target))) =
     (if dget (v_target ev) ''analysis'' = PStr ''wp'' then filter (confirmed_by_wp ev) (v_required ev)
      else if dget (v_target ev) ''analysis'' = PStr ''eva''
      then filter (\<lambda>n. confirmed_by_eva ev n \<or> confirmed_by_native ev n) (v_required ev) else [])"
  by (simp add: conclude_def fill_evaluation_def initial_evaluation_def Let_def)

lemma local_passed_confirmed:
  assumes "evaluate_target h target wp_goals props rc warnings review native = Inr e"
    and "target_names target = Some (fs, afs, req)"
    and "gather h target wp_goals props warnings review native fs afs req unresolved invalid = Inr (found, ev)"
    and "py_set (dget_or target ''expected_unresolved'' (PList [])) = Inr unresolved"
    and "py_set (dget_or target ''expected_invalid'' (PList [])) = Inr invalid"
  shows "e_confirmed_invalid e =
     (if dget target ''analysis'' = PStr ''wp'' then filter (confirmed_by_wp ev) req
      else if dget target ''analysis'' = PStr ''eva''
      then filter (\<lambda>n. confirmed_by_eva ev n \<or> confirmed_by_native ev n) req else [])"
proof -
  have "v_target ev = target" "v_required ev = req"
    using assms(3) by (auto simp: gather_def Let_def res_simps)
  with assms show ?thesis by - (erule (1) evaluate_target_judged; simp add: conclude_confirmed)
qed


section \<open>Two small targets\<close>

definition sample_wp_goal :: "string \<Rightarrow> bool \<Rightarrow> py" where
  "sample_wp_goal verdict passed = PDict
     [(''goal'', PStr ''g''), (''property'', PStr ''f_ensures''), (''function'', PStr ''f''),
      (''file'', PStr ''a.c''), (''verdict'', PStr verdict), (''line'', PInt 7),
      (''smoke'', PBool False), (''passed'', PBool passed),
      (''provers'', PList [PDict [(''prover'', PStr ''p''), (''time'', PInt 1), (''success'', PInt 1)]])]"

definition sample_row :: "string \<Rightarrow> prow" where
  "sample_row status = \<lparr>p_path = ''a.c'', p_file = ''a.c'', p_directory = ''.'', p_line = 7, p_function = ''f'',
     p_kind = ''postcondition'', p_status = status, p_outcome = OUnknown, p_property = ''x'', p_names = [],
     p_report_row = 2, p_occurrences = [], p_ambiguous = False\<rparr>"

definition sample_target :: "string \<Rightarrow> string list \<Rightarrow> pydict" where
  "sample_target role invalid = [(''id'', PStr ''t''), (''analysis'', PStr ''wp''), (''role'', PStr role),
     (''functions'', PList [PStr ''f'']), (''required_properties'', PList [PStr ''f_ensures'']),
     (''expected_invalid'', PList (map PStr invalid))]"

definition sample_proof :: "evaluation res" where
  "sample_proof = evaluate_target plain_host (sample_target ''proof'' []) (PList [sample_wp_goal ''valid'' True])
     (Some [Some (sample_row ''Valid'')]) (PInt 0) (PList []) PNone PNone"

definition sample_calibration :: "evaluation res" where
  "sample_calibration = evaluate_target plain_host (sample_target ''calibration'' [''f_ensures''])
     (PList [sample_wp_goal ''invalid'' False]) (Some [Some (sample_row ''Invalid'')]) (PInt 0) (PList []) PNone PNone"

lemma sample_proof_run: "map_sum id (\<lambda>e. (e_verified e, e_status e)) sample_proof = Inr (True, ''passed'')"
  by code_simp

lemma sample_calibration_run:
  "map_sum id (\<lambda>e. (e_verified e, e_local_passed e, e_status e)) sample_calibration = Inr (False, True, ''calibration-passed'')"
  by code_simp

lemma verified_wp_complete_witness:
  "\<exists>goals. wp_rows plain_host (PList [sample_wp_goal ''valid'' True]) = Inr goals
     \<and> rows_proved [''f''] (normalized_rows (Some [Some (sample_row ''Valid'')]))"
proof -
  obtain e where e: "sample_proof = Inr e" "e_verified e"
    using sample_proof_run unfolding map_sum_Inr by auto
  have "dget (sample_target ''proof'' []) ''analysis'' = PStr ''wp''"
    "target_names (sample_target ''proof'' []) = Some ([''f''], [''f''], [''f_ensures''])" by code_simp+
  with verified_wp_complete [OF e(1) [unfolded sample_proof_def] e(2)] show ?thesis by auto
qed



end
