(* ===== verification/Report_Companions.thy ===== *)
theory Report_Companions
  imports Report_Evaluate
begin

text \<open>
  \<^verbatim>\<open>fragma/report.py\<close>, \<^verbatim>\<open>finalize_companions\<close>: a calibration whose provers left a declared property
  unresolved waits for a companion target that established the mapped invalidity by another
  analysis. The records are copied once and then updated in place, in their order, and the look-up
  by target sees the updates; so the state of the walk is the whole list of records.
\<close>

section \<open>When a companion settles a record\<close>

definition waiting :: "evaluation \<Rightarrow> bool" where
  "waiting r = (truthy (e_required_companion r) \<and> e_status r = ''needs-companion'')"

definition py_subset :: "py list \<Rightarrow> py list \<Rightarrow> bool" where
  "py_subset xs ys = (\<forall>x\<in>set xs. \<exists>y\<in>set ys. py_eq x y)"

text \<open>The names the waiting record maps its unresolved properties to; \<open>None\<close> when not \<open>mapped\<close>.\<close>

definition mapped_names :: "evaluation \<Rightarrow> string list option res" where
  "mapped_names r = (case (e_companion_map r, e_expected_unresolved r) of
     (PDict d, PList (u # us)) \<Rightarrow>
       bind_res (py_set (PList (u # us))) (\<lambda>names. Inr
         (if set (map PStr (keys d)) = set names
          then (case those_all (map (as_str \<circ> snd) d) of
                 Some vs \<Rightarrow> if [] \<in> set vs then None else Some vs | None \<Rightarrow> None)
          else None))
   | _ \<Rightarrow> Inr None)"

definition companion_passed :: "evaluation \<Rightarrow> bool" where
  "companion_passed c = (e_accepted c \<and> e_local_passed c \<and> \<not> e_verified c
     \<and> e_status c = ''calibration-passed'' \<and> e_role c = PStr ''calibration'')"

definition reason_given :: "evaluation \<Rightarrow> bool" where
  "reason_given r = (case e_mapping_reason r of PStr s \<Rightarrow> not_blank s | _ \<Rightarrow> False)"

definition same_functions :: "evaluation \<Rightarrow> evaluation \<Rightarrow> bool res" where
  "same_functions r c =
     (if \<not> truthy (e_functions r) then Inr False
      else bind_res (py_set (e_functions c)) (\<lambda>cs. bind_res (py_set (e_functions r)) (\<lambda>rs.
        Inr (py_subset cs rs \<and> py_subset rs cs))))"

definition settles :: "evaluation \<Rightarrow> evaluation option \<Rightarrow> bool res" where
  "settles r companion =
     bind_res (mapped_names r) (\<lambda>mapped. case (mapped, companion) of
       (Some names, Some c) \<Rightarrow>
         if \<not> e_local_passed r \<or> \<not> reason_given r \<or> \<not> companion_passed c \<or> e_role r \<noteq> PStr ''calibration''
            \<or> \<not> set names \<subseteq> set (e_confirmed_invalid c)
         then Inr False
         else bind_res (py_set (e_expected_invalid c)) (\<lambda>negative.
           if \<not> set (map PStr names) \<subseteq> set negative \<or> \<not> py_eq (e_profile c) (e_profile r)
              \<or> \<not> py_eq (e_source c) (e_source r)
           then Inr False
           else bind_res (same_functions r c) (\<lambda>same. Inr (same \<and> \<not> py_eq (e_analysis c) (e_analysis r))))
     | _ \<Rightarrow> Inr False)"

definition promoted :: "evaluation \<Rightarrow> evaluation \<Rightarrow> evaluation" where
  "promoted r c = r\<lparr>e_accepted := True, e_verified := False, e_status := ''calibration-passed'',
     e_companion := Some (e_required_companion r, e_companion_map r, e_confirmed_invalid c, e_mapping_reason r)\<rparr>"

definition demoted :: "evaluation \<Rightarrow> evaluation" where
  "demoted r = r\<lparr>e_accepted := False, e_verified := False, e_status := ''incomplete'',
     e_issues := e_issues r @ [mk_issue ''incomplete''
       ''Independent invalidating calibration companion is missing, failed, or does not establish the exact mapped properties''
       [(''companion'', e_required_companion r)]]\<rparr>"

definition find_target :: "evaluation list \<Rightarrow> py \<Rightarrow> evaluation option" where
  "find_target rs i = find (\<lambda>r. py_eq (e_target_id r) i) rs"

definition settle_step :: "evaluation list \<Rightarrow> nat \<Rightarrow> evaluation list res" where
  "settle_step rs i = (let r = rs ! i in
     if \<not> waiting r then Inr rs
     else if \<not> hashable (e_required_companion r) then Inl (Exn TypeError ''unhashable type'')
     else (let c = find_target rs (e_required_companion r) in
       bind_res (settles r c) (\<lambda>ok.
         Inr (rs[i := (case (ok, c) of (True, Some c') \<Rightarrow> promoted r c' | _ \<Rightarrow> demoted r)]))))"

fun ids_distinct :: "py list \<Rightarrow> bool" where
  "ids_distinct [] = True"
| "ids_distinct (x # xs) = (list_all (\<lambda>y. \<not> py_eq x y) xs \<and> ids_distinct xs)"

definition finalize_companions :: "evaluation list \<Rightarrow> evaluation list res" where
  "finalize_companions rs =
     (if \<not> list_all (hashable \<circ> e_target_id) rs then Inl (Exn TypeError ''unhashable type'')
      else if \<not> ids_distinct (map e_target_id rs) then Inl (report_error ''Duplicate target IDs during companion policy'')
      else foldM settle_step rs [0..<length rs])"

section \<open>Uncertainty never becomes a refutation by itself\<close>

text \<open>What a record may have become, given the other records.\<close>

definition confirmed_by :: "evaluation \<Rightarrow> evaluation \<Rightarrow> bool" where
  "confirmed_by r c \<longleftrightarrow> companion_passed c
     \<and> (\<exists>names. mapped_names r = Inr (Some names) \<and> set names \<subseteq> set (e_confirmed_invalid c))
     \<and> \<not> py_eq (e_analysis c) (e_analysis r)"

definition settled :: "evaluation list \<Rightarrow> evaluation \<Rightarrow> evaluation \<Rightarrow> bool" where
  "settled rs r r' \<longleftrightarrow>
     (if waiting r then
        (r' = demoted r) \<or> (\<exists>c\<in>set rs. py_eq (e_target_id c) (e_required_companion r) \<and> confirmed_by r c \<and> r' = promoted r c)
      else r' = r)"

lemma settles_confirmed: "settles r (Some c) = Inr True \<Longrightarrow> confirmed_by r c"
  by (auto simp: settles_def confirmed_by_def res_simps split: option.splits if_splits)

lemma settles_None: "settles r None \<noteq> Inr True"
  by (auto simp: settles_def res_simps split: option.splits)

lemma settle_step_cases:
  assumes "settle_step rs i = Inr rs'" and "i < length rs"
  shows "(\<not> waiting (rs ! i) \<and> rs' = rs) \<or> (waiting (rs ! i) \<and> (\<exists>r'. rs' = rs[i := r'] \<and> settled rs (rs ! i) r'))"
proof (cases "waiting (rs ! i)")
  case True
  let ?c = "find_target rs (e_required_companion (rs ! i))"
  obtain ok where ok: "settles (rs ! i) ?c = Inr ok"
      "rs' = rs[i := (case (ok, ?c) of (True, Some c') \<Rightarrow> promoted (rs ! i) c' | _ \<Rightarrow> demoted (rs ! i))]"
    using assms True by (auto simp: settle_step_def Let_def res_simps split: if_splits)
  show ?thesis
  proof (cases "ok \<and> ?c \<noteq> None")
    case True
    then obtain c where c: "?c = Some c" "ok" by auto
    then have "c \<in> set rs" "py_eq (e_target_id c) (e_required_companion (rs ! i))"
      by (auto simp: find_target_def find_Some_iff)
    with ok c settles_confirmed \<open>waiting (rs ! i)\<close> show ?thesis by (auto simp: settled_def)
  next
    case False
    then have "rs' = rs[i := demoted (rs ! i)]" using ok(2) by (auto split: bool.splits option.splits)
    with \<open>waiting (rs ! i)\<close> show ?thesis by (auto simp: settled_def)
  qed
qed (use assms in \<open>simp add: settle_step_def\<close>)

lemma passed_not_waiting: "companion_passed c \<Longrightarrow> \<not> waiting c"
  by (simp add: companion_passed_def waiting_def)

lemma settled_update:
  assumes "settled rs r r'" and "waiting (rs ! i)" and "i < length rs"
  shows "settled (rs[i := x]) r r'"
proof (cases "waiting r \<and> r' \<noteq> demoted r")
  case True
  then obtain c where c: "c \<in> set rs" "py_eq (e_target_id c) (e_required_companion r)" "confirmed_by r c" "r' = promoted r c"
    using assms(1) by (auto simp: settled_def)
  then have "\<not> waiting c" by (simp add: confirmed_by_def passed_not_waiting)
  with c(1) assms(2,3) have "c \<in> set (rs[i := x])"
    by (metis in_set_conv_nth length_list_update nth_list_update_neq)
  with c True show ?thesis unfolding settled_def by auto
qed (use assms(1) in \<open>auto simp: settled_def\<close>)

definition walk_inv :: "evaluation list \<Rightarrow> nat list \<Rightarrow> evaluation list \<Rightarrow> bool" where
  "walk_inv rs0 seen rs \<longleftrightarrow> length rs = length rs0
     \<and> (\<forall>j<length rs0. if j \<in> set seen then settled rs (rs0 ! j) (rs ! j) else rs ! j = rs0 ! j)"

lemma walk_inv_step:
  assumes inv: "walk_inv rs0 seen rs" and "settle_step rs i = Inr rs'" and "i < length rs0" and "i \<notin> set seen"
  shows "walk_inv rs0 (seen @ [i]) rs'"
proof -
  have len: "length rs = length rs0" and i: "rs ! i = rs0 ! i"
    using inv assms(3,4) by (auto simp: walk_inv_def)
  from settle_step_cases [OF assms(2)] assms(3) len
  consider "\<not> waiting (rs ! i)" "rs' = rs"
    | x where "waiting (rs ! i)" "rs' = rs[i := x]" "settled rs (rs ! i) x" by auto
  then show ?thesis
  proof cases
    case 1
    then have "settled rs' (rs0 ! i) (rs' ! i)" using i by (simp add: settled_def)
    with inv 1(2) i show ?thesis by (auto simp: walk_inv_def)
  next
    case 2
    have up: "settled rs' r r'" if "settled rs r r'" for r r'
      using settled_update [OF that 2(1)] assms(3) len by (simp add: 2(2))
    then have "settled rs' (rs0 ! i) (rs' ! i)" using 2 i assms(3) len by simp
    with inv up assms(3,4) len show ?thesis by (auto simp: walk_inv_def 2(2) nth_list_update)
  qed
qed

text \<open>
  C2. \<^verbatim>\<open>finalize_companions\<close> returns one record per record, in order, and changes only those that
  wait for a companion: such a record ends as incomplete, or as a passed calibration with a
  companion among the returned records that itself passed as a calibration, by another analysis,
  and confirmed every mapped property invalid. Either way it is not verified, so solver uncertainty
  never turns into a verdict about the kernel.
\<close>

theorem finalize_companions_sound:
  assumes "finalize_companions rs = Inr rs'"
  shows "length rs' = length rs \<and> (\<forall>j<length rs. settled rs' (rs ! j) (rs' ! j))"
proof -
  have fold: "foldM settle_step rs [0..<length rs] = Inr rs'"
    using assms by (simp add: finalize_companions_def split: if_splits)
  have "(\<lambda>seen s. (\<exists>k. seen = [0..<k]) \<longrightarrow> walk_inv rs seen s) ([] @ [0..<length rs]) rs'"
  proof (rule foldM_prefix_invariant [OF fold])
    show "(\<exists>k. [] = [0..<k]) \<longrightarrow> walk_inv rs [] rs" by (simp add: walk_inv_def)
    fix ys s x s'
    assume IH: "(\<exists>k. ys = [0..<k]) \<longrightarrow> walk_inv rs ys s" and x: "x \<in> set [0..<length rs]" "settle_step s x = Inr s'"
    show "(\<exists>k. ys @ [x] = [0..<k]) \<longrightarrow> walk_inv rs (ys @ [x]) s'"
    proof (rule impI, elim exE)
      fix k assume k: "ys @ [x] = [0..<k]"
      then obtain m where m: "k = Suc m" by (cases k) auto
      with k have "ys = [0..<m]" "x = m" by auto
      with IH x show "walk_inv rs (ys @ [x]) s'" by (auto intro: walk_inv_step)
    qed
  qed
  then have "walk_inv rs [0..<length rs] rs'" by auto
  then show ?thesis by (auto simp: walk_inv_def)
qed

text \<open>A calibration that waits, and the companion that settles it.\<close>

definition sample_waiting :: evaluation where
  "sample_waiting = (initial_evaluation
     [(''id'', PStr ''w''), (''role'', PStr ''calibration''), (''analysis'', PStr ''wp''), (''functions'', PList [PStr ''f'']),
      (''required_companion'', PStr ''c''), (''expected_unresolved'', PList [PStr ''p'']),
      (''companion_property_map'', PDict [(''p'', PStr ''q'')]), (''companion_mapping_reason'', PStr ''same claim'')])
     \<lparr>e_local_passed := True, e_status := ''needs-companion''\<rparr>"

definition sample_companion :: evaluation where
  "sample_companion = (initial_evaluation
     [(''id'', PStr ''c''), (''role'', PStr ''calibration''), (''analysis'', PStr ''eva''), (''functions'', PList [PStr ''f'']),
      (''expected_invalid'', PList [PStr ''q''])])
     \<lparr>e_local_passed := True, e_accepted := True, e_status := ''calibration-passed'', e_confirmed_invalid := [''q'']\<rparr>"

lemma finalize_companions_sound_witness:
  "map_sum id (map e_status) (finalize_companions [sample_waiting, sample_companion])
     = Inr [''calibration-passed'', ''calibration-passed'']
   \<and> settled (projr (finalize_companions [sample_waiting, sample_companion])) sample_waiting
       (projr (finalize_companions [sample_waiting, sample_companion]) ! 0)"
proof -
  have run: "map_sum id (map e_status) (finalize_companions [sample_waiting, sample_companion])
      = Inr [''calibration-passed'', ''calibration-passed'']" by code_simp
  then obtain rs where rs: "finalize_companions [sample_waiting, sample_companion] = Inr rs"
    unfolding map_sum_Inr by blast
  have "settled rs ([sample_waiting, sample_companion] ! 0) (rs ! 0)"
    using finalize_companions_sound [OF rs] by (metis length_Cons zero_less_Suc)
  then show ?thesis using run by (simp add: rs)
qed

end
