(* ===== verification/Analysis_Policy.thy ===== *)
theory Analysis_Policy
  imports Host
begin

text \<open>
  \<^verbatim>\<open>fragma/analysis_policy.py\<close>: the closed analysis semantics. A model must declare exactly one
  memory model, arithmetic policy and run-time check policy; a target declares a pipeline
  (WP with RTE guards, Eva, or RTE before Eva); the command line that was really run and the
  parameters Frama-C audited must agree with both. The policy constants come first, then the
  declared identities, then the check of the actual command.
\<close>

section \<open>Constants\<close>

definition ARITHMETIC_FLAGS :: "string list" where
  "ARITHMETIC_FLAGS =
     [''-no-warn-signed-overflow'', ''-no-warn-unsigned-overflow'',
      ''-no-warn-signed-downcast'', ''-no-warn-unsigned-downcast'',
      ''-no-warn-right-shift-negative'']"

definition RUNTIME_CHECKS :: pydict where
  "RUNTIME_CHECKS = [(''pointer_formation'', PStr ''object-or-null'')]"

definition SEMANTIC_KEYS :: "string list" where
  "SEMANTIC_KEYS = [''wp_model'', ''arithmetic_flags'', ''runtime_checks'']"

definition DOCUMENTARY_KEYS :: "string list" where
  "DOCUMENTARY_KEYS = [''shift_count_validity'', ''signed_arithmetic'', ''pointer_arithmetic'']"

definition GENERATED_KEYS :: "string list" where
  "GENERATED_KEYS = [''machdep'', ''cpp_command'', ''cpp_extra_args'',
     ''calibration_cpp_extra_args'', ''compiler_flags'']"

definition POINTER_FLAG :: string where
  "POINTER_FLAG = ''-warn-invalid-pointer''"

definition SEMANTIC_OPTIONS :: "string list" where
  "SEMANTIC_OPTIONS =
     [''warn-signed-overflow'', ''warn-unsigned-overflow'', ''warn-signed-downcast'',
      ''warn-unsigned-downcast'', ''warn-right-shift-negative'', ''warn-invalid-pointer'']"

definition STAGE_OPTIONS :: "string list" where
  "STAGE_OPTIONS =
     [''-wp'', ''-no-wp'', ''-eva'', ''-no-eva'', ''-rte'', ''-no-rte'', ''-wp-model'',
      ''-wp-fct'', ''-wp-rte'', ''-wp-no-rte'', ''-main'', ''-eva-slevel'', ''-rte-select'',
      ''-rte-use-eva-results'', ''-rte-no-use-eva-results'', ''-then'']"

section \<open>Declared identities\<close>

text \<open>\<^verbatim>\<open>raise AnalysisPolicyError(m)\<close>\<close>

abbreviation policy_error :: "string \<Rightarrow> exn" where
  "policy_error m \<equiv> Exn AnalysisPolicyError m"

definition model_identity :: "py \<Rightarrow> pydict res" where
  "model_identity analysis = (case analysis of
     PDict d \<Rightarrow>
       if \<not> set (keys d) \<subseteq> set (SEMANTIC_KEYS @ DOCUMENTARY_KEYS @ GENERATED_KEYS)
       then Inl (policy_error ''unknown analysis-policy setting'')
       else if \<not> py_eq (dget d ''wp_model'') (PStr ''Typed'')
       then Inl (policy_error ''unsupported WP memory model'')
       else if \<not> py_eq (dget d ''arithmetic_flags'') (PList (map PStr ARITHMETIC_FLAGS))
       then Inl (policy_error ''unsupported or incomplete arithmetic policy'')
       else if \<not> is_dict (dget d ''runtime_checks'')
               \<or> \<not> py_eq (dget d ''runtime_checks'') (PDict RUNTIME_CHECKS)
       then Inl (policy_error ''missing or unsupported runtime-check policy'')
       else Inr (map (\<lambda>k. (k, dget d k)) SEMANTIC_KEYS)
   | _ \<Rightarrow> Inl (policy_error ''unknown analysis-policy setting''))"

definition analyzer_flags :: "py \<Rightarrow> string list res" where
  "analyzer_flags analysis =
     bind_res (model_identity analysis) (\<lambda>identity.
       case as_strs (dget identity ''arithmetic_flags'') of
         None \<Rightarrow> Inl (Exn TypeError ''arithmetic_flags'')
       | Some flags \<Rightarrow> Inr (flags @ [POINTER_FLAG]))"

text \<open>\<^verbatim>\<open>_functions\<close>: a nonempty list of distinct C identifiers.\<close>

definition functions_of :: "py \<Rightarrow> string \<Rightarrow> string list res" where
  "functions_of value field = (case as_strs value of
     None \<Rightarrow> Inl (policy_error (''invalid or empty '' @ field))
   | Some names \<Rightarrow>
       if names = [] \<or> \<not> list_all is_ident names \<or> \<not> distinct names
       then Inl (policy_error (''invalid or empty '' @ field))
       else Inr names)"

record eva_settings =
  entry :: string
  eva_slevel :: nat
  eva_builtins :: "string list"
  eva_auto_builtins :: bool

text \<open>
  The plan of \<^verbatim>\<open>pipeline_identity\<close>: the value of its \<open>kind\<close> entry selects the constructor. An
  \<^verbatim>\<open>rte-eva\<close> plan also holds \<open>rte_functions\<close>; its \<open>rte_use_eva_results\<close> is always \<open>False\<close>.
\<close>

datatype pipeline =
    WpRte "string list"
  | EvaOnly eva_settings
  | RteEva eva_settings "string list"

text \<open>An explicit builtin override is \<^verbatim>\<open>ident:ident\<close>.\<close>

definition is_builtin_pair :: "string \<Rightarrow> bool" where
  "is_builtin_pair s = (CHR '':'' \<in> set s \<and> is_ident (before CHR '':'' s) \<and> is_ident (after CHR '':'' s))"

definition eva_identity :: "pydict \<Rightarrow> string \<Rightarrow> string list \<Rightarrow> pipeline res" where
  "eva_identity target kind selected =
     (case dget target ''entry'' of
        PStr e \<Rightarrow>
          if \<not> is_ident e then Inl (policy_error ''invalid EVA entry'')
          else (case as_strs (dget_or target ''eva_builtins'' (PList [])) of
             None \<Rightarrow> Inl (policy_error ''invalid explicit EVA builtin inventory'')
           | Some builtins \<Rightarrow>
               if \<not> list_all is_builtin_pair builtins
                  \<or> \<not> distinct (map (before CHR '':'') builtins)
               then Inl (policy_error ''invalid explicit EVA builtin inventory'')
               else (case dget_or target ''eva_auto_builtins'' (PBool True) of
                  PBool auto_builtins \<Rightarrow>
                    let settings = \<lparr>entry = e, eva_slevel = 100, eva_builtins = builtins,
                                    eva_auto_builtins = auto_builtins\<rparr>
                    in Inr (if kind = ''rte-eva''
                            then RteEva settings (selected @ (if e \<in> set selected then [] else [e]))
                            else EvaOnly settings)
                | _ \<Rightarrow> Inl (policy_error ''EVA auto-builtins setting must be Boolean'')))
      | _ \<Rightarrow> Inl (policy_error ''invalid EVA entry''))"

definition pipeline_identity :: "py \<Rightarrow> pipeline res" where
  "pipeline_identity t = (case t of
     PDict target \<Rightarrow>
       let analysis = dget target ''analysis'' in
       if analysis \<notin> {PStr ''wp'', PStr ''eva''}
       then Inl (policy_error ''unsupported target analysis'')
       else
         let wp = (analysis = PStr ''wp'');
             default_kind = (if wp then ''wp-rte'' else ''eva'');
             declared = dget_or target ''analysis_pipeline'' (PDict [(''kind'', PStr default_kind)]);
             allowed = (if wp then [''wp-rte''] else [''eva'', ''rte-eva''])
         in (case declared of
              PDict decl \<Rightarrow>
                if set (keys decl) \<noteq> {''kind''}
                   \<or> dget decl ''kind'' \<notin> set (map PStr allowed)
                then Inl (policy_error ''unsupported analysis pipeline'')
                else bind_res (functions_of (dget target ''functions'') ''kernel function inventory'')
                 (\<lambda>kernel_functions. bind_res
                   (functions_of (dget_or target ''analysis_functions'' (PList (map PStr kernel_functions)))
                      ''analysis function inventory'') (\<lambda>selected.
                    if \<not> set kernel_functions \<subseteq> set selected
                    then Inl (policy_error ''analysis inventory omits a selected kernel function'')
                    else if wp
                    then (if has_key target ''eva_builtins'' \<or> has_key target ''eva_auto_builtins''
                          then Inl (policy_error ''EVA-specific settings on a WP target'')
                          else Inr (WpRte selected))
                    else (case dget decl ''kind'' of
                            PStr kind \<Rightarrow> eva_identity target kind selected
                          | _ \<Rightarrow> Inl (policy_error ''unsupported analysis pipeline''))))
            | _ \<Rightarrow> Inl (policy_error ''unsupported analysis pipeline''))
   | _ \<Rightarrow> Inl (policy_error ''target must be an object''))"

definition before_eva_options :: "py \<Rightarrow> string list res" where
  "before_eva_options target =
     bind_res (pipeline_identity target) (\<lambda>pipeline. case pipeline of
       RteEva settings rte_functions \<Rightarrow>
         Inr [''-rte'', ''-rte-select'', join '','' rte_functions, ''-rte-no-use-eva-results'', ''-then'']
     | _ \<Rightarrow> Inr [])"

section \<open>The command that was really run\<close>

text \<open>\<^verbatim>\<open>arg.lstrip("-").removeprefix("no-").split("=", 1)[0]\<close>\<close>

definition option_name :: "string \<Rightarrow> string" where
  "option_name arg = before CHR ''='' (remove_prefix ''no-'' (lstrip_char CHR ''-'' arg))"

definition is_semantic_flag :: "string \<Rightarrow> bool" where
  "is_semantic_flag arg = (option_name arg \<in> set SEMANTIC_OPTIONS)"

definition opposing_stage :: "string list" where
  "opposing_stage = [''-no-wp'', ''-no-eva'', ''-no-rte'', ''-wp-no-rte'', ''-rte-use-eva-results'']"

text \<open>The index of the first analysis phase, the length of the command when it has none.\<close>

fun first_analysis :: "string list \<Rightarrow> nat" where
  "first_analysis [] = 0"
| "first_analysis (a # as) =
     (if a \<in> {''-wp'', ''-rte'', ''-eva''} then 0 else Suc (first_analysis as))"

definition audit_required :: "(string \<times> string) list" where
  "audit_required =
     map (\<lambda>flag. (remove_prefix ''-no'' flag, ''false'')) ARITHMETIC_FLAGS @ [(POINTER_FLAG, ''true'')]"

text \<open>
  The audited parameters are indexed twice; the \<^verbatim>\<open>KeyError\<close> or \<^verbatim>\<open>TypeError\<close> of a missing or
  malformed entry becomes a policy error.
\<close>

definition audited_correctness :: "py \<Rightarrow> pydict res" where
  "audited_correctness audit =
     (case bind_res (pindex audit ''eva'') (\<lambda>e. pindex e ''correctness-parameters'') of
        Inl e \<Rightarrow> Inl (policy_error ''missing actual correctness audit'')
      | Inr (PDict correctness) \<Rightarrow>
          if \<exists>(k, v) \<in> set audit_required. \<not> py_eq (dget correctness k) (PStr v)
          then Inl (policy_error ''actual audited semantic settings differ'')
          else Inr correctness
      | Inr _ \<Rightarrow> Inl (policy_error ''missing actual correctness audit''))"

definition check_model_command :: "py \<Rightarrow> py \<Rightarrow> py \<Rightarrow> (pydict \<times> pydict \<times> string list) res" where
  "check_model_command analysis command audit =
     bind_res (model_identity analysis) (\<lambda>identity.
       case as_strs command of
         None \<Rightarrow> Inl (policy_error ''analysis command is not an argv array'')
       | Some argv \<Rightarrow>
           if \<exists>a\<in>set argv. CHR ''='' \<in> set a \<and> before CHR ''='' a \<in> set STAGE_OPTIONS
           then Inl (policy_error ''noncanonical analysis option spelling'')
           else if \<exists>a\<in>set argv. starts_with ''-then'' a \<and> a \<noteq> ''-then''
           then Inl (policy_error ''unregistered project or phase selector'')
           else if \<exists>a\<in>set argv. a \<in> set opposing_stage
           then Inl (policy_error ''opposing analysis stage control'')
           else bind_res (analyzer_flags analysis) (\<lambda>expected_flags.
             if filter is_semantic_flag argv \<noteq> expected_flags
             then Inl (policy_error ''actual semantic flags are missing, duplicated or contradictory'')
             else if first_analysis argv = length argv
                  \<or> (\<exists>flag\<in>set expected_flags. first_analysis argv \<le> index_of flag argv)
             then Inl (policy_error ''semantic flags must precede every analysis phase'')
             else bind_res (audited_correctness audit) (\<lambda>correctness.
               Inr (identity, correctness, argv))))"

definition report_tail :: "string list" where
  "report_tail = [''-then'', ''-report'', ''-report-absolute-path'', ''-report-csv'']"

definition report_phase_ok :: "string list \<Rightarrow> bool" where
  "report_phase_ok argv =
     (5 \<le> length argv \<and> take 4 (drop (length argv - 5) argv) = report_tail
      \<and> is_absolute (last argv) \<and> (\<forall>option\<in>set (tl report_tail). count_list argv option = 1))"

text \<open>The nested \<^verbatim>\<open>argument(option)\<close>: the value that follows the only occurrence of an option.\<close>

definition argument_of :: "string list \<Rightarrow> string \<Rightarrow> string res" where
  "argument_of argv option =
     (if count_list argv option \<noteq> 1 \<or> index_of option argv + 1 = length argv
      then Inl (policy_error (''missing or duplicated analysis selector: '' @ option))
      else Inr (argv ! (index_of option argv + 1)))"

definition builtin_prefixes :: "string list" where
  "builtin_prefixes = [''eva-builtin'', ''eva-no-builtin'', ''no-eva-builtin'',
     ''val-builtin'', ''val-no-builtin'', ''no-val-builtin'']"

definition is_builtin_control :: "string \<Rightarrow> bool" where
  "is_builtin_control arg =
     (\<exists>p\<in>set builtin_prefixes. starts_with p (lstrip_char CHR ''-'' (before CHR ''='' arg)))"

text \<open>The Eva phase a plan prescribes (\<^verbatim>\<open>expected_eva\<close>).\<close>

definition expected_eva :: "eva_settings \<Rightarrow> string list" where
  "expected_eva s =
     [''-eva'', ''-main'', entry s, ''-eva-slevel'', nat_str (eva_slevel s)]
     @ (if eva_auto_builtins s then [] else [''-eva-no-builtins-auto''])
     @ (if eva_builtins s = [] then [] else [''-eva-builtin'', join '','' (eva_builtins s)])"

definition audited_overrides :: "eva_settings \<Rightarrow> string" where
  "audited_overrides s =
     (let overrides = join '','' (eva_builtins s)
      in if overrides = [] then [] else ''@default,'' @ overrides)"

definition is_rte_option :: "string \<Rightarrow> bool" where
  "is_rte_option a = (a = ''-rte'' \<or> starts_with ''-rte-'' a)"

definition check_wp_selection :: "string \<Rightarrow> string list \<Rightarrow> string list \<Rightarrow> unit res" where
  "check_wp_selection model functions argv =
     (let differs = policy_error ''actual WP/RTE function selection differs'' in
      if count_list argv ''-wp'' \<noteq> 1 \<or> ''-eva'' \<in> set argv \<or> count_list argv ''-wp-rte'' \<noteq> 1
      then Inl differs
      else bind_res (argument_of argv ''-wp-model'') (\<lambda>m.
        if m \<noteq> model then Inl differs
        else bind_res (argument_of argv ''-wp-fct'') (\<lambda>f. check (f = join '','' functions) differs)))"

definition check_eva_selection :: "eva_settings \<Rightarrow> string list \<Rightarrow> unit res" where
  "check_eva_selection s argv =
     (let differs = policy_error ''actual EVA selection or precision differs'' in
      if count_list argv ''-eva'' \<noteq> 1 \<or> ''-wp'' \<in> set argv
         \<or> (\<exists>arg\<in>{''-wp-model'', ''-wp-fct'', ''-wp-rte''}. arg \<in> set argv)
      then Inl differs
      else bind_res (argument_of argv ''-main'') (\<lambda>m.
        if m \<noteq> entry s then Inl differs
        else bind_res (argument_of argv ''-eva-slevel'') (\<lambda>l.
          check (l = nat_str (eva_slevel s)) differs)))"

definition check_eva_audit :: "eva_settings \<Rightarrow> pydict \<Rightarrow> unit res" where
  "check_eva_audit s correctness =
     (if \<not> py_eq (dget correctness ''-main'') (PStr (entry s))
      then Inl (policy_error ''actual audited EVA entry differs'')
      else check
        (py_eq (dget correctness ''-eva-builtins-auto'')
           (PStr (if eva_auto_builtins s then ''true'' else ''false''))
         \<and> py_eq (dget correctness ''-eva-builtin'') (PStr (audited_overrides s)))
        (policy_error ''actual audited EVA builtin semantics differ''))"

text \<open>
  \<^verbatim>\<open>argv[eva_index:-5] == expected_eva\<close>, and no builtin control before the Eva phase.
\<close>

definition check_eva_phase :: "eva_settings \<Rightarrow> string list \<Rightarrow> unit res" where
  "check_eva_phase s argv =
     (let i = index_of ''-eva'' argv in
      check (take (length argv - 5 - i) (drop i argv) = expected_eva s
             \<and> \<not> (\<exists>a\<in>set (take i argv). is_builtin_control a))
        (policy_error ''actual EVA phase or builtin controls differ''))"

definition check_rte_stage :: "string list \<Rightarrow> string list \<Rightarrow> unit res" where
  "check_rte_stage rte_prefix argv =
     check (count_list argv ''-rte'' = 1 \<and> count_list argv ''-eva'' = 1
            \<and> filter is_rte_option argv = [''-rte'', ''-rte-select'', ''-rte-no-use-eva-results'']
            \<and> take (index_of ''-eva'' argv - index_of ''-rte'' argv) (drop (index_of ''-rte'' argv) argv)
                = rte_prefix
            \<and> count_list argv ''-then'' = 2)
       (policy_error ''RTE must precede EVA exactly once without result reuse'')"

definition check_no_rte_stage :: "string list \<Rightarrow> unit res" where
  "check_no_rte_stage argv =
     check (filter is_rte_option argv = [] \<and> count_list argv ''-then'' = 1)
       (policy_error ''unregistered analysis stage'')"

text \<open>The receipt both validators return.\<close>

record policy_receipt =
  checked_model :: pydict
  checked_pipeline :: "pipeline option"
  actual_pointer_formation :: string

definition validate_actual_model_policy :: "py \<Rightarrow> py \<Rightarrow> py \<Rightarrow> policy_receipt res" where
  "validate_actual_model_policy analysis command audit =
     bind_res (check_model_command analysis command audit) (\<lambda>(identity, correctness, argv).
       Inr \<lparr>checked_model = identity, checked_pipeline = None, actual_pointer_formation = ''true''\<rparr>)"

definition check_engine :: "string \<Rightarrow> string list \<Rightarrow> unit res" where
  "check_engine engine argv =
     check (engine \<in> set argv \<and> index_of engine argv < length argv - 5)
       (policy_error ''analysis engine must precede the final report phase'')"

definition validate_pipeline :: "pydict \<Rightarrow> pydict \<Rightarrow> string list \<Rightarrow> pipeline \<Rightarrow> unit res" where
  "validate_pipeline identity correctness argv pipeline = (case pipeline of
     WpRte functions \<Rightarrow>
       bind_res (check_engine ''-wp'' argv) (\<lambda>_.
       bind_res (case dget identity ''wp_model'' of
                   PStr m \<Rightarrow> check_wp_selection m functions argv
                 | _ \<Rightarrow> Inl (policy_error ''actual WP/RTE function selection differs'')) (\<lambda>_.
       bind_res (check (\<not> (\<exists>a\<in>set argv. is_builtin_control a))
                   (policy_error ''EVA builtin controls on a WP command'')) (\<lambda>_.
       check_no_rte_stage argv)))
   | EvaOnly s \<Rightarrow>
       bind_res (check_engine ''-eva'' argv) (\<lambda>_.
       bind_res (check_eva_audit s correctness) (\<lambda>_.
       bind_res (check_eva_selection s argv) (\<lambda>_.
       bind_res (check_eva_phase s argv) (\<lambda>_.
       check_no_rte_stage argv))))
   | RteEva s rte_functions \<Rightarrow>
       bind_res (check_engine ''-eva'' argv) (\<lambda>_.
       bind_res (check_eva_audit s correctness) (\<lambda>_.
       bind_res (check_eva_selection s argv) (\<lambda>_.
       bind_res (check_eva_phase s argv) (\<lambda>_.
       check_rte_stage [''-rte'', ''-rte-select'', join '','' rte_functions,
                        ''-rte-no-use-eva-results'', ''-then''] argv)))))"

definition validate_actual_policy :: "py \<Rightarrow> py \<Rightarrow> py \<Rightarrow> py \<Rightarrow> policy_receipt res" where
  "validate_actual_policy analysis target command audit =
     bind_res (check_model_command analysis command audit) (\<lambda>(identity, correctness, argv).
     bind_res (pipeline_identity target) (\<lambda>pipeline.
       if \<not> report_phase_ok argv
       then Inl (policy_error ''analysis must end with exactly one unchanged report phase'')
       else bind_res (validate_pipeline identity correctness argv pipeline) (\<lambda>_.
         Inr \<lparr>checked_model = identity, checked_pipeline = Some pipeline,
              actual_pointer_formation = ''true''\<rparr>)))"

section \<open>The declared model is closed\<close>

text \<open>The only semantic identity a model can have.\<close>

definition policy_model :: pydict where
  "policy_model =
     [(''wp_model'', PStr ''Typed''), (''arithmetic_flags'', PList (map PStr ARITHMETIC_FLAGS)),
      (''runtime_checks'', PDict RUNTIME_CHECKS)]"

lemma single_entry_eq: "py_eq (PDict r) (PDict [(k, PStr v)]) \<longleftrightarrow> r = [(k, PStr v)]"
  by (cases r) (auto split: if_splits option.splits)

lemma runtime_checks_eq: "is_dict v \<and> py_eq v (PDict RUNTIME_CHECKS) \<longleftrightarrow> v = PDict RUNTIME_CHECKS"
  using single_entry_eq by (auto simp: RUNTIME_CHECKS_def is_dict_iff simp del: py_eq.simps)

lemma model_identity_iff:
  "model_identity a = Inr i \<longleftrightarrow>
     (\<exists>d. a = PDict d \<and> set (keys d) \<subseteq> set (SEMANTIC_KEYS @ DOCUMENTARY_KEYS @ GENERATED_KEYS)
        \<and> dget d ''wp_model'' = PStr ''Typed''
        \<and> dget d ''arithmetic_flags'' = PList (map PStr ARITHMETIC_FLAGS)
        \<and> dget d ''runtime_checks'' = PDict RUNTIME_CHECKS
        \<and> i = policy_model)"
proof (cases a)
  case (PDict d)
  then show ?thesis
    by (auto simp: model_identity_def res_simps policy_model_def SEMANTIC_KEYS_def
        runtime_checks_eq [symmetric] simp del: set_append)
qed (auto simp: model_identity_def)

lemma policy_model_flags [simp]:
  "as_strs (dget policy_model ''arithmetic_flags'') = Some ARITHMETIC_FLAGS"
  "dget policy_model ''wp_model'' = PStr ''Typed''"
  by (simp_all add: policy_model_def del: as_strs.simps)

lemma analyzer_flags_iff:
  "analyzer_flags a = Inr fs \<longleftrightarrow>
     model_identity a = Inr policy_model \<and> fs = ARITHMETIC_FLAGS @ [POINTER_FLAG]"
proof (cases "model_identity a")
  case (Inr i)
  then have "i = policy_model" by (auto simp: model_identity_iff)
  with Inr show ?thesis by (auto simp: analyzer_flags_def)
qed (simp add: analyzer_flags_def)

section \<open>The shape of an accepted command\<close>

lemma split_at_index:
  "x \<in> set xs \<Longrightarrow> xs = take (index_of x xs) xs @ x # drop (Suc (index_of x xs)) xs"
  by (metis id_take_nth_drop index_of_less index_of_nth)

lemma not_in_take_index: "x \<notin> set (take (index_of x xs) xs)"
  by (induction xs) auto

lemma first_analysis_split:
  "first_analysis argv < length argv \<Longrightarrow>
     \<exists>pre stage post. argv = pre @ stage # post \<and> length pre = first_analysis argv
       \<and> stage \<in> {''-wp'', ''-rte'', ''-eva''} \<and> set pre \<inter> {''-wp'', ''-rte'', ''-eva''} = {}"
proof (induction argv)
  case (Cons a as)
  show ?case
  proof (cases "a \<in> {''-wp'', ''-rte'', ''-eva''}")
    case True
    then have "a # as = [] @ a # as" "length [] = first_analysis (a # as)" by auto
    with True show ?thesis by (metis Int_empty_left empty_set)
  next
    case False
    then have "first_analysis as < length as" using Cons.prems by (simp split: if_splits)
    then obtain pre stage post where "as = pre @ stage # post" "length pre = first_analysis as"
      "stage \<in> {''-wp'', ''-rte'', ''-eva''}" "set pre \<inter> {''-wp'', ''-rte'', ''-eva''} = {}"
      using Cons.IH by blast
    then have "a # as = (a # pre) @ stage # post" "length (a # pre) = first_analysis (a # as)"
      "set (a # pre) \<inter> {''-wp'', ''-rte'', ''-eva''} = {}"
      using False by auto
    with \<open>stage \<in> _\<close> show ?thesis by blast
  qed
qed simp

lemma first_analysis_le: "first_analysis argv \<le> length argv"
  by (induction argv) auto

lemma index_of_less_split:
  "index_of x (pre @ post) < length pre \<longleftrightarrow> x \<in> set pre"
  by (auto simp: index_of_append)

lemma list_length_5: "length xs = 5 \<Longrightarrow> \<exists>a b c d e. xs = [a, b, c, d, e]"
  by (auto simp: length_Suc_conv eval_nat_numeral)

lemma report_phase_split:
  "report_phase_ok argv \<longleftrightarrow>
     (\<exists>body out. argv = body @ report_tail @ [out] \<and> is_absolute out
        \<and> (\<forall>option\<in>set (tl report_tail). count_list argv option = 1))" (is "?l \<longleftrightarrow> ?r")
proof
  assume l: ?l
  define body where "body = take (length argv - 5) argv"
  have "length (drop (length argv - 5) argv) = 5" using l by (simp add: report_phase_ok_def)
  then obtain a b c d e where tl: "drop (length argv - 5) argv = [a, b, c, d, e]"
    using list_length_5 by blast
  then have argv: "argv = body @ [a, b, c, d, e]" by (metis append_take_drop_id body_def)
  moreover have "[a, b, c, d] = report_tail" using l tl by (simp add: report_phase_ok_def)
  ultimately have split: "argv = body @ report_tail @ [e]" and last: "last argv = e" by auto
  have "is_absolute e" "\<forall>option\<in>set (tl report_tail). count_list argv option = 1"
    using l unfolding report_phase_ok_def last by blast+
  with split show ?r by (intro exI conjI)
next
  assume ?r
  then obtain body out where argv: "argv = body @ report_tail @ [out]" and out: "is_absolute out"
    and cnt: "\<forall>option\<in>set (tl report_tail). count_list argv option = 1" by blast
  have "length argv = length body + 5" "take 4 (drop (length body) argv) = report_tail" "last argv = out"
    by (simp_all add: argv report_tail_def)
  with out cnt show ?l by (simp add: report_phase_ok_def)
qed

lemmas policy_check_defs = check_wp_selection_def check_eva_selection_def check_eva_audit_def
  check_eva_phase_def check_rte_stage_def check_no_rte_stage_def check_engine_def

text \<open>What the model part of the check leaves of the command.\<close>

lemma check_model_command_iff:
  "check_model_command analysis command audit = Inr (identity, correctness, argv) \<longleftrightarrow>
     model_identity analysis = Inr policy_model \<and> identity = policy_model
     \<and> command = PList (map PStr argv)
     \<and> (\<forall>a\<in>set argv. \<not> (CHR ''='' \<in> set a \<and> before CHR ''='' a \<in> set STAGE_OPTIONS)
          \<and> (starts_with ''-then'' a \<longrightarrow> a = ''-then'') \<and> a \<notin> set opposing_stage)
     \<and> filter is_semantic_flag argv = ARITHMETIC_FLAGS @ [POINTER_FLAG]
     \<and> first_analysis argv < length argv
     \<and> (\<forall>flag\<in>set (ARITHMETIC_FLAGS @ [POINTER_FLAG]). index_of flag argv < first_analysis argv)
     \<and> audited_correctness audit = Inr correctness"
proof (cases "model_identity analysis = Inr policy_model")
  case True
  then have flags: "analyzer_flags analysis = Inr (ARITHMETIC_FLAGS @ [POINTER_FLAG])"
    by (simp add: analyzer_flags_iff)
  show ?thesis
  proof (cases "as_strs command")
    case None
    then have "command \<noteq> PList (map PStr argv)" by (metis as_strs_map option.distinct(1))
    with None True show ?thesis by (simp add: check_model_command_def)
  next
    case (Some as)
    then have "command = PList (map PStr as)" by (simp add: as_strs_Some)
    with Some True flags show ?thesis
      using first_analysis_le [of as]
      by (auto simp: check_model_command_def res_simps not_less simp del: as_strs.simps set_append)
  qed
next
  case False
  then have "\<forall>i. model_identity analysis \<noteq> Inr i" by (auto simp: model_identity_iff)
  with False show ?thesis by (auto simp: check_model_command_def res_simps)
qed

lemma validate_actual_policy_iff:
  "validate_actual_policy analysis target command audit = Inr r \<longleftrightarrow>
     (\<exists>correctness argv pipeline.
        check_model_command analysis command audit = Inr (policy_model, correctness, argv)
        \<and> pipeline_identity target = Inr pipeline \<and> report_phase_ok argv
        \<and> validate_pipeline policy_model correctness argv pipeline = Inr ()
        \<and> r = \<lparr>checked_model = policy_model, checked_pipeline = Some pipeline,
                actual_pointer_formation = ''true''\<rparr>)"
  by (auto simp: validate_actual_policy_def res_simps check_model_command_iff)

lemma take_index_mono:
  assumes "argv = body @ rest" and "x \<in> set body"
  shows "index_of x argv = index_of x body" and "index_of x body < length body"
  using assms by (simp_all add: index_of_append)

text \<open>
  The Eva phase, once located, is everything between its first option and the report tail.
\<close>

lemma eva_phase_split:
  assumes "report_phase_ok argv" and "check_engine ''-eva'' argv = Inr ()"
    and "check_eva_phase s argv = Inr ()"
  obtains pre out where "argv = pre @ expected_eva s @ report_tail @ [out]"
    and "pre = take (index_of ''-eva'' argv) argv" and "\<forall>a\<in>set pre. \<not> is_builtin_control a"
    and "is_absolute out"
proof -
  let ?i = "index_of ''-eva'' argv"
  obtain body out where argv: "argv = body @ report_tail @ [out]" and out: "is_absolute out"
    using assms(1) by (auto simp: report_phase_split)
  have len: "length argv - 5 = length body" by (simp add: argv report_tail_def)
  have i: "?i < length body" using assms(2) by (simp add: check_engine_def res_simps len)
  have "expected_eva s = take (length body - ?i) (drop ?i argv)"
    using assms(3) by (simp add: check_eva_phase_def res_simps len Let_def)
  also have "\<dots> = drop ?i body" using i by (simp add: argv)
  finally have "argv = take ?i argv @ expected_eva s @ report_tail @ [out]"
    using i by (simp add: argv)
  moreover have "\<forall>a\<in>set (take ?i argv). \<not> is_builtin_control a"
    using assms(3) by (simp add: check_eva_phase_def res_simps Let_def)
  ultimately show thesis using out that by blast
qed

section \<open>A grammar of lawful commands\<close>

text \<open>
  The abstract contract of the validator: a prefix that sets exactly the policy's semantic flags
  and starts no analysis, then the stages of the plan, then one report phase.
\<close>

definition policy_flags :: "string list" where
  "policy_flags = ARITHMETIC_FLAGS @ [POINTER_FLAG]"

definition lawful_prefix :: "string list \<Rightarrow> bool" where
  "lawful_prefix pre =
     (filter is_semantic_flag pre = policy_flags
      \<and> set pre \<inter> {''-wp'', ''-rte'', ''-eva''} = {} \<and> \<not> (\<exists>a\<in>set pre. is_builtin_control a))"

definition rte_stage :: "string list \<Rightarrow> string list" where
  "rte_stage fs = [''-rte'', ''-rte-select'', join '','' fs, ''-rte-no-use-eva-results'', ''-then'']"

fun lawful_stages :: "pipeline \<Rightarrow> string list \<Rightarrow> bool" where
  "lawful_stages (WpRte fs) stages =
     (\<exists>body. stages = ''-wp'' # body
        \<and> \<not> (\<exists>a\<in>set body. a = ''-wp'' \<or> a = ''-eva'' \<or> a = ''-then''
                         \<or> is_rte_option a \<or> is_builtin_control a))"
| "lawful_stages (EvaOnly s) stages = (stages = expected_eva s)"
| "lawful_stages (RteEva s fs) stages = (stages = rte_stage fs @ expected_eva s)"

fun lawful_selectors :: "pipeline \<Rightarrow> string list \<Rightarrow> bool" where
  "lawful_selectors (WpRte fs) argv =
     (count_list argv ''-wp-rte'' = 1 \<and> argument_of argv ''-wp-model'' = Inr ''Typed''
      \<and> argument_of argv ''-wp-fct'' = Inr (join '','' fs))"
| "lawful_selectors p argv = True"

definition lawful_command :: "pipeline \<Rightarrow> string list \<Rightarrow> bool" where
  "lawful_command p argv =
     (\<exists>pre stages out. argv = pre @ stages @ report_tail @ [out] \<and> lawful_prefix pre
        \<and> lawful_stages p stages \<and> lawful_selectors p argv \<and> is_absolute out)"

lemma filter_all_in_prefix:
  assumes "filter P (pre @ post) = fs" and "distinct fs" and "set fs \<subseteq> set pre"
  shows "filter P pre = fs" and "filter P post = []"
proof -
  have "x \<notin> set (filter P post)" for x
  proof
    assume x: "x \<in> set (filter P post)"
    then have "x \<in> set fs" using assms(1) by auto
    then have "x \<in> set (filter P pre)" using assms(3) x by auto
    with x assms(1,2) show False by (metis disjoint_iff distinct_append filter_append)
  qed
  then show post: "filter P post = []" by (metis ex_in_conv set_empty)
  with assms(1) show "filter P pre = fs" by simp
qed

lemma distinct_policy_flags: "distinct policy_flags"
  by (simp add: policy_flags_def ARITHMETIC_FLAGS_def POINTER_FLAG_def)

lemma first_analysis_append:
  "set pre \<inter> {''-wp'', ''-rte'', ''-eva''} = {} \<Longrightarrow> stage \<in> {''-wp'', ''-rte'', ''-eva''} \<Longrightarrow>
     first_analysis (pre @ stage # post) = length pre"
  by (induction pre) auto

lemma flags_in_prefix:
  assumes "argv = pre @ stage # post" and "set pre \<inter> {''-wp'', ''-rte'', ''-eva''} = {}"
    and "stage \<in> {''-wp'', ''-rte'', ''-eva''}"
    and "filter is_semantic_flag argv = policy_flags"
    and "\<forall>flag\<in>set policy_flags. index_of flag argv < first_analysis argv"
  shows "filter is_semantic_flag pre = policy_flags"
proof -
  have "first_analysis argv = length pre" using assms(1-3) by (simp add: first_analysis_append)
  then have "set policy_flags \<subseteq> set pre"
    using assms(5) by (auto simp: assms(1) index_of_less_split)
  with assms(1,4) distinct_policy_flags show ?thesis
    using filter_all_in_prefix(1) by blast
qed

lemma prefix_lawful:
  assumes "check_model_command analysis command audit = Inr (identity, correctness, argv)"
    and "argv = pre @ stage # post" and "set pre \<inter> {''-wp'', ''-rte'', ''-eva''} = {}"
    and "stage \<in> {''-wp'', ''-rte'', ''-eva''}" and "\<not> (\<exists>a\<in>set pre. is_builtin_control a)"
  shows "lawful_prefix pre"
proof -
  have "filter is_semantic_flag argv = policy_flags"
    and "\<forall>flag\<in>set policy_flags. index_of flag argv < first_analysis argv"
    using assms(1) by (simp_all add: check_model_command_iff policy_flags_def)
  from flags_in_prefix [OF assms(2-4) this] assms(3,5) show ?thesis
    by (simp add: lawful_prefix_def)
qed

lemma expected_eva_Cons: "\<exists>post. expected_eva s = ''-eva'' # post"
  by (simp add: expected_eva_def)

lemma accepted_eva_only:
  assumes cmd: "check_model_command analysis command audit = Inr (identity, correctness, argv)"
    and rep: "report_phase_ok argv"
    and pl: "validate_pipeline identity correctness argv (EvaOnly s) = Inr ()"
  shows "lawful_command (EvaOnly s) argv"
proof -
  have eng: "check_engine ''-eva'' argv = Inr ()" and ph: "check_eva_phase s argv = Inr ()"
    and sel: "check_eva_selection s argv = Inr ()" and nor: "check_no_rte_stage argv = Inr ()"
    using pl by (auto simp: validate_pipeline_def res_simps)
  obtain pre out where argv: "argv = pre @ expected_eva s @ report_tail @ [out]"
    and pre: "pre = take (index_of ''-eva'' argv) argv"
    and bc: "\<forall>a\<in>set pre. \<not> is_builtin_control a" and out: "is_absolute out"
    using eva_phase_split [OF rep eng ph] by blast
  have "''-wp'' \<notin> set argv" using sel by (auto simp: check_eva_selection_def res_simps Let_def)
  moreover have "''-rte'' \<notin> set argv"
    using nor by (auto simp: check_no_rte_stage_def res_simps filter_empty_conv is_rte_option_def)
  ultimately have stages: "set pre \<inter> {''-wp'', ''-rte'', ''-eva''} = {}"
    using not_in_take_index [of "''-eva''" argv] set_take_subset [of _ argv] by (auto simp: pre)
  obtain post where "expected_eva s = ''-eva'' # post" using expected_eva_Cons by blast
  then have "argv = pre @ ''-eva'' # (post @ report_tail @ [out])" using argv by simp
  from prefix_lawful [OF cmd this stages] bc have "lawful_prefix pre" by simp
  with argv out show ?thesis by (auto simp: lawful_command_def)
qed

lemma rte_stage_Cons: "\<exists>post. rte_stage fs = ''-rte'' # post"
  by (simp add: rte_stage_def)

lemma accepted_rte_eva:
  assumes cmd: "check_model_command analysis command audit = Inr (identity, correctness, argv)"
    and rep: "report_phase_ok argv"
    and pl: "validate_pipeline identity correctness argv (RteEva s fs) = Inr ()"
  shows "lawful_command (RteEva s fs) argv"
proof -
  have eng: "check_engine ''-eva'' argv = Inr ()" and ph: "check_eva_phase s argv = Inr ()"
    and sel: "check_eva_selection s argv = Inr ()" and rte: "check_rte_stage (rte_stage fs) argv = Inr ()"
    using pl by (auto simp: validate_pipeline_def res_simps rte_stage_def)
  obtain pre out where argv: "argv = pre @ expected_eva s @ report_tail @ [out]"
    and pre: "pre = take (index_of ''-eva'' argv) argv"
    and bc: "\<forall>a\<in>set pre. \<not> is_builtin_control a" and out: "is_absolute out"
    using eva_phase_split [OF rep eng ph] by blast
  let ?r = "index_of ''-rte'' argv" and ?e = "index_of ''-eva'' argv"
  have stage: "take (?e - ?r) (drop ?r argv) = rte_stage fs"
    using rte by (simp add: check_rte_stage_def res_simps)
  then have "?r < ?e" by (cases "?r < ?e") (auto simp: rte_stage_def)
  then have pre2: "pre = take ?r argv @ rte_stage fs"
    unfolding pre stage [symmetric] by (metis less_imp_le_nat take_add ordered_cancel_comm_monoid_diff_class.add_diff_inverse)
  obtain post where "rte_stage fs @ expected_eva s = ''-rte'' # post" using rte_stage_Cons by (metis append_Cons)
  then have split: "argv = take ?r argv @ ''-rte'' # (post @ report_tail @ [out])"
    using argv pre2 by (metis append_Cons append_assoc)
  have "''-wp'' \<notin> set argv" using sel by (auto simp: check_eva_selection_def res_simps Let_def)
  moreover have "''-eva'' \<notin> set (take ?r argv)"
    using not_in_take_index [of "''-eva''" argv] pre2 pre by auto
  ultimately have stages: "set (take ?r argv) \<inter> {''-wp'', ''-rte'', ''-eva''} = {}"
    using not_in_take_index [of "''-rte''" argv] set_take_subset [of ?r argv] by auto
  have "\<not> (\<exists>a\<in>set (take ?r argv). is_builtin_control a)" using bc pre2 by auto
  from prefix_lawful [OF cmd split stages _ this] have "lawful_prefix (take ?r argv)" by simp
  moreover have "argv = take ?r argv @ (rte_stage fs @ expected_eva s) @ report_tail @ [out]"
    using argv pre2 by simp
  ultimately show ?thesis using out unfolding lawful_command_def by (metis lawful_stages.simps(3) lawful_selectors.simps(3))
qed

lemma accepted_wp_rte:
  assumes cmd: "check_model_command analysis command audit = Inr (identity, correctness, argv)"
    and rep: "report_phase_ok argv"
    and pl: "validate_pipeline identity correctness argv (WpRte fs) = Inr ()"
  shows "lawful_command (WpRte fs) argv"
proof -
  have "identity = policy_model" using cmd by (simp add: check_model_command_iff)
  then have eng: "check_engine ''-wp'' argv = Inr ()" and sel: "check_wp_selection ''Typed'' fs argv = Inr ()"
    and bc: "\<forall>a\<in>set argv. \<not> is_builtin_control a" and nor: "check_no_rte_stage argv = Inr ()"
    using pl by (auto simp: validate_pipeline_def res_simps)
  obtain body out where argv: "argv = body @ report_tail @ [out]" and out: "is_absolute out"
    using rep by (auto simp: report_phase_split)
  let ?i = "index_of ''-wp'' argv"
  have "''-wp'' \<in> set argv" and "?i < length body"
    using eng by (simp_all add: check_engine_def res_simps argv report_tail_def)
  then have wp: "''-wp'' \<in> set body"
    by (metis argv index_of_less_split)
  then have i: "?i = index_of ''-wp'' body" by (simp add: argv index_of_append)
  have body: "body = take ?i body @ ''-wp'' # drop (Suc ?i) body"
    using split_at_index [OF wp] i by simp
  have no_eva: "''-eva'' \<notin> set argv" and one_wp: "count_list argv ''-wp'' = 1"
    using sel by (auto simp: check_wp_selection_def res_simps Let_def)
  have rte: "\<forall>a\<in>set argv. \<not> is_rte_option a" and one_then: "count_list argv ''-then'' = 1"
    using nor by (auto simp: check_no_rte_stage_def res_simps filter_empty_conv)
  have cnt: "count_list argv x = count_list (take ?i body) x + count_list (''-wp'' # drop (Suc ?i) body) x
               + count_list (report_tail @ [out]) x" for x
    by (subst argv, subst body) simp
  have "count_list (report_tail @ [out]) ''-then'' \<ge> 1" by (simp add: report_tail_def)
  with one_then cnt [of "''-then''"] have "count_list (drop (Suc ?i) body) ''-then'' = 0" by simp
  moreover from one_wp cnt [of "''-wp''"] have "count_list (drop (Suc ?i) body) ''-wp'' = 0" by simp
  moreover have "set (drop (Suc ?i) body) \<subseteq> set argv"
    using set_drop_subset [of "Suc ?i" body] by (auto simp: argv)
  ultimately have stages: "lawful_stages (WpRte fs) (''-wp'' # drop (Suc ?i) body)"
    using bc no_eva rte by (auto simp: count_list_0_iff)
  have split: "argv = take ?i body @ ''-wp'' # (drop (Suc ?i) body @ report_tail @ [out])"
    using argv body by (metis append_Cons append_assoc)
  have sub: "set (take ?i body) \<subseteq> set argv"
    using set_take_subset [of ?i body] by (auto simp: argv)
  have "set (take ?i body) \<inter> {''-wp'', ''-rte'', ''-eva''} = {}"
    using not_in_take_index [of "''-wp''" body] i no_eva rte sub by (auto simp: is_rte_option_def)
  moreover have "\<not> (\<exists>a\<in>set (take ?i body). is_builtin_control a)" using bc sub by blast
  ultimately have "lawful_prefix (take ?i body)" using prefix_lawful [OF cmd split] by simp
  moreover have "lawful_selectors (WpRte fs) argv"
    using sel by (auto simp: check_wp_selection_def res_simps Let_def)
  ultimately show ?thesis using split stages out unfolding lawful_command_def
    by (metis append_Cons append_assoc)
qed

lemma actual_policy_lawful:
  assumes "validate_actual_policy analysis target command audit = Inr r"
  shows "\<exists>argv p. command = PList (map PStr argv) \<and> pipeline_identity target = Inr p
           \<and> checked_pipeline r = Some p \<and> lawful_command p argv"
proof -
  obtain correctness argv p where
    cmd: "check_model_command analysis command audit = Inr (policy_model, correctness, argv)"
    and p: "pipeline_identity target = Inr p" and rep: "report_phase_ok argv"
    and pl: "validate_pipeline policy_model correctness argv p = Inr ()"
    and r: "r = \<lparr>checked_model = policy_model, checked_pipeline = Some p,
                  actual_pointer_formation = ''true''\<rparr>"
    using assms by (auto simp: validate_actual_policy_iff)
  have "lawful_command p argv"
    using cmd rep pl
    by (cases p) (simp_all add: accepted_wp_rte accepted_eva_only accepted_rte_eva)
  moreover have "command = PList (map PStr argv)" using cmd by (simp add: check_model_command_iff)
  ultimately show ?thesis using p r by auto
qed

text \<open>
  C3. Soundness of the actual-policy check: a command line that
  \<^verbatim>\<open>validate_actual_policy\<close> accepts for a target consists of a prefix that sets exactly the six
  semantic flags of the policy, in order and before any analysis stage and without a builtin
  control; then exactly the stages the target's plan prescribes (the whole Eva phase, the RTE
  stage directly before it for an \<open>rte-eva\<close> plan, one WP phase whose function and memory-model
  selectors are the plan's for a WP target); then one report phase that writes to an absolute
  path.
\<close>

theorem accepted_command_lawful:
  assumes "validate_actual_policy analysis target command audit = Inr r"
  shows "\<exists>argv p. command = PList (map PStr argv) \<and> pipeline_identity target = Inr p
           \<and> checked_pipeline r = Some p \<and> lawful_command p argv"
  using assms by (rule actual_policy_lawful)

text \<open>A concrete Eva target with an RTE stage, its command and its audit.\<close>

definition sample_analysis :: py where
  "sample_analysis = PDict (policy_model @ [(''machdep'', PStr ''x86_64'')])"

definition sample_target :: py where
  "sample_target = PDict
     [(''analysis'', PStr ''eva''), (''analysis_pipeline'', PDict [(''kind'', PStr ''rte-eva'')]),
      (''functions'', PList [PStr ''memcpy'']), (''entry'', PStr ''main'')]"

definition sample_settings :: eva_settings where
  "sample_settings = \<lparr>entry = ''main'', eva_slevel = 100, eva_builtins = [], eva_auto_builtins = True\<rparr>"

definition sample_command :: "string list" where
  "sample_command = [''frama-c'', ''-machdep'', ''x86_64''] @ policy_flags @ [''/k/string.c'']
     @ rte_stage [''memcpy'', ''main''] @ expected_eva sample_settings @ report_tail @ [''/out/p.tsv'']"

definition sample_audit :: py where
  "sample_audit = PDict [(''eva'', PDict [(''correctness-parameters'', PDict
     (map (\<lambda>(k, v). (k, PStr v)) audit_required
      @ [(''-main'', PStr ''main''), (''-eva-builtins-auto'', PStr ''true''), (''-eva-builtin'', PStr [])]))])]"

lemma sample_accepted:
  "validate_actual_policy sample_analysis sample_target (PList (map PStr sample_command)) sample_audit
     = Inr \<lparr>checked_model = policy_model, checked_pipeline = Some (RteEva sample_settings [''memcpy'', ''main'']),
            actual_pointer_formation = ''true''\<rparr>"
  by code_simp

lemma accepted_command_lawful_witness:
  "lawful_command (RteEva sample_settings [''memcpy'', ''main'']) sample_command"
proof -
  obtain argv p where "PList (map PStr sample_command) = PList (map PStr argv)"
    "Some (RteEva sample_settings [''memcpy'', ''main'']) = Some p" "lawful_command p argv"
    using accepted_command_lawful [OF sample_accepted] by auto
  then show ?thesis by auto
qed

text \<open>
  The declared model is closed: \<^verbatim>\<open>model_identity\<close> accepts exactly the objects whose
  settings are known ones and whose three semantic entries are the policy's constants, and then
  returns those constants. No Boolean, number or reordered list passes for a policy value.
\<close>

theorem model_identity_exact:
  "model_identity a = Inr i \<longleftrightarrow>
     i = policy_model \<and>
     (\<exists>d. a = PDict d \<and> set (keys d) \<subseteq> set (SEMANTIC_KEYS @ DOCUMENTARY_KEYS @ GENERATED_KEYS)
        \<and> (\<forall>(k, v) \<in> set policy_model. map_of d k = Some v))"
proof -
  have "map_of d k = Some v \<longleftrightarrow> dget d k = v" if "(k, v) \<in> set policy_model" for d k v
    using that by (auto simp: policy_model_def dget_def split: option.splits)
  then have "(\<forall>(k, v) \<in> set policy_model. map_of d k = Some v) \<longleftrightarrow>
      (\<forall>(k, v) \<in> set policy_model. dget d k = v)" for d by auto
  then show ?thesis unfolding model_identity_iff by (auto simp: policy_model_def)
qed

lemma model_identity_exact_witness:
  "\<exists>d. sample_analysis = PDict d \<and> (\<forall>(k, v) \<in> set policy_model. map_of d k = Some v)"
proof -
  have "model_identity sample_analysis = Inr policy_model" by code_simp
  then show ?thesis using model_identity_exact [of sample_analysis policy_model] by blast
qed

text \<open>
  The plan of a target: a plan that \<^verbatim>\<open>pipeline_identity\<close> computes never omits a
  declared kernel function, its function inventory has no duplicates, and an RTE stage also
  covers the Eva entry point.
\<close>

fun pipeline_functions :: "pipeline \<Rightarrow> string list" where
  "pipeline_functions (WpRte fs) = fs"
| "pipeline_functions (RteEva s fs) = fs"
| "pipeline_functions (EvaOnly s) = []"

lemma functions_of_iff:
  "functions_of v f = Inr names \<longleftrightarrow>
     v = PList (map PStr names) \<and> names \<noteq> [] \<and> list_all is_ident names \<and> distinct names"
proof (cases "as_strs v")
  case None
  then have "v \<noteq> PList (map PStr names)" by (metis as_strs_map option.distinct(1))
  with None show ?thesis by (simp add: functions_of_def)
next
  case (Some ns)
  then have "v = PList (map PStr ns)" by (simp add: as_strs_Some)
  with Some show ?thesis by (auto simp: functions_of_def res_simps simp del: as_strs.simps)
qed

lemma eva_identity_cases:
  assumes "eva_identity target kind selected = Inr p"
  shows "\<exists>e bs ab. is_ident e \<and> list_all is_builtin_pair bs \<and>
           (let s = \<lparr>entry = e, eva_slevel = 100, eva_builtins = bs, eva_auto_builtins = ab\<rparr>
            in p = EvaOnly s \<or> p = RteEva s (selected @ (if e \<in> set selected then [] else [e])))"
  using assms
  by (auto simp: eva_identity_def res_simps Let_def simp del: as_strs.simps
      split: py.splits option.splits if_splits)

lemma pipeline_identity_selected:
  assumes "pipeline_identity (PDict t) = Inr p"
  obtains kernel selected where "dget t ''functions'' = PList (map PStr kernel)"
    and "set kernel \<subseteq> set selected" and "distinct selected" and "selected \<noteq> []"
    and "p = WpRte selected \<or> (\<exists>kind. eva_identity t kind selected = Inr p)"
proof -
  define wp where "wp = (dget t ''analysis'' = PStr ''wp'')"
  define declared where "declared =
    dget_or t ''analysis_pipeline'' (PDict [(''kind'', PStr (if wp then ''wp-rte'' else ''eva''))])"
  obtain decl where decl: "declared = PDict decl"
    using assms by (cases declared) (auto simp: pipeline_identity_def Let_def
        wp_def [symmetric] declared_def [symmetric] split: if_splits)
  from assms obtain kernel where
    k: "functions_of (dget t ''functions'') ''kernel function inventory'' = Inr kernel"
    by (auto simp: pipeline_identity_def Let_def res_simps decl
        wp_def [symmetric] declared_def [symmetric] split: if_splits)
  from assms obtain selected where
    s: "functions_of (dget_or t ''analysis_functions'' (PList (map PStr kernel)))
          ''analysis function inventory'' = Inr selected" and sub: "set kernel \<subseteq> set selected"
    by (auto simp: pipeline_identity_def Let_def res_simps decl k
        wp_def [symmetric] declared_def [symmetric] split: if_splits)
  have "p = WpRte selected \<or> (\<exists>kind. eva_identity t kind selected = Inr p)"
    using assms by (cases "dget decl ''kind''")
      (auto simp: pipeline_identity_def Let_def res_simps decl k s
        wp_def [symmetric] declared_def [symmetric] split: if_splits)
  with k s sub that show thesis by (simp add: functions_of_iff)
qed

theorem pipeline_covers_functions:
  assumes "pipeline_identity (PDict t) = Inr p" and "\<forall>s. p \<noteq> EvaOnly s"
  shows "\<exists>kernel. dget t ''functions'' = PList (map PStr kernel)
           \<and> set kernel \<subseteq> set (pipeline_functions p) \<and> distinct (pipeline_functions p)
           \<and> (\<forall>s fs. p = RteEva s fs \<longrightarrow> entry s \<in> set fs)"
proof -
  obtain kernel selected where k: "dget t ''functions'' = PList (map PStr kernel)"
    "set kernel \<subseteq> set selected" "distinct selected"
    and p: "p = WpRte selected \<or> (\<exists>kind. eva_identity t kind selected = Inr p)"
    using pipeline_identity_selected [OF assms(1)] by metis
  show ?thesis
  proof (cases "p = WpRte selected")
    case True
    with k show ?thesis by auto
  next
    case False
    with p obtain kind where "eva_identity t kind selected = Inr p" by blast
    from eva_identity_cases [OF this] assms(2) obtain s where
      "p = RteEva s (selected @ (if entry s \<in> set selected then [] else [entry s]))"
      by (force simp: Let_def)
    with k show ?thesis by auto
  qed
qed

lemma pipeline_covers_functions_witness:
  "pipeline_identity sample_target = Inr (RteEva sample_settings [''memcpy'', ''main''])
   \<and> (\<exists>kernel. set kernel \<subseteq> {''memcpy'', ''main''} \<and> kernel \<noteq> [])"
proof -
  obtain t where t: "sample_target = PDict t" and f: "dget t ''functions'' = PList [PStr ''memcpy'']"
    by (simp add: sample_target_def)
  have "pipeline_identity sample_target = Inr (RteEva sample_settings [''memcpy'', ''main''])"
    by code_simp
  then show ?thesis
    using pipeline_covers_functions [of t "RteEva sample_settings [''memcpy'', ''main'']"] f t by auto
qed

end
