(* ===== verification/Integrity.thy ===== *)
theory Integrity
  imports Host
begin

text \<open>
  \<^verbatim>\<open>fragma/integrity.py\<close>: the hash-bound inventory of every file a run consumed. Receipts
  \<open>(absolute path, SHA-256)\<close> are collected from the metadata of tools and models, merged into
  one inventory that refuses two different observations of a file, and compared with the
  machine again at the end of the run. The interface \<open>record_merge\<close> is what the suite, the
  coverage inventory and the front-end policy rely on.
\<close>

section \<open>Strict comparison of review identities\<close>

text \<open>\<^verbatim>\<open>_same_json\<close> is \<open>same_json\<close> of \<open>Py_Value\<close>: it is finer than Python's \<open>==\<close>.\<close>

lemma wf_dict_map_of: "wf_dict e \<Longrightarrow> map_of e k = Some w \<Longrightarrow> wf_py w"
proof (induction e)
  case (Cons a e)
  then show ?case by (cases a) (auto split: if_splits)
qed simp

lemma canon_PList: "canon b = PList zs \<longleftrightarrow> (\<exists>ys. b = PList ys \<and> zs = canon_list ys)"
  by (cases b) auto

lemma canon_PDict: "canon b = PDict z \<longleftrightarrow> (\<exists>e. b = PDict e \<and> z = sort_key fst (canon_dict e))"
  by (cases b) auto

lemma sorted_entries_lookup:
  assumes "sort_key fst (canon_dict d) = sort_key fst (canon_dict e)" and "distinct (keys e)"
    and "(k, v) \<in> set d"
  shows "\<exists>w. map_of e k = Some w \<and> canon v = canon w"
proof -
  have "(k, canon v) \<in> set (canon_dict d)" using assms(3) by (force simp: canon_dict_map)
  then have "(k, canon v) \<in> set (canon_dict e)" using assms(1) by (metis set_sort)
  then obtain w where "(k, w) \<in> set e" "canon v = canon w" by (auto simp: canon_dict_map)
  then show ?thesis using assms(2) by (auto simp: keys_def)
qed

lemma sort_key_length_eq: "sort_key fst xs = sort_key fst ys \<Longrightarrow> length xs = length ys"
  by (metis length_sort)

lemma length_canon_dict [simp]: "length (canon_dict d) = length d"
  by (simp add: canon_dict_map)

lemma canon_imp_eq:
  "\<forall>b. finite_py a \<longrightarrow> wf_py a \<longrightarrow> wf_py b \<longrightarrow> canon a = canon b \<longrightarrow> py_eq a b"
  "\<forall>ys. finite_list xs \<longrightarrow> wf_list xs \<longrightarrow> wf_list ys \<longrightarrow> canon_list xs = canon_list ys \<longrightarrow> list_eq xs ys"
  "\<forall>e. finite_dict d \<longrightarrow> wf_dict d \<longrightarrow> wf_dict e \<longrightarrow>
     (\<forall>k v. (k, v) \<in> set d \<longrightarrow> (\<exists>w. map_of e k = Some w \<and> canon v = canon w)) \<longrightarrow> dict_le d e"
proof (induction a and xs and d rule: canon_canon_list_canon_dict.induct)
  case (1 xs)
  show ?case
  proof (intro allI impI)
    fix b assume *: "finite_py (PList xs)" "wf_py (PList xs)" "wf_py b" "canon (PList xs) = canon b"
    from *(4) have "canon b = PList (canon_list xs)" by simp
    then obtain ys where "b = PList ys" "canon_list xs = canon_list ys" unfolding canon_PList by blast
    with * 1 show "py_eq (PList xs) b" by auto
  qed
next
  case (2 d)
  show ?case
  proof (intro allI impI)
    fix b assume *: "finite_py (PDict d)" "wf_py (PDict d)" "wf_py b" "canon (PDict d) = canon b"
    from *(4) have "canon b = PDict (sort_key fst (canon_dict d))" by simp
    then obtain e where b: "b = PDict e" and s: "sort_key fst (canon_dict d) = sort_key fst (canon_dict e)"
      unfolding canon_PDict by blast
    have "length d = length e" using sort_key_length_eq [OF s] by simp
    moreover have "\<forall>k v. (k, v) \<in> set d \<longrightarrow> (\<exists>w. map_of e k = Some w \<and> canon v = canon w)"
      using sorted_entries_lookup [OF s] *(3) b by auto
    then have "dict_le d e" using 2 * b by auto
    ultimately show "py_eq (PDict d) b" by (simp add: b)
  qed
next
  case (5 x xs)
  show ?case
  proof (intro allI impI)
    fix ys assume *: "finite_list (x # xs)" "wf_list (x # xs)" "wf_list ys"
      "canon_list (x # xs) = canon_list ys"
    then obtain y ys' where "ys = y # ys'" by (cases ys) auto
    with * 5 show "list_eq (x # xs) ys" by auto
  qed
next
  case (7 k v d)
  show ?case
  proof (intro allI impI)
    fix e assume *: "finite_dict ((k, v) # d)" "wf_dict ((k, v) # d)" "wf_dict e"
      "\<forall>k' v'. (k', v') \<in> set ((k, v) # d) \<longrightarrow> (\<exists>w. map_of e k' = Some w \<and> canon v' = canon w)"
    then obtain w where w: "map_of e k = Some w" "canon v = canon w" by auto
    then have "py_eq v w" using 7(1) * wf_dict_map_of by auto
    moreover have "dict_le d e" using 7(2) * by auto
    ultimately show "dict_le ((k, v) # d) e" by (simp add: w)
  qed
qed (auto simp: eq_canon_simps float_eq_refl canon_list_map split: pyfloat.splits)

text \<open>
  Review identities are compared strictly: two values that \<^verbatim>\<open>_same_json\<close>
  accepts are equal for Python as well, but never a Boolean and a number, which Python's
  \<open>==\<close> identifies; so a review recorded for \<open>1\<close> does not cover \<open>True\<close>.
\<close>

theorem same_json_strict:
  assumes "wf_py a" and "wf_py b" and "same_json a b"
  shows "py_eq a b \<and> (a = PBool c \<longrightarrow> b \<noteq> PInt n) \<and> (a = PInt n \<longrightarrow> b \<noteq> PFloat f)"
  using assms canon_imp_eq(1) by (auto simp: same_json_def)

lemma same_json_strict_witness:
  "same_json (PDict [(''a'', PInt 1), (''b'', PNone)]) (PDict [(''b'', PNone), (''a'', PInt 1)])
   \<and> py_eq (PDict [(''a'', PInt 1), (''b'', PNone)]) (PDict [(''b'', PNone), (''a'', PInt 1)])
   \<and> py_eq (PBool True) (PInt 1) \<and> \<not> same_json (PBool True) (PInt 1)"
proof -
  let ?a = "PDict [(''a'', PInt 1), (''b'', PNone)]" and ?b = "PDict [(''b'', PNone), (''a'', PInt 1)]"
  have "wf_py ?a" "wf_py ?b" "same_json ?a ?b" by code_simp+
  from same_json_strict [OF this] this(3) show ?thesis
    by (simp add: same_json_def of_bool_int_def)
qed

lemma same_json_equiv:
  "finite_py a \<Longrightarrow> same_json a a" "same_json a b \<Longrightarrow> same_json b a"
  "same_json a b \<Longrightarrow> same_json b c \<Longrightarrow> same_json a c"
  by (simp_all add: same_json_def)

section \<open>Receipts and their inventory\<close>

type_synonym receipt = "string \<times> string" \<comment> \<open>absolute path and SHA-256\<close>

definition receipt_entry :: "receipt \<Rightarrow> pydict" where
  "receipt_entry r = [(''absolute_path'', PStr (fst r)), (''sha256'', PStr (snd r))]"

text \<open>\<^verbatim>\<open>receipt(path, expected)\<close>: a falsy expectation is replaced by the current digest.\<close>

definition receipt_for :: "host \<Rightarrow> string \<Rightarrow> py \<Rightarrow> pydict res" where
  "receipt_for h path expected =
     (if truthy expected
      then Inr [(''absolute_path'', PStr (path_str path)), (''sha256'', expected)]
      else (case file_sha256 h path of
              None \<Rightarrow> Inl (Exn OSError path)
            | Some d \<Rightarrow> Inr [(''absolute_path'', PStr (path_str path)), (''sha256'', PStr d)]))"

text \<open>The checked form of one record; \<open>None\<close> where \<^verbatim>\<open>merge_records\<close> raises.\<close>

definition receipt_of :: "pydict \<Rightarrow> receipt option" where
  "receipt_of item = (case (dget item ''absolute_path'', dget item ''sha256'') of
     (PStr f, PStr d) \<Rightarrow> if is_absolute f \<and> is_hex 64 d then Some (path_str f, d) else None
   | _ \<Rightarrow> None)"

definition merge_step :: "receipt list \<Rightarrow> pydict \<Rightarrow> receipt list res" where
  "merge_step records item = (case receipt_of item of
     None \<Rightarrow> Inl (Exn SourceError ''malformed input-integrity record'')
   | Some (f, d) \<Rightarrow>
       (case map_of records f of
          None \<Rightarrow> Inr (records @ [(f, d)])
        | Some d' \<Rightarrow> if d' \<noteq> d then Inl (Exn SourceError (''conflicting observations of input: '' @ f))
                     else Inr records))"

definition merge_records :: "pydict list \<Rightarrow> receipt list res" where
  "merge_records items =
     bind_res (foldM merge_step [] items) (\<lambda>records. Inr (sort_key fst records))"

section \<open>Metadata of tools and models\<close>

text \<open>
  \<^verbatim>\<open>metadata_records\<close> walks a JSON value and collects every absolute path that stands beside a
  digest, every file of a hashed directory and every entry whose key is a path and whose value
  is a digest.
\<close>

definition direct_record :: "pydict \<Rightarrow> pydict list" where
  "direct_record v =
     (let filename = dget_or v ''absolute_path'' (dget_or v ''path'' (dget v ''resolved_path''));
          expected = dget v ''sha256''
      in case (filename, expected) of
           (PStr f, PStr d) \<Rightarrow>
             if is_absolute f then [[(''absolute_path'', PStr f), (''sha256'', PStr d)]] else []
         | _ \<Rightarrow> [])"

definition directory_records :: "host \<Rightarrow> pydict \<Rightarrow> pydict list res" where
  "directory_records h v = (case (dget v ''directory'', dget v ''files'') of
     (PStr directory, PDict files) \<Rightarrow>
       if is_absolute directory
       then mapM (\<lambda>(name, checksum). receipt_for h (path_join directory name) checksum) files
       else Inr []
   | _ \<Rightarrow> Inr [])"

definition entry_record :: "string \<Rightarrow> py \<Rightarrow> pydict list" where
  "entry_record key item = (case item of
     PStr d \<Rightarrow> if is_absolute key \<and> is_hex 64 d
               then [[(''absolute_path'', PStr key), (''sha256'', PStr d)]] else []
   | _ \<Rightarrow> [])"

fun metadata_records :: "host \<Rightarrow> py \<Rightarrow> pydict list res"
and metadata_list :: "host \<Rightarrow> py list \<Rightarrow> pydict list res"
and metadata_items :: "host \<Rightarrow> pydict \<Rightarrow> pydict list res" where
  "metadata_records h (PDict v) =
     bind_res (directory_records h v) (\<lambda>files.
     bind_res (metadata_items h v) (\<lambda>items. Inr (direct_record v @ files @ items)))"
| "metadata_records h (PList vs) = metadata_list h vs"
| "metadata_records h v = Inr []"
| "metadata_list h [] = Inr []"
| "metadata_list h (v # vs) =
     bind_res (metadata_records h v) (\<lambda>r. bind_res (metadata_list h vs) (\<lambda>rs. Inr (r @ rs)))"
| "metadata_items h [] = Inr []"
| "metadata_items h ((k, v) # d) =
     bind_res (metadata_records h v) (\<lambda>r.
     bind_res (metadata_items h d) (\<lambda>rs. Inr (entry_record k v @ r @ rs)))"

text \<open>The directory part of a path.\<close>

definition path_parent :: "string \<Rightarrow> string" where
  "path_parent p = path_str (path_root p @ join ''/'' (butlast (path_parts p)))"

definition profile_records :: "host \<Rightarrow> string \<Rightarrow> pydict \<Rightarrow> receipt list res" where
  "profile_records h base model =
     bind_res (metadata_records h (PDict model)) (\<lambda>records.
     bind_res (ditem model ''fixture_sha256'') (\<lambda>fixture.
     bind_res (receipt_for h (path_join base ''profiles/calibration.c'') fixture) (\<lambda>calibration.
     bind_res (ditem model ''generator'') (\<lambda>generator.
     bind_res (pget_or generator ''probe_input_hashes'' (PDict [])) (\<lambda>hashes.
     bind_res (case hashes of
                 PDict probes \<Rightarrow>
                   mapM (\<lambda>(name, expected).
                     bind_res (pindex generator ''path'') (\<lambda>p. case p of
                       PStr path \<Rightarrow> receipt_for h (path_join (path_parent path) name) expected
                     | _ \<Rightarrow> Inl (Exn TypeError ''path''))) probes
               | _ \<Rightarrow> Inl (Exn AttributeError ''items'')) (\<lambda>probes.
     merge_records (records @ [calibration] @ probes)))))))"

text \<open>A changed file: its path, the recorded digest, what the machine has now.\<close>

type_synonym change = "string \<times> string \<times> string option"

definition changed_files :: "host \<Rightarrow> pydict list \<Rightarrow> change list res" where
  "changed_files h items =
     bind_res (merge_records items) (\<lambda>records.
       Inr (map (\<lambda>(f, d). (f, d, file_sha256 h f))
              (filter (\<lambda>(f, d). file_sha256 h f \<noteq> Some d) records)))"

section \<open>The interface of an inventory\<close>

text \<open>
  What the clients of \<^verbatim>\<open>merge_records\<close> rely on, over any kind of item: a merge succeeds exactly
  when every item is well formed and no key is claimed with two values, and then holds the
  entries of the items, each key once.
\<close>

definition consistent :: "('i \<Rightarrow> ('k \<times> 'h) option) \<Rightarrow> 'i set \<Rightarrow> bool" where
  "consistent e S \<longleftrightarrow> (\<forall>i\<in>S. \<forall>j\<in>S. \<forall>k a b. e i = Some (k, a) \<longrightarrow> e j = Some (k, b) \<longrightarrow> a = b)"

lemma consistentD:
  "consistent e S \<Longrightarrow> i \<in> S \<Longrightarrow> j \<in> S \<Longrightarrow> e i = Some (k, a) \<Longrightarrow> e j = Some (k, b) \<Longrightarrow> a = b"
  unfolding consistent_def by blast

lemma consistentI:
  "(\<And>i j k a b. i \<in> S \<Longrightarrow> j \<in> S \<Longrightarrow> e i = Some (k, a) \<Longrightarrow> e j = Some (k, b) \<Longrightarrow> a = b) \<Longrightarrow> consistent e S"
  unfolding consistent_def by blast

locale record_merge =
  fixes merge :: "'i list \<Rightarrow> ('k \<times> 'h) list res"
    and item_entry :: "'i \<Rightarrow> ('k \<times> 'h) option"
  assumes merge_set: "merge items = Inr rs \<Longrightarrow> Some ` set rs = item_entry ` set items"
    and merge_distinct: "merge items = Inr rs \<Longrightarrow> distinct (map fst rs)"
    and merge_complete:
      "\<forall>i\<in>set items. item_entry i \<noteq> None \<Longrightarrow> consistent item_entry (set items) \<Longrightarrow>
         \<exists>rs. merge items = Inr rs"
begin

lemma lookup_iff:
  assumes "merge items = Inr rs"
  shows "map_of rs k = Some v \<longleftrightarrow> (\<exists>i\<in>set items. item_entry i = Some (k, v))"
proof -
  have "map_of rs k = Some v \<longleftrightarrow> (k, v) \<in> set rs" using merge_distinct [OF assms] by simp
  also have "\<dots> \<longleftrightarrow> Some (k, v) \<in> Some ` set rs" by auto
  also have "\<dots> \<longleftrightarrow> Some (k, v) \<in> item_entry ` set items" using merge_set [OF assms] by simp
  finally show ?thesis by (auto simp: image_iff eq_commute)
qed

lemma no_conflict:
  assumes "merge items = Inr rs" and "i \<in> set items" "j \<in> set items"
    and "item_entry i = Some (k, a)" "item_entry j = Some (k, b)"
  shows "a = b"
  using lookup_iff [OF assms(1)] assms(2-5) by (metis option.inject)

text \<open>The observations of the inventory agree with a machine exactly when those of every item do.\<close>

lemma agrees_iff:
  assumes "merge items = Inr rs"
  shows "(\<forall>(k, v)\<in>set rs. obs k = Some v) \<longleftrightarrow>
         (\<forall>i\<in>set items. \<forall>k v. item_entry i = Some (k, v) \<longrightarrow> obs k = Some v)"
proof -
  have "(k, v) \<in> set rs \<longleftrightarrow> (\<exists>i\<in>set items. item_entry i = Some (k, v))" for k v
    using lookup_iff [OF assms, of k v] merge_distinct [OF assms] by simp
  then show ?thesis by fastforce
qed

lemma success_iff:
  "(\<exists>rs. merge items = Inr rs) \<longleftrightarrow>
     (\<forall>i\<in>set items. item_entry i \<noteq> None) \<and> consistent item_entry (set items)" (is "?l \<longleftrightarrow> ?r")
proof
  assume ?l
  then obtain rs where rs: "merge items = Inr rs" by blast
  have "\<forall>i\<in>set items. item_entry i \<noteq> None"
    using merge_set [OF rs] by (metis image_iff option.distinct(1))
  moreover have "consistent item_entry (set items)" by (rule consistentI) (rule no_conflict [OF rs])
  ultimately show ?r ..
next
  assume ?r
  then show ?l using merge_complete by blast
qed

text \<open>Which entries an inventory holds does not depend on the order or the grouping of its items.\<close>

lemma order_irrelevant:
  assumes "merge items = Inr rs" and "set items' = set items"
  shows "\<exists>rs'. merge items' = Inr rs' \<and> map_of rs' = map_of rs"
proof -
  have "\<exists>rs'. merge items' = Inr rs'"
    using assms success_iff [of items] success_iff [of items'] by metis
  then obtain rs' where rs': "merge items' = Inr rs'" by blast
  have "map_of rs' k = map_of rs k" for k
    using lookup_iff [OF rs', of k] lookup_iff [OF assms(1), of k] assms(2)
    by (metis not_Some_eq)
  with rs' show ?thesis by blast
qed

end

text \<open>The invariant of the merging loop.\<close>

definition merged :: "pydict list \<Rightarrow> receipt list \<Rightarrow> bool" where
  "merged items rs \<longleftrightarrow> Some ` set rs = receipt_of ` set items \<and> distinct (map fst rs)"

lemma merge_step_cases:
  assumes "merge_step rs item = Inr rs'"
  obtains f d where "receipt_of item = Some (f, d)" "map_of rs f = None" "rs' = rs @ [(f, d)]"
  | f d where "receipt_of item = Some (f, d)" "map_of rs f = Some d" "rs' = rs"
  using assms by (auto simp: merge_step_def split: option.splits if_splits)

lemma merge_step_merged:
  assumes "merged done rs" and "merge_step rs item = Inr rs'"
  shows "merged (done @ [item]) rs'"
  using assms(2)
proof (cases rule: merge_step_cases)
  case (1 f d)
  then show ?thesis using assms(1) by (auto simp: merged_def map_of_eq_None_iff)
next
  case (2 f d)
  then have "Some (f, d) \<in> Some ` set rs" by (simp add: map_of_SomeD)
  then show ?thesis using assms(1) 2 by (auto simp: merged_def insert_absorb)
qed

lemma foldM_merged:
  "foldM merge_step rs items = Inr rs' \<Longrightarrow> merged done rs \<Longrightarrow> merged (done @ items) rs'"
proof (induction items arbitrary: rs "done")
  case (Cons i items)
  then obtain r where r: "merge_step rs i = Inr r" "foldM merge_step r items = Inr rs'"
    by (auto simp: res_simps)
  from Cons.IH [OF r(2) merge_step_merged [OF Cons.prems(2) r(1)]] show ?case by simp
qed simp

lemma foldM_merge_total:
  assumes "merged done rs" and "\<forall>i\<in>set (done @ items). receipt_of i \<noteq> None"
    and "consistent receipt_of (set (done @ items))"
  shows "\<exists>rs'. foldM merge_step rs items = Inr rs'"
  using assms
proof (induction items arbitrary: rs "done")
  case (Cons i items)
  obtain f d where i: "receipt_of i = Some (f, d)" using Cons.prems(2) by auto
  have "\<exists>r. merge_step rs i = Inr r"
  proof (cases "map_of rs f")
    case None
    then show ?thesis by (simp add: merge_step_def i)
  next
    case (Some d')
    then have "Some (f, d') \<in> Some ` set rs" by (simp add: map_of_SomeD)
    then have "Some (f, d') \<in> receipt_of ` set done" using Cons.prems(1) by (simp add: merged_def)
    then obtain j where "j \<in> set done" "receipt_of j = Some (f, d')" by auto
    then have "d' = d" using consistentD [OF Cons.prems(3), of j i] i by auto
    then show ?thesis by (simp add: merge_step_def i Some)
  qed
  then obtain r where r: "merge_step rs i = Inr r" by blast
  have "\<exists>rs'. foldM merge_step r items = Inr rs'"
    by (rule Cons.IH [OF merge_step_merged [OF Cons.prems(1) r]])
       (use Cons.prems(2,3) in simp_all)
  with r show ?case by simp
qed simp

interpretation inventory: record_merge merge_records receipt_of
proof unfold_locales
  fix items rs assume "merge_records items = Inr rs"
  then obtain r where r: "foldM merge_step [] items = Inr r" and rs: "rs = sort_key fst r"
    by (auto simp: merge_records_def res_simps)
  have "merged ([] @ items) r" by (rule foldM_merged [OF r]) (simp add: merged_def)
  then show "Some ` set rs = receipt_of ` set items" "distinct (map fst rs)"
    by (auto simp: merged_def rs distinct_map)
next
  fix items :: "pydict list"
  assume "\<forall>i\<in>set items. receipt_of i \<noteq> None"
    and "consistent receipt_of (set items)"
  then have "\<exists>rs. foldM merge_step [] items = Inr rs"
    by (intro foldM_merge_total [of "[]"]) (simp_all add: merged_def)
  then show "\<exists>rs. merge_records items = Inr rs" by (auto simp: merge_records_def)
qed

section \<open>What the inventory promises\<close>

lemma entries_by_keys: "distinct (map fst xs) \<Longrightarrow> xs = map (\<lambda>k. (k, the (map_of xs k))) (map fst xs)"
proof -
  assume d: "distinct (map fst xs)"
  have "map (\<lambda>x. (fst x, the (map_of xs (fst x)))) xs = xs"
    by (rule map_idI) (metis d map_of_is_SomeI option.sel prod.collapse)
  then show ?thesis by (simp add: comp_def)
qed

lemma sorted_keys_unique:
  assumes "sorted (map fst xs)" "distinct (map fst xs)" "sorted (map fst ys)" "distinct (map fst ys)"
    and "set xs = set ys"
  shows "xs = ys"
proof -
  have "map fst xs = map fst ys" using assms by (intro sorted_distinct_set_unique) simp_all
  moreover have "map_of xs = map_of ys" using assms by (simp add: map_of_inject_set)
  ultimately show ?thesis using entries_by_keys [OF assms(2)] entries_by_keys [OF assms(4)] by simp
qed

lemma merge_records_sorted: "merge_records items = Inr rs \<Longrightarrow> sorted (map fst rs)"
  by (auto simp: merge_records_def res_simps)

text \<open>
  C11. The inventory of consumed files: \<^verbatim>\<open>merge_records\<close> returns \<open>rs\<close> exactly
  when \<open>rs\<close> is the list, sorted by path and with every path once, of the receipts of the items,
  all of them well formed. So the result depends on the set of the items only, and two
  observations of one file with different digests always raise.
\<close>

theorem merge_records_exact:
  "merge_records items = Inr rs \<longleftrightarrow>
     sorted (map fst rs) \<and> distinct (map fst rs) \<and> Some ` set rs = receipt_of ` set items"
  (is "?l \<longleftrightarrow> ?r")
proof
  assume ?l
  then show ?r using inventory.merge_set inventory.merge_distinct merge_records_sorted by blast
next
  assume r: ?r
  have "\<forall>i\<in>set items. receipt_of i \<noteq> None" using r by (metis image_iff option.distinct(1))
  moreover have "consistent receipt_of (set items)"
  proof (rule consistentI)
    fix i j k a b assume *: "i \<in> set items" "j \<in> set items" "receipt_of i = Some (k, a)" "receipt_of j = Some (k, b)"
    then have "Some (k, a) \<in> Some ` set rs" "Some (k, b) \<in> Some ` set rs" using r by (metis imageI)+
    then show "a = b" using r by (auto dest: eq_key_imp_eq_value)
  qed
  ultimately obtain rs' where rs': "merge_records items = Inr rs'" using inventory.merge_complete by blast
  have "Some ` set rs' = Some ` set rs" using r inventory.merge_set [OF rs'] by simp
  then have "set rs' = set rs" by (simp add: inj_image_eq_iff)
  then have "rs' = rs"
    using r sorted_keys_unique [of rs' rs] merge_records_sorted [OF rs'] inventory.merge_distinct [OF rs']
    by blast
  with rs' show ?l by simp
qed

lemma no_changes_iff:
  "changed_files h items = Inr [] \<longleftrightarrow>
     (\<exists>rs. merge_records items = Inr rs) \<and>
     (\<forall>i\<in>set items. \<forall>f d. receipt_of i = Some (f, d) \<longrightarrow> file_sha256 h f = Some d)"
proof (cases "merge_records items")
  case (Inl e)
  then show ?thesis by (simp add: changed_files_def)
next
  case (Inr rs)
  have "changed_files h items = Inr [] \<longleftrightarrow> (\<forall>(f, d)\<in>set rs. file_sha256 h f = Some d)"
    by (auto simp: changed_files_def Inr filter_empty_conv)
  then show ?thesis using inventory.agrees_iff [OF Inr, of "file_sha256 h"] Inr by blast
qed

text \<open>
  C12. The final drift check: \<^verbatim>\<open>changed_files\<close> reports nothing exactly when the
  inventory is well formed and the machine still has, under the path of every single item, a
  regular file with the digest the item recorded.
\<close>

theorem changed_files_none_iff:
  "changed_files h items = Inr [] \<longleftrightarrow>
     (\<exists>rs. merge_records items = Inr rs) \<and>
     (\<forall>i\<in>set items. \<forall>f d. receipt_of i = Some (f, d) \<longrightarrow> file_sha256 h f = Some d)"
  by (rule no_changes_iff)

lemma receipt_of_entry: "is_absolute f \<Longrightarrow> is_hex 64 d \<Longrightarrow> receipt_of (receipt_entry (f, d)) = Some (path_str f, d)"
  by (simp add: receipt_of_def receipt_entry_def)

lemma receipt_of_Some:
  "receipt_of item = Some (f, d) \<longleftrightarrow>
     (\<exists>p. dget item ''absolute_path'' = PStr p \<and> is_absolute p \<and> f = path_str p \<and> dget item ''sha256'' = PStr d \<and> is_hex 64 d)"
  by (auto simp: receipt_of_def split: py.splits)

text \<open>An inventory that was merged, written down and found unchanged holds what its items recorded.\<close>

lemma merged_current:
  assumes "merge_records items = Inr rs" and "changed_files h (map receipt_entry rs) = Inr []"
    and "i \<in> set items" and "receipt_of i = Some (f, d)"
  shows "file_sha256 h f = Some d"
proof -
  have "(f, d) \<in> set rs" using inventory.merge_set [OF assms(1)] assms(3,4) by (metis image_iff option.inject)
  then have entry: "receipt_entry (f, d) \<in> set (map receipt_entry rs)" by auto
  have f: "is_absolute f" "is_hex 64 d" "path_str f = f"
    using assms(4) by (auto simp: receipt_of_Some intro: path_str_absolute)
  then have "receipt_of (receipt_entry (f, d)) = Some (f, d)" by (simp add: receipt_of_entry)
  with assms(2) entry no_changes_iff show ?thesis by blast
qed

text \<open>Every reported change is a real one, and names the observation it contradicts.\<close>

lemma changed_files_sound:
  assumes "changed_files h items = Inr cs" and "(f, d, now) \<in> set cs"
  shows "now = file_sha256 h f \<and> now \<noteq> Some d \<and> (\<exists>i\<in>set items. receipt_of i = Some (f, d))"
proof -
  obtain rs where rs: "merge_records items = Inr rs"
    and cs: "cs = map (\<lambda>(f, d). (f, d, file_sha256 h f)) (filter (\<lambda>(f, d). file_sha256 h f \<noteq> Some d) rs)"
    using assms(1) by (auto simp: changed_files_def res_simps)
  then have *: "(f, d) \<in> set rs" "now = file_sha256 h f" "now \<noteq> Some d" using assms(2) by auto
  then have "map_of rs f = Some d" using inventory.merge_distinct [OF rs] by simp
  with * show ?thesis using inventory.lookup_iff [OF rs] by blast
qed

text \<open>Two observations of one file, spelled differently, on a machine that still agrees.\<close>

definition sample_host :: host where
  "sample_host = \<lparr>contents = [''/k/string.c'' \<mapsto> ''x''], is_symlink = (\<lambda>_. False), is_dir = (\<lambda>_. False),
                  resolve = path_str, sha256_hex = (\<lambda>b. replicate 64 CHR ''a''), float_text = (\<lambda>f. [])\<rparr>"

definition sample_items :: "pydict list" where
  "sample_items = map receipt_entry
     [(''/k/string.c'', replicate 64 CHR ''a''), (''/k//./string.c'', replicate 64 CHR ''a'')]"

lemma changed_files_none_iff_witness:
  "changed_files sample_host sample_items = Inr []
   \<and> file_sha256 sample_host ''/k/string.c'' = Some (replicate 64 CHR ''a'')"
proof -
  have none: "changed_files sample_host sample_items = Inr []" by code_simp
  have "sample_items ! 0 \<in> set sample_items" by (simp add: sample_items_def)
  moreover have "receipt_of (sample_items ! 0) = Some (''/k/string.c'', replicate 64 CHR ''a'')" by code_simp
  ultimately show ?thesis using none changed_files_none_iff [of sample_host sample_items] by blast
qed

end
