(* ===== verification/Acsl_Lex.thy ===== *)
theory Acsl_Lex
  imports Host
begin

text \<open>
  \<^verbatim>\<open>fragma/frontend_policy.py\<close>, the lexer of block ACSL annotations (\<^verbatim>\<open>annotation_tokens\<close>): the
  alternatives of \<^verbatim>\<open>_ACSL_TOKEN\<close> in their order, the tokens of one annotation body, and the scan
  of a C source for its annotations. The lemmas show that the tokens spell the body up to white
  space, that writing them with single blanks between gives the same tokens back, and that the
  annotations of two joined files are those of the first followed by those of the second.
\<close>

abbreviation frontend_error :: "string \<Rightarrow> exn" where
  "frontend_error m \<equiv> Exn SourceError (''frontend policy: '' @ m)"

section \<open>The regular expression\<close>

text \<open>\<^verbatim>\<open>(?:\\.|[^q\\\n])*q\<close> after an opening quote \<open>q\<close>: the text it matches, the closing quote included.\<close>

fun quoted_tail :: "char \<Rightarrow> string \<Rightarrow> (string \<times> string) option" where
  "quoted_tail q [] = None"
| "quoted_tail q [c] = (if c = q then Some ([c], []) else None)"
| "quoted_tail q (c # d # s) =
     (if c = q then Some ([c], d # s)
      else if c = CHR 0x0A then None
      else if c = CHR 0x5C then
        (if d = CHR 0x0A then None else map_option (\<lambda>(t, r). (c # d # t, r)) (quoted_tail q s))
      else map_option (\<lambda>(t, r). (c # t, r)) (quoted_tail q (d # s)))"

definition acsl_literal :: "char \<Rightarrow> string \<Rightarrow> (string \<times> string) option" where
  "acsl_literal q s = (case find (\<lambda>p. starts_with (p @ [q]) s) [''u8'', ''u'', ''U'', ''L'', ''''] of
     None \<Rightarrow> None
   | Some p \<Rightarrow> map_option (\<lambda>(t, r). (p @ [q] @ t, r)) (quoted_tail q (drop (length p + 1) s)))"

text \<open>The longest piece of characters of a class, and the rest.\<close>

definition char_span :: "('a \<Rightarrow> bool) \<Rightarrow> 'a list \<Rightarrow> 'a list \<times> 'a list" where
  "char_span P s = (takeWhile P s, dropWhile P s)"

definition acsl_name :: "string \<Rightarrow> (string \<times> string) option" where
  "acsl_name s =
     (let b = (if starts_with [CHR 0x5C] s then [CHR 0x5C] else [])
      in case drop (length b) s of
           c # s2 \<Rightarrow> if is_ident_start c then (let (t, r) = char_span is_ident_char s2 in Some (b @ c # t, r)) else None
         | [] \<Rightarrow> None)"

definition is_hex_digit :: "char \<Rightarrow> bool" where
  "is_hex_digit c = (is_lhex c \<or> in_range CHR ''A'' CHR ''F'' c)"

definition acsl_hex :: "string \<Rightarrow> (string \<times> string) option" where
  "acsl_hex s = (case s of
     z # x # s1 \<Rightarrow>
       if z = CHR ''0'' \<and> x \<in> set ''xX'' then
         (let (ds, s2) = char_span is_hex_digit s1; (u, r) = char_span (\<lambda>c. c \<in> set ''uUlL'') s2
          in if ds = [] then None else Some (z # x # ds @ u, r))
       else None
   | _ \<Rightarrow> None)"

text \<open>\<^verbatim>\<open>(?:\.(?!\.)[0-9]*)?\<close>\<close>

definition fraction_part :: "string \<Rightarrow> string \<times> string" where
  "fraction_part s =
     (if starts_with ''.'' s \<and> \<not> starts_with ''..'' s
      then (let (t, r) = char_span is_digit (tl s) in (CHR ''.'' # t, r)) else ([], s))"

text \<open>\<^verbatim>\<open>(?:[eE][+-]?[0-9]+)?\<close>\<close>

definition exponent_part :: "string \<Rightarrow> string \<times> string" where
  "exponent_part s = (case s of
     c # s1 \<Rightarrow>
       (let g = (case s1 of d # _ \<Rightarrow> if d \<in> set ''+-'' then [d] else [] | [] \<Rightarrow> []);
            (t, r) = char_span is_digit (drop (length g) s1)
        in if c \<in> set ''eE'' \<and> t \<noteq> [] then (c # g @ t, r) else ([], s))
   | [] \<Rightarrow> ([], s))"

definition acsl_decimal :: "string \<Rightarrow> (string \<times> string) option" where
  "acsl_decimal s =
     (let (ds, s1) = char_span is_digit s; (f, s2) = fraction_part s1; (e, s3) = exponent_part s2;
          (u, r) = char_span (\<lambda>c. c \<in> set ''uUlLfF'') s3
      in if ds = [] then None else Some (ds @ f @ e @ u, r))"

definition OPERATORS :: "string list" where
  "OPERATORS =
     [''<==>'', ''==>'', ''<-->'', ''<=>'', ''...'', ''..'', ''<<'', ''>>'', ''<='', ''>='', ''=='', ''!='', ''&&'',
      ''||'', ''->'', ''++'', ''--'', ''('', '')'', ''['', '']'', ''{'', ''}'', '','', '';'', '':'', ''.'', ''?'',
      ''~'', ''!'', ''+'', ''*'', ''/'', ''%'', ''<'', ''>'', ''='', ''&'', ''|'', ''^'', ''_'', [CHR 0x5C], ''-'']"

definition acsl_operator :: "string \<Rightarrow> (string \<times> string) option" where
  "acsl_operator s = map_option (\<lambda>p. (p, drop (length p) s)) (find (\<lambda>p. starts_with p s) OPERATORS)"

fun first_some :: "('a \<Rightarrow> 'b option) list \<Rightarrow> 'a \<Rightarrow> 'b option" where
  "first_some [] x = None"
| "first_some (f # fs) x = (case f x of None \<Rightarrow> first_some fs x | Some y \<Rightarrow> Some y)"

text \<open>\<^verbatim>\<open>_ACSL_TOKEN.match\<close>: the token at the front of the text and the rest.\<close>

definition acsl_token :: "string \<Rightarrow> (string \<times> string) option" where
  "acsl_token = first_some [acsl_literal CHR 0x22, acsl_literal CHR 0x27, acsl_name, acsl_hex, acsl_decimal, acsl_operator]"

section \<open>A token is a nonempty piece of the text\<close>

lemma span_split: "char_span P s = (t, r) \<Longrightarrow> s = t @ r \<and> list_all P t \<and> (r = [] \<or> \<not> P (hd r))"
  by (auto simp: char_span_def list_all_iff dest: set_takeWhileD hd_dropWhile)

lemma span_append: "list_all P t \<Longrightarrow> x = [] \<or> \<not> P (hd x) \<Longrightarrow> char_span P (t @ x) = (t, x)"
  by (induction t) (cases x; auto simp: char_span_def)+

lemma quoted_tail_split:
  "quoted_tail q s = Some (t, r) \<Longrightarrow> s = t @ r \<and> t \<noteq> [] \<and> quoted_tail q (t @ x) = Some (t, x)"
proof (induction q s arbitrary: t r rule: quoted_tail.induct)
  case (2 q c)
  then show ?case by (cases x) (auto split: if_splits)
next
  case (3 q c d s)
  consider "c = q" | "c \<noteq> q" "c = CHR 0x5C" | "c \<noteq> q" "c \<noteq> CHR 0x5C" by blast
  then show ?case
  proof cases
    case 1
    then show ?thesis using "3.prems" by (cases x) auto
  next
    case 2
    with "3.prems" obtain t' where t: "t = c # d # t'" "quoted_tail q s = Some (t', r)" "d \<noteq> CHR 0x0A"
      by (auto split: if_splits)
    from "3.IH"(1) [OF _ _ _ _ t(2)] 2 t(3) have "s = t' @ r" "quoted_tail q (t' @ x) = Some (t', x)" by auto
    with 2 t show ?thesis by simp
  next
    case 3
    with "3.prems" obtain t' where t: "t = c # t'" "quoted_tail q (d # s) = Some (t', r)" "c \<noteq> CHR 0x0A"
      by (auto split: if_splits)
    from "3.IH"(2) [OF _ _ _ t(2)] 3 t(3) have IH: "d # s = t' @ r" "t' \<noteq> []" "quoted_tail q (t' @ x) = Some (t', x)"
      by auto
    then obtain e t'' where "t' = e # t''" by (cases t') auto
    with IH(3) 3 t(3) have "quoted_tail q (c # t' @ x) = Some (c # t', x)" by simp
    with IH t show ?thesis by simp
  qed
qed simp

text \<open>What may stand after a token that is written on its own: nothing, or white space.\<close>

definition stands_apart :: "string \<Rightarrow> bool" where
  "stands_apart x = (x = [] \<or> is_space (hd x))"

lemma is_space_not:
  assumes "is_space c"
  shows "\<not> is_ident_char c" "\<not> is_ident_start c" "\<not> is_digit c" "\<not> is_hex_digit c"
    "c \<notin> set ''uUlLfFeExX+-.0''" "c \<noteq> CHR 0x5C" "c \<noteq> CHR 0x22" "c \<noteq> CHR 0x27" "\<forall>p\<in>set OPERATORS. c \<notin> set p"
  using assms by (auto simp: is_space_def char_class_defs is_hex_digit_def OPERATORS_def)

lemma span_stands: "list_all P t \<Longrightarrow> stands_apart x \<Longrightarrow> (\<And>c. is_space c \<Longrightarrow> \<not> P c) \<Longrightarrow> char_span P (t @ x) = (t, x)"
  by (rule span_append) (auto simp: stands_apart_def)

definition token_rule :: "(string \<Rightarrow> (string \<times> string) option) \<Rightarrow> bool" where
  "token_rule f \<longleftrightarrow> (\<forall>s t r. f s = Some (t, r) \<longrightarrow> s = t @ r \<and> t \<noteq> [] \<and> (\<forall>x. stands_apart x \<longrightarrow> f (t @ x) = Some (t, x)))"

lemma token_ruleI:
  "(\<And>s t r. f s = Some (t, r) \<Longrightarrow> s = t @ r \<and> t \<noteq> []) \<Longrightarrow> (\<And>s t r x. f s = Some (t, r) \<Longrightarrow> stands_apart x \<Longrightarrow> f (t @ x) = Some (t, x))
    \<Longrightarrow> token_rule f"
  by (simp add: token_rule_def)

lemma token_ruleD:
  assumes "token_rule f" and "f s = Some (t, r)"
  shows "s = t @ r" "t \<noteq> []" "stands_apart x \<Longrightarrow> f (t @ x) = Some (t, x)"
  using assms by (auto simp: token_rule_def)

lemma find_SomeE: "find P xs = Some x \<Longrightarrow> x \<in> set xs \<and> P x"
  by (induction xs) (auto split: if_splits)

lemma literal_prefix:
  assumes "find (\<lambda>p. starts_with (p @ [q]) s) [''u8'', ''u'', ''U'', ''L'', ''''] = Some p" and "q = CHR 0x22 \<or> q = CHR 0x27"
  shows "s = p @ [q] @ drop (length p + 1) s"
    and "p' = p \<Longrightarrow> find (\<lambda>p. starts_with (p @ [q]) (p' @ [q] @ y)) [''u8'', ''u'', ''U'', ''L'', ''''] = Some p'"
proof -
  from find_SomeE [OF assms(1)] have "starts_with (p @ [q]) s" and p: "p \<in> {''u8'', ''u'', ''U'', ''L'', ''''}"
    by simp_all
  then show "s = p @ [q] @ drop (length p + 1) s" by (auto simp: starts_with_iff)
  show "find (\<lambda>p. starts_with (p @ [q]) (p' @ [q] @ y)) [''u8'', ''u'', ''U'', ''L'', ''''] = Some p'" if "p' = p"
    using p assms(2) unfolding that by (elim insertE emptyE disjE; simp add: starts_with_code)
qed

lemma literal_rule:
  assumes "q = CHR 0x22 \<or> q = CHR 0x27"
  shows "token_rule (acsl_literal q)"
proof (rule token_ruleI)
  fix s t r x assume "acsl_literal q s = Some (t, r)"
  then obtain p t' where p: "find (\<lambda>p. starts_with (p @ [q]) s) [''u8'', ''u'', ''U'', ''L'', ''''] = Some p"
      and t: "quoted_tail q (drop (length p + 1) s) = Some (t', r)" "t = p @ [q] @ t'"
    by (auto simp: acsl_literal_def split: option.splits)
  from literal_prefix(1) [OF p assms] quoted_tail_split [OF t(1)] t(2) show "s = t @ r \<and> t \<noteq> []" by auto
  from literal_prefix(2) [OF p assms refl, of "t' @ x"] quoted_tail_split [OF t(1)] t(2)
  show "acsl_literal q (t @ x) = Some (t, x)" by (simp add: acsl_literal_def)
qed

lemma name_rule: "token_rule acsl_name"
proof (rule token_ruleI)
  fix s t r x assume *: "acsl_name s = Some (t, r)"
  have ident: "\<not> is_ident_start CHR 0x5C" by (simp add: char_class_defs)
  define b where "b = (if starts_with [CHR 0x5C] s then [CHR 0x5C] else [])"
  have b: "s = b @ drop (length b) s" "b = [] \<or> b = [CHR 0x5C]" by (auto simp: b_def starts_with_iff)
  from * obtain c s2 w where "drop (length b) s = c # s2"
      and s: "is_ident_start c" "char_span is_ident_char s2 = (w, r)" "t = b @ c # w"
    unfolding acsl_name_def b_def [symmetric] Let_def by (auto split: list.splits prod.splits if_splits)
  with b have s: "s = b @ c # s2" "is_ident_start c" "char_span is_ident_char s2 = (w, r)" "t = b @ c # w" by auto
  with span_split [OF s(3)] show "s = t @ r \<and> t \<noteq> []" by auto
  assume x: "stands_apart x"
  have "char_span is_ident_char (w @ x) = (w, x)"
    using span_split [OF s(3)] x is_space_not(1) by (intro span_stands) auto
  with s(2,4) b(2) ident show "acsl_name (t @ x) = Some (t, x)" by (auto simp: acsl_name_def starts_with_code split: if_splits)
qed

lemma hex_form:
  assumes "acsl_hex s = Some (t, r)"
  obtains z e s1 ds s2 u where "s = z # e # s1" "z = CHR ''0''" "e \<in> set ''xX''" "char_span is_hex_digit s1 = (ds, s2)"
      "char_span (\<lambda>c. c \<in> set ''uUlL'') s2 = (u, r)" "ds \<noteq> []" "t = z # e # ds @ u"
  using assms unfolding acsl_hex_def by (auto split: list.splits prod.splits if_splits simp del: list.set)

lemma hex_rule: "token_rule acsl_hex"
proof (rule token_ruleI)
  fix s t r x assume *: "acsl_hex s = Some (t, r)"
  then obtain z e s1 ds s2 u where s: "s = z # e # s1" "z = CHR ''0''" "e \<in> set ''xX''" "char_span is_hex_digit s1 = (ds, s2)"
      "char_span (\<lambda>c. c \<in> set ''uUlL'') s2 = (u, r)" "ds \<noteq> []" "t = z # e # ds @ u" by (rule hex_form)
  then show "s = t @ r \<and> t \<noteq> []" by (auto dest!: span_split)
  assume x: "stands_apart x"
  have "char_span (\<lambda>c. c \<in> set ''uUlL'') (u @ x) = (u, x)"
    using span_split [OF s(5)] x is_space_not(5) by (intro span_stands) auto
  moreover have "u @ x = [] \<or> \<not> is_hex_digit (hd (u @ x))"
  proof (cases u)
    case Nil
    then show ?thesis using x is_space_not(4) by (auto simp: stands_apart_def)
  next
    case (Cons c u')
    then show ?thesis using span_split [OF s(5)] by (auto simp: is_hex_digit_def char_class_defs)
  qed
  then have "char_span is_hex_digit (ds @ u @ x) = (ds, u @ x)" using span_split [OF s(4)] by (intro span_append) auto
  ultimately show "acsl_hex (t @ x) = Some (t, x)" using s(2,3,6,7) by (simp add: acsl_hex_def)
qed

lemma not_digit [simp]:
  "\<not> is_digit CHR ''.''" "\<not> is_digit CHR ''+''" "\<not> is_digit CHR ''-''" "\<not> is_digit CHR ''e''" "\<not> is_digit CHR ''E''"
  "\<not> is_digit CHR 0x5C"
  by (simp_all add: char_class_defs)

lemma digit_not_sign: "is_digit c \<Longrightarrow> c \<noteq> CHR ''+'' \<and> c \<noteq> CHR ''-''"
  by auto

text \<open>What stops each part of a decimal number.\<close>

definition stops :: "char set \<Rightarrow> string \<Rightarrow> bool" where
  "stops C y = (y = [] \<or> hd y \<notin> C)"

lemma stands_stops: "stands_apart x \<Longrightarrow> (\<And>c. is_space c \<Longrightarrow> c \<notin> C) \<Longrightarrow> stops C x"
  by (auto simp: stands_apart_def stops_def)

lemma stops_append: "stops C y \<Longrightarrow> u = [] \<or> hd u \<notin> C \<Longrightarrow> stops C (u @ y)"
  by (auto simp: stops_def hd_append)

lemma fraction_part_split:
  assumes "fraction_part s = (f, r)"
  shows "s = f @ r \<and> (f = [] \<or> hd f = CHR ''.'')"
    and "stops (insert CHR ''.'' (Collect is_digit)) y \<Longrightarrow> fraction_part (f @ y) = (f, y)"
proof -
  show "s = f @ r \<and> (f = [] \<or> hd f = CHR ''.'')"
    using assms by (auto simp: fraction_part_def starts_with_iff split: if_splits prod.splits dest: span_split)
  assume y: "stops (insert CHR ''.'' (Collect is_digit)) y"
  show "fraction_part (f @ y) = (f, y)"
  proof (cases f)
    case Nil
    then show ?thesis using y by (cases y) (auto simp: fraction_part_def stops_def starts_with_code)
  next
    case (Cons c t)
    then have t: "c = CHR ''.''" "list_all is_digit t"
      using assms by (auto simp: fraction_part_def split: if_splits prod.splits dest: span_split)
    have "char_span is_digit (t @ y) = (t, y)" using y t(2) by (intro span_append) (auto simp: stops_def)
    moreover have "\<not> starts_with ''..'' (CHR ''.'' # t @ y)"
      using y t(2) by (cases t; cases y) (auto simp: starts_with_code stops_def)
    ultimately show ?thesis using t(1) Cons by (simp add: fraction_part_def starts_with_code)
  qed
qed

lemma exponent_part_form:
  assumes "exponent_part s = (e, r)"
  shows "e = [] \<and> r = s \<or> (\<exists>c g t. s = c # g @ t @ r \<and> e = c # g @ t \<and> c \<in> set ''eE'' \<and> (g = [] \<or> (\<exists>d\<in>set ''+-''. g = [d]))
      \<and> t \<noteq> [] \<and> list_all is_digit t)"
proof (cases s)
  case (Cons c s1)
  define g where "g = (case s1 of d # _ \<Rightarrow> if d \<in> set ''+-'' then [d] else [] | [] \<Rightarrow> [])"
  obtain t r' where t: "char_span is_digit (drop (length g) s1) = (t, r')" by (cases "char_span is_digit (drop (length g) s1)")
  have g: "s1 = g @ drop (length g) s1" "g = [] \<or> (\<exists>d\<in>set ''+-''. g = [d])"
    by (auto simp: g_def simp del: list.set split: list.splits)
  from assms t have "c \<in> set ''eE'' \<and> t \<noteq> [] \<and> e = c # g @ t \<and> r = r' \<or> e = [] \<and> r = s"
    unfolding exponent_part_def Cons by (auto simp: g_def [symmetric] simp del: list.set split: if_splits)
  with g span_split [OF t] Cons show ?thesis by (metis append_assoc)
qed (use assms in \<open>simp add: exponent_part_def\<close>)

lemma exponent_part_split:
  assumes "exponent_part s = (e, r)"
  shows "s = e @ r \<and> (e = [] \<or> hd e \<in> set ''eE'')"
    and "stops (set ''eE'' \<union> Collect is_digit) y \<Longrightarrow> exponent_part (e @ y) = (e, y)"
proof -
  note * = exponent_part_form [OF assms]
  then show "s = e @ r \<and> (e = [] \<or> hd e \<in> set ''eE'')" by auto
  assume y: "stops (set ''eE'' \<union> Collect is_digit) y"
  from * show "exponent_part (e @ y) = (e, y)"
  proof
    assume "e = [] \<and> r = s"
    then show ?thesis using y by (cases y) (auto simp: exponent_part_def stops_def split: prod.splits)
  next
    assume "\<exists>c g t. s = c # g @ t @ r \<and> e = c # g @ t \<and> c \<in> set ''eE'' \<and> (g = [] \<or> (\<exists>d\<in>set ''+-''. g = [d]))
      \<and> t \<noteq> [] \<and> list_all is_digit t"
    then obtain c g t where e: "e = c # g @ t" "c \<in> set ''eE''" "g = [] \<or> (\<exists>d\<in>set ''+-''. g = [d])" "t \<noteq> []"
      "list_all is_digit t" by blast
    have "char_span is_digit (t @ y) = (t, y)" using y e(5) by (intro span_append) (auto simp: stops_def)
    moreover obtain d t' where "t = d # t'" "d \<notin> set ''+-''"
      using e(4,5) by (cases t) (auto dest: digit_not_sign)
    ultimately show ?thesis using e(1-3) by (auto simp: exponent_part_def simp del: list.set)
  qed
qed

lemma decimal_rule: "token_rule acsl_decimal"
proof (rule token_ruleI)
  fix s t r x assume "acsl_decimal s = Some (t, r)"
  then obtain ds s1 f s2 e s3 u where p: "char_span is_digit s = (ds, s1)" "fraction_part s1 = (f, s2)" "exponent_part s2 = (e, s3)"
      "char_span (\<lambda>c. c \<in> set ''uUlLfF'') s3 = (u, r)" and t: "ds \<noteq> []" "t = ds @ f @ e @ u"
    by (auto simp: acsl_decimal_def simp del: list.set split: prod.splits if_splits)
  note f = fraction_part_split [OF p(2)] and e = exponent_part_split [OF p(3)]
  show "s = t @ r \<and> t \<noteq> []" using f(1) e(1) span_split [OF p(1)] span_split [OF p(4)] t by auto
  assume x: "stands_apart x"
  have u: "u = [] \<or> hd u \<in> set ''uUlLfF''" using span_split [OF p(4)] by (cases u) auto
  have ux: "stops C (u @ x)" if "\<And>c. is_space c \<Longrightarrow> c \<notin> C" "\<And>c. c \<in> set ''uUlLfF'' \<Longrightarrow> c \<notin> C" for C
    using u that x by (intro stops_append stands_stops) auto
  have "char_span (\<lambda>c. c \<in> set ''uUlLfF'') (u @ x) = (u, x)"
    using span_split [OF p(4)] x is_space_not(5) by (intro span_stands) auto
  moreover have "exponent_part (e @ u @ x) = (e, u @ x)"
    using is_space_not(3,5) by (intro e(2) ux) (auto simp: char_class_defs)
  moreover have eux: "stops (insert CHR ''.'' (Collect is_digit)) (e @ u @ x)"
    using e(1) is_space_not(3,5) by (intro stops_append ux) (auto simp: char_class_defs)
  then have "fraction_part (f @ e @ u @ x) = (f, e @ u @ x)" by (rule f(2))
  moreover have "char_span is_digit (ds @ f @ e @ u @ x) = (ds, f @ e @ u @ x)"
    using span_split [OF p(1)] f(1) eux by (intro span_append) (auto simp: stops_def hd_append char_class_defs)
  ultimately show "acsl_decimal (t @ x) = Some (t, x)" using t by (simp add: acsl_decimal_def)
qed

lemma starts_with_apart:
  assumes "starts_with w (t @ x)" and "stands_apart x" and "\<forall>c\<in>set w. \<not> is_space c"
  shows "starts_with w t"
proof -
  obtain y where y: "t @ x = w @ y" using assms(1) by (auto simp: starts_with_iff)
  then obtain z where "t = w @ z \<or> t @ z = w \<and> x = z @ y" by (auto simp: append_eq_append_conv2)
  then show ?thesis
  proof
    assume *: "t @ z = w \<and> x = z @ y"
    then have "z = []" using assms(2,3) by (cases z) (auto simp: stands_apart_def)
    with * show ?thesis by (simp add: starts_with_def)
  qed (simp add: starts_with_def)
qed

lemma find_operator:
  assumes "find (\<lambda>p. starts_with p (t @ r)) ps = Some t" and "stands_apart x" and "\<forall>p\<in>set ps. \<forall>c\<in>set p. \<not> is_space c"
  shows "find (\<lambda>p. starts_with p (t @ x)) ps = Some t"
  using assms(1,3)
proof (induction ps)
  case (Cons p ps)
  have "starts_with p (t @ r)" if "starts_with p (t @ x)"
    using starts_with_apart [OF that assms(2)] Cons.prems(2) by (auto simp: starts_with_iff)
  with Cons show ?case by (auto split: if_splits)
qed simp

lemma operator_rule: "token_rule acsl_operator"
proof (rule token_ruleI)
  fix s t r x assume "acsl_operator s = Some (t, r)"
  then have f: "find (\<lambda>p. starts_with p s) OPERATORS = Some t" "r = drop (length t) s" by (auto simp: acsl_operator_def)
  from find_SomeE [OF f(1)] have t: "t \<in> set OPERATORS" "starts_with t s" by auto
  then have s: "s = t @ r" using f(2) by (auto simp: starts_with_iff)
  with t(1) show "s = t @ r \<and> t \<noteq> []" by (auto simp: OPERATORS_def)
  assume x: "stands_apart x"
  have "find (\<lambda>p. starts_with p (t @ x)) OPERATORS = Some t"
    using is_space_not(9) by (intro find_operator [OF f(1) [unfolded s] x]) blast
  then show "acsl_operator (t @ x) = Some (t, x)" by (simp add: acsl_operator_def)
qed

lemma operator_member: "acsl_operator s = Some (t, r) \<Longrightarrow> t \<in> set OPERATORS"
  by (auto simp: acsl_operator_def dest: find_SomeE)

lemma name_chars: "acsl_name s = Some (t, r) \<Longrightarrow> c \<in> set t \<Longrightarrow> is_ident_char c \<or> c = CHR 0x5C"
  by (auto simp: acsl_name_def list_all_iff is_ident_char_def dest!: span_split split: list.splits prod.splits if_splits)

lemma hex_chars:
  assumes "acsl_hex s = Some (t, r)"
  shows "hd t = CHR ''0'' \<and> (\<forall>c\<in>set t. is_ident_char c)"
proof -
  obtain z e s1 ds s2 u where s: "s = z # e # s1" "z = CHR ''0''" "e \<in> set ''xX''" "char_span is_hex_digit s1 = (ds, s2)"
      "char_span (\<lambda>c. c \<in> set ''uUlL'') s2 = (u, r)" "ds \<noteq> []" "t = z # e # ds @ u" by (rule hex_form [OF assms])
  have ident: "is_ident_char c" if "is_hex_digit c \<or> c \<in> set ''uUlL'' \<or> c \<in> set ''xX'' \<or> c = CHR ''0''" for c
  proof -
    have "is_ident_char c" if "is_hex_digit c"
      using that unfolding is_hex_digit_def char_class_defs by simp linarith
    moreover have "is_ident_char c" if "c \<in> set ''uUlLxX0''" for c using that by (auto simp: char_class_defs)
    ultimately show ?thesis using that by auto
  qed
  have "\<forall>c\<in>set ds. is_ident_char c" "\<forall>c\<in>set u. is_ident_char c"
    using span_split [OF s(4)] span_split [OF s(5)] ident unfolding list_all_iff by blast+
  with s(2,3) ident show ?thesis unfolding s(7) by (simp add: ball_Un) blast
qed

lemma decimal_chars:
  assumes "acsl_decimal s = Some (t, r)"
  shows "is_digit (hd t) \<and> (\<forall>c\<in>set t. is_digit c \<or> c \<in> set ''.eE+-uUlLfF'')"
proof -
  obtain ds s1 f s2 e s3 u where p: "char_span is_digit s = (ds, s1)" "fraction_part s1 = (f, s2)" "exponent_part s2 = (e, s3)"
      "char_span (\<lambda>c. c \<in> set ''uUlLfF'') s3 = (u, r)" and t: "ds \<noteq> []" "t = ds @ f @ e @ u"
    using assms by (auto simp: acsl_decimal_def simp del: list.set split: prod.splits if_splits)
  have "\<forall>c\<in>set f. is_digit c \<or> c = CHR ''.''"
    using p(2) by (auto simp: fraction_part_def list_all_iff dest!: span_split split: if_splits prod.splits)
  moreover have "\<forall>c\<in>set e. is_digit c \<or> c \<in> set ''eE+-''"
    using exponent_part_form [OF p(3)] by (auto simp: list_all_iff)
  moreover have "\<forall>c\<in>set ds. is_digit c" "\<forall>c\<in>set u. c \<in> set ''uUlLfF''"
    using span_split [OF p(1)] span_split [OF p(4)] unfolding list_all_iff by blast+
  moreover have "CHR ''.'' \<in> set ''.eE+-uUlLfF''" "set ''eE+-'' \<subseteq> set ''.eE+-uUlLfF''" "set ''uUlLfF'' \<subseteq> set ''.eE+-uUlLfF''"
    by simp_all
  ultimately have "\<forall>c\<in>set t. is_digit c \<or> c \<in> set ''.eE+-uUlLfF''" unfolding t(2) set_append by blast
  moreover have "is_digit (hd t)" using t span_split [OF p(1)] by (simp add: list_all_iff)
  ultimately show ?thesis by blast
qed

text \<open>No earlier alternative matches a token that stands apart when it did not match before.\<close>

lemma literal_none:
  assumes "\<forall>c\<in>set t. c \<noteq> CHR 0x22 \<and> c \<noteq> CHR 0x27" and "stands_apart x" and "q = CHR 0x22 \<or> q = CHR 0x27"
  shows "acsl_literal q (t @ x) = None"
proof (cases "find (\<lambda>p. starts_with (p @ [q]) (t @ x)) [''u8'', ''u'', ''U'', ''L'', '''']")
  case (Some p)
  from find_SomeE [OF Some] have *: "starts_with (p @ [q]) (t @ x)" "p \<in> {''u8'', ''u'', ''U'', ''L'', ''''}" by simp_all
  have **: "\<forall>c\<in>set (p @ [q]). \<not> is_space c" using *(2) assms(3) by (elim insertE emptyE disjE) (simp_all add: is_space_def)
  have "starts_with (p @ [q]) t" by (rule starts_with_apart [OF *(1) assms(2) **])
  then have "q \<in> set t" by (auto simp: starts_with_iff)
  with assms(1,3) show ?thesis by auto
qed (simp add: acsl_literal_def)

lemma name_none:
  assumes "acsl_name (t @ r) = None" and "t \<noteq> []" and "hd t = CHR 0x5C \<longrightarrow> t = [CHR 0x5C]" and "stands_apart x"
  shows "acsl_name (t @ x) = None"
proof -
  obtain c t' where t: "t = c # t'" using assms(2) by (cases t) auto
  show ?thesis
  proof (cases "c = CHR 0x5C")
    case True
    then show ?thesis using assms(3,4) is_space_not(2) by (cases x) (auto simp: acsl_name_def t stands_apart_def starts_with_code)
  next
    case False
    then show ?thesis using assms(1) by (auto simp: acsl_name_def t starts_with_code split: prod.splits if_splits)
  qed
qed

lemma hex_none:
  assumes "t \<noteq> []" and "hd t = CHR ''0'' \<longrightarrow> CHR ''x'' \<notin> set t \<and> CHR ''X'' \<notin> set t" and "stands_apart x"
  shows "acsl_hex (t @ x) = None"
proof (cases t)
  case (Cons c t')
  then show ?thesis
    using assms(2,3) is_space_not(5) by (cases t'; cases x) (auto simp: acsl_hex_def stands_apart_def split: list.splits)
qed (use assms in simp)

lemma decimal_none: "t \<noteq> [] \<Longrightarrow> \<not> is_digit (hd t) \<Longrightarrow> acsl_decimal (t @ x) = None"
  by (cases t) (auto simp: acsl_decimal_def char_span_def split: prod.splits)

lemma first_some_rule:
  assumes "token_rule f" and "token_rule (first_some fs)"
    and "\<And>s t r x. f s = None \<Longrightarrow> first_some fs s = Some (t, r) \<Longrightarrow> s = t @ r \<Longrightarrow> t \<noteq> [] \<Longrightarrow> stands_apart x \<Longrightarrow> f (t @ x) = None"
  shows "token_rule (first_some (f # fs))"
proof (rule token_ruleI)
  fix s t r x assume *: "first_some (f # fs) s = Some (t, r)"
  show "s = t @ r \<and> t \<noteq> []"
  proof (cases "f s")
    case None
    with * token_ruleD(1,2) [OF assms(2)] show ?thesis by auto
  next
    case (Some y)
    with * token_ruleD(1,2) [OF assms(1)] show ?thesis by auto
  qed
  then have s: "s = t @ r" "t \<noteq> []" by auto
  assume x: "stands_apart x"
  show "first_some (f # fs) (t @ x) = Some (t, x)"
  proof (cases "f s")
    case None
    with * have "first_some fs s = Some (t, r)" by simp
    with None s x assms(3) token_ruleD(3) [OF assms(2)] show ?thesis by auto
  next
    case (Some y)
    with * token_ruleD(3) [OF assms(1)] x show ?thesis by auto
  qed
qed

lemma first_some_single: "first_some [f] = f"
  by (rule ext) (simp split: option.splits)

lemma decimal_token_chars:
  "first_some [acsl_decimal, acsl_operator] s = Some (t, r) \<Longrightarrow>
     is_digit (hd t) \<and> (\<forall>c\<in>set t. is_digit c \<or> c \<in> set ''.eE+-uUlLfF'') \<or> t \<in> set OPERATORS"
  using decimal_chars operator_member by (auto simp del: list.set split: option.splits)

lemma hex_token_chars:
  "first_some [acsl_hex, acsl_decimal, acsl_operator] s = Some (t, r) \<Longrightarrow>
     is_digit (hd t) \<and> (\<forall>c\<in>set t. is_ident_char c \<or> c \<in> set ''.eE+-uUlLfF'') \<or> t \<in> set OPERATORS"
  using hex_chars [of s t r] decimal_token_chars [of s t r]
  by (auto simp: is_ident_char_def simp del: list.set split: option.splits) (simp_all add: char_class_defs)

lemma hd_append_list: "s = t @ r \<Longrightarrow> t \<noteq> [] \<Longrightarrow> hd s = hd t"
  by auto

lemma decimal_some: "is_digit (hd s) \<Longrightarrow> s \<noteq> [] \<Longrightarrow> acsl_decimal s \<noteq> None"
  by (cases s) (auto simp: acsl_decimal_def char_span_def split: prod.splits)

lemma acsl_token_rule: "token_rule acsl_token"
proof -
  have "token_rule (first_some [acsl_decimal, acsl_operator])"
  proof (rule first_some_rule [OF decimal_rule])
    fix s t r x assume *: "acsl_decimal s = None" "s = t @ r" "t \<noteq> []"
    then have "\<not> is_digit (hd t)" using decimal_some [of s] hd_append_list [OF *(2,3)] by auto
    with *(3) show "acsl_decimal (t @ x) = None" by (rule decimal_none)
  qed (simp add: first_some_single operator_rule)
  then have "token_rule (first_some [acsl_hex, acsl_decimal, acsl_operator])"
  proof (rule first_some_rule [OF hex_rule])
    fix s t r x assume *: "first_some [acsl_decimal, acsl_operator] s = Some (t, r)" "t \<noteq> []" "stands_apart x"
    have "CHR ''x'' \<notin> set t \<and> CHR ''X'' \<notin> set t" if "hd t = CHR ''0''"
      using decimal_token_chars [OF *(1)]
    proof
      assume "t \<in> set OPERATORS"
      with that show ?thesis by (auto simp: OPERATORS_def)
    qed (auto simp: char_class_defs)
    with * show "acsl_hex (t @ x) = None" by (intro hex_none) auto
  qed
  then have name: "token_rule (first_some [acsl_name, acsl_hex, acsl_decimal, acsl_operator])"
  proof (rule first_some_rule [OF name_rule])
    fix s t r x assume *: "acsl_name s = None" "s = t @ r" "t \<noteq> []" "stands_apart x"
      and t: "first_some [acsl_hex, acsl_decimal, acsl_operator] s = Some (t, r)"
    have "hd t = CHR 0x5C \<longrightarrow> t = [CHR 0x5C]"
      using hex_token_chars [OF t]
    proof
      assume "t \<in> set OPERATORS"
      then show ?thesis by (auto simp: OPERATORS_def)
    qed auto
    with * show "acsl_name (t @ x) = None" using name_none [of t r x] by simp
  qed
  have quotes: "\<forall>c\<in>set t. c \<noteq> CHR 0x22 \<and> c \<noteq> CHR 0x27"
    if "first_some [acsl_name, acsl_hex, acsl_decimal, acsl_operator] s = Some (t, r)" for s t r
  proof (cases "acsl_name s = Some (t, r)")
    case True
    then show ?thesis using name_chars by (fastforce simp: char_class_defs)
  next
    case False
    with that have "first_some [acsl_hex, acsl_decimal, acsl_operator] s = Some (t, r)" by (simp split: option.splits)
    from hex_token_chars [OF this] show ?thesis
    proof
      assume "t \<in> set OPERATORS"
      then show ?thesis by (auto simp: OPERATORS_def)
    qed (auto simp: char_class_defs)
  qed
  have second: "token_rule (first_some [acsl_literal CHR 0x27, acsl_name, acsl_hex, acsl_decimal, acsl_operator])"
  proof (rule first_some_rule [OF literal_rule name])
    fix s t r x assume "first_some [acsl_name, acsl_hex, acsl_decimal, acsl_operator] s = Some (t, r)" "stands_apart x"
    from literal_none [OF quotes [OF this(1)] this(2)] show "acsl_literal CHR 0x27 (t @ x) = None" by simp
  qed simp
  show ?thesis unfolding acsl_token_def
  proof (rule first_some_rule [OF literal_rule second])
    fix s t r x
    assume t: "first_some [acsl_literal CHR 0x27, acsl_name, acsl_hex, acsl_decimal, acsl_operator] s = Some (t, r)"
      and none: "acsl_literal CHR 0x22 s = None" and s: "s = t @ r" "t \<noteq> []" "stands_apart x"
    show "acsl_literal CHR 0x22 (t @ x) = None"
    proof (cases "acsl_literal CHR 0x27 s")
      case None
      with t have "first_some [acsl_name, acsl_hex, acsl_decimal, acsl_operator] s = Some (t, r)" by simp
      from literal_none [OF quotes [OF this] s(3)] show ?thesis by simp
    next
      case (Some y)
      with t have l: "acsl_literal CHR 0x27 s = Some (t, r)" by simp
      then obtain p where p: "find (\<lambda>p. starts_with (p @ [CHR 0x27]) s) [''u8'', ''u'', ''U'', ''L'', ''''] = Some p"
        "\<exists>t'. t = p @ [CHR 0x27] @ t'"
        by (auto simp: acsl_literal_def split: option.splits)
      then obtain t' where "t @ x = p @ [CHR 0x27] @ t' @ x" by auto
      moreover have "p \<in> {''u8'', ''u'', ''U'', ''L'', ''''}" using find_SomeE [OF p(1)] by simp
      ultimately show ?thesis by (elim insertE emptyE) (simp_all add: acsl_literal_def starts_with_code)
    qed
  qed simp
qed

section \<open>One annotation\<close>

lemma acsl_token_shorter: "acsl_token s = Some (t, r) \<Longrightarrow> length r < length s"
  using token_ruleD(1,2) [OF acsl_token_rule] by fastforce

text \<open>The inner \<^verbatim>\<open>while\<close> loop of \<^verbatim>\<open>annotation_tokens\<close>.\<close>

function body_tokens :: "string \<Rightarrow> string list res" where
  "body_tokens [] = Inr []"
| "body_tokens (c # s) =
     (if is_space c then body_tokens s
      else (case acsl_token (c # s) of
              None \<Rightarrow> Inl (frontend_error ''unsupported or malformed common24 annotation token'')
            | Some (t, r) \<Rightarrow> bind_res (body_tokens r) (\<lambda>ts. Inr (t # ts))))"
  by pat_completeness auto
termination
  by (relation "measure length") (auto dest: acsl_token_shorter)

text \<open>What it means that tokens spell a text: they stand in it in this order with white space between.\<close>

inductive spells :: "string \<Rightarrow> string list \<Rightarrow> bool" where
  spells_Nil: "spells [] []"
| spells_space: "is_space c \<Longrightarrow> spells s ts \<Longrightarrow> spells (c # s) ts"
| spells_token: "acsl_token (t @ s) = Some (t, s) \<Longrightarrow> spells s ts \<Longrightarrow> spells (t @ s) (t # ts)"

lemma body_tokens_spells: "body_tokens s = Inr ts \<Longrightarrow> spells s ts"
proof (induction s arbitrary: ts rule: body_tokens.induct)
  case (2 c s)
  show ?case
  proof (cases "is_space c")
    case True
    with 2 show ?thesis by (auto intro: spells_space)
  next
    case False
    with "2.prems" obtain t r us where t: "acsl_token (c # s) = Some (t, r)" "body_tokens r = Inr us" "ts = t # us"
      by (auto simp: res_simps split: option.splits)
    have "c # s = t @ r" by (rule token_ruleD(1) [OF acsl_token_rule t(1)])
    with t "2.IH"(2) [OF False t(1)] show ?thesis by (auto intro: spells_token)
  qed
qed (auto intro: spells_Nil)

lemma token_not_space: "acsl_token s = Some (t, r) \<Longrightarrow> \<not> is_space (hd t)"
proof
  assume *: "acsl_token s = Some (t, r)" "is_space (hd t)"
  then obtain c t' where t: "t = c # t'" "is_space c" using token_ruleD(2) [OF acsl_token_rule *(1)] by (cases t) auto
  then have "acsl_token ([] @ t) \<noteq> None" using token_ruleD(3) [OF acsl_token_rule *(1), of "[]"] by (simp add: stands_apart_def)
  moreover have "acsl_literal q t = None" if "q = CHR 0x22 \<or> q = CHR 0x27" for q
    using literal_none [of "[]" t q] t that by (simp add: stands_apart_def)
  moreover have "acsl_name t = None" "acsl_hex t = None" "acsl_decimal t = None"
    using t is_space_not [OF t(2)] by (auto simp: acsl_name_def acsl_hex_def acsl_decimal_def char_span_def starts_with_code split: list.splits prod.splits)
  moreover have "acsl_operator t = None"
  proof (cases "acsl_operator t")
    case (Some y)
    then obtain p where p: "p \<in> set OPERATORS" "starts_with p t" by (auto simp: acsl_operator_def dest: find_SomeE)
    then have "p \<noteq> []" by (auto simp: OPERATORS_def)
    then obtain d p' where d: "p = d # p'" by (cases p) auto
    with p(2) t(1) have "d = c" by (simp add: starts_with_code split: if_splits)
    with p(1) d is_space_not(9) [OF t(2)] have False by auto
    then show ?thesis ..
  qed simp
  ultimately show False by (simp add: acsl_token_def)
qed

lemma spells_join: "spells s ts \<Longrightarrow> body_tokens (join '' '' ts) = Inr ts"
proof (induction rule: spells.induct)
  case (spells_token t s ts)
  note rule = token_ruleD [OF acsl_token_rule spells_token.hyps(1)]
  obtain c t' where t: "t = c # t'" using rule(2) by (cases t) auto
  have c: "\<not> is_space c" using token_not_space [OF spells_token.hyps(1)] t by simp
  show ?case
  proof (cases ts)
    case Nil
    have "acsl_token t = Some (t, [])" using rule(3) [of "[]"] by (simp add: stands_apart_def)
    with c t Nil show ?thesis by simp
  next
    case (Cons u us)
    have "acsl_token (t @ '' '' @ join '' '' ts) = Some (t, '' '' @ join '' '' ts)"
      by (rule rule(3)) (simp add: stands_apart_def is_space_def)
    moreover have "is_space CHR '' ''" by (simp add: is_space_def)
    ultimately show ?thesis using c t Cons spells_token.IH by simp
  qed
qed simp_all

text \<open>
  C35. The normal form of an annotation: the tokens of a body stand in it in order with nothing but
  white space between them, and writing them with single blanks gives the same tokens again; so
  two bodies have the same tokens exactly when they have the same normal form.
\<close>

theorem annotation_normal_form:
  assumes "body_tokens s = Inr ts"
  shows "spells s ts \<and> body_tokens (join '' '' ts) = Inr ts"
  using body_tokens_spells [OF assms] spells_join by blast

lemma annotation_normal_form_witness:
  "spells (''requires'' @ CHR 0x5C # ''valid(p+(0..2));'') [''requires'', CHR 0x5C # ''valid'', ''('', ''p'', ''+'', ''('', ''0'', ''..'', ''2'', '')'', '')'', '';'']"
proof -
  have "body_tokens (''requires'' @ CHR 0x5C # ''valid(p+(0..2));'') = Inr [''requires'', CHR 0x5C # ''valid'', ''('', ''p'', ''+'', ''('', ''0'', ''..'', ''2'', '')'', '')'', '';'']"
    by code_simp
  from annotation_normal_form [OF this] show ?thesis by simp
qed

section \<open>The annotations of a source\<close>

text \<open>The text after a literal whose opening quote \<open>q\<close> was read; an escape passes over any character.\<close>

fun skip_literal :: "char \<Rightarrow> string \<Rightarrow> string res" where
  "skip_literal q [] = Inl (frontend_error ''unterminated source literal'')"
| "skip_literal q (c # s) =
     (if c = q then Inr s
      else if c = CHR 0x0A then Inl (frontend_error ''unterminated source literal'')
      else if c = CHR 0x5C then skip_literal q (drop 1 s)
      else skip_literal q s)"

definition annotation_block :: "string \<Rightarrow> string list res" where
  "annotation_block body =
     bind_res (body_tokens body) (\<lambda>ts. if ts = [] then Inl (frontend_error ''empty common24 annotation'') else Inr ts)"

lemma skip_literal_split: "skip_literal q s = Inr r \<Longrightarrow> (\<exists>u. s = u @ r) \<and> skip_literal q (s @ b) = Inr (r @ b)"
proof (induction q s rule: skip_literal.induct)
  case (2 q c s)
  consider "c = q" | "c \<noteq> q" "c = CHR 0x5C" | "c \<noteq> q" "c \<noteq> CHR 0x5C" by blast
  then show ?case
  proof cases
    case 2
    with "2.prems" have c: "c \<noteq> CHR 0x0A" "skip_literal q (drop 1 s) = Inr r" by (auto split: if_splits)
    then obtain d s' where s: "s = d # s'" by (cases s) auto
    with "2.IH"(1) 2 c show ?thesis by auto
  next
    case 3
    with 2 show ?thesis by (auto split: if_splits)
  qed (use 2 in auto)
qed simp

lemma after_length: "length (after c s) \<le> length s"
  using length_dropWhile_le [of "\<lambda>x. x \<noteq> c" s] by (simp add: after_def)

function annotation_tokens :: "string \<Rightarrow> string list list res" where
  "annotation_tokens [] = Inr []"
| "annotation_tokens (c # s) =
     (if starts_with ''//'' (c # s) then annotation_tokens (after CHR 0x0A (drop 1 s))
      else if starts_with ''/*'' (c # s) then
        (case cut ''*/'' (drop 1 s) of
           None \<Rightarrow> Inl (frontend_error ''unterminated source annotation/comment'')
         | Some (body, r) \<Rightarrow>
             if starts_with ''/*@'' (c # s)
             then bind_res (annotation_block (drop 1 body)) (\<lambda>ts.
                  bind_res (annotation_tokens r) (\<lambda>bs. Inr (ts # bs)))
             else annotation_tokens r)
      else if c = CHR 0x22 \<or> c = CHR 0x27 then bind_res (skip_literal c s) annotation_tokens
      else annotation_tokens s)"
  by pat_completeness auto
termination
proof (relation "measure length")
  fix c s show "(after CHR 0x0A (drop 1 s), c # s) \<in> measure length"
    using after_length [of "CHR 0x0A" "drop 1 s"] by simp
next
  fix c :: char and s body r y assume "cut ''*/'' (drop 1 s) = Some y" "(body, r) = y"
  then have "drop 1 s = body @ ''*/'' @ r" by (auto dest: cut_Some)
  then have "length (drop 1 s) = length body + 2 + length r" by simp
  then show "(r, c # s) \<in> measure length" "(r, c # s) \<in> measure length" by simp_all
next
  fix c s r assume "skip_literal c s = Inr r"
  then show "(r, c # s) \<in> measure length" using skip_literal_split by fastforce
qed simp_all

section \<open>Joined files\<close>

lemma cut_append: "cut p s = Some (a, r) \<Longrightarrow> cut p (s @ b) = Some (a, r @ b)"
proof (induction s arbitrary: a)
  case Nil
  then show ?case by (cases b) (auto simp: starts_with_def split: if_splits)
next
  case (Cons c s)
  show ?case
  proof (cases "starts_with p (c # s)")
    case True
    then obtain t where "c # s = p @ t" by (auto simp: starts_with_iff)
    then have "starts_with p (c # s @ b)" "drop (length p) (c # s @ b) = drop (length p) (c # s) @ b"
      by (metis append_Cons append_assoc starts_with_append, metis append_Cons append_assoc append_eq_conv_conj)
    with True Cons.prems show ?thesis by auto
  next
    case False
    with Cons.prems obtain a' where a: "a = c # a'" "cut p s = Some (a', r)" by auto
    have "\<not> starts_with p (c # s @ b)"
    proof
      assume "starts_with p (c # s @ b)"
      then have "take (length p) (c # s @ b) = p" by (simp add: starts_with_def)
      moreover have "length p \<le> length (c # s)" using cut_Some [OF a(2)] by simp
      ultimately show False using False by (cases p) (auto simp: starts_with_def)
    qed
    with a Cons.IH show ?thesis by simp
  qed
qed

text \<open>A text that ends a line: nothing of it continues into what follows.\<close>

definition ends_line :: "string \<Rightarrow> bool" where
  "ends_line a = (a = [] \<or> last a = CHR 0x0A)"

lemma ends_line_rest: "ends_line (u @ r) \<Longrightarrow> ends_line r"
  by (cases "r = []") (auto simp: ends_line_def)

lemma starts_with_line:
  assumes "ends_line t" and "t \<noteq> []" and "CHR 0x0A \<notin> set w"
  shows "starts_with w (t @ b) = starts_with w t"
proof
  assume w: "starts_with w (t @ b)"
  then have eq: "take (length w) (t @ b) = w" by (simp add: starts_with_def)
  have "length w \<le> length t"
  proof (rule ccontr)
    assume "\<not> length w \<le> length t"
    then have "set t \<subseteq> set w" using eq by (metis set_append sup_ge1 take_all_iff take_append linear)
    moreover have "CHR 0x0A \<in> set t" using assms(1,2) last_in_set [of t] by (simp add: ends_line_def)
    ultimately show False using assms(3) by blast
  qed
  with eq show "starts_with w t" by (simp add: starts_with_def)
qed (auto simp: starts_with_iff)

lemma after_line:
  assumes "CHR 0x0A \<in> set s"
  shows "after CHR 0x0A (s @ b) = after CHR 0x0A s @ b" "\<exists>u. s = u @ after CHR 0x0A s"
proof -
  have "dropWhile (\<lambda>x. x \<noteq> CHR 0x0A) s \<noteq> []" using assms by auto
  then show "after CHR 0x0A (s @ b) = after CHR 0x0A s @ b"
    using assms by (cases "dropWhile (\<lambda>x. x \<noteq> CHR 0x0A) s") (auto simp: after_def dropWhile_append)
  show "\<exists>u. s = u @ after CHR 0x0A s" using before_after [OF assms] by (metis append_assoc)
qed

lemma annotation_tokens_joined:
  "annotation_tokens a = Inr xs \<Longrightarrow> ends_line a \<Longrightarrow>
     annotation_tokens (a @ b) = bind_res (annotation_tokens b) (\<lambda>ys. Inr (xs @ ys))"
proof (induction a arbitrary: xs rule: annotation_tokens.induct)
  case 1
  then show ?case by (cases "annotation_tokens b") auto
next
  case (2 c s)
  note line = starts_with_line [OF "2.prems"(2), of _ b, simplified]
  have last: "CHR 0x0A = last (c # s)" using "2.prems"(2) by (simp add: ends_line_def)
  consider (comment) "starts_with ''//'' (c # s)" | (block) "\<not> starts_with ''//'' (c # s)" "starts_with ''/*'' (c # s)"
    | (literal) "\<not> starts_with ''//'' (c # s)" "\<not> starts_with ''/*'' (c # s)" "c = CHR 0x22 \<or> c = CHR 0x27"
    | (other) "\<not> starts_with ''//'' (c # s)" "\<not> starts_with ''/*'' (c # s)" "\<not> (c = CHR 0x22 \<or> c = CHR 0x27)"
    by blast
  then show ?case
  proof cases
    case comment
    then obtain s' where s: "c = CHR ''/''" "s = CHR ''/'' # s'" by (cases s) (auto simp: starts_with_code split: if_splits)
    then have nl: "CHR 0x0A \<in> set s'" using last by (cases "s' = []") (auto split: if_splits)
    have "ends_line (after CHR 0x0A s')" using after_line(2) [OF nl] "2.prems"(2) s
      by (metis append_Cons ends_line_rest append_Nil)
    with "2.IH"(1) [OF comment] "2.prems"(1) s comment after_line(1) [OF nl, of b] line [of "''//''"] show ?thesis
      by simp
  next
    case block
    with "2.prems"(1) obtain body r where c: "cut ''*/'' (drop 1 s) = Some (body, r)"
      by (auto split: option.splits if_splits)
    from block obtain s' where s: "c = CHR ''/''" "s = CHR ''*'' # s'" by (cases s) (auto simp: starts_with_code split: if_splits)
    have r: "ends_line r" using cut_Some [OF c] "2.prems"(2) s by (metis append_assoc append_Cons drop0 drop_Suc_Cons One_nat_def ends_line_rest append_Nil)
    have c': "cut ''*/'' (drop 1 s @ b) = Some (body, r @ b)" by (rule cut_append [OF c])
    show ?thesis
    proof (cases "starts_with ''/*@'' (c # s)")
      case True
      with "2.prems"(1) block c obtain ts bs where ts: "annotation_block (drop 1 body) = Inr ts" "annotation_tokens r = Inr bs" "xs = ts # bs"
        by (auto simp: res_simps)
      from "2.IH"(2) [OF block c refl True ts(1) ts(2) r] ts True block c c' line [of "''//''"] line [of "''/*''"] line [of "''/*@''"] s
      show ?thesis by (cases "annotation_tokens b") auto
    next
      case False
      with "2.prems"(1) block c have "annotation_tokens r = Inr xs" by simp
      from "2.IH"(3) [OF block c refl False this r] False block c c' line [of "''//''"] line [of "''/*''"] line [of "''/*@''"] s
      show ?thesis by simp
    qed
  next
    case literal
    with "2.prems"(1) obtain r where r: "skip_literal c s = Inr r" "annotation_tokens r = Inr xs" by (auto simp: res_simps)
    obtain u where "s = u @ r" using skip_literal_split [OF r(1)] by blast
    then have "ends_line r" using "2.prems"(2) by (metis append_Cons ends_line_rest)
    from "2.IH"(4) [OF literal r(1) r(2) this] r(1) literal skip_literal_split [OF r(1), of b] line [of "''//''"] line [of "''/*''"]
    show ?thesis by simp
  next
    case other
    have "ends_line s" using "2.prems"(2) by (metis append_Cons append_Nil ends_line_rest)
    with "2.IH"(5) [OF other] "2.prems"(1) other line [of "''//''"] line [of "''/*''"] show ?thesis by simp
  qed
qed

end
