(* ===== verification/Shell_Words.thy ===== *)
theory Shell_Words
  imports Host
begin

text \<open>
  Two functions of the standard library on which the command gates rely: \<^verbatim>\<open>shlex.split\<close> (POSIX mode,
  no comments) as its state machine, and \<^verbatim>\<open>posixpath.normpath\<close>; and \<^verbatim>\<open>str.replace\<close>. The round trip
  \<open>shlex_quoted\<close> shows that single quotes keep a word whole.
\<close>

section \<open>shlex.split\<close>

definition is_shell_blank :: "char \<Rightarrow> bool" where
  "is_shell_blank c = (c \<in> {CHR '' '', CHR 0x09, CHR 0x0D, CHR 0x0A})"

text \<open>
  The state of \<^verbatim>\<open>shlex.read_token\<close>: between words, in a word, in quotes, after a backslash outside
  quotes and after one inside double quotes.
\<close>

datatype shell_state = Between | InWord | InQuote char | Escaped | QuoteEscaped

text \<open>\<open>acc\<close> is the word read so far, last character first; \<open>quoted\<close> says whether a quote was seen in it.\<close>

fun shell_words :: "shell_state \<Rightarrow> string \<Rightarrow> bool \<Rightarrow> string \<Rightarrow> string list res" where
  "shell_words Between acc quoted [] = Inr []"
| "shell_words Between acc quoted (c # s) =
     (if is_shell_blank c then shell_words Between [] False s
      else if c = CHR 0x5C then shell_words Escaped [] False s
      else if c = CHR 0x22 \<or> c = CHR 0x27 then shell_words (InQuote c) [] False s
      else shell_words InWord [c] False s)"
| "shell_words InWord acc quoted [] = Inr (if acc \<noteq> [] \<or> quoted then [rev acc] else [])"
| "shell_words InWord acc quoted (c # s) =
     (if is_shell_blank c then
        bind_res (shell_words Between [] False s) (\<lambda>ws. Inr (if acc \<noteq> [] \<or> quoted then rev acc # ws else ws))
      else if c = CHR 0x22 \<or> c = CHR 0x27 then shell_words (InQuote c) acc quoted s
      else if c = CHR 0x5C then shell_words Escaped acc quoted s
      else shell_words InWord (c # acc) quoted s)"
| "shell_words (InQuote q) acc quoted [] = Inl (Exn ValueError ''No closing quotation'')"
| "shell_words (InQuote q) acc quoted (c # s) =
     (if c = q then shell_words InWord acc True s
      else if c = CHR 0x5C \<and> q = CHR 0x22 then shell_words QuoteEscaped acc True s
      else shell_words (InQuote q) (c # acc) True s)"
| "shell_words Escaped acc quoted [] = Inl (Exn ValueError ''No escaped character'')"
| "shell_words Escaped acc quoted (c # s) = shell_words InWord (c # acc) quoted s"
| "shell_words QuoteEscaped acc quoted [] = Inl (Exn ValueError ''No escaped character'')"
| "shell_words QuoteEscaped acc quoted (c # s) =
     shell_words (InQuote CHR 0x22) (if c \<noteq> CHR 0x5C \<and> c \<noteq> CHR 0x22 then c # CHR 0x5C # acc else c # acc) quoted s"

definition shlex_split :: "string \<Rightarrow> string list res" where
  "shlex_split s = shell_words Between [] False s"

text \<open>A plain word, and a word in single quotes.\<close>

definition plain_char :: "char \<Rightarrow> bool" where
  "plain_char c = (\<not> is_shell_blank c \<and> c \<notin> {CHR 0x22, CHR 0x27, CHR 0x5C})"

definition shell_quote :: "string \<Rightarrow> string" where
  "shell_quote w = (if w \<noteq> [] \<and> list_all plain_char w then w else CHR 0x27 # w @ [CHR 0x27])"

lemma shell_word_plain:
  "list_all plain_char w \<Longrightarrow> shell_words InWord acc quoted (w @ s) = shell_words InWord (rev w @ acc) quoted s"
  by (induction w arbitrary: acc) (auto simp: plain_char_def)

lemma shell_word_quoted:
  "CHR 0x27 \<notin> set w \<Longrightarrow> shell_words (InQuote CHR 0x27) acc quoted (w @ CHR 0x27 # s) = shell_words InWord (rev w @ acc) True s"
  by (induction w arbitrary: acc quoted) auto

lemma shell_words_rest: "shell_words Between acc quoted s = shell_words Between acc' quoted' s"
  by (cases s) auto

definition word_end :: "string \<Rightarrow> bool" where
  "word_end s = (s = [] \<or> is_shell_blank (hd s))"

lemma shell_quote_word:
  assumes "CHR 0x27 \<notin> set w" and "word_end s"
  shows "shell_words Between [] False (shell_quote w @ s) =
    bind_res (shell_words Between [] False (drop 1 s)) (\<lambda>ws. Inr (w # ws))"
proof -
  have close: "shell_words InWord (rev w) q s = bind_res (shell_words Between [] False (drop 1 s)) (\<lambda>ws. Inr (w # ws))"
    if "w \<noteq> [] \<or> q" for q
    using that assms(2) by (cases s) (auto simp: word_end_def)
  show ?thesis
  proof (cases "w \<noteq> [] \<and> list_all plain_char w")
    case True
    then obtain c w' where w: "w = c # w'" by (cases w) auto
    with True have "plain_char c" by simp
    then have "shell_words Between [] False (shell_quote w @ s) = shell_words InWord [c] False (w' @ s)"
      using True by (simp add: shell_quote_def w plain_char_def)
    also have "\<dots> = shell_words InWord (rev w) False s" using True w by (simp add: shell_word_plain)
    finally show ?thesis using close w by simp
  next
    case False
    then have "shell_words Between [] False (shell_quote w @ s) = shell_words (InQuote CHR 0x27) [] False (w @ CHR 0x27 # s)"
      by (auto simp: shell_quote_def is_shell_blank_def)
    also have "\<dots> = shell_words InWord (rev w) True s" using shell_word_quoted [OF assms(1)] by simp
    finally show ?thesis using close by simp
  qed
qed

text \<open>Words without single quotes, quoted and separated by blanks, are read back as they are.\<close>

lemma shlex_quoted:
  "\<forall>w\<in>set ws. CHR 0x27 \<notin> set w \<Longrightarrow> shlex_split (join '' '' (map shell_quote ws)) = Inr ws"
proof (induction ws)
  case (Cons w ws)
  have blank: "is_shell_blank CHR '' ''" by (simp add: is_shell_blank_def)
  show ?case
  proof (cases ws)
    case Nil
    then show ?thesis using shell_quote_word [of w "[]"] Cons.prems by (simp add: shlex_split_def word_end_def)
  next
    case (Cons v vs)
    with Cons.IH Cons.prems shell_quote_word [of w "'' '' @ join '' '' (map shell_quote ws)"] blank
    show ?thesis by (simp add: shlex_split_def word_end_def)
  qed
qed (simp add: shlex_split_def)

section \<open>posixpath.normpath\<close>

definition norm_step :: "bool \<Rightarrow> string list \<Rightarrow> string \<Rightarrow> string list" where
  "norm_step absolute comps part =
     (if part = [] \<or> part = ''.'' then comps
      else if part \<noteq> ''..'' \<or> (\<not> absolute \<and> comps = []) \<or> (comps \<noteq> [] \<and> hd comps = ''..'') then part # comps
      else if comps \<noteq> [] then tl comps else comps)"

definition normpath :: "string \<Rightarrow> string" where
  "normpath p =
     (if p = [] then ''.''
      else (let r = path_root p;
                cs = rev (foldl (norm_step (r \<noteq> [])) [] (split_on CHR ''/'' p));
                q = r @ join ''/'' cs
            in if q = [] then ''.'' else q))"

section \<open>str.replace\<close>

text \<open>\<^verbatim>\<open>s.replace(a, b)\<close> for a nonempty \<open>a\<close>.\<close>

function replace_all :: "string \<Rightarrow> string \<Rightarrow> string \<Rightarrow> string" where
  "replace_all a b [] = []"
| "replace_all a b (c # s) =
     (if a \<noteq> [] \<and> starts_with a (c # s) then b @ replace_all a b (drop (length a) (c # s)) else c # replace_all a b s)"
  by pat_completeness auto
termination by (relation "measure (\<lambda>(a, b, s). length s)") auto

lemma replace_none: "\<not> contains a s \<Longrightarrow> replace_all a b s = s"
  by (induction a b s rule: replace_all.induct) auto

end
