(* ===== verification/Provenance_Lex.thy ===== *)
theory Provenance_Lex
  imports Host
begin

text \<open>
  \<^verbatim>\<open>fragma/provenance.py\<close>, the tokenizer of C preprocessing tokens (\<^verbatim>\<open>_lex\<close>). The index into the
  source is the pair of the rest of the text and the number of characters before it; one iteration
  of the \<^verbatim>\<open>while\<close> loop is \<open>lex_step\<close>, which always consumes at least one character, so that the
  loop ends. Comments are skipped as the translation phases do: after trigraphs are refused, line
  ends normalised and spliced lines joined.
\<close>

section \<open>Tokens and the state of the scan\<close>

datatype token_kind = KC | KPP | KBoundary

record token =
  tk_value :: string
  tk_kind :: token_kind
  tk_line :: nat
  tk_start :: nat
  tk_end :: nat

record scan =
  sc_pos :: nat
  sc_line :: nat
  sc_beginning :: bool
  sc_directive :: bool
  sc_current :: "token list" \<comment> \<open>\<open>directive_tokens\<close>\<close>
  sc_tokens :: "token list"

definition start_scan :: scan where
  "start_scan = \<lparr>sc_pos = 0, sc_line = 1, sc_beginning = True, sc_directive = False, sc_current = [], sc_tokens = []\<rparr>"

abbreviation prov_error :: "string \<Rightarrow> exn" where
  "prov_error m \<equiv> Exn ProvenanceError m"

text \<open>The inner function \<^verbatim>\<open>add\<close>; the kind argument is the default one unless it is a boundary.\<close>

definition add_token :: "scan \<Rightarrow> string \<Rightarrow> nat \<Rightarrow> nat \<Rightarrow> bool \<Rightarrow> scan" where
  "add_token sc v a b boundary =
     (let t = \<lparr>tk_value = v, tk_kind = (if boundary then KBoundary else if sc_directive sc then KPP else KC),
               tk_line = sc_line sc, tk_start = a, tk_end = b\<rparr>
      in sc\<lparr>sc_tokens := sc_tokens sc @ [t],
            sc_current := (if sc_directive sc then sc_current sc @ [t] else sc_current sc),
            sc_beginning := False\<rparr>)"

definition advance :: "nat \<Rightarrow> scan \<Rightarrow> scan" where
  "advance n sc = sc\<lparr>sc_pos := sc_pos sc + n\<rparr>"

section \<open>Before the scan\<close>

fun has_trigraph :: "string \<Rightarrow> bool" where
  "has_trigraph (a # b # c # s) =
     ((a = CHR ''?'' \<and> b = CHR ''?'' \<and> c \<in> set (CHR 0x27 # ''=/()!<>-'')) \<or> has_trigraph (b # c # s))"
| "has_trigraph _ = False"

text \<open>\<^verbatim>\<open>re.sub(r"\\\n", "", source)\<close>\<close>

fun splice_lines :: "string \<Rightarrow> string" where
  "splice_lines (c # d # s) =
     (if c = CHR 0x5C \<and> d = CHR 0x0A then splice_lines s else c # splice_lines (d # s))"
| "splice_lines s = s"

section \<open>The regular expressions\<close>

text \<open>\<^verbatim>\<open>(?:[0-9]|\.[0-9])(?:[eEpP][+-]|[A-Za-z_0-9.])*\<close>: the text it matches and the rest.\<close>

fun number_tail :: "string \<Rightarrow> string \<times> string" where
  "number_tail (c # d # s) =
     (if c \<in> set ''eEpP'' \<and> d \<in> set ''+-'' then (let (a, r) = number_tail s in (c # d # a, r))
      else if is_ident_char c \<or> c = CHR ''.'' then (let (a, r) = number_tail (d # s) in (c # a, r))
      else ([], c # d # s))"
| "number_tail [c] = (if is_ident_char c \<or> c = CHR ''.'' then ([c], []) else ([], [c]))"
| "number_tail [] = ([], [])"

definition number_match :: "string \<Rightarrow> (string \<times> string) option" where
  "number_match s = (case s of
     c # s' \<Rightarrow>
       if is_digit c then (let (a, r) = number_tail s' in Some (c # a, r))
       else if c = CHR ''.'' then
         (case s' of d # s'' \<Rightarrow> if is_digit d then (let (a, r) = number_tail s'' in Some (c # d # a, r)) else None
          | [] \<Rightarrow> None)
       else None
   | [] \<Rightarrow> None)"

definition ident_match :: "string \<Rightarrow> (string \<times> string) option" where
  "ident_match s = (case s of
     c # s' \<Rightarrow> if is_ident_start c then Some (c # takeWhile is_ident_char s', dropWhile is_ident_char s') else None
   | [] \<Rightarrow> None)"

text \<open>\<^verbatim>\<open>(?:u8|u|U|L)?["']\<close>: the prefix and the quote.\<close>

definition quote_char :: "char \<Rightarrow> bool" where
  "quote_char c = (c = CHR 0x22 \<or> c = CHR 0x27)"

definition literal_start :: "string \<Rightarrow> string option" where
  "literal_start s =
     find (\<lambda>p. starts_with p s \<and> (case drop (length p) s of c # _ \<Rightarrow> quote_char c | [] \<Rightarrow> False)) [''u8'', ''u'', ''U'', ''L'', '''']"

definition PUNCTUATORS :: "string list" where
  "PUNCTUATORS =
     [''%:%:'', ''>>='', ''<<='', ''...'', ''->'', ''++'', ''--'', ''<<'', ''>>'', ''<='', ''>='', ''=='', ''!='',
      ''&&'', ''||'', ''*='', ''/='', ''%='', ''+='', ''-='', ''&='', ''^='', ''|='', ''##'', ''<:'', '':>'', ''<%'',
      ''%>'', ''%:'', ''['', '']'', ''('', '')'', ''{'', ''}'', ''.'', ''&'', ''*'', ''+'', ''-'', ''~'', ''!'', ''/'',
      ''%'', ''<'', ''>'', ''^'', ''|'', ''?'', '':'', '';'', ''='', '','', ''#'']"

definition DIGRAPHS :: "string list" where
  "DIGRAPHS = [''<:'', '':>'', ''<%'', ''%>'', ''%:'', ''%:%:'']"

text \<open>The contents of a literal up to its closing quote, escapes kept, and the text after the quote.\<close>

fun literal_body :: "char \<Rightarrow> string \<Rightarrow> (string \<times> string) res" where
  "literal_body q [] = Inl (prov_error ''unterminated C literal'')"
| "literal_body q [c] =
     (if c = q then Inr ([], [])
      else if c = CHR 0x0A then Inl (prov_error ''newline in C literal'')
      else Inl (prov_error ''unterminated C literal''))"
| "literal_body q (c # d # s) =
     (if c = q then Inr ([], d # s)
      else if c = CHR 0x0A then Inl (prov_error ''newline in C literal'')
      else if c = CHR 0x5C then bind_res (literal_body q s) (\<lambda>(b, r). Inr (c # d # b, r))
      else bind_res (literal_body q (d # s)) (\<lambda>(b, r). Inr (c # b, r)))"

section \<open>One iteration\<close>

definition lex_literal :: "scan \<Rightarrow> string \<Rightarrow> string \<Rightarrow> (scan \<times> string) res" where
  "lex_literal sc p s =
     (let q = hd (drop (length p) s) in
      bind_res (literal_body q (drop (length p + 1) s)) (\<lambda>(b, r).
        if q = CHR 0x27 \<and> b = [] then Inl (prov_error ''empty character constant'')
        else (let v = p @ [q] @ b @ [q] in
          Inr (advance (length v) (add_token sc v (sc_pos sc) (sc_pos sc + length v) False), r))))"

definition lex_punctuator :: "scan \<Rightarrow> string \<Rightarrow> (scan \<times> string) res" where
  "lex_punctuator sc s = (case find (\<lambda>p. starts_with p s) PUNCTUATORS of
     None \<Rightarrow> Inl (prov_error ''unsupported C character'')
   | Some p \<Rightarrow>
       if p \<in> set DIGRAPHS then Inl (prov_error ''C digraph unsupported'')
       else (let ts = sc_current sc;
                 sc1 = (if sc_directive sc \<and> length ts = 3 \<and> tk_value (ts ! 1) = ''define'' \<and> p = ''(''
                          \<and> tk_end (ts ! 2) = sc_pos sc
                        then add_token sc ''<macro-function>'' (sc_pos sc) (sc_pos sc) True else sc)
             in Inr (advance (length p) (add_token sc1 p (sc_pos sc) (sc_pos sc + length p) False), drop (length p) s)))"

definition lex_newline :: "scan \<Rightarrow> scan" where
  "lex_newline sc =
     (let sc1 = (if sc_directive sc
        then sc\<lparr>sc_tokens := sc_tokens sc @ [\<lparr>tk_value = ''<pp-end>'', tk_kind = KBoundary, tk_line = sc_line sc,
                  tk_start = sc_pos sc, tk_end = sc_pos sc + 1\<rparr>]\<rparr>
        else sc)
      in sc1\<lparr>sc_directive := False, sc_beginning := True, sc_current := [], sc_line := sc_line sc + 1, sc_pos := sc_pos sc + 1\<rparr>)"

definition count_newlines :: "string \<Rightarrow> nat" where
  "count_newlines s = length (filter (\<lambda>c. c = CHR 0x0A) s)"

text \<open>A word at the front of the text, read by the identifier or the number expression.\<close>

definition word_match :: "string \<Rightarrow> (string \<times> string) option" where
  "word_match s = (case ident_match s of Some m \<Rightarrow> Some m | None \<Rightarrow> number_match s)"

text \<open>The branches after the comments and the directive marker: header names, literals, words, punctuators.\<close>

definition lex_word :: "scan \<Rightarrow> char \<Rightarrow> string \<Rightarrow> (scan \<times> string) res" where
  "lex_word sc c s' =
     (if sc_directive sc \<and> length (sc_current sc) = 2 \<and> tk_value (sc_current sc ! 1) \<in> {''include'', ''include_next''}
          \<and> c = CHR ''<'' then
       (case cut ''>'' s' of
          None \<Rightarrow> Inl (prov_error ''unterminated include header'')
        | Some (name, r) \<Rightarrow>
            if CHR 0x0A \<in> set name then Inl (prov_error ''unterminated include header'')
            else (let v = ''<'' @ name @ ''>'' in
              Inr (advance (length v) (add_token sc v (sc_pos sc) (sc_pos sc + length v) False), r)))
     else (case literal_start (c # s') of
        Some p \<Rightarrow> lex_literal sc p (c # s')
      | None \<Rightarrow>
          (case word_match (c # s') of
             Some (v, r) \<Rightarrow> Inr (advance (length v) (add_token sc v (sc_pos sc) (sc_pos sc + length v) False), r)
           | None \<Rightarrow> lex_punctuator sc (c # s'))))"

text \<open>The branch of a text \<open>s\<close> that starts with \<open>c\<close>.\<close>

definition lex_step :: "scan \<Rightarrow> char \<Rightarrow> string \<Rightarrow> (scan \<times> string) res" where
  "lex_step sc c s' = (let s = c # s' in
     if c \<in> {CHR '' '', CHR 0x09, CHR 0x0B, CHR 0x0C} then Inr (advance 1 sc, s')
     else if c = CHR 0x0A then Inr (lex_newline sc, s')
     else if starts_with ''//'' s then
       (let r = dropWhile (\<lambda>x. x \<noteq> CHR 0x0A) s in Inr (advance (length s - length r) sc, r))
     else if starts_with ''/*'' s then
       (case cut ''*/'' (drop 2 s) of
          None \<Rightarrow> Inl (prov_error ''unterminated block comment'')
        | Some (body, r) \<Rightarrow> Inr (advance (length body + 4) (sc\<lparr>sc_line := sc_line sc + count_newlines body\<rparr>), r))
     else if sc_beginning sc \<and> (c = CHR ''#'' \<or> starts_with ''%:'' s) then
       (if starts_with ''%:'' s then Inl (prov_error ''preprocessor digraph unsupported'')
        else Inr (advance 1 (add_token (sc\<lparr>sc_directive := True\<rparr>) ''<pp-start>'' (sc_pos sc) (sc_pos sc + 1) True), s'))
     else if c = CHR ''#'' \<and> \<not> sc_directive sc then Inl (prov_error ''preprocessor marker away from line start'')
     else lex_word sc c s')"

section \<open>What one iteration reads\<close>

text \<open>
  The specification of the tokenizer: the pieces it passes over, and the pieces that become tokens.
\<close>

definition skipped_piece :: "string \<Rightarrow> bool" where
  "skipped_piece v =
     ((\<exists>c. v = [c] \<and> c \<in> {CHR '' '', CHR 0x09, CHR 0x0A, CHR 0x0B, CHR 0x0C, CHR ''#''})
      \<or> (starts_with ''//'' v \<and> CHR 0x0A \<notin> set v)
      \<or> (\<exists>body. v = ''/*'' @ body @ ''*/'' \<and> \<not> contains ''*/'' body))"

definition word_piece :: "string \<Rightarrow> bool" where
  "word_piece v =
     (is_ident v \<or> number_match v = Some (v, []) \<or> v \<in> set PUNCTUATORS - set DIGRAPHS
      \<or> (\<exists>p b q. v = p @ [q] @ b @ [q] \<and> p \<in> {'''', ''u8'', ''u'', ''U'', ''L''} \<and> quote_char q
           \<and> literal_body q (b @ [q]) = Inr (b, []))
      \<or> (\<exists>name. v = ''<'' @ name @ ''>'' \<and> CHR ''>'' \<notin> set name \<and> CHR 0x0A \<notin> set name))"

lemma cut_first: "cut p s = Some (a, b) \<Longrightarrow> p \<noteq> [] \<Longrightarrow> \<not> contains p a"
proof (induction s arbitrary: a)
  case (Cons c s)
  show ?case
  proof (cases "starts_with p (c # s)")
    case True
    with Cons.prems show ?thesis by auto
  next
    case False
    with Cons.prems obtain a' where a: "a = c # a'" "cut p s = Some (a', b)" by auto
    moreover have "\<not> starts_with p (c # a')"
    proof
      assume "starts_with p (c # a')"
      then have "starts_with p ((c # a') @ p @ b)" unfolding starts_with_iff by (metis append.assoc)
      with False cut_Some [OF a(2)] show False by simp
    qed
    ultimately show ?thesis using Cons.IH [OF a(2) Cons.prems(2)] by simp
  qed
qed (auto split: if_splits)

lemma number_tail_split: "number_tail s = (a, r) \<Longrightarrow> s = a @ r"
  by (induction s arbitrary: a r rule: number_tail.induct) (auto split: if_splits prod.splits)

lemma number_tail_sign:
  "c \<in> set ''eEpP'' \<and> d \<in> set ''+-'' \<Longrightarrow> number_tail (c # d # s) = (let (a, r) = number_tail s in (c # d # a, r))"
  by (subst number_tail.simps(1)) simp

lemma number_tail_char:
  "\<not> (c \<in> set ''eEpP'' \<and> d \<in> set ''+-'') \<Longrightarrow> is_ident_char c \<or> c = CHR ''.''
    \<Longrightarrow> number_tail (c # d # s) = (let (a, r) = number_tail (d # s) in (c # a, r))"
  by (subst number_tail.simps(1)) (simp only: if_False if_True)

lemma number_tail_stop:
  "\<not> (c \<in> set ''eEpP'' \<and> d \<in> set ''+-'') \<Longrightarrow> \<not> (is_ident_char c \<or> c = CHR ''.'')
    \<Longrightarrow> number_tail (c # d # s) = ([], c # d # s)"
  by (subst number_tail.simps(1)) (simp only: if_False)

lemma number_tail_self: "number_tail s = (a, r) \<Longrightarrow> number_tail a = (a, [])"
proof (induction s arbitrary: a r rule: number_tail.induct)
  case (1 c d s)
  show ?case
  proof (cases "c \<in> set ''eEpP'' \<and> d \<in> set ''+-''")
    case True
    obtain a' r' where a': "number_tail s = (a', r')" by (cases "number_tail s")
    with "1.prems" number_tail_sign [OF True, of s] have a: "a = c # d # a'" by simp
    from "1.IH"(1) [OF True a'] number_tail_sign [OF True, of a'] show ?thesis by (simp add: a)
  next
    case F: False
    show ?thesis
    proof (cases "is_ident_char c \<or> c = CHR ''.''")
      case True
      obtain a' r' where a': "number_tail (d # s) = (a', r')" by (cases "number_tail (d # s)")
      with "1.prems" number_tail_char [OF F True, of s] have a: "a = c # a'" by simp
      from "1.IH"(2) [OF F True a'] have IH: "number_tail a' = (a', [])" .
      show ?thesis
      proof (cases a')
        case Nil
        with a True show ?thesis by simp
      next
        case (Cons x xs)
        with number_tail_split [OF a'] have "x = d" by simp
        with number_tail_char [OF F True, of xs] IH Cons show ?thesis by (simp add: a)
      qed
    next
      case False
      with "1.prems" number_tail_stop [OF F False, of s] have "a = []" by simp
      then show ?thesis by simp
    qed
  qed
qed (auto split: if_splits)

lemma number_match_split:
  assumes "number_match s = Some (v, r)"
  shows "s = v @ r \<and> v \<noteq> [] \<and> number_match v = Some (v, [])"
proof -
  obtain c s1 where s: "s = c # s1" using assms by (cases s) (auto simp: number_match_def)
  show ?thesis
  proof (cases "is_digit c")
    case True
    then obtain a where a: "number_tail s1 = (a, r)" "v = c # a"
      using assms by (auto simp: number_match_def s split: prod.splits)
    with True number_tail_split [OF a(1)] number_tail_self [OF a(1)] show ?thesis
      by (simp add: number_match_def s)
  next
    case False
    then obtain d s2 a where a: "c = CHR ''.''" "s1 = d # s2" "is_digit d" "number_tail s2 = (a, r)" "v = c # d # a"
      using assms by (auto simp: number_match_def s split: prod.splits list.splits if_splits)
    with False number_tail_split [OF a(4)] number_tail_self [OF a(4)] show ?thesis
      by (simp add: number_match_def s)
  qed
qed

lemma ident_match_split: "ident_match s = Some (v, r) \<Longrightarrow> s = v @ r \<and> v \<noteq> [] \<and> is_ident v"
  by (auto simp: ident_match_def list_all_iff split: list.splits if_splits dest: set_takeWhileD)

lemma literal_body_Cons:
  "literal_body q xs = Inr (b, r) \<Longrightarrow> c \<noteq> q \<Longrightarrow> c \<noteq> CHR 0x0A \<Longrightarrow> c \<noteq> CHR 0x5C
    \<Longrightarrow> literal_body q (c # xs) = Inr (c # b, r)"
  by (cases xs) auto

lemma literal_body_split: "literal_body q s = Inr (b, r) \<Longrightarrow> s = b @ [q] @ r \<and> literal_body q (b @ [q]) = Inr (b, [])"
proof (induction q s arbitrary: b r rule: literal_body.induct)
  case (3 q c d s)
  show ?case
  proof (cases "c = q \<or> c = CHR 0x0A \<or> c = CHR 0x5C")
    case True
    with 3 show ?thesis by (auto simp: res_simps split: if_splits)
  next
    case False
    with "3.prems" obtain b' where b: "b = c # b'" "literal_body q (d # s) = Inr (b', r)"
      by (auto simp: res_simps)
    with "3.IH"(2) False have "d # s = b' @ [q] @ r" "literal_body q (b' @ [q]) = Inr (b', [])" by blast+
    with b(1) False show ?thesis by (auto intro: literal_body_Cons)
  qed
qed (auto simp: res_simps split: if_splits)

lemma find_SomeD: "find P xs = Some x \<Longrightarrow> P x \<and> x \<in> set xs"
  by (auto simp: find_Some_iff)

lemma literal_start_split:
  assumes "literal_start s = Some p"
  shows "\<exists>q r. s = p @ q # r \<and> quote_char q \<and> p \<in> {'''', ''u8'', ''u'', ''U'', ''L''}"
proof -
  from find_SomeD [OF assms [unfolded literal_start_def]]
  have p: "starts_with p s" "case drop (length p) s of c # _ \<Rightarrow> quote_char c | [] \<Rightarrow> False"
      "p \<in> {'''', ''u8'', ''u'', ''U'', ''L''}"
    by auto
  then show ?thesis by (auto simp: starts_with_iff split: list.splits)
qed

lemma punctuators_nonempty: "p \<in> set PUNCTUATORS \<Longrightarrow> p \<noteq> []"
  by (auto simp: PUNCTUATORS_def)

text \<open>What an iteration that does not raise does: a piece \<open>v\<close> is read, and it is skipped or becomes a token.\<close>

definition boundaries :: "token list \<Rightarrow> bool" where
  "boundaries ts = list_all (\<lambda>t. tk_kind t = KBoundary) ts"

definition reads :: "scan \<Rightarrow> string \<Rightarrow> scan \<Rightarrow> bool" where
  "reads sc v sc' =
     (v \<noteq> [] \<and> sc_pos sc' = sc_pos sc + length v
      \<and> (skipped_piece v \<and> (\<exists>bs. sc_tokens sc' = sc_tokens sc @ bs \<and> boundaries bs)
         \<or> word_piece v \<and> (\<exists>bs t. sc_tokens sc' = sc_tokens sc @ bs @ [t] \<and> boundaries bs
              \<and> tk_value t = v \<and> tk_kind t \<noteq> KBoundary \<and> tk_start t = sc_pos sc \<and> tk_end t = sc_pos sc + length v)))"

lemma reads_skip:
  assumes "v \<noteq> []" and "skipped_piece v" and "sc_tokens sc' = sc_tokens sc" and "sc_pos sc' = sc_pos sc + length v"
  shows "reads sc v sc'"
  using assms by (auto simp: reads_def boundaries_def)

lemma reads_word:
  assumes "v \<noteq> []" and "word_piece v"
    and "sc' = advance (length v) (add_token sc1 v (sc_pos sc) (sc_pos sc + length v) False)"
    and "sc_pos sc1 = sc_pos sc" and "\<exists>bs. sc_tokens sc1 = sc_tokens sc @ bs \<and> boundaries bs"
  shows "reads sc v sc'"
proof -
  obtain bs where bs: "sc_tokens sc1 = sc_tokens sc @ bs" "boundaries bs" using assms(5) by blast
  obtain t where "sc_tokens sc' = sc_tokens sc @ bs @ [t]" "tk_value t = v" "tk_kind t \<noteq> KBoundary"
      "tk_start t = sc_pos sc" "tk_end t = sc_pos sc + length v"
    using assms(3) bs by (auto simp: advance_def add_token_def Let_def)
  moreover have "sc_pos sc' = sc_pos sc + length v"
    using assms(3,4) by (simp add: advance_def add_token_def Let_def)
  ultimately show ?thesis using assms(1,2) bs(2) unfolding reads_def by blast
qed

lemma reads_word_plain:
  assumes "v \<noteq> []" and "word_piece v"
  shows "reads sc v (advance (length v) (add_token sc v (sc_pos sc) (sc_pos sc + length v) False))"
  by (rule reads_word [OF assms refl refl]) (simp add: boundaries_def)

lemma lex_literal_reads:
  assumes "lex_literal sc p s = Inr (sc', r)" and "literal_start s = Some p"
  shows "\<exists>v. s = v @ r \<and> reads sc v sc'"
proof -
  obtain q u where s: "s = p @ q # u" "quote_char q" "p \<in> {'''', ''u8'', ''u'', ''U'', ''L''}"
    using literal_start_split [OF assms(2)] by blast
  from assms(1) obtain b where b: "literal_body q u = Inr (b, r)" and sc':
      "sc' = advance (length (p @ [q] @ b @ [q])) (add_token sc (p @ [q] @ b @ [q]) (sc_pos sc) (sc_pos sc + length (p @ [q] @ b @ [q])) False)"
    by (auto simp: lex_literal_def s Let_def res_simps split: if_splits)
  note split = literal_body_split [OF b]
  have "word_piece (p @ [q] @ b @ [q])" unfolding word_piece_def using s split by blast
  then have "reads sc (p @ [q] @ b @ [q]) sc'" unfolding sc' by (intro reads_word_plain) simp
  then show ?thesis using s(1) split by (intro exI [of _ "p @ [q] @ b @ [q]"]) simp
qed

lemma lex_punctuator_reads:
  assumes "lex_punctuator sc s = Inr (sc', r)"
  shows "\<exists>v. s = v @ r \<and> reads sc v sc'"
proof -
  obtain p where p: "find (\<lambda>p. starts_with p s) PUNCTUATORS = Some p"
    using assms by (cases "find (\<lambda>p. starts_with p s) PUNCTUATORS") (simp_all add: lex_punctuator_def)
  note pf = find_SomeD [OF p]
  define sc1 where "sc1 = (if sc_directive sc \<and> length (sc_current sc) = 3 \<and> tk_value (sc_current sc ! 1) = ''define''
      \<and> p = ''('' \<and> tk_end (sc_current sc ! 2) = sc_pos sc
    then add_token sc ''<macro-function>'' (sc_pos sc) (sc_pos sc) True else sc)"
  have *: "p \<notin> set DIGRAPHS" "r = drop (length p) s"
      "sc' = advance (length p) (add_token sc1 p (sc_pos sc) (sc_pos sc + length p) False)"
      "sc1 = sc \<or> sc1 = add_token sc ''<macro-function>'' (sc_pos sc) (sc_pos sc) True"
    using assms unfolding lex_punctuator_def p option.case Let_def if_Inl_Inr sum.inject prod.inject sc1_def [symmetric]
    by (simp_all add: sc1_def)
  have "reads sc p sc'"
  proof (rule reads_word [OF _ _ *(3)])
    show "p \<noteq> []" using pf by (simp add: punctuators_nonempty)
    show "word_piece p" using pf *(1) by (simp add: word_piece_def)
    show "sc_pos sc1 = sc_pos sc" "\<exists>bs. sc_tokens sc1 = sc_tokens sc @ bs \<and> boundaries bs"
      using *(4) by (auto simp: add_token_def boundaries_def Let_def)
  qed
  with pf *(2) show ?thesis by (auto simp: starts_with_iff)
qed

lemma word_match_split: "word_match s = Some (v, r) \<Longrightarrow> s = v @ r \<and> v \<noteq> [] \<and> word_piece v"
  using ident_match_split number_match_split
  by (fastforce simp: word_match_def word_piece_def split: option.splits)

lemma reads_line_comment:
  assumes "starts_with ''//'' s" and "r = dropWhile (\<lambda>x. x \<noteq> CHR 0x0A) s"
  shows "\<exists>v. s = v @ r \<and> reads sc v (advance (length s - length r) sc)"
proof -
  let ?v = "takeWhile (\<lambda>x. x \<noteq> CHR 0x0A) s"
  have split: "s = ?v @ r" by (simp only: assms(2) takeWhile_dropWhile_id)
  from arg_cong [OF split, of length] have len: "length s - length r = length ?v" by simp
  have "starts_with ''//'' ?v" using assms(1) by (auto simp: starts_with_iff)
  moreover have "CHR 0x0A \<notin> set ?v" by (auto dest: set_takeWhileD)
  ultimately have "skipped_piece ?v" "?v \<noteq> []" by (auto simp: skipped_piece_def starts_with_iff)
  then have "reads sc ?v (advance (length s - length r) sc)"
    unfolding len by (intro reads_skip) (simp_all add: advance_def)
  with split show ?thesis by blast
qed

lemma reads_block_comment:
  assumes "starts_with ''/*'' s" and "cut ''*/'' (drop 2 s) = Some (body, r)"
  shows "\<exists>v. s = v @ r \<and> reads sc v (advance (length body + 4) (sc\<lparr>sc_line := n\<rparr>))"
proof -
  have split: "s = (''/*'' @ body @ ''*/'') @ r"
    using assms(1) cut_Some [OF assms(2)] by (auto simp: starts_with_iff)
  have "skipped_piece (''/*'' @ body @ ''*/'')" using cut_first [OF assms(2)] by (auto simp: skipped_piece_def)
  then have "reads sc (''/*'' @ body @ ''*/'') (advance (length body + 4) (sc\<lparr>sc_line := n\<rparr>))"
    by (intro reads_skip) (simp_all add: advance_def)
  with split show ?thesis by blast
qed

lemma reads_header:
  assumes "cut ''>'' s = Some (name, r)" and "CHR 0x0A \<notin> set name"
  defines "v \<equiv> ''<'' @ name @ ''>''"
  shows "\<exists>v'. CHR ''<'' # s = v' @ r \<and> reads sc v' (advance (length v) (add_token sc v (sc_pos sc) (sc_pos sc + length v) False))"
proof -
  have "CHR ''>'' \<notin> set name"
  proof
    assume "CHR ''>'' \<in> set name"
    then obtain a b where "name = a @ ''>'' @ b" by (auto dest!: split_list)
    with cut_first [OF assms(1)] show False unfolding contains_iff by blast
  qed
  with assms(2) have w: "word_piece v" by (auto simp: word_piece_def v_def)
  have "CHR ''<'' # s = v @ r" using cut_Some [OF assms(1)] by (simp add: v_def)
  then show ?thesis using reads_word_plain [OF _ w, of sc] by (auto simp: v_def)
qed

lemma lex_step_blank_reads:
  assumes "lex_step sc c s = Inr (sc', r)" and "c \<in> {CHR '' '', CHR 0x09, CHR 0x0B, CHR 0x0C} \<or> c = CHR 0x0A"
  shows "c # s = [c] @ r \<and> reads sc [c] sc'"
  using assms
  by (auto simp: lex_step_def reads_def lex_newline_def Let_def skipped_piece_def boundaries_def advance_def)

lemma lex_word_reads:
  assumes "lex_word sc c s = Inr (sc', r)"
  shows "\<exists>v. c # s = v @ r \<and> reads sc v sc'"
proof (cases "sc_directive sc \<and> length (sc_current sc) = 2
    \<and> tk_value (sc_current sc ! 1) \<in> {''include'', ''include_next''} \<and> c = CHR ''<''")
  case True
  from assms [unfolded lex_word_def if_P [OF True] Let_def] show ?thesis
    unfolding case_option_Inr using True reads_header by (auto simp: if_Inl_Inr)
next
  case False
  note step = assms [unfolded lex_word_def if_not_P [OF False]]
  show ?thesis
  proof (cases "literal_start (c # s)")
    case (Some p)
    with step show ?thesis using lex_literal_reads [OF _ Some] by simp
  next
    case None
    show ?thesis
    proof (cases "word_match (c # s)")
      case (Some m)
      obtain v r' where m: "word_match (c # s) = Some (v, r')" using Some by (cases m) simp
      with step None have "r = r'"
          "sc' = advance (length v) (add_token sc v (sc_pos sc) (sc_pos sc + length v) False)" by simp_all
      with word_match_split [OF m] reads_word_plain [of v sc] show ?thesis by blast
    qed (use step None in \<open>simp add: lex_punctuator_reads\<close>)
  qed
qed

lemma lex_step_reads:
  assumes "lex_step sc c s = Inr (sc', r)"
  shows "\<exists>v. c # s = v @ r \<and> reads sc v sc'"
proof (cases "c \<in> {CHR '' '', CHR 0x09, CHR 0x0B, CHR 0x0C} \<or> c = CHR 0x0A")
  case True
  from lex_step_blank_reads [OF assms True] show ?thesis by blast
next
  case blank: False
  then have b: "c \<notin> {CHR '' '', CHR 0x09, CHR 0x0B, CHR 0x0C}" "c \<noteq> CHR 0x0A" by simp_all
  note step = assms [unfolded lex_step_def Let_def if_not_P [OF b(1)] if_not_P [OF b(2)]]
  consider (line) "starts_with ''//'' (c # s)" | (block) "\<not> starts_with ''//'' (c # s)" "starts_with ''/*'' (c # s)"
    | (other) "\<not> starts_with ''//'' (c # s)" "\<not> starts_with ''/*'' (c # s)" by blast
  then show ?thesis
  proof cases
    case line
    from step [unfolded if_P [OF line]] reads_line_comment [OF line refl, of sc] show ?thesis by auto
  next
    case block
    from step [unfolded if_not_P [OF block(1)] if_P [OF block(2)]] reads_block_comment [OF block(2), of _ r sc]
    show ?thesis unfolding case_option_Inr by auto
  next
    case other
    note step = step [unfolded if_not_P [OF other(1)] if_not_P [OF other(2)]]
    show ?thesis
    proof (cases "sc_beginning sc \<and> (c = CHR ''#'' \<or> starts_with ''%:'' (c # s))")
      case True
      with step have eq: "r = s" "c = CHR ''#''"
          "sc' = advance 1 (add_token (sc\<lparr>sc_directive := True\<rparr>) ''<pp-start>'' (sc_pos sc) (sc_pos sc + 1) True)"
        by (simp_all add: if_Inl_Inr) auto
      then have "reads sc [c] sc'"
        by (simp add: reads_def skipped_piece_def boundaries_def advance_def add_token_def Let_def)
      with eq(1) show ?thesis by (intro exI [of _ "[c]"]) simp
    next
      case False
      with step have "lex_word sc c s = Inr (sc', r)" by (simp add: if_Inl_Inr)
      then show ?thesis by (rule lex_word_reads)
    qed
  qed
qed

section \<open>The loop\<close>

lemma lex_step_shorter: "lex_step sc c s = Inr (sc', r) \<Longrightarrow> length r < length (c # s)"
proof -
  assume "lex_step sc c s = Inr (sc', r)"
  from lex_step_reads [OF this] obtain v where v: "c # s = v @ r" "v \<noteq> []" by (auto simp: reads_def)
  then show ?thesis by (metis length_append length_greater_0_conv less_add_same_cancel2)
qed

function lex_loop :: "scan \<Rightarrow> string \<Rightarrow> scan res" where
  "lex_loop sc [] = Inr sc"
| "lex_loop sc (c # s) = bind_res (lex_step sc c s) (\<lambda>(sc', r). lex_loop sc' r)"
  by pat_completeness auto
termination
  by (relation "measure (length \<circ> snd)") (auto dest: lex_step_shorter)

definition clean_source :: "string \<Rightarrow> string" where
  "clean_source source = splice_lines (universal_newlines source)"

definition lex :: "string \<Rightarrow> token list res" where
  "lex source =
     (if CHR 0x00 \<in> set source then Inl (prov_error ''NUL byte in C source'')
      else if has_trigraph source then Inl (prov_error ''trigraph syntax is unsupported'')
      else bind_res (lex_loop start_scan (clean_source source)) (\<lambda>sc.
        let ts = (if sc_directive sc
            then sc_tokens sc @ [\<lparr>tk_value = ''<pp-end>'', tk_kind = KBoundary, tk_line = sc_line sc,
                    tk_start = sc_pos sc, tk_end = sc_pos sc\<rparr>]
            else sc_tokens sc)
        in if ts = [] then Inl (prov_error ''C source is empty after removing comments'') else Inr ts))"

definition tokenize :: "string \<Rightarrow> string list res" where
  "tokenize source = bind_res (lex source) (\<lambda>ts. Inr (map tk_value ts))"

definition token_hash :: "host \<Rightarrow> string list \<Rightarrow> string" where
  "token_hash h ts = sha256_hex h (json_plain h (PList (map PStr ts)))"

section \<open>What the tokenizer promises\<close>

text \<open>A text is a sequence of skipped pieces and words; the words in order.\<close>

inductive spelling :: "string \<Rightarrow> string list \<Rightarrow> bool" where
  spelling_Nil: "spelling [] []"
| spelling_skip: "spelling s ws \<Longrightarrow> skipped_piece v \<Longrightarrow> spelling (s @ v) ws"
| spelling_word: "spelling s ws \<Longrightarrow> word_piece v \<Longrightarrow> spelling (s @ v) (ws @ [v])"

definition spelled :: "token list \<Rightarrow> token list" where
  "spelled ts = filter (\<lambda>t. tk_kind t \<noteq> KBoundary) ts"

lemma spelled_boundaries: "boundaries bs \<Longrightarrow> spelled (ts @ bs) = spelled ts"
  by (simp add: spelled_def boundaries_def filter_empty_conv list_all_iff)

definition token_at :: "string \<Rightarrow> token \<Rightarrow> bool" where
  "token_at text t = (\<exists>a b. text = a @ tk_value t @ b \<and> tk_start t = length a \<and> tk_end t = length a + length (tk_value t))"

lemma token_at_append: "token_at s t \<Longrightarrow> token_at (s @ v) t"
  by (force simp: token_at_def)

text \<open>What the loop keeps: the text already read is spelled by the tokens so far, and each stands where it says.\<close>

definition scan_inv :: "string \<Rightarrow> scan \<Rightarrow> bool" where
  "scan_inv done sc = (sc_pos sc = length done \<and> spelling done (map tk_value (spelled (sc_tokens sc)))
     \<and> list_all (token_at done) (spelled (sc_tokens sc)))"

lemma scan_inv_reads:
  assumes inv: "scan_inv s sc" and reads: "reads sc v sc'"
  shows "scan_inv (s @ v) sc'"
proof -
  from reads consider
    (skip) bs where "skipped_piece v" "sc_tokens sc' = sc_tokens sc @ bs" "boundaries bs"
  | (word) bs t where "word_piece v" "sc_tokens sc' = (sc_tokens sc @ bs) @ [t]" "boundaries bs"
      "tk_value t = v" "tk_kind t \<noteq> KBoundary" "tk_start t = sc_pos sc" "tk_end t = sc_pos sc + length v"
    unfolding reads_def by auto
  then show ?thesis
  proof cases
    case skip
    with assms show ?thesis
      by (auto simp: scan_inv_def reads_def spelled_boundaries list_all_iff intro: spelling_skip token_at_append)
  next
    case word
    have "spelled (sc_tokens sc') = spelled (sc_tokens sc) @ [t]"
      using word(2,5) spelled_boundaries [OF word(3)] by (simp add: spelled_def)
    moreover have "token_at (s @ v) t"
      using word(4,6,7) inv unfolding token_at_def scan_inv_def by (intro exI [of _ s] exI [of _ "[]"]) simp
    ultimately show ?thesis using assms word(1,4)
      by (auto simp: scan_inv_def reads_def list_all_iff intro: spelling_word token_at_append)
  qed
qed

lemma lex_loop_inv:
  "lex_loop sc s = Inr sc' \<Longrightarrow> scan_inv d sc \<Longrightarrow> scan_inv (d @ s) sc'"
proof (induction sc s arbitrary: d rule: lex_loop.induct)
  case (2 sc c s)
  then obtain sc1 r where step: "lex_step sc c s = Inr (sc1, r)" "lex_loop sc1 r = Inr sc'"
    by (auto simp: res_simps)
  obtain v where v: "c # s = v @ r" "reads sc v sc1" using lex_step_reads [OF step(1)] by blast
  from "2.IH" [OF step(1) refl step(2) scan_inv_reads [OF "2.prems"(2) v(2)]] v(1) show ?case by simp
qed simp

lemma lex_inv:
  assumes "lex source = Inr ts"
  shows "\<exists>sc. scan_inv (clean_source source) sc \<and> spelled (sc_tokens sc) = spelled ts"
proof -
  have start: "scan_inv [] start_scan"
    by (simp add: scan_inv_def start_scan_def spelled_def spelling_Nil)
  obtain sc where sc: "lex_loop start_scan (clean_source source) = Inr sc"
      "ts = sc_tokens sc \<or> (\<exists>t. ts = sc_tokens sc @ [t] \<and> tk_kind t = KBoundary)"
    using assms by (auto simp: lex_def res_simps Let_def split: if_splits)
  from lex_loop_inv [OF sc(1) start] have "scan_inv (clean_source source) sc" by simp
  moreover have "spelled (sc_tokens sc) = spelled ts" using sc(2) by (auto simp: spelled_def)
  ultimately show ?thesis by blast
qed

text \<open>
  C33. The tokenizer loses nothing but comments and white space: when it accepts a source, the cleaned source is exactly
  a sequence of blanks, comments and directive markers (skipped) and identifiers, numbers, literals, header names and
  punctuators, and the tokens it returns (boundary markers aside) are these words, all of them, in order.
\<close>

theorem lex_spells_source:
  assumes "lex source = Inr ts"
  shows "spelling (clean_source source) (map tk_value (spelled ts))"
  using lex_inv [OF assms] by (auto simp: scan_inv_def)

text \<open>Every token stands in the cleaned source at the positions it records.\<close>

theorem lex_token_positions:
  assumes "lex source = Inr ts" and "t \<in> set ts" and "tk_kind t \<noteq> KBoundary"
  shows "take (tk_end t - tk_start t) (drop (tk_start t) (clean_source source)) = tk_value t \<and> tk_end t \<le> length (clean_source source)"
proof -
  have "t \<in> set (spelled ts)" using assms(2,3) by (simp add: spelled_def)
  with lex_inv [OF assms(1)] have "token_at (clean_source source) t" by (auto simp: scan_inv_def list_all_iff)
  then show ?thesis by (auto simp: token_at_def)
qed

section \<open>The loop ends\<close>

text \<open>The loop cut off after \<open>n\<close> iterations: nothing when it has not ended by then.\<close>

fun lex_bounded :: "nat \<Rightarrow> scan \<Rightarrow> string \<Rightarrow> scan res option" where
  "lex_bounded n sc [] = Some (Inr sc)"
| "lex_bounded 0 sc (c # s) = None"
| "lex_bounded (Suc n) sc (c # s) = (case lex_step sc c s of Inl e \<Rightarrow> Some (Inl e) | Inr (sc', r) \<Rightarrow> lex_bounded n sc' r)"

text \<open>C34. The scan of a text of \<open>n\<close> characters ends, with a value or an error, within \<open>n\<close> iterations.\<close>

theorem lex_loop_ends: "lex_bounded (length s) sc s = Some (lex_loop sc s)"
proof -
  have "length s \<le> n \<Longrightarrow> lex_bounded n sc s = Some (lex_loop sc s)" for n
  proof (induction sc s arbitrary: n rule: lex_loop.induct)
    case (2 sc c s)
    then obtain m where n: "n = Suc m" by (cases n) auto
    show ?case
    proof (cases "lex_step sc c s")
      case (Inr a)
      obtain sc1 r where a: "a = (sc1, r)" by (cases a)
      from lex_step_shorter [of sc c s sc1 r] Inr a n "2.prems" have "length r \<le> m" by simp
      with "2.IH" [OF Inr a [symmetric]] Inr a n show ?thesis by simp
    qed (simp add: n)
  qed (cases n; simp)
  then show ?thesis by simp
qed

section \<open>A concrete source\<close>

definition lex_sample :: string where
  "lex_sample = ''#define A(x) x'' @ [CHR 0x0A] @ ''int /* two'' @ [CHR 0x0A] @ ''lines */ f(void) { return A(1.5e+3L); } // end''"

lemma lex_sample_tokens:
  "map_sum id (map tk_value) (lex lex_sample) = Inr
     [''<pp-start>'', ''define'', ''A'', ''<macro-function>'', ''('', ''x'', '')'', ''x'', ''<pp-end>'',
      ''int'', ''f'', ''('', ''void'', '')'', ''{'', ''return'', ''A'', ''('', ''1.5e+3L'', '')'', '';'', ''}'']"
  by code_simp

lemma lex_spells_source_witness: "\<exists>ts. lex lex_sample = Inr ts \<and> spelling (clean_source lex_sample) (map tk_value (spelled ts))"
proof -
  obtain ts where "lex lex_sample = Inr ts" using lex_sample_tokens by (auto simp: map_sum_Inr)
  with lex_spells_source [OF this] show ?thesis by blast
qed

lemma lex_token_positions_witness:
  "\<exists>ts t. lex lex_sample = Inr ts \<and> t \<in> set ts \<and> take (tk_end t - tk_start t) (drop (tk_start t) (clean_source lex_sample)) = tk_value t"
proof -
  obtain ts where ts: "lex lex_sample = Inr ts" using lex_sample_tokens by (auto simp: map_sum_Inr)
  have "map_sum id (list_ex (\<lambda>t. tk_kind t \<noteq> KBoundary)) (lex lex_sample) = Inr True" by code_simp
  with ts obtain t where "t \<in> set ts" "tk_kind t \<noteq> KBoundary" by (auto simp: list_ex_iff)
  with lex_token_positions [OF ts this] ts show ?thesis by blast
qed

end
