(* ===== verification/State_Res.thy ===== *)
theory State_Res
  imports Py_Prelude
begin

text \<open>
  Programs that change a state and may raise: a raise keeps the changes made before it, as a
  handler around a block of Python statements sees them. \<open>sbind\<close> is sequencing, \<open>slift\<close> an
  operation that touches no state, \<open>sdo\<close> an assignment, \<open>stry\<close> a \<^verbatim>\<open>try ... except\<close> for some
  classes of exceptions.
\<close>

type_synonym ('s, 'a) prog = "'s \<Rightarrow> 'a res \<times> 's"

definition sbind :: "('s, 'a) prog \<Rightarrow> ('a \<Rightarrow> ('s, 'b) prog) \<Rightarrow> ('s, 'b) prog" where
  "sbind m f s = (case m s of (Inl e, s1) \<Rightarrow> (Inl e, s1) | (Inr x, s1) \<Rightarrow> f x s1)"

definition slift :: "'a res \<Rightarrow> ('s, 'a) prog" where
  "slift r s = (r, s)"

definition sdo :: "('s \<Rightarrow> 's) \<Rightarrow> ('s, unit) prog" where
  "sdo f s = (Inr (), f s)"

definition sget :: "('s \<Rightarrow> 'a) \<Rightarrow> ('s, 'a) prog" where
  "sget f s = (Inr (f s), s)"

definition stry :: "('s, 'a) prog \<Rightarrow> (exn_class \<Rightarrow> bool) \<Rightarrow> (string \<Rightarrow> ('s, 'a) prog) \<Rightarrow> ('s, 'a) prog" where
  "stry m caught handler s = (case m s of
     (Inl (Exn c msg), s1) \<Rightarrow> if caught c then handler msg s1 else (Inl (Exn c msg), s1)
   | (Inr x, s1) \<Rightarrow> (Inr x, s1))"

abbreviation sreturn :: "'a \<Rightarrow> ('s, 'a) prog" where
  "sreturn x \<equiv> slift (Inr x)"

abbreviation sraise :: "exn \<Rightarrow> ('s, 'a) prog" where
  "sraise e \<equiv> slift (Inl e)"

fun sfor :: "('a \<Rightarrow> ('s, unit) prog) \<Rightarrow> 'a list \<Rightarrow> ('s, unit) prog" where
  "sfor f [] = sreturn ()"
| "sfor f (x # xs) = sbind (f x) (\<lambda>_. sfor f xs)"

lemma sbind_Inr [res_simps]:
  "sbind m f s = (Inr y, s') \<longleftrightarrow> (\<exists>x s1. m s = (Inr x, s1) \<and> f x s1 = (Inr y, s'))"
  by (auto simp: sbind_def split: prod.splits sum.splits)

lemma slift_eq [res_simps]: "slift r s = (x, s') \<longleftrightarrow> r = x \<and> s = s'"
  by (auto simp: slift_def)

lemma sdo_eq [res_simps]: "sdo f s = (x, s') \<longleftrightarrow> x = Inr () \<and> s' = f s"
  by (auto simp: sdo_def)

lemma sget_eq [res_simps]: "sget f s = (x, s') \<longleftrightarrow> x = Inr (f s) \<and> s' = s"
  by (auto simp: sget_def)

lemma stry_Inr [res_simps]:
  "stry m caught handler s = (Inr x, s') \<longleftrightarrow>
     m s = (Inr x, s') \<or> (\<exists>c msg s1. m s = (Inl (Exn c msg), s1) \<and> caught c \<and> handler msg s1 = (Inr x, s'))"
  by (auto simp: stry_def split: prod.splits sum.splits exn.splits)

lemma if_prog [res_simps]: "(if b then m else m') s = (if b then m s else m' s)"
  by simp

text \<open>The loop rule, for a property of the elements already read and the state they led to.\<close>

lemma sfor_invariant:
  assumes "sfor f xs s = (Inr u, t)" and "P ys s"
    and "\<And>ys s x s'. P ys s \<Longrightarrow> f x s = (Inr (), s') \<Longrightarrow> P (ys @ [x]) s'"
  shows "P (ys @ xs) t"
  using assms(1,2)
proof (induction xs arbitrary: s ys)
  case Nil
  then show ?case by (simp add: res_simps)
next
  case (Cons x xs)
  then obtain s1 where s1: "f x s = (Inr (), s1)" "sfor f xs s1 = (Inr u, t)"
    by (auto simp: res_simps)
  from Cons.IH [OF s1(2) assms(3) [OF Cons.prems(2) s1(1)]] show ?case by simp
qed

text \<open>What every program that ends, normally or by raising, keeps.\<close>

definition keeps :: "('s \<Rightarrow> bool) \<Rightarrow> ('s, 'a) prog \<Rightarrow> bool" where
  "keeps P m = (\<forall>s. P s \<longrightarrow> P (snd (m s)))"

lemma keepsD: "keeps P m \<Longrightarrow> m s = (r, s') \<Longrightarrow> P s \<Longrightarrow> P s'"
  by (metis keeps_def snd_conv)

lemma keeps_sbind [intro]: "keeps P m \<Longrightarrow> (\<And>x. keeps P (f x)) \<Longrightarrow> keeps P (sbind m f)"
  by (auto simp: keeps_def sbind_def split: prod.splits sum.splits)

lemma keeps_slift [intro, simp]: "keeps P (slift r)"
  by (simp add: keeps_def slift_def)

lemma keeps_sget [intro, simp]: "keeps P (sget f)"
  by (simp add: keeps_def sget_def)

lemma keeps_sdo [intro]: "(\<And>s. P s \<Longrightarrow> P (f s)) \<Longrightarrow> keeps P (sdo f)"
  by (simp add: keeps_def sdo_def)

lemma keeps_stry [intro]: "keeps P m \<Longrightarrow> (\<And>msg. keeps P (h msg)) \<Longrightarrow> keeps P (stry m c h)"
  by (auto simp: keeps_def stry_def split: prod.splits sum.splits exn.splits)

lemma keeps_if [intro]: "keeps P m \<Longrightarrow> keeps P m' \<Longrightarrow> keeps P (if b then m else m')"
  by simp

lemma keeps_sfor [intro]: "(\<And>x. keeps P (f x)) \<Longrightarrow> keeps P (sfor f xs)"
  by (induction xs) auto

text \<open>What a program that raises keeps.\<close>

definition keeps_raising :: "('s \<Rightarrow> bool) \<Rightarrow> ('s, 'a) prog \<Rightarrow> bool" where
  "keeps_raising P m = (\<forall>s e s'. P s \<longrightarrow> m s = (Inl e, s') \<longrightarrow> P s')"

lemma keeps_raisingD: "keeps_raising P m \<Longrightarrow> m s = (Inl e, s') \<Longrightarrow> P s \<Longrightarrow> P s'"
  by (auto simp: keeps_raising_def)

lemma keeps_raising_keeps: "keeps P m \<Longrightarrow> keeps_raising P m"
  by (auto simp: keeps_raising_def dest: keepsD)

lemma keeps_raising_sbind: "keeps P m \<Longrightarrow> (\<And>x. keeps_raising P (f x)) \<Longrightarrow> keeps_raising P (sbind m f)"
  by (auto simp: keeps_raising_def sbind_def split: prod.splits sum.splits dest: keepsD)

lemma keeps_raising_sdo: "keeps_raising P (sdo f)"
  by (simp add: keeps_raising_def sdo_def)

lemma keeps_prod: "(\<And>a b. keeps P (f a b)) \<Longrightarrow> keeps P (case x of (a, b) \<Rightarrow> f a b)"
  by (cases x) simp

lemma keeps_raising_prod: "(\<And>a b. keeps_raising P (f a b)) \<Longrightarrow> keeps_raising P (case x of (a, b) \<Rightarrow> f a b)"
  by (cases x) simp

end
