(* ===== verification/Provenance.thy ===== *)
theory Provenance
  imports Provenance_Lex State_Res
begin

text \<open>
  \<^verbatim>\<open>fragma/provenance.py\<close> after the tokenizer: the extraction of one function definition
  (\<^verbatim>\<open>extract_function\<close>), the reading of local files and of pinned git blobs, and the comparison
  of a harness with its source (\<^verbatim>\<open>check_target\<close>). Git and the UTF-8 decoder are arguments. The
  texts of messages leave out the values the code interpolates.
\<close>

section \<open>Delimiters\<close>

definition closer :: "string \<Rightarrow> string option" where
  "closer v = (if v = ''('' then Some '')'' else if v = ''['' then Some '']'' else if v = ''{'' then Some ''}'' else None)"

definition is_closer :: "string \<Rightarrow> bool" where
  "is_closer v = (v \<in> {'')'', '']'', ''}''})"

record delims =
  dl_stack :: "nat list" \<comment> \<open>top first\<close>
  dl_depths :: "nat list"
  dl_matching :: "(nat \<times> nat) list"

text \<open>One iteration of the first loop, at position \<open>i\<close> of the C tokens \<open>vs\<close>.\<close>

definition delim_step :: "string list \<Rightarrow> delims \<Rightarrow> nat \<Rightarrow> delims res" where
  "delim_step vs d i =
     (let d = d\<lparr>dl_depths := dl_depths d @ [length (dl_stack d)]\<rparr>; v = vs ! i in
      if closer v \<noteq> None then Inr (d\<lparr>dl_stack := i # dl_stack d\<rparr>)
      else if is_closer v then
        (case dl_stack d of
           [] \<Rightarrow> Inl (prov_error ''unbalanced delimiter'')
         | a # st \<Rightarrow>
             if closer (vs ! a) \<noteq> Some v then Inl (prov_error ''unbalanced delimiter'')
             else Inr (d\<lparr>dl_stack := st, dl_matching := (a, i) # (i, a) # dl_matching d\<rparr>))
      else Inr d)"

definition match_delims :: "string list \<Rightarrow> delims res" where
  "match_delims vs =
     bind_res (foldM (delim_step vs) \<lparr>dl_stack = [], dl_depths = [], dl_matching = []\<rparr> [0..<length vs]) (\<lambda>d.
       if dl_stack d \<noteq> [] then Inl (prov_error ''unclosed delimiter'') else Inr d)"

section \<open>Extraction\<close>

record cfunction =
  fn_name :: string
  fn_tokens :: "string list"
  fn_prefix :: "string list" \<comment> \<open>\<open>declaration_prefix\<close>\<close>
  fn_line :: nat

definition c_tokens :: "token list \<Rightarrow> (nat \<times> token) list" where
  "c_tokens ts = filter (\<lambda>(i, t). tk_kind t = KC) (enumerate 0 ts)"

text \<open>The tokens before a definition, back to the end of the declaration before it.\<close>

definition declaration_prefix :: "string list \<Rightarrow> string list" where
  "declaration_prefix vs = rev (takeWhile (\<lambda>v. v \<notin> {'';'', ''}'', ''<pp-end>''}) (rev vs))"

definition matching_of :: "delims \<Rightarrow> nat \<Rightarrow> nat res" where
  "matching_of d i = (case map_of (dl_matching d) i of None \<Rightarrow> Inl (Exn KeyError ''matching'') | Some j \<Rightarrow> Inr j)"

text \<open>One iteration of the second loop; \<open>None\<close> is its \<^verbatim>\<open>continue\<close>.\<close>

definition definition_at ::
  "token list \<Rightarrow> (nat \<times> token) list \<Rightarrow> delims \<Rightarrow> string \<Rightarrow> nat \<Rightarrow> cfunction option res" where
  "definition_at ts normal d name i =
     (let vs = map (tk_value \<circ> snd) normal; (raw, tok) = normal ! i in
      if vs ! i \<noteq> name \<or> dl_depths d ! i \<noteq> 0 \<or> i + 1 \<ge> length normal then Inr None
      else if vs ! (i + 1) \<noteq> ''('' then Inr None
      else bind_res (matching_of d (i + 1)) (\<lambda>close.
        if close + 1 \<ge> length normal then Inl (prov_error ''incomplete declarator'')
        else if vs ! (close + 1) \<in> {'';'', '','', ''='', '')'', '']''} then Inr None
        else if vs ! (close + 1) \<noteq> ''{'' then Inl (prov_error ''unsupported post-declarator syntax'')
        else (let p = declaration_prefix (map tk_value (take raw ts)) in
          if p = [] \<or> ''='' \<in> set p \<or> ''{'' \<in> set p \<or> ''<pp-start>'' \<in> set p
          then Inl (prov_error ''unsupported declaration prefix'')
          else if list_ex (\<lambda>j. vs ! j \<in> {'';'', ''{'', ''}''}) [i + 2..<close]
          then Inl (prov_error ''unsupported parameter declaration'')
          else bind_res (matching_of d (close + 1)) (\<lambda>e.
            Inr (Some \<lparr>fn_name = name, fn_tokens = map tk_value (take (fst (normal ! e) + 1 - raw) (drop raw ts)),
                       fn_prefix = p, fn_line = tk_line tok\<rparr>)))))"

definition extract_function :: "string \<Rightarrow> string \<Rightarrow> cfunction res" where
  "extract_function source name =
     (if \<not> is_ident name then Inl (prov_error ''invalid C function name'')
      else bind_res (lex source) (\<lambda>ts.
        let normal = c_tokens ts in
        bind_res (match_delims (map (tk_value \<circ> snd) normal)) (\<lambda>d.
        bind_res (mapM (definition_at ts normal d name) [0..<length normal]) (\<lambda>found.
          case filter (\<lambda>f. f \<noteq> None) found of
            [Some f] \<Rightarrow> Inr f
          | _ \<Rightarrow> Inl (prov_error ''expected exactly one definition'')))))"

section \<open>Delimiters match\<close>

text \<open>The specification: a sequence in which every bracket is closed by its partner, properly nested.\<close>

inductive balanced :: "string list \<Rightarrow> bool" where
  balanced_Nil: "balanced []"
| balanced_plain: "balanced vs \<Longrightarrow> closer v = None \<Longrightarrow> \<not> is_closer v \<Longrightarrow> balanced (vs @ [v])"
| balanced_nest: "balanced us \<Longrightarrow> balanced vs \<Longrightarrow> closer a = Some b \<Longrightarrow> balanced (us @ [a] @ vs @ [b])"

definition segment :: "nat \<Rightarrow> nat \<Rightarrow> 'a list \<Rightarrow> 'a list" where
  "segment a b xs = take (b - a) (drop a xs)"

lemma segment_snoc: "a \<le> b \<Longrightarrow> b < length xs \<Longrightarrow> segment a (Suc b) xs = segment a b xs @ [xs ! b]"
  by (simp add: segment_def Suc_diff_le take_Suc_conv_app_nth)

lemma segment_split: "a \<le> b \<Longrightarrow> b \<le> c \<Longrightarrow> segment a c xs = segment a b xs @ segment b c xs"
proof -
  assume "a \<le> b" "b \<le> c"
  then have "c - a = (b - a) + (c - b)" "drop b xs = drop (b - a) (drop a xs)" by simp_all
  then show ?thesis unfolding segment_def by (simp only: take_add)
qed

lemma segment_Cons: "a < b \<Longrightarrow> a < length xs \<Longrightarrow> segment a b xs = xs ! a # segment (Suc a) b xs"
  by (simp add: segment_def Cons_nth_drop_Suc [symmetric] take_Cons' Suc_diff_Suc)

lemma segment_same [simp]: "segment a a xs = []"
  by (simp add: segment_def)

fun stack_inv :: "string list \<Rightarrow> nat list \<Rightarrow> nat \<Rightarrow> bool" where
  "stack_inv vs [] hi = balanced (segment 0 hi vs)"
| "stack_inv vs (a # st) hi =
     (a < hi \<and> closer (vs ! a) \<noteq> None \<and> balanced (segment (Suc a) hi vs) \<and> stack_inv vs st a)"

definition delim_inv :: "string list \<Rightarrow> nat \<Rightarrow> delims \<Rightarrow> bool" where
  "delim_inv vs k d =
     (stack_inv vs (dl_stack d) k
      \<and> (\<forall>(a, b)\<in>set (dl_matching d). a < length vs \<and> b < length vs
            \<and> (closer (vs ! a) \<noteq> None \<longrightarrow> a < b \<and> closer (vs ! a) = Some (vs ! b) \<and> balanced (segment (Suc a) b vs)))
      \<and> length (dl_depths d) = k \<and> (\<forall>i<k. dl_depths d ! i = 0 \<longrightarrow> balanced (segment 0 i vs)))"

lemma stack_inv_plain:
  assumes "stack_inv vs st k" and "k < length vs" and "closer (vs ! k) = None" and "\<not> is_closer (vs ! k)"
  shows "stack_inv vs st (Suc k)"
  using assms by (cases st) (auto simp: segment_snoc intro: balanced_plain)

lemma stack_inv_close:
  assumes "stack_inv vs (a # st) k" and "k < length vs" and "closer (vs ! a) = Some (vs ! k)"
  shows "stack_inv vs st (Suc k)"
proof -
  have nest: "balanced (segment l (Suc k) vs)" if "l \<le> a" "balanced (segment l a vs)" for l
  proof -
    have "segment l (Suc k) vs = segment l a vs @ [vs ! a] @ segment (Suc a) k vs @ [vs ! k]"
      using that(1) assms segment_split [of l a "Suc k" vs] segment_Cons [of a "Suc k" vs] segment_snoc [of "Suc a" k vs] by simp
    then show ?thesis using balanced_nest [OF that(2) _ assms(3)] assms(1) by simp
  qed
  show ?thesis using assms(1) nest by (cases st) auto
qed

lemma closer_not_closer: "closer v = Some w \<Longrightarrow> is_closer w \<and> closer w = None"
  by (auto simp: closer_def is_closer_def split: if_splits)

lemma delim_step_inv:
  assumes "delim_inv vs k d" and "delim_step vs d k = Inr d'" and "k < length vs"
  shows "delim_inv vs (Suc k) d'"
proof -
  have depth: "\<forall>i<Suc k. (dl_depths d @ [length (dl_stack d)]) ! i = 0 \<longrightarrow> balanced (segment 0 i vs)"
    using assms(1) by (auto simp: delim_inv_def nth_append less_Suc_eq)
  consider (opens) "closer (vs ! k) \<noteq> None" "d' = d\<lparr>dl_depths := dl_depths d @ [length (dl_stack d)], dl_stack := k # dl_stack d\<rparr>"
    | (closes) a st where "closer (vs ! k) = None" "dl_stack d = a # st" "closer (vs ! a) = Some (vs ! k)"
        "d' = d\<lparr>dl_depths := dl_depths d @ [length (dl_stack d)], dl_stack := st, dl_matching := (a, k) # (k, a) # dl_matching d\<rparr>"
    | (plain) "closer (vs ! k) = None" "\<not> is_closer (vs ! k)" "d' = d\<lparr>dl_depths := dl_depths d @ [length (dl_stack d)]\<rparr>"
    using assms(2) by (auto simp: delim_step_def Let_def split: if_splits list.splits)
  then show ?thesis
  proof cases
    case opens
    with assms(1) depth show ?thesis by (simp add: delim_inv_def balanced_Nil)
  next
    case closes
    from assms(1) closes(2) have st: "stack_inv vs (a # st) k" by (simp add: delim_inv_def)
    from stack_inv_close [OF st assms(3) closes(3)] st assms(1,3) depth closes show ?thesis
      by (auto simp: delim_inv_def)
  next
    case plain
    with stack_inv_plain [of vs "dl_stack d" k] assms(1,3) depth show ?thesis by (simp add: delim_inv_def)
  qed
qed

lemma match_delims_inv:
  assumes "match_delims vs = Inr d"
  shows "delim_inv vs (length vs) d"
proof -
  have fold: "foldM (delim_step vs) \<lparr>dl_stack = [], dl_depths = [], dl_matching = []\<rparr> [0..<length vs] = Inr d"
    using assms by (auto simp: match_delims_def res_simps)
  have "k \<le> length vs \<Longrightarrow> foldM (delim_step vs) \<lparr>dl_stack = [], dl_depths = [], dl_matching = []\<rparr> [0..<k] = Inr d'
      \<Longrightarrow> delim_inv vs k d'" for k d'
  proof (induction k arbitrary: d')
    case 0
    then show ?case by (auto simp: delim_inv_def balanced_Nil)
  next
    case (Suc k)
    then obtain d1 where "foldM (delim_step vs) \<lparr>dl_stack = [], dl_depths = [], dl_matching = []\<rparr> [0..<k] = Inr d1"
        "delim_step vs d1 k = Inr d'"
      by (auto simp: foldM_append res_simps)
    with Suc show ?case by (auto intro: delim_step_inv)
  qed
  from this [OF le_refl fold] show ?thesis .
qed

section \<open>What is extracted\<close>

abbreviation is_c :: "token \<Rightarrow> bool" where
  "is_c t \<equiv> tk_kind t = KC"

definition c_values :: "token list \<Rightarrow> string list" where
  "c_values ts = map tk_value (filter is_c ts)"

lemma enumerate_c_nth:
  assumes "i < length (filter (\<lambda>(i, t). is_c t) (enumerate n ts))"
    and "filter (\<lambda>(i, t). is_c t) (enumerate n ts) ! i = (r, t)"
  shows "n \<le> r \<and> r - n < length ts \<and> ts ! (r - n) = t \<and> is_c t
    \<and> map snd (take i (filter (\<lambda>(i, t). is_c t) (enumerate n ts))) = filter is_c (take (r - n) ts)"
  using assms
proof (induction ts arbitrary: n i)
  case (Cons x ts)
  show ?case
  proof (cases "is_c x \<and> i = 0")
    case True
    with Cons.prems show ?thesis by auto
  next
    case False
    define j where "j = (if is_c x then i - 1 else i)"
    have j: "j < length (filter (\<lambda>(i, t). is_c t) (enumerate (Suc n) ts))"
        "filter (\<lambda>(i, t). is_c t) (enumerate (Suc n) ts) ! j = (r, t)"
      using Cons.prems False by (auto simp: j_def nth_Cons' split: if_splits)
    note IH = Cons.IH [OF this]
    then obtain m where r: "r = Suc (n + m)" by (metis add_Suc le_Suc_ex)
    from IH show ?thesis using False by (auto simp: r j_def take_Cons' split: if_splits)
  qed
qed simp

lemma c_tokens_nth:
  assumes "i < length (c_tokens ts)" and "c_tokens ts ! i = (r, t)"
  shows "r < length ts" and "ts ! r = t" and "is_c t"
    and "map snd (take i (c_tokens ts)) = filter is_c (take r ts)"
  using enumerate_c_nth [of i 0 ts r t] assms by (simp_all add: c_tokens_def)

lemma c_values_take:
  assumes "i < length (c_tokens ts)" and "c_tokens ts ! i = (r, t)"
  shows "c_values (take r ts) = segment 0 i (map (tk_value \<circ> snd) (c_tokens ts))"
    and "c_values (take (Suc r) ts) = segment 0 (Suc i) (map (tk_value \<circ> snd) (c_tokens ts))"
proof -
  note c = c_tokens_nth [OF assms]
  show *: "c_values (take r ts) = segment 0 i (map (tk_value \<circ> snd) (c_tokens ts))"
    using c(4) [symmetric] by (simp add: c_values_def segment_def take_map)
  have "segment 0 (Suc i) (map (tk_value \<circ> snd) (c_tokens ts)) = c_values (take r ts) @ [tk_value t]"
    using assms by (simp add: * segment_snoc)
  then show "c_values (take (Suc r) ts) = segment 0 (Suc i) (map (tk_value \<circ> snd) (c_tokens ts))"
    using c by (simp add: c_values_def take_Suc_conv_app_nth)
qed

text \<open>The C tokens of the segment between two of them.\<close>

lemma c_values_segment:
  assumes i: "i < length (c_tokens ts)" "c_tokens ts ! i = (r, t)"
    and j: "j < length (c_tokens ts)" "c_tokens ts ! j = (r', t')" and "i \<le> j" and "r \<le> r'"
  shows "c_values (take (Suc r' - r) (drop r ts)) = segment i (Suc j) (map (tk_value \<circ> snd) (c_tokens ts))"
proof -
  let ?vs = "map (tk_value \<circ> snd) (c_tokens ts)"
  have "take (Suc r') ts = take r ts @ take (Suc r' - r) (drop r ts)"
    using \<open>r \<le> r'\<close> by (metis le_add_diff_inverse le_SucI take_add)
  then have "c_values (take (Suc r') ts) = c_values (take r ts) @ c_values (take (Suc r' - r) (drop r ts))"
    by (simp add: c_values_def)
  with c_values_take [OF i] c_values_take [OF j]
  have "segment 0 i ?vs @ c_values (take (Suc r' - r) (drop r ts)) = segment 0 (Suc j) ?vs" by simp
  with segment_split [of 0 i "Suc j" ?vs] \<open>i \<le> j\<close> show ?thesis by simp
qed

lemma c_tokens_mono:
  assumes "i < length (c_tokens ts)" "c_tokens ts ! i = (r, t)"
    and "j < length (c_tokens ts)" "c_tokens ts ! j = (r', t')" and "i \<le> j"
  shows "r \<le> r'"
proof (rule ccontr)
  assume "\<not> r \<le> r'"
  then have "take (Suc r') ts = take (Suc r') (take r ts)" by (simp add: min_def)
  then have "length (c_values (take (Suc r') ts)) \<le> length (c_values (take r ts))"
    unfolding c_values_def by (metis filter_append append_take_drop_id length_append length_map le_add1)
  with c_values_take(2) [OF assms(3,4)] c_values_take(1) [OF assms(1,2)] assms(1,3,5)
  show False by (simp add: segment_def)
qed

text \<open>
  The segment of a definition of \<open>name\<close>: a top-level declarator with balanced parameters, none of them with a
  semicolon or a brace, followed by a balanced body.
\<close>

definition definition_shape :: "string \<Rightarrow> string list \<Rightarrow> bool" where
  "definition_shape name vs =
     (\<exists>params body. vs = name # ''('' # params @ '')'' # ''{'' # body @ [''}''] \<and> balanced params \<and> balanced body
        \<and> '';'' \<notin> set params \<and> ''{'' \<notin> set params \<and> ''}'' \<notin> set params)"

definition extracted :: "token list \<Rightarrow> string \<Rightarrow> cfunction \<Rightarrow> bool" where
  "extracted ts name f =
     (\<exists>before_ts seg after_ts. ts = before_ts @ seg @ after_ts \<and> fn_tokens f = map tk_value seg
        \<and> definition_shape name (c_values seg) \<and> balanced (c_values before_ts)
        \<and> fn_prefix f = declaration_prefix (map tk_value before_ts) \<and> fn_prefix f \<noteq> [] \<and> ''='' \<notin> set (fn_prefix f))"

lemma matching_of_inv:
  assumes "delim_inv vs k d" and "matching_of d a = Inr b" and "closer (vs ! a) \<noteq> None"
  shows "a < b" and "b < length vs" and "closer (vs ! a) = Some (vs ! b)" and "balanced (segment (Suc a) b vs)"
proof -
  have "(a, b) \<in> set (dl_matching d)" using assms(2) by (auto simp: matching_of_def res_simps dest: map_of_SomeD)
  with assms(1,3) show "a < b" "b < length vs" "closer (vs ! a) = Some (vs ! b)" "balanced (segment (Suc a) b vs)"
    by (auto simp: delim_inv_def)
qed

lemma segment_set: "x \<in> set (segment a b xs) \<longleftrightarrow> (\<exists>j. a \<le> j \<and> j < b \<and> j < length xs \<and> xs ! j = x)"
proof -
  have "x \<in> set (segment a b xs) \<longleftrightarrow> (\<exists>i. i < b - a \<and> i < length xs - a \<and> xs ! (a + i) = x)"
    by (auto simp: segment_def in_set_conv_nth)
  also have "\<dots> \<longleftrightarrow> (\<exists>j. a \<le> j \<and> j < b \<and> j < length xs \<and> xs ! j = x)"
    by (rule iffI; elim exE) (metis le_add1 less_diff_conv add.commute, metis diff_less_mono le_add_diff_inverse)
  finally show ?thesis .
qed

lemma definition_at_extracted:
  assumes at: "definition_at ts (c_tokens ts) d name i = Inr (Some f)" and i: "i < length (c_tokens ts)"
    and inv: "delim_inv (map (tk_value \<circ> snd) (c_tokens ts)) (length (c_tokens ts)) d"
  shows "extracted ts name f"
proof -
  let ?vs = "map (tk_value \<circ> snd) (c_tokens ts)"
  obtain raw tok where raw: "c_tokens ts ! i = (raw, tok)" by (cases "c_tokens ts ! i")
  from at obtain close e where name: "?vs ! i = name" and depth: "dl_depths d ! i = 0" and par: "?vs ! (i + 1) = ''(''"
      and close: "matching_of d (i + 1) = Inr close" "close + 1 < length (c_tokens ts)" "?vs ! (close + 1) = ''{''"
      and no: "\<not> list_ex (\<lambda>j. ?vs ! j \<in> {'';'', ''{'', ''}''}) [i + 2..<close]"
      and p: "fn_prefix f = declaration_prefix (map tk_value (take raw ts))" "fn_prefix f \<noteq> []" "''='' \<notin> set (fn_prefix f)"
      and e: "matching_of d (close + 1) = Inr e" "fn_tokens f = map tk_value (take (fst (c_tokens ts ! e) + 1 - raw) (drop raw ts))"
    unfolding definition_at_def Let_def raw prod.case
    by (auto simp: res_simps simp del: nth_map map_eq_conv split: if_splits)
  note m1 = matching_of_inv [OF inv close(1)] note m2 = matching_of_inv [OF inv e(1)]
  have op: "closer (?vs ! (i + 1)) \<noteq> None" "closer (?vs ! (close + 1)) \<noteq> None" unfolding par close(3) by (simp_all add: closer_def)
  have cl: "?vs ! close = '')''" "?vs ! e = ''}''"
    using m1(3) [OF op(1)] m2(3) [OF op(2)] unfolding par close(3) by (simp_all add: closer_def)
  note ord = m1(1) [OF op(1)] m2(1,2) [OF op(2)]
  obtain raw' tok' where raw': "c_tokens ts ! e = (raw', tok')" by (cases "c_tokens ts ! e")
  have le: "raw \<le> raw'" using c_tokens_mono [OF i raw _ raw'] ord by simp
  have ie: "i \<le> e" "e < length (c_tokens ts)" using ord by simp_all
  let ?seg = "take (Suc raw' - raw) (drop raw ts)"
  have seg: "c_values ?seg = segment i (Suc e) ?vs" by (rule c_values_segment [OF i raw ie(2) raw' ie(1) le])
  have shape: "segment i (Suc e) ?vs =
      name # ''('' # segment (i + 2) close ?vs @ '')'' # ''{'' # segment (close + 2) e ?vs @ [''}'']"
    using ord close(2) name par close(3) cl segment_Cons [of i "Suc e" ?vs] segment_Cons [of "i + 1" "Suc e" ?vs]
      segment_split [of "i + 2" close "Suc e" ?vs] segment_Cons [of close "Suc e" ?vs] segment_Cons [of "close + 1" "Suc e" ?vs]
      segment_snoc [of "close + 2" e ?vs]
    by (simp del: nth_map)
  have "definition_shape name (c_values ?seg)"
    unfolding definition_shape_def seg shape using m1(4) [OF op(1)] m2(4) [OF op(2)] no
    by (intro exI [of _ "segment (i + 2) close ?vs"] exI [of _ "segment (close + 2) e ?vs"])
       (auto simp: segment_set list_ex_iff simp del: nth_map)
  moreover have "balanced (c_values (take raw ts))"
    using inv depth i c_values_take(1) [OF i raw] by (simp add: delim_inv_def)
  moreover have "ts = take raw ts @ ?seg @ drop (Suc raw') ts"
    using le by (metis append_take_drop_id drop_drop le_SucI le_add_diff_inverse2)
  moreover have "fn_tokens f = map tk_value ?seg" using e(2) by (simp add: raw')
  ultimately show ?thesis unfolding extracted_def using p by blast
qed

lemma extract_function_extracted:
  assumes "extract_function source name = Inr f"
  shows "is_ident name \<and> (\<exists>ts. lex source = Inr ts \<and> extracted ts name f)"
proof -
  from assms obtain ts d found where name: "is_ident name" and ts: "lex source = Inr ts"
      and d: "match_delims (map (tk_value \<circ> snd) (c_tokens ts)) = Inr d"
      and found: "mapM (definition_at ts (c_tokens ts) d name) [0..<length (c_tokens ts)] = Inr found"
      and f: "(case filter (\<lambda>f. f \<noteq> None) found of [Some f] \<Rightarrow> Inr f
          | _ \<Rightarrow> Inl (prov_error ''expected exactly one definition'')) = Inr f"
    by (auto simp: extract_function_def res_simps Let_def)
  from f have "filter (\<lambda>f. f \<noteq> None) found = [Some f]" by (auto split: list.splits option.splits)
  then have "Some f \<in> set (filter (\<lambda>f. f \<noteq> None) found)" by simp
  then have "Some f \<in> set found" by simp
  from mapM_set [OF found this] obtain i where i: "i < length (c_tokens ts)"
      "definition_at ts (c_tokens ts) d name i = Inr (Some f)" by auto
  from match_delims_inv [OF d] have "delim_inv (map (tk_value \<circ> snd) (c_tokens ts)) (length (c_tokens ts)) d" by simp
  from definition_at_extracted [OF i(2,1) this] name ts show ?thesis by blast
qed

text \<open>
  C32. A function that is extracted is a definition of the source: its tokens are one contiguous segment of the
  source's tokens, at the top level, that reads (directives aside) as the name, a parenthesised balanced parameter
  list without semicolons or braces and a balanced braced body, and its prefix is the nonempty run of tokens before it.
\<close>

theorem extract_function_sound:
  assumes "extract_function source name = Inr f"
  shows "\<exists>ts. lex source = Inr ts \<and> extracted ts name f"
  using extract_function_extracted [OF assms] by blast

definition extract_sample :: string where
  "extract_sample = ''int f(int); int f(int a) { /* x */ return (a); }''"

lemma extract_sample_result:
  "map_sum id (\<lambda>f. (fn_tokens f, fn_prefix f)) (extract_function extract_sample ''f'') =
     Inr ([''f'', ''('', ''int'', ''a'', '')'', ''{'', ''return'', ''('', ''a'', '')'', '';'', ''}''], [''int''])"
  by code_simp

lemma extract_function_sound_witness:
  "\<exists>f ts. extract_function extract_sample ''f'' = Inr f \<and> lex extract_sample = Inr ts \<and> extracted ts ''f'' f"
proof -
  obtain f where "extract_function extract_sample ''f'' = Inr f" using extract_sample_result by (auto simp: map_sum_Inr)
  with extract_function_sound [OF this] show ?thesis by blast
qed

section \<open>Reading sources\<close>

definition relative_path :: "py \<Rightarrow> string res" where
  "relative_path v = (case v of
     PStr s \<Rightarrow>
       if s = [] \<or> CHR 0x5C \<in> set s then Inl (prov_error ''must be a nonempty relative POSIX path'')
       else if is_absolute (path_str s) \<or> ''..'' \<in> set (path_parts s) \<or> starts_with ''-'' s
       then Inl (prov_error ''must stay inside its source root'')
       else Inr (path_str s)
   | _ \<Rightarrow> Inl (prov_error ''must be a nonempty relative POSIX path''))"

definition read_local :: "host \<Rightarrow> string \<Rightarrow> string \<Rightarrow> string res" where
  "read_local h base relative =
     (let base = resolve h base; path = resolve h (path_join base relative) in
      if \<not> is_relative_to path base then Inl (prov_error ''source symlink escapes root'')
      else (case contents h path of None \<Rightarrow> Inl (prov_error ''cannot read'') | Some b \<Rightarrow> Inr b))"

text \<open>A \<^verbatim>\<open>git\<close> process either cannot be run (or times out) or ends with a status and its output.\<close>

datatype git_result = GitUnavailable | GitExit int string

record tools =
  git_run :: "string \<Rightarrow> string list \<Rightarrow> git_result" \<comment> \<open>checkout and arguments\<close>
  utf8_decode :: "string \<Rightarrow> string option"

definition git :: "tools \<Rightarrow> string \<Rightarrow> string list \<Rightarrow> string res" where
  "git os tree args = (case git_run os tree ([''git'', ''--no-optional-locks'', ''-C'', tree] @ args) of
     GitUnavailable \<Rightarrow> Inl (prov_error ''cannot read kernel git source'')
   | GitExit code out \<Rightarrow> if code \<noteq> 0 then Inl (prov_error ''kernel git source unavailable'') else Inr out)"

text \<open>\<^verbatim>\<open>bytes.decode()\<close>, whose \<^verbatim>\<open>UnicodeDecodeError\<close> the code catches only around the two sources.\<close>

definition decode :: "tools \<Rightarrow> string \<Rightarrow> string res" where
  "decode os b = (case utf8_decode os b of None \<Rightarrow> Inl (Exn UnicodeError ''invalid UTF-8'') | Some s \<Rightarrow> Inr s)"

text \<open>\<^verbatim>\<open>Path.read_text()\<close>, with universal newlines.\<close>

definition text_file :: "host \<Rightarrow> tools \<Rightarrow> string \<Rightarrow> string res" where
  "text_file h os path = (case contents h path of
     None \<Rightarrow> Inl (Exn OSError path)
   | Some b \<Rightarrow> bind_res (decode os b) (\<lambda>s. Inr (universal_newlines s)))"

section \<open>The comparison\<close>

text \<open>The dictionary \<^verbatim>\<open>result\<close>, filled while the check runs.\<close>

record prov_evidence =
  ev_passed :: bool
  ev_errors :: "string list"
  ev_functions :: "pydict list"
  ev_source :: pydict
  ev_harness :: pydict
  ev_mode :: py

definition no_evidence :: prov_evidence where
  "no_evidence = \<lparr>ev_passed = False, ev_errors = [], ev_functions = [], ev_source = [], ev_harness = [], ev_mode = PNone\<rparr>"

definition set_source :: "string \<Rightarrow> py \<Rightarrow> (prov_evidence, unit) prog" where
  "set_source k v = sdo (\<lambda>e. e\<lparr>ev_source := dset (ev_source e) k v\<rparr>)"

definition set_harness :: "string \<Rightarrow> py \<Rightarrow> (prov_evidence, unit) prog" where
  "set_harness k v = sdo (\<lambda>e. e\<lparr>ev_harness := dset (ev_harness e) k v\<rparr>)"

definition add_error :: "string \<Rightarrow> (prov_evidence, unit) prog" where
  "add_error msg = sdo (\<lambda>e. e\<lparr>ev_errors := ev_errors e @ [msg]\<rparr>)"

definition is_prov :: "exn_class \<Rightarrow> bool" where
  "is_prov c = (c = ProvenanceError)"

definition MODES :: "py list" where
  "MODES = [PStr ''translation-unit'', PStr ''functions'', PStr ''pinned-translation-unit'']"

text \<open>The mode and the path of the harness.\<close>

definition check_mode :: "pydict \<Rightarrow> py \<Rightarrow> string \<Rightarrow> (prov_evidence, py \<times> string) prog" where
  "check_mode target revision source_path =
     sbind (slift (bind_res (pget (dget_or target ''provenance'' (PDict [])) ''mode'') (\<lambda>mode.
        if mode \<notin> set MODES then Inl (prov_error ''unsupported provenance mode'') else Inr mode))) (\<lambda>mode.
     sbind (if mode = PStr ''pinned-translation-unit'' then
         (if revision = PNone then sraise (prov_error ''pinned translation-unit mode requires a revision'')
          else if dget target ''harness'' \<noteq> PNone
          then sraise (prov_error ''pinned translation units do not accept a project harness'')
          else sbind (sdo (\<lambda>e. e\<lparr>ev_harness := [(''path'', PStr source_path), (''kind'', PStr ''pinned-source-identity'')]\<rparr>))
            (\<lambda>_. sreturn source_path))
       else
         sbind (slift (relative_path (dget target ''harness''))) (\<lambda>p.
         sbind (sdo (\<lambda>e. e\<lparr>ev_harness := [(''path'', PStr p), (''kind'', PStr ''project-copy'')]\<rparr>)) (\<lambda>_.
         sreturn p))) (\<lambda>harness_path.
     sbind (sdo (\<lambda>e. e\<lparr>ev_mode := mode\<rparr>)) (\<lambda>_.
     sreturn (mode, harness_path))))"

definition target_functions :: "pydict \<Rightarrow> string list res" where
  "target_functions target =
     (let d = (if has_key target ''function'' then PList [dget target ''function''] else PList []) in
      case as_strs (dget_or target ''functions'' d) of
        None \<Rightarrow> Inl (prov_error ''functions must be a nonempty list of distinct C identifiers'')
      | Some fs \<Rightarrow>
          if fs = [] \<or> \<not> list_all is_ident fs \<or> \<not> distinct fs
          then Inl (prov_error ''functions must be a nonempty list of distinct C identifiers'') else Inr fs)"

text \<open>The bytes compared: the blob of the pinned commit, or the file of the checkout.\<close>

definition read_source :: "host \<Rightarrow> tools \<Rightarrow> string \<Rightarrow> py \<Rightarrow> string \<Rightarrow> (prov_evidence, string) prog" where
  "read_source h os tree revision source_path =
     sbind (if revision \<noteq> PNone then
         (case revision of
            PStr r \<Rightarrow>
              if r = [] \<or> starts_with ''-'' r then sraise (prov_error ''invalid kernel revision'')
              else
                sbind (slift (bind_res (git os tree [''rev-parse'', ''--verify'', ''--end-of-options'', r @ ''^{commit}'']) (decode os)))
                  (\<lambda>c. sbind (set_source ''revision'' (PStr (strip c))) (\<lambda>_.
                slift (git os tree [''show'', strip c @ '':'' @ source_path])))
          | _ \<Rightarrow> sraise (prov_error ''invalid kernel revision''))
       else sbind (set_source ''revision'' PNone) (\<lambda>_. slift (read_local h tree source_path))) (\<lambda>bytes.
     sbind (set_source ''sha256'' (PStr (sha256_hex h bytes))) (\<lambda>_.
     sbind (set_source ''blob_sha256'' (PStr (sha256_hex h bytes))) (\<lambda>_.
     sreturn bytes)))"

text \<open>What is recorded of the checkout beside the blob; a failure here is recorded, not raised.\<close>

definition checkout_metadata :: "host \<Rightarrow> tools \<Rightarrow> string \<Rightarrow> string \<Rightarrow> string \<Rightarrow> (prov_evidence, unit) prog" where
  "checkout_metadata h os tree source_path source_bytes =
     sbind (stry
       (sbind (slift (bind_res (git os tree [''rev-parse'', ''--verify'', ''HEAD'']) (decode os))) (\<lambda>hd.
        sbind (set_source ''checkout_head'' (PStr (strip hd))) (\<lambda>_.
        sbind (slift (bind_res (git os tree [''status'', ''--porcelain=v1'', ''--'', source_path]) (decode os))) (\<lambda>st.
        set_source ''checkout_status'' (PList (map PStr (splitlines st)))))))
       is_prov (\<lambda>msg. set_source ''checkout_metadata_error'' (PStr msg))) (\<lambda>_.
     stry
       (sbind (slift (read_local h tree source_path)) (\<lambda>working.
        sbind (set_source ''checkout_sha256'' (PStr (sha256_hex h working))) (\<lambda>_.
        set_source ''checkout_matches_source'' (PBool (working = source_bytes)))))
       is_prov (\<lambda>msg.
        sbind (set_source ''checkout_read_error'' (PStr msg)) (\<lambda>_.
        set_source ''checkout_matches_source'' (PBool False))))"

definition declared_assumptions :: "py \<Rightarrow> bool" where
  "declared_assumptions v = (case as_strs v of None \<Rightarrow> False | Some ss \<Rightarrow> ss \<noteq> [] \<and> list_all not_blank ss)"

definition strs :: "string list \<Rightarrow> py" where
  "strs ss = PList (map PStr ss)"

definition function_item :: "host \<Rightarrow> string \<Rightarrow> cfunction \<Rightarrow> cfunction \<Rightarrow> pydict" where
  "function_item h name original annotated =
     [(''name'', PStr name), (''passed'', PBool (fn_tokens original = fn_tokens annotated)),
      (''source_line'', PInt (int (fn_line original))), (''harness_line'', PInt (int (fn_line annotated))),
      (''source_token_sha256'', PStr (token_hash h (fn_tokens original))),
      (''harness_token_sha256'', PStr (token_hash h (fn_tokens annotated))),
      (''declaration_prefix_equal'', PBool (fn_prefix original = fn_prefix annotated)),
      (''source_declaration_prefix'', strs (fn_prefix original)),
      (''harness_declaration_prefix'', strs (fn_prefix annotated)),
      (''source_declaration_sha256'', PStr (token_hash h (fn_prefix original))),
      (''harness_declaration_sha256'', PStr (token_hash h (fn_prefix annotated)))]"

definition push_item :: "pydict \<Rightarrow> (prov_evidence, unit) prog" where
  "push_item item = sdo (\<lambda>e. e\<lparr>ev_functions := ev_functions e @ [item]\<rparr>)"

text \<open>One iteration of the loop over the functions.\<close>

definition check_function :: "host \<Rightarrow> pydict \<Rightarrow> string \<Rightarrow> string \<Rightarrow> string \<Rightarrow> (prov_evidence, unit) prog" where
  "check_function h target source harness name =
     sbind (slift (extract_function source name)) (\<lambda>original.
     sbind (slift (extract_function harness name)) (\<lambda>annotated.
       let item = function_item h name original annotated;
           assumptions = dget_or target ''assumptions'' (PList [])
       in
       sbind (if fn_tokens original = fn_tokens annotated then sreturn ()
              else add_error ''parameter list or body token changes'') (\<lambda>_.
       if fn_prefix original = fn_prefix annotated then push_item item
       else if declared_assumptions assumptions then push_item (dset item ''model_assumptions'' assumptions)
       else
         sbind (add_error ''declaration prefix changed without declared model assumptions'') (\<lambda>_.
         push_item (dset (dset item ''model_assumptions'' assumptions) ''passed'' (PBool False))))))"

definition check_sources ::
  "host \<Rightarrow> pydict \<Rightarrow> py \<Rightarrow> string list \<Rightarrow> string \<Rightarrow> string \<Rightarrow> (prov_evidence, unit) prog" where
  "check_sources h target mode functions source harness =
     sbind (slift (tokenize source)) (\<lambda>source_tokens.
     sbind (slift (tokenize harness)) (\<lambda>harness_tokens.
     sbind (set_source ''token_sha256'' (PStr (token_hash h source_tokens))) (\<lambda>_.
     sbind (set_harness ''token_sha256'' (PStr (token_hash h harness_tokens))) (\<lambda>_.
     sbind (if mode \<in> {PStr ''translation-unit'', PStr ''pinned-translation-unit''} \<and> source_tokens \<noteq> harness_tokens
            then add_error ''translation unit has non-comment token changes'' else sreturn ()) (\<lambda>_.
     sbind (sfor (check_function h target source harness) functions) (\<lambda>_.
     sdo (\<lambda>e. e\<lparr>ev_passed := (ev_errors e = [])\<rparr>)))))))"

definition check_body :: "host \<Rightarrow> tools \<Rightarrow> pydict \<Rightarrow> string \<Rightarrow> py \<Rightarrow> string \<Rightarrow> (prov_evidence, unit) prog" where
  "check_body h os target tree revision base =
     sbind (slift (relative_path (dget target ''source''))) (\<lambda>source_path.
     sbind (sdo (\<lambda>e. e\<lparr>ev_source := [(''path'', PStr source_path),
        (''kind'', PStr (if truthy revision then ''git-blob'' else ''working-tree''))]\<rparr>)) (\<lambda>_.
     sbind (check_mode target revision source_path) (\<lambda>(mode, harness_path).
     sbind (slift (target_functions target)) (\<lambda>functions.
     sbind (read_source h os tree revision source_path) (\<lambda>source_bytes.
     sbind (checkout_metadata h os tree source_path source_bytes) (\<lambda>_.
     sbind (if mode = PStr ''pinned-translation-unit'' then sreturn source_bytes
            else slift (read_local h base harness_path)) (\<lambda>harness_bytes.
     sbind (set_harness ''sha256'' (PStr (sha256_hex h harness_bytes))) (\<lambda>_.
     sbind (stry (sbind (slift (decode os source_bytes)) (\<lambda>s. sbind (slift (decode os harness_bytes)) (\<lambda>t. sreturn (s, t))))
       (\<lambda>c. c = UnicodeError) (\<lambda>msg. sraise (prov_error ''source must be UTF-8''))) (\<lambda>(source, harness).
     check_sources h target mode functions source harness)))))))))"

text \<open>The handler around the whole check; an exception of another class leaves the function.\<close>

definition check_target :: "host \<Rightarrow> tools \<Rightarrow> pydict \<Rightarrow> string \<Rightarrow> py \<Rightarrow> string \<Rightarrow> prov_evidence res" where
  "check_target h os target tree revision base =
     (case stry (check_body h os target tree revision base)
         (\<lambda>c. c \<in> {ProvenanceError, OSError, TypeError, AttributeError}) add_error no_evidence of
       (Inl e, _) \<Rightarrow> Inl e
     | (Inr _, ev) \<Rightarrow> Inr ev)"

section \<open>What passing means\<close>

text \<open>The function is the same in both texts, but for a prefix whose change the target declares.\<close>

definition same_function :: "pydict \<Rightarrow> string \<Rightarrow> string \<Rightarrow> string \<Rightarrow> bool" where
  "same_function target source harness name =
     (\<exists>f g. extract_function source name = Inr f \<and> extract_function harness name = Inr g \<and> fn_tokens f = fn_tokens g
        \<and> (fn_prefix f = fn_prefix g \<or> declared_assumptions (dget_or target ''assumptions'' (PList []))))"

lemma add_error_eq [res_simps]: "add_error msg s = (x, s') \<longleftrightarrow> x = Inr () \<and> s' = s\<lparr>ev_errors := ev_errors s @ [msg]\<rparr>"
  by (auto simp: add_error_def sdo_eq)

lemma push_item_Inr: "push_item item s = (x, s') \<Longrightarrow> x = Inr () \<and> ev_errors s' = ev_errors s"
  by (auto simp: push_item_def sdo_eq)

lemma check_function_sound:
  assumes "check_function h target source harness name s = (Inr (), s')" and "ev_errors s' = []"
  shows "ev_errors s = [] \<and> same_function target source harness name"
  using assms unfolding check_function_def same_function_def Let_def
  by (auto simp: res_simps split: if_splits dest!: push_item_Inr)

lemma check_functions_sound:
  assumes "sfor (check_function h target source harness) names s = (Inr u, s')" and "ev_errors s' = []"
  shows "ev_errors s = [] \<and> list_all (same_function target source harness) names"
proof -
  have "ev_errors s' = [] \<longrightarrow> ev_errors s = [] \<and> list_all (same_function target source harness) ([] @ names)"
    by (rule sfor_invariant [OF assms(1)]) (auto dest: check_function_sound)
  with assms(2) show ?thesis by simp
qed

lemma check_sources_sound:
  assumes "check_sources h target mode names source harness s = (Inr u, s')" and "ev_passed s'"
  shows "list_all (same_function target source harness) names"
    and "mode \<in> {PStr ''translation-unit'', PStr ''pinned-translation-unit''} \<Longrightarrow> tokenize source = tokenize harness"
proof -
  let ?unit = "mode \<in> {PStr ''translation-unit'', PStr ''pinned-translation-unit''}"
  from assms(1) obtain st ht s1 s2 s3 u1 u2 where t: "tokenize source = Inr st" "tokenize harness = Inr ht"
      and u: "(if ?unit \<and> st \<noteq> ht then add_error ''translation unit has non-comment token changes'' else sreturn ()) s1 = (Inr u1, s2)"
      and l: "sfor (check_function h target source harness) names s2 = (Inr u2, s3)"
      and f: "s' = s3\<lparr>ev_passed := (ev_errors s3 = [])\<rparr>"
    unfolding check_sources_def sbind_Inr slift_eq sdo_eq by (elim exE conjE) (rule that; assumption)
  from f assms(2) have "ev_errors s3 = []" by simp
  from check_functions_sound [OF l this] have e: "ev_errors s2 = []"
    and fs: "list_all (same_function target source harness) names" by simp_all
  show "list_all (same_function target source harness) names" by (rule fs)
  show "tokenize source = tokenize harness" if ?unit
  proof (rule ccontr)
    assume "tokenize source \<noteq> tokenize harness"
    with t that have "?unit \<and> st \<noteq> ht" by simp
    from u [unfolded if_P [OF this] add_error_eq] e show False by auto
  qed
qed

text \<open>The digests recorded of the two inputs, and the mode, stay as they were written.\<close>

definition recorded :: "py \<Rightarrow> py \<Rightarrow> prov_evidence \<Rightarrow> bool" where
  "recorded sv mode e = (dget (ev_source e) ''sha256'' = sv \<and> ev_mode e = mode)"

definition recorded_both :: "py \<Rightarrow> py \<Rightarrow> py \<Rightarrow> prov_evidence \<Rightarrow> bool" where
  "recorded_both sv hv mode e = (recorded sv mode e \<and> dget (ev_harness e) ''sha256'' = hv)"

lemmas recorded_defs = recorded_def recorded_both_def

lemma keeps_evidence [intro]:
  "k \<noteq> ''sha256'' \<Longrightarrow> keeps (recorded sv mode) (set_source k w)"
  "k \<noteq> ''sha256'' \<Longrightarrow> keeps (recorded_both sv hv mode) (set_source k w)"
  "keeps (recorded sv mode) (set_harness k w)"
  "k \<noteq> ''sha256'' \<Longrightarrow> keeps (recorded_both sv hv mode) (set_harness k w)"
  "keeps (recorded_both sv hv mode) (add_error msg)"
  "keeps (recorded_both sv hv mode) (push_item item)"
  by (auto simp: set_source_def set_harness_def add_error_def push_item_def recorded_defs)

lemma keeps_check_function: "keeps (recorded_both sv hv mode) (check_function h target source harness name)"
  unfolding check_function_def Let_def by (intro keeps_sbind keeps_slift keeps_if keeps_evidence)

lemma keeps_check_sources: "keeps (recorded_both sv hv mode) (check_sources h target m names source harness)"
  unfolding check_sources_def
  by (intro keeps_sbind keeps_slift keeps_if keeps_evidence keeps_sfor keeps_check_function keeps_sdo)
     (simp_all add: recorded_defs)

lemma keeps_checkout_metadata: "keeps (recorded sv mode) (checkout_metadata h os tree p b)"
  unfolding checkout_metadata_def by (intro keeps_sbind keeps_stry keeps_slift keeps_evidence) simp_all

text \<open>Where the compared bytes come from.\<close>

definition source_bytes_of :: "host \<Rightarrow> tools \<Rightarrow> pydict \<Rightarrow> string \<Rightarrow> py \<Rightarrow> string \<Rightarrow> bool" where
  "source_bytes_of h os target tree revision b =
     (\<exists>p. relative_path (dget target ''source'') = Inr p
        \<and> (revision = PNone \<and> read_local h tree p = Inr b
           \<or> (\<exists>r out c. revision = PStr r \<and> \<not> starts_with ''-'' r
                \<and> git os tree [''rev-parse'', ''--verify'', ''--end-of-options'', r @ ''^{commit}''] = Inr out
                \<and> decode os out = Inr c \<and> git os tree [''show'', strip c @ '':'' @ p] = Inr b)))"

lemma set_source_Inr: "set_source k v s = (x, s') \<Longrightarrow> x = Inr () \<and> s' = s\<lparr>ev_source := dset (ev_source s) k v\<rparr>"
  by (simp add: set_source_def sdo_eq)

lemma set_harness_Inr: "set_harness k v s = (x, s') \<Longrightarrow> x = Inr () \<and> s' = s\<lparr>ev_harness := dset (ev_harness s) k v\<rparr>"
  by (simp add: set_harness_def sdo_eq)

lemma read_source_Inr:
  assumes "read_source h os tree revision p s = (Inr b, s')" and "relative_path (dget target ''source'') = Inr p"
  shows "source_bytes_of h os target tree revision b \<and> recorded (PStr (sha256_hex h b)) (ev_mode s) s'"
proof -
  from assms(1) obtain s1 where a: "(if revision \<noteq> PNone then
         (case revision of
            PStr r \<Rightarrow>
              if r = [] \<or> starts_with ''-'' r then sraise (prov_error ''invalid kernel revision'')
              else
                sbind (slift (bind_res (git os tree [''rev-parse'', ''--verify'', ''--end-of-options'', r @ ''^{commit}'']) (decode os)))
                  (\<lambda>c. sbind (set_source ''revision'' (PStr (strip c))) (\<lambda>_.
                slift (git os tree [''show'', strip c @ '':'' @ p])))
          | _ \<Rightarrow> sraise (prov_error ''invalid kernel revision''))
       else sbind (set_source ''revision'' PNone) (\<lambda>_. slift (read_local h tree p))) s = (Inr b, s1)"
      and b: "s' = s1\<lparr>ev_source := dset (dset (ev_source s1) ''sha256'' (PStr (sha256_hex h b))) ''blob_sha256'' (PStr (sha256_hex h b))\<rparr>"
    unfolding read_source_def by (auto simp: sbind_Inr slift_eq dest!: set_source_Inr)
  have "source_bytes_of h os target tree revision b \<and> ev_mode s1 = ev_mode s"
  proof (cases "revision = PNone")
    case True
    with a assms(2) show ?thesis by (auto simp: source_bytes_of_def sbind_Inr slift_eq dest!: set_source_Inr)
  next
    case False
    with a obtain r where "revision = PStr r" by (cases revision) (simp_all add: slift_eq)
    with a assms(2) show ?thesis
      by (auto simp: source_bytes_of_def sbind_Inr slift_eq bind_res_Inr dest!: set_source_Inr split: if_splits)
  qed
  then show ?thesis unfolding b by (simp add: recorded_def)
qed

lemma check_mode_Inr:
  assumes "check_mode target revision p s = (Inr (mode, hp), s')"
  shows "ev_mode s' = mode" and "mode \<in> set MODES"
  using assms unfolding check_mode_def by (auto simp: sbind_Inr slift_eq sdo_eq res_simps)

text \<open>A check that raises has not passed.\<close>

lemma no_evidence_unpassed: "\<not> ev_passed no_evidence"
  by (simp add: no_evidence_def)

abbreviation unpassed :: "prov_evidence \<Rightarrow> bool" where
  "unpassed e \<equiv> \<not> ev_passed e"

lemma keeps_unpassed [intro]:
  "keeps unpassed (set_source k w)" "keeps unpassed (set_harness k w)" "keeps unpassed (add_error msg)"
  "keeps unpassed (push_item item)"
  by (auto simp: set_source_def set_harness_def add_error_def push_item_def)

lemma keeps_unpassed_parts:
  "keeps unpassed (check_mode target revision p)"
  "keeps unpassed (checkout_metadata h os tree p b)"
  "keeps unpassed (check_function h target source harness name)"
  unfolding check_mode_def checkout_metadata_def check_function_def Let_def
  by (intro keeps_sbind keeps_slift keeps_stry keeps_if keeps_unpassed keeps_sdo; simp)+

lemma keeps_unpassed_read: "keeps unpassed (read_source h os tree revision p)"
  unfolding read_source_def
  by (intro keeps_sbind keeps_slift keeps_if keeps_unpassed)
     (cases revision; simp; intro keeps_sbind keeps_slift keeps_if keeps_unpassed impI conjI)

lemma check_sources_raising: "keeps_raising unpassed (check_sources h target mode names source harness)"
  unfolding check_sources_def
  by (intro keeps_raising_sbind keeps_slift keeps_if keeps_unpassed keeps_sfor keeps_unpassed_parts keeps_raising_sdo)

lemma check_body_raising: "keeps_raising unpassed (check_body h os target tree revision base)"
  unfolding check_body_def
  by (intro keeps_raising_sbind keeps_slift keeps_if keeps_unpassed keeps_unpassed_parts keeps_unpassed_read
      keeps_raising_prod keeps_stry keeps_sbind check_sources_raising keeps_sdo; simp)

lemma check_body_Inr:
  assumes "check_body h os target tree revision base s = (Inr u, s')"
  obtains p mode hp names sb hb source harness s1 s2 s3 s4 s5 u1 u2
  where "relative_path (dget target ''source'') = Inr p" and "check_mode target revision p s1 = (Inr (mode, hp), s2)"
    and "target_functions target = Inr names" and "read_source h os tree revision p s2 = (Inr sb, s3)"
    and "checkout_metadata h os tree p sb s3 = (Inr u1, s4)"
    and "set_harness ''sha256'' (PStr (sha256_hex h hb)) s4 = (Inr u2, s5)"
    and "utf8_decode os sb = Some source" and "utf8_decode os hb = Some harness"
    and "check_sources h target mode names source harness s5 = (Inr u, s')"
proof -
  from assms [unfolded check_body_def] obtain p s1 mode hp s2 names sb s3 u1 s4 hb s4' u2 s5 source harness s6 where *:
      "relative_path (dget target ''source'') = Inr p" "check_mode target revision p s1 = (Inr (mode, hp), s2)"
      "target_functions target = Inr names" "read_source h os tree revision p s2 = (Inr sb, s3)"
      "checkout_metadata h os tree p sb s3 = (Inr u1, s4)"
      "(if mode = PStr ''pinned-translation-unit'' then sreturn sb else slift (read_local h base hp)) s4 = (Inr hb, s4')"
      "set_harness ''sha256'' (PStr (sha256_hex h hb)) s4' = (Inr u2, s5)"
      "stry (sbind (slift (decode os sb)) (\<lambda>s. sbind (slift (decode os hb)) (\<lambda>t. sreturn (s, t))))
         (\<lambda>c. c = UnicodeError) (\<lambda>msg. sraise (prov_error ''source must be UTF-8'')) s5 = (Inr (source, harness), s6)"
      "check_sources h target mode names source harness s6 = (Inr u, s')"
    unfolding sbind_Inr slift_eq split_paired_Ex prod.case by (elim exE conjE, hypsubst+) (rule that; assumption)
  have "s4' = s4" using *(6) by (auto simp: slift_eq split: if_splits)
  moreover have "s6 = s5" "utf8_decode os sb = Some source" "utf8_decode os hb = Some harness"
    using *(8) by (auto simp: stry_Inr sbind_Inr slift_eq decode_def split: option.splits)
  ultimately show thesis using * that by blast
qed


lemma check_target_cases:
  assumes "check_target h os target tree revision base = Inr ev"
  shows "(\<exists>s target' mode names source harness u. check_sources h target' mode names source harness s = (Inr u, ev))
    \<or> (\<exists>s msg. unpassed s \<and> ev = s\<lparr>ev_errors := ev_errors s @ [msg]\<rparr>)"
proof -
  obtain v where "stry (check_body h os target tree revision base)
      (\<lambda>c. c \<in> {ProvenanceError, OSError, TypeError, AttributeError}) add_error no_evidence = (Inr v, ev)"
    using assms by (auto simp: check_target_def split: prod.splits sum.splits)
  then consider "check_body h os target tree revision base no_evidence = (Inr v, ev)"
    | c msg s1 where "check_body h os target tree revision base no_evidence = (Inl (Exn c msg), s1)"
        "ev = s1\<lparr>ev_errors := ev_errors s1 @ [msg]\<rparr>"
    unfolding stry_Inr add_error_eq by blast
  then show ?thesis
  proof cases
    case 1
    then show ?thesis by (rule check_body_Inr) blast
  next
    case 2
    with keeps_raisingD [OF check_body_raising 2(1) no_evidence_unpassed] show ?thesis by blast
  qed
qed

text \<open>A check that returns either passes without an error or fails with one: no failure is silent.\<close>

theorem check_target_verdict:
  assumes "check_target h os target tree revision base = Inr ev"
  shows "ev_passed ev = (ev_errors ev = [])"
  using check_target_cases [OF assms]
proof (elim disjE exE conjE)
  fix s target' mode names source harness u
  assume "check_sources h target' mode names source harness s = (Inr u, ev)"
  then show ?thesis unfolding check_sources_def sbind_Inr sdo_eq by (elim exE conjE) simp
qed simp

section \<open>A concrete target\<close>

definition target_host :: host where
  "target_host = \<lparr>contents = (\<lambda>p. if p \<in> {''/k/a.c'', ''/p/b.c''} then Some ''int f(){}'' else None),
     is_symlink = (\<lambda>_. False), is_dir = (\<lambda>_. False), resolve = id, sha256_hex = id, float_text = (\<lambda>_. ''0'')\<rparr>"

definition target_tools :: tools where
  "target_tools = \<lparr>git_run = (\<lambda>_ _. GitUnavailable), utf8_decode = Some\<rparr>"

definition provenance_target :: pydict where
  "provenance_target = [(''source'', PStr ''a.c''), (''harness'', PStr ''b.c''), (''function'', PStr ''f''),
     (''provenance'', PDict [(''mode'', PStr ''functions'')])]"

lemma sample_target_passes:
  "map_sum id ev_passed (check_target target_host target_tools provenance_target ''/k'' PNone ''/p'') = Inr True"
  by code_simp


lemma check_target_verdict_witness:
  "\<exists>ev. check_target target_host target_tools provenance_target ''/k'' PNone ''/p'' = Inr ev \<and> ev_errors ev = []"
proof -
  obtain ev where "check_target target_host target_tools provenance_target ''/k'' PNone ''/p'' = Inr ev" "ev_passed ev"
    using sample_target_passes by (auto simp: map_sum_Inr)
  with check_target_verdict [OF this(1)] show ?thesis by simp
qed

end
