(* ===== verification/Bytes.thy ===== *)
theory Bytes
  imports Py_Prelude "HOL-Library.Word"
begin

text \<open>
  Byte strings and the part of Python's \<^verbatim>\<open>struct\<close> module that the binary readers use: unsigned
  fields of one, two, four and eight bytes in either byte order, read at an offset. A format is
  the list of its field widths; there is no padding, as in every format that starts with \<open><\<close> or
  \<open>>\<close>. The locale \<open>field_codec\<close> is what a byte order promises; both orders are interpreted.
\<close>

type_synonym byte = "8 word"
type_synonym bytes = "byte list"

section \<open>Byte orders\<close>

fun le_nat :: "bytes \<Rightarrow> nat" where
  "le_nat [] = 0"
| "le_nat (b # bs) = unat b + 256 * le_nat bs"

fun le_bytes :: "nat \<Rightarrow> nat \<Rightarrow> bytes" where
  "le_bytes 0 v = []"
| "le_bytes (Suc n) v = of_nat (v mod 256) # le_bytes n (v div 256)"

definition be_nat :: "bytes \<Rightarrow> nat" where
  "be_nat bs = le_nat (rev bs)"

definition be_bytes :: "nat \<Rightarrow> nat \<Rightarrow> bytes" where
  "be_bytes n v = rev (le_bytes n v)"

definition field_nat :: "bool \<Rightarrow> bytes \<Rightarrow> nat" where
  "field_nat little bs = (if little then le_nat bs else be_nat bs)"

definition field_bytes :: "bool \<Rightarrow> nat \<Rightarrow> nat \<Rightarrow> bytes" where
  "field_bytes little n v = (if little then le_bytes n v else be_bytes n v)"

section \<open>Formats\<close>

text \<open>The fields of a byte string that is long enough for them, and the string of a list of fields.\<close>

fun unpack_fields :: "(bytes \<Rightarrow> nat) \<Rightarrow> nat list \<Rightarrow> bytes \<Rightarrow> nat list" where
  "unpack_fields get [] bs = []"
| "unpack_fields get (w # ws) bs = get (take w bs) # unpack_fields get ws (drop w bs)"

fun pack_fields :: "(nat \<Rightarrow> nat \<Rightarrow> bytes) \<Rightarrow> nat list \<Rightarrow> nat list \<Rightarrow> bytes" where
  "pack_fields put (w # ws) (v # vs) = put w v @ pack_fields put ws vs"
| "pack_fields put _ _ = []"

text \<open>\<^verbatim>\<open>struct.unpack_from(format, data, offset)\<close>: a \<^verbatim>\<open>struct.error\<close> when the buffer is too short.\<close>

definition unpack_from :: "bool \<Rightarrow> nat list \<Rightarrow> bytes \<Rightarrow> nat \<Rightarrow> nat list res" where
  "unpack_from little ws data off =
     (if off + sum_list ws \<le> length data
      then Inr (unpack_fields (field_nat little) ws (drop off data))
      else Inl (Exn StructError ''unpack_from requires a longer buffer''))"

text \<open>\<^verbatim>\<open>struct.unpack(format, data)\<close>: the buffer has exactly the size of the format.\<close>

definition unpack_all :: "bool \<Rightarrow> nat list \<Rightarrow> bytes \<Rightarrow> nat list res" where
  "unpack_all little ws data =
     (if length data = sum_list ws then Inr (unpack_fields (field_nat little) ws data)
      else Inl (Exn StructError ''unpack requires an exact buffer''))"

definition pack :: "bool \<Rightarrow> nat list \<Rightarrow> nat list \<Rightarrow> bytes" where
  "pack little ws vs = pack_fields (field_bytes little) ws vs"

section \<open>What a byte order promises\<close>

locale field_codec =
  fixes get :: "bytes \<Rightarrow> nat" and put :: "nat \<Rightarrow> nat \<Rightarrow> bytes"
  assumes length_put: "length (put n v) = n"
    and get_put: "v < 256 ^ n \<Longrightarrow> get (put n v) = v"
    and get_bound: "get bs < 256 ^ length bs"
    and put_get: "put (length bs) (get bs) = bs"
begin

lemma length_pack: "length ws = length vs \<Longrightarrow> length (pack_fields put ws vs) = sum_list ws"
  by (induction ws vs rule: list_induct2) (auto simp: length_put)

lemma unpack_pack:
  "list_all2 (\<lambda>w v. v < 256 ^ w) ws vs \<Longrightarrow> unpack_fields get ws (pack_fields put ws vs @ rest) = vs"
  by (induction ws vs rule: list_all2_induct) (auto simp: length_put get_put)

lemma pack_unpack:
  "sum_list ws \<le> length bs \<Longrightarrow> pack_fields put ws (unpack_fields get ws bs) = take (sum_list ws) bs"
proof (induction ws arbitrary: bs)
  case (Cons w ws)
  then have "length (take w bs) = w" by simp
  with put_get [of "take w bs"] have "put w (get (take w bs)) = take w bs" by simp
  moreover have "pack_fields put ws (unpack_fields get ws (drop w bs)) = take (sum_list ws) (drop w bs)"
    by (rule Cons.IH) (use Cons.prems in auto)
  ultimately show ?case by (simp add: take_add)
qed simp

lemma unpack_bounds: "sum_list ws \<le> length bs \<Longrightarrow> list_all2 (\<lambda>w v. v < 256 ^ w) ws (unpack_fields get ws bs)"
proof (induction ws arbitrary: bs)
  case (Cons w ws)
  then have "length (take w bs) = w" by simp
  with get_bound [of "take w bs"] Cons show ?case by simp
qed simp

end

lemma le_bytes_length [simp]: "length (le_bytes n v) = n"
  by (induction n arbitrary: v) auto

lemma unat_byte_less: "unat (b :: byte) < 256"
  using unsigned_less [of b, where ?'a = nat] by simp

lemma unat_of_mod: "unat (of_nat (v mod 256) :: byte) = v mod 256"
  by (simp add: unat_of_nat)

lemma of_nat_unat_byte: "(of_nat (unat (b :: byte)) :: byte) = b"
  by simp

lemma le_nat_bound: "le_nat bs < 256 ^ length bs"
proof (induction bs)
  case (Cons b bs)
  have "unat b + 256 * le_nat bs < 256 + 256 * le_nat bs" using unat_byte_less [of b] by simp
  also have "\<dots> = 256 * (le_nat bs + 1)" by simp
  also have "\<dots> \<le> 256 * 256 ^ length bs" using Cons by (intro mult_le_mono2) simp
  finally show ?case by simp
qed simp

lemma le_nat_bytes: "v < 256 ^ n \<Longrightarrow> le_nat (le_bytes n v) = v"
proof (induction n arbitrary: v)
  case (Suc n)
  then have "v div 256 < 256 ^ n" by (simp add: div_less_iff_less_mult mult.commute)
  with Suc.IH show ?case by (simp add: unat_of_mod)
qed simp

lemma le_bytes_nat: "le_bytes (length bs) (le_nat bs) = bs"
proof (induction bs)
  case (Cons b bs)
  have "(unat b + 256 * le_nat bs) mod 256 = unat b" "(unat b + 256 * le_nat bs) div 256 = le_nat bs"
    using unat_byte_less [of b] by auto
  with Cons show ?case by simp
qed simp

interpretation le: field_codec le_nat le_bytes
  by unfold_locales (auto simp: le_nat_bytes le_nat_bound le_bytes_nat)

interpretation be: field_codec be_nat be_bytes
proof
  fix bs
  show "be_nat bs < 256 ^ length bs" using le_nat_bound [of "rev bs"] by (simp add: be_nat_def)
  show "be_bytes (length bs) (be_nat bs) = bs"
    using le_bytes_nat [of "rev bs"] by (simp add: be_nat_def be_bytes_def)
qed (auto simp: be_nat_def be_bytes_def le_nat_bytes)

interpretation fields: field_codec "field_nat little" "field_bytes little" for little
  by (cases little)
     (unfold_locales; simp add: field_nat_def field_bytes_def le.length_put be.length_put le.get_put be.get_put
        le.get_bound be.get_bound le.put_get be.put_get)+



lemma unpack_from_pack:
  "unpack_from little ws data off = Inr vs \<Longrightarrow> pack little ws vs = take (sum_list ws) (drop off data)"
  by (auto simp: unpack_from_def pack_def fields.pack_unpack split: if_splits)

lemma unpack_from_length: "unpack_from little ws data off = Inr vs \<Longrightarrow> length vs = length ws"
proof -
  have "length (unpack_fields g ws bs) = length ws" for g bs
    by (induction ws arbitrary: bs) auto
  then show "unpack_from little ws data off = Inr vs \<Longrightarrow> length vs = length ws"
    by (auto simp: unpack_from_def split: if_splits)
qed

lemma unpack_from_bounds:
  "unpack_from little ws data off = Inr vs \<Longrightarrow> off + sum_list ws \<le> length data \<and> list_all2 (\<lambda>w v. v < 256 ^ w) ws vs"
  by (auto simp: unpack_from_def intro!: fields.unpack_bounds split: if_splits)

section \<open>Slices and texts\<close>

text \<open>\<^verbatim>\<open>data[a:b]\<close> for natural bounds.\<close>

definition slice :: "bytes \<Rightarrow> nat \<Rightarrow> nat \<Rightarrow> bytes" where
  "slice data a b = take (b - a) (drop a data)"

text \<open>\<^verbatim>\<open>b.decode("latin1")\<close> and a literal \<^verbatim>\<open>b"..."\<close>.\<close>

definition latin1 :: "bytes \<Rightarrow> string" where
  "latin1 bs = map (\<lambda>b. char_of (unat b)) bs"

definition ascii_bytes :: "string \<Rightarrow> bytes" where
  "ascii_bytes s = map (\<lambda>c. of_nat (of_char c)) s"

end
