(* ===== verification/Elf.thy ===== *)
theory Elf
  imports Py_Value Bytes "HOL-Library.Product_Lexorder" "HOL-Library.Code_Target_Nat"
begin

unbundle bit_operations_syntax

text \<open>
  \<^verbatim>\<open>fragma/elf.py\<close>: the reader of relocatable ELF objects (\<^verbatim>\<open>parse_relocatable\<close>), the complete-table
  gate of the calibration object (\<^verbatim>\<open>_complete_tables\<close> with its Alpha and MIPS exceptions) and the
  observation of the calibration function (\<^verbatim>\<open>calibration_object\<close>). Field values are natural
  numbers, as the reader only unpacks unsigned fields; a section or symbol index is checked before
  it is used. Error messages keep their text.
\<close>

abbreviation elf_require :: "bool \<Rightarrow> string \<Rightarrow> unit res" where
  "elf_require c m \<equiv> check c (Exn ELFError m)"

section \<open>The object\<close>

record elf_section =
  sh_name :: bytes
  sh_kind :: nat
  sh_flags :: nat
  sh_address :: nat
  sh_offset :: nat
  sh_size :: nat
  sh_link :: nat
  sh_info :: nat
  sh_alignment :: nat
  sh_entry_size :: nat

record elf_symbol =
  st_name :: bytes
  st_value :: nat
  st_size :: nat
  st_info :: nat
  st_other :: nat
  st_section :: nat

record relocatable =
  obj_data :: bytes
  obj_bits :: nat
  obj_little :: bool
  obj_machine :: nat
  obj_header_size :: nat
  obj_section_offset :: nat
  obj_section_size :: nat
  obj_sections :: "elf_section list"
  obj_symbols :: "elf_symbol list"
  obj_symbol_table :: nat

text \<open>\<^verbatim>\<open>Relocatable.section_bytes\<close>\<close>

definition section_bytes :: "relocatable \<Rightarrow> elf_section \<Rightarrow> bytes res" where
  "section_bytes ob s =
     bind_res (elf_require (sh_kind s \<noteq> 8) ''metadata points into a non-file-backed section'') (\<lambda>_.
       Inr (slice (obj_data ob) (sh_offset s) (sh_offset s + sh_size s)))"

section \<open>Reading the tables\<close>

definition machine_fields :: "py \<Rightarrow> (nat \<times> bool) res" where
  "machine_fields model =
     (case (case model of PDict m \<Rightarrow> (case dget m ''machdep'' of PDict d \<Rightarrow> dget d ''checked_fields'' | _ \<Rightarrow> PNone) | _ \<Rightarrow> PNone) of
        PDict f \<Rightarrow>
          (case dget f ''sizeof_ptr'' of
             PInt w \<Rightarrow> (case dget f ''little_endian'' of
                PBool little \<Rightarrow>
                  if w = 4 \<or> w = 8 then Inr (nat w * 8, little)
                  else Inl (Exn ELFError ''fixture object requires checked pointer width and byte order'')
              | _ \<Rightarrow> Inl (Exn ELFError ''fixture object requires checked pointer width and byte order''))
           | _ \<Rightarrow> Inl (Exn ELFError ''fixture object requires checked pointer width and byte order''))
      | _ \<Rightarrow> Inl (Exn ELFError ''fixture object requires checked machine fields''))"

definition header_size :: "nat \<Rightarrow> nat" where "header_size bits = (if bits = 32 then 52 else 64)"
definition row_size :: "nat \<Rightarrow> nat" where "row_size bits = (if bits = 32 then 40 else 64)"
definition symbol_size :: "nat \<Rightarrow> nat" where "symbol_size bits = (if bits = 32 then 16 else 24)"

text \<open>\<open>HHIIIIIHHHHHH\<close> or \<open>HHIQQQIHHHHHH\<close>, and \<open>IIIIIIIIII\<close> or \<open>IIQQQQIIQQ\<close>\<close>

definition header_format :: "nat \<Rightarrow> nat list" where
  "header_format bits = (if bits = 32 then [2, 2, 4, 4, 4, 4, 4, 2, 2, 2, 2, 2, 2]
                         else [2, 2, 4, 8, 8, 8, 4, 2, 2, 2, 2, 2, 2])"

definition row_format :: "nat \<Rightarrow> nat list" where
  "row_format bits = (if bits = 32 then [4, 4, 4, 4, 4, 4, 4, 4, 4, 4] else [4, 4, 8, 8, 8, 8, 4, 4, 8, 8])"

definition symbol_format :: "nat \<Rightarrow> nat list" where
  "symbol_format bits = (if bits = 32 then [4, 4, 4, 1, 1, 2] else [4, 1, 1, 2, 8, 8])"

definition elf_magic :: "nat \<Rightarrow> bool \<Rightarrow> bytes" where
  "elf_magic bits little = [127, 69, 76, 70, if bits = 32 then 1 else 2, if little then 1 else 2, 1]"

text \<open>The fields of a header \<open>hs\<close>, in the order of the format.\<close>

definition header_ok :: "bytes \<Rightarrow> nat \<Rightarrow> nat list \<Rightarrow> bool" where
  "header_ok data bits hs =
     (let kind = hs ! 0; version = hs ! 2; entry = hs ! 3; phoff = hs ! 4; shoff = hs ! 5; ehsize = hs ! 7;
          phentsize = hs ! 8; phnum = hs ! 9; shentsize = hs ! 10; shnum = hs ! 11; shstr = hs ! 12
      in kind = 1 \<and> version = 1 \<and> entry = 0 \<and> ehsize = header_size bits
         \<and> phoff = 0 \<and> phentsize = 0 \<and> phnum = 0 \<and> shentsize = row_size bits
         \<and> 2 \<le> shnum \<and> shnum < 0xff00 \<and> 0 < shstr \<and> shstr < shnum \<and> header_size bits \<le> shoff
         \<and> shoff + shnum * row_size bits \<le> length data)"

text \<open>A section row: name offset, kind, flags, address, offset, size, link, info, alignment, entry size.\<close>

definition row_ok :: "bytes \<Rightarrow> nat \<Rightarrow> nat list \<Rightarrow> bool" where
  "row_ok data shnum row =
     (row ! 4 \<le> length data \<and> (row ! 1 = 8 \<or> row ! 4 + row ! 5 \<le> length data)
      \<and> row ! 6 < shnum \<and> (row ! 8 = 0 \<or> row ! 8 AND (row ! 8 - 1) = 0))"

definition row_bytes :: "bytes \<Rightarrow> nat list \<Rightarrow> bytes res" where
  "row_bytes data row =
     bind_res (elf_require (row ! 1 \<noteq> 8) ''metadata points into a non-file-backed section'') (\<lambda>_.
       Inr (slice data (row ! 4) (row ! 4 + row ! 5)))"

definition elf_string :: "bytes \<Rightarrow> nat \<Rightarrow> bytes res" where
  "elf_string table off =
     bind_res (elf_require (off < length table) ''ELF string offset is out of bounds'') (\<lambda>_.
     bind_res (elf_require (0 \<in> set (drop off table)) ''unterminated ELF string'') (\<lambda>_.
       Inr (takeWhile (\<lambda>b. b \<noteq> 0) (drop off table))))"

definition starts_null :: "bytes \<Rightarrow> bool" where
  "starts_null t = (case t of [] \<Rightarrow> False | b # _ \<Rightarrow> b = 0)"

definition row_section :: "bytes \<Rightarrow> nat list \<Rightarrow> elf_section res" where
  "row_section names row =
     bind_res (elf_string names (row ! 0)) (\<lambda>name. Inr
       \<lparr>sh_name = name, sh_kind = row ! 1, sh_flags = row ! 2, sh_address = row ! 3, sh_offset = row ! 4,
        sh_size = row ! 5, sh_link = row ! 6, sh_info = row ! 7, sh_alignment = row ! 8, sh_entry_size = row ! 9\<rparr>)"

definition read_rows :: "bytes \<Rightarrow> nat \<Rightarrow> bool \<Rightarrow> nat \<Rightarrow> nat \<Rightarrow> nat list list res" where
  "read_rows data bits little shoff shnum =
     bind_res (mapM (\<lambda>i. unpack_from little (row_format bits) data (shoff + i * row_size bits)) [0..<shnum]) (\<lambda>rows.
     bind_res (elf_require (hd rows = replicate 10 0) ''unexpected ELF null section/extended numbering'') (\<lambda>_.
     bind_res (elf_require (list_all (row_ok data shnum) (tl rows)) ''ELF section lies outside its bounded container'') (\<lambda>_.
       Inr rows)))"

definition symbol_of :: "nat \<Rightarrow> bytes \<Rightarrow> nat list \<Rightarrow> elf_symbol res" where
  "symbol_of bits names f =
     bind_res (elf_string names (f ! 0)) (\<lambda>name. Inr
       (if bits = 32
        then \<lparr>st_name = name, st_value = f ! 1, st_size = f ! 2, st_info = f ! 3, st_other = f ! 4, st_section = f ! 5\<rparr>
        else \<lparr>st_name = name, st_value = f ! 4, st_size = f ! 5, st_info = f ! 1, st_other = f ! 2, st_section = f ! 3\<rparr>))"

text \<open>The offsets of the entries of a table, \<^verbatim>\<open>range(offset, offset + size, step)\<close>.\<close>

definition table_offsets :: "nat \<Rightarrow> nat \<Rightarrow> nat \<Rightarrow> nat list" where
  "table_offsets off n step = map (\<lambda>i. off + i * step) [0..<(n + step - 1) div step]"

definition read_symbols :: "bytes \<Rightarrow> nat \<Rightarrow> bool \<Rightarrow> bytes \<Rightarrow> nat \<Rightarrow> nat \<Rightarrow> elf_symbol list res" where
  "read_symbols data bits little names off n =
     mapM (\<lambda>p. bind_res (unpack_from little (symbol_format bits) data p) (symbol_of bits names))
       (table_offsets off n (symbol_size bits))"

definition symbol_table_ok :: "nat \<Rightarrow> nat list list \<Rightarrow> nat list \<Rightarrow> bool" where
  "symbol_table_ok bits rows t =
     (t ! 9 = symbol_size bits \<and> symbol_size bits \<le> t ! 5 \<and> t ! 5 mod symbol_size bits = 0
      \<and> 0 < t ! 6 \<and> t ! 6 < length rows \<and> rows ! (t ! 6) ! 1 = 3)"

definition symbol_tables :: "nat list list \<Rightarrow> nat list" where
  "symbol_tables rows = filter (\<lambda>i. rows ! i ! 1 = 2) [0..<length rows]"

definition read_tables :: "bytes \<Rightarrow> nat \<Rightarrow> bool \<Rightarrow> nat list \<Rightarrow> nat list list \<Rightarrow> relocatable res" where
  "read_tables data bits little hs rows =
     (let name_row = rows ! (hs ! 12) in
      bind_res (elf_require (name_row ! 1 = 3) ''missing ELF section-name string table'') (\<lambda>_.
      bind_res (row_bytes data name_row) (\<lambda>names.
      bind_res (elf_require (starts_null names) ''invalid ELF section-name table'') (\<lambda>_.
      bind_res (mapM (row_section names) rows) (\<lambda>sections.
      bind_res (elf_require (length (symbol_tables rows) = 1) ''missing or ambiguous ELF symbol table'') (\<lambda>_.
      let index = hd (symbol_tables rows); table = rows ! index in
      bind_res (elf_require (symbol_table_ok bits rows table) ''invalid ELF symbol table/link/bounds'') (\<lambda>_.
      bind_res (row_bytes data (rows ! (table ! 6))) (\<lambda>strings.
      bind_res (elf_require (starts_null strings) ''invalid ELF symbol-name table'') (\<lambda>_.
      bind_res (read_symbols data bits little strings (table ! 4) (table ! 5)) (\<lambda>symbols.
      Inr \<lparr>obj_data = data, obj_bits = bits, obj_little = little, obj_machine = hs ! 1,
           obj_header_size = header_size bits, obj_section_offset = hs ! 5, obj_section_size = row_size bits,
           obj_sections = sections, obj_symbols = symbols, obj_symbol_table = index\<rparr>))))))))))"

definition parse_relocatable :: "bytes \<Rightarrow> py \<Rightarrow> relocatable res" where
  "parse_relocatable data model =
     bind_res (machine_fields model) (\<lambda>(bits, little).
     bind_res (elf_require (header_size bits \<le> length data \<and> take 7 data = elf_magic bits little)
       ''truncated or wrong-class/byte-order ELF fixture'') (\<lambda>_.
     bind_res (unpack_from little (header_format bits) data 16) (\<lambda>hs.
     bind_res (elf_require (header_ok data bits hs) ''invalid relocatable ELF header/section bounds'') (\<lambda>_.
     bind_res (read_rows data bits little (hs ! 5) (hs ! 11)) (\<lambda>rows.
       read_tables data bits little hs rows)))))"

section \<open>Architecture metadata\<close>

text \<open>\<open>a & m == m\<close>, \<open>a & m != 0\<close>\<close>

definition has_bits :: "nat \<Rightarrow> nat \<Rightarrow> bool" where
  "has_bits m a = (a AND m = m)"

definition any_bits :: "nat \<Rightarrow> nat \<Rightarrow> bool" where
  "any_bits m a = (a AND m \<noteq> 0)"

definition executable :: "elf_section \<Rightarrow> bool" where
  "executable s = (sh_kind s = 1 \<and> has_bits 6 (sh_flags s) \<and> \<not> any_bits 1 (sh_flags s))"

definition header_flags :: "relocatable \<Rightarrow> nat res" where
  "header_flags ob = bind_res (unpack_from (obj_little ob) [4] (obj_data ob) (if obj_bits ob = 32 then 36 else 48))
     (\<lambda>vs. Inr (hd vs))"

definition alpha_function_metadata :: "relocatable \<Rightarrow> elf_symbol \<Rightarrow> bool res" where
  "alpha_function_metadata ob s =
     (if \<not> (obj_bits ob = 64 \<and> obj_little ob \<and> obj_machine ob = 0x9026) then Inr False
      else bind_res (unpack_from True [4] (obj_data ob) 48) (\<lambda>vs.
        Inr (hd vs = 0 \<and> st_other s \<in> {0x80, 0x88} \<and> st_info s \<in> {0x02, 0x12} \<and> st_name s \<noteq> [] \<and> 0 < st_size s
             \<and> 0 < st_section s \<and> st_section s < length (obj_sections ob)
             \<and> (let sec = obj_sections ob ! st_section s in
                 executable sec \<and> st_value s + st_size s \<le> sh_size sec))))"

definition MIPS_KINDS :: "(bytes \<times> nat) list" where
  "MIPS_KINDS = [(ascii_bytes ''.reginfo'', 0x70000006), (ascii_bytes ''.MIPS.abiflags'', 0x7000002a),
                 (ascii_bytes ''.llvm_addrsig'', 0x6fff4c03)]"

text \<open>Flags, address, size, link, info, alignment and entry size of a section.\<close>

definition section_shape :: "elf_section \<Rightarrow> nat list" where
  "section_shape s = [sh_flags s, sh_address s, sh_size s, sh_link s, sh_info s, sh_alignment s, sh_entry_size s]"

definition mips_section :: "relocatable \<Rightarrow> bytes \<times> nat \<Rightarrow> elf_section res" where
  "mips_section ob nk =
     (case filter (\<lambda>s. sh_name s = fst nk \<or> sh_kind s = snd nk) (obj_sections ob) of
        [s] \<Rightarrow> if sh_name s = fst nk \<and> sh_kind s = snd nk then Inr s
               else Inl (Exn ELFError ''missing, duplicate or mismatched MIPS calibration metadata'')
      | _ \<Rightarrow> Inl (Exn ELFError ''missing, duplicate or mismatched MIPS calibration metadata''))"

text \<open>
  \<^verbatim>\<open>_mips_calibration_metadata\<close>: whether the exact MIPS metadata family is present. The returned
  description is a constant of the code.
\<close>

definition mips_calibration_metadata :: "relocatable \<Rightarrow> bool res" where
  "mips_calibration_metadata ob =
     (let marked = filter (\<lambda>s. sh_name s \<in> fst ` set MIPS_KINDS \<or> sh_kind s \<in> snd ` set MIPS_KINDS) (obj_sections ob) in
      bind_res (if obj_bits ob = 32 \<and> obj_little ob \<and> obj_machine ob = 8
                then bind_res (header_flags ob) (\<lambda>f. Inr (f = 0x70001001)) else Inr False) (\<lambda>exact_route.
      if \<not> exact_route
      then bind_res (elf_require (marked = []) ''MIPS calibration metadata outside exact MIPS32el/O32 route'') (\<lambda>_. Inr False)
      else
        bind_res (mapM (mips_section ob) MIPS_KINDS) (\<lambda>selected.
        bind_res (elf_require (length marked = length MIPS_KINDS) ''unexpected extra MIPS calibration metadata'') (\<lambda>_.
        bind_res (elf_require (section_shape (selected ! 0) = [2, 0, 24, 0, 0, 4, 24]) ''unexpected MIPS reginfo section shape'') (\<lambda>_.
        bind_res (section_bytes ob (selected ! 0)) (\<lambda>reg.
        bind_res (unpack_all True [4, 4, 4, 4, 4, 4] reg) (\<lambda>registers.
        bind_res (elf_require (registers = [0x80000001, 0, 0, 0, 0, 0]) ''unexpected MIPS reginfo contents'') (\<lambda>_.
        bind_res (elf_require (section_shape (selected ! 1) = [2, 0, 24, 0, 0, 8, 24]) ''unexpected MIPS ABI-flags section shape'') (\<lambda>_.
        bind_res (section_bytes ob (selected ! 1)) (\<lambda>abi.
        bind_res (unpack_all True [2, 1, 1, 1, 1, 1, 1, 4, 4, 4, 4] abi) (\<lambda>fs.
        bind_res (elf_require (fs = [0, 32, 2, 1, 0, 0, 3, 0, 0, 1, 0]) ''unexpected MIPS ABI-flags contents'') (\<lambda>_.
        bind_res (elf_require (section_shape (selected ! 2) = [0x80000000, 0, 0, obj_symbol_table ob, 0, 1, 0])
          ''unexpected LLVM address-significance section shape'') (\<lambda>_. Inr True)))))))))))))"

section \<open>The complete-table gate\<close>

definition section_kind_ok :: "relocatable \<Rightarrow> bool \<Rightarrow> elf_section \<Rightarrow> bool" where
  "section_kind_ok ob mips s =
     (sh_kind s \<in> {1, 2, 3, 4, 7, 8, 9} \<or> (obj_machine ob = 40 \<and> sh_kind s \<in> {0x70000001, 0x70000003})
      \<or> (mips \<and> sh_kind s \<in> {0x6fff4c03, 0x70000006, 0x7000002a}))"

definition exidx_ok :: "relocatable \<Rightarrow> elf_section \<Rightarrow> bool" where
  "exidx_ok ob s =
     (sh_name s = ascii_bytes ''.ARM.exidx'' \<and> sh_flags s = 0x82 \<and> sh_info s = 0 \<and> 0 < sh_link s
      \<and> sh_link s < length (obj_sections ob) \<and> sh_kind (obj_sections ob ! sh_link s) = 1
      \<and> has_bits 6 (sh_flags (obj_sections ob ! sh_link s)))"

text \<open>The checks of one section; the result is the byte range it occupies, if any.\<close>

definition check_section :: "relocatable \<Rightarrow> bool \<Rightarrow> elf_section \<Rightarrow> (nat \<times> nat) list res" where
  "check_section ob mips s =
     bind_res (elf_require (section_kind_ok ob mips s) ''unsupported calibration ELF section kind'') (\<lambda>_.
     bind_res (elf_require (sh_address s = 0 \<and> \<not> any_bits (0x200 OR 0x400 OR 0x800) (sh_flags s))
       ''unsupported calibration ELF section address/group/TLS/compression'') (\<lambda>_.
     bind_res (elf_require (sh_alignment s = 0 \<or> sh_offset s mod sh_alignment s = 0) ''misaligned calibration ELF section'') (\<lambda>_.
     bind_res (if sh_kind s = 3
               then bind_res (section_bytes ob s) (\<lambda>c.
                      elf_require (c \<noteq> [] \<and> hd c = 0 \<and> last c = 0) ''invalid complete ELF string table'')
               else Inr ()) (\<lambda>_.
     bind_res (elf_require (sh_kind s \<in> {1, 3, 7, 8, 0x70000003} \<longrightarrow> sh_link s = 0 \<and> sh_info s = 0)
       ''unexpected calibration ELF section link/info'') (\<lambda>_.
     bind_res (elf_require (sh_kind s = 0x70000001 \<longrightarrow> exidx_ok ob s) ''unexpected ARM exception-index metadata'') (\<lambda>_.
       Inr (if sh_kind s \<noteq> 8 \<and> sh_size s \<noteq> 0 then [(sh_offset s, sh_offset s + sh_size s)] else [])))))))"

fun ranges_ordered :: "(nat \<times> nat) list \<Rightarrow> bool" where
  "ranges_ordered (l # r # rest) = (snd l \<le> fst r \<and> ranges_ordered (r # rest))"
| "ranges_ordered _ = True"

definition header_ranges :: "relocatable \<Rightarrow> (nat \<times> nat) list" where
  "header_ranges ob = [(0, obj_header_size ob),
     (obj_section_offset ob, obj_section_offset ob + length (obj_sections ob) * obj_section_size ob)]"

definition check_sections :: "relocatable \<Rightarrow> bool \<Rightarrow> unit res" where
  "check_sections ob mips =
     bind_res (mapM (check_section ob mips) (tl (obj_sections ob))) (\<lambda>ranges.
       elf_require (ranges_ordered (sort (header_ranges ob @ concat ranges))) ''overlapping ELF headers/sections'')"

text \<open>Binding and type of a symbol, \<open>info >> 4\<close> and \<open>info & 15\<close>.\<close>

definition symbol_binding :: "elf_symbol \<Rightarrow> nat" where "symbol_binding s = st_info s div 16"
definition symbol_kind :: "elf_symbol \<Rightarrow> nat" where "symbol_kind s = st_info s mod 16"

definition check_symbol :: "relocatable \<Rightarrow> nat \<Rightarrow> nat \<times> elf_symbol \<Rightarrow> unit res" where
  "check_symbol ob first_global entry =
     (let s = snd entry; n = length (obj_sections ob) in
      bind_res (if st_other s < 4 then Inr True else alpha_function_metadata ob s) (\<lambda>other_ok.
      bind_res (elf_require (symbol_binding s \<in> {0, 1, 2} \<and> symbol_kind s < 7 \<and> other_ok
           \<and> ((symbol_binding s = 0) = (fst entry < first_global))) ''invalid ELF symbol type/binding/order'') (\<lambda>_.
      bind_res (if st_section s = 0
          then elf_require (st_value s = 0 \<and> st_size s = 0) ''undefined ELF symbol has a value/extent''
          else if st_section s = 0xfff1
          then elf_require (symbol_kind s = 4 \<and> symbol_binding s = 0 \<and> st_value s = 0 \<and> st_size s = 0) ''unsupported absolute ELF symbol''
          else bind_res (elf_require (st_section s < n) ''unsupported/out-of-range ELF symbol section'') (\<lambda>_.
               elf_require (st_value s + st_size s \<le> sh_size (obj_sections ob ! st_section s)) ''ELF symbol extent exceeds its section'')) (\<lambda>_.
      bind_res (elf_require (symbol_kind s = 3 \<longrightarrow> symbol_binding s = 0 \<and> 0 < st_section s \<and> st_section s < n
           \<and> st_value s = 0 \<and> st_size s = 0) ''invalid ELF section symbol'') (\<lambda>_.
      elf_require (symbol_kind s = 4 \<longrightarrow> st_section s = 0xfff1) ''invalid ELF file symbol'')))))"

definition check_symbols :: "relocatable \<Rightarrow> unit res" where
  "check_symbols ob =
     (let first_global = sh_info (obj_sections ob ! obj_symbol_table ob) in
      bind_res (elf_require (hd (obj_symbols ob) = \<lparr>st_name = [], st_value = 0, st_size = 0, st_info = 0, st_other = 0, st_section = 0\<rparr>)
        ''invalid ELF null symbol'') (\<lambda>_.
      bind_res (elf_require (0 < first_global \<and> first_global \<le> length (obj_symbols ob)) ''invalid ELF local/global symbol boundary'') (\<lambda>_.
        allM (check_symbol ob first_global) (enumerate 0 (obj_symbols ob)))))"

record relocation =
  r_table :: nat
  r_target :: nat
  r_address :: nat
  r_symbol :: nat
  r_kind :: nat

definition relocation_size :: "relocatable \<Rightarrow> elf_section \<Rightarrow> nat" where
  "relocation_size ob s =
     (if obj_bits ob = 32 then (if sh_kind s = 4 then 12 else 8) else (if sh_kind s = 4 then 24 else 16))"

definition read_relocation :: "relocatable \<Rightarrow> nat \<Rightarrow> elf_section \<Rightarrow> nat \<Rightarrow> relocation res" where
  "read_relocation ob index s off =
     bind_res (unpack_from (obj_little ob) (if obj_bits ob = 32 then [4, 4] else [8, 8]) (obj_data ob) off) (\<lambda>vs.
     let address = vs ! 0; info = vs ! 1;
         symbol = info div (if obj_bits ob = 32 then 2 ^ 8 else 2 ^ 32);
         kind = info mod (if obj_bits ob = 32 then 2 ^ 8 else 2 ^ 32) in
     bind_res (elf_require (symbol < length (obj_symbols ob) \<and> address < sh_size (obj_sections ob ! sh_info s))
       ''ELF relocation symbol/offset is out of bounds'') (\<lambda>_.
       Inr \<lparr>r_table = index, r_target = sh_info s, r_address = address, r_symbol = symbol, r_kind = kind\<rparr>))"

definition relocation_table :: "relocatable \<Rightarrow> nat \<times> elf_section \<Rightarrow> relocation list res" where
  "relocation_table ob entry =
     (let s = snd entry; n = relocation_size ob s in
      if sh_kind s \<notin> {4, 9} then Inr []
      else
        bind_res (elf_require (sh_link s = obj_symbol_table ob \<and> 0 < sh_info s \<and> sh_info s < length (obj_sections ob)
            \<and> sh_entry_size s = n \<and> sh_size s mod n = 0) ''invalid ELF relocation table/link/entry bounds'') (\<lambda>_.
        bind_res (elf_require (\<not> any_bits 4 (sh_flags (obj_sections ob ! sh_info s)))
          ''calibration executable section has relocations'') (\<lambda>_.
          mapM (read_relocation ob (fst entry) s) (table_offsets (sh_offset s) (sh_size s) n))))"

definition complete_tables :: "relocatable \<Rightarrow> (relocation list \<times> bool) res" where
  "complete_tables ob =
     bind_res (mips_calibration_metadata ob) (\<lambda>mips.
     bind_res (check_sections ob mips) (\<lambda>_.
     bind_res (check_symbols ob) (\<lambda>_.
     bind_res (mapM (relocation_table ob) (enumerate 0 (obj_sections ob))) (\<lambda>tables.
       Inr (concat tables, mips)))))"

section \<open>The calibration object\<close>

definition CALIBRATION_NAME :: bytes where
  "CALIBRATION_NAME = ascii_bytes ''fragma_common24_compiler_calibration''"

definition byte_order_name :: "relocatable \<Rightarrow> string" where
  "byte_order_name ob = (if obj_little ob then ''little'' else ''big'')"

text \<open>The fixture observation must describe the same container.\<close>

definition fixture_agrees :: "relocatable \<Rightarrow> py \<Rightarrow> bool" where
  "fixture_agrees ob fixture = (case fixture of
     PDict f \<Rightarrow>
       dget f ''class'' = PInt (int (obj_bits ob)) \<and> dget f ''type'' = PStr ''relocatable''
       \<and> dget f ''byte_order'' = PStr (byte_order_name ob)
       \<and> dget f ''machine_observed'' = PInt (int (obj_machine ob)) \<and> 0 < obj_machine ob \<and> obj_machine ob \<le> 0xffff
   | _ \<Rightarrow> False)"

text \<open>The one undefined symbol a calibration object may have, and its one metadata use.\<close>

definition unwind_reference :: "relocatable \<Rightarrow> elf_symbol \<Rightarrow> relocation \<Rightarrow> bool" where
  "unwind_reference ob symbol r =
     (sh_kind (obj_sections ob ! r_table r) = 9 \<and> sh_kind (obj_sections ob ! r_target r) = 0x70000001
      \<and> sh_link (obj_sections ob ! r_target r) = st_section symbol \<and> sh_size (obj_sections ob ! r_target r) = 8
      \<and> r_address r = 0 \<and> r_kind r = 0)"

definition undefined_step ::
  "relocatable \<Rightarrow> elf_symbol \<Rightarrow> relocation list \<Rightarrow> nat \<Rightarrow> nat \<times> elf_symbol \<Rightarrow> nat res" where
  "undefined_step ob symbol relocations seen entry =
     (let item = snd entry; references = filter (\<lambda>r. r_symbol r = fst entry) relocations in
      if st_section item \<noteq> 0 then Inr seen
      else
        bind_res (elf_require (obj_bits ob = 32 \<and> obj_machine ob = 40 \<and> st_name item = ascii_bytes ''__aeabi_unwind_cpp_pr0''
            \<and> st_info item = 0x10 \<and> st_other item = 0 \<and> length references = 1
            \<and> list_all (unwind_reference ob symbol) references)
          ''unexpected undefined calibration symbol or non-metadata use'') (\<lambda>_.
        bind_res (elf_require (seen = 0) ''duplicate ARM unwind metadata symbol'') (\<lambda>_. Inr (seen + 1))))"

record observation =
  ob_class :: nat
  ob_little :: bool
  ob_machine :: nat
  ob_sections :: nat
  ob_symbols :: nat
  ob_relocations :: nat
  ob_section_name :: string
  ob_section_index :: nat
  ob_section_flags :: nat
  ob_offset :: nat
  ob_size :: nat
  ob_content :: bytes \<comment> \<open>the code reports its SHA-256\<close>
  ob_undefined :: nat
  ob_alpha :: "(string \<times> nat \<times> bool \<times> nat) list" \<comment> \<open>name, other, local, section index\<close>
  ob_mips :: bool

definition calibration_symbol :: "relocatable \<Rightarrow> elf_symbol res" where
  "calibration_symbol ob =
     (case filter (\<lambda>s. st_name s = CALIBRATION_NAME) (obj_symbols ob) of
        [s] \<Rightarrow>
          bind_res (if st_other s = 0 then Inr True else alpha_function_metadata ob s) (\<lambda>other_ok.
          bind_res (elf_require (st_info s = 0x12 \<and> other_ok \<and> 0 < st_size s \<and> 0 < st_section s
              \<and> st_section s < length (obj_sections ob)) ''calibration must be a global defined nonempty STT_FUNC'') (\<lambda>_.
          bind_res (elf_require (executable (obj_sections ob ! st_section s))
              ''calibration definition lacks allocated executable file-backed storage'') (\<lambda>_. Inr s)))
      | _ \<Rightarrow> Inl (Exn ELFError ''missing or duplicate calibration definition''))"

definition alpha_rows :: "relocatable \<Rightarrow> (string \<times> nat \<times> bool \<times> nat) list res" where
  "alpha_rows ob =
     bind_res (mapM (alpha_function_metadata ob) (obj_symbols ob)) (\<lambda>flags.
       Inr (map (\<lambda>(s, b). (latin1 (st_name s), st_other s, symbol_binding s = 0, st_section s))
              (filter snd (zip (obj_symbols ob) flags))))"

definition calibration_object :: "bytes \<Rightarrow> py \<Rightarrow> py \<Rightarrow> observation res" where
  "calibration_object data model fixture =
     bind_res (parse_relocatable data model) (\<lambda>ob.
     bind_res (elf_require (fixture_agrees ob fixture)
       ''positive object differs from genuine fixture class/byte-order/machine'') (\<lambda>_.
     bind_res (complete_tables ob) (\<lambda>(relocations, mips).
     bind_res (calibration_symbol ob) (\<lambda>symbol.
     bind_res (foldM (undefined_step ob symbol relocations) 0 (tl (enumerate 0 (obj_symbols ob)))) (\<lambda>undefs.
     bind_res (section_bytes ob (obj_sections ob ! st_section symbol)) (\<lambda>code.
     bind_res (alpha_rows ob) (\<lambda>alpha.
     let sec = obj_sections ob ! st_section symbol in
     Inr \<lparr>ob_class = obj_bits ob, ob_little = obj_little ob, ob_machine = obj_machine ob,
          ob_sections = length (obj_sections ob), ob_symbols = length (obj_symbols ob),
          ob_relocations = length relocations, ob_section_name = latin1 (sh_name sec),
          ob_section_index = st_section symbol, ob_section_flags = sh_flags sec, ob_offset = st_value symbol,
          ob_size = st_size symbol, ob_content = slice code (st_value symbol) (st_value symbol + st_size symbol),
          ob_undefined = undefs, ob_alpha = alpha, ob_mips = mips\<rparr>)))))))"

section \<open>Every table lies inside the file\<close>

lemma elf_string_no_null: "elf_string t off = Inr s \<Longrightarrow> 0 \<notin> set s"
  by (auto simp: elf_string_def res_simps dest: set_takeWhileD)

lemma row_section_Inr:
  "row_section names row = Inr s \<Longrightarrow>
     sh_kind s = row ! 1 \<and> sh_offset s = row ! 4 \<and> sh_size s = row ! 5 \<and> sh_link s = row ! 6 \<and> 0 \<notin> set (sh_name s)"
  by (auto simp: row_section_def res_simps dest: elf_string_no_null)

lemma symbol_of_Inr:
  assumes "symbol_of bits names f = Inr s"
  shows "0 \<notin> set (st_name s)"
proof -
  obtain name where "elf_string names (f ! 0) = Inr name" "st_name s = name"
    using assms by (cases "bits = 32") (auto simp: symbol_of_def res_simps)
  then show ?thesis using elf_string_no_null by blast
qed

lemma table_offsets_length:
  assumes "0 < step" and "step dvd n"
  shows "length (table_offsets off n step) = n div step"
proof -
  obtain k where k: "n = step * k" using assms(2) by (elim dvdE)
  have eq: "n + step - 1 = step * k + (step - 1)" using assms(1) k by simp
  have "length (table_offsets off n step) = (n + step - 1) div step" by (simp add: table_offsets_def)
  also have "\<dots> = k" unfolding eq by (rule div_nat_eqI) (use assms(1) in auto)
  also have "k = n div step" using assms(1) k by simp
  finally show ?thesis .
qed

lemma symbol_size_pos [simp]: "0 < symbol_size bits"
  by (simp add: symbol_size_def)

lemma read_rows_Inr:
  assumes "read_rows data bits little shoff shnum = Inr rows" and "2 \<le> shnum"
  shows "length rows = shnum \<and> (\<forall>row\<in>set rows. row_ok data shnum row)"
proof -
  have r: "length rows = shnum" "hd rows = replicate 10 0" "list_all (row_ok data shnum) (tl rows)"
    using assms(1) by (auto simp: read_rows_def res_simps dest: mapM_length)
  then obtain row0 rest where rows: "rows = row0 # rest" using assms(2) by (cases rows) auto
  have "row_ok data shnum (replicate 10 0)" using assms(2) by (simp add: row_ok_def numeral_eq_Suc)
  with r rows show ?thesis by (auto simp: list_all_iff)
qed

lemma symbol_tables_hd:
  "length (symbol_tables rows) = 1 \<Longrightarrow> hd (symbol_tables rows) < length rows \<and> rows ! hd (symbol_tables rows) ! 1 = 2"
proof -
  assume "length (symbol_tables rows) = 1"
  then have "hd (symbol_tables rows) \<in> set (symbol_tables rows)" by (cases "symbol_tables rows") auto
  then show ?thesis by (auto simp: symbol_tables_def)
qed

definition section_inside :: "bytes \<Rightarrow> elf_section \<Rightarrow> bool" where
  "section_inside data s = (sh_kind s = 8 \<or> sh_offset s + sh_size s \<le> length data)"

text \<open>
  C37. A parsed object stays inside its file: its header and section table end before the data does,
  every section that is stored in the file lies inside it, links name existing sections, the symbol
  table has kind 2 and exactly as many entries as its size holds (at least one), and no name of a
  section or symbol contains a null byte. Slicing with the parsed offsets never clamps.
\<close>

theorem parse_relocatable_bounds:
  assumes "parse_relocatable data model = Inr ob"
  shows "obj_data ob = data \<and> obj_bits ob \<in> {32, 64} \<and> 2 \<le> length (obj_sections ob)
    \<and> obj_section_offset ob + length (obj_sections ob) * obj_section_size ob \<le> length data
    \<and> obj_header_size ob \<le> obj_section_offset ob
    \<and> (\<forall>s\<in>set (obj_sections ob). section_inside data s \<and> sh_link s < length (obj_sections ob) \<and> 0 \<notin> set (sh_name s))
    \<and> obj_symbol_table ob < length (obj_sections ob) \<and> sh_kind (obj_sections ob ! obj_symbol_table ob) = 2
    \<and> length (obj_symbols ob) * symbol_size (obj_bits ob) = sh_size (obj_sections ob ! obj_symbol_table ob)
    \<and> obj_symbols ob \<noteq> [] \<and> (\<forall>s\<in>set (obj_symbols ob). 0 \<notin> set (st_name s))"
proof -
  obtain bits little hs rows where
    p: "machine_fields model = Inr (bits, little)" "header_ok data bits hs"
      "read_rows data bits little (hs ! 5) (hs ! 11) = Inr rows" "read_tables data bits little hs rows = Inr ob"
    using assms by (auto simp: parse_relocatable_def res_simps)
  have bits: "bits \<in> {32, 64}" using p(1) by (auto simp: machine_fields_def res_simps)
  have shnum: "2 \<le> hs ! 11" using p(2) by (simp add: header_ok_def Let_def)
  note rows = read_rows_Inr [OF p(3) shnum]
  let ?t = "hd (symbol_tables rows)"
  from p(4) obtain names sections strings symbols where
    t: "mapM (row_section names) rows = Inr sections" "length (symbol_tables rows) = 1"
      "symbol_table_ok bits rows (rows ! ?t)"
      "read_symbols data bits little strings (rows ! ?t ! 4) (rows ! ?t ! 5) = Inr symbols"
    and ob: "ob = \<lparr>obj_data = data, obj_bits = bits, obj_little = little, obj_machine = hs ! 1,
           obj_header_size = header_size bits, obj_section_offset = hs ! 5, obj_section_size = row_size bits,
           obj_sections = sections, obj_symbols = symbols, obj_symbol_table = ?t\<rparr>"
    by (auto simp: read_tables_def Let_def res_simps)
  note tab = symbol_tables_hd [OF t(2)]
  have len: "length sections = length rows" using mapM_length [OF t(1)] by simp
  have sec: "row_section names (rows ! i) = Inr (sections ! i)" if "i < length rows" for i
    by (rule mapM_nth [OF t(1) that])
  have inside: "section_inside data s \<and> sh_link s < length sections \<and> 0 \<notin> set (sh_name s)" if "s \<in> set sections" for s
  proof -
    from that len obtain i where i: "i < length rows" "s = sections ! i" by (auto simp: in_set_conv_nth)
    have "row_ok data (hs ! 11) (rows ! i)" using rows i(1) by simp
    with row_section_Inr [OF sec [OF i(1)]] rows len i(2) show ?thesis
      by (auto simp: section_inside_def row_ok_def)
  qed
  have size: "symbol_size bits \<le> rows ! ?t ! 5" "symbol_size bits dvd rows ! ?t ! 5"
    using t(3) by (auto simp: symbol_table_ok_def dvd_eq_mod_eq_0)
  have "length symbols = rows ! ?t ! 5 div symbol_size bits"
    using mapM_length [OF t(4) [unfolded read_symbols_def]] size(2) by (simp add: table_offsets_length)
  then have syms: "length symbols * symbol_size bits = rows ! ?t ! 5" "symbols \<noteq> []"
    using size div_greater_zero_iff [of "rows ! ?t ! 5" "symbol_size bits"] by auto
  have null: "0 \<notin> set (st_name s)" if "s \<in> set symbols" for s
    using mapM_set [OF t(4) [unfolded read_symbols_def] that] symbol_of_Inr by (auto simp: res_simps)
  have head: "hs ! 5 + hs ! 11 * row_size bits \<le> length data" "header_size bits \<le> hs ! 5"
    using p(2) by (auto simp: header_ok_def Let_def)
  from tab row_section_Inr [OF sec] have "sh_kind (sections ! ?t) = 2" "sh_size (sections ! ?t) = rows ! ?t ! 5" by auto
  with bits shnum rows tab len inside syms null head show ?thesis by (simp add: ob)
qed

section \<open>Accepted tables do not overlap\<close>

definition apart :: "nat \<times> nat \<Rightarrow> nat \<times> nat \<Rightarrow> bool" where
  "apart a b = (snd a \<le> fst b \<or> snd b \<le> fst a)"

lemma apart_sym: "apart a b = apart b a"
  by (auto simp: apart_def)

lemma ranges_ordered_wrt:
  "ranges_ordered rs \<Longrightarrow> \<forall>r\<in>set rs. fst r \<le> snd r \<Longrightarrow> sorted_wrt (\<lambda>a b. snd a \<le> fst b) rs"
proof (induction rs rule: ranges_ordered.induct)
  case (1 l r rest)
  then have s: "sorted_wrt (\<lambda>a b. snd a \<le> fst b) (r # rest)" and lr: "snd l \<le> fst r" "fst r \<le> snd r" by auto
  from s have "\<forall>x\<in>set rest. snd r \<le> fst x" by simp
  with lr have "\<forall>x\<in>set rest. snd l \<le> fst x" by auto
  with s lr show ?case by simp
qed auto

lemma apart_insort: "sorted_wrt apart (insort x xs) \<longleftrightarrow> sorted_wrt apart (x # xs)"
  by (induction xs) (auto simp: set_insort_key apart_sym)

lemma apart_sort: "sorted_wrt apart (sort xs) = sorted_wrt apart xs"
  by (induction xs) (auto simp: apart_insort)

lemma ranges_apart:
  assumes "ranges_ordered (sort rs)" and "\<forall>r\<in>set rs. fst r \<le> snd r"
  shows "sorted_wrt apart rs"
proof -
  have "sorted_wrt (\<lambda>a b. snd a \<le> fst b) (sort rs)" using ranges_ordered_wrt [OF assms(1)] assms(2) by simp
  then have "sorted_wrt apart (sort rs)" by (rule sorted_wrt_mono_rel [rotated]) (auto simp: apart_def)
  then show ?thesis by (simp add: apart_sort)
qed

lemma sorted_wrt_concat:
  "sorted_wrt P (concat xss) \<Longrightarrow> i < j \<Longrightarrow> j < length xss \<Longrightarrow> a \<in> set (xss ! i) \<Longrightarrow> b \<in> set (xss ! j) \<Longrightarrow> P a b"
proof (induction xss arbitrary: i j)
  case (Cons xs xss)
  show ?case
  proof (cases i)
    case 0
    with Cons.prems obtain k where "j = Suc k" "k < length xss" by (cases j) auto
    with Cons.prems(1,4,5) 0 nth_mem [of k xss] show ?thesis by (auto simp: sorted_wrt_append simp del: nth_mem)
  next
    case (Suc k)
    with Cons.prems Cons.IH [of k "j - 1"] show ?thesis by (cases j) (auto simp: sorted_wrt_append)
  qed
qed simp

definition section_range :: "elf_section \<Rightarrow> nat \<times> nat" where
  "section_range s = (sh_offset s, sh_offset s + sh_size s)"

definition stored :: "elf_section \<Rightarrow> bool" where
  "stored s = (sh_kind s \<noteq> 8 \<and> sh_size s \<noteq> 0)"

lemma check_section_range: "check_section ob mips s = Inr rs \<Longrightarrow> rs = (if stored s then [section_range s] else [])"
  by (auto simp: check_section_def stored_def section_range_def res_simps)

lemma check_sections_apart:
  assumes "check_sections ob mips = Inr u" and "1 \<le> i" and "i < j" and "j < length (obj_sections ob)"
    and "stored (obj_sections ob ! i)" and "stored (obj_sections ob ! j)"
  shows "apart (section_range (obj_sections ob ! i)) (section_range (obj_sections ob ! j))
    \<and> (\<forall>r\<in>set (header_ranges ob). apart r (section_range (obj_sections ob ! i)))"
proof -
  obtain ranges where ranges: "mapM (check_section ob mips) (tl (obj_sections ob)) = Inr ranges"
      "ranges_ordered (sort (header_ranges ob @ concat ranges))"
    using assms(1) by (auto simp: check_sections_def res_simps)
  have len: "length ranges = length (obj_sections ob) - 1" using mapM_length [OF ranges(1)] by simp
  have nth: "ranges ! k = (if stored (obj_sections ob ! Suc k) then [section_range (obj_sections ob ! Suc k)] else [])"
    if "Suc k < length (obj_sections ob)" for k
    using check_section_range [OF mapM_nth [OF ranges(1), of k]] that by (simp add: nth_tl)
  have "\<forall>r\<in>set (concat ranges). fst r \<le> snd r"
  proof
    fix r assume "r \<in> set (concat ranges)"
    then obtain q where "q \<in> set ranges" "r \<in> set q" by auto
    then obtain k where "k < length ranges" "r \<in> set (ranges ! k)" by (metis in_set_conv_nth)
    then show "fst r \<le> snd r" using nth [of k] len by (auto simp: section_range_def split: if_splits)
  qed
  then have apart: "sorted_wrt apart (header_ranges ob @ concat ranges)"
    by (intro ranges_apart [OF ranges(2)]) (auto simp: header_ranges_def)
  obtain i' j' where ij: "i = Suc i'" "j = Suc j'" "i' < j'" using assms(2,3) by (cases i; cases j) auto
  have mem: "section_range (obj_sections ob ! i) \<in> set (ranges ! i')" "section_range (obj_sections ob ! j) \<in> set (ranges ! j')"
    using nth [of i'] nth [of j'] assms ij by auto
  from apart have c: "sorted_wrt apart (concat ranges)" "\<forall>r\<in>set (header_ranges ob). \<forall>x\<in>set (concat ranges). apart r x"
    by (auto simp: sorted_wrt_append)
  have "apart (section_range (obj_sections ob ! i)) (section_range (obj_sections ob ! j))"
    by (rule sorted_wrt_concat [OF c(1) ij(3) _ mem]) (use assms(4) ij len in auto)
  moreover have "section_range (obj_sections ob ! i) \<in> set (concat ranges)"
    using mem(1) ij assms(4) len nth_mem [of i' ranges] by (auto simp del: nth_mem)
  ultimately show ?thesis using c(2) by blast
qed

section \<open>The observed function is final\<close>

lemma has_bits_6_4: "has_bits 6 f \<Longrightarrow> any_bits 4 f"
proof -
  assume "has_bits 6 f"
  then have "(f AND 6) AND 4 = 6 AND (4::nat)" by (simp add: has_bits_def)
  then have "f AND 4 = 4" by (simp add: and.assoc)
  then show ?thesis by (simp add: any_bits_def)
qed

lemma read_relocation_Inr:
  "read_relocation ob i s off = Inr r \<Longrightarrow>
     r_symbol r < length (obj_symbols ob) \<and> r_target r = sh_info s
     \<and> r_address r < sh_size (obj_sections ob ! sh_info s)"
  by (auto simp: read_relocation_def Let_def res_simps)

lemma complete_tables_relocations:
  assumes "complete_tables ob = Inr (rels, mips)" and "r \<in> set rels"
  shows "r_symbol r < length (obj_symbols ob) \<and> r_target r < length (obj_sections ob)
     \<and> r_address r < sh_size (obj_sections ob ! r_target r) \<and> \<not> any_bits 4 (sh_flags (obj_sections ob ! r_target r))"
proof -
  obtain tables where tables: "mapM (relocation_table ob) (enumerate 0 (obj_sections ob)) = Inr tables" "rels = concat tables"
    using assms(1) by (auto simp: complete_tables_def res_simps)
  with assms(2) obtain t e where t: "relocation_table ob e = Inr t" "r \<in> set t"
    using mapM_set [OF tables(1)] by fastforce
  then obtain p where p: "read_relocation ob (fst e) (snd e) p = Inr r"
      "sh_info (snd e) < length (obj_sections ob)" "\<not> any_bits 4 (sh_flags (obj_sections ob ! sh_info (snd e)))"
    by (auto simp: relocation_table_def Let_def res_simps split: if_splits dest: mapM_set)
  with read_relocation_Inr [OF p(1)] show ?thesis by simp
qed

lemma check_symbol_extent:
  assumes "check_symbol ob k e = Inr ()" and "0 < st_section (snd e)" and "st_section (snd e) < length (obj_sections ob)"
    and "st_section (snd e) \<noteq> 0xfff1"
  shows "st_value (snd e) + st_size (snd e) \<le> sh_size (obj_sections ob ! st_section (snd e))"
  using assms by (auto simp: check_symbol_def Let_def res_simps split: if_splits)

text \<open>
  C36. The bytes \<^verbatim>\<open>calibration_object\<close> reports are the machine code the compiler emitted for the one
  calibration function: they are a nonempty, full-length piece of the file inside an allocated
  executable section, exactly one symbol has the calibration name, and no relocation entry of the
  object targets that section, so no linker will change them.
\<close>

theorem calibration_bytes_final:
  assumes "calibration_object data model fixture = Inr obs"
  shows "\<exists>ob symbol rels mips. parse_relocatable data model = Inr ob \<and> complete_tables ob = Inr (rels, mips)
    \<and> filter (\<lambda>s. st_name s = CALIBRATION_NAME) (obj_symbols ob) = [symbol]
    \<and> (let sec = obj_sections ob ! st_section symbol; start = sh_offset sec + st_value symbol in
         executable sec \<and> ob_content obs = slice data start (start + st_size symbol)
         \<and> length (ob_content obs) = ob_size obs \<and> 0 < ob_size obs \<and> ob_size obs = st_size symbol
         \<and> (\<forall>r\<in>set rels. r_target r \<noteq> st_section symbol))"
proof -
  from assms obtain ob rels mips symbol code where
    c: "parse_relocatable data model = Inr ob" "complete_tables ob = Inr (rels, mips)" "calibration_symbol ob = Inr symbol"
      "section_bytes ob (obj_sections ob ! st_section symbol) = Inr code"
    and obs: "ob_content obs = slice code (st_value symbol) (st_value symbol + st_size symbol)" "ob_size obs = st_size symbol"
    by (auto simp: calibration_object_def Let_def res_simps)
  let ?sec = "obj_sections ob ! st_section symbol"
  have sym: "filter (\<lambda>s. st_name s = CALIBRATION_NAME) (obj_symbols ob) = [symbol]" "st_info symbol = 0x12"
      "0 < st_size symbol" "0 < st_section symbol" "st_section symbol < length (obj_sections ob)" "executable ?sec"
    using c(3) by (auto simp: calibration_symbol_def res_simps split: if_splits)
  note b = parse_relocatable_bounds [OF c(1)]
  have code: "code = slice data (sh_offset ?sec) (sh_offset ?sec + sh_size ?sec)" "sh_kind ?sec \<noteq> 8"
    using c(4) b by (auto simp: section_bytes_def res_simps)
  have inside: "sh_offset ?sec + sh_size ?sec \<le> length data"
    using b sym(5) code(2) by (auto simp: section_inside_def)
  have "symbol \<in> set (obj_symbols ob)" using sym(1) by (auto simp: filter_eq_Cons_iff)
  then obtain i where i: "i < length (obj_symbols ob)" "symbol = obj_symbols ob ! i" by (auto simp: in_set_conv_nth)
  from c(2) have "check_symbols ob = Inr ()" by (auto simp: complete_tables_def res_simps)
  then have "check_symbol ob (sh_info (obj_sections ob ! obj_symbol_table ob)) (i, symbol) = Inr ()"
    using i by (auto simp: check_symbols_def Let_def res_simps in_set_enumerate_eq)
  moreover have "st_section symbol \<noteq> 0xfff1"
  proof
    assume "st_section symbol = 0xfff1"
    with calculation have "symbol_kind symbol = 4" by (auto simp: check_symbol_def Let_def res_simps)
    with sym(2) show False by (simp add: symbol_kind_def)
  qed
  ultimately have extent: "st_value symbol + st_size symbol \<le> sh_size ?sec"
    using check_symbol_extent [of ob _ "(i, symbol)"] sym(4,5) by auto
  have content: "ob_content obs = slice data (sh_offset ?sec + st_value symbol) (sh_offset ?sec + st_value symbol + st_size symbol)"
    using extent by (simp add: obs code slice_def drop_take min_def add.commute)
  have "r_target r \<noteq> st_section symbol" if "r \<in> set rels" for r
    using complete_tables_relocations [OF c(2) that] sym(6) has_bits_6_4 by (auto simp: executable_def)
  moreover have "length (ob_content obs) = st_size symbol"
    using content extent inside by (simp add: slice_def)
  ultimately show ?thesis using c(1,2) sym obs content by (auto simp: Let_def)
qed

text \<open>
  An object that passes the complete-table gate has no overlapping parts: any two of its sections
  that store bytes occupy disjoint ranges of the file, and none of them overlaps the ELF header or
  the section table.
\<close>

theorem complete_tables_disjoint:
  assumes "complete_tables ob = Inr (rels, mips)" and "1 \<le> i" and "i < j" and "j < length (obj_sections ob)"
    and "stored (obj_sections ob ! i)" and "stored (obj_sections ob ! j)"
  shows "apart (section_range (obj_sections ob ! i)) (section_range (obj_sections ob ! j))
    \<and> (\<forall>r\<in>set (header_ranges ob). apart r (section_range (obj_sections ob ! i)))"
proof -
  have "check_sections ob mips = Inr ()" using assms(1) by (auto simp: complete_tables_def res_simps)
  then show ?thesis by (rule check_sections_apart [OF _ assms(2-6)])
qed

section \<open>A small object\<close>

text \<open>
  A 32-bit little-endian object of 336 bytes: the function in a section \<open>t\<close>, the symbol table \<open>y\<close>, the
  two string tables \<open>s\<close> and \<open>h\<close>, and the section table.
\<close>

definition sample_elf :: bytes where
  "sample_elf =
     elf_magic 32 True @ replicate 9 0
     @ pack True (header_format 32) [1, 3, 1, 0, 0, 136, 0, 52, 0, 0, 40, 5, 4]
     @ [0xc3, 0x90, 0x90, 0x90]
     @ pack True (symbol_format 32) [0, 0, 0, 0, 0, 0]
     @ pack True (symbol_format 32) [1, 0, 4, 0x12, 0, 1]
     @ [0] @ CALIBRATION_NAME @ [0]
     @ [0] @ ascii_bytes ''t'' @ [0] @ ascii_bytes ''y'' @ [0] @ ascii_bytes ''s'' @ [0] @ ascii_bytes ''h'' @ [0]
     @ [0]
     @ pack True (row_format 32) [0, 0, 0, 0, 0, 0, 0, 0, 0, 0]
     @ pack True (row_format 32) [1, 1, 6, 0, 52, 4, 0, 0, 4, 0]
     @ pack True (row_format 32) [3, 2, 0, 0, 56, 32, 3, 1, 4, 16]
     @ pack True (row_format 32) [5, 3, 0, 0, 88, 38, 0, 0, 1, 0]
     @ pack True (row_format 32) [7, 3, 0, 0, 126, 9, 0, 0, 1, 0]"

definition sample_model :: py where
  "sample_model = PDict [(''machdep'', PDict [(''checked_fields'', PDict [(''sizeof_ptr'', PInt 4), (''little_endian'', PBool True)])])]"

definition sample_fixture :: py where
  "sample_fixture = PDict [(''class'', PInt 32), (''type'', PStr ''relocatable''), (''byte_order'', PStr ''little''), (''machine_observed'', PInt 3)]"


definition sample_object :: relocatable where
  "sample_object = \<lparr>obj_data = sample_elf, obj_bits = 32, obj_little = True, obj_machine = 3, obj_header_size = 52,
     obj_section_offset = 136, obj_section_size = 40,
     obj_sections =
       [\<lparr>sh_name = [], sh_kind = 0, sh_flags = 0, sh_address = 0, sh_offset = 0, sh_size = 0, sh_link = 0, sh_info = 0, sh_alignment = 0, sh_entry_size = 0\<rparr>,
        \<lparr>sh_name = ascii_bytes ''t'', sh_kind = 1, sh_flags = 6, sh_address = 0, sh_offset = 52, sh_size = 4, sh_link = 0, sh_info = 0, sh_alignment = 4, sh_entry_size = 0\<rparr>,
        \<lparr>sh_name = ascii_bytes ''y'', sh_kind = 2, sh_flags = 0, sh_address = 0, sh_offset = 56, sh_size = 32, sh_link = 3, sh_info = 1, sh_alignment = 4, sh_entry_size = 16\<rparr>,
        \<lparr>sh_name = ascii_bytes ''s'', sh_kind = 3, sh_flags = 0, sh_address = 0, sh_offset = 88, sh_size = 38, sh_link = 0, sh_info = 0, sh_alignment = 1, sh_entry_size = 0\<rparr>,
        \<lparr>sh_name = ascii_bytes ''h'', sh_kind = 3, sh_flags = 0, sh_address = 0, sh_offset = 126, sh_size = 9, sh_link = 0, sh_info = 0, sh_alignment = 1, sh_entry_size = 0\<rparr>],
     obj_symbols =
       [\<lparr>st_name = [], st_value = 0, st_size = 0, st_info = 0, st_other = 0, st_section = 0\<rparr>,
        \<lparr>st_name = CALIBRATION_NAME, st_value = 0, st_size = 4, st_info = 0x12, st_other = 0, st_section = 1\<rparr>],
     obj_symbol_table = 2\<rparr>"

lemma sample_parses: "parse_relocatable sample_elf sample_model = Inr sample_object"
  by code_simp

lemma sample_complete: "complete_tables sample_object = Inr ([], False)"
  by code_simp

lemma sample_observed: "res_ok (calibration_object sample_elf sample_model sample_fixture)"
proof -
  have "calibration_symbol sample_object = Inr (obj_symbols sample_object ! 1)" by code_simp
  moreover have "fixture_agrees sample_object sample_fixture" by code_simp
  moreover have "alpha_rows sample_object = Inr []" by code_simp
  moreover have "res_ok (foldM (undefined_step sample_object (obj_symbols sample_object ! 1) []) 0
      (tl (enumerate 0 (obj_symbols sample_object))))" by code_simp
  moreover have "res_ok (section_bytes sample_object (obj_sections sample_object ! st_section (obj_symbols sample_object ! 1)))"
    by code_simp
  ultimately show ?thesis
    by (auto simp: calibration_object_def sample_parses sample_complete res_ok_iff Let_def)
qed

lemma parse_relocatable_bounds_witness: "obj_data sample_object = sample_elf \<and> 2 \<le> length (obj_sections sample_object)"
  using parse_relocatable_bounds [OF sample_parses] by simp

lemma complete_tables_disjoint_witness:
  "apart (section_range (obj_sections sample_object ! 1)) (section_range (obj_sections sample_object ! 3))"
  by (rule complete_tables_disjoint [OF sample_complete, THEN conjunct1])
     (simp_all add: sample_object_def stored_def)

lemma calibration_bytes_final_witness:
  "\<exists>obs. calibration_object sample_elf sample_model sample_fixture = Inr obs \<and> length (ob_content obs) = ob_size obs"
proof -
  obtain obs where obs: "calibration_object sample_elf sample_model sample_fixture = Inr obs"
    using sample_observed by (auto simp: res_ok_iff)
  from calibration_bytes_final [OF obs] obs show ?thesis by (auto simp: Let_def)
qed

end
