(* ===== verification/Concurrency_Check.thy ===== *)
theory Concurrency_Check
  imports Host
begin

text \<open>
  What the concurrency stages share: one named comparison (\<^verbatim>\<open>_check\<close>), the ordered search for
  source snippets (\<^verbatim>\<open>concurrency_c3_trace._ordered\<close>) and the field validators of the manifests
  (\<^verbatim>\<open>_digest\<close>, \<^verbatim>\<open>_strings\<close>, \<^verbatim>\<open>_relative\<close>, ...), which the modules repeat with their own
  class of exception; the class is an argument here.
\<close>

section \<open>Checks\<close>

record check_row =
  ck_name :: string
  ck_expected :: py
  ck_actual :: py
  ck_passed :: bool

definition check_that :: "string \<Rightarrow> py \<Rightarrow> py \<Rightarrow> check_row" where
  "check_that name expected actual =
     \<lparr>ck_name = name, ck_expected = expected, ck_actual = actual, ck_passed = py_eq expected actual\<rparr>"

definition all_passed :: "check_row list \<Rightarrow> bool" where
  "all_passed cs = list_all ck_passed cs"

lemma check_that_passed [simp]: "ck_passed (check_that n e a) = py_eq e a"
  by (simp add: check_that_def)

lemma all_passed_simps [simp]:
  "all_passed []" "all_passed (c # cs) \<longleftrightarrow> ck_passed c \<and> all_passed cs"
  "all_passed (cs @ ds) \<longleftrightarrow> all_passed cs \<and> all_passed ds"
  by (simp_all add: all_passed_def)

lemma all_passed_concat [simp]: "all_passed (concat css) \<longleftrightarrow> list_all all_passed css"
  by (induction css) auto

section \<open>Snippets in order\<close>

text \<open>\<^verbatim>\<open>text.find(p, start)\<close>: the text from the first occurrence on.\<close>

fun seek :: "string \<Rightarrow> string \<Rightarrow> string option" where
  "seek p [] = (if p = [] then Some [] else None)"
| "seek p (c # s) = (if starts_with p (c # s) then Some (c # s) else seek p s)"

text \<open>Each search starts one character after the start of the last match; past the end it fails.\<close>

fun ordered :: "string \<Rightarrow> string list \<Rightarrow> bool" where
  "ordered s [] = True"
| "ordered s (p # ps) = (case seek p s of None \<Rightarrow> False | Some [] \<Rightarrow> ps = [] | Some (c # r) \<Rightarrow> ordered r ps)"

text \<open>The specification: increasing positions at which the snippets stand.\<close>

definition stands_at :: "string \<Rightarrow> nat \<Rightarrow> string \<Rightarrow> bool" where
  "stands_at text i p = (i \<le> length text \<and> starts_with p (drop i text))"

definition occur_in_order :: "string \<Rightarrow> string list \<Rightarrow> bool" where
  "occur_in_order text ps = (\<exists>is. sorted_wrt (<) is \<and> list_all2 (stands_at text) is ps)"

lemma seek_Some:
  "seek p s = Some r \<Longrightarrow> \<exists>i. stands_at s i p \<and> r = drop i s \<and> (\<forall>j<i. \<not> stands_at s j p)"
proof (induction s)
  case (Cons c s)
  show ?case
  proof (cases "starts_with p (c # s)")
    case True
    with Cons.prems show ?thesis by (intro exI [of _ 0]) (simp add: stands_at_def)
  next
    case False
    with Cons obtain i where "stands_at s i p" "r = drop i s" "\<forall>j<i. \<not> stands_at s j p" by auto
    with False show ?thesis
      by (intro exI [of _ "Suc i"]) (auto simp: stands_at_def less_Suc_eq_0_disj)
  qed
qed (auto simp: stands_at_def starts_with_def split: if_splits)

lemma seek_None: "seek p s = None \<Longrightarrow> \<not> stands_at s i p"
proof (induction s arbitrary: i)
  case (Cons c s)
  then show ?case by (cases i) (auto simp: stands_at_def split: if_splits)
qed (auto simp: stands_at_def starts_with_def split: if_splits)

lemma stands_at_drop: "k \<le> length s \<Longrightarrow> stands_at (drop k s) i p \<longleftrightarrow> stands_at s (k + i) p"
  by (auto simp: stands_at_def add.commute)

lemma ordered_from:
  "k \<le> length text \<Longrightarrow> ordered (drop k text) ps \<longleftrightarrow>
     (\<exists>is. sorted_wrt (<) is \<and> (\<forall>i\<in>set is. k \<le> i) \<and> list_all2 (stands_at text) is ps)"
proof (induction ps arbitrary: k)
  case Nil
  show ?case by (auto intro: exI [of _ "[]"])
next
  case (Cons p ps)
  let ?spec = "\<lambda>k ps. \<exists>is. sorted_wrt (<) is \<and> (\<forall>i\<in>set is. k \<le> i) \<and> list_all2 (stands_at text) is ps"
  show ?case
  proof (cases "seek p (drop k text)")
    case None
    have "\<not> ?spec k (p # ps)"
    proof
      assume "?spec k (p # ps)"
      then obtain i "is" where "k \<le> i" "stands_at text i p" by (auto simp: list_all2_Cons2)
      with seek_None [OF None, of "i - k"] Cons.prems show False by (simp add: stands_at_drop)
    qed
    with None show ?thesis by simp
  next
    case (Some r)
    then obtain i where i: "stands_at text (k + i) p" "r = drop (k + i) text" "\<And>j. k \<le> j \<Longrightarrow> j < k + i \<Longrightarrow> \<not> stands_at text j p"
    proof -
      from seek_Some [OF Some] obtain i where *: "stands_at (drop k text) i p" "r = drop i (drop k text)"
        "\<forall>j<i. \<not> stands_at (drop k text) j p" by blast
      show thesis
      proof (rule that [of i])
        show "\<not> stands_at text j p" if "k \<le> j" "j < k + i" for j
          using *(3) [rule_format, of "j - k"] that Cons.prems by (simp add: stands_at_drop)
      qed (use * Cons.prems in \<open>simp_all add: stands_at_drop add.commute\<close>)
    qed
    have first: "?spec k (p # ps) \<longleftrightarrow> ?spec (Suc (k + i)) ps"
    proof
      assume "?spec k (p # ps)"
      then obtain j js where j: "k \<le> j" "stands_at text j p" "\<forall>x\<in>set js. j < x" "sorted_wrt (<) js"
          "list_all2 (stands_at text) js ps" by (auto simp: list_all2_Cons2)
      have "k + i \<le> j" using i(3) [OF j(1)] j(2) by (meson not_le)
      with j show "?spec (Suc (k + i)) ps" by (intro exI [of _ js]) fastforce
    next
      assume "?spec (Suc (k + i)) ps"
      then obtain js where "\<forall>x\<in>set js. Suc (k + i) \<le> x" "sorted_wrt (<) js" "list_all2 (stands_at text) js ps" by blast
      with i(1) show "?spec k (p # ps)" by (intro exI [of _ "(k + i) # js"]) auto
    qed
    show ?thesis
    proof (cases r)
      case Nil
      with i(1,2) have "k + i = length text" by (simp add: stands_at_def)
      then have "?spec (Suc (k + i)) ps \<longleftrightarrow> ps = []"
        by (cases ps) (auto simp: list_all2_Cons2 stands_at_def intro: exI [of _ "[]"])
      with Some Nil first show ?thesis by simp
    next
      case (Cons c r')
      with i(2) have "Suc (k + i) \<le> length text" "r' = drop (Suc (k + i)) text"
        by (metis drop_all list.distinct(1) not_less_eq_eq, metis drop_Suc drop_tl list.sel(3))
      with Cons.IH [of "Suc (k + i)"] Some Cons first show ?thesis by simp
    qed
  qed
qed

lemma ordered_occurs: "ordered text ps = occur_in_order text ps"
  using ordered_from [of 0 "text" ps] by (simp add: occur_in_order_def)

text \<open>
  The left-to-right search is complete: it succeeds exactly when there are strictly increasing positions of the
  text at which the snippets stand, however they overlap.
\<close>

theorem ordered_complete: "ordered text ps = occur_in_order text ps"
  by (rule ordered_occurs)

section \<open>Field validators\<close>

definition nonempty_str :: "exn_class \<Rightarrow> py \<Rightarrow> string res" where
  "nonempty_str cls v = (case v of
     PStr s \<Rightarrow> if \<not> not_blank s then Inl (Exn cls ''must be a nonempty string'') else Inr s
   | _ \<Rightarrow> Inl (Exn cls ''must be a nonempty string''))"

definition digest_of :: "exn_class \<Rightarrow> nat \<Rightarrow> py \<Rightarrow> string res" where
  "digest_of cls n v = (case v of
     PStr s \<Rightarrow> if \<not> is_hex n s then Inl (Exn cls ''is not a hex digest'') else Inr s
   | _ \<Rightarrow> Inl (Exn cls ''is not a hex digest''))"

definition unique_strings :: "exn_class \<Rightarrow> py \<Rightarrow> string list res" where
  "unique_strings cls v = (case as_strs v of
     None \<Rightarrow> Inl (Exn cls ''must be a nonempty unique string list'')
   | Some ss \<Rightarrow>
       if ss = [] \<or> [] \<in> set ss \<or> \<not> distinct ss then Inl (Exn cls ''must be a nonempty unique string list'')
       else Inr ss)"

text \<open>The parts of a path that stays below the root it is joined with; also \<^verbatim>\<open>PurePosixPath(value).parts\<close> is empty for \<open>.\<close>\<close>

definition relative_parts :: "exn_class \<Rightarrow> py \<Rightarrow> string list res" where
  "relative_parts cls v = (case v of
     PStr s \<Rightarrow>
       if is_absolute s \<or> path_parts s = [] \<or> ''..'' \<in> set (path_parts s)
       then Inl (Exn cls ''must be a project-relative path'') else Inr (path_parts s)
   | _ \<Rightarrow> Inl (Exn cls ''must be a project-relative path''))"

definition below_root :: "host \<Rightarrow> exn_class \<Rightarrow> string \<Rightarrow> string \<Rightarrow> string res" where
  "below_root h cls base p =
     (if \<not> is_relative_to (resolve h p) base then Inl (Exn cls ''escapes the project root'') else Inr p)"

definition declared_path :: "host \<Rightarrow> exn_class \<Rightarrow> string \<Rightarrow> py \<Rightarrow> string res" where
  "declared_path h cls base v =
     bind_res (relative_parts cls v) (\<lambda>ps. below_root h cls base (path_join base (join ''/'' ps)))"

definition existing_path :: "host \<Rightarrow> exn_class \<Rightarrow> string \<Rightarrow> py \<Rightarrow> bool \<Rightarrow> string res" where
  "existing_path h cls base v directory =
     bind_res (declared_path h cls base v) (\<lambda>p.
       if \<not> (if directory then is_dir h p else is_file h p) \<or> is_symlink h p
       then Inl (Exn cls ''is missing or not a regular file'') else Inr p)"

definition exact_keys :: "pydict \<Rightarrow> string list \<Rightarrow> bool" where
  "exact_keys d ks = (set (keys d) = set ks)"

text \<open>\<^verbatim>\<open>isinstance(v, dict) and set(v) == {...}\<close>, or the given exception.\<close>

definition exact_dict :: "exn \<Rightarrow> string list \<Rightarrow> py \<Rightarrow> pydict res" where
  "exact_dict e ks v = (case v of PDict d \<Rightarrow> if exact_keys d ks then Inr d else Inl e | _ \<Rightarrow> Inl e)"

lemma nonempty_str_Inr [res_simps]: "nonempty_str cls v = Inr s \<longleftrightarrow> v = PStr s \<and> not_blank s"
  by (cases v) (auto simp: nonempty_str_def)

lemma digest_of_Inr [res_simps]: "digest_of cls n v = Inr s \<longleftrightarrow> v = PStr s \<and> is_hex n s"
  by (cases v) (auto simp: digest_of_def)

lemma unique_strings_Inr [res_simps]:
  "unique_strings cls v = Inr ss \<longleftrightarrow> v = PList (map PStr ss) \<and> ss \<noteq> [] \<and> [] \<notin> set ss \<and> distinct ss"
  by (auto simp: unique_strings_def res_simps split: option.splits)

lemma exact_dict_Inr [res_simps]: "exact_dict e ks v = Inr d \<longleftrightarrow> v = PDict d \<and> set (keys d) = set ks"
  by (cases v) (auto simp: exact_dict_def exact_keys_def)

lemma exact_keys_has: "set (keys d) = set ks \<Longrightarrow> k \<in> set ks \<Longrightarrow> has_key d k"
  by (simp add: has_key_iff)

end
