(* ===== verification/Frontend_Policy.thy ===== *)
theory Frontend_Policy
  imports Acsl_Lex Shell_Words Provenance Elf Integrity Concurrency_Check
begin

text \<open>
  \<^verbatim>\<open>fragma/frontend_policy.py\<close>, the policy itself: which targets select the inline spelling
  (\<^verbatim>\<open>identity\<close>), the one preprocessor definition that follows from it (\<^verbatim>\<open>cpp_arguments\<close>,
  \<^verbatim>\<open>add_cpp_arguments\<close>), the declaration prefix the expanded helpers must have
  (\<^verbatim>\<open>expected_prefix\<close>), the two typedefs (\<^verbatim>\<open>_typedefs\<close>), the identity of the annotations
  (\<^verbatim>\<open>annotation_identity\<close>) and the metadata of the fixture object (\<^verbatim>\<open>fixture_object\<close>).
  A value of a wrong type where the code needs a text is a \<^verbatim>\<open>TypeError\<close>.
\<close>

abbreviation frontend_require :: "bool \<Rightarrow> string \<Rightarrow> unit res" where
  "frontend_require c m \<equiv> check c (frontend_error m)"

section \<open>Constants\<close>

definition HARNESS :: string where "HARNESS = ''common/annotated/unaligned24.verified.c''"
definition FIXTURE :: string where "FIXTURE = ''common/annotated/kernel-model-check.c''"
definition HEADER :: string where "HEADER = ''common/annotated/inline-policy.h''"
definition STRATEGY :: string where "STRATEGY = ''common/annotated/byteproof.h''"
definition MACRO :: string where "MACRO = ''FRAGMA_COMMON24_INLINE_POLICY''"

definition FUNCTIONS :: "string list" where
  "FUNCTIONS = [''__get_unaligned_be24'', ''__get_unaligned_le24'', ''__put_unaligned_be24'', ''__put_unaligned_le24'']"

definition WITNESSES :: "string list" where
  "WITNESSES = [''fragma_roundtrip_be24'', ''fragma_roundtrip_le24'']"

definition VARIANTS :: "(string \<times> (nat \<times> string)) list" where
  "VARIANTS = [(''no-instrument'', (1, ''__attribute__((__no_instrument_function__))'')),
               (''patchable-entry-0'', (2, ''__attribute__((patchable_function_entry(0, 0)))''))]"

section \<open>The identity of annotations\<close>

definition annotation_identity :: "host \<Rightarrow> string \<Rightarrow> string \<Rightarrow> string \<Rightarrow> pydict res" where
  "annotation_identity h raw strategy expanded =
     bind_res (annotation_tokens strategy) (\<lambda>first.
     bind_res (annotation_tokens raw) (\<lambda>second.
     bind_res (annotation_tokens expanded) (\<lambda>actual.
     bind_res (frontend_require (actual = first @ second) ''actual ACSL contracts/assertions/strategy differ or are reordered'') (\<lambda>_.
       Inr [(''schema_version'', PInt 1), (''normalization'', PStr ''ordered-common24-acsl-tokens-v1''),
            (''block_count'', PInt (int (length actual))),
            (''ordered_tokens_sha256'', PStr (sha256_hex h (json_plain h (PList (map (\<lambda>b. PList (map PStr b)) actual))))),
            (''block_token_sha256'', PList (map (\<lambda>b. PStr (token_hash h b)) actual))]))))"



section \<open>The policy of a target\<close>

text \<open>\<^verbatim>\<open>controlled_path\<close>: does the field name the controlled file, by its text or under the root?\<close>

definition controlled_path :: "host \<Rightarrow> string option \<Rightarrow> pydict \<Rightarrow> string \<Rightarrow> string \<Rightarrow> bool" where
  "controlled_path h base target key expected = (case dget target key of
     PStr name \<Rightarrow> normpath name = expected
       \<or> (case base of None \<Rightarrow> False | Some r \<Rightarrow> resolve h (path_join r name) = resolve h (path_join r expected))
   | _ \<Rightarrow> False)"

definition is_variant :: "py \<Rightarrow> bool" where
  "is_variant v = (case v of PStr s \<Rightarrow> map_of VARIANTS s \<noteq> None | _ \<Rightarrow> False)"

definition policy_value :: "py \<Rightarrow> pydict res" where
  "policy_value v =
     bind_res (exact_dict (frontend_error ''expected exactly schema_version, kind and variant'')
       [''schema_version'', ''kind'', ''variant''] v) (\<lambda>d.
     bind_res (frontend_require (dget d ''schema_version'' = PInt 1) ''unsupported schema version'') (\<lambda>_.
     bind_res (frontend_require (dget d ''kind'' = PStr ''common24-inline'' \<and> is_variant (dget d ''variant''))
       ''unknown policy kind or variant'') (\<lambda>_. Inr d)))"

definition frontend_identity :: "host \<Rightarrow> string option \<Rightarrow> py \<Rightarrow> pydict option res" where
  "frontend_identity h base v = (case v of
     PDict target \<Rightarrow>
       if \<not> has_key target ''frontend_policy'' then
         bind_res (frontend_require
           (\<not> (controlled_path h base target ''harness'' HARNESS \<or> controlled_path h base target ''kernel_model_check'' FIXTURE))
           ''common24 inputs require an explicit policy'') (\<lambda>_. Inr None)
       else
         bind_res (policy_value (dget target ''frontend_policy'')) (\<lambda>d.
         bind_res (frontend_require
           (dget target ''input_mode'' = PStr ''standalone'' \<and> dget target ''harness'' = PStr HARNESS
            \<and> dget target ''kernel_model_check'' = PStr FIXTURE \<and> dget target ''source'' = PStr ''include/linux/unaligned.h'')
           ''common24 policy requires its standalone harness and genuine-header fixture'') (\<lambda>_.
         bind_res (frontend_require
           (list_all (\<lambda>k. \<not> has_key target k) [''cpp_definitions'', ''cpp_extra_args'', ''cpp_flags''])
           ''arbitrary target preprocessor overrides are not supported'') (\<lambda>_. Inr (Some d))))
   | _ \<Rightarrow> Inl (frontend_error ''target must be an object''))"

text \<open>\<^verbatim>\<open>VARIANTS[policy["variant"]]\<close>\<close>

definition policy_variant :: "pydict \<Rightarrow> (nat \<times> string) res" where
  "policy_variant d = bind_res (ditem d ''variant'') (\<lambda>v. case v of
     PStr s \<Rightarrow> (case map_of VARIANTS s of None \<Rightarrow> Inl (Exn KeyError s) | Some x \<Rightarrow> Inr x)
   | _ \<Rightarrow> Inl (Exn KeyError ''variant''))"

definition inline_flag :: "nat \<Rightarrow> string" where
  "inline_flag n = ''-D'' @ MACRO @ ''='' @ nat_str n"

definition cpp_arguments :: "host \<Rightarrow> py \<Rightarrow> string list res" where
  "cpp_arguments h target =
     bind_res (frontend_identity h None target) (\<lambda>policy. case policy of
       None \<Rightarrow> Inr []
     | Some d \<Rightarrow> bind_res (policy_variant d) (\<lambda>(n, text). Inr [inline_flag n]))"

definition frontend_files :: "host \<Rightarrow> py \<Rightarrow> string list res" where
  "frontend_files h target =
     bind_res (frontend_identity h None target) (\<lambda>policy.
       Inr (case policy of None \<Rightarrow> [] | Some d \<Rightarrow> [HEADER, ''fragma/frontend_policy.py'', ''fragma/elf.py'']))"

text \<open>The definition is appended once; a command line that mentions the selector already is refused.\<close>

definition add_cpp_arguments :: "host \<Rightarrow> py \<Rightarrow> py \<Rightarrow> py list res" where
  "add_cpp_arguments h argv target =
     bind_res (cpp_arguments h target) (\<lambda>extra.
       if extra = [] then (case argv of PList vs \<Rightarrow> Inr vs | _ \<Rightarrow> Inl (Exn TypeError ''argv''))
       else (case as_strs argv of
               None \<Rightarrow> Inl (frontend_error ''malformed compiler argv'')
             | Some args \<Rightarrow>
                 bind_res (frontend_require (\<not> list_ex (contains MACRO) args) ''pre-existing inline selector'') (\<lambda>_.
                   Inr (map PStr (args @ extra)))))"

definition expected_prefix :: "host \<Rightarrow> py \<Rightarrow> string \<Rightarrow> string list res" where
  "expected_prefix h target name =
     bind_res (frontend_identity h None target) (\<lambda>policy. case policy of
       None \<Rightarrow> Inl (frontend_error ''unknown selected helper'')
     | Some d \<Rightarrow>
         bind_res (frontend_require (name \<in> set FUNCTIONS) ''unknown selected helper'') (\<lambda>_.
         bind_res (policy_variant d) (\<lambda>(n, attribute).
         bind_res (extract_function (''static inline __attribute__((__gnu_inline__)) __attribute__((__unused__)) '' @ attribute
             @ (if starts_with ''__get_'' name then '' u32 '' else '' void '') @ name @ ''(void) {}'') name) (\<lambda>f.
           Inr (fn_prefix f)))))"

section \<open>The two typedefs\<close>

fun typedef_list :: "string list \<Rightarrow> string list list res" where
  "typedef_list [] = Inr []"
| "typedef_list (t # ts) =
     (if t = ''typedef'' then
        (if '';'' \<in> set ts
         then bind_res (typedef_list ts) (\<lambda>ds. Inr ((t # takeWhile (\<lambda>x. x \<noteq> '';'') ts @ ['';'']) # ds))
         else Inl (frontend_error ''has an incomplete typedef''))
      else typedef_list ts)"

definition TYPEDEFS :: "string list list" where
  "TYPEDEFS = [[''typedef'', ''unsigned'', ''char'', ''u8'', '';''], [''typedef'', ''unsigned'', ''int'', ''u32'', '';'']]"

definition typedefs :: "string \<Rightarrow> pydict res" where
  "typedefs source =
     bind_res (tokenize source) (\<lambda>ts.
     bind_res (typedef_list ts) (\<lambda>ds.
     bind_res (frontend_require (ds = TYPEDEFS) ''must contain the exact unique u8/u32 typedefs'') (\<lambda>_.
       Inr [(''u8'', PList [PStr ''unsigned'', PStr ''char'']), (''u32'', PList [PStr ''unsigned'', PStr ''int''])])))"

section \<open>The fixture object\<close>

definition inline_text :: "string \<Rightarrow> string" where
  "inline_text attribute = ''inline __attribute__((__gnu_inline__)) __attribute__((__unused__)) '' @ attribute"

definition EFFECTIVE :: bytes where "EFFECTIVE = ascii_bytes ''fragma_common24_effective_inline''"
definition EXPECTED :: bytes where "EXPECTED = ascii_bytes ''fragma_common24_expected_inline''"

text \<open>A symbol of this name is global data, of a section with contents, of the expected length.\<close>

definition metadata_symbol :: "relocatable \<Rightarrow> bytes \<Rightarrow> elf_symbol \<Rightarrow> bool" where
  "metadata_symbol ob expected s =
     (st_info s = 0x11 \<and> st_other s = 0 \<and> 0 < st_section s \<and> st_section s < length (obj_sections ob)
      \<and> sh_kind (obj_sections ob ! st_section s) = 1 \<and> st_size s = length expected)"

definition fixture_step :: "relocatable \<Rightarrow> bytes \<Rightarrow> bytes list \<Rightarrow> elf_symbol \<Rightarrow> bytes list res" where
  "fixture_step ob expected observed s =
     (if st_name s \<notin> {EFFECTIVE, EXPECTED} then Inr observed
      else
        bind_res (frontend_require (st_name s \<notin> set observed \<and> metadata_symbol ob expected s)
          ''invalid or duplicate inline metadata symbol'') (\<lambda>_.
        bind_res (section_bytes ob (obj_sections ob ! st_section s)) (\<lambda>content.
        bind_res (frontend_require (st_value s + st_size s \<le> length content
            \<and> slice content (st_value s) (st_value s + st_size s) = expected)
          ''compiler-produced inline metadata differs from selected policy'') (\<lambda>_.
          Inr (observed @ [st_name s])))))"

text \<open>\<^verbatim>\<open>elf.parse_relocatable\<close> with its exception class turned into this module's.\<close>

definition parse_fixture :: "bytes \<Rightarrow> py \<Rightarrow> relocatable res" where
  "parse_fixture data model = (case parse_relocatable data model of
     Inl (Exn ELFError m) \<Rightarrow> Inl (frontend_error m)
   | r \<Rightarrow> r)"

definition fixture_object :: "host \<Rightarrow> bytes \<Rightarrow> py \<Rightarrow> py \<Rightarrow> pydict res" where
  "fixture_object h data target model =
     bind_res (frontend_identity h None target) (\<lambda>policy. case policy of
       None \<Rightarrow> Inl (frontend_error ''fixture object requires an explicit policy'')
     | Some d \<Rightarrow>
         bind_res (parse_fixture data model) (\<lambda>ob.
         bind_res (policy_variant d) (\<lambda>(n, attribute).
         bind_res (foldM (fixture_step ob (ascii_bytes (inline_text attribute) @ [0])) [] (obj_symbols ob)) (\<lambda>observed.
         bind_res (frontend_require (set observed = {EFFECTIVE, EXPECTED})
           ''missing compiler-produced inline metadata symbols'') (\<lambda>_.
           Inr [(''class'', PInt (int (obj_bits ob))), (''byte_order'', PStr (if obj_little ob then ''little'' else ''big'')),
                (''type'', PStr ''relocatable''), (''machine_observed'', PInt (int (obj_machine ob))),
                (''inline_metadata'', PDict [(''fragma_common24_effective_inline'', PStr (inline_text attribute)),
                                          (''fragma_common24_expected_inline'', PStr (inline_text attribute))]),
                (''scope'', PStr ''ELF container and named inline metadata only; no ISA or generated-code verification'')])))))"

section \<open>What the policy promises\<close>

lemma policy_value_Inr:
  "policy_value v = Inr d \<longleftrightarrow> v = PDict d \<and> set (keys d) = {''schema_version'', ''kind'', ''variant''}
     \<and> dget d ''schema_version'' = PInt 1 \<and> dget d ''kind'' = PStr ''common24-inline'' \<and> is_variant (dget d ''variant'')"
  by (auto simp: policy_value_def res_simps)

lemma frontend_identity_None:
  "frontend_identity h base v = Inr None \<longleftrightarrow>
     (\<exists>t. v = PDict t \<and> \<not> has_key t ''frontend_policy'' \<and> \<not> controlled_path h base t ''harness'' HARNESS
        \<and> \<not> controlled_path h base t ''kernel_model_check'' FIXTURE)"
  by (cases v) (auto simp: frontend_identity_def res_simps)

lemma frontend_identity_Some:
  "frontend_identity h base v = Inr (Some d) \<longleftrightarrow>
     (\<exists>t. v = PDict t \<and> has_key t ''frontend_policy'' \<and> policy_value (dget t ''frontend_policy'') = Inr d
        \<and> dget t ''input_mode'' = PStr ''standalone'' \<and> dget t ''harness'' = PStr HARNESS
        \<and> dget t ''kernel_model_check'' = PStr FIXTURE \<and> dget t ''source'' = PStr ''include/linux/unaligned.h''
        \<and> list_all (\<lambda>k. \<not> has_key t k) [''cpp_definitions'', ''cpp_extra_args'', ''cpp_flags''])"
  by (cases v) (auto simp: frontend_identity_def res_simps)

text \<open>With a declared policy the root plays no part, so every caller sees the same policy.\<close>

lemma frontend_identity_root: "frontend_identity h base v = Inr (Some d) \<longleftrightarrow> frontend_identity h base' v = Inr (Some d)"
  unfolding frontend_identity_Some ..

lemma policy_variant_cases:
  assumes "frontend_identity h base v = Inr (Some d)"
  obtains "policy_variant d = Inr (1, ''__attribute__((__no_instrument_function__))'')"
  | "policy_variant d = Inr (2, ''__attribute__((patchable_function_entry(0, 0)))'')"
proof -
  from assms have "set (keys d) = {''schema_version'', ''kind'', ''variant''}" "is_variant (dget d ''variant'')"
    unfolding frontend_identity_Some policy_value_Inr by auto
  then obtain s where "map_of d ''variant'' = Some (PStr s)" "map_of VARIANTS s \<noteq> None"
    by (cases "map_of d ''variant''") (auto simp: dget_def is_variant_def keys_def map_of_eq_None_iff split: py.splits)
  then show ?thesis using that by (auto simp: policy_variant_def ditem_def VARIANTS_def split: if_splits)
qed

lemma cpp_arguments_policy:
  assumes "frontend_identity h base v = Inr (Some d)"
  shows "\<exists>n text. policy_variant d = Inr (n, text) \<and> cpp_arguments h v = Inr [inline_flag n]"
proof -
  have "frontend_identity h None v = Inr (Some d)" using assms frontend_identity_root by blast
  moreover obtain n "text" where "policy_variant d = Inr (n, text)" by (rule policy_variant_cases [OF assms]) blast+
  ultimately show ?thesis by (simp add: cpp_arguments_def)
qed

lemma contains_append: "contains p (a @ p @ b)"
  by (auto simp: contains_iff)

lemma inline_flag_mentions: "contains MACRO (inline_flag n)"
  using contains_append [of MACRO "''-D''" "''='' @ nat_str n"] by (simp add: inline_flag_def)

text \<open>The command of an opted-in target mentions the selector once, in the canonical definition.\<close>

lemma add_cpp_arguments_once:
  assumes "add_cpp_arguments h argv v = Inr out" and "frontend_identity h base v = Inr (Some d)"
  shows "\<exists>n text args. policy_variant d = Inr (n, text) \<and> argv = PList (map PStr args)
    \<and> out = map PStr (args @ [inline_flag n]) \<and> filter (contains MACRO) (args @ [inline_flag n]) = [inline_flag n]"
proof -
  from cpp_arguments_policy [OF assms(2)] obtain n "text" where n: "policy_variant d = Inr (n, text)" "cpp_arguments h v = Inr [inline_flag n]"
    by blast
  with assms(1) obtain args where "as_strs argv = Some args" "\<not> list_ex (contains MACRO) args" "out = map PStr (args @ [inline_flag n])"
    by (auto simp: add_cpp_arguments_def res_simps split: option.splits)
  then show ?thesis using n inline_flag_mentions by (auto simp: as_strs_Some list_ex_iff filter_empty_conv)
qed

section \<open>What the fixture object promises\<close>

definition is_metadata :: "elf_symbol \<Rightarrow> bool" where
  "is_metadata s = (st_name s \<in> {EFFECTIVE, EXPECTED})"

definition metadata_bytes :: "relocatable \<Rightarrow> bytes \<Rightarrow> elf_symbol \<Rightarrow> bool" where
  "metadata_bytes ob expected s =
     (metadata_symbol ob expected s
      \<and> slice (obj_data ob) (sh_offset (obj_sections ob ! st_section s) + st_value s)
           (sh_offset (obj_sections ob ! st_section s) + st_value s + st_size s) = expected)"

lemma slice_slice:
  "b \<le> length (slice data a e) \<Longrightarrow> slice (slice data a e) x b = slice data (a + x) (a + b)"
proof -
  assume "b \<le> length (slice data a e)"
  then have "b \<le> e - a" by (simp add: slice_def)
  then have "b - x \<le> e - a - x" by (rule diff_le_mono)
  then have "take (b - x) (take (e - a - x) (drop x (drop a data))) = take (b - x) (drop (a + x) data)"
    by (simp add: min_absorb1 add.commute)
  then show ?thesis by (simp add: slice_def drop_take)
qed

lemma fixture_step_Inr:
  assumes "fixture_step ob expected seen s = Inr seen'"
  shows "\<not> is_metadata s \<and> seen' = seen
    \<or> is_metadata s \<and> st_name s \<notin> set seen \<and> metadata_bytes ob expected s \<and> seen' = seen @ [st_name s]"
proof (cases "is_metadata s")
  case True
  with assms obtain content where c: "st_name s \<notin> set seen" "metadata_symbol ob expected s"
      "section_bytes ob (obj_sections ob ! st_section s) = Inr content" "st_value s + st_size s \<le> length content"
      "slice content (st_value s) (st_value s + st_size s) = expected" "seen' = seen @ [st_name s]"
    by (auto simp: fixture_step_def is_metadata_def res_simps)
  then have "content = slice (obj_data ob) (sh_offset (obj_sections ob ! st_section s))
      (sh_offset (obj_sections ob ! st_section s) + sh_size (obj_sections ob ! st_section s))"
    by (auto simp: section_bytes_def res_simps)
  with c True show ?thesis by (simp add: metadata_bytes_def slice_slice add.assoc)
qed (use assms in \<open>simp add: fixture_step_def is_metadata_def\<close>)

lemma fixture_loop:
  assumes "foldM (fixture_step ob expected) [] ss = Inr seen"
  shows "seen = map st_name (filter is_metadata ss) \<and> distinct seen \<and> (\<forall>s\<in>set ss. is_metadata s \<longrightarrow> metadata_bytes ob expected s)"
proof -
  let ?P = "\<lambda>ys seen. seen = map st_name (filter is_metadata ys) \<and> distinct seen
    \<and> (\<forall>s\<in>set ys. is_metadata s \<longrightarrow> metadata_bytes ob expected s)"
  have "?P ([] @ ss) seen"
  proof (rule foldM_prefix_invariant [OF assms])
    fix ys seen s seen' assume "?P ys seen" "fixture_step ob expected seen s = Inr seen'"
    then show "?P (ys @ [s]) seen'" using fixture_step_Inr [of ob expected seen s seen'] by auto
  qed simp
  then show ?thesis unfolding append_Nil .
qed

text \<open>
  An accepted fixture object was compiled with the selected spelling: it parses, its symbol
  table names each of the two metadata objects exactly once, and the bytes of the file under each
  of them are the inline text of the target's variant with its final null byte.
\<close>

lemma fixture_object_sound:
  assumes "fixture_object h data target model = Inr v"
  shows "\<exists>ob d n attribute. frontend_identity h None target = Inr (Some d) \<and> policy_variant d = Inr (n, attribute)
    \<and> parse_relocatable data model = Inr ob
    \<and> (\<forall>name\<in>{EFFECTIVE, EXPECTED}. \<exists>s. filter (\<lambda>s. st_name s = name) (obj_symbols ob) = [s]
         \<and> metadata_bytes ob (ascii_bytes (inline_text attribute) @ [0]) s)"
proof -
  from assms obtain d ob n attribute seen where *: "frontend_identity h None target = Inr (Some d)" "parse_fixture data model = Inr ob"
      "policy_variant d = Inr (n, attribute)" "set seen = {EFFECTIVE, EXPECTED}"
      "foldM (fixture_step ob (ascii_bytes (inline_text attribute) @ [0])) [] (obj_symbols ob) = Inr seen"
    unfolding fixture_object_def by (auto simp: res_simps split: option.splits prod.splits)
  let ?expected = "ascii_bytes (inline_text attribute) @ [0]"
  have parse: "parse_relocatable data model = Inr ob"
    using *(2) by (auto simp: parse_fixture_def split: sum.splits exn.splits exn_class.splits)
  note loop = fixture_loop [OF *(5)]
  have "\<exists>s. filter (\<lambda>s. st_name s = name) (obj_symbols ob) = [s] \<and> metadata_bytes ob ?expected s" if "name \<in> {EFFECTIVE, EXPECTED}" for name
  proof -
    have "filter (\<lambda>s. st_name s = name) (obj_symbols ob) = filter (\<lambda>s. st_name s = name) (filter is_metadata (obj_symbols ob))"
      using that by (simp add: is_metadata_def) (meson filter_cong)
    moreover have "name \<in> st_name ` set (filter is_metadata (obj_symbols ob))" using that *(4) loop by (metis list.set_map)
    then obtain s where "s \<in> set (filter is_metadata (obj_symbols ob))" "st_name s = name" by (metis imageE)
    moreover have "filter (\<lambda>s. st_name s = st_name t) xs = [t]" if "distinct (map st_name xs)" "t \<in> set xs" for t xs
      using that
    proof (induction xs)
      case (Cons x xs)
      have "filter (\<lambda>s. st_name s = st_name x) xs = []" using Cons.prems(1) by (simp add: filter_empty_conv) (metis image_eqI)
      with Cons show ?case by auto
    qed simp
    ultimately have "filter (\<lambda>s. st_name s = name) (obj_symbols ob) = [s]" using loop by metis
    with \<open>s \<in> _\<close> loop show ?thesis by auto
  qed
  with *(1,3) parse show ?thesis by blast
qed

end
