(* ===== verification/Frontend_Actual.thy ===== *)
theory Frontend_Actual
  imports Frontend_Policy
begin

text \<open>
  \<^verbatim>\<open>fragma/frontend_policy.py\<close>, the check of what was really consumed (\<^verbatim>\<open>validate_actual\<close>), the
  verification of a saved envelope (\<^verbatim>\<open>observation\<close>) and its path-independent part; with
  \<^verbatim>\<open>inputs.command_without_outputs\<close>, which strips a recorded compile command. The caller's
  \<^verbatim>\<open>read\<close> is an argument: what it returns is hashed again. The order of the gates is the code's.
\<close>

section \<open>Values of a receipt\<close>

definition need_str :: "py \<Rightarrow> string res" where
  "need_str v = (case v of PStr s \<Rightarrow> Inr s | _ \<Rightarrow> Inl (Exn TypeError ''expected a text''))"

definition need_list :: "py \<Rightarrow> py list res" where
  "need_list v = (case v of PList vs \<Rightarrow> Inr vs | _ \<Rightarrow> Inl (Exn TypeError ''expected a list''))"

definition item_str :: "pydict \<Rightarrow> string \<Rightarrow> string res" where
  "item_str d k = bind_res (ditem d k) need_str"

lemma need_str_Inr [res_simps]: "need_str v = Inr s \<longleftrightarrow> v = PStr s"
  by (cases v) (auto simp: need_str_def)

lemma need_list_Inr [res_simps]: "need_list v = Inr vs \<longleftrightarrow> v = PList vs"
  by (cases v) (auto simp: need_list_def)

lemma item_str_Inr [res_simps]: "item_str d k = Inr s \<longleftrightarrow> map_of d k = Some (PStr s)"
  by (auto simp: item_str_def res_simps)

text \<open>\<^verbatim>\<open>json.dumps(..., allow_nan=False)\<close> of both sides compared; a non-finite number raises.\<close>

definition json_agrees :: "py \<Rightarrow> py \<Rightarrow> bool res" where
  "json_agrees a b =
     (if finite_py a \<and> finite_py b then Inr (canon a = canon b)
      else Inl (Exn ValueError ''Out of range float values are not JSON compliant''))"

lemma json_agrees_True [res_simps]: "json_agrees a b = Inr True \<longleftrightarrow> same_json a b"
  by (auto simp: json_agrees_def same_json_def)

text \<open>\<^verbatim>\<open>_input_row\<close>: the one record of a consumed file.\<close>

definition input_row :: "pydict \<Rightarrow> string \<Rightarrow> pydict res" where
  "input_row sec path = (case dget sec ''inputs'' of
     PList vs \<Rightarrow>
       (case those_all (map as_dict vs) of
          None \<Rightarrow> Inl (frontend_error ''has no valid consumed input inventory'')
        | Some rows \<Rightarrow>
            (case filter (\<lambda>row. dget row ''absolute_path'' = PStr path) rows of
               [] \<Rightarrow> Inl (frontend_error ''must bind a unique consumed input'')
             | row # others \<Rightarrow>
                 if others = [] then Inr row else Inl (frontend_error ''must bind a unique consumed input'')))
   | _ \<Rightarrow> Inl (frontend_error ''has no valid consumed input inventory''))"

text \<open>\<^verbatim>\<open>_argv\<close>: the command line of a run that completed.\<close>

definition command_argv :: "py \<Rightarrow> string list res" where
  "command_argv receipt = (case receipt of
     PDict d \<Rightarrow>
       bind_res (frontend_require (dget d ''returncode'' = PInt 0 \<and> dget d ''timed_out'' = PBool False)
         ''did not complete successfully'') (\<lambda>_.
       (case as_strs (dget d ''argv'') of
          None \<Rightarrow> Inl (frontend_error ''has malformed argv'')
        | Some args \<Rightarrow>
            if args = [] \<or> list_ex (\<lambda>a. CHR 0x00 \<in> set a) args then Inl (frontend_error ''has malformed argv'')
            else Inr args))
   | _ \<Rightarrow> Inl (frontend_error ''did not complete successfully''))"

text \<open>\<^verbatim>\<open>_option\<close>: the value of a flag given once.\<close>

definition option_value :: "string list \<Rightarrow> string \<Rightarrow> string res" where
  "option_value args flag = (case filter (\<lambda>i. args ! i = flag) [0..<length args] of
     [] \<Rightarrow> Inl (frontend_error (''missing or ambiguous '' @ flag))
   | i # others \<Rightarrow>
       if others = [] \<and> i + 1 < length args \<and> \<not> list_ex (starts_with (flag @ ''='')) args then Inr (args ! (i + 1))
       else Inl (frontend_error (''missing or ambiguous '' @ flag)))"

text \<open>\<^verbatim>\<open>_selector\<close>\<close>

definition check_selector :: "host \<Rightarrow> string list \<Rightarrow> py \<Rightarrow> unit res" where
  "check_selector h args target =
     bind_res (cpp_arguments h target) (\<lambda>flags. case flags of
       [] \<Rightarrow> Inl (Exn IndexError ''cpp_arguments'')
     | flag # _ \<Rightarrow> frontend_require (filter (contains MACRO) args = [flag]) ''must contain exactly the canonical inline selector'')"

section \<open>inputs.command_without_outputs\<close>

fun strip_outputs :: "pydict \<Rightarrow> py list \<Rightarrow> string list res" where
  "strip_outputs entry [] = Inr []"
| "strip_outputs entry (a # args) =
     (if a \<in> set (map PStr [''-o'', ''-MF'', ''-MT'', ''-MQ'']) then strip_outputs entry (drop 1 args)
      else if a \<in> set (map PStr [''-c'', ''-MD'', ''-MMD'', ''-MP'']) then strip_outputs entry args
      else bind_res (ditem entry ''file'') (\<lambda>file.
        if py_eq a file then strip_outputs entry args
        else (case a of
            PStr s \<Rightarrow>
              if starts_with ''-Wp,-MMD,'' s then strip_outputs entry args
              else if s \<in> {''&&'', '';'', ''|'', ''>'', ''<''}
              then Inl (Exn SourceError ''shell operators are not accepted in compilation database commands'')
              else bind_res (strip_outputs entry args) (\<lambda>rest. Inr (s # rest))
          | _ \<Rightarrow> Inl (Exn AttributeError ''startswith''))))"

definition entry_arguments :: "pydict \<Rightarrow> py list res" where
  "entry_arguments entry =
     (if truthy (dget entry ''arguments'') then need_list (dget entry ''arguments'')
      else bind_res (item_str entry ''command'') (\<lambda>c. bind_res (shlex_split c) (\<lambda>ws. Inr (map PStr ws))))"

definition command_without_outputs :: "pydict \<Rightarrow> string list res" where
  "command_without_outputs entry =
     bind_res (entry_arguments entry) (\<lambda>args.
     bind_res (strip_outputs entry args) (\<lambda>out.
       if out = [] then Inl (Exn SourceError ''empty compilation command'') else Inr out))"

section \<open>Command lines\<close>

definition expected_cpp :: "host \<Rightarrow> py \<Rightarrow> pydict \<Rightarrow> string list res" where
  "expected_cpp h target model =
     bind_res (ditem model ''compiler'') (\<lambda>c. bind_res (pindex c ''path'') (\<lambda>p. bind_res (need_str p) (\<lambda>path.
     bind_res (ditem model ''analysis'') (\<lambda>a. bind_res (pindex a ''compiler_flags'') (\<lambda>fs.
     (case as_strs fs of
        None \<Rightarrow> Inl (Exn TypeError ''compiler_flags'')
      | Some flags \<Rightarrow>
          bind_res (cpp_arguments h target) (\<lambda>extra.
            Inr ([path] @ flags @ [''-nostdinc'', ''-D__KERNEL__''] @ extra @ [''-E'', ''-C'']))))))))"

definition ANALYZER_FLAGS :: "string list" where
  "ANALYZER_FLAGS = [''-cpp-frama-c-compliant'', ''-pp-annot'', ''-keep-temp-files'']"

definition OPPOSING :: "string list" where
  "OPPOSING = [''-no-cpp'', ''-no-pp-annot'', ''-no-keep-temp-files'', ''-cpp-frama-c-compliant='', ''-pp-annot='', ''-keep-temp-files='']"

definition extra_cpp_ok :: "string list \<Rightarrow> bool" where
  "extra_cpp_ok args =
     (count_list args ''-cpp-extra-args=-std=gnu11'' = 1
      \<and> list_all (\<lambda>a. starts_with ''-cpp-'' a \<longrightarrow>
           a \<in> {''-cpp-command'', ''-cpp-frama-c-compliant'', ''-cpp-extra-args=-std=gnu11''}) args)"

definition check_analyzer :: "string \<Rightarrow> string list \<Rightarrow> pydict \<Rightarrow> py \<Rightarrow> unit res" where
  "check_analyzer base cpp prepared command =
     bind_res (item_str prepared ''frama_cpp_command'') (\<lambda>pc. bind_res (shlex_split pc) (\<lambda>words.
     bind_res (frontend_require (words = cpp) ''prepared CPP command differs from the explicit profile/policy'') (\<lambda>_.
     bind_res (command_argv command) (\<lambda>actual.
     bind_res (option_value actual ''-cpp-command'') (\<lambda>ac. bind_res (shlex_split ac) (\<lambda>words'.
     bind_res (frontend_require (words' = cpp) ''actual analyzer CPP differs from the explicit profile/policy'') (\<lambda>_.
     bind_res (frontend_require (extra_cpp_ok actual) ''actual analyzer contains alternate CPP extra arguments'') (\<lambda>_.
     bind_res (frontend_require (list_all (\<lambda>f. count_list actual f = 1) ANALYZER_FLAGS) ''actual analyzer must select a flag'') (\<lambda>_.
     bind_res (frontend_require (\<not> list_ex (\<lambda>a. list_ex (\<lambda>p. starts_with p a) OPPOSING) actual)
       ''opposing or alternate ACSL preprocessing options'') (\<lambda>_.
     bind_res (frontend_require (dget prepared ''frama_input'' = PStr (path_join base HARNESS)
         \<and> count_list actual (path_join base HARNESS) = 1) ''actual analyzer must consume the declared harness once'') (\<lambda>_.
     bind_res (pget command ''cwd'') (\<lambda>cwd.
       frontend_require (py_eq cwd (dget prepared ''cwd'')) ''analyzer preprocessing cwd changed''))))))))))))"

definition expected_dependency :: "string \<Rightarrow> string list \<Rightarrow> string \<Rightarrow> string list" where
  "expected_dependency base cpp out =
     take (length cpp - 2) cpp @ [''-D__FRAMAC__'', ''-E'', ''-C'', ''-MD'', ''-MF'', path_join out ''headers.d'',
       ''-MT'', ''fragma'', path_join base HARNESS]"

definition check_dependency :: "host \<Rightarrow> string \<Rightarrow> py \<Rightarrow> string list \<Rightarrow> pydict \<Rightarrow> string \<Rightarrow> unit res" where
  "check_dependency h base target cpp prepared out =
     bind_res (ditem prepared ''preprocess'') (\<lambda>pre.
     bind_res (command_argv pre) (\<lambda>dependency.
     bind_res (check_selector h dependency target) (\<lambda>_.
     bind_res (frontend_require (dependency = expected_dependency base cpp out)
       ''dependency command differs from native ACSL preprocessing policy'') (\<lambda>_.
     bind_res (pget pre ''cwd'') (\<lambda>cwd. bind_res (ditem prepared ''cwd'') (\<lambda>expected.
       frontend_require (py_eq cwd expected) ''dependency command differs from native ACSL preprocessing policy''))))))"

text \<open>The one entry of the checked build database for \<^verbatim>\<open>lib/string.c\<close>.\<close>

definition genuine_entry :: "pydict \<Rightarrow> pydict res" where
  "genuine_entry model =
     bind_res (ditem model ''build'') (\<lambda>b.
     bind_res (pindex b ''matched_commands'') (\<lambda>mc. bind_res (need_list mc) (\<lambda>entries.
     bind_res (pindex b ''source'') (\<lambda>src. bind_res (need_str src) (\<lambda>source.
     bind_res (mapM (\<lambda>e. bind_res (pget e ''file'') (\<lambda>f. Inr (e, f))) entries) (\<lambda>files.
       case map fst (filter (\<lambda>(e, f). f = PStr (path_join source ''lib/string.c'')) files) of
         [PDict e] \<Rightarrow> Inr e
       | _ \<Rightarrow> Inl (frontend_error ''fixture compile entry is not the genuine command checked by the model'')))))))"

definition fixture_outputs :: "string \<Rightarrow> string \<Rightarrow> string list" where
  "fixture_outputs base out =
     [''-Werror'', ''-MD'', ''-MF'', path_join out ''model-headers.d'', ''-MT'', ''fragma'', ''-c'',
       path_join base FIXTURE, ''-o'', path_join out ''kernel-model.o'']"

definition check_fixture_command ::
  "host \<Rightarrow> string \<Rightarrow> py \<Rightarrow> pydict \<Rightarrow> string list \<Rightarrow> pydict \<Rightarrow> py \<Rightarrow> string \<Rightarrow> unit res" where
  "check_fixture_command h base target model cpp prepared fixture out =
     bind_res (command_argv fixture) (\<lambda>genuine.
     bind_res (check_selector h genuine target) (\<lambda>_.
     bind_res (genuine_entry model) (\<lambda>entry.
     bind_res (pget fixture ''original_compile_command'') (\<lambda>original.
     bind_res (frontend_require (py_eq original (PDict entry))
       ''fixture compile entry is not the genuine command checked by the model'') (\<lambda>_.
     bind_res (command_without_outputs entry) (\<lambda>stripped.
     bind_res (add_cpp_arguments h (PList (map PStr stripped)) target) (\<lambda>full.
     bind_res (frontend_require (map PStr genuine = full @ map PStr (fixture_outputs base out) \<and> hd genuine = hd cpp)
       ''genuine-header fixture command mismatch'') (\<lambda>_.
     bind_res (pget fixture ''cwd'') (\<lambda>cwd. bind_res (ditem prepared ''cwd'') (\<lambda>pcwd.
     bind_res (frontend_require (py_eq cwd pcwd) ''genuine-header fixture command mismatch'') (\<lambda>_.
     bind_res (ditem entry ''directory'') (\<lambda>directory.
       frontend_require (py_eq pcwd directory) ''genuine-header fixture command mismatch''))))))))))))"

section \<open>Bound artifacts\<close>

type_synonym reader = "(string \<Rightarrow> string \<Rightarrow> string res) option"

text \<open>
  \<^verbatim>\<open>checked_read\<close>: the bytes of an artifact, from disk, or from the caller's reader when it lies
  in the directory of the run; either way they have the recorded digest.
\<close>

definition checked_bytes :: "host \<Rightarrow> reader \<Rightarrow> string \<Rightarrow> string \<Rightarrow> py \<Rightarrow> string res" where
  "checked_bytes h reader out path expected = (case expected of
     PStr d \<Rightarrow>
       bind_res (frontend_require (is_hex 64 d) ''missing artifact digest'') (\<lambda>_.
       bind_res (frontend_require (is_absolute path \<and> \<not> is_symlink h (path_str path))
         ''artifact path must be absolute and not a symlink'') (\<lambda>_.
       bind_res (case reader of
           Some f \<Rightarrow>
             if is_relative_to (path_str path) out then f (path_str path) d
             else bind_res (frontend_require (file_sha256 h (path_str path) = Some d) ''artifact changed'')
               (\<lambda>_. Inr (the (contents h (path_str path))))
         | None \<Rightarrow> bind_res (frontend_require (file_sha256 h (path_str path) = Some d) ''artifact changed'')
             (\<lambda>_. Inr (the (contents h (path_str path))))) (\<lambda>data.
       bind_res (frontend_require (sha256_hex h data = d) ''reader did not return the bound artifact bytes'') (\<lambda>_.
         Inr data))))
   | _ \<Rightarrow> Inl (frontend_error ''missing artifact digest''))"

definition checked_text :: "host \<Rightarrow> tools \<Rightarrow> reader \<Rightarrow> string \<Rightarrow> string \<Rightarrow> py \<Rightarrow> string res" where
  "checked_text h os reader out path expected = bind_res (checked_bytes h reader out path expected) (decode os)"

text \<open>The bytes of an artifact whose path the receipt names as well.\<close>

definition artifact_bytes :: "host \<Rightarrow> reader \<Rightarrow> string \<Rightarrow> pydict \<Rightarrow> string res" where
  "artifact_bytes h reader out item =
     bind_res (item_str item ''absolute_path'') (\<lambda>p. bind_res (ditem item ''sha256'') (\<lambda>d. checked_bytes h reader out p d))"

definition byte_list :: "string \<Rightarrow> bytes" where
  "byte_list s = ascii_bytes s"

definition placed_item :: "pydict \<Rightarrow> string \<Rightarrow> string \<Rightarrow> pydict res" where
  "placed_item fixture key path = (case dget fixture key of
     PDict item \<Rightarrow> if dget item ''absolute_path'' = PStr path then Inr item else Inl (frontend_error (''missing or misplaced fixture '' @ key))
   | _ \<Rightarrow> Inl (frontend_error (''missing or misplaced fixture '' @ key)))"

definition dependency_paths :: "host \<Rightarrow> string \<Rightarrow> string \<Rightarrow> string list res" where
  "dependency_paths h cwd deps =
     (let d = replace_all [CHR 0x5C, CHR 0x0A] [] deps in
      bind_res (frontend_require (starts_with ''fragma:'' d) ''invalid fixture dependency target'') (\<lambda>_.
      bind_res (shlex_split (replace_all ''$$'' ''$'' (after CHR '':'' d))) (\<lambda>names.
        Inr (map (\<lambda>n. resolve h (path_join cwd n)) names))))"

definition consumed_paths :: "pydict \<Rightarrow> py list res" where
  "consumed_paths sec =
     bind_res (ditem sec ''inputs'') (\<lambda>v. bind_res (need_list v) (\<lambda>rows. mapM (\<lambda>r. pindex r ''absolute_path'') rows))"

definition check_dependencies :: "host \<Rightarrow> tools \<Rightarrow> pydict \<Rightarrow> pydict \<Rightarrow> string \<Rightarrow> unit res" where
  "check_dependencies h os prepared fixture deps =
     bind_res (decode os deps) (\<lambda>d.
     bind_res (item_str prepared ''cwd'') (\<lambda>cwd.
     bind_res (dependency_paths h cwd d) (\<lambda>paths.
     bind_res (consumed_paths fixture) (\<lambda>rows.
       frontend_require (paths \<noteq> [] \<and> set (map PStr paths) = set rows)
         ''fixture dependency inventory disagrees with consumed input records''))))"

text \<open>The object and the dependency file of the fixture; the result describes the object.\<close>

definition fixture_artifacts ::
  "host \<Rightarrow> tools \<Rightarrow> reader \<Rightarrow> py \<Rightarrow> pydict \<Rightarrow> pydict \<Rightarrow> pydict \<Rightarrow> string \<Rightarrow> pydict res" where
  "fixture_artifacts h os reader target model prepared fixture out =
     bind_res (placed_item fixture ''object'' (path_join out ''kernel-model.o'')) (\<lambda>item.
     bind_res (artifact_bytes h reader out item) (\<lambda>data.
     bind_res (frontend_require (data \<noteq> []) ''empty fixture object'') (\<lambda>_.
     bind_res (fixture_object h (byte_list data) target (PDict model)) (\<lambda>observed.
     bind_res (placed_item fixture ''dependencies'' (path_join out ''model-headers.d'')) (\<lambda>item'.
     bind_res (artifact_bytes h reader out item') (\<lambda>deps.
     bind_res (frontend_require (deps \<noteq> []) ''empty fixture dependencies'') (\<lambda>_.
     bind_res (check_dependencies h os prepared fixture deps) (\<lambda>_. Inr observed))))))))"

definition check_diagnostics :: "host \<Rightarrow> tools \<Rightarrow> reader \<Rightarrow> string \<Rightarrow> pydict \<Rightarrow> pydict \<Rightarrow> unit res" where
  "check_diagnostics h os reader out policy fixture =
     bind_res (json_agrees (dget fixture ''frontend_policy'') (PDict policy)) (\<lambda>same.
     bind_res (frontend_require same ''fixture did not record the selected frontend policy'') (\<lambda>_.
     bind_res (item_str fixture ''log'') (\<lambda>log. bind_res (ditem fixture ''log_sha256'') (\<lambda>d.
     bind_res (checked_text h os reader out log d) (\<lambda>diagnostics.
     bind_res (frontend_require (diagnostics = []) ''genuine-header fixture produced unexpected diagnostics'') (\<lambda>_.
       frontend_require (py_eq (dget fixture ''diagnostics'') (PDict [(''absolute_path'', PStr log), (''sha256'', d)]))
         ''fixture diagnostics inventory differs from its command log''))))))"

definition check_fixture_source :: "host \<Rightarrow> tools \<Rightarrow> reader \<Rightarrow> string \<Rightarrow> string \<Rightarrow> pydict \<Rightarrow> unit res" where
  "check_fixture_source h os reader out base fixture =
     bind_res (input_row fixture (path_join base FIXTURE)) (\<lambda>row.
     bind_res (frontend_require (py_eq (dget row ''sha256'') (dget fixture ''fixture_sha256''))
       ''fixture source digest differs from its consumed input record'') (\<lambda>_.
     bind_res (checked_text h os reader out (path_join base FIXTURE) (dget fixture ''fixture_sha256'')) (\<lambda>src.
       frontend_require (contains ''#include <linux/types.h>'' src \<and> contains ''#include <linux/unaligned.h>'' src)
         ''fixture lacks genuine kernel type/helper headers'')))"

text \<open>Each of the three stages consumed the controlled header once, as it is now.\<close>

definition check_header :: "host \<Rightarrow> reader \<Rightarrow> string \<Rightarrow> string \<Rightarrow> pydict \<Rightarrow> unit res" where
  "check_header h reader out base sec =
     bind_res (need_list (dget_or sec ''inputs'' (PList []))) (\<lambda>vs.
     bind_res (mapM (\<lambda>v. bind_res (pget v ''absolute_path'') (\<lambda>p. Inr (v, p))) vs) (\<lambda>rows.
     (case map fst (filter (\<lambda>(v, p). p = PStr (path_join base HEADER)) rows) of
        [row] \<Rightarrow> bind_res (pindex row ''sha256'') (\<lambda>d. bind_res (checked_bytes h reader out (path_join base HEADER) d) (\<lambda>_. Inr ()))
      | _ \<Rightarrow> Inl (frontend_error ''did not consume the declared inline header exactly once''))))"

section \<open>The texts the analyzer parsed\<close>

text \<open>The harness and the strategy have one record in each of two inventories, with one digest.\<close>

definition shared_row :: "pydict \<Rightarrow> pydict \<Rightarrow> string \<Rightarrow> pydict res" where
  "shared_row prepared audit path =
     bind_res (input_row prepared path) (\<lambda>row.
     bind_res (input_row audit path) (\<lambda>row'.
     bind_res (frontend_require (py_eq (dget row' ''sha256'') (dget row ''sha256''))
       ''digest differs between dependency and analyzer inputs'') (\<lambda>_. Inr row)))"

definition without_key :: "string \<Rightarrow> pydict \<Rightarrow> pydict" where
  "without_key k d = filter (\<lambda>(k', v). k' \<noteq> k) d"

text \<open>The one parsed stream, bound to exactly one retained preprocessing artifact.\<close>

definition parsed_stream :: "pydict \<Rightarrow> pydict res" where
  "parsed_stream audit = (case dget audit ''parsed_streams'' of
     PList vs \<Rightarrow>
       (case vs of
          [] \<Rightarrow> Inl (frontend_error ''actual parsed-stream inventory is missing or ambiguous'')
        | v # others \<Rightarrow>
            if others \<noteq> [] then Inl (frontend_error ''actual parsed-stream inventory is missing or ambiguous'')
            else bind_res (pget v ''source'') (\<lambda>src.
              bind_res (frontend_require (src = PStr HARNESS) ''actual parsed-stream inventory is missing or ambiguous'') (\<lambda>_.
              (case v of
                 PDict stream \<Rightarrow>
                   bind_res (frontend_require (case dget stream ''path'' of PStr p \<Rightarrow> ends_with ''.pp'' p | _ \<Rightarrow> False)
                     ''actual .pp stream is not uniquely bound to retained preprocessing'') (\<lambda>_.
                   bind_res (need_list (dget_or audit ''retained_preprocessing'' (PList []))) (\<lambda>kept.
                   bind_res (frontend_require (length (filter (\<lambda>r. py_eq r (PDict (without_key ''source'' stream))) kept) = 1)
                     ''actual .pp stream is not uniquely bound to retained preprocessing'') (\<lambda>_. Inr stream)))
               | _ \<Rightarrow> Inl (Exn AttributeError ''items'')))))
   | _ \<Rightarrow> Inl (frontend_error ''actual parsed-stream inventory is missing or ambiguous''))"

text \<open>One helper: the same C tokens, and the prefix of the selected variant.\<close>

definition compare_helper :: "host \<Rightarrow> py \<Rightarrow> string \<Rightarrow> string \<Rightarrow> string \<Rightarrow> py res" where
  "compare_helper h target raw expanded name =
     bind_res (extract_function raw name) (\<lambda>original.
     bind_res (extract_function expanded name) (\<lambda>parsed.
     bind_res (frontend_require (fn_tokens original = fn_tokens parsed) ''preprocessing changed selected helper C'') (\<lambda>_.
     bind_res (expected_prefix h target name) (\<lambda>expected.
     bind_res (frontend_require (fn_prefix parsed = expected) ''actual inline expansion differs'') (\<lambda>_.
       Inr (PDict [(''function'', PStr name), (''declaration_prefix'', PList (map PStr (fn_prefix parsed))),
                   (''c_token_sha256'', PStr (token_hash h (fn_tokens parsed)))]))))))"

definition compare_witness :: "host \<Rightarrow> string \<Rightarrow> string \<Rightarrow> string \<Rightarrow> py res" where
  "compare_witness h raw expanded name =
     bind_res (extract_function raw name) (\<lambda>original.
     bind_res (extract_function expanded name) (\<lambda>parsed.
     bind_res (frontend_require (fn_tokens original = fn_tokens parsed \<and> fn_prefix original = fn_prefix parsed
         \<and> fn_prefix parsed = [''u32'']) ''preprocessing changed project witness C/declaration'') (\<lambda>_.
       Inr (PDict [(''function'', PStr name), (''declaration_prefix'', PList (map PStr (fn_prefix parsed))),
                   (''c_token_sha256'', PStr (token_hash h (fn_tokens parsed)))]))))"

text \<open>The part of the envelope that compares the raw texts with the parsed one.\<close>

definition compare_texts :: "host \<Rightarrow> py \<Rightarrow> string \<Rightarrow> string \<Rightarrow> string \<Rightarrow> pydict res" where
  "compare_texts h target raw strategy expanded =
     bind_res (annotation_identity h raw strategy expanded) (\<lambda>annotations.
     bind_res (mapM (compare_helper h target raw expanded) FUNCTIONS) (\<lambda>helpers.
     bind_res (mapM (compare_witness h raw expanded) WITNESSES) (\<lambda>witnesses.
       Inr [(''functions'', PList helpers), (''witnesses'', PList witnesses), (''annotations'', PDict annotations)])))"

record actual_sources =
  ac_raw :: string
  ac_strategy :: string
  ac_expanded :: string
  ac_typedefs :: pydict
  ac_harness_sha :: py
  ac_strategy_sha :: py
  ac_stream :: pydict

definition read_sources ::
  "host \<Rightarrow> tools \<Rightarrow> reader \<Rightarrow> string \<Rightarrow> string \<Rightarrow> pydict \<Rightarrow> pydict \<Rightarrow> actual_sources res" where
  "read_sources h os reader out base prepared audit =
     bind_res (shared_row prepared audit (path_join base HARNESS)) (\<lambda>row.
     bind_res (ditem row ''sha256'') (\<lambda>d.
     bind_res (checked_text h os reader out (path_join base HARNESS) d) (\<lambda>raw.
     bind_res (typedefs raw) (\<lambda>types.
     bind_res (shared_row prepared audit (path_join base STRATEGY)) (\<lambda>row'.
     bind_res (ditem row' ''sha256'') (\<lambda>d'.
     bind_res (checked_text h os reader out (path_join base STRATEGY) d') (\<lambda>strategy.
     bind_res (parsed_stream audit) (\<lambda>stream.
     bind_res (item_str stream ''absolute_path'') (\<lambda>p. bind_res (ditem stream ''sha256'') (\<lambda>sd.
     bind_res (checked_text h os reader out p sd) (\<lambda>expanded.
     bind_res (typedefs expanded) (\<lambda>types'.
     bind_res (frontend_require (py_eq (PDict types') (PDict types)) ''actual typedefs differ from the raw source'') (\<lambda>_.
       Inr \<lparr>ac_raw = raw, ac_strategy = strategy, ac_expanded = expanded, ac_typedefs = types,
            ac_harness_sha = d, ac_strategy_sha = d', ac_stream = stream\<rparr>)))))))))))))"

section \<open>validate_actual and observation\<close>

text \<open>The gates before the texts: commands, diagnostics, artifacts, fixture source and header.\<close>

definition check_stages ::
  "host \<Rightarrow> tools \<Rightarrow> reader \<Rightarrow> string \<Rightarrow> pydict \<Rightarrow> py \<Rightarrow> pydict \<Rightarrow> pydict \<Rightarrow> py \<Rightarrow> py \<Rightarrow> pydict \<Rightarrow> string \<Rightarrow> (pydict \<times> pydict) res" where
  "check_stages h os reader base policy target model prepared fixture command audit out =
     bind_res (expected_cpp h target model) (\<lambda>cpp.
     bind_res (check_selector h cpp target) (\<lambda>_.
     bind_res (check_analyzer base cpp prepared command) (\<lambda>_.
     bind_res (check_dependency h base target cpp prepared out) (\<lambda>_.
     bind_res (check_fixture_command h base target model cpp prepared fixture out) (\<lambda>_.
     (case fixture of
        PDict fx \<Rightarrow>
          bind_res (check_diagnostics h os reader out policy fx) (\<lambda>_.
          bind_res (fixture_artifacts h os reader target model prepared fx out) (\<lambda>observed.
          bind_res (check_fixture_source h os reader out base fx) (\<lambda>_.
          bind_res (allM (check_header h reader out base) [prepared, fx, audit]) (\<lambda>_. Inr (fx, observed)))))
      | _ \<Rightarrow> Inl (frontend_error ''did not complete successfully'')))))))"

definition validate_actual ::
  "host \<Rightarrow> tools \<Rightarrow> reader \<Rightarrow> string \<Rightarrow> py \<Rightarrow> pydict \<Rightarrow> pydict \<Rightarrow> py \<Rightarrow> py \<Rightarrow> pydict \<Rightarrow> pydict option res" where
  "validate_actual h os reader project target model prepared fixture command audit =
     bind_res (frontend_identity h (Some project) target) (\<lambda>policy. case policy of
       None \<Rightarrow> Inr None
     | Some d \<Rightarrow>
         bind_res (item_str prepared ''path'') (\<lambda>p.
         bind_res (check_stages h os reader (resolve h project) d target model prepared fixture command audit (path_parent p)) (\<lambda>(fx, observed).
         bind_res (read_sources h os reader (path_parent p) (resolve h project) prepared audit) (\<lambda>src.
         bind_res (compare_texts h target (ac_raw src) (ac_strategy src) (ac_expanded src)) (\<lambda>compared.
         bind_res (cpp_arguments h target) (\<lambda>flags.
         (case file_sha256 h (path_join (resolve h project) HEADER) of
            None \<Rightarrow> Inl (Exn OSError HEADER)
          | Some header \<Rightarrow> Inr (Some (
              [(''schema_version'', PInt 1), (''status'', PStr ''checked''), (''policy'', PDict d),
               (''cpp_definition'', PStr (hd flags))] @ compared @
              [(''typedefs'', PDict (ac_typedefs src)), (''fixture_object'', PDict observed),
               (''harness_sha256'', ac_harness_sha src), (''strategy_sha256'', ac_strategy_sha src),
               (''parsed_stream'', PDict (ac_stream src)), (''fixture_sha256'', dget fx ''fixture_sha256''),
               (''inline_header'', PDict [(''absolute_path'', PStr (path_join (resolve h project) HEADER)), (''sha256'', PStr header)]),
               (''limitations'', PList (map PStr
                  [''An observed attribute is not a proof of instrumentation or generated code.'',
                   ''Source contracts, runtime guards, warnings and calibration are separate gates.'']))])))))))))"

text \<open>One entry of the combined inventory: an absolute path has one digest.\<close>

definition inventory_add :: "(string \<times> string) list \<Rightarrow> py \<times> py \<Rightarrow> (string \<times> string) list res" where
  "inventory_add combined row = (case row of
     (PStr f, PStr d) \<Rightarrow>
       bind_res (frontend_require (is_absolute f \<and> is_hex 64 d) ''malformed frontend input-integrity record'') (\<lambda>_.
       bind_res (frontend_require (map_of combined f = None \<or> map_of combined f = Some d)
         ''conflicting shared and target input digests'') (\<lambda>_.
         Inr (if map_of combined f = None then combined @ [(f, d)] else combined)))
   | _ \<Rightarrow> Inl (frontend_error ''malformed frontend input-integrity record''))"

definition integrity_rows :: "pydict \<Rightarrow> (py \<times> py) list res" where
  "integrity_rows evidence = (case dget evidence ''integrity_inputs'' of
     PList vs \<Rightarrow>
       if vs = [] then Inl (frontend_error ''missing target input-integrity inventory'')
       else mapM (\<lambda>v. case v of
           PDict row \<Rightarrow> Inr (dget row ''absolute_path'', dget row ''sha256'')
         | _ \<Rightarrow> Inl (frontend_error ''malformed target input-integrity record'')) vs
   | _ \<Rightarrow> Inl (frontend_error ''missing target input-integrity inventory''))"

definition combined_inventory :: "pydict \<Rightarrow> pydict \<Rightarrow> (string \<times> string) list res" where
  "combined_inventory shared evidence =
     bind_res (foldM inventory_add [] (map (\<lambda>(f, d). (PStr f, d)) shared)) (\<lambda>first.
     bind_res (integrity_rows evidence) (\<lambda>rows. foldM inventory_add first rows))"

text \<open>\<^verbatim>\<open>bound\<close>: a record whose path and digest the inventory holds.\<close>

definition bound_row :: "(string \<times> string) list \<Rightarrow> py \<Rightarrow> unit res" where
  "bound_row combined v = (case v of
     PDict row \<Rightarrow>
       (case (dget row ''absolute_path'', dget row ''sha256'') of
          (PStr f, PStr d) \<Rightarrow> frontend_require (map_of combined f = Some d)
            ''frontend metadata is absent from or contradicts the combined input inventory''
        | _ \<Rightarrow> Inl (frontend_error ''frontend metadata is absent from or contradicts the combined input inventory''))
   | _ \<Rightarrow> Inl (frontend_error ''frontend metadata is absent from or contradicts the combined input inventory''))"

definition bound_section :: "(string \<times> string) list \<Rightarrow> py \<Rightarrow> unit res" where
  "bound_section combined sec = (case sec of
     PDict d \<Rightarrow>
       (case dget d ''inputs'' of
          PList rows \<Rightarrow> if rows = [] then Inl (frontend_error ''missing consumed input records'') else allM (bound_row combined) rows
        | _ \<Rightarrow> Inl (frontend_error ''missing consumed input records''))
   | _ \<Rightarrow> Inl (frontend_error ''missing consumed input records''))"

definition bound_evidence :: "host \<Rightarrow> string \<Rightarrow> (string \<times> string) list \<Rightarrow> pydict \<Rightarrow> (pydict \<times> pydict \<times> pydict) res" where
  "bound_evidence h base combined evidence =
     bind_res (ditem evidence ''input'') (\<lambda>i. bind_res (ditem evidence ''kernel_model_check'') (\<lambda>k.
     bind_res (ditem evidence ''analyzer_audit'') (\<lambda>a.
     bind_res (allM (bound_section combined) [i, k, a]) (\<lambda>_.
     (case (i, k, a) of
        (PDict prepared, PDict fixture, PDict audit) \<Rightarrow>
          bind_res (allM (\<lambda>f. bound_row combined (dget fixture f)) [''object'', ''dependencies'', ''diagnostics'']) (\<lambda>_.
          bind_res (need_list (dget_or audit ''parsed_streams'' (PList []))) (\<lambda>streams.
          bind_res (allM (bound_row combined) streams) (\<lambda>_.
          bind_res (bound_row combined (PDict [(''absolute_path'', PStr (path_join base FIXTURE)),
              (''sha256'', dget fixture ''fixture_sha256'')])) (\<lambda>_.
          bind_res (frontend_require (map_of combined (path_join base ''fragma/frontend_policy.py'') \<noteq> None
              \<and> map_of combined (path_join base ''fragma/elf.py'') \<noteq> None)
            ''frontend implementation is not an inventoried input'') (\<lambda>_. Inr (prepared, fixture, audit))))))
      | _ \<Rightarrow> Inl (frontend_error ''missing consumed input records''))))))"

text \<open>The files a review has to bind, with the digests observed.\<close>

definition reviewed_hashes :: "string \<Rightarrow> (string \<times> string) list \<Rightarrow> pydict \<Rightarrow> (string \<times> py) list res" where
  "reviewed_hashes base combined actual =
     bind_res (ditem actual ''harness_sha256'') (\<lambda>hs. bind_res (ditem actual ''fixture_sha256'') (\<lambda>fs.
     bind_res (ditem actual ''inline_header'') (\<lambda>ih. bind_res (pindex ih ''sha256'') (\<lambda>ih.
     bind_res (ditem actual ''strategy_sha256'') (\<lambda>ss.
     Inr [(HARNESS, hs), (FIXTURE, fs), (HEADER, ih), (STRATEGY, ss),
          (''fragma/frontend_policy.py'', PStr (the (map_of combined (path_join base ''fragma/frontend_policy.py'')))),
          (''fragma/elf.py'', PStr (the (map_of combined (path_join base ''fragma/elf.py''))))])))))"

definition check_frontend_review :: "string \<Rightarrow> (string \<times> string) list \<Rightarrow> pydict \<Rightarrow> pydict \<Rightarrow> py \<Rightarrow> unit res" where
  "check_frontend_review base combined policy actual review =
     (if review = PNone then Inr ()
      else bind_res (pindex review ''review_context'') (\<lambda>context.
        bind_res (pget_or context ''preprocessing'' (PDict [])) (\<lambda>pre.
        bind_res (pget pre ''frontend_policy'') (\<lambda>recorded.
        bind_res (json_agrees recorded (PDict policy)) (\<lambda>same.
        bind_res (frontend_require same ''review does not bind the observed frontend policy'') (\<lambda>_.
        bind_res (reviewed_hashes base combined actual) (\<lambda>expected.
        bind_res (pget_or context ''file_hashes'' (PDict [])) (\<lambda>fh.
        bind_res (mapM (\<lambda>(f, d). bind_res (pget fh f) (\<lambda>r. Inr (r, f, d))) expected) (\<lambda>rows.
          frontend_require (list_all (\<lambda>(r, f, d). py_eq r d
              \<and> (case d of PStr s \<Rightarrow> map_of combined (path_join base f) = Some s | _ \<Rightarrow> False)) rows)
            ''review does not bind the observed frontend policy and implementation'')))))))))"

definition frontend_observation ::
  "host \<Rightarrow> tools \<Rightarrow> reader \<Rightarrow> string \<Rightarrow> py \<Rightarrow> pydict \<Rightarrow> pydict \<Rightarrow> py \<Rightarrow> pydict option res" where
  "frontend_observation h os reader project target model evidence shared =
     bind_res (frontend_identity h (Some project) target) (\<lambda>policy. case policy of
       None \<Rightarrow> bind_res (frontend_require (dget evidence ''validated_frontend_policy'' = PNone)
         ''frontend envelope has no declared policy'') (\<lambda>_. Inr None)
     | Some d \<Rightarrow>
         (case (dget evidence ''validated_frontend_policy'', shared) of
            (PDict saved, PDict inventory) \<Rightarrow>
              bind_res (combined_inventory inventory evidence) (\<lambda>combined.
              bind_res (bound_evidence h (resolve h project) combined evidence) (\<lambda>(prepared, fixture, audit).
              bind_res (ditem evidence ''analysis_command'') (\<lambda>command.
              bind_res (validate_actual h os reader project target model prepared (PDict fixture) command audit) (\<lambda>actual.
              (case actual of
                 None \<Rightarrow> Inl (frontend_error ''saved frontend envelope differs from actual inputs'')
               | Some v \<Rightarrow>
                   bind_res (json_agrees (PDict v) (PDict saved)) (\<lambda>same.
                   bind_res (frontend_require same ''saved frontend envelope differs from actual inputs'') (\<lambda>_.
                   bind_res (check_frontend_review (resolve h project) combined d v (dget evidence ''validated_review'')) (\<lambda>_.
                     Inr (Some v)))))))))
          | _ \<Rightarrow> Inl (frontend_error ''declared policy lacks its actual frontend envelope'')))"

text \<open>\<^verbatim>\<open>logical_observation\<close>: the fields that do not depend on where the run was.\<close>

definition LOGICAL :: "string list" where
  "LOGICAL = [''schema_version'', ''status'', ''policy'', ''cpp_definition'', ''functions'', ''witnesses'', ''annotations'',
     ''typedefs'', ''fixture_object'', ''harness_sha256'', ''strategy_sha256'', ''fixture_sha256'', ''limitations'']"

definition logical_observation :: "pydict option \<Rightarrow> pydict option res" where
  "logical_observation v = (case v of
     None \<Rightarrow> Inr None
   | Some d \<Rightarrow>
       bind_res (mapM (\<lambda>k. bind_res (ditem d k) (\<lambda>x. Inr (k, x))) LOGICAL) (\<lambda>items.
       bind_res (ditem d ''inline_header'') (\<lambda>ih. bind_res (pindex ih ''sha256'') (\<lambda>sha.
         Inr (Some (items @ [(''inline_header_sha256'', sha)]))))))"

section \<open>What the comparison of the texts promises\<close>

text \<open>
  What the raw texts and the parsed text have in common: the annotations in order, and every helper
  and witness with the same C tokens; the helpers with the prefix \<open>pre\<close> of the selected variant.
\<close>

definition same_tokens :: "string \<Rightarrow> string \<Rightarrow> string list \<Rightarrow> string \<Rightarrow> bool" where
  "same_tokens raw expanded p name = (case (extract_function raw name, extract_function expanded name) of
     (Inr a, Inr b) \<Rightarrow> fn_tokens a = fn_tokens b \<and> fn_prefix b = p
   | _ \<Rightarrow> False)"

definition texts_agree :: "(string \<Rightarrow> string list) \<Rightarrow> string \<Rightarrow> string \<Rightarrow> string \<Rightarrow> bool" where
  "texts_agree pre raw strategy expanded =
     (list_all (\<lambda>name. same_tokens raw expanded (pre name) name) FUNCTIONS
      \<and> list_all (same_tokens raw expanded [''u32'']) WITNESSES
      \<and> (case (annotation_tokens strategy, annotation_tokens raw) of
           (Inr first, Inr second) \<Rightarrow> annotation_tokens expanded = Inr (first @ second)
         | _ \<Rightarrow> False))"

lemma compare_helper_Inr:
  assumes "compare_helper h target raw expanded name = Inr v"
  shows "\<exists>p. expected_prefix h target name = Inr p \<and> same_tokens raw expanded p name"
proof -
  from assms obtain f g where f: "extract_function raw name = Inr f" "extract_function expanded name = Inr g"
      "fn_tokens f = fn_tokens g" "expected_prefix h target name = Inr (fn_prefix g)"
    unfolding compare_helper_def by (auto simp: res_simps)
  then show ?thesis by (auto simp: same_tokens_def)
qed

lemma compare_witness_Inr: "compare_witness h raw expanded name = Inr v \<Longrightarrow> same_tokens raw expanded [''u32''] name"
  unfolding compare_witness_def by (auto simp: res_simps same_tokens_def)

lemma mapM_each: "mapM f xs = Inr ys \<Longrightarrow> x \<in> set xs \<Longrightarrow> \<exists>y. f x = Inr y"
  by (metis in_set_conv_nth mapM_nth)

lemma compare_texts_agree:
  assumes "compare_texts h target raw strategy expanded = Inr v"
  shows "\<exists>pre. (\<forall>name\<in>set FUNCTIONS. expected_prefix h target name = Inr (pre name)) \<and> texts_agree pre raw strategy expanded"
proof -
  from assms obtain an hs ws where *: "annotation_identity h raw strategy expanded = Inr an"
      "mapM (compare_helper h target raw expanded) FUNCTIONS = Inr hs"
      "mapM (compare_witness h raw expanded) WITNESSES = Inr ws"
    unfolding compare_texts_def by (auto simp: res_simps)
  have "\<forall>name\<in>set FUNCTIONS. \<exists>p. expected_prefix h target name = Inr p \<and> same_tokens raw expanded p name"
    using mapM_each [OF *(2)] compare_helper_Inr by blast
  then obtain pre where pre: "\<forall>name\<in>set FUNCTIONS. expected_prefix h target name = Inr (pre name) \<and> same_tokens raw expanded (pre name) name"
    by metis
  moreover have "list_all (same_tokens raw expanded [''u32'']) WITNESSES"
    unfolding list_all_iff using mapM_each [OF *(3)] compare_witness_Inr by blast
  moreover have "case (annotation_tokens strategy, annotation_tokens raw) of
      (Inr first, Inr second) \<Rightarrow> annotation_tokens expanded = Inr (first @ second) | _ \<Rightarrow> False"
    using *(1) unfolding annotation_identity_def by (auto simp: res_simps)
  ultimately show ?thesis unfolding texts_agree_def list_all_iff by blast
qed

section \<open>What an accepted envelope promises\<close>

lemma checked_bytes_Inr:
  assumes "checked_bytes h reader out path expected = Inr data"
  shows "\<exists>d. expected = PStr d \<and> is_hex 64 d \<and> sha256_hex h data = d"
  using assms unfolding checked_bytes_def case_py_Inr bind_res_Inr check_iff by auto

lemma checked_text_Inr:
  assumes "checked_text h os reader out path expected = Inr s"
  shows "\<exists>d data. expected = PStr d \<and> sha256_hex h data = d \<and> utf8_decode os data = Some s"
  using assms checked_bytes_Inr unfolding checked_text_def decode_def bind_res_Inr case_option_Inr by fastforce

lemma input_row_Inr:
  assumes "input_row sec path = Inr row"
  shows "\<exists>vs. dget sec ''inputs'' = PList vs \<and> PDict row \<in> set vs \<and> dget row ''absolute_path'' = PStr path"
proof -
  from assms obtain vs rows where vs: "dget sec ''inputs'' = PList vs" "those_all (map as_dict vs) = Some rows"
      and row: "filter (\<lambda>row. dget row ''absolute_path'' = PStr path) rows = [row]"
    unfolding input_row_def case_py_Inr case_option_Inr case_Cons_Inr if_Inl_Inr by auto
  have "row \<in> set (filter (\<lambda>row. dget row ''absolute_path'' = PStr path) rows)" unfolding row by simp
  then have "row \<in> set rows" "dget row ''absolute_path'' = PStr path" by simp_all
  moreover from vs(2) have "map as_dict vs = map Some rows" by (simp add: those_all_Some_iff)
  then have "Some row \<in> set (map as_dict vs)" using \<open>row \<in> set rows\<close> by simp
  then have "PDict row \<in> set vs" by (auto simp: as_dict_Some eq_commute [of "Some _"])
  ultimately show ?thesis using vs(1) by blast
qed

text \<open>A text whose digest is recorded for this path in both inventories.\<close>

definition bound_text :: "host \<Rightarrow> tools \<Rightarrow> pydict \<Rightarrow> pydict \<Rightarrow> string \<Rightarrow> string \<Rightarrow> bool" where
  "bound_text h os prepared audit path s =
     (\<exists>data row row'. utf8_decode os data = Some s \<and> input_row prepared path = Inr row \<and> input_row audit path = Inr row'
        \<and> dget row ''sha256'' = PStr (sha256_hex h data) \<and> dget row' ''sha256'' = PStr (sha256_hex h data))"

lemma shared_row_text:
  assumes "shared_row prepared audit path = Inr row" and "ditem row ''sha256'' = Inr d"
    and "checked_text h os reader out path d = Inr s"
  shows "bound_text h os prepared audit path s"
proof -
  from assms(1) obtain row' where r: "input_row prepared path = Inr row" "input_row audit path = Inr row'"
      "py_eq (dget row' ''sha256'') (dget row ''sha256'')"
    unfolding shared_row_def bind_res_Inr check_iff by auto
  from checked_text_Inr [OF assms(3)] obtain data where data: "d = PStr (sha256_hex h data)" "utf8_decode os data = Some s" by blast
  then have "dget row ''sha256'' = PStr (sha256_hex h data)" using assms(2) by (simp add: ditem_Inr dget_def)
  with r data show ?thesis unfolding bound_text_def by (auto simp: py_eq_PStr)
qed

lemma read_sources_Inr:
  assumes "read_sources h os reader out base prepared audit = Inr src"
  shows "bound_text h os prepared audit (path_join base HARNESS) (ac_raw src)
    \<and> bound_text h os prepared audit (path_join base STRATEGY) (ac_strategy src)
    \<and> (\<exists>data. dget (ac_stream src) ''sha256'' = PStr (sha256_hex h data) \<and> utf8_decode os data = Some (ac_expanded src))"
proof -
  from assms obtain row d raw row' d' strategy stream p sd expanded types where
      s: "shared_row prepared audit (path_join base HARNESS) = Inr row" "ditem row ''sha256'' = Inr d"
        "checked_text h os reader out (path_join base HARNESS) d = Inr raw"
        "shared_row prepared audit (path_join base STRATEGY) = Inr row'" "ditem row' ''sha256'' = Inr d'"
        "checked_text h os reader out (path_join base STRATEGY) d' = Inr strategy"
        "ditem stream ''sha256'' = Inr sd" "checked_text h os reader out p sd = Inr expanded"
      and src: "src = \<lparr>ac_raw = raw, ac_strategy = strategy, ac_expanded = expanded, ac_typedefs = types,
            ac_harness_sha = d, ac_strategy_sha = d', ac_stream = stream\<rparr>"
    unfolding read_sources_def bind_res_Inr sum.inject by (elim exE conjE) (rule that; (assumption | rule sym, assumption))
  from checked_text_Inr [OF s(8)] s(7) have "\<exists>data. dget stream ''sha256'' = PStr (sha256_hex h data) \<and> utf8_decode os data = Some expanded"
    by (auto simp: ditem_Inr dget_def)
  with shared_row_text [OF s(1-3)] shared_row_text [OF s(4-6)] show ?thesis by (simp add: src)
qed

text \<open>
  An accepted envelope of an opted-in target: the texts compared are those whose digests both the
  dependency run and the analyzer recorded for the controlled files, the parsed stream is the one
  whose digest the analyzer's audit holds, and the texts agree.
\<close>

lemma validate_actual_sound:
  assumes "validate_actual h os reader project target model prepared fixture command audit = Inr (Some v)"
  shows "\<exists>raw strategy expanded pre.
     bound_text h os prepared audit (path_join (resolve h project) HARNESS) raw
   \<and> bound_text h os prepared audit (path_join (resolve h project) STRATEGY) strategy
   \<and> (\<forall>name\<in>set FUNCTIONS. expected_prefix h target name = Inr (pre name)) \<and> texts_agree pre raw strategy expanded"
proof -
  from assms obtain p src compared where
    "read_sources h os reader (path_parent p) (resolve h project) prepared audit = Inr src"
    "compare_texts h target (ac_raw src) (ac_strategy src) (ac_expanded src) = Inr compared"
    unfolding validate_actual_def by (auto simp: res_simps split: option.splits)
  from read_sources_Inr [OF this(1)] compare_texts_agree [OF this(2)] show ?thesis by blast
qed

end
