(* ===== verification/Review_Gate.thy ===== *)
theory Review_Gate
  imports Frontend_Actual Analysis_Policy
begin

text \<open>
  \<^verbatim>\<open>fragma/integrity.py\<close>, the two operations on a target's evidence: \<^verbatim>\<open>validate_review\<close>, which lets a
  scoped review count only for the exact revision, profile, tools, analysis model, pipeline,
  preprocessing, proof search and files it was written for, and \<^verbatim>\<open>invalidate\<close>, which withdraws a
  verdict when an input changed. With them the setting of \<^verbatim>\<open>common24_calibration.py\<close> that a review
  has to name (\<^verbatim>\<open>identity\<close>, \<^verbatim>\<open>required_files\<close>, \<^verbatim>\<open>review_identity\<close>).
\<close>

section \<open>The compiler-calibration setting\<close>

abbreviation calibration_error :: "string \<Rightarrow> exn" where
  "calibration_error m \<equiv> Exn CalibrationError m"

definition CALIBRATION_SOURCE :: string where "CALIBRATION_SOURCE = ''common/annotated/compiler-calibration.c''"
definition SOURCE_SHA256 :: string where
  "SOURCE_SHA256 = ''84a5ffce5e314761a57769837f13550323d4bfbaa7e9126cecf70a029fac157d''"

definition CASES :: "string list" where
  "CASES = [''decode_be'', ''decode_le'', ''store_be_0'', ''store_be_1'', ''store_be_2'', ''store_le_0'', ''store_le_1'',
     ''store_le_2'', ''roundtrip_be'', ''roundtrip_le'', ''maximum_be_0'', ''maximum_be_1'', ''maximum_be_2'', ''maximum_roundtrip'',
     ''discarded_le_0'', ''discarded_le_1'', ''discarded_le_2'', ''discarded_roundtrip'', ''memory_0'', ''memory_1'', ''memory_2'',
     ''memory_3'']"

definition calibration_source_ok :: "host \<Rightarrow> string \<Rightarrow> bool" where
  "calibration_source_ok h project =
     (let src = path_join (resolve h project) CALIBRATION_SOURCE in
      is_file h src \<and> \<not> is_symlink h src \<and> resolve h src = src \<and> file_sha256 h src = Some SOURCE_SHA256)"

definition calibration_identity :: "host \<Rightarrow> string option \<Rightarrow> pydict \<Rightarrow> pydict option res" where
  "calibration_identity h project target =
     (if \<not> has_key target ''compiler_calibration'' then Inr None
      else
        bind_res (exact_dict (calibration_error ''missing or unknown compiler-calibration setting/source'') [''kind'', ''source'']
          (dget target ''compiler_calibration'')) (\<lambda>setting.
        bind_res (check (dget setting ''kind'' = PStr ''common24-fixed22'' \<and> dget setting ''source'' = PStr CALIBRATION_SOURCE)
          (calibration_error ''missing or unknown compiler-calibration setting/source'')) (\<lambda>_.
        bind_res (frontend_identity h project (PDict target)) (\<lambda>policy.
        bind_res (check (policy \<noteq> None \<and> dget target ''role'' = PStr ''proof'' \<and> dget target ''analysis'' = PStr ''wp''
            \<and> dget target ''functions'' = PList (map PStr FUNCTIONS))
          (calibration_error ''compiler calibration requires the common24 WP scope'')) (\<lambda>_.
        bind_res (check (case project of None \<Rightarrow> True | Some p \<Rightarrow> calibration_source_ok h p)
          (calibration_error ''reviewed calibration source changed or is missing'')) (\<lambda>_.
          Inr (Some setting)))))))"

definition calibration_files :: "host \<Rightarrow> pydict \<Rightarrow> string list res" where
  "calibration_files h target =
     bind_res (calibration_identity h None target) (\<lambda>setting. Inr (case setting of
       None \<Rightarrow> []
     | Some _ \<Rightarrow> [CALIBRATION_SOURCE, ''fragma/common24_calibration.py'', ''fragma/common24_controls.py'', ''fragma/elf.py'']))"

definition review_identity :: "host \<Rightarrow> pydict \<Rightarrow> py res" where
  "review_identity h target =
     bind_res (calibration_identity h None target) (\<lambda>setting. Inr (case setting of
       None \<Rightarrow> PNone
     | Some s \<Rightarrow> PDict [(''kind'', PStr ''fragma-common24-compiler-sensitivity''), (''setting'', PDict s),
         (''environment_policy'', PStr ''common24-compiler-clean-v1''), (''cases'', PList (map PStr CASES)),
         (''fixture_controls'', PList (map PStr [''wrong-type'', ''wrong-inline'']))]))"

section \<open>The review context\<close>

text \<open>The dictionary \<^verbatim>\<open>pipeline_identity\<close> returns for a plan.\<close>

definition eva_value :: "string \<Rightarrow> eva_settings \<Rightarrow> pydict" where
  "eva_value kind s = [(''kind'', PStr kind), (''entry'', PStr (entry s)), (''eva_slevel'', PInt (int (eva_slevel s))),
     (''eva_builtins'', PList (map PStr (eva_builtins s))), (''eva_auto_builtins'', PBool (eva_auto_builtins s))]"

fun pipeline_value :: "pipeline \<Rightarrow> pydict" where
  "pipeline_value (WpRte fs) = [(''kind'', PStr ''wp-rte''), (''functions'', PList (map PStr fs))]"
| "pipeline_value (EvaOnly s) = eva_value ''eva'' s"
| "pipeline_value (RteEva s fs) =
     eva_value ''rte-eva'' s @ [(''rte_functions'', PList (map PStr fs)), (''rte_use_eva_results'', PBool False)]"

abbreviation review_error :: "string \<Rightarrow> exn" where
  "review_error m \<equiv> Exn SourceError m"

text \<open>An \<^verbatim>\<open>AnalysisPolicyError\<close> is reported as a \<^verbatim>\<open>SourceError\<close>.\<close>

definition policy_as_source :: "'a res \<Rightarrow> 'a res" where
  "policy_as_source r = (case r of
     Inl (Exn AnalysisPolicyError m) \<Rightarrow> Inl (review_error (''unsupported arithmetic/memory/runtime analysis policy: '' @ m))
   | _ \<Rightarrow> r)"

text \<open>The preprocessing a review of this target must name.\<close>

definition preprocessing_value :: "host \<Rightarrow> pydict \<Rightarrow> pydict \<Rightarrow> pydict res" where
  "preprocessing_value h target prepared =
     bind_res (ditem prepared ''frama_cpp_command'') (\<lambda>cpp. bind_res (ditem prepared ''annotations'') (\<lambda>ann.
     bind_res (ditem target ''input_mode'') (\<lambda>mode.
     bind_res (frontend_identity h None (PDict target)) (\<lambda>policy.
       Inr ([(''cpp_command'', cpp), (''annotations'', ann), (''input_mode'', mode), (''extra_args'', PList [PStr ''-std=gnu11''])]
            @ (case policy of None \<Rightarrow> [] | Some d \<Rightarrow> [(''frontend_policy'', PDict d)]))))))"

definition search_value :: "pydict \<Rightarrow> pydict" where
  "search_value target = map (\<lambda>k. (k, dget target k)) (filter (has_key target)
     [''wp_strategy'', ''wp_strategy_file'', ''wp_strategy_provers'', ''wp_auto_depth'', ''wp_smoke_timeout''])"

text \<open>The identities a review binds besides its files, each compared strictly.\<close>

definition check_context :: "host \<Rightarrow> pydict \<Rightarrow> py \<Rightarrow> pydict \<Rightarrow> pydict \<Rightarrow> pydict \<Rightarrow> pydict \<Rightarrow> unit res" where
  "check_context h target revision model tools prepared context =
     bind_res (check (py_eq (dget context ''kernel_revision'') revision) (review_error ''review context source revision/profile mismatch'')) (\<lambda>_.
     bind_res (ditem target ''profile'') (\<lambda>profile.
     bind_res (check (py_eq (dget context ''profile'') profile) (review_error ''review context source revision/profile mismatch'')) (\<lambda>_.
     bind_res (ditem tools ''lock_sha256'') (\<lambda>lock.
     bind_res (check (py_eq (dget context ''toolchain_lock_sha256'') lock) (review_error ''review context toolchain lock mismatch'')) (\<lambda>_.
     bind_res (ditem model ''analysis'') (\<lambda>declared.
     bind_res (policy_as_source (model_identity declared)) (\<lambda>analysis.
     bind_res (policy_as_source (pipeline_identity (PDict target))) (\<lambda>pipeline.
     bind_res (check (same_json (dget context ''analysis'') (PDict analysis))
       (review_error ''review context arithmetic/memory/runtime model mismatch'')) (\<lambda>_.
     bind_res (check (same_json (dget context ''analysis_pipeline'') (PDict (pipeline_value pipeline)))
       (review_error ''review context analysis pipeline mismatch'')) (\<lambda>_.
     bind_res (preprocessing_value h target prepared) (\<lambda>pre.
     bind_res (check (same_json (dget context ''preprocessing'') (PDict pre))
       (review_error ''review context preprocessing policy mismatch'')) (\<lambda>_.
     bind_res (review_identity h target) (\<lambda>compiler.
     bind_res (check (same_json (dget context ''compiler_calibration'') compiler)
       (review_error ''review context compiler-calibration policy mismatch'')) (\<lambda>_.
     check (same_json (dget_or context ''proof_search'' (PDict [])) (PDict (search_value target)))
       (review_error ''review context proof-search policy mismatch'')))))))))))))))"

section \<open>The files a review binds\<close>

text \<open>\<^verbatim>\<open>str(p.relative_to(base))\<close>\<close>

definition relative_to :: "string \<Rightarrow> string \<Rightarrow> string res" where
  "relative_to p base =
     (if is_relative_to p base
      then Inr (path_str (join ''/'' (drop (length (path_parts base)) (path_parts p))))
      else Inl (Exn ValueError ''is not in the subpath''))"

definition required_of :: "host \<Rightarrow> string \<Rightarrow> pydict \<Rightarrow> pydict \<Rightarrow> py list res" where
  "required_of h project target build =
     bind_res (frontend_files h (PDict target)) (\<lambda>frontend.
     bind_res (calibration_files h target) (\<lambda>calibration.
     bind_res (item_str build ''source'') (\<lambda>kernel. bind_res (item_str target ''source'') (\<lambda>src.
     bind_res (relative_to (path_join kernel src) project) (\<lambda>source_name.
     bind_res (item_str build ''path'') (\<lambda>bp.
     bind_res (relative_to (path_join bp ''fragma-build.json'') project) (\<lambda>build_name.
       Inr (map (dget target) (filter (\<lambda>f. truthy (dget target f)) [''harness'', ''specs'', ''driver'', ''kernel_model_check'', ''wp_strategy_file''])
            @ map PStr ([''fragma/analysis_policy.py''] @ frontend @ calibration
                @ (if frontend = [] then [] else [''fragma/common24.py'']) @ [source_name, build_name])))))))))"

definition names_key :: "pydict \<Rightarrow> py \<Rightarrow> bool" where
  "names_key d v = (case v of PStr s \<Rightarrow> has_key d s | _ \<Rightarrow> False)"

definition check_hashes :: "host \<Rightarrow> string \<Rightarrow> pydict \<Rightarrow> pydict \<Rightarrow> pydict \<Rightarrow> pydict \<Rightarrow> pydict res" where
  "check_hashes h project target model build context = (case dget context ''file_hashes'' of
     PDict hashes \<Rightarrow>
       if hashes = [] then Inl (review_error ''review context must bind its input hashes'')
       else
         bind_res (required_of h project target build) (\<lambda>required.
         bind_res (check (list_all (names_key hashes) required)
           (review_error ''review context omits harness/specification/source/build identity'')) (\<lambda>_.
         bind_res (ditem model ''machdep'') (\<lambda>m. bind_res (pindex m ''sha256'') (\<lambda>machine.
         bind_res (check (case map snd (filter (\<lambda>(f, d). ends_with ''.yaml'' f) hashes) of [d] \<Rightarrow> py_eq d machine | _ \<Rightarrow> False)
           (review_error ''review context does not match the fresh machine description'')) (\<lambda>_. Inr hashes)))))
   | _ \<Rightarrow> Inl (review_error ''review context must bind its input hashes''))"

definition local_path :: "host \<Rightarrow> string \<Rightarrow> py \<Rightarrow> string res" where
  "local_path h project v = (case v of
     PStr f \<Rightarrow>
       bind_res (check (\<not> is_absolute f) (review_error ''review paths must be relative project files'')) (\<lambda>_.
       let p = resolve h (path_join project f) in
       bind_res (check (is_relative_to p project \<and> is_file h p) (review_error ''missing or out-of-project review input'')) (\<lambda>_. Inr p))
   | _ \<Rightarrow> Inl (review_error ''review paths must be relative project files''))"

definition hash_record :: "host \<Rightarrow> string \<Rightarrow> string \<times> py \<Rightarrow> pydict res" where
  "hash_record h project row = (case snd row of
     PStr d \<Rightarrow>
       bind_res (check (is_hex 64 d) (review_error ''invalid reviewed input digest'')) (\<lambda>_.
       bind_res (local_path h project (PStr (fst row))) (\<lambda>p. receipt_for h p (PStr d)))
   | _ \<Rightarrow> Inl (review_error ''invalid reviewed input digest''))"

definition evidence_record :: "host \<Rightarrow> string \<Rightarrow> py \<Rightarrow> pydict res" where
  "evidence_record h project v = bind_res (local_path h project v) (\<lambda>p. receipt_for h p PNone)"

definition section_records :: "host \<Rightarrow> string \<Rightarrow> py \<Rightarrow> pydict list res" where
  "section_records h project sec = (case sec of
     PDict d \<Rightarrow>
       (case dget d ''file_hashes'' of
          PDict hashes \<Rightarrow>
            if hashes = [] then Inl (review_error ''every review must bind explicit file hashes'')
            else
              bind_res (mapM (hash_record h project) hashes) (\<lambda>files.
              (case dget d ''review_evidence'' of
                 PList ev \<Rightarrow>
                   if ev = [] then Inl (review_error ''every review must identify inspectable evidence'')
                   else bind_res (mapM (evidence_record h project) ev) (\<lambda>more_files. Inr (files @ more_files))
               | _ \<Rightarrow> Inl (review_error ''every review must identify inspectable evidence'')))
        | _ \<Rightarrow> Inl (review_error ''every review must bind explicit file hashes''))
   | _ \<Rightarrow> Inl (review_error ''every review must bind explicit file hashes''))"

definition review_sections :: "pydict \<Rightarrow> pydict \<Rightarrow> py list res" where
  "review_sections target context =
     bind_res (need_list (dget_or target ''reviewed_smoke'' (PList []))) (\<lambda>smoke.
     bind_res (need_list (dget_or target ''reviewed_warnings'' (PList []))) (\<lambda>warnings.
       Inr (PDict context # smoke @ warnings)))"

definition tracked_files :: "host \<Rightarrow> string \<Rightarrow> pydict \<Rightarrow> pydict \<Rightarrow> receipt list res" where
  "tracked_files h project target context =
     bind_res (review_sections target context) (\<lambda>sections.
     bind_res (mapM (section_records h project) sections) (\<lambda>groups.
     bind_res (merge_records (concat groups)) (\<lambda>records.
     bind_res (changed_files h (map receipt_entry records)) (\<lambda>changes.
     bind_res (check (changes = []) (review_error ''reviewed inputs changed'')) (\<lambda>_. Inr records)))))"

text \<open>Nothing to validate without a review; otherwise the receipt of the validated review.\<close>

definition validate_review ::
  "host \<Rightarrow> string \<Rightarrow> pydict \<Rightarrow> py \<Rightarrow> pydict \<Rightarrow> pydict \<Rightarrow> pydict \<Rightarrow> pydict \<Rightarrow> pydict option res" where
  "validate_review h project target revision model build tools prepared =
     (if \<not> truthy (dget target ''reviewed_smoke'') \<and> \<not> truthy (dget target ''reviewed_warnings'') then Inr None
      else (case dget target ''review_context'' of
        PDict context \<Rightarrow>
          bind_res (check_context h target revision model tools prepared context) (\<lambda>_.
          bind_res (check_hashes h project target model build context) (\<lambda>hashes.
          bind_res (tracked_files h project target context) (\<lambda>records.
          bind_res (ditem target ''id'') (\<lambda>ident. bind_res (ditem target ''profile'') (\<lambda>profile.
          bind_res (ditem target ''analysis'') (\<lambda>analysis.
            Inr (Some [(''status'', PStr ''passed''), (''target_id'', ident), (''profile'', profile), (''analysis'', analysis),
              (''source_root'', PStr (path_str project)), (''review_context'', PDict context),
              (''reviewed_smoke'', dget_or target ''reviewed_smoke'' (PList [])),
              (''reviewed_warnings'', dget_or target ''reviewed_warnings'' (PList [])),
              (''tracked_files'', PList (map (\<lambda>r. PDict (receipt_entry r)) records))])))))))
      | _ \<Rightarrow> Inl (review_error ''scoped reviews require a review context'')))"

section \<open>invalidate\<close>

definition change_value :: "change \<Rightarrow> py" where
  "change_value c = (case c of (f, d, now) \<Rightarrow>
     PDict [(''absolute_path'', PStr f), (''sha256'', PStr d), (''actual_sha256'', case now of None \<Rightarrow> PNone | Some x \<Rightarrow> PStr x)])"

definition dupdate :: "pydict \<Rightarrow> pydict \<Rightarrow> pydict" where
  "dupdate d e = foldl (\<lambda>d (k, v). dset d k v) d e"

text \<open>\<^verbatim>\<open>evaluation.setdefault("issues", []).append(issue)\<close>\<close>

definition append_issue :: "pydict \<Rightarrow> py \<Rightarrow> pydict res" where
  "append_issue evaluation issue = (case dget_or evaluation ''issues'' (PList []) of
     PList vs \<Rightarrow> Inr (dset evaluation ''issues'' (PList (vs @ [issue])))
   | _ \<Rightarrow> Inl (Exn AttributeError ''append''))"

definition invalidate :: "pydict \<Rightarrow> change list \<Rightarrow> pydict res" where
  "invalidate evidence changes =
     (if changes = [] then Inr evidence
      else
        let files = PList (map change_value changes);
            evidence1 = dupdate evidence [(''status'', PStr ''input-changed''), (''accepted'', PBool False), (''changed_inputs'', files)]
        in bind_res (ditem evidence1 ''evaluation'') (\<lambda>v. case v of
             PDict evaluation \<Rightarrow>
               bind_res (append_issue (dupdate evaluation [(''status'', PStr ''input-changed''), (''accepted'', PBool False),
                   (''verified'', PBool False), (''local_policy_passed'', PBool False)])
                 (PDict [(''kind'', PStr ''input-changed''), (''message'', PStr ''A required input changed during the run''), (''files'', files)]))
               (\<lambda>evaluation'. Inr (dset evidence1 ''evaluation'' (PDict evaluation')))
           | _ \<Rightarrow> Inl (Exn AttributeError ''update'')))"

section \<open>What a validated review promises\<close>

lemma policy_as_source_Inr [res_simps]: "policy_as_source r = Inr x \<longleftrightarrow> r = Inr x"
  by (auto simp: policy_as_source_def split: sum.splits exn.splits exn_class.splits)

lemma local_path_Inr:
  "local_path h project v = Inr p \<longleftrightarrow>
     (\<exists>f. v = PStr f \<and> \<not> is_absolute f \<and> p = resolve h (path_join project f) \<and> is_relative_to p project \<and> is_file h p)"
  by (cases v) (auto simp: local_path_def res_simps Let_def)

text \<open>A file of the project with the recorded digest.\<close>

definition current_file :: "host \<Rightarrow> string \<Rightarrow> string \<times> py \<Rightarrow> bool" where
  "current_file h project row =
     (let p = resolve h (path_join project (fst row)) in
      \<not> is_absolute (fst row) \<and> is_relative_to p project \<and> is_file h p
      \<and> (case snd row of PStr d \<Rightarrow> file_sha256 h (path_str p) = Some d | _ \<Rightarrow> False))"

definition current_section :: "host \<Rightarrow> string \<Rightarrow> py \<Rightarrow> bool" where
  "current_section h project sec = (case sec of
     PDict d \<Rightarrow> (case dget d ''file_hashes'' of
         PDict hashes \<Rightarrow> hashes \<noteq> [] \<and> list_all (current_file h project) hashes
       | _ \<Rightarrow> False)
   | _ \<Rightarrow> False)"

lemma hash_record_Inr:
  assumes "hash_record h project row = Inr item" and "merge_records items = Inr rs" and "item \<in> set items"
    and "changed_files h (map receipt_entry rs) = Inr []"
  shows "current_file h project row"
proof -
  from assms(1) obtain d p where d: "snd row = PStr d" "is_hex 64 d" "local_path h project (PStr (fst row)) = Inr p"
      "receipt_for h p (PStr d) = Inr item"
    by (auto simp: hash_record_def res_simps split: py.splits)
  have "d \<noteq> []" using d(2) by (auto simp: is_hex_def)
  then have item: "item = [(''absolute_path'', PStr (path_str p)), (''sha256'', PStr d)]"
    using d(4) by (simp add: receipt_for_def)
  have "receipt_of item \<noteq> None" using inventory.success_iff assms(2,3) by blast
  then have "receipt_of item = Some (path_str p, d)" using d(2) by (auto simp: item receipt_of_def split: if_splits)
  from merged_current [OF assms(2,4,3) this] d(1,3) show ?thesis
    by (auto simp: current_file_def local_path_Inr Let_def)
qed

lemma section_records_Inr:
  assumes "section_records h project sec = Inr items" and "merge_records all_items = Inr rs" and "set items \<subseteq> set all_items"
    and "changed_files h (map receipt_entry rs) = Inr []"
  shows "current_section h project sec"
proof -
  from assms(1) obtain d hashes files ev where s: "sec = PDict d" "dget d ''file_hashes'' = PDict hashes" "hashes \<noteq> []"
      "mapM (hash_record h project) hashes = Inr files" "items = files @ ev"
    unfolding section_records_def by (auto simp: res_simps)
  have "current_file h project row" if row: "row \<in> set hashes" for row
  proof -
    from s(4) row obtain i where i: "i < length hashes" "row = hashes ! i" by (metis in_set_conv_nth)
    then have "hash_record h project row = Inr (files ! i)" using mapM_nth [OF s(4)] by simp
    moreover have "files ! i \<in> set all_items" using i mapM_length [OF s(4)] s(5) assms(3) by auto
    ultimately show ?thesis by (rule hash_record_Inr [OF _ assms(2) _ assms(4)])
  qed
  with s show ?thesis by (simp add: current_section_def list_all_iff)
qed

lemma tracked_files_Inr:
  assumes "tracked_files h project target context = Inr rs" and "review_sections target context = Inr sections"
  shows "list_all (current_section h project) sections"
  unfolding list_all_iff
proof
  from assms obtain groups where g: "mapM (section_records h project) sections = Inr groups" "merge_records (concat groups) = Inr rs"
      "changed_files h (map receipt_entry rs) = Inr []"
    by (auto simp: tracked_files_def res_simps)
  fix sec assume "sec \<in> set sections"
  then obtain i where i: "i < length sections" "sec = sections ! i" by (metis in_set_conv_nth)
  then have sec: "section_records h project sec = Inr (groups ! i)" using mapM_nth [OF g(1)] by simp
  have "groups ! i \<in> set groups" using i mapM_length [OF g(1)] by simp
  then have "set (groups ! i) \<subseteq> set (concat groups)" by auto
  from section_records_Inr [OF sec g(2) this g(3)] show "current_section h project sec" .
qed

text \<open>Every identity the context has to repeat.\<close>

definition context_binds :: "host \<Rightarrow> pydict \<Rightarrow> py \<Rightarrow> pydict \<Rightarrow> pydict \<Rightarrow> pydict \<Rightarrow> pydict \<Rightarrow> bool" where
  "context_binds h target revision model tools prepared context =
     (py_eq (dget context ''kernel_revision'') revision
      \<and> py_eq (dget context ''profile'') (dget target ''profile'')
      \<and> py_eq (dget context ''toolchain_lock_sha256'') (dget tools ''lock_sha256'')
      \<and> (case model_identity (dget model ''analysis'') of Inr a \<Rightarrow> same_json (dget context ''analysis'') (PDict a) | _ \<Rightarrow> False)
      \<and> (case pipeline_identity (PDict target) of
           Inr p \<Rightarrow> same_json (dget context ''analysis_pipeline'') (PDict (pipeline_value p)) | _ \<Rightarrow> False)
      \<and> (case preprocessing_value h target prepared of
           Inr p \<Rightarrow> same_json (dget context ''preprocessing'') (PDict p) | _ \<Rightarrow> False)
      \<and> same_json (dget_or context ''proof_search'' (PDict [])) (PDict (search_value target)))"

lemma ditem_dget: "ditem d k = Inr v \<Longrightarrow> dget d k = v"
  by (simp add: ditem_Inr dget_def)

lemma check_context_Inr:
  assumes "check_context h target revision model tools prepared context = Inr u"
  shows "context_binds h target revision model tools prepared context"
proof -
  from assms obtain profile lock declared analysis pipeline pre where
    "py_eq (dget context ''kernel_revision'') revision" "ditem target ''profile'' = Inr profile"
    "py_eq (dget context ''profile'') profile" "ditem tools ''lock_sha256'' = Inr lock"
    "py_eq (dget context ''toolchain_lock_sha256'') lock" "ditem model ''analysis'' = Inr declared"
    "model_identity declared = Inr analysis" "pipeline_identity (PDict target) = Inr pipeline"
    "same_json (dget context ''analysis'') (PDict analysis)"
    "same_json (dget context ''analysis_pipeline'') (PDict (pipeline_value pipeline))"
    "preprocessing_value h target prepared = Inr pre" "same_json (dget context ''preprocessing'') (PDict pre)"
    "same_json (dget_or context ''proof_search'' (PDict [])) (PDict (search_value target))"
    unfolding check_context_def bind_res_Inr check_iff policy_as_source_Inr by (elim exE conjE) (rule that; assumption)
  then show ?thesis unfolding context_binds_def by (auto dest!: ditem_dget simp del: py_eq.simps)
qed


text \<open>A project whose files all have the same digest, and a target reviewed for it.\<close>

definition review_host :: host where
  "review_host = \<lparr>contents = (\<lambda>_. Some ''x''), is_symlink = (\<lambda>_. False), is_dir = (\<lambda>_. False),
                  resolve = path_str, sha256_hex = (\<lambda>b. replicate 64 CHR ''a''), float_text = (\<lambda>f. [])\<rparr>"

definition review_digest :: py where "review_digest = PStr (replicate 64 CHR ''a'')"

definition review_model :: pydict where
  "review_model = [(''analysis'', PDict [(''wp_model'', PStr ''Typed''), (''arithmetic_flags'', PList (map PStr ARITHMETIC_FLAGS)),
     (''runtime_checks'', PDict RUNTIME_CHECKS)]), (''machdep'', PDict [(''sha256'', review_digest)])]"

definition review_prepared :: pydict where
  "review_prepared = [(''frama_cpp_command'', PStr ''cc -E''), (''annotations'', PStr ''a'')]"

definition reviewed_item :: pydict where
  "reviewed_item = [(''file_hashes'', PDict [(''h.c'', review_digest)]), (''review_evidence'', PList [PStr ''r.md''])]"

definition reviewed_context :: pydict where
  "reviewed_context = [(''kernel_revision'', PStr ''v''), (''profile'', PStr ''p''), (''toolchain_lock_sha256'', review_digest),
     (''analysis'', dget review_model ''analysis''),
     (''analysis_pipeline'', PDict [(''functions'', PList [PStr ''f'']), (''kind'', PStr ''wp-rte'')]),
     (''preprocessing'', PDict [(''annotations'', PStr ''a''), (''cpp_command'', PStr ''cc -E''),
        (''extra_args'', PList [PStr ''-std=gnu11'']), (''input_mode'', PStr ''standalone'')]),
     (''file_hashes'', PDict (map (\<lambda>f. (f, review_digest))
        [''h.c'', ''fragma/analysis_policy.py'', ''k/s.c'', ''b/fragma-build.json'', ''m.yaml''])),
     (''review_evidence'', PList [PStr ''r.md''])]"

definition reviewed_target :: pydict where
  "reviewed_target = [(''id'', PStr ''t''), (''profile'', PStr ''p''), (''analysis'', PStr ''wp''), (''functions'', PList [PStr ''f'']),
     (''input_mode'', PStr ''standalone''), (''source'', PStr ''s.c''), (''harness'', PStr ''h.c''),
     (''reviewed_smoke'', PList [PDict reviewed_item]), (''review_context'', PDict reviewed_context)]"

definition review_build :: pydict where
  "review_build = [(''source'', PStr ''/p/k''), (''path'', PStr ''/p/b'')]"

lemma sample_context:
  "res_ok (check_context review_host reviewed_target (PStr ''v'') review_model [(''lock_sha256'', review_digest)] review_prepared reviewed_context)"
  by code_simp

lemma sample_hashes:
  "res_ok (check_hashes review_host ''/p'' reviewed_target review_model review_build reviewed_context)"
  by code_simp

lemma sample_tracked: "res_ok (tracked_files review_host ''/p'' reviewed_target reviewed_context)"
  by code_simp


section \<open>What an invalidation does\<close>

lemma dget_dupdate: "distinct (keys e) \<Longrightarrow> dget (dupdate d e) k = (case map_of e k of Some v \<Rightarrow> v | None \<Rightarrow> dget d k)"
proof (induction e arbitrary: d)
  case (Cons a e)
  obtain k' v' where a: "a = (k', v')" by (cases a)
  with Cons.prems have "map_of e k' = None" by (simp add: keys_def map_of_eq_None_iff)
  with Cons a show ?case by (auto simp: dupdate_def keys_def split: option.splits)
qed (simp add: dupdate_def)

text \<open>
  C21. A changed input withdraws the verdict: whatever the evidence said before, after an
  invalidation with at least one changed file neither it nor its evaluation is accepted, the
  evaluation is not verified, its local policy has not passed, and the changed files are named.
\<close>

theorem invalidate_withdraws:
  assumes "invalidate evidence (c # cs) = Inr evidence'"
  shows "\<exists>evaluation. dget evidence' ''evaluation'' = PDict evaluation
    \<and> (\<forall>d\<in>{evidence', evaluation}. dget d ''accepted'' = PBool False \<and> dget d ''status'' = PStr ''input-changed'')
    \<and> dget evaluation ''verified'' = PBool False \<and> dget evaluation ''local_policy_passed'' = PBool False
    \<and> dget evidence' ''changed_inputs'' = PList (map change_value (c # cs))"
proof -
  let ?files = "PList (map change_value (c # cs))"
  let ?ev = "dupdate evidence [(''status'', PStr ''input-changed''), (''accepted'', PBool False), (''changed_inputs'', ?files)]"
  from assms obtain evaluation vs where e:
    "evidence' = dset ?ev ''evaluation'' (PDict (dset (dupdate evaluation [(''status'', PStr ''input-changed''), (''accepted'', PBool False),
       (''verified'', PBool False), (''local_policy_passed'', PBool False)]) ''issues'' (PList vs)))"
    unfolding invalidate_def append_issue_def Let_def by (auto simp: res_simps)
  show ?thesis unfolding e by (auto simp: dget_dupdate keys_def)
qed

lemma invalidate_withdraws_witness:
  "\<exists>e. invalidate [(''accepted'', PBool True), (''evaluation'', PDict [(''verified'', PBool True)])] [(''/f'', ''a'', None)] = Inr e
     \<and> dget e ''accepted'' = PBool False"
proof -
  obtain e where e: "invalidate [(''accepted'', PBool True), (''evaluation'', PDict [(''verified'', PBool True)])] [(''/f'', ''a'', None)] = Inr e"
    by (simp add: invalidate_def dupdate_def append_issue_def ditem_def Let_def)
  from invalidate_withdraws [OF this] e show ?thesis by auto
qed

end
