(* ===== verification/Replay_Base.thy ===== *)
theory Replay_Base
  imports Review_Gate State_Res
begin

text \<open>
  The first part of \<^verbatim>\<open>fragma/replay.py\<close>: reading retained JSON strictly (\<^verbatim>\<open>strict_json\<close>), the input
  inventory of a run (\<^verbatim>\<open>hash_records\<close>, \<^verbatim>\<open>metadata_claims\<close>), and the two observations of an analysis
  policy. \<^verbatim>\<open>analysis_policy_observation\<close> rederives the current policy from the saved command and
  audit, or identifies one of three inspected historical runners, whose weaker policy is never
  reported as the current one; \<^verbatim>\<open>model_policy_observation\<close> does the same for a model receipt.

  The grammar of JSON is the argument \<open>loads\<close>: the value of a text, objects with their pairs in order and
  duplicates kept, as \<^verbatim>\<open>object_pairs_hook\<close> sees them, or \<open>None\<close> for a \<^verbatim>\<open>JSONDecodeError\<close>.
\<close>

abbreviation replay_error :: "string \<Rightarrow> exn" where
  "replay_error m \<equiv> Exn ReplayError m"

abbreviation require :: "bool \<Rightarrow> string \<Rightarrow> unit res" where
  "require c m \<equiv> check c (replay_error m)"

section \<open>Values of unknown type\<close>

text \<open>\<^verbatim>\<open>for x in v\<close> and \<^verbatim>\<open>k in v\<close>\<close>

definition items_of :: "py \<Rightarrow> py list res" where
  "items_of v = (case v of
     PList vs \<Rightarrow> Inr vs
   | PDict d \<Rightarrow> Inr (map PStr (keys d))
   | PStr s \<Rightarrow> Inr (map (\<lambda>c. PStr [c]) s)
   | _ \<Rightarrow> Inl (Exn TypeError ''not iterable''))"

definition occurs_in :: "string \<Rightarrow> py \<Rightarrow> bool res" where
  "occurs_in k v = (case v of
     PList vs \<Rightarrow> Inr (PStr k \<in> set vs)
   | PDict d \<Rightarrow> Inr (has_key d k)
   | PStr s \<Rightarrow> Inr (contains k s)
   | _ \<Rightarrow> Inl (Exn TypeError ''not iterable''))"

text \<open>\<^verbatim>\<open>separator.join(v)\<close>\<close>

definition join_items :: "string \<Rightarrow> py \<Rightarrow> string res" where
  "join_items sep v = bind_res (items_of v) (\<lambda>vs.
     bind_res (mapM (\<lambda>x. case x of PStr s \<Rightarrow> Inr s | _ \<Rightarrow> Inl (Exn TypeError ''join'')) vs) (\<lambda>ss. Inr (join sep ss)))"

text \<open>\<^verbatim>\<open>canonical(a) == canonical(b)\<close> where the two must agree.\<close>

definition agree :: "py \<Rightarrow> py \<Rightarrow> string \<Rightarrow> unit res" where
  "agree a b reason = bind_res (json_agrees a b) (\<lambda>same. require same reason)"

lemma agree_Inr [res_simps]: "agree a b m = Inr u \<longleftrightarrow> same_json a b"
  by (auto simp: agree_def bind_res_Inr check_iff json_agrees_def same_json_def)

section \<open>Strict JSON and inventories\<close>

type_synonym json_loads = "string \<Rightarrow> py option"

definition strict_json :: "json_loads \<Rightarrow> string \<Rightarrow> py res" where
  "strict_json loads s = (case loads s of
     None \<Rightarrow> Inl (replay_error ''malformed JSON'')
   | Some v \<Rightarrow>
       bind_res (require (wf_py v) ''duplicate JSON key'') (\<lambda>_.
       bind_res (require (finite_py v) ''non-finite JSON number'') (\<lambda>_. Inr v)))"

lemma strict_json_Inr [res_simps]: "strict_json loads s = Inr v \<longleftrightarrow> loads s = Some v \<and> wf_py v \<and> finite_py v"
  by (auto simp: strict_json_def res_simps split: option.splits)

definition hash_record_step :: "receipt list \<Rightarrow> py \<Rightarrow> receipt list res" where
  "hash_record_step rows v = (case v of
     PDict row \<Rightarrow>
       (case (dget row ''absolute_path'', dget row ''sha256'') of
          (PStr f, PStr d) \<Rightarrow>
            bind_res (require (is_absolute f) ''input has no absolute path'') (\<lambda>_.
            bind_res (require (is_hex 64 d) ''input has malformed SHA256'') (\<lambda>_.
            bind_res (require (map_of rows f = None) ''duplicate input path'') (\<lambda>_. Inr (rows @ [(f, d)]))))
        | _ \<Rightarrow> Inl (replay_error ''input has no absolute path''))
   | _ \<Rightarrow> Inl (replay_error ''input record must be an object''))"

definition hash_records :: "py \<Rightarrow> receipt list res" where
  "hash_records v = (case v of
     PList rows \<Rightarrow> foldM hash_record_step [] rows
   | _ \<Rightarrow> Inl (replay_error ''input inventory must be an array''))"

text \<open>An inventory names each absolute path once, with a digest.\<close>

lemma hash_records_sound:
  assumes "hash_records v = Inr rows"
  shows "distinct (map fst rows) \<and> (\<forall>(f, d)\<in>set rows. is_absolute f \<and> is_hex 64 d)"
proof -
  from assms obtain vs where "foldM hash_record_step [] vs = Inr rows"
    by (auto simp: hash_records_def res_simps)
  then show ?thesis
  proof (rule foldM_invariant)
    fix rs v rs' assume "distinct (map fst rs) \<and> (\<forall>(f, d)\<in>set rs. is_absolute f \<and> is_hex 64 d)"
      and "hash_record_step rs v = Inr rs'"
    then show "distinct (map fst rs') \<and> (\<forall>(f, d)\<in>set rs'. is_absolute f \<and> is_hex 64 d)"
      by (auto simp: hash_record_step_def res_simps map_of_eq_None_iff split: py.splits)
  qed simp
qed

text \<open>The claims of a digest that tool and model metadata make.\<close>

definition direct_claim :: "pydict \<Rightarrow> (string \<times> py) list" where
  "direct_claim d =
     (let sha = dget d ''sha256'' in
      case dget_or d ''absolute_path'' (dget_or d ''path'' (dget d ''resolved_path'')) of
        PStr f \<Rightarrow> if is_absolute f \<and> sha \<noteq> PNone then [(f, sha)] else []
      | _ \<Rightarrow> [])"

definition directory_claims :: "pydict \<Rightarrow> (string \<times> py) list" where
  "directory_claims d = (case (dget d ''directory'', dget d ''files'') of
     (PStr base, PDict files) \<Rightarrow> map (\<lambda>(name, sha). (path_join base name, sha)) files
   | _ \<Rightarrow> [])"

fun metadata_claims :: "py \<Rightarrow> (string \<times> py) list"
and claims_list :: "py list \<Rightarrow> (string \<times> py) list"
and claims_dict :: "pydict \<Rightarrow> (string \<times> py) list" where
  "metadata_claims (PDict d) = direct_claim d @ directory_claims d @ claims_dict d"
| "metadata_claims (PList vs) = claims_list vs"
| "metadata_claims v = []"
| "claims_list [] = []"
| "claims_list (v # vs) = metadata_claims v @ claims_list vs"
| "claims_dict [] = []"
| "claims_dict ((k, v) # d) = metadata_claims v @ claims_dict d"

section \<open>The policy of a model receipt\<close>

text \<open>The dictionaries the two validators of \<^verbatim>\<open>fragma/analysis_policy.py\<close> return.\<close>

definition receipt_value :: "policy_receipt \<Rightarrow> pydict" where
  "receipt_value r =
     [(''schema_version'', PInt 1), (''status'', PStr ''checked''), (''model'', PDict (checked_model r))]
     @ (case checked_pipeline r of None \<Rightarrow> [] | Some p \<Rightarrow> [(''pipeline'', PDict (pipeline_value p))])
     @ [(''actual_pointer_formation'', PStr (actual_pointer_formation r))]"

type_synonym 's policy_reader = "py \<Rightarrow> py \<Rightarrow> ('s, string) prog" \<comment> \<open>path and expected digest\<close>

definition named_checks :: "py \<Rightarrow> string \<Rightarrow> py list res" where
  "named_checks model name =
     bind_res (pindex model ''checks'') (\<lambda>cv. bind_res (items_of cv) (\<lambda>rows.
     bind_res (mapM (\<lambda>r. bind_res (pget r ''name'') (\<lambda>n. Inr (r, n = PStr name))) rows) (\<lambda>marked.
       Inr (map fst (filter snd marked)))))"

definition single_passed :: "py list \<Rightarrow> string \<Rightarrow> py res" where
  "single_passed rows reason = (case rows of
     [r] \<Rightarrow> bind_res (pget r ''status'') (\<lambda>s. bind_res (require (s = PStr ''passed'') reason) (\<lambda>_. Inr r))
   | _ \<Rightarrow> Inl (replay_error reason))"

definition legacy_model :: pydict where
  "legacy_model = [(''status'', PStr ''legacy-observed''), (''current_policy'', PBool False)]"

definition without_sources :: "py \<Rightarrow> py res" where
  "without_sources v = (case v of
     PDict d \<Rightarrow> Inr (PDict (filter (\<lambda>(k, x). k \<noteq> ''sources'') d))
   | _ \<Rightarrow> Inl (Exn AttributeError ''items''))"

definition calibration_argv_ok :: "py \<Rightarrow> py \<Rightarrow> bool" where
  "calibration_argv_ok argv audit_path = (case argv of
     PList vs \<Rightarrow>
       count_list vs (PStr ''-audit-prepare'') = 1
       \<and> index_of (PStr ''-audit-prepare'') vs + 1 < length vs
       \<and> py_eq (vs ! (index_of (PStr ''-audit-prepare'') vs + 1)) audit_path
       \<and> count_list vs (PStr ''-eva'') = 1
       \<and> drop (length vs - 3) vs = map PStr [''-eva'', ''-eva-slevel'', ''10'']
       \<and> set vs \<inter> {PStr ''-wp'', PStr ''-rte'', PStr ''-then''} = {}
   | _ \<Rightarrow> False)"

definition audit_source :: "py \<Rightarrow> (py \<times> py \<times> py) res" where
  "audit_source model =
     bind_res (pindex model ''analysis_policy_audit'') (\<lambda>audit.
     bind_res (pindex audit ''path'') (\<lambda>path. bind_res (pindex audit ''sha256'') (\<lambda>sha. Inr (audit, path, sha))))"

definition checked_model_policy :: "json_loads \<Rightarrow> py \<Rightarrow> py \<Rightarrow> py \<Rightarrow> string \<Rightarrow> policy_receipt res" where
  "checked_model_policy loads model audit path s =
     bind_res (strict_json loads s) (\<lambda>raw.
     bind_res (without_sources raw) (\<lambda>parameters. bind_res (pindex audit ''parameters'') (\<lambda>saved.
     bind_res (agree parameters saved ''actual model correctness audit differs from saved parameters'') (\<lambda>_.
     bind_res (named_checks model ''eva-arithmetic-and-memory-byte-order'') (\<lambda>rows.
     bind_res (single_passed rows ''missing or ambiguous model EVA evidence'') (\<lambda>row.
     bind_res (pindex row ''details'') (\<lambda>command. bind_res (pget command ''exit_code'') (\<lambda>code.
     bind_res (require (code = PInt 0) ''model policy analyzer did not complete'') (\<lambda>_.
     bind_res (pindex command ''command'') (\<lambda>argv.
     bind_res (require (calibration_argv_ok argv path)
       ''model correctness audit is not bound to the recorded calibration command'') (\<lambda>_.
     bind_res (pindex model ''analysis'') (\<lambda>analysis.
     bind_res (validate_actual_model_policy analysis argv saved) (\<lambda>actual.
     bind_res (pget model ''validated_model_policy'') (\<lambda>validated.
     bind_res (agree validated (PDict (receipt_value actual)) ''saved model policy disagrees with actual command/audit'') (\<lambda>_.
     bind_res (named_checks model ''analysis-runtime-policy'') (\<lambda>checks.
     bind_res (single_passed checks ''model policy check is missing, ambiguous or inconsistent'') (\<lambda>check_row.
     bind_res (pget check_row ''details'') (\<lambda>details.
     bind_res (agree details (PDict (receipt_value actual)) ''model policy check is missing, ambiguous or inconsistent'') (\<lambda>_.
       Inr actual)))))))))))))))))))"

text \<open>Whether the receipt knows of a policy at all.\<close>

definition mentions_policy :: "py \<Rightarrow> bool res" where
  "mentions_policy model =
     bind_res (pget_or model ''analysis'' (PDict [])) (\<lambda>analysis.
     bind_res (occurs_in ''runtime_checks'' analysis) (\<lambda>declared.
     bind_res (occurs_in ''validated_model_policy'' model) (\<lambda>validated.
     bind_res (occurs_in ''analysis_policy_audit'' model) (\<lambda>audited.
       Inr (declared \<or> validated \<or> audited)))))"

definition model_policy_observation :: "json_loads \<Rightarrow> 's policy_reader \<Rightarrow> py \<Rightarrow> ('s, pydict) prog" where
  "model_policy_observation loads read model =
     sbind (slift (mentions_policy model)) (\<lambda>mentioned.
       if \<not> mentioned then sreturn legacy_model
       else sbind (slift (audit_source model)) (\<lambda>(audit, path, sha).
         sbind (read path sha) (\<lambda>s.
           slift (bind_res (checked_model_policy loads model audit path s) (\<lambda>r. Inr (receipt_value r))))))"

section \<open>The policy of an analysis\<close>

definition LEGACY_ANALYSIS_POLICIES :: "(string \<times> string) list" where
  "LEGACY_ANALYSIS_POLICIES =
     [(''8656fc0bf8096fcca6486561e93615b3f7f454961b1a7f94946e50fa6d42b4d4'',
       ''491dc6ac997ff582cb1de9c97f6c106a1e118cb5c9fbe5b7d39bce0c66d80601''),
      (''1555c9389fc6d44ba0b75a02372ba357b741840ff512b3e2051a94d75783d74a'',
       ''da00f7b91215cf2fa0e76ebd1496a9c8025bcec33bd1ca6bde6bf8d83de255b4''),
      (''3160058b24448c2d7f2ee8506e9985be1c3270d2828f625065bf204ca2f03a49'',
       ''da00f7b91215cf2fa0e76ebd1496a9c8025bcec33bd1ca6bde6bf8d83de255b4'')]"

definition LEGACY_ARITHMETIC_FLAGS :: "string list" where
  "LEGACY_ARITHMETIC_FLAGS = [''-no-warn-signed-overflow'', ''-no-warn-unsigned-overflow'',
     ''-no-warn-signed-downcast'', ''-no-warn-unsigned-downcast'', ''-no-warn-right-shift-negative'']"

definition check_policy_review :: "py \<Rightarrow> string \<Rightarrow> pydict \<Rightarrow> policy_receipt \<Rightarrow> unit res" where
  "check_policy_review review policy_hash target actual = (case review of
     PNone \<Rightarrow> Inr ()
   | PDict rv \<Rightarrow>
       (case dget_or rv ''review_context'' (PDict []) of
          PDict context \<Rightarrow>
            bind_res (pget (dget_or context ''file_hashes'' (PDict [])) ''fragma/analysis_policy.py'') (\<lambda>recorded.
            bind_res (require (recorded = PStr policy_hash)
              ''current reviewed policy/pipeline differs from actual analysis or input identity'') (\<lambda>_.
            bind_res (agree (dget context ''analysis'') (PDict (checked_model actual))
              ''current reviewed policy/pipeline differs from actual analysis or input identity'') (\<lambda>_.
            bind_res (agree (dget context ''analysis_pipeline'')
                (case checked_pipeline actual of Some p \<Rightarrow> PDict (pipeline_value p) | None \<Rightarrow> PNone)
              ''current reviewed policy/pipeline differs from actual analysis or input identity'') (\<lambda>_.
              agree (PDict context) (dget target ''review_context'')
                ''current reviewed policy/pipeline differs from actual analysis or input identity''))))
        | _ \<Rightarrow> Inl (replay_error ''malformed current analysis review context''))
   | _ \<Rightarrow> Inl (replay_error ''malformed current analysis review''))"

definition current_policy_observation ::
  "py \<Rightarrow> pydict \<Rightarrow> pydict \<Rightarrow> py \<Rightarrow> py \<Rightarrow> receipt list \<Rightarrow> string \<Rightarrow> policy_receipt res" where
  "current_policy_observation analysis target evidence argv audit shared project =
     bind_res (require (is_dict (dget evidence ''validated_analysis_policy''))
       ''current analysis policy envelope is missing or malformed'') (\<lambda>_.
     (case map_of shared (path_join project ''fragma/analysis_policy.py'') of
        None \<Rightarrow> Inl (replay_error ''current analysis policy implementation is not an inventoried input'')
      | Some d \<Rightarrow>
          bind_res (require (is_hex 64 d) ''current analysis policy implementation is not an inventoried input'') (\<lambda>_.
          bind_res (validate_actual_policy analysis (PDict target) argv audit) (\<lambda>actual.
          bind_res (agree (PDict (receipt_value actual)) (dget evidence ''validated_analysis_policy'')
            ''saved analysis policy disagrees with actual command/audit'') (\<lambda>_.
          bind_res (check_policy_review (dget evidence ''validated_review'') d target actual) (\<lambda>_.
            Inr actual))))))"

text \<open>\<^verbatim>\<open>argument(option, expected)\<close>: one occurrence, followed by the expected value.\<close>

definition legacy_argument :: "string list \<Rightarrow> string \<Rightarrow> py \<Rightarrow> unit res" where
  "legacy_argument argv option expected =
     require (count_list argv option = 1 \<and> index_of option argv + 1 < length argv
       \<and> py_eq (PStr (argv ! (index_of option argv + 1))) expected) (''historical pipeline mismatch: '' @ option)"

definition positive_flag :: "string \<Rightarrow> string" where
  "positive_flag flag = ''-warn-'' @ remove_prefix ''-no-warn-'' flag"

definition legacy_flag_ok :: "string list \<Rightarrow> py \<Rightarrow> string \<Rightarrow> unit res" where
  "legacy_flag_ok argv parameters flag =
     (let p = positive_flag flag in
      bind_res (require (list_all (\<lambda>a. a \<noteq> p \<and> \<not> starts_with (p @ ''='') a \<and> \<not> starts_with (flag @ ''='') a) argv)
        ''historical arithmetic command/audit mismatch'') (\<lambda>_.
      bind_res (pget parameters p) (\<lambda>v. require (v = PStr ''false'') ''historical arithmetic command/audit mismatch'')))"

definition alternate_selector :: "string \<Rightarrow> bool" where
  "alternate_selector a =
     ((starts_with ''-then'' a \<and> a \<noteq> ''-then'')
      \<or> list_ex (\<lambda>p. starts_with p a) [''-wp-model='', ''-wp-fct='', ''-main='', ''-wp='', ''-eva='']
      \<or> a = ''-no-wp'' \<or> a = ''-no-eva'')"

definition pointer_flag :: "string \<Rightarrow> bool" where
  "pointer_flag a = list_ex (\<lambda>p. starts_with p a) [''-warn-invalid-pointer'', ''-no-warn-invalid-pointer'', ''-rte'', ''-no-rte'']"

definition phases_in_order :: "string list \<Rightarrow> string \<Rightarrow> bool" where
  "phases_in_order argv engine =
     (index_of engine argv < index_of ''-then'' argv \<and> index_of ''-then'' argv < index_of ''-report'' argv)"

definition legacy_pipeline :: "pydict \<Rightarrow> string list \<Rightarrow> py \<Rightarrow> pydict res" where
  "legacy_pipeline target argv parameters =
     (if dget target ''analysis'' = PStr ''wp'' then
        bind_res (ditem target ''functions'') (\<lambda>fs. let functions = dget_or target ''analysis_functions'' fs in
        bind_res (require (count_list argv ''-wp'' = 1 \<and> ''-eva'' \<notin> set argv \<and> count_list argv ''-wp-rte'' = 1)
          ''historical WP engine/RTE pipeline mismatch'') (\<lambda>_.
        bind_res (legacy_argument argv ''-wp-model'' (PStr ''Typed'')) (\<lambda>_.
        bind_res (join_items '','' functions) (\<lambda>joined.
        bind_res (legacy_argument argv ''-wp-fct'' (PStr joined)) (\<lambda>_.
        bind_res (require (phases_in_order argv ''-wp'') ''historical WP/report phase order changed'') (\<lambda>_.
          Inr [(''kind'', PStr ''legacy-wp''), (''functions'', functions)]))))))
      else
        bind_res (require (dget target ''analysis'' = PStr ''eva'' \<and> count_list argv ''-eva'' = 1 \<and> ''-wp'' \<notin> set argv)
          ''historical EVA pipeline mismatch'') (\<lambda>_.
        bind_res (ditem target ''entry'') (\<lambda>entry_value.
        bind_res (legacy_argument argv ''-main'' entry_value) (\<lambda>_.
        bind_res (require (phases_in_order argv ''-eva'') ''historical EVA/report phase order changed'') (\<lambda>_.
        bind_res (pget parameters ''-main'') (\<lambda>m.
        bind_res (require (py_eq m entry_value) ''historical EVA entry audit mismatch'') (\<lambda>_.
          Inr [(''kind'', PStr ''legacy-eva''), (''entry'', entry_value)])))))))"

definition legacy_value :: "string \<times> string \<Rightarrow> pydict \<Rightarrow> pydict" where
  "legacy_value identity pl =
     [(''schema_version'', PInt 1), (''status'', PStr ''legacy-observed''), (''current_policy'', PBool False),
      (''model'', PDict [(''wp_model'', PStr ''Typed''), (''arithmetic_flags'', PList (map PStr LEGACY_ARITHMETIC_FLAGS))]),
      (''pipeline'', PDict pl), (''actual_pointer_formation'', PStr ''false''),
      (''runner_sha256'', PStr (fst identity)), (''profile_registry_sha256'', PStr (snd identity))]"

definition legacy_identity :: "receipt list \<Rightarrow> string \<Rightarrow> (string \<times> string) res" where
  "legacy_identity shared project =
     (case (map_of shared (path_join project ''fragma/suite.py''), map_of shared (path_join project ''config/profiles.json'')) of
        (Some a, Some b) \<Rightarrow>
          bind_res (require ((a, b) \<in> set LEGACY_ANALYSIS_POLICIES) ''missing analysis policy has unknown historical identity'')
            (\<lambda>_. Inr (a, b))
      | _ \<Rightarrow> Inl (replay_error ''missing analysis policy has unknown historical identity''))"

definition legacy_policy_observation ::
  "pydict \<Rightarrow> pydict \<Rightarrow> py \<Rightarrow> py \<Rightarrow> receipt list \<Rightarrow> string \<Rightarrow> pydict res" where
  "legacy_policy_observation analysis target argv audit shared project =
     bind_res (legacy_identity shared project) (\<lambda>identity.
     bind_res (require (\<not> has_key target ''analysis_pipeline'') ''historical identity cannot authorize a new analysis pipeline'') (\<lambda>_.
     bind_res (require (dget analysis ''wp_model'' = PStr ''Typed''
         \<and> dget analysis ''arithmetic_flags'' = PList (map PStr LEGACY_ARITHMETIC_FLAGS))
       ''historical arithmetic/memory model is not the inspected policy'') (\<lambda>_.
     (case as_strs argv of
        None \<Rightarrow> Inl (replay_error ''malformed historical analyzer command'')
      | Some args \<Rightarrow>
          bind_res (require (args \<noteq> []) ''malformed historical analyzer command'') (\<lambda>_.
          bind_res (require (list_all (\<lambda>f. count_list args f = 1) LEGACY_ARITHMETIC_FLAGS)
            ''historical arithmetic flags missing or ambiguous'') (\<lambda>_.
          bind_res (require (\<not> list_ex pointer_flag args)
            ''historical policy contains new or contradictory pointer/RTE flags'') (\<lambda>_.
          bind_res (pget_or audit ''eva'' (PDict [])) (\<lambda>eva.
          bind_res (pget_or eva ''correctness-parameters'' (PDict [])) (\<lambda>parameters.
          bind_res (pget parameters ''-warn-invalid-pointer'') (\<lambda>pf.
          bind_res (require (pf = PStr ''false'')
            ''historical pointer-formation audit is missing or not the observed disabled setting'') (\<lambda>_.
          bind_res (allM (legacy_flag_ok args parameters) LEGACY_ARITHMETIC_FLAGS) (\<lambda>_.
          bind_res (require (count_list args ''-then'' = 1 \<and> count_list args ''-report'' = 1)
            ''historical analysis/report pipeline is missing or ambiguous'') (\<lambda>_.
          bind_res (require (\<not> list_ex alternate_selector args)
            ''historical pipeline contains an alternate or opposing selector'') (\<lambda>_.
          bind_res (legacy_pipeline target args parameters) (\<lambda>pl.
            Inr (legacy_value identity pl))))))))))))))))"

definition analysis_policy_observation :: "py \<Rightarrow> py \<Rightarrow> pydict \<Rightarrow> receipt list \<Rightarrow> string \<Rightarrow> pydict res" where
  "analysis_policy_observation model t evidence shared project =
     bind_res (pindex model ''analysis'') (\<lambda>a. (case (a, t) of
       (PDict analysis, PDict target) \<Rightarrow>
         bind_res (ditem evidence ''analysis_command'') (\<lambda>command. bind_res (pindex command ''argv'') (\<lambda>argv.
         bind_res (ditem evidence ''analyzer_audit'') (\<lambda>au. bind_res (pindex au ''parameters'') (\<lambda>audit.
           if has_key analysis ''runtime_checks'' \<or> has_key evidence ''validated_analysis_policy''
           then bind_res (current_policy_observation a target evidence argv audit shared project)
             (\<lambda>r. Inr (receipt_value r))
           else legacy_policy_observation analysis target argv audit shared project))))
     | _ \<Rightarrow> Inl (replay_error ''malformed analysis policy inputs'')))"

section \<open>History is not upgraded\<close>

lemma policy_value_simps [simp]:
  "dget (receipt_value r) ''status'' = PStr ''checked''" "dget (receipt_value r) ''model'' = PDict (checked_model r)"
  "dget (receipt_value r) ''actual_pointer_formation'' = PStr (actual_pointer_formation r)"
  by (simp_all add: receipt_value_def split: option.splits)

lemma legacy_value_simps [simp]:
  "dget (legacy_value i pl) ''status'' = PStr ''legacy-observed''" "dget (legacy_value i pl) ''current_policy'' = PBool False"
  "dget (legacy_value i pl) ''actual_pointer_formation'' = PStr ''false''"
  by (simp_all add: legacy_value_def)

lemma current_policy_observation_Inr:
  assumes "current_policy_observation analysis target evidence argv audit shared project = Inr r"
  shows "validate_actual_policy analysis (PDict target) argv audit = Inr r
    \<and> same_json (PDict (receipt_value r)) (dget evidence ''validated_analysis_policy'')
    \<and> (\<exists>d. map_of shared (path_join project ''fragma/analysis_policy.py'') = Some d \<and> is_hex 64 d)"
  using assms unfolding current_policy_observation_def case_option_Inr bind_res_Inr check_iff agree_Inr sum.inject by blast

lemma legacy_policy_observation_Inr:
  assumes "legacy_policy_observation analysis target argv audit shared project = Inr v"
  shows "\<exists>args i pl. argv = PList (map PStr args) \<and> \<not> list_ex pointer_flag args \<and> v = legacy_value i pl
    \<and> i \<in> set LEGACY_ANALYSIS_POLICIES \<and> map_of shared (path_join project ''fragma/suite.py'') = Some (fst i)
    \<and> map_of shared (path_join project ''config/profiles.json'') = Some (snd i)"
proof -
  from assms obtain i args pl where "legacy_identity shared project = Inr i" "as_strs argv = Some args"
    "\<not> list_ex pointer_flag args" "v = legacy_value i pl"
    unfolding legacy_policy_observation_def case_option_Inr bind_res_Inr check_iff agree_Inr sum.inject by blast
  then show ?thesis
    by (auto simp: legacy_identity_def bind_res_Inr check_iff as_strs_Some split: option.splits)
qed

text \<open>
  C17. What a replay reports about the analysis policy of retained evidence. A policy reported as
  \<open>checked\<close> is one the current validator accepts for the saved command: that command is lawful for
  the target's plan, and the saved envelope is the same document. Otherwise the policy is reported as
  historical, with pointer formation disabled and never as current; this happens only for a receipt without
  runtime checks, whose runner and profile registry are one of three inspected pairs.
\<close>

theorem observed_policy_not_upgraded:
  assumes "analysis_policy_observation model t evidence shared project = Inr v"
  shows "\<exists>m analysis target args. model = PDict m \<and> dget m ''analysis'' = PDict analysis \<and> t = PDict target
    \<and> (if has_key analysis ''runtime_checks'' \<or> has_key evidence ''validated_analysis_policy''
       then dget v ''status'' = PStr ''checked'' \<and> same_json (PDict v) (dget evidence ''validated_analysis_policy'')
         \<and> (\<exists>command p. map_of evidence ''analysis_command'' = Some (PDict command) \<and> map_of command ''argv'' = Some (PList (map PStr args))
              \<and> pipeline_identity t = Inr p \<and> lawful_command p args)
       else dget v ''status'' = PStr ''legacy-observed'' \<and> dget v ''current_policy'' = PBool False
         \<and> dget v ''actual_pointer_formation'' = PStr ''false'' \<and> \<not> list_ex pointer_flag args
         \<and> (\<exists>i\<in>set LEGACY_ANALYSIS_POLICIES. map_of shared (path_join project ''fragma/suite.py'') = Some (fst i)
              \<and> map_of shared (path_join project ''config/profiles.json'') = Some (snd i)))"
proof -
  from assms obtain m a where "model = PDict m" "map_of m ''analysis'' = Some a"
    by (auto simp: analysis_policy_observation_def bind_res_Inr pindex_Inr)
  moreover from this assms obtain analysis target where "a = PDict analysis" "t = PDict target"
    by (cases a; cases t) (simp_all add: analysis_policy_observation_def bind_res_Inr pindex_def ditem_def)
  ultimately obtain command argv audit where d: "model = PDict m" "map_of m ''analysis'' = Some (PDict analysis)"
      "t = PDict target" "map_of evidence ''analysis_command'' = Some (PDict command)" "map_of command ''argv'' = Some argv"
    and obs: "(if has_key analysis ''runtime_checks'' \<or> has_key evidence ''validated_analysis_policy''
           then bind_res (current_policy_observation (PDict analysis) target evidence argv audit shared project) (\<lambda>r. Inr (receipt_value r))
           else legacy_policy_observation analysis target argv audit shared project) = Inr v"
    using assms by (auto simp: analysis_policy_observation_def bind_res_Inr pindex_Inr ditem_Inr)
  have m: "dget m ''analysis'' = PDict analysis" using d(2) by (simp add: dget_def)
  show ?thesis
  proof (cases "has_key analysis ''runtime_checks'' \<or> has_key evidence ''validated_analysis_policy''")
    case True
    with obs obtain r where r: "current_policy_observation (PDict analysis) target evidence argv audit shared project = Inr r"
      "v = receipt_value r" by (auto simp: bind_res_Inr)
    from current_policy_observation_Inr [OF r(1)] have
      c: "validate_actual_policy (PDict analysis) (PDict target) argv audit = Inr r"
        "same_json (PDict v) (dget evidence ''validated_analysis_policy'')"
      by (auto simp: r(2))
    from actual_policy_lawful [OF c(1)] obtain args p where a: "argv = PList (map PStr args)" "pipeline_identity t = Inr p"
      "lawful_command p args" unfolding d(3) by blast
    have "dget v ''status'' = PStr ''checked''" by (simp add: r(2))
    with c(2) d(4,5) [unfolded a(1)] a(2,3) have ok: "dget v ''status'' = PStr ''checked'' \<and> same_json (PDict v) (dget evidence ''validated_analysis_policy'')
         \<and> (\<exists>command p. map_of evidence ''analysis_command'' = Some (PDict command) \<and> map_of command ''argv'' = Some (PList (map PStr args))
              \<and> pipeline_identity t = Inr p \<and> lawful_command p args)" by blast
    from True show ?thesis
      by - (rule exI [of _ m], rule exI [of _ analysis], rule exI [of _ target], rule exI [of _ args],
        intro conjI d(1,3) m, simp only: if_True, rule ok)
  next
    case False
    with obs have "legacy_policy_observation analysis target argv audit shared project = Inr v" by auto
    from legacy_policy_observation_Inr [OF this] obtain args i pl where l: "argv = PList (map PStr args)"
      "\<not> list_ex pointer_flag args" "v = legacy_value i pl" "i \<in> set LEGACY_ANALYSIS_POLICIES"
      "map_of shared (path_join project ''fragma/suite.py'') = Some (fst i)"
      "map_of shared (path_join project ''config/profiles.json'') = Some (snd i)" by blast
    have "dget v ''status'' = PStr ''legacy-observed''" "dget v ''current_policy'' = PBool False"
      "dget v ''actual_pointer_formation'' = PStr ''false''" by (simp_all only: l(3) legacy_value_simps)
    with l(2,4-6) have ok: "dget v ''status'' = PStr ''legacy-observed'' \<and> dget v ''current_policy'' = PBool False
         \<and> dget v ''actual_pointer_formation'' = PStr ''false'' \<and> \<not> list_ex pointer_flag args
         \<and> (\<exists>i\<in>set LEGACY_ANALYSIS_POLICIES. map_of shared (path_join project ''fragma/suite.py'') = Some (fst i)
              \<and> map_of shared (path_join project ''config/profiles.json'') = Some (snd i))" by blast
    from False show ?thesis
      by - (rule exI [of _ m], rule exI [of _ analysis], rule exI [of _ target], rule exI [of _ args],
        intro conjI d(1,3) m, simp only: if_False, rule ok)
  qed
qed

definition policy_model_receipt :: py where
  "policy_model_receipt = PDict [(''analysis'', sample_analysis)]"

definition policy_evidence :: pydict where
  "policy_evidence = [(''analysis_command'', PDict [(''argv'', PList (map PStr sample_command))]),
     (''analyzer_audit'', PDict [(''parameters'', sample_audit)]),
     (''validated_analysis_policy'', PDict (receipt_value \<lparr>checked_model = policy_model,
        checked_pipeline = Some (RteEva sample_settings [''memcpy'', ''main'']), actual_pointer_formation = ''true''\<rparr>))]"

lemma policy_evidence_observed:
  "case analysis_policy_observation policy_model_receipt sample_target policy_evidence
     [(''/p/fragma/analysis_policy.py'', replicate 64 CHR ''a'')] ''/p'' of Inr v \<Rightarrow> dget v ''status'' = PStr ''checked'' | Inl _ \<Rightarrow> False"
  by code_simp

lemma observed_policy_not_upgraded_witness:
  "\<exists>v args p. analysis_policy_observation policy_model_receipt sample_target policy_evidence
     [(''/p/fragma/analysis_policy.py'', replicate 64 CHR ''a'')] ''/p'' = Inr v
   \<and> pipeline_identity sample_target = Inr p \<and> lawful_command p args"
proof -
  from policy_evidence_observed obtain v where v: "analysis_policy_observation policy_model_receipt sample_target policy_evidence
     [(''/p/fragma/analysis_policy.py'', replicate 64 CHR ''a'')] ''/p'' = Inr v"
    by (auto split: sum.splits)
  have "has_key policy_evidence ''validated_analysis_policy''" by (simp add: policy_evidence_def)
  with observed_policy_not_upgraded [OF v] v show ?thesis by auto
qed

end
