(* ===== verification/Coverage_Inputs.thy ===== *)
theory Coverage_Inputs
  imports Replay_Base State_Res
begin

text \<open>
  \<^verbatim>\<open>_Inputs\<close> of \<^verbatim>\<open>fragma/coverage.py\<close>: the cache of file digests that the generation of the coverage
  matrix reads through. The machine may change between two accesses, so every operation takes the
  machine of its own moment; \<^verbatim>\<open>finalize\<close> compares all observed digests with the machine at the end.
  The contract is the locale \<open>observation_cache\<close>: the first observation of a file sticks, and a final
  check that succeeds makes every answer given during the session true of the final machine.
\<close>

abbreviation coverage_error :: "string \<Rightarrow> exn" where
  "coverage_error m \<equiv> Exn CoverageError m"

section \<open>The interface of a cache of observations\<close>

text \<open>A session: look-ups at successive machines, with the answers given.\<close>

fun session :: "('m \<Rightarrow> 'k \<Rightarrow> 's \<Rightarrow> 'v \<times> 's) \<Rightarrow> ('m \<times> 'k) list \<Rightarrow> 's \<Rightarrow> ('k \<times> 'v) list \<times> 's" where
  "session look [] s = ([], s)"
| "session look ((m, k) # rest) s =
     (let (v, s1) = look m k s; (ans, s2) = session look rest s1 in ((k, v) # ans, s2))"

locale observation_cache =
  fixes look :: "'m \<Rightarrow> 'k \<Rightarrow> 's \<Rightarrow> 'v \<times> 's"
    and known :: "'s \<Rightarrow> 'k \<Rightarrow> 'v option"
    and now :: "'m \<Rightarrow> 'k \<Rightarrow> 'v"
    and final :: "'m \<Rightarrow> 's \<Rightarrow> bool"
  assumes look_known: "known s k = Some v \<Longrightarrow> look m k s = (v, s)"
    and look_new: "known s k = None \<Longrightarrow> \<exists>s'. look m k s = (now m k, s') \<and> known s' = (known s)(k \<mapsto> now m k)"
    and final_iff: "final m s \<longleftrightarrow> (\<forall>k v. known s k = Some v \<longrightarrow> now m k = v)"
begin

lemma look_records: "look m k s = (v, s') \<Longrightarrow> known s' k = Some v"
  using look_known [of s k] look_new [of s k m] by (cases "known s k") auto

lemma look_extends: "look m k s = (v, s') \<Longrightarrow> known s \<subseteq>\<^sub>m known s'"
  using look_known [of s k] look_new [of s k m] by (cases "known s k") (auto simp: map_le_def)

lemma session_extends: "session look accesses s = (ans, s') \<Longrightarrow> known s \<subseteq>\<^sub>m known s'"
proof (induction accesses arbitrary: s ans)
  case (Cons a rest)
  obtain m k where a: "a = (m, k)" by (cases a)
  from Cons.prems a obtain v s1 ans' where "look m k s = (v, s1)" "session look rest s1 = (ans', s')"
    by (auto simp: Let_def split: prod.splits)
  with Cons.IH look_extends show ?case by (blast intro: map_le_trans)
qed simp

lemma session_known: "session look accesses s = (ans, s') \<Longrightarrow> (k, v) \<in> set ans \<Longrightarrow> known s' k = Some v"
proof (induction accesses arbitrary: s ans)
  case (Cons a rest)
  obtain m k' where a: "a = (m, k')" by (cases a)
  from Cons.prems(1) a obtain v' s1 ans' where s1: "look m k' s = (v', s1)" "session look rest s1 = (ans', s')"
      "ans = (k', v') # ans'"
    by (auto simp: Let_def split: prod.splits)
  show ?case
  proof (cases "(k, v) = (k', v')")
    case True
    with look_records [OF s1(1)] session_extends [OF s1(2)] show ?thesis by (auto simp: map_le_def dom_def)
  next
    case False
    with Cons.prems(2) s1(3) Cons.IH [OF s1(2)] show ?thesis by auto
  qed
qed simp

text \<open>Answers about one key agree, and a final check makes all of them true.\<close>

lemma session_stable:
  "session look accesses s = (ans, s') \<Longrightarrow> (k, v) \<in> set ans \<Longrightarrow> (k, w) \<in> set ans \<Longrightarrow> v = w"
  by (drule (1) session_known [rotated]) (auto dest: session_known)

lemma session_final:
  "session look accesses s = (ans, s') \<Longrightarrow> final m s' \<Longrightarrow> (k, v) \<in> set ans \<Longrightarrow> now m k = v"
  using session_known final_iff by blast

end

section \<open>The cache\<close>

type_synonym cache = "(string \<times> string option) list"

text \<open>\<^verbatim>\<open>str(Path(p).absolute())\<close>; the current directory is where \<^verbatim>\<open>.\<close> resolves to.\<close>

definition absolute :: "host \<Rightarrow> string \<Rightarrow> string" where
  "absolute h p = path_join (resolve h ''.'') p"

definition look_up :: "host \<Rightarrow> string \<Rightarrow> cache \<Rightarrow> string option \<times> cache" where
  "look_up h name c = (case map_of c name of
     Some v \<Rightarrow> (v, c)
   | None \<Rightarrow> (file_sha256 h name, c @ [(name, file_sha256 h name)]))"

definition observe_file :: "host \<Rightarrow> string \<Rightarrow> (cache, string option) prog" where
  "observe_file h p c = (let (v, c') = look_up h (absolute h p) c in (Inr v, c'))"

text \<open>\<^verbatim>\<open>_strict_json\<close>, which walks the value once more for non-finite numbers.\<close>

definition coverage_json :: "json_loads \<Rightarrow> string \<Rightarrow> py res" where
  "coverage_json loads raw = bind_res (strict_json loads raw) (\<lambda>v.
     bind_res (check (finite_py v) (coverage_error ''non-finite JSON number'')) (\<lambda>_. Inr v))"

definition checked_document :: "py \<Rightarrow> pydict res" where
  "checked_document v = (case v of
     PDict d \<Rightarrow> bind_res (check (dget d ''schema_version'' = PInt 1) (coverage_error ''unsupported evidence schema'')) (\<lambda>_. Inr d)
   | _ \<Rightarrow> Inl (coverage_error ''unsupported evidence schema''))"

text \<open>\<^verbatim>\<open>json(path)\<close>: the digest is taken on one machine, the bytes are read on the next.\<close>

definition read_json :: "host \<Rightarrow> host \<Rightarrow> json_loads \<Rightarrow> string \<Rightarrow> (cache, pydict) prog" where
  "read_json h h' loads p =
     sbind (observe_file h p) (\<lambda>expected. slift
       (case contents h' (absolute h p) of
          None \<Rightarrow> Inl (coverage_error ''cannot read evidence'')
        | Some raw \<Rightarrow>
            (case coverage_json loads raw of
               Inl e \<Rightarrow> Inl (coverage_error ''cannot read evidence'')
             | Inr v \<Rightarrow>
                 bind_res (check (expected = Some (sha256_hex h' raw)) (coverage_error ''evidence changed while reading''))
                   (\<lambda>_. checked_document v))))"

text \<open>\<^verbatim>\<open>integrity.merge_records\<close> of values of any type; an item without \<^verbatim>\<open>get\<close> is an \<^verbatim>\<open>AttributeError\<close>.\<close>

definition merge_value :: "receipt list \<Rightarrow> py \<Rightarrow> receipt list res" where
  "merge_value rs v = (case v of PDict d \<Rightarrow> merge_step rs d | _ \<Rightarrow> Inl (Exn AttributeError ''get''))"

definition merge_group :: "receipt list \<Rightarrow> py \<Rightarrow> receipt list res" where
  "merge_group rs g = bind_res (items_of g) (\<lambda>vs. foldM merge_value rs vs)"

definition merge_groups :: "py list \<Rightarrow> receipt list res" where
  "merge_groups gs = bind_res (foldM merge_group [] gs) (\<lambda>rs. Inr (sort_key fst rs))"

fun compare_records :: "host \<Rightarrow> receipt list \<Rightarrow> (cache, change list) prog" where
  "compare_records h [] = sreturn []"
| "compare_records h ((f, d) # rs) =
     sbind (observe_file h f) (\<lambda>actual. sbind (compare_records h rs) (\<lambda>cs.
       sreturn (if actual \<noteq> Some d then (f, d, actual) # cs else cs)))"

definition changes :: "host \<Rightarrow> receipt list \<Rightarrow> (cache, change list) prog" where
  "changes h records = (case merge_records (map receipt_entry records) of
     Inl (Exn c m) \<Rightarrow> sraise (if is_value_error (Exn c m) then coverage_error ''malformed input-integrity records'' else Exn c m)
   | Inr rs \<Rightarrow> compare_records h rs)"

definition finalize :: "host \<Rightarrow> cache \<Rightarrow> receipt list res" where
  "finalize h c =
     bind_res (allM (\<lambda>(f, v). check (file_sha256 h f = v) (coverage_error ''input changed during coverage generation'')) c)
       (\<lambda>_. Inr (sort_key fst (List.map_filter (\<lambda>(f, v). map_option (Pair f) v) c)))"

section \<open>The cache keeps its contract\<close>

definition unchanged :: "host \<Rightarrow> cache \<Rightarrow> bool" where
  "unchanged h c = (\<forall>k v. map_of c k = Some v \<longrightarrow> file_sha256 h k = v)"

interpretation digests: observation_cache look_up map_of file_sha256 unchanged
proof
  show "\<exists>c'. look_up h k c = (file_sha256 h k, c') \<and> map_of c' = (map_of c)(k \<mapsto> file_sha256 h k)"
    if "map_of c k = None" for c h k
    using that by (auto simp: look_up_def fun_eq_iff map_add_def split: option.splits)
qed (auto simp: look_up_def unchanged_def)

lemma look_up_distinct: "look_up h k c = (v, c') \<Longrightarrow> distinct (map fst c) \<Longrightarrow> distinct (map fst c')"
  by (auto simp: look_up_def map_of_eq_None_iff split: option.splits)

lemma finalize_Inr:
  assumes "finalize h c = Inr rs" and "distinct (map fst c)"
  shows "unchanged h c \<and> (\<forall>f d. (f, d) \<in> set rs \<longleftrightarrow> map_of c f = Some (Some d))"
proof -
  from assms(1) have all: "\<And>f v. (f, v) \<in> set c \<Longrightarrow> file_sha256 h f = v"
    and rs: "rs = sort_key fst (List.map_filter (\<lambda>(f, v). map_option (Pair f) v) c)"
    by (auto simp: finalize_def bind_res_Inr allM_iff check_iff)
  have "map_of c f = Some v \<longleftrightarrow> (f, v) \<in> set c" for f v using assms(2) by simp
  with all rs show ?thesis by (force simp: unchanged_def map_filter_def)
qed

lemma session_distinct:
  "session look_up accesses c = (ans, c') \<Longrightarrow> distinct (map fst c) \<Longrightarrow> distinct (map fst c')"
proof (induction accesses arbitrary: c ans)
  case (Cons a rest)
  obtain h k where a: "a = (h, k)" by (cases a)
  from Cons.prems(1) a obtain v c1 ans' where "look_up h k c = (v, c1)" "session look_up rest c1 = (ans', c')"
    by (auto simp: Let_def split: prod.splits)
  with Cons.IH Cons.prems(2) look_up_distinct show ?case by blast
qed simp

section \<open>Merged groups and their comparison\<close>

lemma merge_value_Inr: "merge_value rs v = Inr r \<longleftrightarrow> (\<exists>d. v = PDict d \<and> merge_step rs d = Inr r)"
  by (cases v) (auto simp: merge_value_def)

lemma merge_group_Inr: "merge_group rs g = Inr r \<longleftrightarrow> (\<exists>vs. items_of g = Inr vs \<and> foldM merge_value rs vs = Inr r)"
  by (simp add: merge_group_def bind_res_Inr)

lemma foldM_merge_value:
  "foldM merge_value rs vs = Inr rs' \<Longrightarrow> \<exists>ds. vs = map PDict ds \<and> foldM merge_step rs ds = Inr rs'"
proof (induction vs arbitrary: rs)
  case (Cons v vs)
  then obtain d r where v: "v = PDict d" "merge_step rs d = Inr r" "foldM merge_value r vs = Inr rs'"
    by (auto simp: bind_res_Inr merge_value_Inr)
  with Cons.IH obtain ds where "vs = map PDict ds" "foldM merge_step r ds = Inr rs'" by blast
  with v show ?case by (intro exI [of _ "d # ds"]) simp
qed simp

text \<open>A merge of groups is a merge of the records in them.\<close>

lemma merge_groups_Inr:
  assumes "merge_groups gs = Inr rs"
  shows "\<exists>dss. list_all2 (\<lambda>g ds. items_of g = Inr (map PDict ds)) gs dss \<and> merge_records (concat dss) = Inr rs"
proof -
  from assms obtain r where r: "foldM merge_group [] gs = Inr r" "rs = sort_key fst r"
    by (auto simp: merge_groups_def bind_res_Inr)
  have "\<exists>dss. list_all2 (\<lambda>g ds. items_of g = Inr (map PDict ds)) gs dss \<and> foldM merge_step r0 (concat dss) = Inr r"
    if "foldM merge_group r0 gs = Inr r" for r0 gs
    using that
  proof (induction gs arbitrary: r0)
    case (Cons g gs)
    then obtain vs r1 where g: "items_of g = Inr vs" "foldM merge_value r0 vs = Inr r1" "foldM merge_group r1 gs = Inr r"
      by (auto simp: bind_res_Inr merge_group_Inr)
    from foldM_merge_value [OF g(2)] obtain ds where "vs = map PDict ds" "foldM merge_step r0 ds = Inr r1" by blast
    moreover from Cons.IH [OF g(3)] obtain dss where
      "list_all2 (\<lambda>g ds. items_of g = Inr (map PDict ds)) gs dss" "foldM merge_step r1 (concat dss) = Inr r" by blast
    ultimately show ?case using g(1) by (intro exI [of _ "ds # dss"]) (simp add: foldM_append)
  qed simp
  from this [OF r(1)] r(2) show ?thesis by (auto simp: merge_records_def)
qed

lemma merged_receipts:
  assumes "merge_records items = Inr rs" and "(f, d) \<in> set rs"
  shows "receipt_of (receipt_entry (f, d)) = Some (f, d) \<and> is_absolute f \<and> path_str f = f"
proof -
  have "Some (f, d) \<in> receipt_of ` set items" using inventory.merge_set [OF assms(1)] assms(2) by blast
  then obtain p where "is_absolute p" "f = path_str p" "is_hex 64 d" by (auto simp: image_iff eq_commute receipt_of_Some)
  then show ?thesis by (simp add: receipt_of_entry path_str_absolute)
qed

lemma absolute_id: "is_absolute f \<Longrightarrow> path_str f = f \<Longrightarrow> absolute h f = f"
  by (simp add: absolute_def path_join_def)

text \<open>What a program over the cache keeps: the entries it has.\<close>

abbreviation cache_has :: "(string \<rightharpoonup> string option) \<Rightarrow> cache \<Rightarrow> bool" where
  "cache_has m c \<equiv> m \<subseteq>\<^sub>m map_of c"

lemma keeps_observe [intro, simp]: "keeps (cache_has m) (observe_file h p)"
proof -
  have "cache_has m (snd (observe_file h p c))" if "cache_has m c" for c
  proof -
    obtain v c' where l: "look_up h (absolute h p) c = (v, c')" by (cases "look_up h (absolute h p) c")
    from map_le_trans [OF that digests.look_extends [OF l]] show ?thesis by (simp add: observe_file_def l)
  qed
  then show ?thesis by (simp add: keeps_def)
qed

lemma observe_Inr: "observe_file h p c = (Inr v, c') \<Longrightarrow> map_of c' (absolute h p) = Some v"
  using digests.look_records by (auto simp: observe_file_def split: prod.splits)

lemma keeps_compare [intro, simp]: "keeps (cache_has m) (compare_records h rs)"
  by (induction h rs rule: compare_records.induct) (auto intro!: keeps_sbind)

lemma keeps_changes [intro, simp]: "keeps (cache_has m) (changes h rs)"
  by (auto simp: changes_def split: sum.splits exn.splits)

lemma keeps_read_json [intro, simp]: "keeps (cache_has m) (read_json h h' loads p)"
  by (auto simp: read_json_def intro!: keeps_sbind)

lemma compare_records_Nil:
  assumes "compare_records h rs c = (Inr [], c')" and "(f, d) \<in> set rs"
  shows "map_of c' (absolute h f) = Some (Some d)"
  using assms
proof (induction rs arbitrary: c)
  case (Cons r rs)
  obtain g e where r: "r = (g, e)" by (cases r)
  from Cons.prems(1) obtain c1 where c1: "observe_file h g c = (Inr (Some e), c1)" "compare_records h rs c1 = (Inr [], c')"
    by (auto simp: r sbind_Inr slift_eq split: if_splits)
  have "cache_has (map_of c1) c'" by (rule keepsD [OF keeps_compare c1(2)]) simp
  with observe_Inr [OF c1(1)] Cons.IH [OF c1(2)] Cons.prems(2) show ?case
    by (auto simp: r map_le_def dom_def)
qed simp

text \<open>Records found unchanged are in the cache with their digests.\<close>

lemma changes_Nil:
  assumes "changes h rs c = (Inr [], c')" and "merge_records items = Inr rs" and "(f, d) \<in> set rs"
  shows "map_of c' f = Some (Some d)"
proof -
  from assms(1) obtain rs' where rs': "merge_records (map receipt_entry rs) = Inr rs'" "compare_records h rs' c = (Inr [], c')"
    by (auto simp: changes_def slift_eq split: sum.splits exn.splits)
  from merged_receipts [OF assms(2,3)] have f: "receipt_of (receipt_entry (f, d)) = Some (f, d)" "absolute h f = f"
    by (auto simp: absolute_id)
  have "Some (f, d) \<in> receipt_of ` set (map receipt_entry rs)" using f(1) assms(3) by force
  then have "(f, d) \<in> set rs'" using inventory.merge_set [OF rs'(1)] by blast
  from compare_records_Nil [OF rs'(2) this] f(2) show ?thesis by simp
qed

text \<open>
  C20. Every answer the cache gave in a session, at whatever machines, is true of the machine that
  \<^verbatim>\<open>finalize\<close> accepts: the file has the digest that was answered, a missing file is still missing, and
  the receipts returned are exactly the files that were observed with a digest.
\<close>

theorem session_true_at_end:
  assumes "session look_up accesses [] = (ans, c)" and "finalize h c = Inr rs"
  shows "(\<forall>f v. (f, v) \<in> set ans \<longrightarrow> file_sha256 h f = v \<and> (\<forall>d. v = Some d \<longrightarrow> (f, d) \<in> set rs))
    \<and> (\<forall>f v w. (f, v) \<in> set ans \<longrightarrow> (f, w) \<in> set ans \<longrightarrow> v = w)"
proof -
  have "distinct (map fst c)" using session_distinct [OF assms(1)] by simp
  note final = finalize_Inr [OF assms(2) this]
  with digests.session_final [OF assms(1)] digests.session_known [OF assms(1)]
    digests.session_stable [OF assms(1)]
  show ?thesis by blast
qed

definition empty_host :: host where
  "empty_host = \<lparr>contents = (\<lambda>p. if p = ''/p/a'' then Some ''x'' else None), is_symlink = (\<lambda>_. False), is_dir = (\<lambda>_. False),
     resolve = path_str, sha256_hex = (\<lambda>_. replicate 64 CHR ''a''), float_text = (\<lambda>_. ''1.0'')\<rparr>"

lemma session_true_at_end_witness:
  "\<exists>ans c rs. session look_up [(empty_host, ''/p/a''), (empty_host, ''/p/b''), (empty_host, ''/p/a'')] [] = (ans, c)
     \<and> finalize empty_host c = Inr rs \<and> (''/p/a'', Some (replicate 64 CHR ''a'')) \<in> set ans
     \<and> (''/p/a'', replicate 64 CHR ''a'') \<in> set rs"
proof -
  let ?acc = "[(empty_host, ''/p/a''), (empty_host, ''/p/b''), (empty_host, ''/p/a'')]"
  let ?ans = "[(''/p/a'', Some (replicate 64 CHR ''a'')), (''/p/b'', None), (''/p/a'', Some (replicate 64 CHR ''a''))]"
  let ?c = "[(''/p/a'', Some (replicate 64 CHR ''a'')), (''/p/b'', None)]"
  have s: "session look_up ?acc [] = (?ans, ?c)" by code_simp
  have "\<exists>rs. finalize empty_host ?c = Inr rs" by (intro exI [of _ "[(''/p/a'', replicate 64 CHR ''a'')]"]) code_simp
  then obtain rs where f: "finalize empty_host ?c = Inr rs" by blast
  from session_true_at_end [OF s f] s f show ?thesis by auto
qed

end
