(* ===== verification/Coverage_Target.thy ===== *)
theory Coverage_Target
  imports Coverage_Inputs
begin

text \<open>
  The middle of \<^verbatim>\<open>fragma/coverage.py\<close>: the consistency of a saved verdict (\<^verbatim>\<open>_verdict\<close>), the observation of
  a model receipt (\<^verbatim>\<open>_model_observation\<close>) and of one target result (\<^verbatim>\<open>_target_observation\<close>), as programs
  over the cache of digests. The machine does not change within one observation here; that it did not
  change before the end is what \<^verbatim>\<open>finalize\<close> checks. The reparsing of the retained artifacts of an accepted
  target (\<^verbatim>\<open>_retained_target\<close>) is the argument \<open>retained\<close>.
\<close>

section \<open>Digests of values\<close>

text \<open>\<^verbatim>\<open>json.dumps(v, sort_keys=True)\<close>, with its default separators.\<close>

definition json_number :: "host \<Rightarrow> pyfloat \<Rightarrow> string" where
  "json_number h f = (case f of Fin r \<Rightarrow> float_text h f | PosInf \<Rightarrow> ''Infinity'' | NegInf \<Rightarrow> ''-Infinity'' | NaN \<Rightarrow> ''NaN'')"

fun json_spaced :: "host \<Rightarrow> py \<Rightarrow> string"
and spaced_elems :: "host \<Rightarrow> py list \<Rightarrow> string list"
and spaced_entries :: "host \<Rightarrow> pydict \<Rightarrow> string list" where
  "json_spaced h PNone = ''null''"
| "json_spaced h (PBool b) = (if b then ''true'' else ''false'')"
| "json_spaced h (PInt n) = int_str n"
| "json_spaced h (PFloat f) = json_number h f"
| "json_spaced h (PStr s) = json_string s"
| "json_spaced h (PList vs) = ''['' @ join '', '' (spaced_elems h vs) @ '']''"
| "json_spaced h (PDict d) = ''{'' @ join '', '' (spaced_entries h d) @ ''}''"
| "spaced_elems h [] = []"
| "spaced_elems h (v # vs) = json_spaced h v # spaced_elems h vs"
| "spaced_entries h [] = []"
| "spaced_entries h ((k, v) # d) = (json_string k @ '': '' @ json_spaced h v) # spaced_entries h d"

definition value_digest :: "host \<Rightarrow> py \<Rightarrow> string" where
  "value_digest h v = sha256_hex h (json_spaced h (canon v))"

section \<open>Verdicts\<close>

definition boolean_fields :: "pydict \<Rightarrow> bool" where
  "boolean_fields d = list_all (\<lambda>f. \<not> has_key d f \<or> is_bool (dget d f)) [''accepted'', ''verified'', ''local_policy_passed'']"

definition accepted_fields :: "pydict \<Rightarrow> pydict \<Rightarrow> py \<Rightarrow> bool" where
  "accepted_fields item evaluation role =
     (let expected = PStr (if role = PStr ''proof'' then ''passed'' else ''calibration-passed'') in
      dget item ''status'' = expected \<and> dget evaluation ''status'' = expected \<and> dget evaluation ''accepted'' = PBool True
      \<and> dget evaluation ''verified'' = PBool (role = PStr ''proof'') \<and> dget evaluation ''local_policy_passed'' = PBool True)"

definition verdict :: "pydict \<Rightarrow> bool res" where
  "verdict item = (case dget_or item ''evaluation'' (PDict []) of
     PDict evaluation \<Rightarrow>
       bind_res (check (boolean_fields item \<and> boolean_fields evaluation) (coverage_error ''non-Boolean target verdict'')) (\<lambda>_.
       bind_res (check (list_all (\<lambda>f. \<not> has_key evaluation f \<or> py_eq (dget evaluation f) (dget item f)) [''accepted'', ''status''])
         (coverage_error ''target/evaluation verdicts disagree'')) (\<lambda>_.
       bind_res (pget (dget_or item ''target'' (PDict [])) ''role'') (\<lambda>role.
         if dget item ''accepted'' = PBool True
         then bind_res (check (accepted_fields item evaluation role) (coverage_error ''inconsistent accepted/status/verified target fields''))
           (\<lambda>_. Inr True)
         else bind_res (check (dget item ''status'' \<notin> {PStr ''passed'', PStr ''calibration-passed''} \<and> dget evaluation ''verified'' \<noteq> PBool True)
             (coverage_error ''unsuccessful target claims a passing status or verification'')) (\<lambda>_. Inr False))))
   | _ \<Rightarrow> Inl (coverage_error ''malformed target evaluation''))"

text \<open>A verdict is accepted only with every field green, and a rejected one has none of them.\<close>

lemma verdict_Inr:
  assumes "verdict item = Inr b"
  shows "(dget item ''accepted'' = PBool True) = b
    \<and> (\<exists>evaluation role. dget_or item ''evaluation'' (PDict []) = PDict evaluation
        \<and> pget (dget_or item ''target'' (PDict [])) ''role'' = Inr role
        \<and> (b \<longrightarrow> accepted_fields item evaluation role)
        \<and> (\<not> b \<longrightarrow> dget item ''status'' \<notin> {PStr ''passed'', PStr ''calibration-passed''} \<and> dget evaluation ''verified'' \<noteq> PBool True))"
proof -
  from assms obtain evaluation where e: "dget_or item ''evaluation'' (PDict []) = PDict evaluation"
    by (auto simp: verdict_def case_py_Inr)
  with assms obtain role where r: "pget (dget_or item ''target'' (PDict [])) ''role'' = Inr role"
    by (auto simp: verdict_def bind_res_Inr)
  show ?thesis
  proof (cases "dget item ''accepted'' = PBool True")
    case True
    with assms e r have "b" "accepted_fields item evaluation role"
      by (auto simp: verdict_def bind_res_Inr check_iff)
    with True e r show ?thesis by blast
  next
    case False
    with assms e r have "\<not> b" "dget item ''status'' \<notin> {PStr ''passed'', PStr ''calibration-passed''}" "dget evaluation ''verified'' \<noteq> PBool True"
      by (auto simp: verdict_def bind_res_Inr check_iff)
    with False e r show ?thesis by blast
  qed
qed

section \<open>A model receipt\<close>

text \<open>\<^verbatim>\<open>registered.get(v)\<close>: an unhashable key is a \<^verbatim>\<open>TypeError\<close>.\<close>

definition profile_of :: "pydict \<Rightarrow> py \<Rightarrow> py res" where
  "profile_of registered v = (case v of
     PStr s \<Rightarrow> Inr (dget registered s)
   | PList vs \<Rightarrow> Inl (Exn TypeError ''unhashable'')
   | PDict d \<Rightarrow> Inl (Exn TypeError ''unhashable'')
   | _ \<Rightarrow> Inr PNone)"

definition issue_unless :: "bool \<Rightarrow> string \<Rightarrow> string list" where
  "issue_unless c m = (if c then [] else [m])"

lemma issue_unless_Nil [simp]: "issue_unless c m = [] \<longleftrightarrow> c"
  by (simp add: issue_unless_def)

definition model_binding :: "host \<Rightarrow> pydict \<Rightarrow> string \<Rightarrow> pydict \<Rightarrow> (py \<times> string list) res" where
  "model_binding h registered revision model =
     bind_res (profile_of registered (dget model ''profile_id'')) (\<lambda>current.
     bind_res (if truthy current then bind_res (pindex current ''architecture'') (\<lambda>a. Inr (py_eq (dget model ''architecture'') a))
               else Inr True) (\<lambda>same_architecture.
       Inr (current,
         issue_unless (truthy current \<and> dget model ''profile_sha256'' = PStr (value_digest h current)) ''profile-definition-mismatch''
         @ issue_unless (dget model ''kernel_revision'' = PStr revision) ''revision-mismatch''
         @ issue_unless same_architecture ''architecture-mismatch''
         @ issue_unless (dget model ''schema_version'' = PInt 1) ''model-schema-mismatch'')))"

definition digest_value :: "string option \<Rightarrow> py" where
  "digest_value v = (case v of None \<Rightarrow> PNone | Some d \<Rightarrow> PStr d)"

definition read_policy :: "host \<Rightarrow> tools \<Rightarrow> cache policy_reader" where
  "read_policy h os path expected = (case path of
     PStr p \<Rightarrow>
       if is_symlink h (absolute h p) then sraise (coverage_error ''model analysis-policy audit missing or changed'')
       else sbind (observe_file h p) (\<lambda>v.
         if py_eq (digest_value v) expected then slift (text_file h os (absolute h p))
         else sraise (coverage_error ''model analysis-policy audit missing or changed''))
   | _ \<Rightarrow> sraise (Exn TypeError ''Path''))"

definition check_registered_policy :: "py \<Rightarrow> pydict \<Rightarrow> pydict res" where
  "check_registered_policy current policy =
     bind_res (if truthy current then bind_res (pget_or current ''analysis'' (PDict [])) (occurs_in ''runtime_checks'') else Inr False) (\<lambda>declared.
       if \<not> declared then Inr policy
       else bind_res (check (dget policy ''status'' = PStr ''checked'')
           (coverage_error ''model lacks the currently registered actual analysis policy'')) (\<lambda>_.
         bind_res (pindex current ''analysis'') (\<lambda>a. bind_res (model_identity a) (\<lambda>i.
         bind_res (json_agrees (dget policy ''model'') (PDict i)) (\<lambda>same.
         bind_res (check same (coverage_error ''model lacks the currently registered actual analysis policy'')) (\<lambda>_. Inr policy))))))"

text \<open>\<^verbatim>\<open>except (OSError, KeyError, TypeError, ValueError)\<close> and its shorter forms.\<close>

definition evidence_exn :: "exn_class set \<Rightarrow> exn_class \<Rightarrow> bool" where
  "evidence_exn cs c = (c \<in> cs \<or> is_value_error (Exn c []))"

definition model_policy_step ::
  "host \<Rightarrow> tools \<Rightarrow> json_loads \<Rightarrow> pydict \<Rightarrow> py \<Rightarrow> (cache, pydict \<times> string list) prog" where
  "model_policy_step h os loads model current =
     stry (sbind (model_policy_observation loads (read_policy h os) (PDict model)) (\<lambda>policy.
             slift (bind_res (check_registered_policy current policy) (\<lambda>p. Inr (p, [])))))
       (evidence_exn {OSError, KeyError, TypeError})
       (\<lambda>m. sreturn ([(''status'', PStr ''unavailable-or-mismatched''), (''error'', PStr m)],
                      [''model-analysis-policy-unavailable-or-mismatched'']))"

definition receipt_values :: "receipt list \<Rightarrow> py" where
  "receipt_values rs = PList (map (\<lambda>r. PDict (receipt_entry r)) rs)"

definition model_inputs_step :: "host \<Rightarrow> string \<Rightarrow> pydict \<Rightarrow> py \<Rightarrow> (cache, change list \<times> string list) prog" where
  "model_inputs_step h project model run_inputs =
     stry (sbind (slift (bind_res (profile_records h project model) (\<lambda>own.
             bind_res (items_of run_inputs) (\<lambda>more. merge_groups [receipt_values own, PList more])))) (\<lambda>records.
           sbind (changes h records) (\<lambda>stale. sreturn (stale, []))))
       (evidence_exn {KeyError, TypeError})
       (\<lambda>m. sreturn ([], [''model-input-evidence-unavailable'']))"

fun rows_passed :: "py list \<Rightarrow> bool res" where
  "rows_passed [] = Inr True"
| "rows_passed (r # rs) = bind_res (pget r ''status'') (\<lambda>s. if s = PStr ''passed'' then rows_passed rs else Inr False)"

definition model_eligible :: "pydict \<Rightarrow> string list \<Rightarrow> change list \<Rightarrow> bool res" where
  "model_eligible model issues stale =
     (let checks = dget_or model ''checks'' (PList []) in
      if dget model ''status'' = PStr ''passed'' \<and> dget model ''level'' \<in> {PStr ''L0'', PStr ''L1''} \<and> truthy checks
      then bind_res (items_of checks) (\<lambda>rows. bind_res (rows_passed rows) (\<lambda>ok. Inr (ok \<and> issues = [] \<and> stale = [])))
      else Inr False)"

record model_obs =
  mo_origin :: py
  mo_date :: py
  mo_profile :: py
  mo_status :: py
  mo_level :: py
  mo_current :: py
  mo_issues :: "string list"
  mo_stale :: "change list"
  mo_policy :: pydict
  mo_fingerprint :: py
  mo_scope :: py
  mo_runtime :: py

definition model_observation ::
  "host \<Rightarrow> tools \<Rightarrow> json_loads \<Rightarrow> string \<Rightarrow> pydict \<Rightarrow> pydict \<Rightarrow> string \<Rightarrow> py \<Rightarrow> py \<Rightarrow> py \<Rightarrow> (cache, model_obs) prog" where
  "model_observation h os loads project model registered revision origin date run_inputs =
     sbind (slift (model_binding h registered revision model)) (\<lambda>(current, binding).
     sbind (model_policy_step h os loads model current) (\<lambda>(policy, policy_issues).
     sbind (model_inputs_step h project model run_inputs) (\<lambda>(stale, input_issues).
     let issues = binding @ policy_issues @ input_issues in
     slift (bind_res (model_eligible model issues stale) (\<lambda>eligible.
       bind_res (if truthy current then pget current ''model_scope'' else Inr PNone) (\<lambda>scope.
       bind_res (pget (dget_or model ''runtime'' (PDict [])) ''status'') (\<lambda>runtime.
         Inr \<lparr>mo_origin = origin, mo_date = date, mo_profile = dget model ''profile_id'', mo_status = dget model ''status'',
              mo_level = dget model ''level'', mo_current = (if eligible then dget model ''level'' else PNone),
              mo_issues = issues, mo_stale = stale, mo_policy = policy, mo_fingerprint = dget model ''fingerprint'',
              mo_scope = scope, mo_runtime = runtime\<rparr>)))))))"

section \<open>A target result\<close>

record run =
  rn_path :: string
  rn_sha :: "string option"
  rn_data :: pydict
  rn_selected :: "string list"
  rn_items :: "(string \<times> pydict) list"
  rn_time :: "int option"
  rn_undated :: bool

text \<open>The part of \<^verbatim>\<open>run["data"]\<close> that belongs to the profile of the target.\<close>

definition run_model :: "run \<Rightarrow> string \<Rightarrow> py res" where
  "run_model r profile = pget_or (dget_or (rn_data r) ''profiles'' (PDict [])) profile (PDict [])"

definition hash_text :: "py \<Rightarrow> bool" where
  "hash_text v = (case v of PStr s \<Rightarrow> is_hex 64 s | PInt n \<Rightarrow> is_hex 64 (int_str n) | _ \<Rightarrow> False)"

definition profile_bound :: "host \<Rightarrow> py \<Rightarrow> string \<Rightarrow> py \<Rightarrow> string \<Rightarrow> bool res" where
  "profile_bound h model profile current revision = (case model of
     PDict m \<Rightarrow> Inr (dget m ''profile_id'' = PStr profile \<and> dget m ''profile_sha256'' = PStr (value_digest h current)
       \<and> dget m ''kernel_revision'' = PStr revision)
   | _ \<Rightarrow> Inl (Exn AttributeError ''get''))"

text \<open>\<^verbatim>\<open>source\<close> and the test of the provenance gate.\<close>

definition source_of :: "pydict \<Rightarrow> (pydict \<times> pydict) res" where
  "source_of item = (case dget_or item ''provenance'' (PDict []) of
     PDict provenance \<Rightarrow> (case dget_or provenance ''source'' (PDict []) of
         PDict source \<Rightarrow> Inr (provenance, source)
       | _ \<Rightarrow> Inl (Exn AttributeError ''get''))
   | _ \<Rightarrow> Inl (Exn AttributeError ''get''))"

definition provenance_ok :: "pydict \<Rightarrow> pydict \<Rightarrow> string \<Rightarrow> string \<Rightarrow> bool" where
  "provenance_ok provenance source revision path =
     (dget provenance ''passed'' = PBool True \<and> dget source ''revision'' = PStr revision \<and> dget source ''path'' = PStr path
      \<and> dget source ''kind'' = PStr ''git-blob'' \<and> hash_text (dget_or source ''sha256'' (PStr [])))"

definition target_inputs_step :: "host \<Rightarrow> py \<Rightarrow> py \<Rightarrow> (cache, receipt list \<times> change list \<times> string list) prog" where
  "target_inputs_step h shared own =
     stry (sbind (slift (merge_groups [shared, own])) (\<lambda>records.
           sbind (changes h records) (\<lambda>stale. sreturn (records, stale, []))))
       (evidence_exn {TypeError})
       (\<lambda>m. sreturn ([], [], [''invalid-integrity-records: '' @ m]))"

definition declared_fields :: "string list" where
  "declared_fields = [''harness'', ''specs'', ''driver'', ''kernel_model_check'', ''wp_strategy_file'']"

definition declared_issues :: "string \<Rightarrow> receipt list \<Rightarrow> pydict \<Rightarrow> string list res" where
  "declared_issues project records target =
     bind_res (mapM (\<lambda>f. if truthy (dget target f)
         then bind_res (need_str (dget target f)) (\<lambda>p.
           Inr (issue_unless (path_join project p \<in> fst ` set records) (''declared-input-binding-missing: '' @ f)))
         else Inr []) declared_fields) (\<lambda>iss. Inr (concat iss))"

definition manifest_issues :: "string \<Rightarrow> receipt list \<Rightarrow> string list \<Rightarrow> string list" where
  "manifest_issues project records manifests =
     concat (map (\<lambda>p. issue_unless (path_join project p \<in> fst ` set records) (''manifest-binding-missing: '' @ p)) manifests)"

record content_check =
  cc_status :: string
  cc_expected :: py
  cc_path :: "string option"
  cc_actual :: "string option"

text \<open>The content of the pinned source file, in the configured tree or as the one recorded input of that name.\<close>

definition content_of :: "host \<Rightarrow> string \<Rightarrow> py \<Rightarrow> (cache, content_check) prog" where
  "content_of h p expected =
     sbind (observe_file h p) (\<lambda>actual. sreturn
       \<lparr>cc_status = (if actual \<noteq> None \<and> digest_value actual = expected then ''passed'' else ''mismatched''),
        cc_expected = expected, cc_path = Some p, cc_actual = actual\<rparr>)"

definition no_content :: "py \<Rightarrow> content_check" where
  "no_content expected = \<lparr>cc_status = ''unavailable'', cc_expected = expected, cc_path = None, cc_actual = None\<rparr>"

definition source_root_of :: "py \<Rightarrow> py res" where
  "source_root_of model = bind_res (pget_or model ''build'' (PDict [])) (\<lambda>b. pget b ''source'')"

definition source_content :: "host \<Rightarrow> py \<Rightarrow> string \<Rightarrow> py \<Rightarrow> receipt list \<Rightarrow> (cache, content_check) prog" where
  "source_content h source_root path expected records =
     (if (case source_root of PStr r \<Rightarrow> is_absolute r | _ \<Rightarrow> False)
      then (case source_root of
          PStr r \<Rightarrow> if is_relative_to (path_join r path) r then content_of h (path_join r path) expected else sreturn (no_content expected)
        | _ \<Rightarrow> sreturn (no_content expected))
      else (case filter (\<lambda>(f, d). ends_with (''/'' @ path) f \<and> PStr d = expected) records of
          [(f, d)] \<Rightarrow> content_of h f expected
        | _ \<Rightarrow> sreturn (no_content expected)))"

definition configured_L1 :: "py \<Rightarrow> bool" where
  "configured_L1 model = (case model of
     PDict m \<Rightarrow> m \<noteq> [] \<and> dget m ''status'' = PStr ''passed'' \<and> dget m ''level'' = PStr ''L1''
   | _ \<Rightarrow> False)"

type_synonym retained_check = "pydict \<Rightarrow> run \<Rightarrow> (cache, pydict) prog"

text \<open>What only an accepted result needs: the configured model, and the retained artifacts.\<close>

definition artifact_issues :: "pydict \<Rightarrow> string list res" where
  "artifact_issues artifacts =
     bind_res (ditem artifacts ''status'') (\<lambda>st.
     bind_res (pget (dget_or artifacts ''analysis_policy'' (PDict [])) ''status'') (\<lambda>pst.
       Inr (issue_unless (st = PStr ''passed'') ''retained-evidence-unavailable-or-mismatched''
            @ issue_unless (pst = PStr ''checked'') ''current-analysis-policy-unavailable-or-legacy'')))"

definition green_checks ::
  "host \<Rightarrow> tools \<Rightarrow> json_loads \<Rightarrow> string \<Rightarrow> pydict \<Rightarrow> string \<Rightarrow> retained_check \<Rightarrow> pydict \<Rightarrow> run \<Rightarrow> py \<Rightarrow> (cache, pydict \<times> string list) prog" where
  "green_checks h os loads project registered revision retained item r model = (case model of
     PDict m \<Rightarrow>
       sbind (model_observation h os loads project m registered revision (PStr (rn_path r)) PNone (PList [])) (\<lambda>mo.
       sbind (retained item r) (\<lambda>artifacts.
         slift (bind_res (artifact_issues artifacts) (\<lambda>iss.
           Inr (artifacts, issue_unless (mo_current mo = PStr ''L1'') ''configured-model-input-evidence-unavailable-or-stale'' @ iss)))))
   | _ \<Rightarrow> sraise (Exn AttributeError ''get''))"

definition not_required :: pydict where
  "not_required = [(''status'', PStr ''not-required-for-unsuccessful-observation''), (''artifacts'', PList [])]"

record target_obs =
  ob_summary :: string
  ob_sha :: "string option"
  ob_completed :: py
  ob_status :: py
  ob_accepted :: bool
  ob_verified :: bool
  ob_current_accepted :: bool
  ob_current_verified :: bool
  ob_freshness :: string
  ob_issues :: "string list"
  ob_stale :: "change list"
  ob_retained :: pydict
  ob_digest :: string
  ob_source :: pydict
  ob_fingerprint :: py
  ob_source_check :: content_check
  ob_functions :: py
  ob_evaluation :: pydict
  ob_error :: py
  ob_evidence :: "(string \<times> nat \<times> nat) list"
  ob_preconditions :: "(string \<times> py list) list"

text \<open>The rows of one function in the saved reports, counted, and its preconditions.\<close>

definition count_rows :: "(pydict \<Rightarrow> bool) \<Rightarrow> py \<Rightarrow> nat res" where
  "count_rows P v = bind_res (items_of v) (\<lambda>rows.
     bind_res (mapM (\<lambda>r. case r of PDict d \<Rightarrow> Inr (P d) | _ \<Rightarrow> Inl (Exn AttributeError ''get'')) rows) (\<lambda>bs.
       Inr (length (filter id bs))))"

definition function_counts :: "py \<Rightarrow> py \<Rightarrow> string \<Rightarrow> (string \<times> nat \<times> nat) res" where
  "function_counts goals properties name =
     bind_res (count_rows (\<lambda>d. dget d ''function'' = PStr name \<and> \<not> truthy (dget d ''smoke'')) goals) (\<lambda>g.
     bind_res (count_rows (\<lambda>d. dget d ''function'' = PStr name) properties) (\<lambda>p. Inr (name, g, p)))"

definition function_preconditions :: "py \<Rightarrow> string \<Rightarrow> (string \<times> py list) res" where
  "function_preconditions properties name = bind_res (items_of properties) (\<lambda>rows.
     bind_res (mapM (\<lambda>r. case r of
         PDict d \<Rightarrow> Inr (if dget d ''function'' = PStr name \<and> dget d ''kind'' = PStr ''precondition''
           then [PDict (map (\<lambda>k. (k, dget d k)) [''path'', ''line'', ''property'', ''status''])] else [])
       | _ \<Rightarrow> Inl (Exn AttributeError ''get'')) rows) (\<lambda>found. Inr (name, concat found)))"

definition function_names :: "pydict \<Rightarrow> string list res" where
  "function_names target =
     bind_res (ditem target ''functions'') (\<lambda>fv. bind_res (items_of fv) (\<lambda>fs.
     bind_res (items_of (dget_or target ''project_functions'' (PList []))) (\<lambda>ps. mapM need_str (fs @ ps))))"

record binding =
  bd_profile :: string
  bd_path :: string
  bd_current :: py
  bd_model :: py
  bd_source :: pydict
  bd_issues :: "string list"

text \<open>The identities of target, profile, revision and source, before any input is read.\<close>

definition identity_binding ::
  "host \<Rightarrow> string \<Rightarrow> pydict \<Rightarrow> pydict \<Rightarrow> pydict \<Rightarrow> run \<Rightarrow> binding res" where
  "identity_binding h revision registered target item r =
     bind_res (item_str target ''profile'') (\<lambda>profile. bind_res (item_str target ''source'') (\<lambda>path.
     bind_res (run_model r profile) (\<lambda>model.
     bind_res (ditem registered profile) (\<lambda>current.
     bind_res (profile_bound h model profile current revision) (\<lambda>bound.
     bind_res (source_of item) (\<lambda>(provenance, source).
       Inr \<lparr>bd_profile = profile, bd_path = path, bd_current = current, bd_model = model, bd_source = source,
            bd_issues = issue_unless (dget (rn_data r) ''revision'' = PStr revision) ''revision-mismatch''
              @ issue_unless (py_eq (dget item ''target'') (PDict target)) ''target-definition-mismatch''
              @ issue_unless bound ''profile-identity-unavailable-or-mismatched''
              @ issue_unless (provenance_ok provenance source revision path) ''source-identity-unavailable-or-mismatched''\<rparr>))))))"

definition freshness_of :: "change list \<Rightarrow> string list \<Rightarrow> run \<Rightarrow> string" where
  "freshness_of stale issues r =
     (if rn_undated r then ''unbound'' else if stale \<noteq> [] then ''stale'' else if issues \<noteq> [] then ''unbound'' else ''current'')"

definition target_evaluation :: "pydict \<Rightarrow> pydict" where
  "target_evaluation item = (case dget_or item ''evaluation'' (PDict []) of PDict d \<Rightarrow> d | _ \<Rightarrow> [])"

definition observation_issues ::
  "string \<Rightarrow> string list \<Rightarrow> binding \<Rightarrow> string list \<Rightarrow> bool \<Rightarrow> receipt list \<Rightarrow> string list \<Rightarrow> content_check \<Rightarrow> string list \<Rightarrow> string list" where
  "observation_issues project manifests b record_issues inputs_named records field_issues content green_issues =
     bd_issues b @ record_issues @ issue_unless inputs_named ''input-integrity-evidence-unavailable''
     @ manifest_issues project records manifests @ field_issues
     @ issue_unless (cc_status content = ''passed'') ''pinned-source-content-unavailable-or-mismatched''
     @ issue_unless (configured_L1 (bd_model b)) ''configured-L1-evidence-unavailable'' @ green_issues"

definition observation_record ::
  "host \<Rightarrow> pydict \<Rightarrow> pydict \<Rightarrow> run \<Rightarrow> binding \<Rightarrow> bool \<Rightarrow> change list \<Rightarrow> string list \<Rightarrow> content_check \<Rightarrow> pydict \<Rightarrow> target_obs res" where
  "observation_record h target item r b reported stale issues content artifacts =
     (let evaluation = target_evaluation item; freshness = freshness_of stale issues r;
          proved = (reported \<and> dget target ''role'' = PStr ''proof'' \<and> dget evaluation ''verified'' = PBool True) in
      bind_res (function_names target) (\<lambda>names.
      bind_res (mapM (function_counts (dget_or item ''goals'' (PList [])) (dget_or item ''properties'' (PList []))) names) (\<lambda>counts.
      bind_res (mapM (function_preconditions (dget_or item ''properties'' (PList []))) names) (\<lambda>preconditions.
      bind_res (pget_or (dget_or item ''target'' (PDict [])) ''functions'' (PList [])) (\<lambda>recorded.
      bind_res (pget (bd_model b) ''fingerprint'') (\<lambda>fingerprint.
        Inr \<lparr>ob_summary = rn_path r, ob_sha = rn_sha r, ob_completed = dget (rn_data r) ''completed_at'',
             ob_status = dget_or item ''status'' (PStr ''not-produced''), ob_accepted = reported, ob_verified = proved,
             ob_current_accepted = (reported \<and> freshness = ''current''),
             ob_current_verified = (proved \<and> reported \<and> freshness = ''current''), ob_freshness = freshness,
             ob_issues = issues @ (if rn_undated r then [''undated-failure-order-unknown''] else []), ob_stale = stale,
             ob_retained = artifacts, ob_digest = value_digest h (dget item ''target''), ob_source = bd_source b,
             ob_fingerprint = fingerprint, ob_source_check = content, ob_functions = recorded, ob_evaluation = evaluation,
             ob_error = dget item ''error'', ob_evidence = counts, ob_preconditions = preconditions\<rparr>))))))"

definition target_observation ::
  "host \<Rightarrow> tools \<Rightarrow> json_loads \<Rightarrow> retained_check \<Rightarrow> string \<Rightarrow> string \<Rightarrow> pydict \<Rightarrow> string list \<Rightarrow> pydict \<Rightarrow> pydict \<Rightarrow> run \<Rightarrow> (cache, target_obs) prog" where
  "target_observation h os loads retained project revision registered manifests target item r =
     (let shared = dget_or (rn_data r) ''integrity_inputs'' (PList []); own = dget_or item ''integrity_inputs'' (PList []) in
     sbind (slift (verdict item)) (\<lambda>reported.
     sbind (slift (identity_binding h revision registered target item r)) (\<lambda>b.
     sbind (target_inputs_step h shared own) (\<lambda>(records, stale, record_issues).
     sbind (slift (declared_issues project records target)) (\<lambda>field_issues.
     sbind (slift (source_root_of (bd_model b))) (\<lambda>source_root.
     sbind (source_content h source_root (bd_path b) (dget (bd_source b) ''sha256'') records) (\<lambda>content.
     sbind (if reported then green_checks h os loads project registered revision retained item r (bd_model b)
            else sreturn (not_required, [])) (\<lambda>(artifacts, green_issues).
       slift (observation_record h target item r b reported stale
         (observation_issues project manifests b record_issues (truthy shared \<and> truthy own) records field_issues content green_issues)
         content artifacts)))))))))"

section \<open>What a current acceptance shows\<close>

lemma keeps_read_policy [intro, simp]: "keeps (cache_has m) (read_policy h os path expected)"
  by (auto simp: read_policy_def intro!: keeps_sbind split: py.splits)

lemma keeps_policy_observation:
  "(\<And>p e. keeps P (rd p e)) \<Longrightarrow> keeps P (model_policy_observation loads rd model)"
  by (auto simp: model_policy_observation_def intro!: keeps_sbind keeps_prod)

lemma keeps_model_policy_step [intro, simp]: "keeps (cache_has m) (model_policy_step h os loads model current)"
  by (auto simp: model_policy_step_def intro!: keeps_stry keeps_sbind keeps_policy_observation)

lemma keeps_model_inputs_step [intro, simp]: "keeps (cache_has m) (model_inputs_step h project model v)"
  by (auto simp: model_inputs_step_def intro!: keeps_stry keeps_sbind)

lemma keeps_model_observation [intro, simp]:
  "keeps (cache_has m) (model_observation h os loads project model registered revision origin date v)"
  by (auto simp: model_observation_def Let_def intro!: keeps_sbind keeps_prod)

lemma keeps_target_inputs_step [intro, simp]: "keeps (cache_has m) (target_inputs_step h shared own)"
  by (auto simp: target_inputs_step_def intro!: keeps_stry keeps_sbind)

lemma keeps_source_content [intro, simp]: "keeps (cache_has m) (source_content h source_root path expected records)"
  by (auto simp: source_content_def content_of_def intro!: keeps_sbind split: py.splits list.splits prod.splits)

text \<open>The two steps that read inputs, when they find nothing to object to.\<close>

lemma target_inputs_step_clean:
  assumes "target_inputs_step h shared own c = (Inr (records, [], []), c')"
  shows "\<exists>ds es. items_of shared = Inr (map PDict ds) \<and> items_of own = Inr (map PDict es)
    \<and> merge_records (ds @ es) = Inr records \<and> (\<forall>(f, d)\<in>set records. map_of c' f = Some (Some d))"
proof -
  from assms have "sbind (slift (merge_groups [shared, own])) (\<lambda>records.
           sbind (changes h records) (\<lambda>stale. sreturn (records, stale, []))) c = (Inr (records, [], [] :: string list), c')"
    by (auto simp: target_inputs_step_def stry_Inr slift_eq)
  then have m: "merge_groups [shared, own] = Inr records" and ch: "changes h records c = (Inr [], c')"
    by (auto simp: sbind_Inr slift_eq)
  from merge_groups_Inr [OF m] obtain dss where d:
    "list_all2 (\<lambda>g ds. items_of g = Inr (map PDict ds)) [shared, own] dss" "merge_records (concat dss) = Inr records" by blast
  from d(1) obtain ds es where "dss = [ds, es]" "items_of shared = Inr (map PDict ds)" "items_of own = Inr (map PDict es)"
    by (auto simp: list_all2_Cons1)
  with d(2) changes_Nil [OF ch d(2)] show ?thesis by fastforce
qed

lemma source_content_passed:
  assumes "source_content h source_root path expected records c = (Inr cc, c')" and "cc_status cc = ''passed''"
  shows "\<exists>p d. cc_path cc = Some p \<and> expected = PStr d \<and> map_of c' (absolute h p) = Some (Some d)"
proof -
  have one: "\<exists>p d. cc_path cc = Some p \<and> expected = PStr d \<and> map_of c' (absolute h p) = Some (Some d)"
    if "content_of h p expected c = (Inr cc, c')" for p
    using that assms(2)
    by (auto simp: content_of_def sbind_Inr slift_eq digest_value_def dest: observe_Inr split: if_splits option.splits)
  have "\<not> (no_content expected = cc)" using assms(2) by (auto simp: no_content_def)
  with assms(1) one show ?thesis
    by (auto simp: source_content_def slift_eq split: if_splits py.splits list.splits prod.splits)
qed

text \<open>The identity of the run, the target and its profile, all as registered now.\<close>

lemma identity_binding_clean:
  assumes "identity_binding h revision registered target item r = Inr b" and "bd_issues b = []"
  shows "dget (rn_data r) ''revision'' = PStr revision \<and> py_eq (dget item ''target'') (PDict target)
    \<and> (\<exists>profile path m current provenance. dget target ''profile'' = PStr profile \<and> dget target ''source'' = PStr path
        \<and> run_model r profile = Inr (PDict m) \<and> bd_model b = PDict m \<and> map_of registered profile = Some current
        \<and> dget m ''profile_id'' = PStr profile \<and> dget m ''profile_sha256'' = PStr (value_digest h current)
        \<and> dget m ''kernel_revision'' = PStr revision \<and> bd_path b = path
        \<and> source_of item = Inr (provenance, bd_source b) \<and> provenance_ok provenance (bd_source b) revision path)"
proof -
  from assms(1) obtain profile path model current bound provenance source where b:
    "item_str target ''profile'' = Inr profile" "item_str target ''source'' = Inr path" "run_model r profile = Inr model"
    "ditem registered profile = Inr current" "profile_bound h model profile current revision = Inr bound"
    "source_of item = Inr (provenance, source)"
    "b = \<lparr>bd_profile = profile, bd_path = path, bd_current = current, bd_model = model, bd_source = source,
            bd_issues = issue_unless (dget (rn_data r) ''revision'' = PStr revision) ''revision-mismatch''
              @ issue_unless (py_eq (dget item ''target'') (PDict target)) ''target-definition-mismatch''
              @ issue_unless bound ''profile-identity-unavailable-or-mismatched''
              @ issue_unless (provenance_ok provenance source revision path) ''source-identity-unavailable-or-mismatched''\<rparr>"
    by (auto simp: identity_binding_def bind_res_Inr split: prod.splits)
  from b(7) assms(2) have ok: "dget (rn_data r) ''revision'' = PStr revision" "py_eq (dget item ''target'') (PDict target)"
      "bound" "provenance_ok provenance source revision path" by simp_all
  from b(5) ok(3) obtain m where "model = PDict m" "dget m ''profile_id'' = PStr profile"
    "dget m ''profile_sha256'' = PStr (value_digest h current)" "dget m ''kernel_revision'' = PStr revision"
    by (auto simp: profile_bound_def split: py.splits)
  with b ok show ?thesis by (auto simp: item_str_Inr ditem_Inr dget_def)
qed
text \<open>A result that is accepted and current, in terms of the digests the cache holds.\<close>

definition accepted_now :: "host \<Rightarrow> cache \<Rightarrow> string \<Rightarrow> string \<Rightarrow> pydict \<Rightarrow> string list \<Rightarrow> pydict \<Rightarrow> pydict \<Rightarrow> run \<Rightarrow> bool" where
  "accepted_now h c project revision registered manifests target item r =
     (verdict item = Inr True \<and> \<not> rn_undated r
      \<and> dget (rn_data r) ''revision'' = PStr revision \<and> py_eq (dget item ''target'') (PDict target)
      \<and> (\<exists>shared own records.
           items_of (dget_or (rn_data r) ''integrity_inputs'' (PList [])) = Inr (map PDict shared)
           \<and> items_of (dget_or item ''integrity_inputs'' (PList [])) = Inr (map PDict own)
           \<and> merge_records (shared @ own) = Inr records \<and> records \<noteq> []
           \<and> (\<forall>(f, d)\<in>set records. map_of c f = Some (Some d))
           \<and> (\<forall>p\<in>set manifests. path_join project p \<in> fst ` set records))
      \<and> (\<exists>profile path m current provenance source sha p.
           dget target ''profile'' = PStr profile \<and> dget target ''source'' = PStr path
           \<and> run_model r profile = Inr (PDict m) \<and> map_of registered profile = Some current
           \<and> dget m ''status'' = PStr ''passed'' \<and> dget m ''level'' = PStr ''L1''
           \<and> dget m ''profile_sha256'' = PStr (value_digest h current) \<and> dget m ''kernel_revision'' = PStr revision
           \<and> source_of item = Inr (provenance, source) \<and> provenance_ok provenance source revision path
           \<and> dget source ''sha256'' = PStr sha \<and> map_of c (absolute h p) = Some (Some sha)))"

lemma green_checks_clean:
  assumes "green_checks h os loads project registered revision retained item r model c = (Inr (artifacts, []), c')"
  shows "map_of artifacts ''status'' = Some (PStr ''passed'')
    \<and> (\<exists>p. dget_or artifacts ''analysis_policy'' (PDict []) = PDict p \<and> dget p ''status'' = PStr ''checked'')"
proof -
  from assms obtain m where "model = PDict m" by (auto simp: green_checks_def slift_eq split: py.splits)
  with assms obtain iss where "artifact_issues artifacts = Inr []"
    by (auto simp: green_checks_def sbind_Inr slift_eq bind_res_Inr)
  then show ?thesis by (auto simp: artifact_issues_def bind_res_Inr ditem_Inr pget_Inr)
qed

lemma keeps_green_checks:
  "(\<And>m. keeps (cache_has m) (retained item r)) \<Longrightarrow>
     keeps (cache_has m) (green_checks h os loads project registered revision retained item r model)"
  by (auto simp: green_checks_def intro!: keeps_sbind split: py.splits)

lemma observation_record_Inr:
  assumes "observation_record h target item r b reported stale issues content artifacts = Inr ob"
  shows "ob_accepted ob = reported \<and> ob_retained ob = artifacts \<and> ob_stale ob = stale \<and> ob_freshness ob = freshness_of stale issues r
    \<and> ob_current_accepted ob = (reported \<and> ob_freshness ob = ''current'') \<and> ob_source ob = bd_source b
    \<and> ob_current_verified ob = (ob_verified ob \<and> ob_current_accepted ob) \<and> ob_source_check ob = content
    \<and> ob_verified ob = (reported \<and> dget target ''role'' = PStr ''proof'' \<and> dget (target_evaluation item) ''verified'' = PBool True)"
  using assms by (auto simp: observation_record_def Let_def bind_res_Inr)

lemma target_observation_Inr:
  assumes "target_observation h os loads retained project revision registered manifests target item r c = (Inr ob, c')"
  obtains reported b records stale record_issues field_issues source_root content artifacts green_issues c1 c2 where
    "verdict item = Inr reported" "identity_binding h revision registered target item r = Inr b"
    "target_inputs_step h (dget_or (rn_data r) ''integrity_inputs'' (PList [])) (dget_or item ''integrity_inputs'' (PList [])) c
       = (Inr (records, stale, record_issues), c1)"
    "source_content h source_root (bd_path b) (dget (bd_source b) ''sha256'') records c1 = (Inr content, c2)"
    "(if reported then green_checks h os loads project registered revision retained item r (bd_model b)
      else sreturn (not_required, [])) c2 = (Inr (artifacts, green_issues), c')"
    "observation_record h target item r b reported stale (observation_issues project manifests b record_issues
       (truthy (dget_or (rn_data r) ''integrity_inputs'' (PList [])) \<and> truthy (dget_or item ''integrity_inputs'' (PList [])))
       records field_issues content green_issues) content artifacts = Inr ob"
  using assms by (auto simp: target_observation_def Let_def sbind_Inr slift_eq simp del: if_prog)

lemma manifest_issues_Nil:
  "manifest_issues project records manifests = [] \<longleftrightarrow> (\<forall>p\<in>set manifests. path_join project p \<in> fst ` set records)"
  by (auto simp: manifest_issues_def)

lemma merge_records_Nil: "merge_records items = Inr [] \<Longrightarrow> items = []"
  using inventory.merge_set [of items "[]"] by auto

lemma accepted_now_extends:
  "accepted_now h c project revision registered manifests target item r \<Longrightarrow> cache_has (map_of c) c' \<Longrightarrow>
     accepted_now h c' project revision registered manifests target item r"
proof -
  assume acc: "accepted_now h c project revision registered manifests target item r" and ext: "cache_has (map_of c) c'"
  have up: "map_of c f = Some v \<Longrightarrow> map_of c' f = Some v" for f v
    using ext by (metis domI map_le_def)
  then have "(\<forall>(f, d)\<in>set records. map_of c f = Some (Some d)) \<Longrightarrow> (\<forall>(f, d)\<in>set records. map_of c' f = Some (Some d))"
    for records by auto
  with acc up show ?thesis unfolding accepted_now_def by blast
qed

lemma current_accepted:
  assumes run: "target_observation h os loads retained project revision registered manifests target item r c = (Inr ob, c')"
    and cur: "ob_current_accepted ob" and ret: "\<And>m. keeps (cache_has m) (retained item r)"
  shows "accepted_now h c' project revision registered manifests target item r
    \<and> ob_stale ob = [] \<and> map_of (ob_retained ob) ''status'' = Some (PStr ''passed'')
    \<and> (\<exists>p. dget_or (ob_retained ob) ''analysis_policy'' (PDict []) = PDict p \<and> dget p ''status'' = PStr ''checked'')"
proof -
  let ?shared = "dget_or (rn_data r) ''integrity_inputs'' (PList [])" and ?own = "dget_or item ''integrity_inputs'' (PList [])"
  obtain reported b records stale record_issues field_issues source_root content artifacts green_issues c1 c2 where
    t: "verdict item = Inr reported" "identity_binding h revision registered target item r = Inr b"
      "target_inputs_step h ?shared ?own c = (Inr (records, stale, record_issues), c1)"
      "source_content h source_root (bd_path b) (dget (bd_source b) ''sha256'') records c1 = (Inr content, c2)"
      "(if reported then green_checks h os loads project registered revision retained item r (bd_model b)
        else sreturn (not_required, [])) c2 = (Inr (artifacts, green_issues), c')"
      "observation_record h target item r b reported stale (observation_issues project manifests b record_issues
         (truthy ?shared \<and> truthy ?own) records field_issues content green_issues) content artifacts = Inr ob"
    using run by (rule target_observation_Inr)
  note ob = observation_record_Inr [OF t(6)]
  have rep: "reported" and "ob_freshness ob = ''current''" using ob cur by blast+
  then have f: "\<not> rn_undated r" "stale = []" and iss: "observation_issues project manifests b record_issues
         (truthy ?shared \<and> truthy ?own) records field_issues content green_issues = []"
    using ob by (auto simp: freshness_of_def split: if_splits)
  then have i: "bd_issues b = []" "record_issues = []" "truthy ?shared \<and> truthy ?own"
      "\<forall>p\<in>set manifests. path_join project p \<in> fst ` set records" "cc_status content = ''passed''"
      "configured_L1 (bd_model b)" "green_issues = []"
    by (simp_all add: observation_issues_def manifest_issues_Nil)
  have green: "green_checks h os loads project registered revision retained item r (bd_model b) c2 = (Inr (artifacts, []), c')"
    using t(5) rep i(7) by simp
  have ext2: "cache_has (map_of c2) c'" by (rule keepsD [OF keeps_green_checks green]) (simp_all add: ret)
  have ext1: "cache_has (map_of c1) c2" by (rule keepsD [OF keeps_source_content t(4)]) simp
  have up2: "map_of c2 x = Some v \<Longrightarrow> map_of c' x = Some v" for x v using ext2 by (metis domI map_le_def)
  have up1: "map_of c1 x = Some v \<Longrightarrow> map_of c' x = Some v" for x v using ext1 up2 by (metis domI map_le_def)
  from target_inputs_step_clean [OF t(3) [unfolded f(2) i(2)]] obtain ds es where
    rec: "items_of ?shared = Inr (map PDict ds)" "items_of ?own = Inr (map PDict es)" "merge_records (ds @ es) = Inr records"
      "\<forall>(x, d)\<in>set records. map_of c1 x = Some (Some d)" by blast
  have "ds \<noteq> []" using rec(1) i(3) by (auto simp: items_of_def keys_def split: py.splits)
  then have "records \<noteq> []" using merge_records_Nil rec(3) by auto
  moreover have "\<forall>(x, d)\<in>set records. map_of c' x = Some (Some d)" using rec(4) up1 by auto
  ultimately have inputs: "\<exists>shared own records. items_of ?shared = Inr (map PDict shared) \<and> items_of ?own = Inr (map PDict own)
      \<and> merge_records (shared @ own) = Inr records \<and> records \<noteq> [] \<and> (\<forall>(x, d)\<in>set records. map_of c' x = Some (Some d))
      \<and> (\<forall>p\<in>set manifests. path_join project p \<in> fst ` set records)"
    using rec(1-3) i(4) by blast
  from source_content_passed [OF t(4) i(5)] obtain p sha where src: "dget (bd_source b) ''sha256'' = PStr sha"
    "map_of c' (absolute h p) = Some (Some sha)" using up2 by blast
  from identity_binding_clean [OF t(2) i(1)] obtain profile path m current provenance where
    id: "dget (rn_data r) ''revision'' = PStr revision" "py_eq (dget item ''target'') (PDict target)"
      "dget target ''profile'' = PStr profile" "dget target ''source'' = PStr path"
      "run_model r profile = Inr (PDict m)" "bd_model b = PDict m" "map_of registered profile = Some current"
      "dget m ''profile_sha256'' = PStr (value_digest h current)" "dget m ''kernel_revision'' = PStr revision"
      "source_of item = Inr (provenance, bd_source b)" "provenance_ok provenance (bd_source b) revision path" by blast
  from i(6) id(6) have "dget m ''status'' = PStr ''passed''" "dget m ''level'' = PStr ''L1''"
    by (simp_all add: configured_L1_def)
  with id src have "\<exists>profile path m current provenance source sha p.
           dget target ''profile'' = PStr profile \<and> dget target ''source'' = PStr path
           \<and> run_model r profile = Inr (PDict m) \<and> map_of registered profile = Some current
           \<and> dget m ''status'' = PStr ''passed'' \<and> dget m ''level'' = PStr ''L1''
           \<and> dget m ''profile_sha256'' = PStr (value_digest h current) \<and> dget m ''kernel_revision'' = PStr revision
           \<and> source_of item = Inr (provenance, source) \<and> provenance_ok provenance source revision path
           \<and> dget source ''sha256'' = PStr sha \<and> map_of c' (absolute h p) = Some (Some sha)"
    by blast
  with t(1) rep f(1) id(1,2) inputs have "accepted_now h c' project revision registered manifests target item r"
    by (simp add: accepted_now_def)
  with green_checks_clean [OF green] ob f(2) show ?thesis by simp
qed

lemma keeps_target_observation:
  "(\<And>item r m. keeps (cache_has m) (retained item r)) \<Longrightarrow>
     keeps (cache_has m) (target_observation h os loads retained project revision registered manifests target item r)"
  by (auto simp: target_observation_def Let_def intro!: keeps_sbind keeps_prod keeps_green_checks keeps_if)

end
