(* ===== verification/Coverage_Matrix.thy ===== *)
theory Coverage_Matrix
  imports Coverage_Target "HOL-Library.Product_Lexorder"
begin

text \<open>
  \<^verbatim>\<open>generate_matrix\<close> of \<^verbatim>\<open>fragma/coverage.py\<close>: the supplied run summaries are validated, every registered
  target is observed in every run that selected it, the latest observation decides the state of the
  target and of its functions, and the digests of everything that was read are compared again at the end.
  Dates are read by the argument \<open>dates\<close> (\<^verbatim>\<open>datetime.fromisoformat\<close>: whether there is a time zone, and
  the instant); the registry of targets and profiles, and the list of manifests, are arguments.
\<close>

fun scollect :: "('a \<Rightarrow> ('s, 'b) prog) \<Rightarrow> 'a list \<Rightarrow> ('s, 'b list) prog" where
  "scollect f [] = sreturn []"
| "scollect f (x # xs) = sbind (f x) (\<lambda>y. sbind (scollect f xs) (\<lambda>ys. sreturn (y # ys)))"

lemma keeps_scollect [intro]: "(\<And>x. keeps P (f x)) \<Longrightarrow> keeps P (scollect f xs)"
  by (induction xs) (auto intro!: keeps_sbind)

lemma scollect_length: "scollect f xs s = (Inr ys, s') \<Longrightarrow> length ys = length xs"
  by (induction xs arbitrary: s ys) (auto simp: sbind_Inr slift_eq)

text \<open>Every element was produced by its own step, and what the step led to is kept to the end.\<close>

lemma scollect_nth:
  assumes "scollect f xs s = (Inr ys, s')" and "i < length xs" and "\<And>x P. P \<in> Ps \<Longrightarrow> keeps P (f x)"
  shows "\<exists>s1 s2. f (xs ! i) s1 = (Inr (ys ! i), s2) \<and> (\<forall>P\<in>Ps. P s2 \<longrightarrow> P s')"
  using assms(1,2)
proof (induction xs arbitrary: s ys i)
  case (Cons x xs)
  from Cons.prems(1) obtain y s1 ys' where y: "f x s = (Inr y, s1)" "scollect f xs s1 = (Inr ys', s')" "ys = y # ys'"
    by (auto simp: sbind_Inr slift_eq)
  show ?case
  proof (cases i)
    case 0
    have "P s'" if "P \<in> Ps" "P s1" for P
      using keepsD [OF keeps_scollect y(2)] assms(3) that by blast
    with y 0 show ?thesis by auto
  next
    case (Suc j)
    with Cons.prems(2) Cons.IH [OF y(2), of j] y(3) show ?thesis by simp
  qed
qed simp

section \<open>Run summaries\<close>

type_synonym dates = "string \<Rightarrow> (bool \<times> int) option"

definition date_of :: "dates \<Rightarrow> py \<Rightarrow> int res" where
  "date_of dates v = (case v of
     PStr s \<Rightarrow>
       (case dates (replace_all ''Z'' ''+00:00'' s) of
          None \<Rightarrow> Inl (coverage_error ''invalid evidence date'')
        | Some (aware, t) \<Rightarrow>
            bind_res (check aware (coverage_error ''evidence dates must include a timezone'')) (\<lambda>_. Inr t))
   | _ \<Rightarrow> Inl (coverage_error ''completed evidence requires an explicit timezone-aware date''))"

definition terminal_status :: "py \<Rightarrow> bool" where
  "terminal_status v = (v \<in> PStr ` {''passed'', ''incomplete'', ''preflight-failed'', ''error'', ''cancelled''})"

text \<open>When the run completed; only a run that failed may have no date.\<close>

definition completion :: "dates \<Rightarrow> int \<Rightarrow> pydict \<Rightarrow> int option res" where
  "completion dates checked data =
     (if dget data ''completed_at'' = PNone
      then bind_res (check (dget data ''status'' \<in> PStr ` {''preflight-failed'', ''error'', ''cancelled''})
        (coverage_error ''completed summary has no completion date'')) (\<lambda>_. Inr None)
      else bind_res (date_of dates (dget data ''completed_at'')) (\<lambda>t.
        bind_res (check (t \<le> checked) (coverage_error ''supplied evidence completes after coverage check time'')) (\<lambda>_.
        bind_res (date_of dates (dget data ''started_at'')) (\<lambda>t0.
        bind_res (check (t0 \<le> t) (coverage_error ''summary completion precedes start'')) (\<lambda>_. Inr (Some t))))))"

definition selection :: "pydict \<Rightarrow> (string list \<times> py list) res" where
  "selection data = (case (as_strs (dget data ''selected_targets''), dget data ''targets'') of
     (Some names, PList items) \<Rightarrow>
       bind_res (check (names \<noteq> [] \<and> distinct names) (coverage_error ''malformed selected-target inventory'')) (\<lambda>_. Inr (names, items))
   | _ \<Rightarrow> Inl (coverage_error ''malformed selected-target inventory''))"

definition add_item :: "string list \<Rightarrow> (string \<times> pydict) list \<Rightarrow> py \<Rightarrow> (string \<times> pydict) list res" where
  "add_item selected mapped v = (case v of
     PDict item \<Rightarrow>
       (case dget item ''target'' of
          PDict t \<Rightarrow>
            (case dget t ''id'' of
               PStr name \<Rightarrow>
                 bind_res (check (name \<in> set selected \<and> name \<notin> fst ` set mapped) (coverage_error ''duplicate or unselected target result'')) (\<lambda>_.
                 bind_res (verdict item) (\<lambda>_. Inr (mapped @ [(name, item)])))
             | _ \<Rightarrow> Inl (coverage_error ''duplicate or unselected target result''))
        | _ \<Rightarrow> Inl (coverage_error ''malformed target result''))
   | _ \<Rightarrow> Inl (coverage_error ''malformed target result''))"

definition all_accepted :: "string list \<Rightarrow> (string \<times> pydict) list \<Rightarrow> bool" where
  "all_accepted selected items =
     (fst ` set items = set selected \<and> list_all (\<lambda>(n, item). dget item ''accepted'' = PBool True) items)"

definition check_acceptance :: "pydict \<Rightarrow> string list \<Rightarrow> (string \<times> pydict) list \<Rightarrow> unit res" where
  "check_acceptance data selected items = (case dget data ''accepted'' of
     PBool accepted \<Rightarrow>
       bind_res (check (\<not> accepted \<or> dget data ''status'' = PStr ''passed'' \<and> all_accepted selected items)
         (coverage_error ''summary acceptance disagrees with target inventory'')) (\<lambda>_.
       bind_res (check (\<not> (dget data ''status'' = PStr ''passed'' \<and> \<not> accepted)) (coverage_error ''passing summary is not accepted'')) (\<lambda>_.
         check (\<not> (dget data ''status'' = PStr ''incomplete'' \<and> all_accepted selected items))
           (coverage_error ''incomplete summary contains only accepted targets'')))
   | _ \<Rightarrow> Inl (coverage_error ''summary acceptance must be Boolean''))"

definition checked_summary :: "dates \<Rightarrow> int \<Rightarrow> string \<Rightarrow> string option \<Rightarrow> pydict \<Rightarrow> run res" where
  "checked_summary dates checked path sha data =
     bind_res (check (terminal_status (dget data ''status'')) (coverage_error ''supplied summary is not terminal_status'')) (\<lambda>_.
     bind_res (completion dates checked data) (\<lambda>time.
     bind_res (selection data) (\<lambda>(selected, values).
     bind_res (foldM (add_item selected) [] values) (\<lambda>items.
     bind_res (check_acceptance data selected items) (\<lambda>_.
       Inr \<lparr>rn_path = path, rn_sha = sha, rn_data = data, rn_selected = selected, rn_items = items, rn_time = time,
            rn_undated = (time = None)\<rparr>)))))"

fun load_summaries :: "host \<Rightarrow> json_loads \<Rightarrow> dates \<Rightarrow> int \<Rightarrow> string list \<Rightarrow> string list \<Rightarrow> (cache, run list) prog" where
  "load_summaries h loads dates checked seen [] = sreturn []"
| "load_summaries h loads dates checked seen (p # ps) =
     (let path = absolute h p in
      if path \<in> set seen then sraise (coverage_error ''duplicate supplied summary'')
      else sbind (read_json h h loads path) (\<lambda>data.
        sbind (observe_file h path) (\<lambda>sha.
        sbind (slift (checked_summary dates checked path sha data)) (\<lambda>r.
        sbind (load_summaries h loads dates checked (path # seen) ps) (\<lambda>rs. sreturn (r # rs))))))"

section \<open>Targets\<close>

text \<open>The runs that selected a target: dated ones by time, then those that cannot be placed.\<close>

definition run_key :: "int \<Rightarrow> run \<Rightarrow> bool \<times> int" where
  "run_key checked r = (rn_undated r, case rn_time r of None \<Rightarrow> checked | Some t \<Rightarrow> t)"

definition relevant_runs :: "int \<Rightarrow> string \<Rightarrow> run list \<Rightarrow> run list" where
  "relevant_runs checked name runs =
     sort_key (\<lambda>r. (run_key checked r, rn_path r)) (filter (\<lambda>r. name \<in> set (rn_selected r)) runs)"

definition not_produced :: "pydict \<Rightarrow> pydict" where
  "not_produced target = [(''target'', PDict target), (''status'', PStr ''not-produced''), (''accepted'', PBool False),
     (''error'', PStr ''selected target has no result in supplied terminal_status run'')]"

definition run_item :: "string \<Rightarrow> pydict \<Rightarrow> run \<Rightarrow> pydict" where
  "run_item name target r = (case map_of (rn_items r) name of Some item \<Rightarrow> item | None \<Rightarrow> not_produced target)"

text \<open>Two latest runs with one date, or both undated.\<close>

definition ambiguous_runs :: "run list \<Rightarrow> bool" where
  "ambiguous_runs rs = (case rev rs of
     a # b # _ \<Rightarrow> rn_undated a = rn_undated b \<and> rn_time a = rn_time b
   | _ \<Rightarrow> False)"

definition latest_of :: "bool \<Rightarrow> target_obs list \<Rightarrow> target_obs option" where
  "latest_of ambiguous history = (if history = [] then None
     else if ambiguous then
       (let l = last history in
        Some (l\<lparr>ob_current_accepted := False, ob_current_verified := False, ob_freshness := ''ambiguous'',
                ob_status := PStr ''ambiguous-latest'', ob_issues := ob_issues l @ [''equal-time-observations'']\<rparr>))
     else Some (last history))"

definition target_state :: "bool \<Rightarrow> target_obs option \<Rightarrow> py" where
  "target_state ambiguous latest = (if ambiguous then PStr ''ambiguous-latest'' else (case latest of
     None \<Rightarrow> PStr ''not-run''
   | Some l \<Rightarrow> if ob_current_accepted l then PStr ''accepted-current''
       else if ob_accepted l then PStr (''accepted-'' @ ob_freshness l) else ob_status l))"

record function_row =
  fr_target :: string
  fr_source :: string
  fr_function :: string
  fr_kind :: string
  fr_dimensions :: "(string \<times> string) list"
  fr_current :: bool
  fr_reported :: bool
  fr_evidence :: "nat \<times> nat"
  fr_preconditions :: "py list"

definition function_kind :: "py \<Rightarrow> py list \<Rightarrow> string \<Rightarrow> string" where
  "function_kind role project_functions f =
     (if role \<noteq> PStr ''proof'' then ''calibration'' else if PStr f \<in> set project_functions then ''project-witness'' else ''kernel'')"

text \<open>A verified report, not ambiguous, that names the function and the same source.\<close>

definition names_function :: "bool \<Rightarrow> target_obs option \<Rightarrow> string \<Rightarrow> string \<Rightarrow> bool res" where
  "names_function ambiguous latest path f = (case latest of
     None \<Rightarrow> Inr False
   | Some l \<Rightarrow>
       if ob_verified l \<and> \<not> ambiguous
       then bind_res (occurs_in f (ob_functions l)) (\<lambda>b. Inr (b \<and> dget (ob_source l) ''path'' = PStr path))
       else Inr False)"

definition dimension_value ::
  "bool \<Rightarrow> target_obs option \<Rightarrow> py \<Rightarrow> string \<Rightarrow> string \<Rightarrow> string \<Rightarrow> string \<Rightarrow> string res" where
  "dimension_value ambiguous latest claims path f kind dimension =
     (if kind = ''calibration'' then Inr ''not-applicable''
      else if dimension = ''caller-preconditions'' then Inr ''unverified''
      else bind_res (occurs_in dimension claims) (\<lambda>claimed.
        if \<not> claimed then Inr ''not-claimed''
        else if (case latest of Some l \<Rightarrow> ob_current_verified l | None \<Rightarrow> False) then Inr ''accepted-current''
        else bind_res (names_function ambiguous latest path f) (\<lambda>named. Inr
          (case latest of None \<Rightarrow> ''not-run''
           | Some l \<Rightarrow> if named then ''accepted-historical-'' @ ob_freshness l else ''unresolved''))))"

definition DIMENSIONS :: "string list" where
  "DIMENSIONS = [''runtime-safety'', ''functional'', ''termination'', ''caller-preconditions'']"

definition function_row_of :: "string \<Rightarrow> pydict \<Rightarrow> string \<Rightarrow> bool \<Rightarrow> target_obs option \<Rightarrow> string \<Rightarrow> function_row res" where
  "function_row_of name target path ambiguous latest f =
     bind_res (ditem target ''role'') (\<lambda>role.
     bind_res (items_of (dget_or target ''project_functions'' (PList []))) (\<lambda>project_functions.
     let kind = function_kind role project_functions f in
     bind_res (mapM (\<lambda>d. bind_res (dimension_value ambiguous latest (dget_or target ''claims'' (PList [])) path f kind d)
       (\<lambda>v. Inr (d, v))) DIMENSIONS) (\<lambda>dimensions.
     bind_res (if kind = ''kernel'' then names_function ambiguous latest path f else Inr False) (\<lambda>reported.
       Inr \<lparr>fr_target = name, fr_source = path, fr_function = f, fr_kind = kind, fr_dimensions = dimensions,
            fr_current = (kind = ''kernel'' \<and> (case latest of Some l \<Rightarrow> ob_current_verified l | None \<Rightarrow> False)),
            fr_reported = reported,
            fr_evidence = (case latest of None \<Rightarrow> (0, 0) | Some l \<Rightarrow> (case map_of (ob_evidence l) f of None \<Rightarrow> (0, 0) | Some e \<Rightarrow> e)),
            fr_preconditions = (case latest of None \<Rightarrow> [] | Some l \<Rightarrow> (case map_of (ob_preconditions l) f of None \<Rightarrow> [] | Some e \<Rightarrow> e))\<rparr>))))"

record target_row =
  tr_id :: string
  tr_state :: py
  tr_latest :: "target_obs option"
  tr_history :: "target_obs list"
  tr_functions :: "function_row list"

definition confined_source :: "pydict \<Rightarrow> string res" where
  "confined_source target = bind_res (item_str target ''source'') (\<lambda>s.
     bind_res (check (\<not> is_absolute s \<and> ''..'' \<notin> set (path_parts s) \<and> path_parts s \<noteq> [])
       (coverage_error ''target source must be a confined relative kernel path'')) (\<lambda>_. Inr s))"

text \<open>\<^verbatim>\<open>dict.fromkeys\<close>: the first of equal names, in order.\<close>

definition unique_names :: "string list \<Rightarrow> string list" where
  "unique_names xs = rev (remdups (rev xs))"

definition build_row :: "string \<Rightarrow> pydict \<Rightarrow> string \<Rightarrow> bool \<Rightarrow> target_obs list \<Rightarrow> target_row res" where
  "build_row name target path ambiguous history =
     (let latest = latest_of ambiguous history in
      bind_res (function_names target) (\<lambda>names.
      bind_res (mapM (function_row_of name target path ambiguous latest) (unique_names names)) (\<lambda>functions.
        Inr \<lparr>tr_id = name, tr_state = target_state ambiguous latest, tr_latest = latest, tr_history = history,
             tr_functions = functions\<rparr>)))"

definition observe_target ::
  "host \<Rightarrow> tools \<Rightarrow> json_loads \<Rightarrow> retained_check \<Rightarrow> string \<Rightarrow> string \<Rightarrow> pydict \<Rightarrow> string list \<Rightarrow> int \<Rightarrow> run list \<Rightarrow> string \<times> pydict \<Rightarrow> (cache, target_row) prog" where
  "observe_target h os loads retained project revision registered manifests checked runs nt =
     (let (name, target) = nt; relevant = relevant_runs checked name runs in
      sbind (slift (confined_source target)) (\<lambda>path.
      sbind (scollect (\<lambda>r. target_observation h os loads retained project revision registered manifests target
          (run_item name target r) r) relevant) (\<lambda>history.
        slift (build_row name target path (ambiguous_runs relevant) history))))"

section \<open>Profiles\<close>

definition run_models ::
  "host \<Rightarrow> tools \<Rightarrow> json_loads \<Rightarrow> string \<Rightarrow> pydict \<Rightarrow> string \<Rightarrow> run \<Rightarrow> (cache, (string \<times> model_obs) list) prog" where
  "run_models h os loads project registered revision r =
     (case dget_or (rn_data r) ''profiles'' (PDict []) of
        PDict profiles \<Rightarrow>
          scollect (\<lambda>(name, v). case v of
              PDict model \<Rightarrow> sbind (model_observation h os loads project model registered revision (PStr (rn_path r))
                  (dget (rn_data r) ''completed_at'') (dget_or (rn_data r) ''integrity_inputs'' (PList []))) (\<lambda>mo. sreturn (name, mo))
            | _ \<Rightarrow> sraise (Exn AttributeError ''get''))
            (filter (\<lambda>(name, v). has_key registered name) profiles)
      | _ \<Rightarrow> sraise (Exn AttributeError ''items''))"

definition standalone_model ::
  "host \<Rightarrow> tools \<Rightarrow> json_loads \<Rightarrow> string \<Rightarrow> pydict \<Rightarrow> string \<Rightarrow> string \<Rightarrow> (cache, string \<times> model_obs) prog" where
  "standalone_model h os loads project registered revision p =
     sbind (read_json h h loads p) (\<lambda>model. (case dget model ''profile_id'' of
        PStr name \<Rightarrow>
          if has_key registered name
          then sbind (observe_file h p) (\<lambda>sha.
            sbind (model_observation h os loads project model registered revision
              (PDict [(''path'', PStr (absolute h p)), (''sha256'', digest_value sha)]) PNone (PList [])) (\<lambda>mo. sreturn (name, mo)))
          else sraise (coverage_error ''standalone profile is not currently registered'')
      | _ \<Rightarrow> sraise (coverage_error ''standalone profile is not currently registered'')))"

record profile_row =
  pf_id :: string
  pf_evidence :: "model_obs list"
  pf_latest :: "model_obs option"
  pf_ambiguous :: bool
  pf_undated :: "string list"
  pf_level :: py

definition dated_models :: "dates \<Rightarrow> model_obs list \<Rightarrow> (int \<times> model_obs) list res" where
  "dated_models dates evidence =
     bind_res (mapM (\<lambda>m. bind_res (date_of dates (mo_date m)) (\<lambda>t. Inr (t, m))) (filter (\<lambda>m. truthy (mo_date m)) evidence))
       (\<lambda>ms. Inr (sort_key fst ms))"

definition undated_runs :: "(string \<times> pydict) list \<Rightarrow> run list \<Rightarrow> string \<Rightarrow> string list" where
  "undated_runs targets runs profile =
     map rn_path (filter (\<lambda>r. rn_undated r \<and> list_ex (\<lambda>n. case map_of targets n of
         Some t \<Rightarrow> dget t ''profile'' = PStr profile | None \<Rightarrow> False) (rn_selected r)) runs)"

definition profile_row_of ::
  "dates \<Rightarrow> (string \<times> pydict) list \<Rightarrow> run list \<Rightarrow> (string \<times> model_obs) list \<Rightarrow> string \<Rightarrow> profile_row res" where
  "profile_row_of dates targets runs evidence name =
     (let own = map snd (filter (\<lambda>(n, m). n = name) evidence); undated = undated_runs targets runs name in
      bind_res (dated_models dates own) (\<lambda>dated.
      let ambiguous = (case rev dated of (t, a) # (t', b) # _ \<Rightarrow> t = t' | _ \<Rightarrow> False);
          latest = (if dated = [] then None else Some (snd (last dated))) in
        Inr \<lparr>pf_id = name, pf_evidence = own, pf_latest = latest, pf_ambiguous = ambiguous, pf_undated = undated,
             pf_level = (case latest of
                 None \<Rightarrow> PNone
               | Some m \<Rightarrow> if ambiguous \<or> undated \<noteq> [] then PNone else mo_current m)\<rparr>))"

section \<open>The matrix\<close>

record architecture_row =
  ar_id :: py
  ar_profiles :: "string list"
  ar_registered :: bool

definition architecture_row_of :: "pydict \<Rightarrow> py \<Rightarrow> architecture_row res" where
  "architecture_row_of registered v =
     bind_res (pindex v ''id'') (\<lambda>ident.
     bind_res (mapM (\<lambda>(n, p). bind_res (pindex p ''architecture'') (\<lambda>a. Inr (n, py_eq a ident))) registered) (\<lambda>marked.
       let names = map fst (filter snd marked) in
       Inr \<lparr>ar_id = ident, ar_profiles = sort names, ar_registered = (names \<noteq> [])\<rparr>))"

record matrix_counts =
  ct_kernel :: nat
  ct_current :: nat
  ct_reported :: nat
  ct_without :: nat
  ct_accepted_targets :: nat
  ct_calibration :: nat
  ct_witness :: nat

text \<open>\<^verbatim>\<open>(revision, source, function)\<close>: the key under which a kernel function is counted once.\<close>

definition function_key :: "string \<Rightarrow> function_row \<Rightarrow> string \<times> string \<times> string" where
  "function_key revision f = (revision, fr_source f, fr_function f)"

definition kernel_rows :: "target_row list \<Rightarrow> function_row list" where
  "kernel_rows rows = filter (\<lambda>f. fr_kind f = ''kernel'') (concat (map tr_functions rows))"

definition matrix_counts_of :: "string \<Rightarrow> target_row list \<Rightarrow> matrix_counts" where
  "matrix_counts_of revision rows =
     (let fs = concat (map tr_functions rows); kernel_fs = kernel_rows rows;
          inventory = remdups (map (function_key revision) kernel_fs);
          accepted = remdups (map (function_key revision) (filter fr_current kernel_fs));
          historical = remdups (map (function_key revision) (filter fr_reported kernel_fs)) in
      \<lparr>ct_kernel = length inventory, ct_current = length accepted, ct_reported = length historical,
       ct_without = length (filter (\<lambda>k. k \<notin> set accepted) inventory),
       ct_accepted_targets = length (filter (\<lambda>t. case tr_latest t of
           Some l \<Rightarrow> tr_state t \<noteq> PStr ''ambiguous-latest'' \<and> ob_accepted l | None \<Rightarrow> False) rows),
       ct_calibration = length (filter (\<lambda>f. fr_kind f = ''calibration'') fs),
       ct_witness = length (filter (\<lambda>f. fr_kind f = ''project-witness'') fs)\<rparr>)"

record matrix =
  mx_manifests :: "(string \<times> string option) list"
  mx_runs :: "run list"
  mx_architectures :: "architecture_row list"
  mx_profiles :: "profile_row list"
  mx_targets :: "target_row list"
  mx_counts :: matrix_counts
  mx_inputs :: "receipt list"

record registry =
  rg_revision :: string
  rg_targets :: "(string \<times> pydict) list" \<comment> \<open>sorted by name\<close>
  rg_profiles :: pydict
  rg_manifests :: "string list" \<comment> \<open>paths below the project, sorted\<close>

definition read_roster :: "host \<Rightarrow> json_loads \<Rightarrow> string \<Rightarrow> registry \<Rightarrow> (cache, pydict) prog" where
  "read_roster h loads project rg =
     sbind (scollect (\<lambda>p. read_json h h loads (path_join project p)) (rg_manifests rg)) (\<lambda>_.
     sbind (read_json h h loads (path_join project ''config/architectures.json'')) (\<lambda>roster.
     sbind (slift (check (dget roster ''kernel_revision'' = PStr (rg_revision rg))
       (coverage_error ''architecture roster and target revisions disagree''))) (\<lambda>_. sreturn roster)))"

definition generate_matrix ::
  "host \<Rightarrow> host \<Rightarrow> tools \<Rightarrow> json_loads \<Rightarrow> dates \<Rightarrow> retained_check \<Rightarrow> string \<Rightarrow> registry \<Rightarrow> int \<Rightarrow> string list \<Rightarrow> string list \<Rightarrow> (cache, matrix) prog" where
  "generate_matrix h h_end os loads dates retained base rg checked summaries standalone =
     (let project = resolve h base; revision = rg_revision rg; registered = rg_profiles rg; manifests = rg_manifests rg in
      sbind (scollect (\<lambda>p. sbind (observe_file h (path_join project p)) (\<lambda>d. sreturn (p, d))) manifests) (\<lambda>manifest_rows.
      sbind (read_roster h loads project rg) (\<lambda>roster.
      sbind (load_summaries h loads dates checked [] summaries) (\<lambda>runs.
      sbind (scollect (run_models h os loads project registered revision) runs) (\<lambda>from_runs.
      sbind (scollect (standalone_model h os loads project registered revision) standalone) (\<lambda>alone.
      sbind (slift (mapM (profile_row_of dates (rg_targets rg) runs (concat from_runs @ alone)) (keys registered))) (\<lambda>profiles.
      sbind (scollect (observe_target h os loads retained project revision registered manifests checked runs) (rg_targets rg)) (\<lambda>rows.
      sbind (slift (bind_res (ditem roster ''architectures'') (\<lambda>av. bind_res (items_of av) (mapM (architecture_row_of registered))))) (\<lambda>architectures.
      sbind (\<lambda>c. (finalize h_end c, c)) (\<lambda>inputs.
        sreturn \<lparr>mx_manifests = manifest_rows, mx_runs = runs, mx_architectures = architectures, mx_profiles = profiles,
                 mx_targets = rows, mx_counts = matrix_counts_of revision rows, mx_inputs = inputs\<rparr>))))))))))"

section \<open>A current function is backed by the latest run\<close>

lemma finalize_unchanged: "finalize h c = Inr rs \<Longrightarrow> unchanged h c"
  by (auto simp: finalize_def bind_res_Inr allM_iff check_iff unchanged_def dest!: map_of_SomeD)

lemma load_summaries_dated:
  "load_summaries h loads dates checked seen ps c = (Inr runs, c') \<Longrightarrow> r \<in> set runs \<Longrightarrow> rn_undated r \<longleftrightarrow> rn_time r = None"
proof (induction ps arbitrary: seen c runs)
  case (Cons p ps)
  from Cons.prems(1) obtain path data sha r1 rs seen' c1 where
    "checked_summary dates checked path sha data = Inr r1" "load_summaries h loads dates checked seen' ps c1 = (Inr rs, c')" "runs = r1 # rs"
    by (auto simp: Let_def sbind_Inr slift_eq split: if_splits)
  moreover from this(1) have "rn_undated r1 \<longleftrightarrow> rn_time r1 = None"
    by (auto simp: checked_summary_def bind_res_Inr split: prod.splits)
  ultimately show ?case using Cons.IH Cons.prems(2) by auto
qed (auto simp: slift_eq)

lemma sorted_last:
  assumes "sorted (map k xs)" and "x \<in> set xs"
  shows "k x \<le> k (last xs)"
proof -
  obtain i where i: "i < length xs" "x = xs ! i" using assms(2) by (auto simp: in_set_conv_nth)
  then have "map k xs ! i \<le> map k xs ! (length xs - 1)" using assms(1) by (intro sorted_nth_mono) auto
  moreover have "last xs = xs ! (length xs - 1)" using i(1) by (intro last_conv_nth) auto
  ultimately show ?thesis using i by simp
qed

lemma lex_first: "(a :: 'a :: linorder, b :: 'b :: linorder) \<le> (c, d) \<Longrightarrow> a \<le> c"
  by (auto simp: less_eq_prod_simp)

text \<open>Where the last run is unique, every other run of the target is dated and earlier.\<close>

lemma last_run_strict:
  assumes "rs = relevant_runs checked name runs" and "rs \<noteq> []" and "\<not> ambiguous_runs rs" and "\<not> rn_undated (last rs)"
    and "\<And>r. r \<in> set runs \<Longrightarrow> rn_undated r \<longleftrightarrow> rn_time r = None" and "r \<in> set rs"
  shows "r = last rs \<or> (\<not> rn_undated r \<and> run_key checked r < run_key checked (last rs))"
proof -
  let ?k = "\<lambda>r. (run_key checked r, rn_path r)"
  have sub: "set rs \<subseteq> set runs" by (auto simp: assms(1) relevant_runs_def)
  have sorted: "sorted (map ?k rs)" by (simp add: assms(1) relevant_runs_def)
  have snoc: "rs = butlast rs @ [last rs]" using assms(2) by simp
  show ?thesis
  proof (cases "r = last rs")
    case False
    with assms(6) snoc have r: "r \<in> set (butlast rs)" by (metis Un_iff empty_iff insert_iff list.set set_append)
    then have ne: "butlast rs \<noteq> []" by auto
    let ?b = "last (butlast rs)"
    have "rev (butlast rs @ [last rs]) = last rs # rev (butlast (butlast rs) @ [?b])" using ne by simp
    then have rev: "rev rs = last rs # ?b # rev (butlast (butlast rs))" unfolding snoc [symmetric] by simp
    have "sorted (map ?k (butlast rs @ [last rs]))" unfolding snoc [symmetric] by (rule sorted)
    then have sb: "sorted (map ?k (butlast rs))" by (simp add: sorted_append)
    have "?k r \<le> ?k ?b" using sorted_last [OF sb r] .
    then have rb: "run_key checked r \<le> run_key checked ?b" by (rule lex_first)
    have inb: "?b \<in> set rs" using ne by (metis in_set_butlastD last_in_set)
    have "?k ?b \<le> ?k (last rs)" by (rule sorted_last [OF sorted inb])
    then have bl: "run_key checked ?b \<le> run_key checked (last rs)" by (rule lex_first)
    have u: "rn_undated x \<longleftrightarrow> rn_time x = None" if "x \<in> set rs" for x using assms(5) sub that by blast
    have "run_key checked ?b \<noteq> run_key checked (last rs)"
    proof
      assume eq: "run_key checked ?b = run_key checked (last rs)"
      then have "\<not> rn_undated ?b" using assms(4) by (simp add: run_key_def)
      with u [OF inb] u [of "last rs"] assms(2,4) obtain s t where "rn_time ?b = Some s" "rn_time (last rs) = Some t" by auto
      with eq have "rn_time ?b = rn_time (last rs)" by (simp add: run_key_def)
      with eq assms(3) rev show False by (simp add: ambiguous_runs_def run_key_def)
    qed
    with rb bl have less: "run_key checked r < run_key checked (last rs)" by (metis order_le_less order_trans_rules(21))
    then have "\<not> rn_undated r" using assms(4) by (auto simp: run_key_def less_prod_def)
    with less show ?thesis by blast
  qed blast
qed

lemma keeps_observe_target:
  "(\<And>item r m. keeps (cache_has m) (retained item r)) \<Longrightarrow>
     keeps (cache_has m) (observe_target h os loads retained project revision registered manifests checked runs nt)"
  by (cases nt) (auto simp: observe_target_def Let_def intro!: keeps_sbind keeps_scollect keeps_target_observation)

lemma function_kind_kernel:
  "function_kind role ps f = ''kernel'' \<longleftrightarrow> role = PStr ''proof'' \<and> PStr f \<notin> set ps"
  by (auto simp: function_kind_def)

lemma function_row_of_Inr:
  assumes "function_row_of name target path ambiguous latest f = Inr fr"
  shows "fr_function fr = f \<and> fr_source fr = path
    \<and> fr_current fr = (fr_kind fr = ''kernel'' \<and> (case latest of Some l \<Rightarrow> ob_current_verified l | None \<Rightarrow> False))
    \<and> (fr_kind fr = ''kernel'' \<longrightarrow> dget target ''role'' = PStr ''proof'')"
  using assms by (auto simp: function_row_of_def Let_def bind_res_Inr ditem_Inr function_kind_kernel dget_def)

lemma latest_of_current:
  assumes "latest_of ambiguous history = Some l" and "ob_current_verified l"
  shows "\<not> ambiguous \<and> history \<noteq> [] \<and> l = last history"
  using assms by (auto simp: latest_of_def Let_def split: if_splits)

lemma unique_names_set [simp]: "set (unique_names xs) = set xs"
  by (simp add: unique_names_def)

text \<open>One target: a function row that is current comes from the last of the relevant runs.\<close>

lemma observe_target_current:
  assumes obs: "observe_target h os loads retained project revision registered manifests checked runs (name, target) c = (Inr t, c')"
    and fr: "fr \<in> set (tr_functions t)" "fr_current fr"
    and ret: "\<And>item r m. keeps (cache_has m) (retained item r)"
  shows "tr_id t = name \<and> fr_kind fr = ''kernel'' \<and> dget target ''role'' = PStr ''proof''
    \<and> dget target ''source'' = PStr (fr_source fr) \<and> (\<exists>names. function_names target = Inr names \<and> fr_function fr \<in> set names)
    \<and> relevant_runs checked name runs \<noteq> [] \<and> \<not> ambiguous_runs (relevant_runs checked name runs)
    \<and> dget (target_evaluation (run_item name target (last (relevant_runs checked name runs)))) ''verified'' = PBool True
    \<and> accepted_now h c' project revision registered manifests target
        (run_item name target (last (relevant_runs checked name runs))) (last (relevant_runs checked name runs))"
proof -
  let ?rs = "relevant_runs checked name runs"
  let ?f = "\<lambda>r. target_observation h os loads retained project revision registered manifests target (run_item name target r) r"
  from obs obtain path history where o: "confined_source target = Inr path" "scollect ?f ?rs c = (Inr history, c')"
      "build_row name target path (ambiguous_runs ?rs) history = Inr t"
    by (auto simp: observe_target_def Let_def sbind_Inr slift_eq)
  let ?latest = "latest_of (ambiguous_runs ?rs) history"
  from o(3) obtain names fs where b: "function_names target = Inr names"
      "mapM (function_row_of name target path (ambiguous_runs ?rs) ?latest) (unique_names names) = Inr fs"
      "tr_functions t = fs" "tr_id t = name"
    by (auto simp: build_row_def Let_def bind_res_Inr)
  from mapM_set [OF b(2)] fr(1) b(3) obtain f where f: "f \<in> set names"
      "function_row_of name target path (ambiguous_runs ?rs) ?latest f = Inr fr" by auto
  note row = function_row_of_Inr [OF f(2)]
  with fr(2) obtain l where l: "?latest = Some l" "ob_current_verified l" by (auto split: option.splits)
  from latest_of_current [OF l] have last: "\<not> ambiguous_runs ?rs" "history \<noteq> []" "l = last history" by simp_all
  have len: "length history = length ?rs" by (rule scollect_length [OF o(2)])
  with last(2) have ne: "?rs \<noteq> []" by auto
  let ?i = "length ?rs - 1"
  have "\<exists>s1 s2. ?f (?rs ! ?i) s1 = (Inr (history ! ?i), s2) \<and> (\<forall>P\<in>range cache_has. P s2 \<longrightarrow> P c')"
    by (rule scollect_nth [OF o(2)]) (use ne in \<open>auto intro!: keeps_target_observation ret\<close>)
  then obtain s1 s2 where s: "?f (last ?rs) s1 = (Inr l, s2)" "cache_has (map_of s2) c'"
    using ne last(2,3) len by (auto simp: last_conv_nth)
  from s(1) obtain b' iss content artifacts reported stale where
    "observation_record h target (run_item name target (last ?rs)) (last ?rs) b' reported stale iss content artifacts = Inr l"
    by (rule target_observation_Inr)
  note rec = observation_record_Inr [OF this]
  then have cur: "ob_current_accepted l" and ver: "dget (target_evaluation (run_item name target (last ?rs))) ''verified'' = PBool True"
    using l(2) by auto
  from current_accepted [OF s(1) cur ret] accepted_now_extends s(2)
  have "accepted_now h c' project revision registered manifests target (run_item name target (last ?rs)) (last ?rs)" by blast
  with row fr(2) o(1) b f(1) last(1) ne ver show ?thesis
    by (auto simp: confined_source_def bind_res_Inr item_str_Inr dget_def)
qed

lemma generate_matrix_Inr:
  assumes "generate_matrix h h_end os loads dates retained base rg checked summaries standalone c0 = (Inr mx, c)"
  obtains c1 c2 c3 where
    "load_summaries h loads dates checked [] summaries c1 = (Inr (mx_runs mx), c2)"
    "scollect (observe_target h os loads retained (resolve h base) (rg_revision rg) (rg_profiles rg) (rg_manifests rg) checked (mx_runs mx))
       (rg_targets rg) c3 = (Inr (mx_targets mx), c)"
    "finalize h_end c = Inr (mx_inputs mx)" "mx_counts mx = matrix_counts_of (rg_revision rg) (mx_targets mx)"
  using assms by (auto simp: generate_matrix_def Let_def sbind_Inr slift_eq)

text \<open>
  C4. What the coverage matrix shows as currently verified. Behind such a function row stands a
  registered proof target that names the function; the latest run that selected the target, every other
  such run being dated and strictly earlier; and a result in it that is accepted and verified, of this very
  target, profile and kernel revision, whose source was pinned by the provenance gate. All digests the
  result was judged by, those of all its recorded inputs, of the manifests and of the pinned source, are
  digests the files still have on the machine at the end of the generation.
\<close>

theorem matrix_current_sound:
  assumes gen: "generate_matrix h h_end os loads dates retained base rg checked summaries standalone c0 = (Inr mx, c)"
    and ret: "\<And>item r m. keeps (cache_has m) (retained item r)"
    and row: "t \<in> set (mx_targets mx)" "fr \<in> set (tr_functions t)" "fr_current fr"
  shows "\<exists>target names r.
    (tr_id t, target) \<in> set (rg_targets rg) \<and> dget target ''role'' = PStr ''proof'' \<and> fr_kind fr = ''kernel''
    \<and> function_names target = Inr names \<and> fr_function fr \<in> set names \<and> dget target ''source'' = PStr (fr_source fr)
    \<and> r \<in> set (mx_runs mx) \<and> tr_id t \<in> set (rn_selected r)
    \<and> (\<forall>r'\<in>set (mx_runs mx). tr_id t \<in> set (rn_selected r') \<longrightarrow>
         r' = r \<or> \<not> rn_undated r' \<and> run_key checked r' < run_key checked r)
    \<and> dget (target_evaluation (run_item (tr_id t) target r)) ''verified'' = PBool True
    \<and> accepted_now h c (resolve h base) (rg_revision rg) (rg_profiles rg) (rg_manifests rg) target (run_item (tr_id t) target r) r
    \<and> unchanged h_end c"
proof -
  let ?obs = "observe_target h os loads retained (resolve h base) (rg_revision rg) (rg_profiles rg) (rg_manifests rg) checked (mx_runs mx)"
  obtain c1 c2 c3 where g: "load_summaries h loads dates checked [] summaries c1 = (Inr (mx_runs mx), c2)"
    "scollect ?obs (rg_targets rg) c3 = (Inr (mx_targets mx), c)" "finalize h_end c = Inr (mx_inputs mx)"
    using gen by (rule generate_matrix_Inr)
  note len = scollect_length [OF g(2)]
  obtain i where i: "i < length (rg_targets rg)" "t = mx_targets mx ! i" using row(1) len by (auto simp: in_set_conv_nth)
  have "\<exists>s1 s2. ?obs (rg_targets rg ! i) s1 = (Inr (mx_targets mx ! i), s2) \<and> (\<forall>P\<in>range cache_has. P s2 \<longrightarrow> P c)"
    by (rule scollect_nth [OF g(2) i(1)]) (auto intro!: keeps_observe_target ret)
  then obtain s1 s2 where s: "?obs (rg_targets rg ! i) s1 = (Inr t, s2)" "cache_has (map_of s2) c" using i(2) by auto
  obtain name target where nt: "rg_targets rg ! i = (name, target)" by (cases "rg_targets rg ! i")
  let ?rs = "relevant_runs checked name (mx_runs mx)"
  from observe_target_current [OF s(1) [unfolded nt] row(2,3) ret] have
    o: "tr_id t = name" "fr_kind fr = ''kernel''" "dget target ''role'' = PStr ''proof''" "dget target ''source'' = PStr (fr_source fr)"
      "\<exists>names. function_names target = Inr names \<and> fr_function fr \<in> set names" "?rs \<noteq> []" "\<not> ambiguous_runs ?rs"
      "dget (target_evaluation (run_item name target (last ?rs))) ''verified'' = PBool True"
      "accepted_now h s2 (resolve h base) (rg_revision rg) (rg_profiles rg) (rg_manifests rg) target (run_item name target (last ?rs)) (last ?rs)"
    by simp_all
  have rs: "set ?rs = {r \<in> set (mx_runs mx). name \<in> set (rn_selected r)}" by (auto simp: relevant_runs_def)
  have in_rs: "last ?rs \<in> set ?rs" using o(6) by simp
  have und: "\<not> rn_undated (last ?rs)" using o(9) by (simp add: accepted_now_def)
  have latest: "\<forall>r'\<in>set (mx_runs mx). name \<in> set (rn_selected r') \<longrightarrow>
      r' = last ?rs \<or> \<not> rn_undated r' \<and> run_key checked r' < run_key checked (last ?rs)"
    using last_run_strict [OF refl o(6,7) und load_summaries_dated [OF g(1)]] rs by blast
  have member: "(tr_id t, target) \<in> set (rg_targets rg)" using i(1) nt o(1) by (metis nth_mem)
  from o(5) obtain names where names: "function_names target = Inr names" "fr_function fr \<in> set names" by blast
  show ?thesis
    using member o(2-4) names in_rs rs latest o(8) accepted_now_extends [OF o(9) s(2)] finalize_unchanged [OF g(3)]
    unfolding o(1) by blast
qed

text \<open>The counts: each kernel function once, and the current ones among them.\<close>

lemma remdups_length: "length (remdups xs) = card (set xs)"
  by (simp add: length_remdups_card_conv)

lemma filter_length: "distinct xs \<Longrightarrow> length (filter P xs) = card {x \<in> set xs. P x}"
  by (metis distinct_card distinct_filter set_filter)

text \<open>
  The headline counts of the matrix are those of distinct kernel functions: the functions with a
  current variant and those without one partition the inventory, and a calibration row or a
  project witness is in neither.
\<close>

theorem matrix_counts_exact:
  "ct_kernel (matrix_counts_of revision rows) = card (function_key revision ` set (kernel_rows rows))
   \<and> ct_current (matrix_counts_of revision rows) = card (function_key revision ` {f \<in> set (kernel_rows rows). fr_current f})
   \<and> ct_current (matrix_counts_of revision rows) + ct_without (matrix_counts_of revision rows)
       = ct_kernel (matrix_counts_of revision rows)
   \<and> set (kernel_rows rows) \<subseteq> {f. fr_kind f = ''kernel''}"
proof -
  let ?inv = "remdups (map (function_key revision) (kernel_rows rows))"
  let ?acc = "remdups (map (function_key revision) (filter fr_current (kernel_rows rows)))"
  have sub: "set ?acc \<subseteq> set ?inv" by auto
  have "length (filter (\<lambda>k. k \<in> set ?acc) ?inv) = card {k \<in> set ?inv. k \<in> set ?acc}"
    by (rule filter_length) simp
  also have "{k \<in> set ?inv. k \<in> set ?acc} = set ?acc" using sub by blast
  also have "card (set ?acc) = length ?acc" by (rule distinct_card) simp
  finally have acc: "length (filter (\<lambda>k. k \<in> set ?acc) ?inv) = length ?acc" .
  have "length (filter (\<lambda>k. k \<in> set ?acc) ?inv) + length (filter (\<lambda>k. k \<notin> set ?acc) ?inv) = length ?inv"
    by (rule sum_length_filter_compl)
  with acc have "length ?acc + length (filter (\<lambda>k. k \<notin> set ?acc) ?inv) = length ?inv" by simp
  then show ?thesis by (auto simp: matrix_counts_of_def Let_def remdups_length kernel_rows_def)
qed

definition cov_digest :: string where "cov_digest = replicate 64 CHR ''a''"

definition cov_host :: host where
  "cov_host = \<lparr>contents = (\<lambda>p. Some (if p = ''/p/s'' then ''S'' else ''R'')), is_symlink = (\<lambda>_. False), is_dir = (\<lambda>_. False),
     resolve = (\<lambda>p. ''/p''), sha256_hex = (\<lambda>_. cov_digest), float_text = (\<lambda>_. ''1.0'')\<rparr>"

definition cov_tools :: tools where
  "cov_tools = \<lparr>git_run = (\<lambda>_ _. GitUnavailable), utf8_decode = Some\<rparr>"

definition cov_target :: pydict where
  "cov_target = [(''id'', PStr ''t''), (''role'', PStr ''proof''), (''profile'', PStr ''x''), (''source'', PStr ''s''),
     (''functions'', PList [PStr ''f'']), (''claims'', PList [PStr ''functional''])]"

definition cov_registry :: registry where
  "cov_registry = \<lparr>rg_revision = ''r'', rg_targets = [(''t'', cov_target)],
     rg_profiles = [(''x'', PDict [(''architecture'', PStr ''x'')])], rg_manifests = [''m'']\<rparr>"

definition cov_inputs :: py where
  "cov_inputs = PList [PDict [(''absolute_path'', PStr ''/p/m''), (''sha256'', PStr cov_digest)]]"

definition cov_item :: pydict where
  "cov_item = [(''target'', PDict cov_target), (''accepted'', PBool True), (''status'', PStr ''passed''),
     (''evaluation'', PDict [(''status'', PStr ''passed''), (''accepted'', PBool True), (''verified'', PBool True),
        (''local_policy_passed'', PBool True)]),
     (''provenance'', PDict [(''passed'', PBool True), (''source'', PDict [(''revision'', PStr ''r''), (''path'', PStr ''s''),
        (''kind'', PStr ''git-blob''), (''sha256'', PStr cov_digest)])]),
     (''integrity_inputs'', cov_inputs)]"

definition cov_model :: pydict where
  "cov_model = [(''schema_version'', PInt 1), (''profile_id'', PStr ''x''), (''profile_sha256'', PStr cov_digest),
     (''kernel_revision'', PStr ''r''), (''architecture'', PStr ''x''), (''status'', PStr ''passed''), (''level'', PStr ''L1''),
     (''checks'', PList [PDict [(''status'', PStr ''passed'')]]), (''fixture_sha256'', PStr cov_digest),
     (''generator'', PDict []), (''build'', PDict [(''source'', PStr ''/k'')])]"

definition cov_loads :: json_loads where
  "cov_loads s = Some (if s = ''S'' then PDict [(''schema_version'', PInt 1), (''status'', PStr ''passed''), (''accepted'', PBool True),
       (''started_at'', PStr ''d''), (''completed_at'', PStr ''d''), (''revision'', PStr ''r''),
       (''selected_targets'', PList [PStr ''t'']), (''targets'', PList [PDict cov_item]),
       (''profiles'', PDict [(''x'', PDict cov_model)]), (''integrity_inputs'', cov_inputs)]
     else PDict [(''schema_version'', PInt 1), (''kernel_revision'', PStr ''r''),
       (''architectures'', PList [PDict [(''id'', PStr ''x'')]])])"

definition cov_retained :: retained_check where
  "cov_retained item r = sreturn [(''status'', PStr ''passed''), (''analysis_policy'', PDict [(''status'', PStr ''checked'')])]"

definition cov_matrix :: "matrix res \<times> cache" where
  "cov_matrix = generate_matrix cov_host cov_host cov_tools cov_loads (\<lambda>s. Some (True, 1)) cov_retained ''/p''
     cov_registry 2 [''/p/s''] [] []"

lemma cov_matrix_current:
  "case cov_matrix of (Inr mx, c) \<Rightarrow> list_ex (\<lambda>t. list_ex fr_current (tr_functions t)) (mx_targets mx) | _ \<Rightarrow> False"
  by code_simp

lemma matrix_current_sound_witness:
  "\<exists>mx c t fr target r. cov_matrix = (Inr mx, c) \<and> t \<in> set (mx_targets mx) \<and> fr \<in> set (tr_functions t) \<and> fr_current fr
     \<and> r \<in> set (mx_runs mx)
     \<and> accepted_now cov_host c ''/p'' ''r'' (rg_profiles cov_registry) [''m''] target (run_item (tr_id t) target r) r
     \<and> unchanged cov_host c"
proof -
  from cov_matrix_current obtain mx c t fr where m: "cov_matrix = (Inr mx, c)"
    and row: "t \<in> set (mx_targets mx)" "fr \<in> set (tr_functions t)" "fr_current fr"
    by (auto simp: list_ex_iff split: prod.splits sum.splits)
  have ret: "keeps (cache_has m) (cov_retained item r)" for item r m by (simp add: cov_retained_def)
  from matrix_current_sound [OF m [unfolded cov_matrix_def] ret row] m row show ?thesis
    by (simp add: cov_host_def cov_registry_def) blast
qed

end
