(* ===== verification/Replay_Map.thy ===== *)
theory Replay_Map
  imports Replay_Base "HOL-Library.Product_Lexorder"
begin

text \<open>
  The part of \<^verbatim>\<open>fragma/replay.py\<close> that makes two runs in different directories comparable: the declared
  roots (\<^verbatim>\<open>RootBindings\<close>), the \<^verbatim>\<open>Mapper\<close> that replaces the absolute paths of commands and metadata by
  labels relative to a role, and \<^verbatim>\<open>normalize_linemarkers\<close>, which replaces the file names in the line
  markers of a preprocessed stream and nothing else. \<open>labels_identify_files\<close> is what makes a comparison
  of labels one of files, \<open>normalize_keeps_text\<close> what makes a comparison of streams one of C text.
\<close>

section \<open>Root bindings\<close>

type_synonym root_bindings = "(string \<times> string) list"

definition is_role_char :: "char \<Rightarrow> bool" where
  "is_role_char c = (is_lower c \<or> is_upper c \<or> is_digit c \<or> c \<in> {CHR '':'', CHR ''_'', CHR ''.'', CHR ''-''})"

definition root_binding_step :: "string list \<Rightarrow> string \<times> string \<Rightarrow> string list res" where
  "root_binding_step seen binding = (case binding of (role, path) \<Rightarrow>
     bind_res (require (role \<noteq> [] \<and> list_all is_role_char role) ''invalid root role'') (\<lambda>_.
     bind_res (require (role \<noteq> ''run'') ''run root is derived from the actual summary location'') (\<lambda>_.
     bind_res (require (is_absolute path \<and> path \<noteq> ''/'') ''invalid or broad root'') (\<lambda>_.
     bind_res (require (normpath path \<notin> set seen) ''ambiguous duplicate root binding'') (\<lambda>_.
     Inr (normpath path # seen))))))"

definition validate_roots :: "root_bindings \<Rightarrow> unit res" where
  "validate_roots roots =
     bind_res (require (map_of roots ''project'' \<noteq> None) ''project root binding is required'') (\<lambda>_.
     bind_res (foldM root_binding_step [] roots) (\<lambda>_. Inr ()))"

section \<open>Labels of paths\<close>

record mapper =
  mp_roots :: root_bindings
  mp_aliases :: "(string \<times> string) list"

definition new_mapper :: "root_bindings \<Rightarrow> string \<Rightarrow> mapper res" where
  "new_mapper roots run = bind_res (validate_roots roots) (\<lambda>_.
     Inr \<lparr>mp_roots = roots @ [(''run'', run)], mp_aliases = []\<rparr>)"

text \<open>\<^verbatim>\<open>len(Path(root).parts)\<close> counts the leading slash as a part.\<close>

definition part_count :: "string \<Rightarrow> nat" where
  "part_count p = (if path_root p = [] then 0 else 1) + length (path_parts p)"

text \<open>\<^verbatim>\<open>Path(value).relative_to(root).as_posix()\<close>\<close>

definition relative_posix :: "string \<Rightarrow> string \<Rightarrow> string" where
  "relative_posix value base =
     (case drop (length (path_parts base)) (path_parts value) of [] \<Rightarrow> ''.'' | ps \<Rightarrow> join ''/'' ps)"

definition root_matches :: "root_bindings \<Rightarrow> string \<Rightarrow> (nat \<times> string \<times> string) list" where
  "root_matches roots value =
     map (\<lambda>(role, base). (part_count base, role, relative_posix value base))
       (filter (\<lambda>(role, base). is_relative_to value base) roots)"

definition SYNTHETIC :: "string list" where
  "SYNTHETIC = [''<built-in>'', ''<command-line>'', ''<stdin>'']"

definition root_label :: "root_bindings \<Rightarrow> string \<Rightarrow> string" where
  "root_label roots value =
     (case root_matches roots value of
        [] \<Rightarrow> ''absolute:'' @ value
      | m # ms \<Rightarrow> (case foldl max m ms of (_, role, relative) \<Rightarrow> role @ '':'' @ relative))"

definition map_path :: "mapper \<Rightarrow> string \<Rightarrow> string res" where
  "map_path m value =
     bind_res (require (value \<noteq> []) ''missing typed path'') (\<lambda>_.
     if starts_with ''<'' value \<and> ends_with ''>'' value then
       bind_res (require (value \<in> set SYNTHETIC) ''unrecognized synthetic source path'') (\<lambda>_.
       Inr (''synthetic:'' @ value))
     else
       bind_res (require (is_absolute value) ''normalization requires an absolute source path'') (\<lambda>_.
       Inr (case map_of (mp_aliases m) (normpath value) of
              Some label \<Rightarrow> label
            | None \<Rightarrow> root_label (mp_roots m) (normpath value))))"

definition map_path_value :: "mapper \<Rightarrow> py \<Rightarrow> string res" where
  "map_path_value m v = (case v of PStr s \<Rightarrow> map_path m s | _ \<Rightarrow> Inl (replay_error ''missing typed path''))"

section \<open>Command lines\<close>

definition RESOURCE_OPTIONS :: "string list" where
  "RESOURCE_OPTIONS = [''-wp-timeout'', ''-wp-par'', ''-wp-smoke-timeout'']"

definition SHELL_OPERATORS :: "string list" where
  "SHELL_OPERATORS = ['';'', ''&&'', ''||'', ''|'', ''>'', ''<'']"

definition macro_map_item :: "mapper \<Rightarrow> string \<Rightarrow> py res" where
  "macro_map_item m text =
     bind_res (require (CHR ''='' \<in> set text \<and> is_absolute (before CHR ''='' text)) ''unsupported macro prefix map'') (\<lambda>_.
     bind_res (map_path m (before CHR ''='' text)) (\<lambda>p.
     Inr (PDict [(''option'', PStr ''-fmacro-prefix-map''), (''source'', PStr p),
                 (''replacement'', PStr (after CHR ''='' text))])))"

definition argv_item :: "mapper \<Rightarrow> string \<Rightarrow> py res" where
  "argv_item m value =
     (if starts_with ''/'' value then bind_res (map_path m value) (\<lambda>p. Inr (PDict [(''path'', PStr p)]))
      else if starts_with ''-I/'' value \<or> starts_with ''-L/'' value then
        bind_res (map_path m (drop 2 value)) (\<lambda>p. Inr (PDict [(''option'', PStr (take 2 value)), (''path'', PStr p)]))
      else if starts_with ''-fmacro-prefix-map='' value then
        macro_map_item m (drop (length ''-fmacro-prefix-map='') value)
      else Inr (PStr value))"

text \<open>
  The words of a command that is itself an argument are shorter than the argument, so the recursion
  of \<^verbatim>\<open>Mapper.argv\<close> through \<^verbatim>\<open>-cpp-command\<close> ends.
\<close>

definition words_size :: "string list \<Rightarrow> nat" where
  "words_size ws = sum_list (map (\<lambda>w. Suc (length w)) ws)"

lemma words_size_simps [simp]: "words_size [] = 0" "words_size (w # ws) = Suc (length w) + words_size ws"
  by (simp_all add: words_size_def)

fun pending :: "shell_state \<Rightarrow> string \<Rightarrow> nat" where
  "pending Between acc = 1"
| "pending QuoteEscaped acc = length acc + 2"
| "pending _ acc = length acc + 1"

lemma shell_words_size: "shell_words st acc q s = Inr ws \<Longrightarrow> words_size ws \<le> length s + pending st acc"
proof (induction st acc q s arbitrary: ws rule: shell_words.induct)
  case (4 acc q c s)
  then show ?case
    by (fastforce simp: bind_res_Inr split: if_splits)
qed (fastforce split: if_splits)+

lemma shlex_split_size: "shlex_split s = Inr ws \<Longrightarrow> words_size ws \<le> Suc (length s)"
  using shell_words_size [of Between "[]" False s ws] by (simp add: shlex_split_def)

function argv_items :: "mapper \<Rightarrow> bool \<Rightarrow> string list \<Rightarrow> py list res" where
  "argv_items m omit_resources [] = Inr []"
| "argv_items m omit_resources (value # rest) =
     bind_res (require (value \<notin> set SHELL_OPERATORS) ''shell command is outside replay scope'') (\<lambda>_.
     if omit_resources \<and> value \<in> set RESOURCE_OPTIONS then
       (case rest of [] \<Rightarrow> Inl (replay_error ''missing resource option value'')
        | _ # rest' \<Rightarrow> argv_items m omit_resources rest')
     else if value = ''-cpp-command'' then
       (case rest of [] \<Rightarrow> Inl (replay_error ''missing CPP command'')
        | command # rest' \<Rightarrow>
            bind_res (shlex_split command) (\<lambda>words.
            bind_res (require (words \<noteq> []) ''malformed command argv'') (\<lambda>_.
            bind_res (argv_items m False words) (\<lambda>inner.
            bind_res (argv_items m omit_resources rest') (\<lambda>outer. Inr (PStr value # PList inner # outer))))))
     else bind_res (argv_item m value) (\<lambda>item.
          bind_res (argv_items m omit_resources rest) (\<lambda>items. Inr (item # items))))"
  by pat_completeness auto
termination
  by (relation "measure (\<lambda>(m, omit_resources, values). words_size values)") (auto dest: shlex_split_size)

definition map_argv :: "mapper \<Rightarrow> bool \<Rightarrow> py \<Rightarrow> py res" where
  "map_argv m omit_resources v =
     bind_res (case v of PStr s \<Rightarrow> shlex_split s
               | _ \<Rightarrow> (case as_strs v of Some ws \<Rightarrow> Inr ws | None \<Rightarrow> Inl (replay_error ''malformed command argv''))) (\<lambda>ws.
     bind_res (require (ws \<noteq> []) ''malformed command argv'') (\<lambda>_.
     bind_res (argv_items m omit_resources ws) (\<lambda>items. Inr (PList items))))"

section \<open>Metadata\<close>

definition PATH_FIELDS :: "string list" where
  "PATH_FIELDS = [''path'', ''file'', ''absolute_path'', ''resolved_path'', ''cwd'', ''output'', ''directory'',
     ''source_root'', ''source'', ''build_path'', ''switch_prefix'', ''machdep'', ''frama_input'']"

definition COMMAND_FIELDS :: "string list" where
  "COMMAND_FIELDS = [''argv'', ''command'', ''target_command'', ''cpp_command'', ''frama_cpp_command'']"

definition ARGV_FIELDS :: "string list" where
  "ARGV_FIELDS = [''cpp_extra_args'', ''calibration_cpp_extra_args'', ''compiler_flags'', ''flags'']"

definition PATH_LIST_FIELDS :: "string list" where
  "PATH_LIST_FIELDS = [''PATH'', ''LD_LIBRARY_PATH'', ''CAML_LD_LIBRARY_PATH'', ''OCAMLPATH'', ''LIBRARY_PATH'',
     ''COMPILER_PATH'', ''CPATH'']"

definition field_in :: "string option \<Rightarrow> string list \<Rightarrow> bool" where
  "field_in field names = (case field of None \<Rightarrow> False | Some k \<Rightarrow> k \<in> set names)"

definition property_row :: "pydict \<Rightarrow> bool" where
  "property_row d = list_all (has_key d) [''path'', ''line'', ''function'', ''kind'', ''status'', ''property'']"

definition search_item :: "mapper \<Rightarrow> string \<Rightarrow> py res" where
  "search_item m p =
     (if starts_with ''/'' p then bind_res (map_path m p) (\<lambda>l. Inr (PStr l))
      else Inr (PDict [(''literal_search_directory'', PStr p)]))"

definition map_key :: "mapper \<Rightarrow> string \<Rightarrow> string res" where
  "map_key m k = (if starts_with ''/'' k then map_path m k else Inr k)"

definition map_leaf :: "mapper \<Rightarrow> string option \<Rightarrow> py \<Rightarrow> py res" where
  "map_leaf m field v = (case v of
     PStr s \<Rightarrow>
       if field_in field COMMAND_FIELDS \<and> s \<noteq> [] then map_argv m False v
       else if field_in field PATH_LIST_FIELDS then
         bind_res (mapM (search_item m) (split_on CHR '':'' s)) (\<lambda>items. Inr (PList items))
       else if field_in field PATH_FIELDS \<and> starts_with ''/'' s then bind_res (map_path m s) (\<lambda>l. Inr (PStr l))
       else Inr v
   | _ \<Rightarrow> Inr v)"

text \<open>Two keys with one label leave one entry: the later value at the place of the first.\<close>

fun map_metadata :: "mapper \<Rightarrow> string option \<Rightarrow> py \<Rightarrow> py res"
and map_metadata_list :: "mapper \<Rightarrow> py list \<Rightarrow> py list res"
and map_metadata_dict :: "mapper \<Rightarrow> bool \<Rightarrow> pydict \<Rightarrow> pydict \<Rightarrow> pydict res" where
  "map_metadata m field (PDict d) = bind_res (map_metadata_dict m (property_row d) [] d) (\<lambda>e. Inr (PDict e))"
| "map_metadata m field (PList vs) =
     (if (field_in field COMMAND_FIELDS \<or> field_in field ARGV_FIELDS) \<and> vs \<noteq> [] then map_argv m False (PList vs)
      else bind_res (map_metadata_list m vs) (\<lambda>ws. Inr (PList ws)))"
| "map_metadata m field v = map_leaf m field v"
| "map_metadata_list m [] = Inr []"
| "map_metadata_list m (v # vs) =
     bind_res (map_metadata m None v) (\<lambda>w. bind_res (map_metadata_list m vs) (\<lambda>ws. Inr (w # ws)))"
| "map_metadata_dict m strip_rows acc [] = Inr acc"
| "map_metadata_dict m strip_rows acc ((k, v) # d) =
     (if strip_rows \<and> k = ''report_row'' then map_metadata_dict m strip_rows acc d
      else bind_res (map_key m k) (\<lambda>k'.
           bind_res (map_metadata m (Some k) v) (\<lambda>w. map_metadata_dict m strip_rows (dset acc k' w) d)))"

section \<open>Labels identify files\<close>

definition path_part :: "string \<Rightarrow> bool" where
  "path_part w = (w \<noteq> [] \<and> w \<noteq> ''.'' \<and> CHR ''/'' \<notin> set w)"

lemma norm_step_part:
  assumes "list_all path_part cs" and "CHR ''/'' \<notin> set v"
  shows "list_all path_part (norm_step ab cs v)"
proof (cases "v = [] \<or> v = ''.''")
  case True
  with assms(1) show ?thesis by (auto simp: norm_step_def)
next
  case False
  with assms(2) have "path_part v" by (simp add: path_part_def)
  moreover have "list_all path_part (tl cs)" using assms(1) by (cases cs) simp_all
  moreover have "norm_step ab cs v = cs \<or> norm_step ab cs v = tl cs \<or> norm_step ab cs v = v # cs"
    using False unfolding norm_step_def by simp
  ultimately show ?thesis using assms(1) by auto
qed

lemma norm_steps_parts:
  "list_all path_part cs \<Longrightarrow> (\<And>w. w \<in> set ws \<Longrightarrow> CHR ''/'' \<notin> set w) \<Longrightarrow> list_all path_part (foldl (norm_step ab) cs ws)"
proof (induction ws arbitrary: cs)
  case (Cons v ws)
  show ?case unfolding foldl_Cons
    by (rule Cons.IH [OF norm_step_part [OF Cons.prems(1)]]) (simp_all add: Cons.prems(2))
qed simp

lemma path_root_absolute: "is_absolute p \<Longrightarrow> path_root p = ''/'' \<or> path_root p = ''//''"
  by (auto simp: path_root_def is_absolute_def)

lemma path_root_join:
  assumes "r = ''/'' \<or> r = ''//''" and "\<forall>w\<in>set ws. w \<noteq> [] \<and> CHR ''/'' \<notin> set w"
  shows "path_root (r @ join ''/'' ws) = r"
proof (cases "ws = []")
  case True
  with assms(1) show ?thesis by (auto simp: path_root_def starts_with_def)
next
  case False
  from join_head [OF assms(2) this] obtain c s where "join ''/'' ws = c # s" "c \<noteq> CHR ''/''" by blast
  with assms(1) show ?thesis by (auto simp: path_root_def starts_with_def)
qed

text \<open>A normalised absolute path is a path in the form \<^verbatim>\<open>pathlib\<close> prints.\<close>

lemma normpath_str:
  assumes "is_absolute p"
  shows "path_str (normpath p) = normpath p" and "is_absolute (normpath p)"
proof -
  define ws where "ws = rev (foldl (norm_step True) [] (split_on CHR ''/'' p))"
  from path_root_absolute [OF assms] have r: "path_root p \<noteq> []" by auto
  then have n: "normpath p = path_root p @ join ''/'' ws"
    using assms by (auto simp: normpath_def ws_def is_absolute_def Let_def starts_with_def)
  have "list_all path_part (foldl (norm_step True) [] (split_on CHR ''/'' p))"
    by (rule norm_steps_parts) (simp_all add: split_on_no_sep_set)
  then have ws: "\<forall>w\<in>set ws. w \<noteq> [] \<and> w \<noteq> ''.'' \<and> CHR ''/'' \<notin> set w"
    unfolding ws_def set_rev list_all_iff path_part_def .
  have "path_root (normpath p) = path_root p"
    unfolding n using path_root_absolute [OF assms] ws by (intro path_root_join) auto
  moreover have "path_parts (normpath p) = ws"
    using path_root_absolute [OF assms] path_parts_join [OF ws] by (auto simp: n)
  ultimately show "path_str (normpath p) = normpath p" using r by (simp add: path_str_def n)
  from path_root_absolute [OF assms] show "is_absolute (normpath p)" by (auto simp: n is_absolute_def starts_with_def)
qed

lemma foldl_max_in: "foldl max m ms \<in> set (m # ms)" for m :: "'a::linorder"
proof (induction ms arbitrary: m)
  case (Cons n ms)
  from Cons [of "max m n"] show ?case by (auto simp: max_def split: if_splits)
qed simp

lemma root_label_cases:
  obtains "root_matches roots v = []" "root_label roots v = ''absolute:'' @ v"
  | role base where "(role, base) \<in> set roots" "is_relative_to v base"
      "root_label roots v = role @ '':'' @ relative_posix v base"
proof (cases "root_matches roots v")
  case Nil
  then show ?thesis using that(1) by (simp add: root_label_def)
next
  case (Cons m ms)
  have "foldl max m ms \<in> set (root_matches roots v)" using foldl_max_in [of m ms] Cons by simp
  then obtain role base where b: "(role, base) \<in> set roots" "is_relative_to v base"
      "foldl max m ms = (part_count base, role, relative_posix v base)"
    by (auto simp: root_matches_def)
  with that(2) [OF b(1,2)] show ?thesis by (simp add: root_label_def Cons)
qed

lemma relative_posix_parts:
  assumes "is_relative_to v base"
  shows "path_parts v = path_parts base @ path_parts (relative_posix v base)"
proof -
  let ?ps = "drop (length (path_parts base)) (path_parts v)"
  have "\<forall>w\<in>set ?ps. w \<noteq> [] \<and> w \<noteq> ''.'' \<and> CHR ''/'' \<notin> set w"
    using path_parts_props by (auto dest: in_set_dropD)
  then have "path_parts (join ''/'' ?ps) = ?ps" by (rule path_parts_join)
  then have "path_parts (relative_posix v base) = ?ps"
    by (auto simp: relative_posix_def path_parts_def split: list.splits)
  with assms show ?thesis by (metis append_take_drop_id is_relative_to_def)
qed

lemma relative_posix_head: "\<exists>c s. relative_posix v base = c # s \<and> c \<noteq> CHR ''/''"
proof (cases "drop (length (path_parts base)) (path_parts v) = []")
  case True
  then show ?thesis by (simp add: relative_posix_def)
next
  case False
  then have "\<exists>c s. join ''/'' (drop (length (path_parts base)) (path_parts v)) = c # s \<and> c \<noteq> CHR ''/''"
    using path_parts_props by (intro join_head) (auto dest: in_set_dropD)
  with False show ?thesis by (auto simp: relative_posix_def split: list.splits)
qed

lemma colon_unique:
  "CHR '':'' \<notin> set a \<Longrightarrow> CHR '':'' \<notin> set b \<Longrightarrow> a @ CHR '':'' # s = b @ CHR '':'' # t \<longleftrightarrow> a = b \<and> s = t"
proof (induction a arbitrary: b)
  case Nil
  then show ?case by (cases b) auto
next
  case (Cons c a)
  then show ?case by (cases b) auto
qed

lemma root_label_inject:
  assumes "distinct (map fst roots)" and "\<forall>role\<in>fst ` set roots. CHR '':'' \<notin> set role"
    and "is_absolute a" "is_absolute b" "path_str a = a" "path_str b = b"
    and "root_label roots a = root_label roots b"
  shows "a = b"
proof -
  have abs: "''absolute:'' @ v = ''absolute'' @ CHR '':'' # v" for v by simp
  have nc: "CHR '':'' \<notin> set ''absolute''" by simp
  show ?thesis
  proof (rule root_label_cases [of roots a]; rule root_label_cases [of roots b])
    fix r s r' s' assume a: "(r, s) \<in> set roots" "is_relative_to a s" "root_label roots a = r @ '':'' @ relative_posix a s"
      and b: "(r', s') \<in> set roots" "is_relative_to b s'" "root_label roots b = r' @ '':'' @ relative_posix b s'"
    from assms(2) a(1) b(1) have "CHR '':'' \<notin> set r" "CHR '':'' \<notin> set r'" by force+
    moreover have "r @ CHR '':'' # relative_posix a s = r' @ CHR '':'' # relative_posix b s'" using assms(7) a(3) b(3) by simp
    ultimately have "r = r'" and rel: "relative_posix a s = relative_posix b s'" by (simp_all add: colon_unique)
    with a(1) b(1) assms(1) have "s = s'" by (metis eq_key_imp_eq_value)
    with rel relative_posix_parts [OF a(2)] relative_posix_parts [OF b(2)] have "path_parts a = path_parts b" by simp
    moreover have "path_root a = path_root b" using a(2) b(2) \<open>s = s'\<close> by (simp add: is_relative_to_def)
    ultimately show "a = b" using assms(5,6) by (metis path_str_def)
  next
    fix r s assume "root_label roots a = ''absolute:'' @ a" and b: "(r, s) \<in> set roots"
      "root_label roots b = r @ '':'' @ relative_posix b s"
    moreover from assms(2) b(1) have "CHR '':'' \<notin> set r" by force
    moreover have "''absolute'' @ CHR '':'' # a = r @ CHR '':'' # relative_posix b s" using assms(7) calculation by simp
    ultimately have "a = relative_posix b s" using nc colon_unique by blast
    with relative_posix_head [of b s] assms(3) show "a = b" by (auto simp: is_absolute_def starts_with_def)
  next
    fix r s assume b: "(r, s) \<in> set roots" "root_label roots a = r @ '':'' @ relative_posix a s"
      and "root_label roots b = ''absolute:'' @ b"
    moreover from assms(2) b(1) have "CHR '':'' \<notin> set r" by force
    moreover have "''absolute'' @ CHR '':'' # b = r @ CHR '':'' # relative_posix a s" using assms(7) calculation by simp
    ultimately have "b = relative_posix a s" using nc colon_unique by blast
    with relative_posix_head [of a s] assms(4) show "a = b" by (auto simp: is_absolute_def starts_with_def)
  next
    assume "root_label roots a = ''absolute:'' @ a" "root_label roots b = ''absolute:'' @ b"
    with assms(7) show "a = b" by simp
  qed
qed

lemma validate_roots_no_run: "validate_roots roots = Inr u \<Longrightarrow> ''run'' \<notin> fst ` set roots"
proof -
  assume "validate_roots roots = Inr u"
  then obtain seen where "foldM root_binding_step [] roots = Inr seen"
    by (auto simp: validate_roots_def bind_res_Inr)
  then have "''run'' \<notin> fst ` set ([] @ roots)"
  proof (rule foldM_prefix_invariant [where P = "\<lambda>ys s. ''run'' \<notin> fst ` set ys"])
    fix ys :: root_bindings and s x s' assume "''run'' \<notin> fst ` set ys" "root_binding_step s x = Inr s'"
    then show "''run'' \<notin> fst ` set (ys @ [x])"
      by (auto simp: root_binding_step_def bind_res_Inr check_iff split: prod.splits)
  qed simp
  then show ?thesis by simp
qed

lemma new_mapper_Inr:
  "new_mapper roots run = Inr m \<longleftrightarrow> validate_roots roots = Inr () \<and> m = \<lparr>mp_roots = roots @ [(''run'', run)], mp_aliases = []\<rparr>"
  by (auto simp: new_mapper_def bind_res_Inr)

lemma map_path_Inr:
  "map_path m v = Inr l \<longleftrightarrow> v \<noteq> [] \<and>
     (if starts_with ''<'' v \<and> ends_with ''>'' v then v \<in> set SYNTHETIC \<and> l = ''synthetic:'' @ v
      else is_absolute v \<and> l = (case map_of (mp_aliases m) (normpath v) of Some label \<Rightarrow> label
             | None \<Rightarrow> root_label (mp_roots m) (normpath v)))"
  by (auto simp: map_path_def bind_res_Inr check_iff)

lemma root_label_not_synthetic:
  assumes "\<forall>role\<in>fst ` set roots. CHR '':'' \<notin> set role \<and> role \<noteq> ''synthetic''"
  shows "root_label roots v \<noteq> ''synthetic:'' @ w"
proof (cases rule: root_label_cases [of roots v])
  case 1
  then show ?thesis by simp
next
  case (2 role base)
  have synthetic: "''synthetic:'' @ w = ''synthetic'' @ CHR '':'' # w" by simp
  have nc: "CHR '':'' \<notin> set ''synthetic''" by simp
  from assms 2(1) have r: "CHR '':'' \<notin> set role" "role \<noteq> ''synthetic''" by force+
  show ?thesis
  proof
    assume "root_label roots v = ''synthetic:'' @ w"
    with 2(3) have "role @ CHR '':'' # relative_posix v base = ''synthetic'' @ CHR '':'' # w" unfolding synthetic by simp
    with r nc colon_unique show False by blast
  qed
qed


text \<open>The colons of roles such as \<^verbatim>\<open>build:x86\<close> matter: here two files share a label.\<close>

definition colon_roots :: root_bindings where
  "colon_roots = [(''project'', ''/p''), (''build'', ''/b''), (''build:x86'', ''/c'')]"

lemma colon_roles_collide:
  "bind_res (new_mapper colon_roots ''/r'') (\<lambda>m. map_path m ''/b/x86:f'') = Inr ''build:x86:f''"
  "bind_res (new_mapper colon_roots ''/r'') (\<lambda>m. map_path m ''/c/f'') = Inr ''build:x86:f''"
  by code_simp+


section \<open>Line markers\<close>

text \<open>\<^verbatim>\<open>text.splitlines(keepends=True)\<close>\<close>

fun keep_lines :: "string \<Rightarrow> string \<Rightarrow> string list" where
  "keep_lines acc [] = (if acc = [] then [] else [rev acc])"
| "keep_lines acc [c] = [rev (c # acc)]"
| "keep_lines acc (c # d # s) =
     (if c = CHR 0x0D \<and> d = CHR 0x0A then rev (d # c # acc) # keep_lines [] s
      else if is_line_break c then rev (c # acc) # keep_lines [] (d # s)
      else keep_lines (c # acc) (d # s))"

lemma keep_lines_concat: "concat (keep_lines acc s) = rev acc @ s"
  by (induction acc s rule: keep_lines.induct) auto

text \<open>
  \<^verbatim>\<open>LINE_MARKER\<close>: a number sign, blanks, optionally \<^verbatim>\<open>line\<close> and blanks, digits, blanks, then a quoted name
  without quotes, backslashes and line feeds, then the rest. The classes of characters that follow each
  other are disjoint, so the greedy match is the only one.
\<close>

definition blanks :: "string \<Rightarrow> string \<times> string" where
  "blanks s = (takeWhile is_space s, dropWhile is_space s)"

definition marker_number :: "string \<Rightarrow> (string \<times> string) option" where
  "marker_number s =
     (let digits = takeWhile is_digit s; (gap, rest) = blanks (dropWhile is_digit s)
      in if digits \<noteq> [] \<and> gap \<noteq> [] then Some (digits @ gap, rest) else None)"

definition optional_line :: "string \<Rightarrow> (string \<times> string) option" where
  "optional_line s =
     (if starts_with ''line'' s
      then (case blanks (drop 4 s) of (gap, rest) \<Rightarrow> if gap = [] then None else Some (''line'' @ gap, rest))
      else Some ([], s))"

definition marker_head :: "string \<Rightarrow> (string \<times> string) option" where
  "marker_head s =
     (case blanks (drop 1 s) of (gap, s2) \<Rightarrow>
        if \<not> starts_with ''#'' s \<or> gap = [] then None
        else (case optional_line s2 of
                None \<Rightarrow> None
              | Some (word, s3) \<Rightarrow> map_option (\<lambda>(n, rest). (''#'' @ gap @ word @ n, rest)) (marker_number s3)))"

definition is_name_char :: "char \<Rightarrow> bool" where
  "is_name_char c = (c \<notin> {CHR 0x22, CHR 0x5C, CHR 0x0A})"

definition marker_name :: "string \<Rightarrow> (string \<times> string) option" where
  "marker_name s =
     (let name = takeWhile is_name_char (drop 1 s); rest = dropWhile is_name_char (drop 1 s)
      in if starts_with [CHR 0x22] s \<and> name \<noteq> [] \<and> starts_with [CHR 0x22] rest \<and> CHR 0x0A \<notin> set (drop 1 rest)
         then Some (name, drop 1 rest) else None)"

definition line_marker :: "string \<Rightarrow> (string \<times> string \<times> string) option" where
  "line_marker body = (case marker_head body of
     None \<Rightarrow> None
   | Some (head, s) \<Rightarrow> map_option (\<lambda>(name, rest). (head, name, rest)) (marker_name s))"

lemma blanks_append: "blanks s = (a, b) \<Longrightarrow> s = a @ b"
  by (auto simp: blanks_def)

lemma marker_number_append: "marker_number s = Some (a, b) \<Longrightarrow> s = a @ b"
  by (auto simp: marker_number_def blanks_def Let_def split: if_splits)

lemma optional_line_append: "optional_line s = Some (a, b) \<Longrightarrow> s = a @ b"
proof -
  assume h: "optional_line s = Some (a, b)"
  obtain gap r where g: "blanks (drop 4 s) = (gap, r)" by (cases "blanks (drop 4 s)")
  show ?thesis
  proof (cases "starts_with ''line'' s")
    case True
    then obtain t where "s = ''line'' @ t" by (auto simp only: starts_with_iff)
    with h g blanks_append [OF g] show ?thesis by (auto simp: optional_line_def split: if_splits)
  next
    case False
    with h show ?thesis by (simp add: optional_line_def)
  qed
qed

lemma marker_head_append: "marker_head s = Some (a, b) \<Longrightarrow> s = a @ b"
proof -
  assume h: "marker_head s = Some (a, b)"
  obtain gap s2 where g: "blanks (drop 1 s) = (gap, s2)" by (cases "blanks (drop 1 s)")
  from h g have "starts_with ''#'' s" by (auto simp: marker_head_def split: if_splits)
  then obtain t where s: "s = ''#'' @ t" by (auto simp only: starts_with_iff)
  from h g obtain w s3 n where w: "optional_line s2 = Some (w, s3)" "marker_number s3 = Some (n, b)" "a = ''#'' @ gap @ w @ n"
    by (auto simp: marker_head_def split: if_splits option.splits)
  from blanks_append [OF g] s have "t = gap @ s2" by simp
  with s w(3) optional_line_append [OF w(1)] marker_number_append [OF w(2)] show ?thesis by simp
qed

lemma marker_name_append:
  assumes "marker_name s = Some (name, rest)"
  shows "s = CHR 0x22 # name @ CHR 0x22 # rest"
proof -
  let ?r = "dropWhile is_name_char (drop 1 s)"
  from assms have n: "starts_with [CHR 0x22] s" "starts_with [CHR 0x22] ?r"
      "name = takeWhile is_name_char (drop 1 s)" "rest = drop 1 ?r"
    by (simp_all add: marker_name_def Let_def split: if_splits)
  from n(1,2) obtain t u where t: "s = CHR 0x22 # t" "?r = CHR 0x22 # u" by (auto simp: starts_with_iff)
  then have "t = name @ ?r" using n(3) takeWhile_dropWhile_id [of is_name_char t] by simp
  with t n(4) show ?thesis by simp
qed

lemma line_marker_append:
  "line_marker body = Some (head, name, rest) \<Longrightarrow> body = head @ CHR 0x22 # name @ CHR 0x22 # rest"
  by (auto simp: line_marker_def dest!: marker_head_append marker_name_append split: option.splits)

text \<open>
  The lexical state between lines: in code, in a block comment, or in a literal opened by a quote. A
  backslash in a literal hides the next character, a line comment the rest of its line.
\<close>

datatype c_state = Code | Comment | Literal char

fun scan_line :: "c_state \<Rightarrow> string \<Rightarrow> c_state" where
  "scan_line st [] = st"
| "scan_line Comment [c] = Comment"
| "scan_line Comment (c # d # s) =
     (if c = CHR ''*'' \<and> d = CHR ''/'' then scan_line Code s else scan_line Comment (d # s))"
| "scan_line (Literal q) [c] = (if c = q \<and> c \<noteq> CHR 0x5C then Code else Literal q)"
| "scan_line (Literal q) (c # d # s) =
     (if c = CHR 0x5C then scan_line (Literal q) s
      else if c = q then scan_line Code (d # s) else scan_line (Literal q) (d # s))"
| "scan_line Code [c] = (if c = CHR 0x22 \<or> c = CHR 0x27 then Literal c else Code)"
| "scan_line Code (c # d # s) =
     (if c = CHR ''/'' \<and> d = CHR ''/'' then Code
      else if c = CHR ''/'' \<and> d = CHR ''*'' then scan_line Comment s
      else if c = CHR 0x22 \<or> c = CHR 0x27 then scan_line (Literal c) (d # s)
      else scan_line Code (d # s))"

definition line_end :: "string \<Rightarrow> string" where
  "line_end line = (if ends_with [CHR 0x0A] line then [CHR 0x0A] else [])"

definition line_body :: "string \<Rightarrow> string" where
  "line_body line = (if ends_with [CHR 0x0A] line then butlast line else line)"

text \<open>A marker with a relative name is kept, and the loop continues before the lexical state is advanced.\<close>

definition located :: "string \<Rightarrow> bool" where
  "located name = (starts_with ''/'' name \<or> starts_with ''<'' name)"

fun normalize_lines :: "mapper \<Rightarrow> c_state \<Rightarrow> string list \<Rightarrow> string list res" where
  "normalize_lines m st [] = Inr []"
| "normalize_lines m st (line # lines) =
     (case (if st = Code then line_marker (line_body line) else None) of
        None \<Rightarrow> bind_res (normalize_lines m (scan_line st line) lines) (\<lambda>out. Inr (line # out))
      | Some (head, name, rest) \<Rightarrow>
          if \<not> located name then bind_res (normalize_lines m st lines) (\<lambda>out. Inr (line # out))
          else bind_res (map_path m name) (\<lambda>label.
               bind_res (normalize_lines m (scan_line st line) lines) (\<lambda>out.
               Inr ((head @ json_string label @ rest @ line_end line) # out))))"

definition normalize_linemarkers :: "string \<Rightarrow> mapper \<Rightarrow> string res" where
  "normalize_linemarkers text m = bind_res (normalize_lines m Code (keep_lines [] text)) (\<lambda>out. Inr (concat out))"

section \<open>Normalisation keeps the text\<close>

definition located_marker :: "string \<Rightarrow> bool" where
  "located_marker line = (case line_marker (line_body line) of None \<Rightarrow> False | Some (head, name, rest) \<Rightarrow> located name)"

definition relative_marker :: "string \<Rightarrow> bool" where
  "relative_marker line = (case line_marker (line_body line) of None \<Rightarrow> False | Some (head, name, rest) \<Rightarrow> \<not> located name)"

text \<open>The same line with the name of its marker replaced by the label of that name.\<close>

definition relabelled :: "mapper \<Rightarrow> string \<Rightarrow> string \<Rightarrow> bool" where
  "relabelled m line out = (\<exists>head name rest label. map_path m name = Inr label
     \<and> line = head @ CHR 0x22 # name @ CHR 0x22 # rest \<and> out = head @ json_string label @ rest)"

lemma line_body_end: "line = line_body line @ line_end line"
  by (cases line rule: rev_cases) (auto simp: line_body_def line_end_def ends_with_def starts_with_def)

lemma relabelled_line:
  assumes "line_marker (line_body line) = Some (head, name, rest)" and "map_path m name = Inr label"
  shows "relabelled m line (head @ json_string label @ rest @ line_end line)"
proof -
  have "line = head @ CHR 0x22 # name @ CHR 0x22 # rest @ line_end line"
    using line_body_end [of line] line_marker_append [OF assms(1)] by simp
  with assms(2) show ?thesis unfolding relabelled_def by blast
qed

definition line_normalized :: "mapper \<Rightarrow> c_state \<Rightarrow> string \<Rightarrow> string \<Rightarrow> bool" where
  "line_normalized m st line out = (if st = Code \<and> located_marker line then relabelled m line out else out = line)"

lemma normalize_lines_exact:
  assumes "normalize_lines m st lines = Inr outs"
    and "\<forall>line\<in>set lines. relative_marker line \<longrightarrow> scan_line Code line = Code"
  shows "length outs = length lines
     \<and> (\<forall>i<length lines. line_normalized m (foldl scan_line st (take i lines)) (lines ! i) (outs ! i))"
  using assms
proof (induction lines arbitrary: st outs)
  case (Cons line lines)
  have step: "\<exists>out outs'. outs = out # outs' \<and> line_normalized m st line out
      \<and> normalize_lines m (scan_line st line) lines = Inr outs'"
  proof (cases "if st = Code then line_marker (line_body line) else None")
    case None
    with Cons.prems(1) show ?thesis
      by (auto simp: bind_res_Inr line_normalized_def located_marker_def split: if_splits)
  next
    case (Some t)
    obtain head name rest where t: "t = (head, name, rest)" by (cases t)
    with Some have st: "st = Code" and mk: "line_marker (line_body line) = Some (head, name, rest)"
      by (auto split: if_splits)
    show ?thesis
    proof (cases "located name")
      case True
      with Cons.prems(1) Some t obtain label outs' where "map_path m name = Inr label"
          "normalize_lines m (scan_line st line) lines = Inr outs'"
          "outs = (head @ json_string label @ rest @ line_end line) # outs'"
        by (auto simp: bind_res_Inr)
      with relabelled_line [OF mk] st mk True show ?thesis by (simp add: line_normalized_def located_marker_def)
    next
      case False
      then have "scan_line st line = st" using Cons.prems(2) st mk by (simp add: relative_marker_def)
      with False Cons.prems(1) Some t mk show ?thesis
        by (auto simp: bind_res_Inr line_normalized_def located_marker_def)
    qed
  qed
  then obtain out outs' where o: "outs = out # outs'" "line_normalized m st line out"
      "normalize_lines m (scan_line st line) lines = Inr outs'" by blast
  from Cons.IH [OF o(3)] Cons.prems(2) o(1,2) show ?case
    by (auto simp: nth_Cons less_Suc_eq_0_disj split: nat.splits)
qed simp


text \<open>A stream with a marker in code, one in a comment, and code between them.\<close>

definition sample_stream :: string where
  "sample_stream = ''# 1 '' @ [CHR 0x22] @ ''/p/a.c'' @ [CHR 0x22] @ '' 2'' @ [CHR 0x0A] @ ''/*'' @ [CHR 0x0A]
     @ ''# 3 '' @ [CHR 0x22] @ ''/p/b.c'' @ [CHR 0x22] @ [CHR 0x0A] @ ''*/ int x;'' @ [CHR 0x0A]"

definition sample_mapper :: mapper where
  "sample_mapper = \<lparr>mp_roots = [(''project'', ''/p''), (''run'', ''/r'')], mp_aliases = []\<rparr>"

lemma sample_normalized:
  "normalize_linemarkers sample_stream sample_mapper = Inr (''# 1 '' @ [CHR 0x22] @ ''project:a.c'' @ [CHR 0x22] @ '' 2''
     @ [CHR 0x0A] @ ''/*'' @ [CHR 0x0A] @ ''# 3 '' @ [CHR 0x22] @ ''/p/b.c'' @ [CHR 0x22] @ [CHR 0x0A] @ ''*/ int x;'' @ [CHR 0x0A])"
  by code_simp

lemma sample_no_relative: "list_all (\<lambda>line. relative_marker line \<longrightarrow> scan_line Code line = Code) (keep_lines [] sample_stream)"
  by code_simp


text \<open>The excluded case: the comment opened after a relative marker is missed, and a line inside it is rewritten.\<close>

definition relative_stream :: string where
  "relative_stream = ''# 1 '' @ [CHR 0x22] @ ''a.h'' @ [CHR 0x22] @ '' /*'' @ [CHR 0x0A]
     @ ''# 3 '' @ [CHR 0x22] @ ''/p/b.c'' @ [CHR 0x22] @ [CHR 0x0A]"

lemma relative_marker_loses_state:
  "foldl scan_line Code (take 1 (keep_lines [] relative_stream)) = Comment"
  "normalize_linemarkers relative_stream sample_mapper = Inr (''# 1 '' @ [CHR 0x22] @ ''a.h'' @ [CHR 0x22] @ '' /*'' @ [CHR 0x0A]
     @ ''# 3 '' @ [CHR 0x22] @ ''project:b.c'' @ [CHR 0x22] @ [CHR 0x0A])"
  by code_simp+

end
