(* ===== verification/Replay_Compare.thy ===== *)
theory Replay_Compare
  imports Replay_Map
begin

text \<open>
  The comparison of two replay views (\<^verbatim>\<open>fragma/replay.py\<close>): the canonical text and digest of a value, the
  recursive list of differences, the projections of saved rows that enter a view, the resource limits of
  an execution, and \<^verbatim>\<open>compare_replays\<close>, which validates both views and reports a replay as passed only
  when inputs, execution and outcomes have the same digests and the evidence is that of two runs.
\<close>

section \<open>Canonical text, digest, differences\<close>

definition nonfinite :: exn where
  "nonfinite = Exn ValueError ''Out of range float values are not JSON compliant''"

definition canonical :: "host \<Rightarrow> py \<Rightarrow> string res" where
  "canonical h v = (if finite_py v then Inr (json_text h v) else Inl nonfinite)"

definition json_digest :: "host \<Rightarrow> py \<Rightarrow> string res" where
  "json_digest h v = bind_res (canonical h v) (\<lambda>t. Inr (sha256_hex h t))"

lemma canonical_Inr [res_simps]: "canonical h v = Inr t \<longleftrightarrow> finite_py v \<and> t = json_text h v"
  by (auto simp: canonical_def)

lemma json_digest_Inr [res_simps]: "json_digest h v = Inr d \<longleftrightarrow> finite_py v \<and> d = sha256_hex h (json_text h v)"
  by (auto simp: json_digest_def bind_res_Inr canonical_Inr)

datatype difference = Added string | Removed string | Changed string string string

text \<open>A key as a reference token of a JSON pointer.\<close>

definition pointer_token :: "string \<Rightarrow> string" where
  "pointer_token k = replace_all ''/'' ''~1'' (replace_all ''~'' ''~0'' k)"

definition changed_value :: "host \<Rightarrow> string \<Rightarrow> py \<Rightarrow> py \<Rightarrow> difference list res" where
  "changed_value h path l r =
     bind_res (json_digest h l) (\<lambda>a. bind_res (json_digest h r) (\<lambda>b.
     Inr [Changed (if path = [] then ''/'' else path) a b]))"

definition common_keys :: "pydict \<Rightarrow> pydict \<Rightarrow> string list" where
  "common_keys l r = sort (remdups (keys l @ keys r))"

lemma set_common_keys [simp]: "set (common_keys l r) = set (keys l) \<union> set (keys r)"
  by (simp add: common_keys_def)

lemma mapM_cong [fundef_cong]:
  "xs = ys \<Longrightarrow> (\<And>x. x \<in> set ys \<Longrightarrow> f x = g x) \<Longrightarrow> mapM f xs = mapM g ys"
proof (induction ys arbitrary: xs)
  case (Cons y ys)
  then have "mapM f ys = mapM g ys" by simp
  with Cons.prems show ?case by simp
qed simp

lemma entry_size: "map_of d k = Some v \<Longrightarrow> size v < Suc (size_list (size_prod (\<lambda>_. 0) size) d)"
  by (induction d) (auto split: if_splits)

function differences :: "host \<Rightarrow> py \<Rightarrow> py \<Rightarrow> string \<Rightarrow> difference list res" where
  "differences h l r path =
     bind_res (canonical h l) (\<lambda>text_l. bind_res (canonical h r) (\<lambda>text_r.
     if text_l = text_r then Inr []
     else case l of
       PDict a \<Rightarrow> (case r of
         PDict b \<Rightarrow>
           bind_res (mapM (\<lambda>k. case map_of a k of
                None \<Rightarrow> Inr [Added (path @ ''/'' @ pointer_token k)]
              | Some v \<Rightarrow> (case map_of b k of
                    None \<Rightarrow> Inr [Removed (path @ ''/'' @ pointer_token k)]
                  | Some w \<Rightarrow> differences h v w (path @ ''/'' @ pointer_token k))) (common_keys a b))
             (\<lambda>parts. Inr (concat parts))
       | _ \<Rightarrow> changed_value h path l r)
     | _ \<Rightarrow> changed_value h path l r))"
  by pat_completeness auto
termination
  by (relation "measure (\<lambda>(h, l, r, path). size l)") (auto dest: entry_size)

declare differences.simps [simp del]

text \<open>The canonical text of a dictionary lists its entries by sorted key.\<close>

lemma sort_key_map: "(\<And>k. f (g k) = k) \<Longrightarrow> sort_key f (map g ks) = map g (sort ks)"
proof (induction ks)
  case (Cons k ks)
  have "insort_key f (g k) (map g js) = map g (insort k js)" for js
    by (induction js) (simp_all add: Cons.prems)
  with Cons show ?case by simp
qed simp

lemma canon_dict_sorted:
  "distinct (keys d) \<Longrightarrow> sort_key fst (canon_dict d) = map (\<lambda>k. (k, canon (the (map_of d k)))) (sort (keys d))"
proof -
  assume dist: "distinct (keys d)"
  have "canon_dict d = map (\<lambda>k. (k, canon (the (map_of d k)))) (keys d)"
    unfolding canon_dict_map keys_def map_map
    by (rule map_cong) (auto simp: map_of_distinct [OF dist])
  then show ?thesis by (simp add: sort_key_map)
qed

lemma json_entries_map: "json_entries h d = map (\<lambda>(k, v). json_string k @ '':'' @ json_plain h v) d"
  by (induction d) auto

lemma json_text_dict:
  assumes "distinct (keys d)"
  shows "json_text h (PDict d) =
    ''{'' @ join '','' (map (\<lambda>k. json_string k @ '':'' @ json_text h (the (map_of d k))) (sort (keys d))) @ ''}''"
  by (simp add: json_text_def canon_dict_sorted [OF assms] json_entries_map o_def)

lemma json_text_dict_cong:
  assumes "distinct (keys a)" "distinct (keys b)" "set (keys a) = set (keys b)"
    and "\<And>k v w. map_of a k = Some v \<Longrightarrow> map_of b k = Some w \<Longrightarrow> json_text h v = json_text h w"
  shows "json_text h (PDict a) = json_text h (PDict b)"
proof -
  have ks: "sort (keys a) = sort (keys b)"
    using assms(1-3) by (intro sorted_distinct_set_unique) auto
  have "json_text h (the (map_of a k)) = json_text h (the (map_of b k))" if "k \<in> set (keys b)" for k
  proof -
    from that assms(3) have "has_key a k" "has_key b k" by (simp_all add: has_key_iff)
    then obtain v w where "map_of a k = Some v" "map_of b k = Some w" by (auto simp: has_key_def)
    with assms(4) show ?thesis by simp
  qed
  then have "map (\<lambda>k. json_string k @ '':'' @ json_text h (the (map_of a k))) (sort (keys b))
      = map (\<lambda>k. json_string k @ '':'' @ json_text h (the (map_of b k))) (sort (keys b))"
    by (intro map_cong) simp_all
  then show ?thesis by (simp only: json_text_dict assms(1,2) ks)
qed

lemma mapM_members: "mapM f xs = Inr ys \<Longrightarrow> x \<in> set xs \<Longrightarrow> \<exists>y\<in>set ys. f x = Inr y"
  by (induction xs arbitrary: ys) (auto simp: bind_res_Inr)

lemma wf_entry: "wf_dict d \<Longrightarrow> map_of d k = Some v \<Longrightarrow> wf_py v"
  by (induction d) (auto split: if_splits)

lemma differences_nil:
  assumes "wf_py l" "wf_py r" "differences h l r path = Inr ds"
  shows "ds = [] \<longleftrightarrow> json_text h l = json_text h r"
  using assms
proof (induction h l r path arbitrary: ds rule: differences.induct)
  case (1 h l r path)
  show ?case
  proof (cases "json_text h l = json_text h r")
    case True
    with 1(4) show ?thesis by (auto simp: differences.simps [of h l r] bind_res_Inr canonical_Inr)
  next
    case False
    have fin: "finite_py l" "finite_py r" using 1(4) by (auto simp: differences.simps [of h l r] bind_res_Inr canonical_Inr)
    show ?thesis
    proof (cases "\<exists>a b. l = PDict a \<and> r = PDict b")
      case no_dicts: False
      with 1(4) False fin have "changed_value h path l r = Inr ds"
        by (auto simp: differences.simps [of h l r] bind_res_Inr canonical_Inr split: py.splits)
      with False show ?thesis by (auto simp: changed_value_def bind_res_Inr)
    next
      case True
      then obtain a b where ab: "l = PDict a" "r = PDict b" by blast
      let ?f = "\<lambda>k. case map_of a k of None \<Rightarrow> Inr [Added (path @ ''/'' @ pointer_token k)]
              | Some v \<Rightarrow> (case map_of b k of None \<Rightarrow> Inr [Removed (path @ ''/'' @ pointer_token k)]
                  | Some w \<Rightarrow> differences h v w (path @ ''/'' @ pointer_token k))"
      from 1(4) False fin ab obtain parts where parts: "mapM ?f (common_keys a b) = Inr parts" "ds = concat parts"
        by (auto simp: differences.simps [of h "PDict a" "PDict b"] bind_res_Inr canonical_Inr)
      have wf: "distinct (keys a)" "distinct (keys b)" "wf_dict a" "wf_dict b" using 1(2,3) ab by auto
      have "ds \<noteq> []"
      proof
        assume "ds = []"
        with parts(2) have "concat parts = []" by simp
        then have nil: "\<forall>p\<in>set parts. p = []" by (simp only: concat_eq_Nil_conv)
        have entry: "?f k = Inr []" if "k \<in> set (keys a) \<union> set (keys b)" for k
          using mapM_members [OF parts(1), of k] nil that by auto
        have "set (keys a) = set (keys b)"
        proof (rule ccontr)
          assume "set (keys a) \<noteq> set (keys b)"
          then obtain k where "k \<in> set (keys a) \<union> set (keys b)" "\<not> has_key a k \<or> \<not> has_key b k"
            by (auto simp: has_key_iff)
          with entry [OF this(1)] show False by (auto simp: has_key_def split: option.splits)
        qed
        moreover have "json_text h v = json_text h w" if v: "map_of a k = Some v" and w: "map_of b k = Some w" for k v w
        proof -
          have "has_key a k" using v by (simp add: has_key_def)
          then have k: "k \<in> set (keys a)" by (simp add: has_key_iff)
          with entry [of k] v w have d: "differences h v w (path @ ''/'' @ pointer_token k) = Inr []" by simp
          have "([] :: difference list) = [] \<longleftrightarrow> json_text h v = json_text h w"
            by (rule 1(1) [OF _ _ _ ab _ v w _ _ d])
              (use fin False k wf wf_entry [OF _ v] wf_entry [OF _ w] in \<open>simp_all add: canonical_Inr\<close>)
          then show ?thesis by simp
        qed
        ultimately have "json_text h l = json_text h r" unfolding ab using wf(1,2) by (intro json_text_dict_cong)
        with False show False by simp
      qed
      with False show ?thesis by simp
    qed
  qed
qed

section \<open>Projections of saved rows\<close>

definition pick :: "py \<Rightarrow> string list \<Rightarrow> pydict res" where
  "pick row ks = mapM (\<lambda>k. bind_res (pindex row k) (\<lambda>v. Inr (k, v))) ks"

definition goal_view :: "mapper \<Rightarrow> py \<Rightarrow> py res" where
  "goal_view m row =
     bind_res (pick row [''goal'', ''property'', ''line'', ''function'', ''smoke'', ''passed'', ''verdict'', ''outcome'']) (\<lambda>d.
     bind_res (pindex row ''path'') (\<lambda>p. bind_res (map_path_value m p) (\<lambda>label.
     Inr (PDict (d @ [(''path'', PStr label)])))))"

definition property_view :: "mapper \<Rightarrow> py \<Rightarrow> py res" where
  "property_view m row =
     bind_res (pick row [''line'', ''function'', ''kind'', ''status'', ''outcome'', ''property'', ''names'']) (\<lambda>d.
     bind_res (pindex row ''path'') (\<lambda>p. bind_res (map_path_value m p) (\<lambda>label.
     bind_res (pget_or row ''exported_identity_ambiguous'' (PBool False)) (\<lambda>ambiguous.
     Inr (PDict (d @ [(''path'', PStr label), (''exported_identity_ambiguous'', ambiguous)]))))))"

definition WARNING_FIELDS :: "string list" where
  "WARNING_FIELDS = [''plugin'', ''severity'', ''message'', ''path'', ''file'', ''line'', ''function'', ''log_line'', ''raw_lines'']"

text \<open>An excerpt that names the file of the warning names its label instead.\<close>

definition relabel_excerpt :: "(string \<times> string) option \<Rightarrow> string \<Rightarrow> string" where
  "relabel_excerpt located_at line = (case located_at of
     None \<Rightarrow> line
   | Some (path, label) \<Rightarrow> if starts_with (path @ '':'') line then label @ drop (length path) line else line)"

definition warning_path :: "mapper \<Rightarrow> pydict \<Rightarrow> (string \<times> string) option res" where
  "warning_path m d =
     (let path = dget_or d ''path'' (dget d ''file'') in
      if truthy path then bind_res (map_path_value m path) (\<lambda>label.
        bind_res (need_str path) (\<lambda>p. Inr (Some (p, label))))
      else Inr None)"

definition warning_view :: "mapper \<Rightarrow> py \<Rightarrow> py res" where
  "warning_view m row = (case row of
     PDict d \<Rightarrow>
       bind_res (require (is_str (dget d ''message'')) ''unstructured warning cannot be compared'') (\<lambda>_.
       bind_res (require (list_all (\<lambda>k. k \<in> set WARNING_FIELDS) (keys d)) ''unknown warning fields'') (\<lambda>_.
       bind_res (warning_path m d) (\<lambda>located_at.
       bind_res (case as_strs (dget_or d ''raw_lines'' (PList [])) of
                   None \<Rightarrow> Inl (replay_error ''invalid warning source excerpts'') | Some raw \<Rightarrow> Inr raw) (\<lambda>raw.
       Inr (PDict (List.map_filter (\<lambda>k. map_option (Pair k) (map_of d k)) [''plugin'', ''severity'', ''message'', ''line'', ''function'']
         @ (case located_at of None \<Rightarrow> [] | Some (path, label) \<Rightarrow> [(''path'', PStr label)])
         @ [(''raw_lines'', PList (map (\<lambda>line. PStr (relabel_excerpt located_at line)) raw))]))))))
   | _ \<Rightarrow> Inl (replay_error ''unstructured warning cannot be compared''))"

definition sorted_rows :: "host \<Rightarrow> py list \<Rightarrow> py list res" where
  "sorted_rows h rows = bind_res (mapM (\<lambda>r. bind_res (canonical h r) (\<lambda>t. Inr (t, r))) rows) (\<lambda>keyed.
     Inr (map snd (sort_key fst keyed)))"

section \<open>Resource limits of an execution\<close>

definition LEGACY_WALL_RUNNERS :: "string list" where
  "LEGACY_WALL_RUNNERS = [''8656fc0bf8096fcca6486561e93615b3f7f454961b1a7f94946e50fa6d42b4d4'']"

text \<open>\<^verbatim>\<open>re.fullmatch(r"[1-9][0-9]*", value)\<close>\<close>

definition is_positive_decimal :: "string \<Rightarrow> bool" where
  "is_positive_decimal s = (s \<noteq> [] \<and> list_all is_digit s \<and> hd s \<noteq> CHR ''0'')"

definition limit_argument :: "py \<Rightarrow> string \<Rightarrow> int res" where
  "limit_argument argv_value option = bind_res (need_list argv_value) (\<lambda>argv.
     (case filter (\<lambda>i. argv ! i = PStr option) [0..<length argv] of
        [i] \<Rightarrow> if i + 1 < length argv then
                 bind_res (need_str (argv ! (i + 1))) (\<lambda>value.
                 bind_res (require (is_positive_decimal value) ''invalid command resource limit'') (\<lambda>_.
                 Inr (int (str_nat value))))
               else Inl (replay_error ''missing or duplicate resource flag'')
      | _ \<Rightarrow> Inl (replay_error ''missing or duplicate resource flag'')))"

definition target_analysis :: "pydict \<Rightarrow> py res" where
  "target_analysis evidence = bind_res (ditem evidence ''target'') (\<lambda>target. pindex target ''analysis'')"

definition LIMIT_FIELDS :: "string list" where
  "LIMIT_FIELDS = [''wall_timeout_seconds'', ''solver_timeout_seconds'', ''jobs'']"

definition limit_of :: "pydict \<Rightarrow> string \<Rightarrow> int" where
  "limit_of limits k = (case dget limits k of PInt n \<Rightarrow> n | _ \<Rightarrow> 0)"

definition check_limits :: "py \<Rightarrow> pydict \<Rightarrow> pydict \<Rightarrow> pydict \<Rightarrow> unit res" where
  "check_limits argv evidence summary limits =
     bind_res (require (set (keys limits) = set LIMIT_FIELDS) ''unsupported analysis limit schema'') (\<lambda>_.
     bind_res (require (list_all (\<lambda>(k, v). is_int v \<and> limit_of limits k > 0) limits) ''analysis limits must be positive integers'') (\<lambda>_.
     bind_res (require (limit_of limits ''wall_timeout_seconds'' \<le> 86400 \<and> limit_of limits ''solver_timeout_seconds'' \<le> 3600
                        \<and> limit_of limits ''jobs'' \<le> 256) ''analysis resource limits out of range'') (\<lambda>_.
     bind_res (require (py_eq (dget summary ''analysis_limits'') (PDict limits)) ''summary/target analysis limits disagree'') (\<lambda>_.
     bind_res (target_analysis evidence) (\<lambda>analysis.
     if analysis = PStr ''wp'' then
       bind_res (limit_argument argv ''-wp-timeout'') (\<lambda>timeout.
       bind_res (require (limit_of limits ''solver_timeout_seconds'' = timeout) ''recorded limits disagree with actual command'') (\<lambda>_.
       bind_res (limit_argument argv ''-wp-par'') (\<lambda>jobs.
       require (limit_of limits ''jobs'' = jobs) ''recorded limits disagree with actual command'')))
     else Inr ())))))"

definition legacy_limits :: "py \<Rightarrow> (py \<times> string) res" where
  "legacy_limits argv =
     bind_res (limit_argument argv ''-wp-timeout'') (\<lambda>timeout.
     bind_res (limit_argument argv ''-wp-par'') (\<lambda>jobs.
     Inr (PDict [(''wall_timeout_seconds'', PInt (max 180 (timeout * 60))), (''solver_timeout_seconds'', PInt timeout),
                 (''jobs'', PInt jobs)], ''derived-from-pinned-legacy-runner'')))"

definition analysis_limits :: "pydict \<Rightarrow> pydict \<Rightarrow> receipt list \<Rightarrow> string \<Rightarrow> (py \<times> string) res" where
  "analysis_limits evidence summary shared project =
     bind_res (ditem evidence ''analysis_command'') (\<lambda>command.
     bind_res (pindex command ''argv'') (\<lambda>argv.
     if has_key evidence ''analysis_limits'' then
       (case dget evidence ''analysis_limits'' of
          PDict limits \<Rightarrow> bind_res (check_limits argv evidence summary limits) (\<lambda>_. Inr (PDict limits, ''recorded''))
        | _ \<Rightarrow> Inl (replay_error ''unsupported analysis limit schema''))
     else if (case map_of shared (path_join project ''fragma/suite.py'') of None \<Rightarrow> False | Some r \<Rightarrow> r \<in> set LEGACY_WALL_RUNNERS)
     then bind_res (target_analysis evidence) (\<lambda>analysis.
            if analysis = PStr ''wp'' then legacy_limits argv else Inr (PNone, ''unavailable-in-legacy-receipt''))
     else Inr (PNone, ''unavailable-in-legacy-receipt'')))"

section \<open>Outcome, tool and profile identities\<close>

text \<open>\<^verbatim>\<open>v.items()\<close>, \<^verbatim>\<open>{key: value for key, value in v.items() if key != k}\<close>, \<^verbatim>\<open>{**a, **b}\<close>\<close>

definition entries_of :: "py \<Rightarrow> pydict res" where
  "entries_of v = (case v of PDict d \<Rightarrow> Inr d | _ \<Rightarrow> Inl (Exn AttributeError ''items''))"

definition omit_key :: "string \<Rightarrow> pydict \<Rightarrow> pydict" where
  "omit_key k d = filter (\<lambda>(k', v). k' \<noteq> k) d"

definition merge_entries :: "pydict \<Rightarrow> pydict \<Rightarrow> pydict" where
  "merge_entries a b = foldl (\<lambda>d (k, v). dset d k v) a b"

definition map_rows :: "(py \<Rightarrow> py res) \<Rightarrow> py \<Rightarrow> py list res" where
  "map_rows f v = bind_res (items_of v) (mapM f)"

definition OUTCOME_FIELDS :: "string list" where
  "OUTCOME_FIELDS = [''issues'', ''unresolved_dependencies'', ''dependency_report_omissions'', ''trusted_dependencies'',
     ''confirmed_invalid_properties'', ''native_invalid_properties'', ''reviewed_unreachable_properties'',
     ''required_companion'', ''companion_evidence'', ''review_context'']"

definition outcome_field :: "mapper \<Rightarrow> pydict \<Rightarrow> string \<Rightarrow> (string \<times> py) res" where
  "outcome_field m evaluation k =
     bind_res (map_metadata m None (dget_or evaluation k (if k = ''native_invalid_properties'' then PList [] else PNone)))
       (\<lambda>v. Inr (k, v))"

definition reviewed_smoke_view :: "mapper \<Rightarrow> py \<Rightarrow> py res" where
  "reviewed_smoke_view m row =
     bind_res (pindex row ''goal_record'') (\<lambda>g. bind_res (goal_view m g) (\<lambda>goal.
     bind_res (entries_of row) (\<lambda>d.
     bind_res (map_metadata m None (PDict (omit_key ''goal_record'' d))) (\<lambda>rest.
     bind_res (entries_of rest) (\<lambda>others.
     Inr (PDict (merge_entries [(''goal_record'', goal)] others)))))))"

definition reviewed_warning_view :: "mapper \<Rightarrow> py \<Rightarrow> py res" where
  "reviewed_warning_view m row =
     bind_res (pindex row ''warning'') (\<lambda>w. bind_res (warning_view m w) (\<lambda>warning.
     bind_res (pindex row ''review'') (\<lambda>r. bind_res (map_metadata m None r) (\<lambda>review.
     Inr (PDict [(''warning'', warning), (''review'', review)])))))"

definition check_verdict_fields :: "pydict \<Rightarrow> pydict \<Rightarrow> unit res" where
  "check_verdict_fields evidence evaluation =
     bind_res (require (list_all (\<lambda>k. is_bool (dget evaluation k)) [''accepted'', ''verified'', ''local_policy_passed''])
       ''evaluation has a non-Boolean verdict'') (\<lambda>_.
     require (dget evidence ''accepted'' = dget evaluation ''accepted''
              \<and> py_eq (dget evidence ''status'') (dget evaluation ''status'')) ''target/evaluation verdicts disagree'')"

definition view_rows :: "host \<Rightarrow> (py \<Rightarrow> py res) \<Rightarrow> py \<Rightarrow> py res" where
  "view_rows h f v = bind_res (map_rows f v) (\<lambda>rows. bind_res (sorted_rows h rows) (\<lambda>sorted. Inr (PList sorted)))"

definition outcome_view :: "host \<Rightarrow> mapper \<Rightarrow> pydict \<Rightarrow> py res" where
  "outcome_view h m evidence =
     bind_res (ditem evidence ''evaluation'') (\<lambda>e.
     bind_res (case e of PDict d \<Rightarrow> Inr d | _ \<Rightarrow> Inl (Exn AttributeError ''get'')) (\<lambda>evaluation.
     bind_res (check_verdict_fields evidence evaluation) (\<lambda>_.
     bind_res (ditem evaluation ''status'') (\<lambda>status.
     bind_res (bind_res (ditem evidence ''goals'') (view_rows h (goal_view m))) (\<lambda>goals.
     bind_res (bind_res (ditem evidence ''properties'') (view_rows h (property_view m))) (\<lambda>properties.
     bind_res (bind_res (ditem evidence ''warnings'') (view_rows h (warning_view m))) (\<lambda>warnings.
     bind_res (entries_of (dget_or evaluation ''smoke'' (PDict []))) (\<lambda>smoke.
     bind_res (mapM (outcome_field m evaluation) OUTCOME_FIELDS) (\<lambda>rest.
     bind_res (view_rows h (property_view m) (dget_or evaluation ''unselected_property_ambiguities'' (PList []))) (\<lambda>unselected.
     bind_res (map_rows (reviewed_smoke_view m) (dget_or evaluation ''reviewed_smoke'' (PList []))) (\<lambda>reviewed_smoke.
     bind_res (map_rows (reviewed_warning_view m) (dget_or evaluation ''reviewed_warnings'' (PList []))) (\<lambda>reviewed_warnings.
     Inr (PDict ([(''status'', status), (''accepted'', dget evaluation ''accepted''),
        (''verified'', dget evaluation ''verified''), (''local_policy_passed'', dget evaluation ''local_policy_passed''),
        (''goals'', goals), (''properties'', properties), (''warnings'', warnings),
        (''smoke'', PDict (omit_key ''goals'' smoke))] @ rest
        @ [(''unselected_property_ambiguities'', unselected), (''reviewed_smoke'', PList reviewed_smoke),
           (''reviewed_warnings'', PList reviewed_warnings)]))))))))))))))"

definition without_output :: "py \<Rightarrow> py res" where
  "without_output row = bind_res (entries_of row) (\<lambda>d. Inr (PDict (omit_key ''output'' d)))"

definition tool_identity :: "mapper \<Rightarrow> pydict \<Rightarrow> py res" where
  "tool_identity m tools =
     bind_res (require (dget tools ''schema_version'' = PInt 1) ''unsupported toolchain receipt schema'') (\<lambda>_.
     bind_res (require (dget tools ''ok'' = PBool True \<and> dget tools ''issues'' = PList []) ''toolchain preflight did not pass'') (\<lambda>_.
     bind_res (require (case dget tools ''lock_sha256'' of PStr s \<Rightarrow> is_hex 64 s | _ \<Rightarrow> False) ''toolchain lock hash missing'') (\<lambda>_.
     bind_res (ditem tools ''runtime_receipt'') (\<lambda>runtime.
     bind_res (pindex runtime ''linker_commands'') (\<lambda>linker.
     bind_res (map_rows without_output linker) (\<lambda>commands.
     bind_res (entries_of runtime) (\<lambda>receipt.
     bind_res (ditem tools ''tools'') (\<lambda>named. bind_res (entries_of named) (\<lambda>rows.
     bind_res (mapM (\<lambda>(name, row). bind_res (without_output row) (\<lambda>r. Inr (name, r))) rows) (\<lambda>stripped.
     map_metadata m None (PDict (dset (dset tools ''runtime_receipt'' (PDict (dset receipt ''linker_commands'' (PList commands))))
        ''tools'' (PDict stripped)))))))))))))"

definition PROFILE_FIELDS :: "string list" where
  "PROFILE_FIELDS = [''profile_id'', ''profile_sha256'', ''kernel_revision'', ''compiler'', ''frama_c'', ''generator'',
     ''generator_headers'', ''header_hashes'', ''exported_header_inputs'', ''fixture_sha256'', ''build'', ''analysis'',
     ''execution_environment'']"

definition rows_all_passed :: "py \<Rightarrow> bool res" where
  "rows_all_passed v = bind_res (items_of v) (\<lambda>rows.
     foldM (\<lambda>ok row. if ok then bind_res (pget row ''status'') (\<lambda>s. Inr (s = PStr ''passed'')) else Inr False) True rows)"

definition profile_identity :: "mapper \<Rightarrow> pydict \<Rightarrow> py res" where
  "profile_identity m model =
     bind_res (require (dget model ''schema_version'' = PInt 1) ''unsupported profile receipt schema'') (\<lambda>_.
     bind_res (require (dget model ''status'' = PStr ''passed'' \<and> dget model ''level'' = PStr ''L1'') ''configured L1 evidence required'') (\<lambda>_.
     bind_res (if truthy (dget model ''checks'') then rows_all_passed (dget model ''checks'') else Inr False) (\<lambda>ok.
     bind_res (require ok ''profile checks incomplete'') (\<lambda>_.
     bind_res (ditem model ''machdep'') (\<lambda>machdep. bind_res (pick machdep [''sha256'', ''checked_fields'']) (\<lambda>machine.
     bind_res (ditem model ''build'') (\<lambda>b. bind_res (entries_of b) (\<lambda>build.
     bind_res (ditem build ''calibration'') (\<lambda>calibration. bind_res (pindex calibration ''input_hashes'') (\<lambda>input_hashes.
     bind_res (ditem model ''execution_environment'') (\<lambda>e. bind_res (entries_of e) (\<lambda>environment.
     map_metadata m None (PDict (dset (dset (dset (dset (map (\<lambda>k. (k, dget model k)) PROFILE_FIELDS)
        ''machdep'' (PDict machine)) ''build'' (PDict (omit_key ''calibration'' build)))
        ''configured_calibration_inputs'' input_hashes)
        ''execution_environment'' (PDict (omit_key ''source'' environment))))))))))))))))"

section \<open>Comparing two views\<close>

text \<open>
  \<^verbatim>\<open>set(v)\<close> of a value of any type, as the list of its members, which must be hashable; members that
  are equal for Python are one.
\<close>

definition id_set :: "py \<Rightarrow> py list res" where
  "id_set v = bind_res (items_of v) (\<lambda>vs.
     if list_ex (\<lambda>x. is_list x \<or> is_dict x) vs then Inl (Exn TypeError ''unhashable type'') else Inr vs)"

fun py_distinct :: "py list \<Rightarrow> bool" where
  "py_distinct [] = True"
| "py_distinct (x # xs) = (\<not> list_ex (py_eq x) xs \<and> py_distinct xs)"

definition same_ids :: "py list \<Rightarrow> py list \<Rightarrow> bool" where
  "same_ids xs ys = (list_all (\<lambda>x. list_ex (py_eq x) ys) xs \<and> list_all (\<lambda>y. list_ex (\<lambda>x. py_eq x y) xs) ys)"

definition check_digest :: "host \<Rightarrow> pydict \<Rightarrow> string \<Rightarrow> string \<Rightarrow> unit res" where
  "check_digest h view field identity =
     bind_res (ditem view field) (\<lambda>x. bind_res (json_digest h x) (\<lambda>d.
     require (dget view identity = PStr d) ''replay view digest mismatch''))"

definition view_status :: "pydict \<Rightarrow> string" where
  "view_status view = (if dget view ''accepted'' = PBool True then ''passed'' else ''incomplete'')"

definition check_outcome_header :: "pydict \<Rightarrow> unit res" where
  "check_outcome_header view =
     bind_res (ditem view ''outcomes'') (\<lambda>outcomes.
     bind_res (pget outcomes ''accepted'') (\<lambda>accepted.
     bind_res (require (accepted = dget view ''accepted'') ''view/outcome acceptance differs'') (\<lambda>_.
     bind_res (pget outcomes ''status'') (\<lambda>status.
     require (status = PStr (view_status view)) ''view/outcome status differs''))))"

definition check_view_targets :: "pydict \<Rightarrow> unit res" where
  "check_view_targets view =
     bind_res (ditem view ''inputs'') (\<lambda>inputs. bind_res (pget inputs ''targets'') (\<lambda>targets.
     bind_res (case targets of
          PList (t # ts) \<Rightarrow> bind_res (id_set targets) (\<lambda>ids. require (py_distinct ids) ''empty or duplicate replay target selection'')
        | _ \<Rightarrow> Inl (replay_error ''empty or duplicate replay target selection'')) (\<lambda>_.
     bind_res (id_set targets) (\<lambda>ids.
     bind_res (ditem view ''outcomes'') (\<lambda>outcomes. bind_res (pindex outcomes ''targets'') (\<lambda>ts.
     bind_res (id_set ts) (\<lambda>outcome_ids.
     bind_res (require (same_ids ids outcome_ids) ''replay target identity inventory differs'') (\<lambda>_.
     bind_res (ditem view ''execution'') (\<lambda>execution. bind_res (id_set execution) (\<lambda>execution_ids.
     require (same_ids outcome_ids execution_ids) ''replay target identity inventory differs''))))))))))"

definition INSTANCE_FIELDS :: "string list" where
  "INSTANCE_FIELDS = [''directory'', ''started_at'', ''completed_at'', ''summary_sha256'']"

definition check_instance :: "host \<Rightarrow> pydict \<Rightarrow> unit res" where
  "check_instance h view =
     bind_res (require (truthy (dget view ''artifacts'')) ''replay artifact inventory digest differs'') (\<lambda>_.
     bind_res (check_digest h view ''artifacts'' ''evidence_id'') (\<lambda>_.
     (case dget view ''run_instance'' of
        PDict instance \<Rightarrow>
          bind_res (require (set (keys instance) = set INSTANCE_FIELDS) ''invalid observed execution identity'') (\<lambda>_.
          (case dget instance ''directory'' of
             PStr directory \<Rightarrow>
               bind_res (require (is_absolute directory) ''observed run directory is not absolute'') (\<lambda>_.
               bind_res (pget (dget view ''artifacts'') (path_join directory ''summary.json'')) (\<lambda>recorded.
               require (py_eq recorded (dget instance ''summary_sha256'')) ''run identity does not bind its actual summary artifact''))
           | _ \<Rightarrow> Inl (replay_error ''observed run directory is not absolute'')))
      | _ \<Rightarrow> Inl (replay_error ''invalid observed execution identity''))))"

definition check_view :: "host \<Rightarrow> pydict \<Rightarrow> unit res" where
  "check_view h view =
     bind_res (require (dget view ''schema_version'' = PInt 1 \<and> dget view ''policy'' = PStr ''fragma-replay-v1''
        \<and> dget view ''status'' = PStr ''comparable'') ''invalid replay view'') (\<lambda>_.
     bind_res (require (is_bool (dget view ''accepted'')) ''replay acceptance must be Boolean'') (\<lambda>_.
     bind_res (check_digest h view ''inputs'' ''input_id'') (\<lambda>_.
     bind_res (check_digest h view ''execution'' ''execution_id'') (\<lambda>_.
     bind_res (check_digest h view ''outcomes'' ''outcome_id'') (\<lambda>_.
     bind_res (check_outcome_header view) (\<lambda>_.
     bind_res (check_view_targets view) (\<lambda>_. check_instance h view)))))))"

text \<open>Whether every execution of a view recorded its limits; rows are read until one has none.\<close>

definition limits_recorded :: "pydict \<Rightarrow> bool res" where
  "limits_recorded view =
     bind_res (ditem view ''execution'') (\<lambda>execution.
     bind_res (case execution of PDict d \<Rightarrow> Inr (map snd d) | _ \<Rightarrow> Inl (Exn AttributeError ''values'')) (\<lambda>rows.
     foldM (\<lambda>ok row. if ok then bind_res (pget row ''analysis_limits'') (\<lambda>l. Inr (l \<noteq> PNone)) else Inr False) True rows))"

definition limits_known :: "pydict \<Rightarrow> pydict \<Rightarrow> bool res" where
  "limits_known l r = bind_res (limits_recorded l) (\<lambda>ok. if ok then limits_recorded r else Inr False)"

definition run_field :: "pydict \<Rightarrow> string \<Rightarrow> py" where
  "run_field view k = (case dget view ''run_instance'' of PDict d \<Rightarrow> dget d k | _ \<Rightarrow> PNone)"

definition distinct_runs :: "pydict \<Rightarrow> pydict \<Rightarrow> bool" where
  "distinct_runs l r =
     (\<not> py_eq (run_field l ''directory'') (run_field r ''directory'')
      \<and> \<not> py_eq (run_field l ''summary_sha256'') (run_field r ''summary_sha256'')
      \<and> \<not> (py_eq (run_field l ''started_at'') (run_field r ''started_at'')
            \<and> py_eq (run_field l ''completed_at'') (run_field r ''completed_at''))
      \<and> \<not> py_eq (dget l ''evidence_id'') (dget r ''evidence_id''))"

text \<open>\<^verbatim>\<open>v.get(i, {})\<close> for a member of a target list, which is no key unless it is a text.\<close>

definition pget_id :: "py \<Rightarrow> py \<Rightarrow> py res" where
  "pget_id v i = (case v of
     PDict d \<Rightarrow> Inr (case i of PStr s \<Rightarrow> dget_or d s (PDict []) | _ \<Rightarrow> PDict [])
   | _ \<Rightarrow> Inl (Exn AttributeError ''get''))"

text \<open>The analysis policy a view reports for each of its targets.\<close>

definition policy_of :: "py \<Rightarrow> py \<Rightarrow> (py \<times> py) res" where
  "policy_of inputs identifier =
     bind_res (pget_or inputs ''identities'' (PDict [])) (\<lambda>identities.
     bind_res (pget_id identities identifier) (\<lambda>row.
     bind_res (pget_or row ''analysis_policy'' (PDict [])) (\<lambda>policy.
     bind_res (pget_or policy ''status'' (PStr ''unavailable'')) (\<lambda>status. Inr (identifier, status)))))"

definition policy_scope :: "pydict \<Rightarrow> (py \<times> py) list res" where
  "policy_scope view =
     bind_res (ditem view ''inputs'') (\<lambda>inputs. bind_res (pindex inputs ''targets'') (\<lambda>targets.
     bind_res (items_of targets) (\<lambda>ids. mapM (policy_of inputs) ids)))"

definition field_differences :: "host \<Rightarrow> pydict \<Rightarrow> pydict \<Rightarrow> string \<Rightarrow> difference list res" where
  "field_differences h l r k =
     bind_res (ditem l k) (\<lambda>x. bind_res (ditem r k) (\<lambda>y. differences h x y []))"

record comparison =
  cp_status :: string
  cp_passed :: bool
  cp_inputs_equal :: bool
  cp_execution_equal :: bool
  cp_outcomes_equal :: bool
  cp_both_accepted :: bool
  cp_limits_known :: bool
  cp_distinct :: bool
  cp_scopes :: "(py \<times> py) list \<times> (py \<times> py) list"
  cp_current_policy :: bool
  cp_input_diffs :: "difference list"
  cp_execution_diffs :: "difference list"
  cp_outcome_diffs :: "difference list"

definition replay_status :: "bool \<Rightarrow> bool \<Rightarrow> bool \<Rightarrow> bool \<Rightarrow> bool \<Rightarrow> bool \<Rightarrow> string" where
  "replay_status passed inputs execution outcomes limits separate =
     (if \<not> separate then ''same-evidence'' else if passed then ''replay-passed''
      else if \<not> inputs then ''inputs-changed'' else if \<not> execution then ''execution-changed''
      else if \<not> outcomes then ''outcomes-changed'' else if \<not> limits then ''execution-limits-unavailable''
      else ''matching-incomplete'')"

definition compare_replays :: "host \<Rightarrow> pydict \<Rightarrow> pydict \<Rightarrow> comparison res" where
  "compare_replays h l r =
     bind_res (check_view h l) (\<lambda>_. bind_res (check_view h r) (\<lambda>_.
     bind_res (limits_known l r) (\<lambda>limits.
     bind_res (policy_scope l) (\<lambda>scope_l. bind_res (policy_scope r) (\<lambda>scope_r.
     bind_res (field_differences h l r ''inputs'') (\<lambda>input_diffs.
     bind_res (field_differences h l r ''execution'') (\<lambda>execution_diffs.
     bind_res (field_differences h l r ''outcomes'') (\<lambda>outcome_diffs.
     (let inputs = py_eq (dget l ''input_id'') (dget r ''input_id'');
          execution = py_eq (dget l ''execution_id'') (dget r ''execution_id'');
          outcomes = py_eq (dget l ''outcome_id'') (dget r ''outcome_id'');
          accepted = (dget l ''accepted'' = PBool True \<and> dget r ''accepted'' = PBool True);
          separate = distinct_runs l r;
          passed = (inputs \<and> execution \<and> outcomes \<and> accepted \<and> limits \<and> separate)
      in Inr \<lparr>cp_status = replay_status passed inputs execution outcomes limits separate, cp_passed = passed,
           cp_inputs_equal = inputs, cp_execution_equal = execution, cp_outcomes_equal = outcomes,
           cp_both_accepted = accepted, cp_limits_known = limits, cp_distinct = separate,
           cp_scopes = (scope_l, scope_r),
           cp_current_policy = list_all (\<lambda>(i, s). s = PStr ''checked'') (scope_l @ scope_r),
           cp_input_diffs = input_diffs, cp_execution_diffs = execution_diffs,
           cp_outcome_diffs = outcome_diffs\<rparr>)))))))))"

section \<open>What a passed replay means\<close>

definition collision :: "host \<Rightarrow> bool" where
  "collision h = (\<exists>s t. s \<noteq> t \<and> sha256_hex h s = sha256_hex h t)"

lemma check_digest_Inr:
  "check_digest h view field identity = Inr u \<longleftrightarrow>
     (\<exists>x. map_of view field = Some x \<and> finite_py x \<and> dget view identity = PStr (sha256_hex h (json_text h x)))"
  by (auto simp: check_digest_def bind_res_Inr ditem_Inr json_digest_Inr check_iff)

lemma check_view_Inr:
  assumes "check_view h view = Inr u"
  obtains x e y where "map_of view ''inputs'' = Some x" "dget view ''input_id'' = PStr (sha256_hex h (json_text h x))"
    "map_of view ''execution'' = Some e" "dget view ''execution_id'' = PStr (sha256_hex h (json_text h e))"
    "map_of view ''outcomes'' = Some y" "dget view ''outcome_id'' = PStr (sha256_hex h (json_text h y))"
  using assms unfolding check_view_def bind_res_Inr check_digest_Inr
  by (elim exE conjE) (rule that)

lemma field_differences_nil:
  assumes "field_differences h l r k = Inr ds" and "wf_dict l" "wf_dict r"
    and "map_of l k = Some x" "map_of r k = Some y"
    and "sha256_hex h (json_text h x) = sha256_hex h (json_text h y)" and "\<not> collision h"
  shows "ds = []"
proof -
  from assms(1,4,5) have d: "differences h x y [] = Inr ds"
    by (auto simp: field_differences_def bind_res_Inr ditem_Inr)
  have wf: "wf_py x" "wf_py y" using wf_entry assms(2-5) by blast+
  have "json_text h x = json_text h y" using assms(6,7) by (auto simp: collision_def)
  then show ?thesis using differences_nil [OF wf d] by simp
qed

definition all_limited :: "pydict \<Rightarrow> bool" where
  "all_limited view = (case dget view ''execution'' of
     PDict d \<Rightarrow> list_all (\<lambda>(k, row). case row of PDict e \<Rightarrow> dget e ''analysis_limits'' \<noteq> PNone | _ \<Rightarrow> False) d
   | _ \<Rightarrow> False)"

lemma limits_loop:
  "foldM (\<lambda>ok row. if ok then bind_res (pget row ''analysis_limits'') (\<lambda>l. Inr (l \<noteq> PNone)) else Inr False) b rows = Inr True
    \<longleftrightarrow> b \<and> list_all (\<lambda>row. case row of PDict e \<Rightarrow> dget e ''analysis_limits'' \<noteq> PNone | _ \<Rightarrow> False) rows"
proof (induction rows arbitrary: b)
  case (Cons row rows)
  then show ?case by (cases row; cases b) (auto simp: pget_def)
qed simp

lemma limits_recorded_True:
  assumes "limits_recorded view = Inr True"
  shows "all_limited view"
proof -
  from assms obtain v where v: "map_of view ''execution'' = Some v" by (auto simp: limits_recorded_def bind_res_Inr ditem_Inr)
  with assms obtain d where d: "v = PDict d"
    by (cases v) (auto simp: limits_recorded_def ditem_def)
  from assms v d have "list_all (\<lambda>row. case row of PDict e \<Rightarrow> dget e ''analysis_limits'' \<noteq> PNone | _ \<Rightarrow> False) (map snd d)"
    by (simp add: limits_recorded_def ditem_def limits_loop)
  moreover have "dget view ''execution'' = PDict d" by (simp add: dget_def v d)
  ultimately show ?thesis by (simp add: all_limited_def list_all_iff case_prod_beta)
qed

lemma limits_known_True: "limits_known l r = Inr True \<Longrightarrow> all_limited l \<and> all_limited r"
  by (auto simp: limits_known_def bind_res_Inr dest: limits_recorded_True split: if_splits)

text \<open>
  C14. A replay is reported as passed only for two accepted runs whose evidence is that of different
  executions, which recorded their resource limits, and which agree in all inputs, commands and
  outcomes: unless SHA-256 collides, the reported lists of differences are empty. The status says
  \<^verbatim>\<open>replay-passed\<close> exactly then.
\<close>

theorem replay_passed_sound:
  assumes "compare_replays h l r = Inr c" and "wf_dict l" "wf_dict r"
  shows "(cp_status c = ''replay-passed'' \<longleftrightarrow> cp_passed c)
    \<and> (cp_passed c \<longrightarrow> dget l ''accepted'' = PBool True \<and> dget r ''accepted'' = PBool True
        \<and> distinct_runs l r \<and> all_limited l \<and> all_limited r
        \<and> (collision h \<or> cp_input_diffs c = [] \<and> cp_execution_diffs c = [] \<and> cp_outcome_diffs c = []))"
proof -
  from assms(1) obtain limits i e out where v: "check_view h l = Inr ()" "check_view h r = Inr ()"
    and lim: "limits_known l r = Inr limits"
    and d: "field_differences h l r ''inputs'' = Inr i" "field_differences h l r ''execution'' = Inr e"
      "field_differences h l r ''outcomes'' = Inr out"
    and c: "cp_input_diffs c = i" "cp_execution_diffs c = e" "cp_outcome_diffs c = out"
      "cp_passed c \<longleftrightarrow> py_eq (dget l ''input_id'') (dget r ''input_id'') \<and> py_eq (dget l ''execution_id'') (dget r ''execution_id'')
         \<and> py_eq (dget l ''outcome_id'') (dget r ''outcome_id'') \<and> dget l ''accepted'' = PBool True
         \<and> dget r ''accepted'' = PBool True \<and> limits \<and> distinct_runs l r"
      "cp_status c = replay_status (cp_passed c) (cp_inputs_equal c) (cp_execution_equal c) (cp_outcomes_equal c) limits (distinct_runs l r)"
    by (auto simp: compare_replays_def bind_res_Inr Let_def)
  obtain x1 x2 x3 where x: "map_of l ''inputs'' = Some x1" "dget l ''input_id'' = PStr (sha256_hex h (json_text h x1))"
    "map_of l ''execution'' = Some x2" "dget l ''execution_id'' = PStr (sha256_hex h (json_text h x2))"
    "map_of l ''outcomes'' = Some x3" "dget l ''outcome_id'' = PStr (sha256_hex h (json_text h x3))"
    by (rule check_view_Inr [OF v(1)])
  obtain y1 y2 y3 where y: "map_of r ''inputs'' = Some y1" "dget r ''input_id'' = PStr (sha256_hex h (json_text h y1))"
    "map_of r ''execution'' = Some y2" "dget r ''execution_id'' = PStr (sha256_hex h (json_text h y2))"
    "map_of r ''outcomes'' = Some y3" "dget r ''outcome_id'' = PStr (sha256_hex h (json_text h y3))"
    by (rule check_view_Inr [OF v(2)])
  have "i = [] \<and> e = [] \<and> out = []" if "cp_passed c" "\<not> collision h"
    using that c(4) x y field_differences_nil [OF d(1) assms(2,3) x(1) y(1)]
      field_differences_nil [OF d(2) assms(2,3) x(3) y(3)] field_differences_nil [OF d(3) assms(2,3) x(5) y(5)] by simp
  moreover have "all_limited l \<and> all_limited r" if "cp_passed c"
    using that c(4) lim limits_known_True by simp
  moreover have "cp_status c = ''replay-passed'' \<longleftrightarrow> cp_passed c"
    using c(4,5) by (auto simp: replay_status_def)
  ultimately show ?thesis using c by blast
qed

text \<open>Two runs of one target with the same inputs, commands and outcomes.\<close>

definition view_host :: host where
  "view_host = \<lparr>contents = (\<lambda>_. None), is_symlink = (\<lambda>_. False), is_dir = (\<lambda>_. False), resolve = (\<lambda>p. p),
     sha256_hex = (\<lambda>s. s), float_text = (\<lambda>_. [])\<rparr>"

definition run_view :: "string \<Rightarrow> string \<Rightarrow> pydict" where
  "run_view directory stamp =
     (let inputs = PDict [(''targets'', PList [PStr ''t''])];
          execution = PDict [(''t'', PDict [(''analysis_limits'', PDict [(''jobs'', PInt 4)])])];
          outcomes = PDict [(''accepted'', PBool True), (''status'', PStr ''passed''), (''targets'', PDict [(''t'', PNone)])];
          artifacts = PDict [(path_join directory ''summary.json'', PStr stamp)]
      in [(''schema_version'', PInt 1), (''policy'', PStr ''fragma-replay-v1''), (''status'', PStr ''comparable''),
          (''accepted'', PBool True), (''inputs'', inputs), (''input_id'', PStr (json_text view_host inputs)),
          (''execution'', execution), (''execution_id'', PStr (json_text view_host execution)),
          (''outcomes'', outcomes), (''outcome_id'', PStr (json_text view_host outcomes)),
          (''artifacts'', artifacts), (''evidence_id'', PStr (json_text view_host artifacts)),
          (''run_instance'', PDict [(''directory'', PStr directory), (''started_at'', PStr stamp),
             (''completed_at'', PStr stamp), (''summary_sha256'', PStr stamp)])])"

lemma sample_replay_passes:
  "case compare_replays view_host (run_view ''/a'' ''1'') (run_view ''/b'' ''2'') of Inr c \<Rightarrow> cp_passed c | _ \<Rightarrow> False"
  by code_simp

lemma sample_views_wf: "wf_dict (run_view ''/a'' ''1'')" "wf_dict (run_view ''/b'' ''2'')"
  by code_simp+

lemma replay_passed_sound_witness:
  "\<exists>c. compare_replays view_host (run_view ''/a'' ''1'') (run_view ''/b'' ''2'') = Inr c \<and> cp_passed c
     \<and> cp_input_diffs c = [] \<and> cp_outcome_diffs c = []"
proof -
  from sample_replay_passes obtain c where
    c: "compare_replays view_host (run_view ''/a'' ''1'') (run_view ''/b'' ''2'') = Inr c" "cp_passed c"
    by (auto split: sum.splits)
  have "\<not> collision view_host" by (simp add: collision_def view_host_def)
  with replay_passed_sound [OF c(1) sample_views_wf] c show ?thesis by auto
qed

text \<open>The same evidence compared with itself is no replay.\<close>

lemma same_evidence_is_no_replay:
  "case compare_replays view_host (run_view ''/a'' ''1'') (run_view ''/a'' ''1'') of
     Inr c \<Rightarrow> \<not> cp_passed c \<and> cp_status c = ''same-evidence'' | _ \<Rightarrow> False"
  by code_simp

end
