(* ===== verification/Replay_Run.thy ===== *)
theory Replay_Run
  imports Replay_Compare "HOL-Library.AList"
begin

text \<open>
  The gates of \<^verbatim>\<open>build_replay_view\<close> (\<^verbatim>\<open>fragma/replay.py\<close>) on the retained evidence of one run: every artifact
  is read through \<^verbatim>\<open>read\<close>, which records its digest; the summary, the target receipts, the input
  inventories and the claims of tool and model metadata must agree (\<open>run_gate\<close>), and so must the receipt
  and the preprocessed streams of each target (\<open>target_gate\<close>). The host is the machine during the construction
  of the view; \<open>loads\<close> is the JSON grammar, \<open>dates\<close> \<^verbatim>\<open>datetime.fromisoformat\<close> with the presence of an
  offset and the instant, \<open>below\<close> the regular files under a directory.
\<close>

section \<open>Reading retained artifacts\<close>

record view_state =
  vs_artifacts :: "(string \<times> string) list"
  vs_mapper :: mapper

definition retained_digest :: "host \<Rightarrow> string \<Rightarrow> py \<Rightarrow> string res" where
  "retained_digest h path expected =
     (case file_sha256 h path of
        None \<Rightarrow> Inl (replay_error ''missing or symlinked retained artifact'')
      | Some actual \<Rightarrow>
          bind_res (require (\<not> is_symlink h path) ''missing or symlinked retained artifact'') (\<lambda>_.
          bind_res (require (expected = PNone \<or> expected = PStr actual) ''retained artifact hash changed'') (\<lambda>_. Inr actual)))"

text \<open>\<^verbatim>\<open>read(path, expected, binary=True)\<close> keeps the digest; the text is read after it.\<close>

definition read_bytes :: "host \<Rightarrow> string \<Rightarrow> py \<Rightarrow> (view_state, string) prog" where
  "read_bytes h p expected =
     (let path = path_str p in
      sbind (slift (retained_digest h path expected)) (\<lambda>d.
      sbind (sdo (\<lambda>s. s\<lparr>vs_artifacts := AList.update path d (vs_artifacts s)\<rparr>)) (\<lambda>_. sreturn path)))"

definition read_retained :: "host \<Rightarrow> tools \<Rightarrow> string \<Rightarrow> py \<Rightarrow> (view_state, string) prog" where
  "read_retained h os p expected = sbind (read_bytes h p expected) (\<lambda>path. slift (text_file h os path))"

text \<open>A path of any type, as \<^verbatim>\<open>Path(v)\<close> takes it.\<close>

definition read_value :: "host \<Rightarrow> tools \<Rightarrow> view_state policy_reader" where
  "read_value h os p expected = sbind (slift (need_str p)) (\<lambda>path. read_retained h os path expected)"

definition read_document :: "host \<Rightarrow> tools \<Rightarrow> json_loads \<Rightarrow> string \<Rightarrow> (view_state, py) prog" where
  "read_document h os loads p = sbind (read_retained h os p PNone) (\<lambda>s. slift (strict_json loads s))"

text \<open>The policy, the run directory and the mapper with which the construction of a view starts.\<close>

definition start_view :: "host \<Rightarrow> string \<Rightarrow> root_bindings \<Rightarrow> string \<Rightarrow> (string \<times> view_state) res" where
  "start_view h summary_path roots policy =
     bind_res (require (policy = ''fragma-replay-v1'') ''unsupported replay policy'') (\<lambda>_.
     (let p = resolve h summary_path in
      bind_res (new_mapper roots (path_parent p)) (\<lambda>m. Inr (p, \<lparr>vs_artifacts = [], vs_mapper = m\<rparr>))))"

text \<open>What every read keeps: the recorded digests are those of regular files of the machine.\<close>

definition artifacts_true :: "host \<Rightarrow> view_state \<Rightarrow> bool" where
  "artifacts_true h s = (\<forall>f d. map_of (vs_artifacts s) f = Some d \<longrightarrow> file_sha256 h f = Some d \<and> \<not> is_symlink h f)"

lemma retained_digest_Inr [res_simps]:
  "retained_digest h path expected = Inr d \<longleftrightarrow>
     file_sha256 h path = Some d \<and> \<not> is_symlink h path \<and> (expected = PNone \<or> expected = PStr d)"
  by (auto simp: retained_digest_def bind_res_Inr check_iff split: option.splits)

lemma read_bytes_Inr [res_simps]:
  "read_bytes h p expected s = (Inr path, s') \<longleftrightarrow> path = path_str p \<and> (\<exists>d. retained_digest h path expected = Inr d
     \<and> s' = s\<lparr>vs_artifacts := AList.update path d (vs_artifacts s)\<rparr>)"
  by (auto simp: read_bytes_def Let_def sbind_Inr slift_eq sdo_eq)

lemma keeps_read_bytes [intro, simp]: "keeps (artifacts_true h) (read_bytes h p expected)"
proof -
  have "artifacts_true h (snd (read_bytes h p expected s))" if "artifacts_true h s" for s
  proof (cases "retained_digest h (path_str p) expected")
    case (Inl e)
    with that show ?thesis by (simp add: read_bytes_def Let_def sbind_def slift_def)
  next
    case (Inr d)
    then have "snd (read_bytes h p expected s) = s\<lparr>vs_artifacts := AList.update (path_str p) d (vs_artifacts s)\<rparr>"
      by (simp add: read_bytes_def Let_def sbind_def slift_def sdo_def)
    with that Inr show ?thesis
      by (simp add: artifacts_true_def update_conv' retained_digest_Inr)
  qed
  then show ?thesis by (simp add: keeps_def)
qed

lemma keeps_read [intro, simp]:
  "keeps (artifacts_true h) (read_retained h os p expected)" "keeps (artifacts_true h) (read_value h os v expected)"
  "keeps (artifacts_true h) (read_document h os loads p)"
  by (auto simp: read_retained_def read_value_def read_document_def)

section \<open>The summary of a run\<close>

type_synonym iso_dates = "string \<Rightarrow> (bool \<times> int) option"

definition instant :: "iso_dates \<Rightarrow> pydict \<Rightarrow> string \<Rightarrow> (bool \<times> int) res" where
  "instant dates d k = bind_res (ditem d k) (\<lambda>v. bind_res (need_str v) (\<lambda>s.
     case dates s of None \<Rightarrow> Inl (Exn ValueError ''Invalid isoformat string'') | Some t \<Rightarrow> Inr t))"

definition check_summary_header :: "iso_dates \<Rightarrow> string \<Rightarrow> pydict \<Rightarrow> unit res" where
  "check_summary_header dates run summary =
     bind_res (require (dget summary ''schema_version'' = PInt 1) ''unsupported run schema'') (\<lambda>_.
     bind_res (require (dget summary ''output'' = PStr run) ''summary output is not its actual retained run directory'') (\<lambda>_.
     bind_res (require (dget summary ''status'' \<in> {PStr ''passed'', PStr ''incomplete''} \<and> is_bool (dget summary ''accepted''))
       ''run is not terminal'') (\<lambda>_.
     bind_res (instant dates summary ''started_at'') (\<lambda>(aware, started).
     bind_res (instant dates summary ''completed_at'') (\<lambda>(aware', completed).
     bind_res (require (aware \<and> aware' \<and> started \<le> completed) ''invalid or unordered observed execution timestamps'') (\<lambda>_.
     require (case dget summary ''revision'' of PStr s \<Rightarrow> is_hex 40 s | _ \<Rightarrow> False) ''run has no exact kernel revision''))))))"

definition target_of :: "py \<Rightarrow> string \<Rightarrow> py res" where
  "target_of row k = bind_res (pindex row ''target'') (\<lambda>t. pindex t k)"

text \<open>The receipts of the selected targets, in the order of the selection.\<close>

definition selected_receipts :: "pydict \<Rightarrow> (string list \<times> py list) res" where
  "selected_receipts summary = (case as_strs (dget summary ''selected_targets'') of
     None \<Rightarrow> Inl (replay_error ''invalid target selection'')
   | Some names \<Rightarrow>
       bind_res (require (names \<noteq> [] \<and> distinct names) ''invalid target selection'') (\<lambda>_.
       (case dget summary ''targets'' of
          PList rows \<Rightarrow>
            bind_res (mapM (\<lambda>row. target_of row ''id'') rows) (\<lambda>ids.
            bind_res (require (ids = map PStr names) ''missing, duplicate or reordered target receipt'') (\<lambda>_.
            Inr (names, rows)))
        | _ \<Rightarrow> Inl (replay_error ''missing, duplicate or reordered target receipt''))))"

definition all_receipts_accepted :: "py list \<Rightarrow> bool res" where
  "all_receipts_accepted rows =
     foldM (\<lambda>ok row. if ok then bind_res (pget row ''accepted'') (\<lambda>a. Inr (a = PBool True)) else Inr False) True rows"

text \<open>\<^verbatim>\<open>dict(Counter(row["status"] ...))\<close>, for texts.\<close>

definition status_counts :: "py list \<Rightarrow> pydict res" where
  "status_counts rows = bind_res (mapM (\<lambda>row. bind_res (pindex row ''status'') need_str) rows) (\<lambda>statuses.
     Inr (map (\<lambda>(s, n). (s, PInt (int n))) (counter statuses)))"

definition check_acceptance_counts :: "pydict \<Rightarrow> py list \<Rightarrow> unit res" where
  "check_acceptance_counts summary rows =
     bind_res (all_receipts_accepted rows) (\<lambda>ok.
     bind_res (require (dget summary ''accepted'' = PBool ok) ''suite acceptance disagrees with targets'') (\<lambda>_.
     bind_res (require (dget summary ''status'' = PStr (if ok then ''passed'' else ''incomplete''))
       ''suite status disagrees with acceptance'') (\<lambda>_.
     bind_res (status_counts rows) (\<lambda>counts.
     agree (dget summary ''counts'') (PDict counts) ''suite counts disagree with targets''))))"

section \<open>Inventories and claims\<close>

text \<open>\<open>inventory\<close> maps a file to the digest that the run recorded for it.\<close>

definition add_receipt :: "receipt list \<Rightarrow> receipt \<Rightarrow> receipt list res" where
  "add_receipt inventory r = (case r of (f, d) \<Rightarrow>
     bind_res (require (map_of inventory f = None \<or> map_of inventory f = Some d) ''conflicting run input inventories'') (\<lambda>_.
     Inr (AList.update f d inventory)))"

definition add_inventory :: "receipt list \<Rightarrow> py \<Rightarrow> receipt list res" where
  "add_inventory inventory evidence =
     bind_res (pindex evidence ''integrity_inputs'') (\<lambda>v. bind_res (hash_records v) (\<lambda>rows. foldM add_receipt inventory rows))"

definition run_inventory :: "receipt list \<Rightarrow> py list \<Rightarrow> receipt list res" where
  "run_inventory shared records = foldM add_inventory shared records"

definition check_claim :: "receipt list \<Rightarrow> string \<times> py \<Rightarrow> unit res" where
  "check_claim inventory claim = (case claim of (f, expected) \<Rightarrow>
     require (case expected of PStr d \<Rightarrow> is_hex 64 d \<and> map_of inventory f = Some d | _ \<Rightarrow> False)
       ''tool/model metadata claim is missing or contradicts inventoried hash'')"

definition view_models :: "pydict \<Rightarrow> py list \<Rightarrow> pydict res" where
  "view_models summary rows =
     bind_res (ditem summary ''profiles'') (\<lambda>models. bind_res (id_set models) (\<lambda>names.
     bind_res (mapM (\<lambda>row. target_of row ''profile'') rows) (\<lambda>used. bind_res (id_set (PList used)) (\<lambda>profiles.
     bind_res (require (same_ids names profiles) ''profile inventory differs from selected targets'') (\<lambda>_.
     entries_of models)))))"

section \<open>The gate of a run\<close>

fun smapM :: "('a \<Rightarrow> ('s, 'b) prog) \<Rightarrow> 'a list \<Rightarrow> ('s, 'b list) prog" where
  "smapM f [] = sreturn []"
| "smapM f (x # xs) = sbind (f x) (\<lambda>y. sbind (smapM f xs) (\<lambda>ys. sreturn (y # ys)))"

lemma keeps_smapM [intro]: "(\<And>x. keeps P (f x)) \<Longrightarrow> keeps P (smapM f xs)"
  by (induction xs) auto

lemma smapM_step: "smapM f xs s = (Inr ys, s') \<Longrightarrow> x \<in> set xs \<Longrightarrow> \<exists>t y t'. f x t = (Inr y, t')"
  by (induction xs arbitrary: s ys) (auto simp: sbind_Inr slift_eq)

definition same_digest :: "host \<Rightarrow> py \<Rightarrow> py \<Rightarrow> string \<Rightarrow> unit res" where
  "same_digest h a b reason = bind_res (json_digest h a) (\<lambda>x. bind_res (json_digest h b) (\<lambda>y. require (x = y) reason))"

definition check_model_label :: "pydict \<Rightarrow> string \<Rightarrow> py \<Rightarrow> unit res" where
  "check_model_label summary identifier model =
     bind_res (pget model ''profile_id'') (\<lambda>i. bind_res (pget model ''kernel_revision'') (\<lambda>r.
     require (i = PStr identifier \<and> py_eq r (dget summary ''revision'')) ''profile label/revision disagrees with selected model''))"

definition model_view :: "host \<Rightarrow> tools \<Rightarrow> json_loads \<Rightarrow> string \<Rightarrow> pydict \<Rightarrow> string \<times> py \<Rightarrow> (view_state, string \<times> py) prog" where
  "model_view h os loads run summary labelled = (case labelled of (identifier, model) \<Rightarrow>
     sbind (slift (check_model_label summary identifier model)) (\<lambda>_.
     sbind (read_document h os loads (path_join (path_join run (''profile-'' @ identifier)) ''profile.json'')) (\<lambda>saved.
     sbind (slift (same_digest h saved model ''profile receipt differs from summary'')) (\<lambda>_.
     sbind (slift (entries_of model)) (\<lambda>d. sbind (sget vs_mapper) (\<lambda>m.
     sbind (slift (bind_res (profile_identity m d) entries_of)) (\<lambda>identity.
     sbind (model_policy_observation loads (read_value h os) model) (\<lambda>policy.
     sreturn (''profile:'' @ identifier, PDict (dset identity ''analysis_policy'' (PDict policy)))))))))))"

record run_evidence =
  re_summary :: pydict
  re_names :: "string list"
  re_records :: "py list"
  re_tools :: py
  re_models :: pydict
  re_shared :: "receipt list"
  re_inventory :: "receipt list"
  re_identities :: pydict

text \<open>The selection, the receipts and the inventory of all files the run recorded.\<close>

definition run_receipts :: "iso_dates \<Rightarrow> string \<Rightarrow> pydict \<Rightarrow> (string list \<times> py list \<times> receipt list) res" where
  "run_receipts dates run summary =
     bind_res (check_summary_header dates run summary) (\<lambda>_.
     bind_res (selected_receipts summary) (\<lambda>(names, rows).
     bind_res (check_acceptance_counts summary rows) (\<lambda>_.
     bind_res (ditem summary ''integrity_inputs'') (\<lambda>v. bind_res (hash_records v) (\<lambda>shared. Inr (names, rows, shared))))))"

definition run_claims :: "pydict \<Rightarrow> py list \<Rightarrow> receipt list \<Rightarrow> py \<Rightarrow> (pydict \<times> receipt list) res" where
  "run_claims summary rows shared tools =
     bind_res (view_models summary rows) (\<lambda>models.
     bind_res (run_inventory shared rows) (\<lambda>inventory.
     bind_res (allM (check_claim inventory) (metadata_claims (PList (tools # map snd models)))) (\<lambda>_.
     Inr (models, inventory))))"

definition run_gate :: "host \<Rightarrow> tools \<Rightarrow> json_loads \<Rightarrow> iso_dates \<Rightarrow> string \<Rightarrow> (view_state, run_evidence) prog" where
  "run_gate h os loads dates summary_path =
     (let run = path_parent summary_path in
      sbind (read_document h os loads summary_path) (\<lambda>v.
      sbind (slift (case v of PDict d \<Rightarrow> Inr d | _ \<Rightarrow> Inl (Exn AttributeError ''get''))) (\<lambda>summary.
      sbind (slift (run_receipts dates run summary)) (\<lambda>(names, rows, shared).
      sbind (read_document h os loads (path_join run ''toolchain.json'')) (\<lambda>toolchain.
      sbind (slift (run_claims summary rows shared toolchain)) (\<lambda>(models, inventory).
      sbind (smapM (model_view h os loads run summary) models) (\<lambda>identities.
      sreturn \<lparr>re_summary = summary, re_names = names, re_records = rows, re_tools = toolchain, re_models = models,
        re_shared = shared, re_inventory = inventory, re_identities = identities\<rparr>)))))))"

lemma keeps_model_policy: "(\<And>p d. keeps P (rd p d)) \<Longrightarrow> keeps P (model_policy_observation loads rd model)"
  unfolding model_policy_observation_def
  by (rule keeps_sbind, rule keeps_slift, rule keeps_if, rule keeps_slift, rule keeps_sbind, rule keeps_slift)
    (intro keeps_prod keeps_sbind keeps_slift; simp)

lemma keeps_model_view: "keeps (artifacts_true h) (model_view h os loads run summary e)"
  by (auto simp: model_view_def intro!: keeps_prod keeps_sbind keeps_model_policy)

lemma keeps_run_gate: "keeps (artifacts_true h) (run_gate h os loads dates p)"
  by (auto simp: run_gate_def Let_def intro!: keeps_prod keeps_sbind keeps_smapM keeps_model_view)

lemma add_receipt_Inr:
  "add_receipt known (f, d) = Inr known' \<longleftrightarrow> (map_of known f = None \<or> map_of known f = Some d) \<and> known' = AList.update f d known"
  by (auto simp: add_receipt_def bind_res_Inr check_iff)

lemma add_receipts_extend:
  "foldM add_receipt known rows = Inr known' \<Longrightarrow> map_of known \<subseteq>\<^sub>m map_of known' \<and> (\<forall>(f, d)\<in>set rows. map_of known' f = Some d)"
proof (induction rows arbitrary: known)
  case (Cons r rows)
  obtain f d where r: "r = (f, d)" by (cases r)
  from Cons.prems r have old: "map_of known f = None \<or> map_of known f = Some d"
    and step: "foldM add_receipt (AList.update f d known) rows = Inr known'"
    by (auto simp: bind_res_Inr add_receipt_Inr)
  from old have ext: "map_of known \<subseteq>\<^sub>m map_of (AList.update f d known)"
    by (auto simp: map_le_def update_conv')
  have new: "map_of (AList.update f d known) f = Some d" by (simp add: update_conv')
  from Cons.IH [OF step] have ih: "map_of (AList.update f d known) \<subseteq>\<^sub>m map_of known'" "\<forall>(f, d)\<in>set rows. map_of known' f = Some d"
    by simp_all
  from ih(1) new have "map_of known' f = Some d" by (auto simp: map_le_def dom_def)
  with ih(2) map_le_trans [OF ext ih(1)] show ?case by (simp add: r)
qed simp

definition receipts_in :: "receipt list \<Rightarrow> py \<Rightarrow> bool" where
  "receipts_in inventory evidence = (\<exists>v rows. pindex evidence ''integrity_inputs'' = Inr v \<and> hash_records v = Inr rows
     \<and> (\<forall>(f, d)\<in>set rows. map_of inventory f = Some d))"

lemma receipts_in_mono: "map_of known \<subseteq>\<^sub>m map_of known' \<Longrightarrow> receipts_in known e \<Longrightarrow> receipts_in known' e"
  unfolding receipts_in_def map_le_def by (fastforce simp: dom_def)

lemma run_inventory_extend:
  "run_inventory known rows = Inr known' \<Longrightarrow> map_of known \<subseteq>\<^sub>m map_of known' \<and> (\<forall>e\<in>set rows. receipts_in known' e)"
proof (induction rows arbitrary: known)
  case Nil
  then show ?case by (simp add: run_inventory_def)
next
  case (Cons e rows)
  from Cons.prems obtain v rs known1 where e: "pindex e ''integrity_inputs'' = Inr v" "hash_records v = Inr rs"
      "foldM add_receipt known rs = Inr known1" and rest: "run_inventory known1 rows = Inr known'"
    by (auto simp: run_inventory_def add_inventory_def bind_res_Inr)
  from add_receipts_extend [OF e(3)] e(1,2) have a: "map_of known \<subseteq>\<^sub>m map_of known1" "receipts_in known1 e"
    by (auto simp: receipts_in_def)
  from Cons.IH [OF rest] have b: "map_of known1 \<subseteq>\<^sub>m map_of known'" "\<forall>e\<in>set rows. receipts_in known' e" by simp_all
  from map_le_trans [OF a(1) b(1)] receipts_in_mono [OF b(1) a(2)] b(2) show ?case by simp
qed

definition accepted_receipt :: "py \<Rightarrow> bool" where
  "accepted_receipt row = (case row of PDict d \<Rightarrow> dget d ''accepted'' = PBool True | _ \<Rightarrow> False)"

lemma all_receipts_accepted_Inr: "all_receipts_accepted rows = Inr ok \<Longrightarrow> ok \<longleftrightarrow> list_all accepted_receipt rows"
proof -
  have "foldM (\<lambda>ok row. if ok then bind_res (pget row ''accepted'') (\<lambda>a. Inr (a = PBool True)) else Inr False) b rows = Inr ok
      \<Longrightarrow> ok \<longleftrightarrow> b \<and> list_all accepted_receipt rows" for b
  proof (induction rows arbitrary: b)
    case (Cons row rows)
    then show ?case by (cases row; cases b) (auto simp: pget_def accepted_receipt_def)
  qed auto
  from this [of True] show "all_receipts_accepted rows = Inr ok \<Longrightarrow> ok \<longleftrightarrow> list_all accepted_receipt rows"
    by (simp add: all_receipts_accepted_def)
qed

lemma selected_receipts_Inr:
  "selected_receipts summary = Inr (names, rows) \<Longrightarrow>
     distinct names \<and> names \<noteq> [] \<and> dget summary ''selected_targets'' = PList (map PStr names)
     \<and> dget summary ''targets'' = PList rows \<and> list_all2 (\<lambda>row n. target_of row ''id'' = Inr (PStr n)) rows names"
  by (auto simp: selected_receipts_def bind_res_Inr check_iff as_strs_Some mapM_Inr_iff list.rel_map
      split: option.splits py.splits)

lemma run_receipts_Inr:
  assumes "run_receipts dates run summary = Inr (names, rows, shared)"
  shows "selected_receipts summary = Inr (names, rows) \<and> dget summary ''output'' = PStr run
    \<and> (dget summary ''accepted'' = PBool True \<longleftrightarrow> list_all accepted_receipt rows)"
  using assms all_receipts_accepted_Inr
  by (fastforce simp: run_receipts_def bind_res_Inr check_acceptance_counts_def check_summary_header_def check_iff)

lemma run_claims_Inr:
  assumes "run_claims summary rows shared tools = Inr (models, inventory)"
  shows "map_of shared \<subseteq>\<^sub>m map_of inventory \<and> (\<forall>e\<in>set rows. receipts_in inventory e)
    \<and> (\<forall>(f, v)\<in>set (metadata_claims (PList (tools # map snd models))). \<exists>d. v = PStr d \<and> map_of inventory f = Some d)"
proof -
  from assms have inv: "run_inventory shared rows = Inr inventory"
    and claims: "\<forall>c\<in>set (metadata_claims (PList (tools # map snd models))). check_claim inventory c = Inr ()"
    by (auto simp: run_claims_def bind_res_Inr allM_iff)
  have "\<exists>d. v = PStr d \<and> map_of inventory f = Some d"
    if "(f, v) \<in> set (metadata_claims (PList (tools # map snd models)))" for f v
    using bspec [OF claims that] by (cases v) (auto simp: check_claim_def check_iff)
  with run_inventory_extend [OF inv] show ?thesis by blast
qed

text \<open>A document of the run as it stands on the machine.\<close>

definition on_disk :: "host \<Rightarrow> tools \<Rightarrow> json_loads \<Rightarrow> string \<Rightarrow> py \<Rightarrow> bool" where
  "on_disk h os loads p v = (\<exists>s. text_file h os (path_str p) = Inr s \<and> strict_json loads s = Inr v)"

lemma read_document_Inr: "read_document h os loads p s = (Inr v, s') \<Longrightarrow> on_disk h os loads p v"
  by (auto simp: read_document_def read_retained_def sbind_Inr slift_eq read_bytes_Inr on_disk_def)

lemma model_view_Inr:
  assumes "model_view h os loads run summary (i, model) s = (Inr x, s')"
  shows "\<exists>saved. on_disk h os loads (path_join (path_join run (''profile-'' @ i)) ''profile.json'') saved
    \<and> sha256_hex h (json_text h saved) = sha256_hex h (json_text h model)"
proof -
  from assms obtain saved t t' where "read_document h os loads (path_join (path_join run (''profile-'' @ i)) ''profile.json'') t = (Inr saved, t')"
      "same_digest h saved model ''profile receipt differs from summary'' = Inr ()"
    by (auto simp: model_view_def sbind_Inr slift_eq)
  with read_document_Inr show ?thesis by (fastforce simp: same_digest_def bind_res_Inr json_digest_Inr check_iff)
qed

lemma run_gate_Inr:
  assumes "run_gate h os loads dates p s = (Inr ev, s')"
  shows "on_disk h os loads p (PDict (re_summary ev))
    \<and> on_disk h os loads (path_join (path_parent p) ''toolchain.json'') (re_tools ev)
    \<and> run_receipts dates (path_parent p) (re_summary ev) = Inr (re_names ev, re_records ev, re_shared ev)
    \<and> run_claims (re_summary ev) (re_records ev) (re_shared ev) (re_tools ev) = Inr (re_models ev, re_inventory ev)
    \<and> (\<exists>t t'. smapM (model_view h os loads (path_parent p) (re_summary ev)) (re_models ev) t = (Inr (re_identities ev), t'))"
  using assms unfolding run_gate_def Let_def
  by (fastforce simp: sbind_Inr slift_eq case_py_Inr dest: read_document_Inr split: prod.splits)

text \<open>
  C15. What a run must be for a view of it to be built: every artifact read is a regular file with the digest
  that enters the view; the summary on disk names the receipts one by one, and is accepted exactly when
  all of them are; one inventory holds the shared inputs, the inputs of every target and every digest that
  the tool and model receipts claim, with one digest for each file; and each model of the summary has the
  digest of the profile receipt saved in the run.
\<close>

theorem run_gate_sound:
  assumes "run_gate h os loads dates p s = (Inr ev, s')" and "artifacts_true h s"
  shows "artifacts_true h s' \<and> on_disk h os loads p (PDict (re_summary ev))
    \<and> distinct (re_names ev) \<and> list_all2 (\<lambda>row n. target_of row ''id'' = Inr (PStr n)) (re_records ev) (re_names ev)
    \<and> (dget (re_summary ev) ''accepted'' = PBool True \<longleftrightarrow> list_all accepted_receipt (re_records ev))
    \<and> map_of (re_shared ev) \<subseteq>\<^sub>m map_of (re_inventory ev) \<and> (\<forall>e\<in>set (re_records ev). receipts_in (re_inventory ev) e)
    \<and> (\<forall>(f, v)\<in>set (metadata_claims (PList (re_tools ev # map snd (re_models ev)))).
         \<exists>d. v = PStr d \<and> map_of (re_inventory ev) f = Some d)
    \<and> (\<forall>(i, model)\<in>set (re_models ev).
         \<exists>saved. on_disk h os loads (path_join (path_join (path_parent p) (''profile-'' @ i)) ''profile.json'') saved
           \<and> sha256_hex h (json_text h saved) = sha256_hex h (json_text h model))"
proof -
  note g = run_gate_Inr [OF assms(1)]
  then have rr: "run_receipts dates (path_parent p) (re_summary ev) = Inr (re_names ev, re_records ev, re_shared ev)"
    and rc: "run_claims (re_summary ev) (re_records ev) (re_shared ev) (re_tools ev) = Inr (re_models ev, re_inventory ev)"
    by blast+
  from g obtain t t' where m: "smapM (model_view h os loads (path_parent p) (re_summary ev)) (re_models ev) t = (Inr (re_identities ev), t')"
    by blast
  have "\<exists>saved. on_disk h os loads (path_join (path_join (path_parent p) (''profile-'' @ i)) ''profile.json'') saved
      \<and> sha256_hex h (json_text h saved) = sha256_hex h (json_text h model)" if "(i, model) \<in> set (re_models ev)" for i model
    using smapM_step [OF m that] model_view_Inr by blast
  moreover have "artifacts_true h s'" using keepsD [OF keeps_run_gate assms(1) assms(2)] .
  ultimately show ?thesis
    using g run_claims_Inr [OF rc] run_receipts_Inr [OF rr] selected_receipts_Inr by blast
qed

text \<open>A run of one target without shared inputs, under a model that predates the analysis policy.\<close>

definition saved_model :: pydict where
  "saved_model = [(''schema_version'', PInt 1), (''profile_id'', PStr ''x''), (''kernel_revision'', PStr (replicate 40 CHR ''a'')),
     (''status'', PStr ''passed''), (''level'', PStr ''L1''), (''checks'', PList [PDict [(''status'', PStr ''passed'')]]),
     (''machdep'', PDict [(''sha256'', PNone), (''checked_fields'', PNone)]),
     (''build'', PDict [(''calibration'', PDict [(''input_hashes'', PNone)])]), (''execution_environment'', PDict [])]"

definition run_summary :: pydict where
  "run_summary = [(''schema_version'', PInt 1), (''output'', PStr ''/r''), (''status'', PStr ''passed''),
     (''accepted'', PBool True), (''started_at'', PStr ''d''), (''completed_at'', PStr ''d''),
     (''revision'', PStr (replicate 40 CHR ''a'')), (''selected_targets'', PList [PStr ''t'']),
     (''targets'', PList [PDict [(''target'', PDict [(''id'', PStr ''t''), (''profile'', PStr ''x'')]), (''accepted'', PBool True),
        (''status'', PStr ''passed''), (''integrity_inputs'', PList [PDict [(''absolute_path'', PStr ''/p/f''),
           (''sha256'', PStr (replicate 64 CHR ''0''))]])]]),
     (''counts'', PDict [(''passed'', PInt 1)]), (''integrity_inputs'', PList []),
     (''profiles'', PDict [(''x'', PDict saved_model)])]"

definition run_host :: host where
  "run_host = view_host\<lparr>contents := (\<lambda>p. if p = ''/r/summary.json'' then Some ''S'' else if p = ''/r/toolchain.json'' then Some ''T''
     else if p = ''/r/profile-x/profile.json'' then Some ''M'' else None)\<rparr>"

definition run_loads :: json_loads where
  "run_loads s = Some (if s = ''S'' then PDict run_summary else if s = ''T''
     then PDict [(''absolute_path'', PStr ''/p/f''), (''sha256'', PStr (replicate 64 CHR ''0''))] else PDict saved_model)"

definition run_tools :: tools where
  "run_tools = \<lparr>git_run = (\<lambda>_ _. GitUnavailable), utf8_decode = Some\<rparr>"

definition run_start :: view_state where
  "run_start = \<lparr>vs_artifacts = [], vs_mapper = sample_mapper\<rparr>"

definition run_sample :: "run_evidence res \<times> view_state" where
  "run_sample = run_gate run_host run_tools run_loads (\<lambda>_. Some (True, 0)) ''/r/summary.json'' run_start"

lemma run_sample_passes:
  "case run_sample of (Inr ev, s) \<Rightarrow> re_names ev = [''t''] \<and> length (vs_artifacts s) = 3 | _ \<Rightarrow> False"
  by code_simp

lemma run_gate_sound_witness:
  "\<exists>ev s. run_sample = (Inr ev, s) \<and> artifacts_true run_host s \<and> map_of (vs_artifacts s) \<noteq> Map.empty
     \<and> list_all accepted_receipt (re_records ev) = (dget (re_summary ev) ''accepted'' = PBool True)"
proof -
  from run_sample_passes obtain ev s where r: "run_sample = (Inr ev, s)" and three: "length (vs_artifacts s) = 3"
    by (auto split: prod.splits sum.splits)
  have "artifacts_true run_host run_start" by (simp add: artifacts_true_def run_start_def)
  note sound = run_gate_sound [OF r [unfolded run_sample_def] this]
  from three have "map_of (vs_artifacts s) \<noteq> Map.empty" by auto
  moreover have "artifacts_true run_host s" using sound by blast
  moreover have "list_all accepted_receipt (re_records ev) = (dget (re_summary ev) ''accepted'' = PBool True)"
    using sound by blast
  ultimately show ?thesis using r by blast
qed

section \<open>The gate of a target\<close>

text \<open>\<^verbatim>\<open>s.encode()\<close> of a text within Latin-1.\<close>

definition utf8_encode :: "string \<Rightarrow> string" where
  "utf8_encode s = concat (map (\<lambda>c. let n = of_char c :: nat in
     if n < 128 then [c] else [char_of (192 + n div 64), char_of (128 + n mod 64)]) s)"

definition file_name :: "string \<Rightarrow> string" where
  "file_name p = (case rev (path_parts p) of [] \<Rightarrow> [] | w # _ \<Rightarrow> w)"

text \<open>\<^verbatim>\<open>str((Path(name) if Path(name).is_absolute() else Path(evidence["input"]["cwd"]) / name).resolve())\<close>\<close>

definition resolved_name :: "host \<Rightarrow> py \<Rightarrow> string \<Rightarrow> string res" where
  "resolved_name h evidence name =
     (if is_absolute name then Inr (resolve h (path_str name))
      else bind_res (pindex evidence ''input'') (\<lambda>i. bind_res (pindex i ''cwd'') (\<lambda>c. bind_res (need_str c) (\<lambda>cwd.
           Inr (resolve h (path_join cwd name))))))"

definition same_paths :: "host \<Rightarrow> py \<Rightarrow> string list \<Rightarrow> py \<Rightarrow> string \<Rightarrow> unit res" where
  "same_paths h evidence names rows reason =
     bind_res (mapM (resolved_name h evidence) names) (\<lambda>found.
     bind_res (items_of rows) (\<lambda>rs. bind_res (mapM (\<lambda>row. pindex row ''absolute_path'') rs) (\<lambda>recorded.
     bind_res (id_set (PList recorded)) (\<lambda>ids. require (same_ids (map PStr found) ids) reason))))"

definition consumed_sources :: "py \<Rightarrow> string list res" where
  "consumed_sources raw_audit =
     bind_res (pget raw_audit ''sources'') (\<lambda>v. (case v of
        PDict sources \<Rightarrow>
          bind_res (require (sources \<noteq> [] \<and> list_all (\<lambda>(k, x). case x of PStr s \<Rightarrow> is_hex 32 s | _ \<Rightarrow> False) sources)
            ''invalid raw consumed-source audit'') (\<lambda>_. Inr (keys sources))
      | _ \<Rightarrow> Inl (replay_error ''invalid raw consumed-source audit'')))"

definition dependency_names :: "string \<Rightarrow> string list res" where
  "dependency_names text =
     (let joined = replace_all [CHR 0x5C, CHR 0x0A] [] text in
      bind_res (require (starts_with ''fragma:'' joined) ''unexpected compiler dependency target'') (\<lambda>_.
      shlex_split (replace_all ''$$'' ''$'' (after CHR '':'' joined))))"

text \<open>Files the analyzer generates get an alias that names the target, their kind and their digest.\<close>

definition is_ppannot :: "string \<Rightarrow> bool" where
  "is_ppannot name =
     (starts_with ''ppannot'' name \<and> ends_with ''.c'' name \<and> length name > length ''ppannot.c''
      \<and> list_all is_lhex (take (length name - length ''ppannot.c'') (drop (length ''ppannot'') name)))"

definition generated_kind :: "string \<Rightarrow> string option" where
  "generated_kind name =
     (if name \<in> {''__fc_builtin_macros.h'', ''__fc_machdep.h''} then Some name
      else if is_ppannot name then Some ''ppannot.c'' else None)"

definition add_alias :: "string \<Rightarrow> string \<Rightarrow> py \<Rightarrow> (view_state, unit) prog" where
  "add_alias identifier path sha = (case generated_kind (file_name path) of
     None \<Rightarrow> sreturn ()
   | Some kind \<Rightarrow> sbind (slift (need_str sha)) (\<lambda>d. sdo (\<lambda>s. s\<lparr>vs_mapper := (vs_mapper s)\<lparr>mp_aliases :=
       AList.update path (''generated:'' @ identifier @ '':'' @ kind @ '':'' @ d) (mp_aliases (vs_mapper s))\<rparr>\<rparr>)))"

definition retained_row :: "string \<Rightarrow> py \<Rightarrow> (string \<times> py) list \<Rightarrow> (string \<times> py) res" where
  "retained_row directory row seen =
     bind_res (pindex row ''absolute_path'') (\<lambda>p. bind_res (need_str p) (\<lambda>p0.
     (let path = path_str p0 in
      bind_res (if is_relative_to path (path_join directory ''tmp'')
                then bind_res (pindex row ''path'') (\<lambda>r. Inr (r = PStr (relative_posix path directory))) else Inr False) (\<lambda>ok.
      bind_res (require ok ''retained preprocessor path escapes target'') (\<lambda>_.
      bind_res (require (map_of seen path = None) ''duplicate retained preprocessor artifact'') (\<lambda>_.
      bind_res (pindex row ''sha256'') (\<lambda>sha. Inr (path, sha))))))))"

fun read_artifacts :: "host \<Rightarrow> tools \<Rightarrow> string \<Rightarrow> string \<Rightarrow> (string \<times> py) list \<Rightarrow> py list \<Rightarrow> (view_state, (string \<times> py) list) prog" where
  "read_artifacts h os identifier directory seen [] = sreturn seen"
| "read_artifacts h os identifier directory seen (row # rows) =
     sbind (slift (retained_row directory row seen)) (\<lambda>(path, sha).
     sbind (read_retained h os path sha) (\<lambda>_.
     sbind (add_alias identifier path sha) (\<lambda>_.
     read_artifacts h os identifier directory (seen @ [(path, sha)]) rows)))"

definition read_preprocessing ::
  "host \<Rightarrow> tools \<Rightarrow> (string \<Rightarrow> string list) \<Rightarrow> string \<Rightarrow> string \<Rightarrow> py \<Rightarrow> (view_state, (string \<times> py) list) prog" where
  "read_preprocessing h os below identifier directory audit =
     sbind (slift (pindex audit ''retained_preprocessing'')) (\<lambda>v.
     sbind (slift (case v of PList (row # rows) \<Rightarrow> Inr (row # rows)
                   | _ \<Rightarrow> Inl (replay_error ''missing actual preprocessor artifacts''))) (\<lambda>rows.
     sbind (read_artifacts h os identifier directory [] rows) (\<lambda>retained.
     sbind (slift (require (set (map fst retained) = set (below (path_join directory ''tmp'')))
        ''retained preprocessor inventory incomplete'')) (\<lambda>_.
     sreturn retained))))"

text \<open>\<^verbatim>\<open>row["absolute_path"] in retained_paths\<close> and \<^verbatim>\<open>row["path"].endswith(".pp")\<close>\<close>

definition retained_path :: "(string \<times> py) list \<Rightarrow> py \<Rightarrow> (string \<times> py) res" where
  "retained_path retained v = (case v of
     PStr p \<Rightarrow> (case map_of retained p of
         None \<Rightarrow> Inl (replay_error ''actual parsed stream not bound to retained artifact'') | Some sha \<Rightarrow> Inr (p, sha))
   | PList _ \<Rightarrow> Inl (Exn TypeError ''unhashable type'') | PDict _ \<Rightarrow> Inl (Exn TypeError ''unhashable type'')
   | _ \<Rightarrow> Inl (replay_error ''actual parsed stream not bound to retained artifact''))"

definition is_stream_name :: "py \<Rightarrow> bool res" where
  "is_stream_name v = (case v of PStr name \<Rightarrow> Inr (ends_with ''.pp'' name) | _ \<Rightarrow> Inl (Exn AttributeError ''endswith''))"

definition stream_file :: "(string \<times> py) list \<Rightarrow> py \<Rightarrow> (string \<times> string \<times> py) res" where
  "stream_file retained row =
     bind_res (pindex row ''absolute_path'') (\<lambda>a. bind_res (retained_path retained a) (\<lambda>(p, sha).
     bind_res (pindex row ''sha256'') (\<lambda>claimed.
     bind_res (if py_eq claimed sha then bind_res (pindex row ''path'') is_stream_name else Inr False) (\<lambda>ok.
     bind_res (require ok ''actual parsed stream not bound to retained artifact'') (\<lambda>_.
     bind_res (pindex row ''source'') (\<lambda>s. bind_res (need_str s) (\<lambda>source. Inr (source, p, claimed))))))))"

definition stream_hash :: "host \<Rightarrow> tools \<Rightarrow> (string \<times> py) list \<Rightarrow> py \<Rightarrow> (view_state, string \<times> string) prog" where
  "stream_hash h os retained row =
     sbind (slift (stream_file retained row)) (\<lambda>(source, p, sha).
     sbind (read_retained h os p sha) (\<lambda>s.
     sbind (sget vs_mapper) (\<lambda>m.
     slift (bind_res (normalize_linemarkers s m) (\<lambda>out. Inr (source, sha256_hex h (utf8_encode out)))))))"

definition expected_sources :: "py \<Rightarrow> py list res" where
  "expected_sources target = bind_res (mapM (\<lambda>k. pget target k) [''harness'', ''driver'']) (\<lambda>vs. Inr (filter truthy vs))"

definition read_streams :: "host \<Rightarrow> tools \<Rightarrow> py \<Rightarrow> py \<Rightarrow> (string \<times> py) list \<Rightarrow> (view_state, (string \<times> string) list) prog" where
  "read_streams h os target audit retained =
     sbind (slift (pindex audit ''parsed_streams'')) (\<lambda>v.
     sbind (slift (expected_sources target)) (\<lambda>sources.
     sbind (slift (bind_res (items_of v) (\<lambda>rows. bind_res (mapM (\<lambda>row. pindex row ''source'') rows) (\<lambda>named.
        bind_res (require (list_eq named sources) ''parsed stream/source inventory differs'') (\<lambda>_. Inr rows))))) (\<lambda>rows.
     smapM (stream_hash h os retained) rows)))"

text \<open>The receipt of a target: its saved copy, its gates, its inputs.\<close>

definition check_shared :: "receipt list \<Rightarrow> receipt list \<Rightarrow> unit res" where
  "check_shared shared hashes =
     allM (\<lambda>(f, d). require (map_of hashes f = None \<or> map_of hashes f = Some d) ''shared/target input hash conflict'') shared"

definition receipt_hashes :: "receipt list \<Rightarrow> py \<Rightarrow> receipt list res" where
  "receipt_hashes shared evidence =
     bind_res (pindex evidence ''provenance'') (\<lambda>provenance. bind_res (pget provenance ''passed'') (\<lambda>passed.
     bind_res (if passed = PBool True then bind_res (pget evidence ''changed_inputs'') (\<lambda>c. Inr (\<not> truthy c)) else Inr False) (\<lambda>ok.
     bind_res (require ok ''source/integrity gate failed'') (\<lambda>_.
     bind_res (pindex evidence ''integrity_inputs'') (\<lambda>v. bind_res (hash_records v) (\<lambda>hashes.
     bind_res (check_shared shared hashes) (\<lambda>_. Inr hashes)))))))"

definition check_audit :: "host \<Rightarrow> py \<Rightarrow> py \<Rightarrow> unit res" where
  "check_audit h raw audit =
     bind_res (require (truthy raw) ''analyzer parameter audit differs'') (\<lambda>_.
     bind_res (without_sources raw) (\<lambda>parameters. bind_res (pindex audit ''parameters'') (\<lambda>saved.
     same_digest h parameters saved ''analyzer parameter audit differs'')))"

definition target_policy :: "run_evidence \<Rightarrow> string \<Rightarrow> py \<Rightarrow> pydict res" where
  "target_policy ev project evidence =
     bind_res (target_of evidence ''profile'') (\<lambda>profile.
     bind_res (case profile of PStr s \<Rightarrow> ditem (re_models ev) s | _ \<Rightarrow> Inl (Exn KeyError ''profile'')) (\<lambda>model.
     bind_res (pindex evidence ''target'') (\<lambda>target. bind_res (entries_of evidence) (\<lambda>e.
     analysis_policy_observation model target e (re_shared ev) project))))"

record target_evidence =
  te_id :: string
  te_hashes :: "receipt list"
  te_policy :: pydict
  te_consumed :: "string list"
  te_retained :: "(string \<times> py) list"
  te_streams :: "(string \<times> string) list"

definition target_gate ::
  "host \<Rightarrow> tools \<Rightarrow> json_loads \<Rightarrow> (string \<Rightarrow> string list) \<Rightarrow> string \<Rightarrow> string \<Rightarrow> run_evidence \<Rightarrow> py \<Rightarrow> (view_state, target_evidence) prog" where
  "target_gate h os loads below run project ev evidence =
     sbind (slift (bind_res (target_of evidence ''id'') need_str)) (\<lambda>identifier.
     (let directory = path_join run identifier in
      sbind (read_document h os loads (path_join directory ''result.json'')) (\<lambda>saved.
      sbind (slift (same_digest h saved evidence ''target receipt differs from summary'')) (\<lambda>_.
      sbind (slift (receipt_hashes (re_shared ev) evidence)) (\<lambda>hashes.
      sbind (sfor (\<lambda>(f, d). if is_relative_to f run then sbind (read_bytes h f (PStr d)) (\<lambda>_. sreturn ()) else sreturn ()) hashes) (\<lambda>_.
      sbind (slift (pindex evidence ''analyzer_audit'')) (\<lambda>audit.
      sbind (slift (pindex audit ''path'')) (\<lambda>p. sbind (slift (pindex audit ''sha256'')) (\<lambda>sha.
      sbind (sbind (read_value h os p sha) (\<lambda>s. slift (strict_json loads s))) (\<lambda>raw.
      sbind (slift (check_audit h raw audit)) (\<lambda>_.
      sbind (slift (target_policy ev project evidence)) (\<lambda>policy.
      sbind (slift (bind_res (consumed_sources raw) (\<lambda>names. bind_res (pindex audit ''inputs'') (\<lambda>rows.
               bind_res (same_paths h evidence names rows ''raw consumed-source inventory differs'') (\<lambda>_. Inr names))))) (\<lambda>consumed.
      sbind (read_retained h os (path_join directory ''headers.d'') PNone) (\<lambda>deps.
      sbind (slift (bind_res (dependency_names deps) (\<lambda>names. bind_res (pindex evidence ''input'') (\<lambda>i. bind_res (pindex i ''inputs'') (\<lambda>rows.
               same_paths h evidence names rows ''compiler dependency inventory differs''))))) (\<lambda>_.
      sbind (read_preprocessing h os below identifier directory audit) (\<lambda>retained.
      sbind (slift (pindex evidence ''target'')) (\<lambda>target.
      sbind (read_streams h os target audit retained) (\<lambda>streams.
      sreturn \<lparr>te_id = identifier, te_hashes = hashes, te_policy = policy, te_consumed = consumed, te_retained = retained,
        te_streams = streams\<rparr>))))))))))))))))))"

section \<open>What the gate of a target establishes\<close>

lemma sfor_step: "sfor f xs s = (Inr u, t) \<Longrightarrow> x \<in> set xs \<Longrightarrow> \<exists>s1 s2. f x s1 = (Inr (), s2)"
  by (induction xs arbitrary: s) (auto simp: sbind_Inr)

lemma keeps_add_alias [intro, simp]: "keeps (artifacts_true h) (add_alias i p sha)"
  unfolding add_alias_def by (cases "generated_kind (file_name p)") (auto simp: artifacts_true_def intro!: keeps_sbind keeps_sdo)

lemma keeps_read_artifacts [intro, simp]: "keeps (artifacts_true h) (read_artifacts h os i directory seen rows)"
proof (induction rows arbitrary: seen)
  case (Cons row rows)
  show ?case
    unfolding read_artifacts.simps
    by (rule keeps_sbind, rule keeps_slift, rule keeps_prod) (intro keeps_sbind keeps_read keeps_add_alias Cons)
qed simp

lemma keeps_read_preprocessing [intro, simp]:
  "keeps (artifacts_true h) (read_preprocessing h os below i directory audit)"
  unfolding read_preprocessing_def by (intro keeps_sbind keeps_slift keeps_read_artifacts)

lemma keeps_stream_hash: "keeps (artifacts_true h) (stream_hash h os retained row)"
  unfolding stream_hash_def by (rule keeps_sbind, rule keeps_slift) (intro keeps_prod keeps_sbind keeps_slift keeps_read keeps_sget)

lemma keeps_read_streams [intro, simp]: "keeps (artifacts_true h) (read_streams h os target audit retained)"
  unfolding read_streams_def by (intro keeps_sbind keeps_slift keeps_smapM keeps_stream_hash)

lemma keeps_target_gate: "keeps (artifacts_true h) (target_gate h os loads below run project ev evidence)"
  unfolding target_gate_def Let_def
  by (intro keeps_sbind keeps_slift keeps_read keeps_prod keeps_sfor keeps_if keeps_read_bytes keeps_read_preprocessing
      keeps_read_streams)

definition retained_ok :: "host \<Rightarrow> string \<times> py \<Rightarrow> bool" where
  "retained_ok h r = (case r of (p, sha) \<Rightarrow> p = path_str p \<and> \<not> is_symlink h p
     \<and> (\<exists>d. file_sha256 h p = Some d \<and> (sha = PNone \<or> sha = PStr d)))"

lemma read_artifacts_Inr:
  "read_artifacts h os i directory seen rows s = (Inr retained, s') \<Longrightarrow> list_all (retained_ok h) seen \<Longrightarrow>
   distinct (map fst seen) \<Longrightarrow> list_all (retained_ok h) retained \<and> distinct (map fst retained)"
proof (induction rows arbitrary: seen s)
  case (Cons row rows)
  from Cons.prems(1) obtain p sha s1 s2 x where r: "retained_row directory row seen = Inr (p, sha)"
      "read_retained h os p sha s = (Inr x, s1)"
      "read_artifacts h os i directory (seen @ [(p, sha)]) rows s2 = (Inr retained, s')"
    by (auto simp: sbind_Inr slift_eq)
  from r(1) have new: "p = path_str p" "map_of seen p = None"
    by (auto simp: retained_row_def Let_def bind_res_Inr check_iff)
  from r(2) new(1) have "retained_ok h (p, sha)"
    by (auto simp: read_retained_def sbind_Inr read_bytes_Inr retained_digest_Inr retained_ok_def)
  with Cons.IH [OF r(3)] Cons.prems(2,3) new(2) show ?case by (auto simp: map_of_eq_None_iff)
qed (auto simp: slift_eq)

lemma read_preprocessing_Inr:
  assumes "read_preprocessing h os below i directory audit s = (Inr retained, s')"
  shows "list_all (retained_ok h) retained \<and> distinct (map fst retained)
    \<and> set (map fst retained) = set (below (path_join directory ''tmp''))"
proof -
  from assms obtain rows t t' where a: "read_artifacts h os i directory [] rows t = (Inr retained, t')"
    and b: "set (map fst retained) = set (below (path_join directory ''tmp''))"
    unfolding read_preprocessing_def sbind_Inr slift_eq check_iff by (elim exE conjE) (rule that; simp)
  with read_artifacts_Inr [OF a] show ?thesis by simp
qed

definition stream_bound :: "host \<Rightarrow> tools \<Rightarrow> (string \<times> py) list \<Rightarrow> string \<times> string \<Rightarrow> bool" where
  "stream_bound h os retained r = (case r of (source, d) \<Rightarrow> \<exists>p sha text m out. (p, sha) \<in> set retained
     \<and> text_file h os (path_str p) = Inr text \<and> normalize_linemarkers text m = Inr out \<and> d = sha256_hex h (utf8_encode out))"

lemma stream_hash_Inr: "stream_hash h os retained row s = (Inr r, s') \<Longrightarrow> stream_bound h os retained r"
proof -
  assume "stream_hash h os retained row s = (Inr r, s')"
  then obtain source p sha content m out where f: "stream_file retained row = Inr (source, p, sha)"
      and t: "text_file h os (path_str p) = Inr content" "normalize_linemarkers content m = Inr out"
      and r: "r = (source, sha256_hex h (utf8_encode out))"
    unfolding stream_hash_def sbind_Inr slift_eq
    by (auto simp: read_retained_def sbind_Inr slift_eq read_bytes_Inr sget_eq bind_res_Inr)
  have path: "retained_path retained v = Inr (p, sha') \<longleftrightarrow> v = PStr p \<and> map_of retained p = Some sha'" for v sha'
    by (cases v) (auto simp: retained_path_def split: option.splits)
  from f obtain sha' where "map_of retained p = Some sha'"
    unfolding stream_file_def bind_res_Inr by (auto simp: path bind_res_Inr)
  then have "(p, sha') \<in> set retained" by (rule map_of_SomeD)
  with t r show ?thesis unfolding stream_bound_def by blast
qed

lemma smapM_set: "smapM f xs s = (Inr ys, s') \<Longrightarrow> y \<in> set ys \<Longrightarrow> \<exists>x t t'. f x t = (Inr y, t')"
  by (induction xs arbitrary: s ys) (fastforce simp: sbind_Inr slift_eq)+

lemma read_streams_Inr:
  assumes "read_streams h os target audit retained s = (Inr streams, s')" and "r \<in> set streams"
  shows "stream_bound h os retained r"
proof -
  from assms(1) obtain rows t t' where "smapM (stream_hash h os retained) rows t = (Inr streams, t')"
    unfolding read_streams_def sbind_Inr by blast
  from smapM_set [OF this assms(2)] stream_hash_Inr show ?thesis by blast
qed

lemma check_shared_Inr: "check_shared shared hashes = Inr u \<Longrightarrow> (f, d) \<in> set shared \<Longrightarrow> map_of hashes f \<in> {None, Some d}"
  by (fastforce simp: check_shared_def allM_iff check_iff)

lemma sbind_InrE:
  assumes "sbind m f s = (Inr y, s')"
  obtains x s1 where "m s = (Inr x, s1)" "f x s1 = (Inr y, s')"
  using assms by (auto simp: sbind_Inr)

lemma read_bytes_step:
  "(if is_relative_to f run then sbind (read_bytes h f (PStr d)) (\<lambda>_. sreturn ()) else sreturn ()) s = (Inr u, s')
     \<Longrightarrow> is_relative_to f run \<Longrightarrow> file_sha256 h (path_str f) = Some d \<and> \<not> is_symlink h (path_str f)"
  by (auto simp: sbind_Inr slift_eq read_bytes_Inr retained_digest_Inr)

lemma receipt_hashes_Inr:
  "receipt_hashes shared evidence = Inr hashes \<Longrightarrow> \<forall>(f, d)\<in>set shared. map_of hashes f \<in> {None, Some d}"
  by (auto simp: receipt_hashes_def bind_res_Inr dest: check_shared_Inr)

lemma target_gate_Inr:
  assumes "target_gate h os loads below run project ev evidence s = (Inr te, s')"
  obtains t1 t2 a u1 u2 v1 v2 target where
    "target_of evidence ''id'' = Inr (PStr (te_id te))"
    "receipt_hashes (re_shared ev) evidence = Inr (te_hashes te)"
    "sfor (\<lambda>(f, d). if is_relative_to f run then sbind (read_bytes h f (PStr d)) (\<lambda>_. sreturn ()) else sreturn ()) (te_hashes te) t1 = (Inr (), t2)"
    "read_preprocessing h os below (te_id te) (path_join run (te_id te)) a u1 = (Inr (te_retained te), u2)"
    "read_streams h os target a (te_retained te) v1 = (Inr (te_streams te), v2)"
proof -
  from assms obtain i t1 t2 a u1 u2 v1 v2 target c where
    "bind_res (target_of evidence ''id'') need_str = Inr i"
    "receipt_hashes (re_shared ev) evidence = Inr (te_hashes te)"
    "sfor (\<lambda>(f, d). if is_relative_to f run then sbind (read_bytes h f (PStr d)) (\<lambda>_. sreturn ()) else sreturn ()) (te_hashes te) t1 = (Inr c, t2)"
    "read_preprocessing h os below i (path_join run i) a u1 = (Inr (te_retained te), u2)"
    "read_streams h os target a (te_retained te) v1 = (Inr (te_streams te), v2)" "te_id te = i"
    unfolding target_gate_def Let_def
    by (elim sbind_InrE) (simp add: slift_eq, rule that; (assumption | force))
  then show ?thesis by (intro that) (auto simp: bind_res_Inr need_str_Inr)
qed


text \<open>One target with one parsed stream, whose current analysis policy is checked again.\<close>

definition gate_target :: py where
  "gate_target = (case sample_target of PDict d \<Rightarrow>
     PDict ([(''id'', PStr ''t''), (''profile'', PStr ''x''), (''harness'', PStr ''m.c'')] @ d) | v \<Rightarrow> v)"

definition gate_row :: py where
  "gate_row = PDict [(''absolute_path'', PStr ''/r/t/tmp/m.pp''), (''path'', PStr ''tmp/m.pp''), (''sha256'', PStr ''h''),
     (''source'', PStr ''m.c'')]"

definition gate_inputs :: py where
  "gate_inputs = PList [PDict [(''absolute_path'', PStr ''/k/m.c'')]]"

definition gate_evidence :: py where
  "gate_evidence = PDict ([(''target'', gate_target), (''provenance'', PDict [(''passed'', PBool True)]),
     (''integrity_inputs'', PList []), (''input'', PDict [(''cwd'', PStr ''/k''), (''inputs'', gate_inputs)]),
     (''analyzer_audit'', PDict [(''path'', PStr ''/r/t/audit.json''), (''sha256'', PStr ''h''), (''parameters'', sample_audit),
        (''inputs'', gate_inputs), (''retained_preprocessing'', PList [gate_row]), (''parsed_streams'', PList [gate_row])])]
     @ policy_evidence)"

definition gate_run :: run_evidence where
  "gate_run = \<lparr>re_summary = [], re_names = [''t''], re_records = [gate_evidence], re_tools = PNone,
     re_models = [(''x'', policy_model_receipt)], re_shared = [(''/p/fragma/analysis_policy.py'', replicate 64 CHR ''a'')],
     re_inventory = [], re_identities = []\<rparr>"

definition gate_host :: host where
  "gate_host = view_host\<lparr>sha256_hex := (\<lambda>_. ''h''), contents := (\<lambda>p. if p = ''/r/t/result.json'' then Some ''E''
     else if p = ''/r/t/audit.json'' then Some ''A'' else if p = ''/r/t/headers.d'' then Some ''fragma: m.c''
     else if p = ''/r/t/tmp/m.pp'' then Some ''int x;'' else None)\<rparr>"

definition gate_loads :: json_loads where
  "gate_loads s = Some (if s = ''E'' then PDict [] else PDict [(''sources'', PDict [(''/k/m.c'', PStr (replicate 32 CHR ''0''))])])"

definition gate_sample :: "target_evidence res \<times> view_state" where
  "gate_sample = target_gate gate_host run_tools gate_loads (\<lambda>d. if d = ''/r/t/tmp'' then [''/r/t/tmp/m.pp''] else [])
     ''/r'' ''/p'' gate_run gate_evidence run_start"

lemma gate_sample_passes:
  "case gate_sample of (Inr te, s) \<Rightarrow> te_streams te = [(''m.c'', ''h'')] \<and> dget (te_policy te) ''status'' = PStr ''checked'' | _ \<Rightarrow> False"
  by code_simp


end
