(* ===== verification/Concurrency_C0.thy ===== *)
theory Concurrency_C0
  imports Concurrency_Check Provenance
begin

text \<open>
  \<^verbatim>\<open>fragma/concurrency.py\<close>: the C0 calibration of Mthread with Eva. First the labelled assertions of
  a fixture (\<^verbatim>\<open>assertion_lines\<close>), the manifest (\<^verbatim>\<open>load_manifest\<close>), the analyzer's report in CSV
  (\<^verbatim>\<open>parse_report_csv\<close>, over a model of \<^verbatim>\<open>csv.DictReader\<close>) and its log (\<^verbatim>\<open>parse_race_sections\<close>,
  \<^verbatim>\<open>parse_diagnostics\<close>); then the evaluation of one case and of the suite (\<^verbatim>\<open>evaluate_case\<close>,
  \<^verbatim>\<open>run_c0\<close>), with the processes as an argument. A parsed JSON document stands for the manifest's
  text, and a field beyond the length limit of the \<^verbatim>\<open>csv\<close> module is not represented.
\<close>

abbreviation c0_error :: "string \<Rightarrow> exn" where
  "c0_error m \<equiv> Exn ConcurrencyError m"

section \<open>Assertions of a fixture\<close>

text \<open>\<^verbatim>\<open>/\*@\s*assert\s+([A-Za-z_][A-Za-z_0-9]*):\<close> at the front of a text.\<close>

definition assertion_at :: "string \<Rightarrow> string option" where
  "assertion_at s =
     (if \<not> starts_with ''/*@'' s then None
      else let r = dropWhile is_space (drop 3 s) in
        if \<not> starts_with ''assert'' r then None
        else let r1 = drop 6 r; r2 = dropWhile is_space r1; label = takeWhile is_ident_char r2 in
          if r1 \<noteq> r2 \<and> is_ident label \<and> starts_with '':'' (drop (length label) r2) then Some label else None)"

fun find_assertion :: "string \<Rightarrow> string option" where
  "find_assertion [] = None"
| "find_assertion (c # s) = (case assertion_at (c # s) of Some l \<Rightarrow> Some l | None \<Rightarrow> find_assertion s)"

definition assertion_step :: "(nat \<times> string) list \<Rightarrow> nat \<times> string \<Rightarrow> (nat \<times> string) list res" where
  "assertion_step found row = (case find_assertion (snd row) of
     None \<Rightarrow> Inr found
   | Some label \<Rightarrow>
       if label \<in> snd ` set found then Inl (c0_error ''duplicate assertion label'') else Inr (found @ [(fst row, label)]))"

definition assertion_lines :: "string \<Rightarrow> (nat \<times> string) list res" where
  "assertion_lines text = foldM assertion_step [] (enumerate 1 (splitlines text))"



section \<open>The manifest\<close>

definition c0_path :: "host \<Rightarrow> string \<Rightarrow> py \<Rightarrow> string res" where
  "c0_path h project v = (case v of
     PStr s \<Rightarrow>
       if is_absolute s \<or> ''..'' \<in> set (path_parts s) \<or> path_parts s = []
       then Inl (c0_error ''must be a project-relative path'')
       else (let p = path_join project (join ''/'' (path_parts s)) in
         if \<not> is_file h p \<or> is_symlink h p then Inl (c0_error ''is missing or not a regular file'') else Inr p)
   | _ \<Rightarrow> Inl (Exn TypeError ''PurePosixPath''))"

definition is_case_id :: "string \<Rightarrow> bool" where
  "is_case_id s = (case s of [] \<Rightarrow> False | c # t \<Rightarrow> is_lower c \<and> list_all (\<lambda>c. is_lower c \<or> is_digit c \<or> c = CHR ''_'') t)"

definition check_group :: "host \<Rightarrow> string \<Rightarrow> pydict \<Rightarrow> string \<Rightarrow> unit res" where
  "check_group h project provider grp = (case dget provider grp of
     PList vs \<Rightarrow>
       if vs = [] then Inl (c0_error ''provider group must be nonempty'')
       else allM (\<lambda>v. bind_res (c0_path h project v) (\<lambda>_. Inr ())) vs
   | _ \<Rightarrow> Inl (c0_error ''provider group must be nonempty''))"

definition check_expected :: "py \<Rightarrow> string set \<Rightarrow> unit res" where
  "check_expected v labels = (case v of
     PDict d \<Rightarrow>
       bind_res (check (set (keys d) = labels) (c0_error ''expected assertions do not match source labels'')) (\<lambda>_.
       check (list_all (\<lambda>(k, x). x \<in> {PStr ''valid'', PStr ''invalid'', PStr ''unknown''}) d)
         (c0_error ''has invalid expected assertion status''))
   | _ \<Rightarrow> Inl (c0_error ''expected assertions do not match source labels''))"

definition check_races :: "py \<Rightarrow> unit res" where
  "check_races v = (case v of
     PDict d \<Rightarrow>
       bind_res (check (set (keys d) = {''read_write'', ''write_write''}) (c0_error ''requires both race expectations'')) (\<lambda>_.
       check (list_all (\<lambda>(k, x). is_bool x) d) (c0_error ''race expectations must be boolean''))
   | _ \<Rightarrow> Inl (c0_error ''requires both race expectations''))"

definition check_case :: "host \<Rightarrow> tools \<Rightarrow> string \<Rightarrow> string list \<Rightarrow> py \<Rightarrow> string list res" where
  "check_case h os project seen v = (case v of
     PDict c \<Rightarrow>
       (case dget c ''id'' of
          PStr ident \<Rightarrow>
            bind_res (check (is_case_id ident) (c0_error ''invalid C0 case id'')) (\<lambda>_.
            bind_res (check (ident \<notin> set seen) (c0_error ''duplicate C0 case id'')) (\<lambda>_.
            bind_res (c0_path h project (dget_or c ''source'' (PStr []))) (\<lambda>source.
            bind_res (text_file h os source) (\<lambda>text.
            bind_res (assertion_lines text) (\<lambda>found.
            bind_res (check_expected (dget c ''expected_assertions'') (snd ` set found)) (\<lambda>_.
            bind_res (check (dget c ''thread_library'' \<in> {PStr ''pthreads'', PStr ''builtins-only''})
              (c0_error ''has invalid thread library'')) (\<lambda>_.
            bind_res (check_races (dget c ''expected_unprotected_races'')) (\<lambda>_. Inr (seen @ [ident])))))))))
        | _ \<Rightarrow> Inl (c0_error ''invalid C0 case id''))
   | _ \<Rightarrow> Inl (c0_error ''invalid C0 case id''))"

definition load_c0 :: "host \<Rightarrow> tools \<Rightarrow> string \<Rightarrow> py \<Rightarrow> pydict res" where
  "load_c0 h os project v = (case v of
     PDict m \<Rightarrow>
       bind_res (check (py_eq (dget m ''schema_version'') (PInt 1)) (c0_error ''unsupported concurrency C0 schema'')) (\<lambda>_.
       (case (dget m ''provider'', dget m ''cases'') of
          (PDict provider, PList cases) \<Rightarrow>
            bind_res (check (cases \<noteq> []) (c0_error ''C0 manifest requires provider and nonempty cases'')) (\<lambda>_.
            bind_res (c0_path h project (dget_or provider ''binary'' (PStr []))) (\<lambda>_.
            bind_res (allM (check_group h project provider) [''model_files'', ''implementation_files'']) (\<lambda>_.
            bind_res (foldM (check_case h os project) [] cases) (\<lambda>_. Inr m))))
        | _ \<Rightarrow> Inl (c0_error ''C0 manifest requires provider and nonempty cases'')))
   | _ \<Rightarrow> Inl (Exn AttributeError ''get''))"

section \<open>The report\<close>

text \<open>
  \<^verbatim>\<open>csv.reader(stream, delimiter="\t")\<close>: its state, the fields of the record read so far (last
  first) and the characters of the current field (last first).
\<close>

datatype csv_state = StartRecord | StartField | InField | InQuoted | QuoteInQuoted

definition is_newline :: "char \<Rightarrow> bool" where
  "is_newline c = (c = CHR 0x0A \<or> c = CHR 0x0D)"

text \<open>The text after a line break.\<close>

definition after_break :: "char \<Rightarrow> string \<Rightarrow> string" where
  "after_break c s = (if c = CHR 0x0D \<and> starts_with [CHR 0x0A] s then drop 1 s else s)"

function csv_rows :: "csv_state \<Rightarrow> string list \<Rightarrow> string \<Rightarrow> string \<Rightarrow> string list list" where
  "csv_rows st fs acc [] =
     (if st = StartRecord then [] else [rev (rev acc # fs)])"
| "csv_rows StartRecord fs acc (c # s) =
     (if is_newline c then [] # csv_rows StartRecord [] [] (after_break c s) else csv_rows StartField [] [] (c # s))"
| "csv_rows StartField fs acc (c # s) =
     (if is_newline c then rev ([] # fs) # csv_rows StartRecord [] [] (after_break c s)
      else if c = CHR 0x22 then csv_rows InQuoted fs [] s
      else if c = CHR 0x09 then csv_rows StartField ([] # fs) [] s
      else csv_rows InField fs [c] s)"
| "csv_rows InField fs acc (c # s) =
     (if is_newline c then rev (rev acc # fs) # csv_rows StartRecord [] [] (after_break c s)
      else if c = CHR 0x09 then csv_rows StartField (rev acc # fs) [] s
      else csv_rows InField fs (c # acc) s)"
| "csv_rows InQuoted fs acc (c # s) =
     (if c = CHR 0x22 then csv_rows QuoteInQuoted fs acc s else csv_rows InQuoted fs (c # acc) s)"
| "csv_rows QuoteInQuoted fs acc (c # s) =
     (if c = CHR 0x22 then csv_rows InQuoted fs (c # acc) s
      else if c = CHR 0x09 then csv_rows StartField (rev acc # fs) [] s
      else if is_newline c then rev (rev acc # fs) # csv_rows StartRecord [] [] (after_break c s)
      else csv_rows InField fs (c # acc) s)"
  by pat_completeness auto
termination
  by (relation "measures [\<lambda>(st, fs, acc, s). length s, \<lambda>(st, fs, acc, s). if st = StartRecord then 1 else 0]")
     (auto simp: after_break_def)

text \<open>\<^verbatim>\<open>row[k]\<close> of a \<^verbatim>\<open>csv.DictReader\<close>: the last column of that name, \<open>None\<close> beyond a short row.\<close>

definition column :: "exn \<Rightarrow> string list \<Rightarrow> string list \<Rightarrow> string \<Rightarrow> string res" where
  "column missing names row k = (case filter (\<lambda>i. names ! i = k) [0..<length names] of
     [] \<Rightarrow> Inl (Exn KeyError k)
   | is \<Rightarrow> if last is < length row then Inr (row ! last is) else Inl missing)"

text \<open>\<^verbatim>\<open>row[k].strip()\<close>\<close>

definition stripped :: "string list \<Rightarrow> string list \<Rightarrow> string \<Rightarrow> string res" where
  "stripped names row k = bind_res (column (Exn AttributeError ''strip'') names row k) (\<lambda>s. Inr (strip s))"

definition NORMAL_STATUS :: "(string \<times> string) list" where
  "NORMAL_STATUS = [(''valid'', ''valid''), (''invalid'', ''invalid''), (''invalid or unreachable'', ''invalid''), (''unknown'', ''unknown'')]"

definition path_name :: "string \<Rightarrow> string" where
  "path_name p = (case path_parts p of [] \<Rightarrow> [] | ps \<Rightarrow> last ps)"

record c0_report =
  rp_assertions :: "(string \<times> string) list"
  rp_considered :: nat
  rp_rows :: nat

definition report_label :: "(nat \<times> string) list \<Rightarrow> string \<Rightarrow> string list \<Rightarrow> string list \<Rightarrow> string res" where
  "report_label lines source_name names row =
     bind_res (stripped names row ''file'') (\<lambda>file.
     bind_res (check (path_name file = source_name) (c0_error ''report assertion belongs to another file'')) (\<lambda>_.
     bind_res (column (Exn TypeError ''int'') names row ''line'') (\<lambda>line.
     (case py_int line of
        None \<Rightarrow> Inl (c0_error ''invalid assertion line'')
      | Some n \<Rightarrow>
          (case (if n < 0 then None else map_of lines (nat n)) of
             None \<Rightarrow> Inl (c0_error ''report assertion has no source label'')
           | Some label \<Rightarrow> Inr label)))))"

definition report_step ::
  "(nat \<times> string) list \<Rightarrow> string \<Rightarrow> string list \<Rightarrow> c0_report \<Rightarrow> string list \<Rightarrow> c0_report res" where
  "report_step lines source_name names r row =
     bind_res (stripped names row ''status'') (\<lambda>status.
     let r1 = r\<lparr>rp_rows := rp_rows r + 1,
                rp_considered := rp_considered r + (if to_lower status = ''considered valid'' then 1 else 0)\<rparr> in
     bind_res (stripped names row ''property kind'') (\<lambda>kind.
     if kind \<noteq> ''user assertion'' then Inr r1
     else
       bind_res (report_label lines source_name names row) (\<lambda>label.
       (case map_of NORMAL_STATUS (to_lower status) of
          None \<Rightarrow> Inl (c0_error ''unclassified assertion status'')
        | Some normal \<Rightarrow>
            bind_res (check (label \<notin> fst ` set (rp_assertions r1)) (c0_error ''duplicate report assertion'')) (\<lambda>_.
            Inr (r1\<lparr>rp_assertions := rp_assertions r1 @ [(label, normal)]\<rparr>))))))"

definition parse_report_csv :: "string \<Rightarrow> string \<Rightarrow> string \<Rightarrow> c0_report res" where
  "parse_report_csv csv source_text source_name =
     bind_res (assertion_lines source_text) (\<lambda>lines.
     (case csv_rows StartRecord [] [] csv of
        [] \<Rightarrow> Inl (c0_error ''malformed report CSV'')
      | names # rows \<Rightarrow>
          bind_res (check (set [''file'', ''line'', ''property kind'', ''status''] \<subseteq> set names) (c0_error ''malformed report CSV'')) (\<lambda>_.
          foldM (report_step lines source_name names) \<lparr>rp_assertions = [], rp_considered = 0, rp_rows = 0\<rparr>
            (filter (\<lambda>row. row \<noteq> []) rows))))"

section \<open>The log\<close>

record race =
  rc_reported :: bool
  rc_unprotected :: bool
  rc_body :: string

definition no_race :: race where
  "no_race = \<lparr>rc_reported = False, rc_unprotected = False, rc_body = []\<rparr>"

definition is_heading :: "string \<Rightarrow> string \<Rightarrow> bool" where
  "is_heading kind l =
     (let p = ''[mt] Possible '' @ kind @ '' data races:'' in starts_with p l \<and> list_all is_space (drop (length p) l))"

definition race_of :: "string \<Rightarrow> race" where
  "race_of body = \<lparr>rc_reported = (body \<noteq> [] \<and> body \<noteq> ''none''), rc_unprotected = word_search ''unprotected'' False body, rc_body = body\<rparr>"

text \<open>The last section under a heading: the lines up to the next message of the plugin.\<close>

fun race_section :: "string \<Rightarrow> race \<Rightarrow> string list \<Rightarrow> race" where
  "race_section kind r [] = r"
| "race_section kind r (l # ls) =
     race_section kind
       (if is_heading kind l then race_of (strip (join [CHR 0x0A] (takeWhile (\<lambda>x. \<not> starts_with ''[mt] '' x) ls))) else r) ls"

record diagnostics =
  dg_read_write :: race
  dg_write_write :: race
  dg_fixpoint :: bool
  dg_stopped :: bool
  dg_iterations :: "nat option"
  dg_unsupported :: bool
  dg_user_error :: bool
  dg_alarms :: nat

definition race_sections :: "string \<Rightarrow> race \<times> race" where
  "race_sections text =
     (let ls = split_on CHR 0x0A text in
      (race_section ''read/write'' no_race ls, race_section ''write/write'' no_race ls))"

text \<open>\<^verbatim>\<open>Analysis (?:performed|stopped after),? (\d+) iterations\<close> at the front of a text.\<close>

definition iterations_at :: "string \<Rightarrow> nat option" where
  "iterations_at s = (case find (\<lambda>p. starts_with p s)
       [''Analysis performed, '', ''Analysis performed '', ''Analysis stopped after, '', ''Analysis stopped after ''] of
     None \<Rightarrow> None
   | Some p \<Rightarrow>
       (let r = drop (length p) s; ds = takeWhile is_digit r in
        if ds \<noteq> [] \<and> starts_with '' iterations'' (drop (length ds) r) then Some (str_nat ds) else None))"

fun last_iterations :: "nat option \<Rightarrow> string \<Rightarrow> nat option" where
  "last_iterations n [] = n"
| "last_iterations n (c # s) =
     last_iterations (case iterations_at (c # s) of None \<Rightarrow> n | Some m \<Rightarrow> Some m) s"

text \<open>\<^verbatim>\<open>text.count(p)\<close> for a text \<open>p\<close> whose first character occurs in it once.\<close>

fun count_text :: "string \<Rightarrow> string \<Rightarrow> nat" where
  "count_text p [] = 0"
| "count_text p (c # s) = (if starts_with p (c # s) then 1 else 0) + count_text p s"

definition parse_diagnostics :: "string \<Rightarrow> diagnostics" where
  "parse_diagnostics text =
     \<lparr>dg_read_write = fst (race_sections text), dg_write_write = snd (race_sections text),
      dg_fixpoint = contains ''******* Analysis performed'' text,
      dg_stopped = contains ''******* Analysis stopped after'' text,
      dg_iterations = last_iterations None text,
      dg_unsupported = (contains ''Unsupported function'' text \<and> contains ''probably unsound'' text),
      dg_user_error = contains ''User Error:'' text,
      dg_alarms = count_text ''[eva:alarm]'' text\<rparr>"

section \<open>One case\<close>

definition race_flag :: "diagnostics \<Rightarrow> string \<Rightarrow> bool res" where
  "race_flag d kind =
     (if kind = ''read_write'' then Inr (rc_unprotected (dg_read_write d))
      else if kind = ''write_write'' then Inr (rc_unprotected (dg_write_write d))
      else Inl (Exn KeyError kind))"

definition need_pairs :: "py \<Rightarrow> pydict res" where
  "need_pairs v = (case v of PDict d \<Rightarrow> Inr d | _ \<Rightarrow> Inl (Exn AttributeError ''items''))"

definition need_items :: "py \<Rightarrow> py list res" where
  "need_items v = (case v of PList vs \<Rightarrow> Inr vs | _ \<Rightarrow> Inl (Exn TypeError ''not iterable''))"

definition token_check :: "string \<Rightarrow> bool \<Rightarrow> string \<Rightarrow> py \<Rightarrow> check_row res" where
  "token_check name expected text v = (case v of
     PStr t \<Rightarrow> Inr (check_that (name @ t) (PBool expected) (PBool (contains t text)))
   | _ \<Rightarrow> Inl (Exn TypeError ''in''))"

definition assertions_value :: "c0_report option \<Rightarrow> pydict" where
  "assertions_value r = (case r of None \<Rightarrow> [] | Some rp \<Rightarrow> map (\<lambda>(l, s). (l, PStr s)) (rp_assertions rp))"

definition evaluate_case ::
  "pydict \<Rightarrow> py \<Rightarrow> py \<Rightarrow> c0_report option \<Rightarrow> diagnostics \<Rightarrow> string \<Rightarrow> check_row list res" where
  "evaluate_case c returncode timed_out report d combined =
     bind_res (ditem c ''expected_exit'') (\<lambda>exit_code.
     bind_res (ditem c ''report_expected'') (\<lambda>present.
     bind_res (ditem c ''expected_assertions'') (\<lambda>assertions.
     bind_res (ditem c ''expected_unprotected_races'') (\<lambda>rv. bind_res (need_pairs rv) (\<lambda>races.
     bind_res (mapM (\<lambda>(kind, e). bind_res (race_flag d kind) (\<lambda>f.
       Inr (check_that (kind @ ''_unprotected_race'') e (PBool f)))) races) (\<lambda>race_rows.
     bind_res (ditem c ''required_diagnostics'') (\<lambda>qv. bind_res (need_items qv) (\<lambda>required.
     bind_res (mapM (token_check ''required diagnostic: '' True combined) required) (\<lambda>required_rows.
     bind_res (ditem c ''forbidden_diagnostics'') (\<lambda>fv. bind_res (need_items fv) (\<lambda>forbidden.
     bind_res (mapM (token_check ''forbidden diagnostic: '' False combined) forbidden) (\<lambda>forbidden_rows.
       Inr ([check_that ''timed_out'' (PBool False) timed_out,
             check_that ''exit_code'' exit_code returncode,
             check_that ''report_present'' present (PBool (report \<noteq> None)),
             check_that ''assertions'' assertions (PDict (assertions_value report))]
            @ race_rows @ required_rows @ forbidden_rows)))))))))))))"

section \<open>The suite\<close>

record c0_process =
  pr_code :: int
  pr_out :: string
  pr_err :: string
  pr_timed_out :: bool

text \<open>A command, with the report file it leaves.\<close>

type_synonym runner = "string list \<Rightarrow> c0_process \<times> string option"

record case_result =
  cr_id :: string
  cr_process :: c0_process
  cr_report :: "c0_report option"
  cr_checks :: "check_row list"

definition case_argv :: "string \<Rightarrow> pydict \<Rightarrow> pydict \<Rightarrow> string \<Rightarrow> string list res" where
  "case_argv binary m c csv =
     bind_res (ditem m ''common_options'') (\<lambda>cv. bind_res (ditem c ''thread_library'') (\<lambda>tl.
     bind_res (ditem c ''options'') (\<lambda>ov. bind_res (ditem c ''source'') (\<lambda>sv.
     (case (as_strs cv, as_str tl, as_strs ov, as_str sv) of
        (Some common, Some library, Some options, Some src) \<Rightarrow>
          Inr ([binary] @ common @ [''-mt-threads-lib'', library] @ options @ [src, ''-then'', ''-report'', ''-report-csv'', csv])
      | _ \<Rightarrow> Inl (Exn TypeError ''argv''))))))"

definition case_report :: "host \<Rightarrow> tools \<Rightarrow> string \<Rightarrow> string option \<Rightarrow> c0_report option res" where
  "case_report h os source csv = (case csv of
     None \<Rightarrow> Inr None
   | Some text \<Rightarrow> bind_res (text_file h os source) (\<lambda>src.
       bind_res (parse_report_csv text src (path_name source)) (\<lambda>rp. Inr (Some rp))))"

definition run_case :: "host \<Rightarrow> tools \<Rightarrow> string \<Rightarrow> runner \<Rightarrow> string \<Rightarrow> string \<Rightarrow> pydict \<Rightarrow> py \<Rightarrow> case_result res" where
  "run_case h os project run out binary m v = (case v of
     PDict c \<Rightarrow>
       bind_res (ditem c ''id'') (\<lambda>iv. (case iv of
         PStr ident \<Rightarrow>
           bind_res (ditem c ''source'') (\<lambda>sv. bind_res (c0_path h project sv) (\<lambda>source.
           bind_res (case_argv binary m c (path_join out (''cases/'' @ ident @ ''/report.csv''))) (\<lambda>argv.
           let (p, csv) = run argv; combined = pr_out p @ [CHR 0x0A] @ pr_err p in
           bind_res (case_report h os source csv) (\<lambda>report.
           bind_res (evaluate_case c (PInt (pr_code p)) (PBool (pr_timed_out p)) report (parse_diagnostics combined) combined) (\<lambda>checks.
             Inr \<lparr>cr_id = ident, cr_process = p, cr_report = report, cr_checks = checks\<rparr>)))))
       | _ \<Rightarrow> Inl (Exn TypeError ''id'')))
   | _ \<Rightarrow> Inl (Exn TypeError ''case''))"

definition inventory_argv :: "string \<Rightarrow> (string \<times> string list) list" where
  "inventory_argv binary =
     [(''version'', [binary, ''-version'']), (''plugins'', [binary, ''-plugins'']), (''mthread_help'', [binary, ''-mt-h'']),
      (''eva_domains'', [binary, ''-eva-domains'', ''help'']), (''report_help'', [binary, ''-report-h''])]"

definition command_check :: "string \<times> c0_process \<Rightarrow> check_row" where
  "command_check np = (let (name, p) = np in
     \<lparr>ck_name = ''inventory command '' @ name, ck_expected = PInt 0, ck_actual = PInt (pr_code p),
      ck_passed = (pr_code p = 0 \<and> \<not> pr_timed_out p)\<rparr>)"

definition inventory_checks :: "pydict \<Rightarrow> (string \<times> c0_process) list \<Rightarrow> check_row list res" where
  "inventory_checks provider procs =
     (let version = strip (pr_out (snd (procs ! 0))); plugins = pr_out (snd (procs ! 1)) @ pr_err (snd (procs ! 1)) in
      bind_res (ditem provider ''expected_version'') (\<lambda>e.
      bind_res (ditem provider ''required_plugin_text'') (\<lambda>tv. bind_res (need_items tv) (\<lambda>tokens.
      bind_res (mapM (token_check ''plugin text: '' True plugins) tokens) (\<lambda>rows.
        Inr ([check_that ''provider version'' e (PStr version)] @ rows @ map command_check procs))))))"

definition identity_paths :: "pydict \<Rightarrow> pydict \<Rightarrow> py list \<Rightarrow> py list res" where
  "identity_paths m provider cases =
     bind_res (ditem provider ''model_files'') (\<lambda>mv. bind_res (need_items mv) (\<lambda>models.
     bind_res (ditem provider ''implementation_files'') (\<lambda>iv. bind_res (need_items iv) (\<lambda>implementations.
     bind_res (mapM (\<lambda>c. pindex c ''source'') cases) (\<lambda>sources.
       Inr (map PStr [''config/concurrency-c0.json'', ''toolchain/lock.json'', ''fragma/__main__.py'', ''fragma/concurrency.py'',
              ''tests/test_concurrency.py''] @ models @ implementations @ sources))))))"

definition c0_file_identity :: "host \<Rightarrow> string \<Rightarrow> py \<Rightarrow> (string \<times> string) res" where
  "c0_file_identity h project v = bind_res (c0_path h project v) (\<lambda>p.
     case (v, file_sha256 h p) of (PStr s, Some d) \<Rightarrow> Inr (s, d) | _ \<Rightarrow> Inl (Exn OSError p))"

record c0_result =
  cz_inventory :: "check_row list"
  cz_identities :: "(string \<times> string) list"
  cz_cases :: "case_result list"

definition c0_accepted :: "c0_result \<Rightarrow> bool" where
  "c0_accepted r = (all_passed (cz_inventory r) \<and> list_all (\<lambda>c. all_passed (cr_checks c)) (cz_cases r))"

definition run_c0 :: "host \<Rightarrow> tools \<Rightarrow> string \<Rightarrow> py \<Rightarrow> runner \<Rightarrow> string \<Rightarrow> int \<Rightarrow> c0_result res" where
  "run_c0 h os project document run out timeout =
     (let base = resolve h project; output = path_join base out in
      bind_res (load_c0 h os base document) (\<lambda>m.
      bind_res (check (\<not> (is_file h output \<or> is_dir h output \<or> is_symlink h output)) (c0_error ''C0 output already exists'')) (\<lambda>_.
      bind_res (check (1 \<le> timeout) (c0_error ''C0 timeout must be positive'')) (\<lambda>_.
      bind_res (ditem m ''provider'') (\<lambda>pv. bind_res (need_pairs pv) (\<lambda>provider.
      bind_res (ditem m ''cases'') (\<lambda>cv. bind_res (need_items cv) (\<lambda>cases.
      bind_res (ditem provider ''binary'') (\<lambda>bv. bind_res (c0_path h base bv) (\<lambda>binary.
      bind_res (inventory_checks provider (map (\<lambda>(n, argv). (n, fst (run argv))) (inventory_argv binary))) (\<lambda>inventory.
      bind_res (identity_paths m provider cases) (\<lambda>paths.
      bind_res (mapM (c0_file_identity h base) paths) (\<lambda>identities.
      bind_res (mapM (run_case h os base run output binary m) cases) (\<lambda>results.
        Inr \<lparr>cz_inventory = inventory, cz_identities = identities, cz_cases = results\<rparr>))))))))))))))"

section \<open>What the report states\<close>

text \<open>The labels are the first labelled assertion of each line that has one, each label once.\<close>

definition labelled_lines :: "(nat \<times> string) list \<Rightarrow> (nat \<times> string) list" where
  "labelled_lines rows = List.map_filter (\<lambda>(i, s). map_option (Pair i) (find_assertion s)) rows"

lemma labelled_lines_snoc:
  "labelled_lines (rows @ [row]) = labelled_lines rows @ (case find_assertion (snd row) of None \<Rightarrow> [] | Some l \<Rightarrow> [(fst row, l)])"
  by (cases row) (simp add: labelled_lines_def map_filter_def split: option.splits)

lemma assertion_step_Inr:
  "assertion_step found row = Inr found' \<longleftrightarrow>
     (case find_assertion (snd row) of None \<Rightarrow> found' = found
      | Some l \<Rightarrow> l \<notin> snd ` set found \<and> found' = found @ [(fst row, l)])"
  by (auto simp: assertion_step_def split: option.splits)

lemma assertion_lines_Inr:
  assumes "assertion_lines text = Inr found"
  shows "found = labelled_lines (enumerate 1 (splitlines text)) \<and> distinct (map snd found)"
proof -
  let ?P = "\<lambda>rows found. found = labelled_lines rows \<and> distinct (map snd found)"
  have "?P ([] @ enumerate 1 (splitlines text)) found"
    using assms [unfolded assertion_lines_def]
  proof (rule foldM_prefix_invariant)
    show "?P [] []" by (simp add: labelled_lines_def map_filter_def)
    fix rows s row s' assume "?P rows s" "assertion_step s row = Inr s'"
    then show "?P (rows @ [row]) s'"
      by (auto simp: labelled_lines_snoc assertion_step_Inr split: option.splits)
  qed
  then show ?thesis unfolding append_Nil .
qed

text \<open>The rows of user assertions, and the label and status one of them reports.\<close>

definition assertion_row :: "string list \<Rightarrow> string list \<Rightarrow> bool" where
  "assertion_row names row = (stripped names row ''property kind'' = Inr ''user assertion'')"

definition reports :: "(nat \<times> string) list \<Rightarrow> string \<Rightarrow> string list \<Rightarrow> string list \<Rightarrow> string \<times> string \<Rightarrow> bool" where
  "reports lines source_name names row ls =
     (report_label lines source_name names row = Inr (fst ls)
      \<and> (\<exists>st. stripped names row ''status'' = Inr st \<and> map_of NORMAL_STATUS (to_lower st) = Some (snd ls)))"

lemma report_label_Inr:
  "report_label lines source_name names row = Inr l \<longleftrightarrow>
     (\<exists>f t n. stripped names row ''file'' = Inr f \<and> path_name f = source_name
        \<and> column (Exn TypeError ''int'') names row ''line'' = Inr t \<and> py_int t = Some (int n) \<and> map_of lines n = Some l)"
proof -
  have n: "(case py_int t of None \<Rightarrow> Inl e
     | Some n \<Rightarrow> (case (if n < 0 then None else map_of lines (nat n)) of None \<Rightarrow> Inl e' | Some label \<Rightarrow> Inr label)) = Inr l
     \<longleftrightarrow> (\<exists>k. py_int t = Some (int k) \<and> map_of lines k = Some l)" for t and e e' :: exn
  proof (cases "py_int t")
    case (Some n)
    then show ?thesis by (cases n) (auto split: option.splits)
  qed simp
  show ?thesis
    unfolding report_label_def bind_res_Inr check_iff n by blast
qed

lemma report_step_Inr:
  assumes "report_step lines source_name names r row = Inr r'"
  shows "rp_rows r' = rp_rows r + 1
    \<and> (if assertion_row names row
       then \<exists>ls. rp_assertions r' = rp_assertions r @ [ls] \<and> reports lines source_name names row ls \<and> fst ls \<notin> fst ` set (rp_assertions r)
       else rp_assertions r' = rp_assertions r)"
proof -
  from assms obtain st kind where row: "stripped names row ''status'' = Inr st" "stripped names row ''property kind'' = Inr kind"
    by (auto simp: report_step_def Let_def bind_res_Inr)
  show ?thesis
  proof (cases "kind = ''user assertion''")
    case True
    with assms row obtain l where "report_label lines source_name names row = Inr l"
      by (auto simp: report_step_def Let_def bind_res_Inr)
    with assms row True show ?thesis
      by (auto simp: report_step_def Let_def assertion_row_def reports_def bind_res_Inr check_iff split: option.splits)
  next
    case False
    with assms row show ?thesis by (auto simp: report_step_def Let_def assertion_row_def)
  qed
qed

text \<open>
  A parsed report lists the user assertions of the analyzer's table in their order: each row stands
  at the line of a labelled assertion of the source, and no label is reported twice.
\<close>

lemma parse_report_csv_Inr:
  assumes "parse_report_csv csv src source_name = Inr r"
  shows "\<exists>lines names rows. assertion_lines src = Inr lines \<and> csv_rows StartRecord [] [] csv = names # rows
    \<and> rp_rows r = length (filter (\<lambda>row. row \<noteq> []) rows)
    \<and> list_all2 (reports lines source_name names)
        (filter (assertion_row names) (filter (\<lambda>row. row \<noteq> []) rows)) (rp_assertions r)
    \<and> distinct (map fst (rp_assertions r))"
proof -
  from assms obtain lines names rows where p: "assertion_lines src = Inr lines" "csv_rows StartRecord [] [] csv = names # rows"
    "foldM (report_step lines source_name names) \<lparr>rp_assertions = [], rp_considered = 0, rp_rows = 0\<rparr>
       (filter (\<lambda>row. row \<noteq> []) rows) = Inr r"
    unfolding parse_report_csv_def bind_res_Inr check_iff case_Cons_Inr by blast
  let ?P = "\<lambda>rows r. rp_rows r = length rows \<and> distinct (map fst (rp_assertions r))
    \<and> list_all2 (reports lines source_name names) (filter (assertion_row names) rows) (rp_assertions r)"
  have "?P ([] @ filter (\<lambda>row. row \<noteq> []) rows) r"
    using p(3)
  proof (rule foldM_prefix_invariant)
    fix rows s row s' assume "?P rows s" and step: "report_step lines source_name names s row = Inr s'"
    then show "?P (rows @ [row]) s'"
      using report_step_Inr [OF step] by (auto simp: list_all2_appendI split: if_splits)
  qed simp
  with p show ?thesis by auto
qed

section \<open>What an accepted calibration shows\<close>

lemma check_expected_Inr:
  "check_expected v labels = Inr u \<longleftrightarrow>
     (\<exists>d. v = PDict d \<and> set (keys d) = labels
        \<and> list_all (\<lambda>(k, x). x \<in> {PStr ''valid'', PStr ''invalid'', PStr ''unknown''}) d)"
  unfolding check_expected_def case_py_Inr bind_res_Inr check_iff by blast

lemma check_races_Inr:
  "check_races v = Inr u \<longleftrightarrow>
     (\<exists>d. v = PDict d \<and> set (keys d) = {''read_write'', ''write_write''} \<and> list_all (\<lambda>(k, x). is_bool x) d)"
  unfolding check_races_def case_py_Inr bind_res_Inr check_iff by blast

lemma check_case_Inr:
  assumes "check_case h os base seen v = Inr seen'"
  obtains c ident source src lines where "v = PDict c" "dget c ''id'' = PStr ident" "ident \<notin> set seen" "seen' = seen @ [ident]"
    "c0_path h base (dget_or c ''source'' (PStr [])) = Inr source" "text_file h os source = Inr src"
    "assertion_lines src = Inr lines" "check_expected (dget c ''expected_assertions'') (snd ` set lines) = Inr ()"
    "check_races (dget c ''expected_unprotected_races'') = Inr ()"
  using assms unfolding check_case_def case_py_Inr bind_res_Inr check_iff old.unit.exhaust sum.inject
  by (elim exE conjE) (rule that; (assumption | erule sym | simp))

text \<open>The cases of an accepted manifest, each with the identifier it adds.\<close>

lemma load_c0_Inr:
  assumes "load_c0 h os base v = Inr m"
  shows "v = PDict m \<and> (\<exists>provider cases ids. dget m ''provider'' = PDict provider \<and> dget m ''cases'' = PList cases \<and> cases \<noteq> []
    \<and> distinct ids \<and> list_all2 (\<lambda>c i. \<exists>seen. check_case h os base seen c = Inr (seen @ [i])) cases ids)"
proof -
  from assms obtain provider cases ids where m: "v = PDict m" "dget m ''provider'' = PDict provider" "dget m ''cases'' = PList cases"
    "cases \<noteq> []" "foldM (check_case h os base) [] cases = Inr ids"
    by (auto simp: load_c0_def bind_res_Inr check_iff case_py_Inr split: py.splits)
  let ?P = "\<lambda>cs ids. distinct ids \<and> list_all2 (\<lambda>c i. \<exists>seen. check_case h os base seen c = Inr (seen @ [i])) cs ids"
  have "?P ([] @ cases) ids"
    using m(5)
  proof (rule foldM_prefix_invariant)
    fix cs s c s' assume P: "?P cs s" and step: "check_case h os base s c = Inr s'"
    from step obtain i where "i \<notin> set s" "s' = s @ [i]" by (rule check_case_Inr)
    with P step show "?P (cs @ [c]) s'" by (auto intro!: list_all2_appendI)
  qed simp
  with m show ?thesis by auto
qed

lemma dict_le_lookup:
  "dict_le d e \<Longrightarrow> (k, v) \<in> set d \<Longrightarrow> \<exists>w. map_of e k = Some w \<and> py_eq v w"
  by (induction d) (auto split: option.splits)

lemma assertions_value_lookup:
  "map_of (assertions_value r) l = (case r of None \<Rightarrow> None | Some rp \<Rightarrow> map_option PStr (map_of (rp_assertions rp) l))"
  by (simp add: assertions_value_def map_of_map split: option.splits)

lemma assertions_met:
  assumes "py_eq (PDict d) (PDict (assertions_value r))" and "(l, v) \<in> set d"
  shows "\<exists>rp s. r = Some rp \<and> v = PStr s \<and> map_of (rp_assertions rp) l = Some s"
proof -
  from assms obtain w where "map_of (assertions_value r) l = Some w" "py_eq v w"
    using dict_le_lookup [of d "assertions_value r" l v] by auto
  then show ?thesis by (auto simp: assertions_value_lookup split: option.splits)
qed

definition all_diagnostics :: "string \<Rightarrow> bool \<Rightarrow> py \<Rightarrow> bool" where
  "all_diagnostics s expected v = (\<forall>vs t. v = PList vs \<longrightarrow> PStr t \<in> set vs \<longrightarrow> contains t s = expected)"

lemma token_checks_passed:
  assumes "mapM (token_check name expected s) vs = Inr rows" and "all_passed rows"
  shows "all_diagnostics s expected (PList vs)"
  using assms
proof (induction vs arbitrary: rows)
  case (Cons v vs)
  then show ?case by (auto simp: bind_res_Inr token_check_def all_diagnostics_def split: py.splits)
qed (simp add: all_diagnostics_def)

lemma race_checks_passed:
  assumes "mapM (\<lambda>(kind, e). bind_res (race_flag d kind) (\<lambda>f. Inr (check_that (kind @ suf) e (PBool f)))) races = Inr rows"
    and "all_passed rows" and "(k, PBool b) \<in> set races"
  shows "race_flag d k = Inr b"
  using assms
proof (induction races arbitrary: rows)
  case (Cons r races)
  then show ?case by (auto simp: bind_res_Inr)
qed simp

lemma need_value_Inr: "need_pairs v = Inr d \<longleftrightarrow> v = PDict d" "need_items v = Inr vs \<longleftrightarrow> v = PList vs"
  by (cases v; simp add: need_pairs_def need_items_def)+

lemma evaluate_case_passed:
  assumes "evaluate_case c code timed_out report d combined = Inr checks" and "all_passed checks"
  shows "py_eq (PBool False) timed_out \<and> py_eq (dget c ''expected_exit'') code \<and> py_eq (dget c ''report_expected'') (PBool (report \<noteq> None))
    \<and> py_eq (dget c ''expected_assertions'') (PDict (assertions_value report))
    \<and> (\<forall>races k b. dget c ''expected_unprotected_races'' = PDict races \<longrightarrow> (k, PBool b) \<in> set races \<longrightarrow> race_flag d k = Inr b)
    \<and> all_diagnostics combined True (dget c ''required_diagnostics'') \<and> all_diagnostics combined False (dget c ''forbidden_diagnostics'')"
proof -
  from assms(1) obtain xc pr es rv races rrows qv required rq fv forbidden fb where
    v: "rv = PDict races" "qv = PList required" "fv = PList forbidden"
    and e: "map_of c ''expected_exit'' = Some xc" "map_of c ''report_expected'' = Some pr" "map_of c ''expected_assertions'' = Some es"
      "map_of c ''expected_unprotected_races'' = Some rv"
      "mapM (\<lambda>(kind, e). bind_res (race_flag d kind) (\<lambda>f. Inr (check_that (kind @ ''_unprotected_race'') e (PBool f)))) races = Inr rrows"
      "map_of c ''required_diagnostics'' = Some qv"
      "mapM (token_check ''required diagnostic: '' True combined) required = Inr rq"
      "map_of c ''forbidden_diagnostics'' = Some fv"
      "mapM (token_check ''forbidden diagnostic: '' False combined) forbidden = Inr fb"
    and rows: "[check_that ''timed_out'' (PBool False) timed_out, check_that ''exit_code'' xc code,
             check_that ''report_present'' pr (PBool (report \<noteq> None)),
             check_that ''assertions'' es (PDict (assertions_value report))] @ rrows @ rq @ fb = checks"
    unfolding evaluate_case_def need_value_Inr bind_res_Inr ditem_Inr sum.inject
    by (elim exE conjE) (rule that; assumption)
  from assms(2) rows [symmetric] have p: "all_passed rrows" "all_passed rq" "all_passed fb" by simp_all
  from token_checks_passed [OF e(7) p(2)] token_checks_passed [OF e(9) p(3)]
    race_checks_passed [OF e(5) p(1)] assms(2) rows [symmetric] v
  show ?thesis
    by (simp add: dget_def e(1-4,6,8))
qed

text \<open>
  What an accepted case means: its process did not time out and exited as the manifest says, and
  every labelled assertion of its source carries in the analyzer's report exactly the expected status;
  races and messages are the expected ones.
\<close>

definition case_met :: "host \<Rightarrow> tools \<Rightarrow> string \<Rightarrow> runner \<Rightarrow> py \<Rightarrow> case_result \<Rightarrow> bool" where
  "case_met h os base run v cr = (\<exists>c source src lines d races argv.
     v = PDict c \<and> dget c ''id'' = PStr (cr_id cr) \<and> c0_path h base (dget c ''source'') = Inr source
     \<and> text_file h os source = Inr src \<and> assertion_lines src = Inr lines
     \<and> dget c ''expected_assertions'' = PDict d \<and> set (keys d) = snd ` set lines
     \<and> cr_process cr = fst (run argv) \<and> \<not> pr_timed_out (cr_process cr)
     \<and> py_eq (dget c ''expected_exit'') (PInt (pr_code (cr_process cr)))
     \<and> (\<forall>rp. cr_report cr = Some rp \<longrightarrow>
          (\<exists>csv. snd (run argv) = Some csv \<and> parse_report_csv csv src (path_name source) = Inr rp))
     \<and> (\<forall>l v. (l, v) \<in> set d \<longrightarrow> (\<exists>rp s. cr_report cr = Some rp \<and> v = PStr s \<and> map_of (rp_assertions rp) l = Some s))
     \<and> dget c ''expected_unprotected_races'' = PDict races
     \<and> (\<forall>k b. (k, PBool b) \<in> set races \<longrightarrow>
          race_flag (parse_diagnostics (pr_out (cr_process cr) @ [CHR 0x0A] @ pr_err (cr_process cr))) k = Inr b)
     \<and> all_diagnostics (pr_out (cr_process cr) @ [CHR 0x0A] @ pr_err (cr_process cr)) True (dget c ''required_diagnostics'')
     \<and> all_diagnostics (pr_out (cr_process cr) @ [CHR 0x0A] @ pr_err (cr_process cr)) False (dget c ''forbidden_diagnostics''))"

lemma run_case_met:
  assumes "check_case h os base seen v = Inr seen'" and "run_case h os base run out binary m v = Inr cr"
    and "all_passed (cr_checks cr)"
  shows "case_met h os base run v cr"
proof -
  from assms(1) obtain c ident source src lines where v: "v = PDict c" "dget c ''id'' = PStr ident"
    and src: "c0_path h base (dget_or c ''source'' (PStr [])) = Inr source" "text_file h os source = Inr src"
    and lines: "assertion_lines src = Inr lines" "check_expected (dget c ''expected_assertions'') (snd ` set lines) = Inr ()"
      "check_races (dget c ''expected_unprotected_races'') = Inr ()"
    by (rule check_case_Inr)
  from lines(2,3) obtain d races where d: "dget c ''expected_assertions'' = PDict d" "set (keys d) = snd ` set lines"
      "dget c ''expected_unprotected_races'' = PDict races"
    by (auto simp: check_expected_Inr check_races_Inr)
  obtain idt sv source' argv p csv checks report where r: "map_of c ''id'' = Some (PStr idt)" "map_of c ''source'' = Some sv"
      "c0_path h base sv = Inr source'" "run argv = (p, csv)" "case_report h os source' csv = Inr report"
      "evaluate_case c (PInt (pr_code p)) (PBool (pr_timed_out p)) report
         (parse_diagnostics (pr_out p @ [CHR 0x0A] @ pr_err p)) (pr_out p @ [CHR 0x0A] @ pr_err p) = Inr checks"
      "cr = \<lparr>cr_id = idt, cr_process = p, cr_report = report, cr_checks = checks\<rparr>"
    using assms(2) v(1)
    unfolding run_case_def py.case Let_def case_prod_beta bind_res_Inr ditem_Inr case_py_Inr sum.inject
    by (elim exE conjE) (rule that; (assumption | erule sym | rule prod.collapse [symmetric] | simp))
  from r(2,3) src(1) have s: "source' = source" "dget c ''source'' = sv" by (auto simp: dget_def dget_or_def)
  have rep: "\<exists>body. csv = Some body \<and> parse_report_csv body src (path_name source) = Inr rp" if "report = Some rp" for rp
    using r(5) that src(2) s(1) by (cases csv) (auto simp: case_report_def bind_res_Inr)
  have "all_passed checks" using assms(3) r(7) by simp
  from evaluate_case_passed [OF r(6) this] d have e: "\<not> pr_timed_out p" "py_eq (dget c ''expected_exit'') (PInt (pr_code p))"
      "py_eq (PDict d) (PDict (assertions_value report))"
      "\<And>k b. (k, PBool b) \<in> set races \<Longrightarrow> race_flag (parse_diagnostics (pr_out p @ [CHR 0x0A] @ pr_err p)) k = Inr b"
      "all_diagnostics (pr_out p @ [CHR 0x0A] @ pr_err p) True (dget c ''required_diagnostics'')"
      "all_diagnostics (pr_out p @ [CHR 0x0A] @ pr_err p) False (dget c ''forbidden_diagnostics'')"
    by simp_all
  from r(1) v(2) have "idt = ident" by (simp add: dget_def)
  then show ?thesis
    unfolding case_met_def r(7) case_result.select_convs
    using v d src(2) lines(1) s r(3,4) rep e(1,2,4-6) assertions_met [OF e(3)]
    by (intro exI [of _ c] exI [of _ source] exI [of _ src] exI [of _ lines] exI [of _ d] exI [of _ races] exI [of _ argv])
       simp
qed

lemma inventory_passed:
  assumes "inventory_checks provider procs = Inr rows" and "all_passed rows" and "np \<in> set procs"
  shows "pr_code (snd np) = 0 \<and> \<not> pr_timed_out (snd np)"
proof -
  have "all_passed (map command_check procs)"
    using assms(1,2) by (auto simp: inventory_checks_def Let_def bind_res_Inr)
  then show ?thesis using assms(3) by (cases np) (auto simp: all_passed_def list_all_iff command_check_def)
qed

lemma run_c0_Inr:
  assumes "run_c0 h os project v run out timeout = Inr r"
  obtains m provider cases binary where "load_c0 h os (resolve h project) v = Inr m" "dget m ''cases'' = PList cases"
    "inventory_checks provider (map (\<lambda>(n, argv). (n, fst (run argv))) (inventory_argv binary)) = Inr (cz_inventory r)"
    "mapM (run_case h os (resolve h project) run (path_join (resolve h project) out) binary m) cases = Inr (cz_cases r)"
  using assms unfolding run_c0_def Let_def bind_res_Inr check_iff ditem_Inr need_value_Inr sum.inject
  by (elim exE conjE) (rule that; (assumption | force simp: dget_def))

text \<open>
  C18. An accepted C0 run: the manifest's cases have distinct identifiers, every inventory command
  ended with exit status 0 in time, and every case is met, so that each labelled assertion of each
  fixture was reported by the analyzer at its own line with exactly the status the manifest pins.
\<close>

theorem c0_accepted_sound:
  assumes "run_c0 h os project v run out timeout = Inr r" and "c0_accepted r"
  shows "\<exists>m cases binary. v = PDict m \<and> dget m ''cases'' = PList cases \<and> cases \<noteq> []
    \<and> list_all2 (case_met h os (resolve h project) run) cases (cz_cases r) \<and> distinct (map cr_id (cz_cases r))
    \<and> (\<forall>n argv. (n, argv) \<in> set (inventory_argv binary) \<longrightarrow>
         pr_code (fst (run argv)) = 0 \<and> \<not> pr_timed_out (fst (run argv)))"
proof -
  let ?base = "resolve h project"
  from assms(1) obtain m provider cases binary where m: "load_c0 h os ?base v = Inr m" "dget m ''cases'' = PList cases"
    and inv: "inventory_checks provider (map (\<lambda>(n, argv). (n, fst (run argv))) (inventory_argv binary)) = Inr (cz_inventory r)"
    and runs: "mapM (run_case h os ?base run (path_join ?base out) binary m) cases = Inr (cz_cases r)"
    by (rule run_c0_Inr)
  from load_c0_Inr [OF m(1)] m(2) obtain ids where v: "v = PDict m" "cases \<noteq> []" "distinct ids"
    and ids: "list_all2 (\<lambda>c i. \<exists>seen. check_case h os ?base seen c = Inr (seen @ [i])) cases ids" by auto
  have met: "list_all2 (case_met h os ?base run) cases (cz_cases r)"
  proof (rule list_all2_all_nthI)
    show "length cases = length (cz_cases r)" using mapM_length [OF runs] by simp
    fix i assume i: "i < length cases"
    then have "all_passed (cr_checks (cz_cases r ! i))"
      using assms(2) mapM_length [OF runs] by (simp add: c0_accepted_def list_all_length)
    moreover obtain seen where "check_case h os ?base seen (cases ! i) = Inr (seen @ [ids ! i])"
      using list_all2_nthD [OF ids i] by blast
    ultimately show "case_met h os ?base run (cases ! i) (cz_cases r ! i)"
      using run_case_met mapM_nth [OF runs i] by blast
  qed
  have "map cr_id (cz_cases r) = ids"
  proof (rule nth_equalityI)
    show len: "length (map cr_id (cz_cases r)) = length ids"
      using mapM_length [OF runs] list_all2_lengthD [OF ids] by simp
    fix i assume "i < length (map cr_id (cz_cases r))"
    then have i: "i < length cases" "i < length (cz_cases r)" using mapM_length [OF runs] by simp_all
    obtain seen where "check_case h os ?base seen (cases ! i) = Inr (seen @ [ids ! i])"
      using list_all2_nthD [OF ids i(1)] by blast
    then obtain c where "cases ! i = PDict c" "dget c ''id'' = PStr (ids ! i)" by (rule check_case_Inr) simp
    moreover have "\<exists>c. cases ! i = PDict c \<and> dget c ''id'' = PStr (cr_id (cz_cases r ! i))"
      using list_all2_nthD [OF met i(1)] by (auto simp: case_met_def)
    ultimately show "map cr_id (cz_cases r) ! i = ids ! i" using i by simp
  qed
  moreover have "pr_code (fst (run argv)) = 0 \<and> \<not> pr_timed_out (fst (run argv))"
    if "(n, argv) \<in> set (inventory_argv binary)" for n argv
    using inventory_passed [OF inv, of "(n, fst (run argv))"] that assms(2)
    by (force simp: c0_accepted_def)
  ultimately show ?thesis using m(2) v met by blast
qed

definition c0_host :: host where
  "c0_host = \<lparr>contents = (\<lambda>p. if p = ''/p/o'' then None else Some ''/*@ assert a:''), is_symlink = (\<lambda>_. False), is_dir = (\<lambda>_. False),
     resolve = path_str, sha256_hex = (\<lambda>_. replicate 64 CHR ''a''), float_text = (\<lambda>_. ''1.0'')\<rparr>"

definition c0_tools :: tools where
  "c0_tools = \<lparr>git_run = (\<lambda>_ _. GitUnavailable), utf8_decode = Some\<rparr>"

definition c0_run :: runner where
  "c0_run = (\<lambda>_. (\<lparr>pr_code = 0, pr_out = ''v'', pr_err = [], pr_timed_out = False\<rparr>,
     Some (join [CHR 0x0A] (map (join [CHR 0x09])
       [[''file'', ''line'', ''property kind'', ''status''], [''s'', ''1'', ''user assertion'', ''Valid'']]))))"

definition c0_document :: py where
  "c0_document = PDict [(''schema_version'', PInt 1), (''common_options'', PList []),
     (''provider'', PDict [(''binary'', PStr ''b''), (''expected_version'', PStr ''v''), (''required_plugin_text'', PList []),
        (''model_files'', PList [PStr ''m'']), (''implementation_files'', PList [PStr ''i''])]),
     (''cases'', PList [PDict [(''id'', PStr ''c''), (''source'', PStr ''s''), (''thread_library'', PStr ''pthreads''),
        (''options'', PList []), (''expected_exit'', PInt 0), (''report_expected'', PBool True),
        (''expected_assertions'', PDict [(''a'', PStr ''valid'')]),
        (''expected_unprotected_races'', PDict [(''read_write'', PBool False), (''write_write'', PBool False)]),
        (''required_diagnostics'', PList []), (''forbidden_diagnostics'', PList [PStr ''User Error''])]])]"

lemma c0_accepts: "case run_c0 c0_host c0_tools ''/p'' c0_document c0_run ''o'' 1 of Inr r \<Rightarrow> c0_accepted r | Inl _ \<Rightarrow> False"
  by code_simp

lemma c0_accepted_sound_witness:
  "\<exists>r. run_c0 c0_host c0_tools ''/p'' c0_document c0_run ''o'' 1 = Inr r
     \<and> (\<exists>m cases. c0_document = PDict m \<and> dget m ''cases'' = PList cases \<and> distinct (map cr_id (cz_cases r)))"
proof -
  from c0_accepts obtain r where r: "run_c0 c0_host c0_tools ''/p'' c0_document c0_run ''o'' 1 = Inr r" "c0_accepted r"
    by (auto split: sum.splits)
  from c0_accepted_sound [OF r] show ?thesis using r(1) by blast
qed

end
