(* ===== verification/Concurrency_C1.thy ===== *)
theory Concurrency_C1
  imports Concurrency_C0 Replay_Base
begin

text \<open>
  \<^verbatim>\<open>fragma/concurrency_evidence.py\<close>: the C1 gate over a retained C0 run. The registries of concurrency
  models and of target scopes are loaded and cross-checked with the C0 manifest (\<^verbatim>\<open>load_registries\<close>);
  the audit parses the retained reports and logs again, evaluates every case again with the functions of
  \<^verbatim>\<open>fragma/concurrency.py\<close>, compares the recorded digests of all dependencies with the machine
  (\<^verbatim>\<open>identity_drift\<close>), and separates an accepted calibration from an accepted verification
  (\<^verbatim>\<open>acceptance_decision\<close>). \<open>loads\<close> is the JSON grammar with pairs in order, \<open>plain\<close> the one of \<^verbatim>\<open>json.loads\<close>
  without hooks, where the last of equal keys wins.
\<close>

abbreviation c1_error :: "string \<Rightarrow> exn" where
  "c1_error m \<equiv> Exn ConcurrencyEvidenceError m"

abbreviation c1_check :: "bool \<Rightarrow> string \<Rightarrow> unit res" where
  "c1_check c m \<equiv> check c (c1_error m)"

definition SUPPORT_STATUSES :: "string list" where
  "SUPPORT_STATUSES = [''supported'', ''calibrated'', ''partial'', ''unsupported'', ''not_assessed'']"

definition REQUIRED_DIMENSIONS :: "string list" where
  "REQUIRED_DIMENSIONS = [''sequential'', ''mutex_protected_concurrency'', ''interrupts'', ''weak_memory_atomics'',
     ''rcu'', ''lock_free_algorithms'']"

section \<open>Documents and fields\<close>

definition c1_json :: "host \<Rightarrow> tools \<Rightarrow> json_loads \<Rightarrow> string \<Rightarrow> py res" where
  "c1_json h os loads p = (case text_file h os p of
     Inl (Exn c m) \<Rightarrow> Inl (if c = OSError then c1_error ''cannot load'' else Exn c m)
   | Inr s \<Rightarrow> (case loads s of
       None \<Rightarrow> Inl (c1_error ''cannot load'')
     | Some v \<Rightarrow> bind_res (c1_check (wf_py v) ''duplicate JSON key'') (\<lambda>_. Inr v)))"

text \<open>\<^verbatim>\<open>_regular(root, value, role)\<close>, the identity of the file it returns, and \<^verbatim>\<open>_string_list\<close>.\<close>

definition regular_path :: "host \<Rightarrow> string \<Rightarrow> string \<Rightarrow> string res" where
  "regular_path h base s =
     (if is_absolute s \<or> path_parts s = [] \<or> ''..'' \<in> set (path_parts s) then Inl (c1_error ''must be project-relative'')
      else (let p = path_join base (join ''/'' (path_parts s)) in
        if \<not> is_file h p \<or> is_symlink h p then Inl (c1_error ''is missing or not regular'') else Inr p))"

definition found_identity :: "host \<Rightarrow> string \<Rightarrow> py" where
  "found_identity h p = (case contents h p of
     None \<Rightarrow> PNone
   | Some b \<Rightarrow> PDict [(''sha256'', PStr (sha256_hex h b)), (''size'', PInt (int (length b)))])"

definition c1_strings :: "bool \<Rightarrow> py \<Rightarrow> string list res" where
  "c1_strings nonempty v = (case as_strs v of
     None \<Rightarrow> Inl (c1_error ''must be a unique string list'')
   | Some ss \<Rightarrow> bind_res (c1_check ((nonempty \<longrightarrow> ss \<noteq> []) \<and> list_all not_blank ss \<and> distinct ss) ''must be a unique string list'')
       (\<lambda>_. Inr ss))"

abbreviation c1_text :: "py \<Rightarrow> string res" where
  "c1_text v \<equiv> nonempty_str ConcurrencyEvidenceError v"

text \<open>\<^verbatim>\<open>v in {...}\<close> for a set of texts; an unhashable value is a \<^verbatim>\<open>TypeError\<close>.\<close>

definition member_of :: "py \<Rightarrow> string list \<Rightarrow> bool res" where
  "member_of v names = (case v of
     PStr s \<Rightarrow> Inr (s \<in> set names)
   | PList _ \<Rightarrow> Inl (Exn TypeError ''unhashable type'') | PDict _ \<Rightarrow> Inl (Exn TypeError ''unhashable type'')
   | _ \<Rightarrow> Inr False)"

section \<open>The registry of models\<close>

definition group_paths :: "host \<Rightarrow> string \<Rightarrow> string \<times> py \<Rightarrow> string list res" where
  "group_paths h base entry_of = (case entry_of of (grp, paths) \<Rightarrow>
     bind_res (c1_text (PStr grp)) (\<lambda>_. bind_res (c1_strings True paths) (\<lambda>ss.
     bind_res (allM (\<lambda>s. bind_res (regular_path h base s) (\<lambda>_. Inr ())) ss) (\<lambda>_. Inr ss))))"

definition registry_paths :: "host \<Rightarrow> string \<Rightarrow> py \<Rightarrow> string list res" where
  "registry_paths h base v = (case v of
     PDict groups \<Rightarrow>
       bind_res (c1_check (groups \<noteq> []) ''requires file groups'') (\<lambda>_.
       bind_res (mapM (group_paths h base) groups) (\<lambda>pss.
       bind_res (c1_check (distinct (concat pss)) ''file groups overlap'') (\<lambda>_. Inr (concat pss))))
   | _ \<Rightarrow> Inl (c1_error ''requires file groups''))"

definition status_record :: "py \<Rightarrow> pydict res" where
  "status_record v = (case v of
     PDict d \<Rightarrow> bind_res (member_of (dget d ''status'') SUPPORT_STATUSES) (\<lambda>ok.
       bind_res (c1_check ok ''invalid status'') (\<lambda>_. Inr d))
   | _ \<Rightarrow> Inl (c1_error ''invalid status''))"

definition check_dimension :: "string \<times> py \<Rightarrow> unit res" where
  "check_dimension named = (case named of (name, v) \<Rightarrow>
     bind_res (status_record v) (\<lambda>d. bind_res (c1_text (dget d ''scope'')) (\<lambda>_.
     bind_res (c1_strings False (dget d ''evidence_cases'')) (\<lambda>_.
     bind_res (c1_strings True (dget d ''limitations'')) (\<lambda>_. Inr ())))))"

definition check_primitive :: "string \<times> py \<Rightarrow> unit res" where
  "check_primitive named = (case named of (name, v) \<Rightarrow>
     bind_res (c1_text (PStr name)) (\<lambda>_. bind_res (status_record v) (\<lambda>d.
     bind_res (c1_text (dget d ''semantics'')) (\<lambda>_. bind_res (c1_text (dget d ''conservative_argument'')) (\<lambda>_.
     bind_res (c1_strings True (dget d ''limitations'')) (\<lambda>_.
     c1_check (dget d ''empty_stub_allowed'' = PBool False) ''must explicitly forbid empty stubs''))))))"

definition is_model_id :: "string \<Rightarrow> bool" where
  "is_model_id s = (case s of [] \<Rightarrow> False
     | c # t \<Rightarrow> is_lower c \<and> list_all (\<lambda>c. is_lower c \<or> is_digit c \<or> c = CHR ''-'') t)"

definition check_dimensions :: "py \<Rightarrow> unit res" where
  "check_dimensions v =
     bind_res (exact_dict (c1_error ''must declare exactly the required support dimensions'') REQUIRED_DIMENSIONS v)
       (allM check_dimension)"

definition check_primitives :: "py \<Rightarrow> unit res" where
  "check_primitives v = (case v of
     PDict d \<Rightarrow> bind_res (c1_check (d \<noteq> []) ''requires primitive models'') (\<lambda>_. allM check_primitive d)
   | _ \<Rightarrow> Inl (c1_error ''requires primitive models''))"

record c1_model =
  cm_id :: string
  cm_fields :: pydict
  cm_paths :: "string list"

definition check_model :: "host \<Rightarrow> string \<Rightarrow> py \<Rightarrow> c1_model res" where
  "check_model h base v = (case v of
     PDict m \<Rightarrow>
       bind_res (c1_text (dget m ''id'')) (\<lambda>i.
       bind_res (c1_check (is_model_id i) ''invalid or duplicate model id'') (\<lambda>_.
       bind_res (c1_text (dget m ''provider_version'')) (\<lambda>_.
       bind_res (digest_of ConcurrencyEvidenceError 64 (dget m ''provider_binary_sha256'')) (\<lambda>_.
       bind_res (c1_text (dget m ''execution_model'')) (\<lambda>_.
       bind_res (registry_paths h base (dget m ''file_groups'')) (\<lambda>paths.
       bind_res (check_dimensions (dget m ''dimensions'')) (\<lambda>_.
       bind_res (check_primitives (dget m ''primitive_models'')) (\<lambda>_.
       Inr \<lparr>cm_id = i, cm_fields = m, cm_paths = paths\<rparr>))))))))
   | _ \<Rightarrow> Inl (c1_error ''model entry must be an object''))"

section \<open>The registry of targets\<close>

definition TARGET_KEYS :: "string list" where
  "TARGET_KEYS = [''id'', ''c0_case_id'', ''model_id'', ''source'', ''evidence_kind'', ''kernel_scope'', ''property_scope'',
     ''model_dependency_groups'', ''required_dimensions'', ''required_primitives'', ''synchronization_model'',
     ''synchronization_argument'', ''memory_order_assumptions'', ''context'', ''shared_objects'', ''external_interference'']"

text \<open>A list of names, each a key of a dictionary of the model.\<close>

definition names_in :: "pydict \<Rightarrow> string \<Rightarrow> py \<Rightarrow> string list res" where
  "names_in m field v =
     bind_res (c1_strings True v) (\<lambda>names. bind_res (ditem m field) (\<lambda>d.
     bind_res (mapM (\<lambda>n. occurs_in n d) names) (\<lambda>found. bind_res (c1_check (list_all id found) ''names an unknown entry'') (\<lambda>_.
     Inr names))))"

definition check_scope :: "py \<Rightarrow> unit res" where
  "check_scope v = bind_res (exact_dict (c1_error ''has invalid property scope'') [''kind'', ''claim'', ''exclusions''] v) (\<lambda>d.
     bind_res (c1_text (dget d ''kind'')) (\<lambda>_. bind_res (c1_text (dget d ''claim'')) (\<lambda>_.
     bind_res (c1_strings True (dget d ''exclusions'')) (\<lambda>_. Inr ()))))"

definition check_execution_context :: "py \<Rightarrow> unit res" where
  "check_execution_context v =
     bind_res (exact_dict (c1_error ''has invalid execution context'') [''ordinary_threads'', ''interrupt_handlers'', ''preemption''] v) (\<lambda>d.
     bind_res (c1_check (is_bool (dget d ''ordinary_threads'') \<and> is_bool (dget d ''interrupt_handlers'')) ''has invalid execution context'') (\<lambda>_.
     bind_res (c1_text (dget d ''preemption'')) (\<lambda>_. Inr ())))"

definition check_shared_object :: "string list \<Rightarrow> py \<Rightarrow> string list res" where
  "check_shared_object names v =
     bind_res (exact_dict (c1_error ''has invalid shared object'') [''name'', ''ownership'', ''external_interference''] v) (\<lambda>d.
     bind_res (c1_text (dget d ''name'')) (\<lambda>name. bind_res (c1_check (name \<notin> set names) ''repeats shared object'') (\<lambda>_.
     bind_res (c1_text (dget d ''ownership'')) (\<lambda>_. bind_res (c1_text (dget d ''external_interference'')) (\<lambda>_.
     Inr (name # names))))))"

definition check_shared_objects :: "py \<Rightarrow> unit res" where
  "check_shared_objects v = (case v of
     PList vs \<Rightarrow> bind_res (foldM check_shared_object [] vs) (\<lambda>_. Inr ())
   | _ \<Rightarrow> Inl (c1_error ''shared_objects must be a list''))"

text \<open>\<open>cases\<close> is the dictionary of the C0 cases by identifier.\<close>

definition target_model :: "c1_model list \<Rightarrow> py \<Rightarrow> c1_model res" where
  "target_model models v = (case v of
     PStr s \<Rightarrow> (case find (\<lambda>m. cm_id m = s) models of None \<Rightarrow> Inl (c1_error ''names an unknown model'') | Some m \<Rightarrow> Inr m)
   | PList _ \<Rightarrow> Inl (Exn TypeError ''unhashable type'') | PDict _ \<Rightarrow> Inl (Exn TypeError ''unhashable type'')
   | _ \<Rightarrow> Inl (c1_error ''names an unknown model''))"

definition target_identity :: "pydict \<Rightarrow> string list \<Rightarrow> pydict \<Rightarrow> string res" where
  "target_identity cases seen t =
     bind_res (c1_text (dget t ''id'')) (\<lambda>i.
     bind_res (c1_check (i \<notin> set seen \<and> dget t ''c0_case_id'' = PStr i) ''invalid or duplicate target'') (\<lambda>_.
     (case map_of cases i of
        None \<Rightarrow> Inl (c1_error ''does not match its C0 case'')
      | Some c \<Rightarrow> bind_res (pindex c ''source'') (\<lambda>s.
          bind_res (c1_check (py_eq (dget t ''source'') s) ''does not match its C0 case'') (\<lambda>_. Inr i)))))"

record c1_target =
  ct_id :: string
  ct_fields :: pydict
  ct_model :: c1_model
  ct_groups :: "string list"
  ct_dimensions :: "string list"
  ct_primitives :: "string list"

definition check_target_entry :: "c1_model list \<Rightarrow> pydict \<Rightarrow> string list \<Rightarrow> py \<Rightarrow> c1_target res" where
  "check_target_entry models cases seen v = (case v of
     PDict t \<Rightarrow>
       bind_res (c1_check (set TARGET_KEYS \<subseteq> set (keys t)) ''C1 target lacks required scope metadata'') (\<lambda>_.
       bind_res (target_identity cases seen t) (\<lambda>i.
       bind_res (target_model models (dget t ''model_id'')) (\<lambda>m.
       bind_res (member_of (dget t ''evidence_kind'') [''calibration'', ''verification'']) (\<lambda>kind_ok.
       bind_res (c1_check kind_ok ''has invalid evidence kind'') (\<lambda>_.
       bind_res (c1_check (is_bool (dget t ''kernel_scope'')) ''kernel_scope must be boolean'') (\<lambda>_.
       bind_res (check_scope (dget t ''property_scope'')) (\<lambda>_.
       bind_res (names_in (cm_fields m) ''file_groups'' (dget t ''model_dependency_groups'')) (\<lambda>groups.
       bind_res (names_in (cm_fields m) ''dimensions'' (dget t ''required_dimensions'')) (\<lambda>dimensions.
       bind_res (names_in (cm_fields m) ''primitive_models'' (dget t ''required_primitives'')) (\<lambda>primitives.
       bind_res (c1_text (dget t ''synchronization_model'')) (\<lambda>_.
       bind_res (c1_text (dget t ''synchronization_argument'')) (\<lambda>_.
       bind_res (c1_strings True (dget t ''memory_order_assumptions'')) (\<lambda>_.
       bind_res (check_execution_context (dget t ''context'')) (\<lambda>_.
       bind_res (check_shared_objects (dget t ''shared_objects'')) (\<lambda>_.
       bind_res (c1_text (dget t ''external_interference'')) (\<lambda>_.
       Inr \<lparr>ct_id = i, ct_fields = t, ct_model = m, ct_groups = groups, ct_dimensions = dimensions,
            ct_primitives = primitives\<rparr>))))))))))))))))
   | _ \<Rightarrow> Inl (c1_error ''C1 target lacks required scope metadata''))"

fun check_targets :: "c1_model list \<Rightarrow> pydict \<Rightarrow> string list \<Rightarrow> py list \<Rightarrow> c1_target list res" where
  "check_targets models cases seen [] = Inr []"
| "check_targets models cases seen (v # vs) =
     bind_res (check_target_entry models cases seen v) (\<lambda>t.
     bind_res (check_targets models cases (ct_id t # seen) vs) (\<lambda>ts. Inr (t # ts)))"

section \<open>Loading the registries\<close>

definition c0_manifest :: "host \<Rightarrow> tools \<Rightarrow> json_loads \<Rightarrow> string \<Rightarrow> pydict res" where
  "c0_manifest h os plain base =
     (case text_file h os (path_join base ''config/concurrency-c0.json'') of
        Inl (Exn c m) \<Rightarrow> Inl (if c = OSError then c0_error ''cannot load'' else Exn c m)
      | Inr s \<Rightarrow> (case plain s of None \<Rightarrow> Inl (c0_error ''cannot load'') | Some v \<Rightarrow> load_c0 h os base v))"

definition registry_entries :: "py \<Rightarrow> string \<Rightarrow> py list res" where
  "registry_entries v k = (case v of
     PDict d \<Rightarrow>
       bind_res (c1_check (py_eq (dget d ''schema_version'') (PInt 1)) ''unsupported concurrency registry'') (\<lambda>_.
       Inr (case dget d k of PList vs \<Rightarrow> vs | _ \<Rightarrow> []))
   | _ \<Rightarrow> Inl (c1_error ''unsupported concurrency registry''))"

definition named_cases :: "pydict \<Rightarrow> pydict res" where
  "named_cases c0 =
     bind_res (ditem c0 ''cases'') (\<lambda>cv. bind_res (need_items cv) (\<lambda>cases.
     mapM (\<lambda>c. bind_res (pindex c ''id'') (\<lambda>i. bind_res (need_str i) (\<lambda>s. Inr (s, c)))) cases))"

definition provider_paths :: "pydict \<Rightarrow> string list res" where
  "provider_paths c0 =
     bind_res (ditem c0 ''provider'') (\<lambda>p. bind_res (pindex p ''model_files'') (\<lambda>m. bind_res (need_items m) (\<lambda>models.
     bind_res (pindex p ''implementation_files'') (\<lambda>i. bind_res (need_items i) (\<lambda>implementations.
     mapM need_str (models @ implementations))))))"

definition unknown_evidence :: "string list \<Rightarrow> c1_model \<Rightarrow> bool res" where
  "unknown_evidence ids m =
     bind_res (ditem (cm_fields m) ''dimensions'') (\<lambda>v. bind_res (need_pairs v) (\<lambda>dims.
     bind_res (mapM (\<lambda>(name, record_of). bind_res (pindex record_of ''evidence_cases'') (c1_strings False)) dims) (\<lambda>css.
     Inr (\<not> list_all (\<lambda>c. c \<in> set ids) (concat css)))))"

record registries =
  rs_model :: c1_model
  rs_targets :: "c1_target list"
  rs_c0 :: pydict
  rs_cases :: pydict \<comment> \<open>the C0 cases by identifier\<close>

definition load_registries :: "host \<Rightarrow> tools \<Rightarrow> json_loads \<Rightarrow> json_loads \<Rightarrow> string \<Rightarrow> registries res" where
  "load_registries h os loads plain project =
     (let base = resolve h project in
      bind_res (c1_json h os loads (path_join base ''config/concurrency-models.json'')) (\<lambda>model_doc.
      bind_res (c1_json h os loads (path_join base ''config/concurrency-scopes.json'')) (\<lambda>target_doc.
      bind_res (registry_entries model_doc ''models'') (\<lambda>model_entries.
      bind_res (registry_entries target_doc ''targets'') (\<lambda>target_entries.
      bind_res (c1_check (length model_entries = 1 \<and> target_entries \<noteq> []) ''C1 registries require exactly one model'') (\<lambda>_.
      bind_res (check_model h base (hd model_entries)) (\<lambda>m.
      bind_res (c0_manifest h os plain base) (\<lambda>c0.
      bind_res (named_cases c0) (\<lambda>cases.
      bind_res (provider_paths c0) (\<lambda>paths.
      bind_res (c1_check (set (cm_paths m) = set paths) ''dependencies differ from the C0 provider inventory'') (\<lambda>_.
      bind_res (check_targets [m] cases [] target_entries) (\<lambda>targets.
      bind_res (c1_check (set (map ct_id targets) = set (keys cases)) ''C1 targets do not cover exactly the C0 cases'') (\<lambda>_.
      bind_res (unknown_evidence (map ct_id targets) m) (\<lambda>unknown.
      bind_res (c1_check (\<not> unknown) ''names unknown evidence'') (\<lambda>_.
      Inr \<lparr>rs_model = m, rs_targets = targets, rs_c0 = c0, rs_cases = cases\<rparr>)))))))))))))))"

section \<open>Drift and decision\<close>

definition same_identity :: "py \<Rightarrow> py \<Rightarrow> bool" where
  "same_identity old now = (case (old, now) of
     (PDict b, PDict a) \<Rightarrow> py_eq (dget b ''sha256'') (dget a ''sha256'') \<and> py_eq (dget b ''size'') (dget a ''size'')
   | _ \<Rightarrow> False)"

definition identity_drift :: "pydict \<Rightarrow> pydict \<Rightarrow> string list \<Rightarrow> string list" where
  "identity_drift expected current paths = filter (\<lambda>p. \<not> same_identity (dget expected p) (dget current p)) paths"

record blocker =
  bk_kind :: string
  bk_name :: string
  bk_status :: py

record decision =
  de_evidence :: bool
  de_calibration :: bool
  de_verification :: bool
  de_blockers :: "blocker list"

definition support_status :: "pydict \<Rightarrow> string \<Rightarrow> string \<Rightarrow> py res" where
  "support_status m field name = bind_res (ditem m field) (\<lambda>d. bind_res (pindex d name) (\<lambda>r. pindex r ''status''))"

definition blockers_in :: "pydict \<Rightarrow> string \<Rightarrow> string \<Rightarrow> string list \<Rightarrow> blocker list res" where
  "blockers_in m kind field names =
     bind_res (mapM (\<lambda>n. bind_res (support_status m field n) (\<lambda>s. Inr \<lparr>bk_kind = kind, bk_name = n, bk_status = s\<rparr>)) names) (\<lambda>bs.
     Inr (filter (\<lambda>b. bk_status b \<noteq> PStr ''supported'') bs))"

definition acceptance_decision :: "c1_target \<Rightarrow> bool \<Rightarrow> decision res" where
  "acceptance_decision t evidence_ok =
     bind_res (blockers_in (cm_fields (ct_model t)) ''dimension'' ''dimensions'' (ct_dimensions t)) (\<lambda>ds.
     bind_res (blockers_in (cm_fields (ct_model t)) ''primitive'' ''primitive_models'' (ct_primitives t)) (\<lambda>ps.
     Inr \<lparr>de_evidence = evidence_ok,
          de_calibration = (evidence_ok \<and> dget (ct_fields t) ''evidence_kind'' = PStr ''calibration''),
          de_verification = (evidence_ok \<and> dget (ct_fields t) ''evidence_kind'' = PStr ''verification'' \<and> ds @ ps = []),
          de_blockers = ds @ ps\<rparr>))"

definition evidence_paths :: "c1_target \<Rightarrow> string list res" where
  "evidence_paths t =
     bind_res (need_str (dget (ct_fields t) ''source'')) (\<lambda>source.
     bind_res (ditem (cm_fields (ct_model t)) ''file_groups'') (\<lambda>groups.
     bind_res (mapM (\<lambda>g. bind_res (pindex groups g) (c1_strings True)) (ct_groups t)) (\<lambda>pss.
     Inr (sort (remdups (source # concat pss))))))"

text \<open>The dictionaries in which a run retains its reports, logs and checks.\<close>

definition report_value :: "c0_report option \<Rightarrow> py" where
  "report_value r = (case r of
     None \<Rightarrow> PNone
   | Some rp \<Rightarrow> PDict [(''assertions'', PDict (assertions_value r)), (''considered_valid_assumptions'', PInt (int (rp_considered rp))),
       (''csv_rows'', PInt (int (rp_rows rp)))])"

definition race_value :: "race \<Rightarrow> py" where
  "race_value r = PDict [(''reported'', PBool (rc_reported r)), (''unprotected'', PBool (rc_unprotected r)), (''body'', PStr (rc_body r))]"

definition diagnostics_value :: "diagnostics \<Rightarrow> py" where
  "diagnostics_value d = PDict
     [(''races'', PDict [(''read_write'', race_value (dg_read_write d)), (''write_write'', race_value (dg_write_write d))]),
      (''fixpoint_reached'', PBool (dg_fixpoint d)), (''analysis_stopped'', PBool (dg_stopped d)),
      (''iterations'', case dg_iterations d of None \<Rightarrow> PNone | Some n \<Rightarrow> PInt (int n)), (''unsupported'', PBool (dg_unsupported d)),
      (''user_error'', PBool (dg_user_error d)), (''eva_alarm_count'', PInt (int (dg_alarms d)))]"

definition checks_value :: "check_row list \<Rightarrow> py" where
  "checks_value cs = PList (map (\<lambda>c. PDict [(''name'', PStr (ck_name c)), (''expected'', ck_expected c),
     (''actual'', ck_actual c), (''passed'', PBool (ck_passed c))]) cs)"

section \<open>The audit\<close>

text \<open>What is common to all targets: the retained documents of the C0 run and the machine's identities.\<close>

record c0_retained =
  rt_identities :: pydict
  rt_summary :: pydict
  rt_cases :: pydict \<comment> \<open>by identifier, the last of equal ones\<close>
  rt_current :: pydict
  rt_binary :: string
  rt_checks :: "check_row list"
  rt_ok :: bool
  rt_drift :: "string list"

definition inventory_ok :: "py \<Rightarrow> bool" where
  "inventory_ok v = (case v of
     PList rows \<Rightarrow> rows \<noteq> [] \<and> list_all (\<lambda>r. case r of PDict d \<Rightarrow> dget d ''passed'' = PBool True | _ \<Rightarrow> False) rows
   | _ \<Rightarrow> False)"

definition retained_case :: "py \<Rightarrow> (string \<times> py) res" where
  "retained_case v = (case v of
     PDict d \<Rightarrow> (case dget d ''id'' of PStr i \<Rightarrow> Inr (i, v) | _ \<Rightarrow> Inl (c1_error ''C0 summary contains a malformed case''))
   | _ \<Rightarrow> Inl (c1_error ''C0 summary contains a malformed case''))"

definition retained_cases :: "pydict \<Rightarrow> (string \<times> py) list res" where
  "retained_cases summary = (case dget summary ''cases'' of
     PList vs \<Rightarrow> mapM retained_case vs
   | _ \<Rightarrow> Inl (c1_error ''C0 summary lacks cases''))"

definition current_identities :: "host \<Rightarrow> string \<Rightarrow> pydict \<Rightarrow> pydict res" where
  "current_identities h base identities =
     mapM (\<lambda>k. bind_res (regular_path h base k) (\<lambda>p. Inr (k, found_identity h p))) (keys identities)"

definition provider_field :: "pydict \<Rightarrow> string \<Rightarrow> py res" where
  "provider_field summary k = pget (dget_or summary ''provider'' (PDict [])) k"

definition provider_checks :: "host \<Rightarrow> string \<Rightarrow> pydict \<Rightarrow> pydict \<Rightarrow> check_row list res" where
  "provider_checks h binary m summary =
     bind_res (provider_field summary ''version'') (\<lambda>version.
     bind_res (provider_field summary ''binary_sha256'') (\<lambda>saved_digest.
     (let digest = dget m ''provider_binary_sha256'';
          now = (case file_sha256 h binary of None \<Rightarrow> PNone | Some d \<Rightarrow> PStr d)
      in Inr [check_that ''C0 provider version'' (dget m ''provider_version'') version,
              check_that ''C0 provider recorded digest'' digest saved_digest,
              check_that ''C0 provider current digest'' digest now])))"

definition strings_value :: "string list \<Rightarrow> py" where
  "strings_value ss = PList (map PStr ss)"

definition retained_base :: "host \<Rightarrow> tools \<Rightarrow> json_loads \<Rightarrow> registries \<Rightarrow> string \<Rightarrow> string \<Rightarrow> c0_retained res" where
  "retained_base h os loads rs base out =
     bind_res (c1_json h os loads (path_join out ''manifest.json'')) (\<lambda>manifest.
     bind_res (c1_json h os loads (path_join out ''input-identities.json'')) (\<lambda>iv.
     bind_res (c1_json h os loads (path_join out ''summary.json'')) (\<lambda>sv.
     (case (iv, sv) of
        (PDict identities, PDict summary) \<Rightarrow>
          bind_res (retained_cases summary) (\<lambda>cases.
          bind_res (current_identities h base identities) (\<lambda>current.
          bind_res (ditem (rs_c0 rs) ''provider'') (\<lambda>pv. bind_res (pindex pv ''binary'') (\<lambda>bv. bind_res (need_str bv) (\<lambda>bs.
          bind_res (regular_path h base bs) (\<lambda>binary.
          bind_res (provider_checks h binary (cm_fields (rs_model rs)) summary) (\<lambda>provider.
          (let ids = sort (map ct_id (rs_targets rs)); found = sort (remdups (map fst cases));
               drift = identity_drift identities current (sort (keys identities));
               first = [check_that ''C0 manifest is current'' (PBool True) (PBool (py_eq (PDict (rs_c0 rs)) manifest)),
                 check_that ''C0 summary accepted'' (PBool True) (PBool (dget summary ''accepted'' = PBool True)),
                 check_that ''C0 output identity'' (PStr out) (dget summary ''output''),
                 check_that ''C0 inventory checks'' (PBool True) (PBool (inventory_ok (dget summary ''inventory_checks''))),
                 check_that ''C0 case inventory'' (strings_value ids) (strings_value found),
                 check_that ''C0 case identities unique'' (PBool True) (PBool (distinct (map fst cases)))]
           in Inr \<lparr>rt_identities = identities, rt_summary = summary, rt_cases = rev cases, rt_current = current,
                rt_binary = binary, rt_checks = first @ [check_that ''C0 input freshness'' (PList []) (strings_value drift)] @ provider,
                rt_ok = (all_passed first \<and> all_passed provider), rt_drift = drift\<rparr>))))))))
      | _ \<Rightarrow> Inl (c1_error ''C0 retained identity or summary is malformed'')))))"

definition raw_artifact :: "host \<Rightarrow> string \<Rightarrow> unit res" where
  "raw_artifact h p = c1_check (is_file h p \<and> \<not> is_symlink h p) ''missing C0 raw artifact''"

definition retained_report :: "host \<Rightarrow> tools \<Rightarrow> string \<Rightarrow> string \<Rightarrow> c0_report option res" where
  "retained_report h os p source =
     (if is_symlink h p then Inl (c1_error ''unsafe C0 report artifact'')
      else (case contents h p of
         None \<Rightarrow> Inr None
       | Some b \<Rightarrow> bind_res (decode os b) (\<lambda>csv. case_report h os source (Some csv))))"

definition expected_argv :: "string \<Rightarrow> pydict \<Rightarrow> pydict \<Rightarrow> string \<Rightarrow> py list res" where
  "expected_argv binary c0 c csv =
     bind_res (ditem c0 ''common_options'') (\<lambda>cv. bind_res (items_of cv) (\<lambda>common.
     bind_res (ditem c ''thread_library'') (\<lambda>library. bind_res (ditem c ''options'') (\<lambda>ov. bind_res (items_of ov) (\<lambda>options.
     bind_res (ditem c ''source'') (\<lambda>src.
     Inr ([PStr binary] @ common @ [PStr ''-mt-threads-lib'', library] @ options
          @ [src, PStr ''-then'', PStr ''-report'', PStr ''-report-csv'', PStr csv])))))))"

definition SEMANTIC_GLOBALS :: "string list" where
  "SEMANTIC_GLOBALS = [''config/concurrency-c0.json'', ''toolchain/lock.json'', ''fragma/__main__.py'', ''fragma/concurrency.py'']"

record target_result =
  tz_target :: c1_target
  tz_report :: "c0_report option"
  tz_recomputed :: "check_row list"
  tz_checks :: "check_row list"
  tz_dependencies :: "string list"
  tz_drift :: "string list"
  tz_decision :: decision

text \<open>The retained process of a case and its evaluation again.\<close>

record replayed =
  ry_case :: py
  ry_command :: pydict
  ry_retained :: pydict
  ry_report :: "c0_report option"
  ry_diagnostics :: diagnostics
  ry_checks :: "check_row list"
  ry_argv :: "py list"

definition replay_case :: "host \<Rightarrow> tools \<Rightarrow> json_loads \<Rightarrow> registries \<Rightarrow> c0_retained \<Rightarrow> string \<Rightarrow> string \<Rightarrow> c1_target \<Rightarrow> replayed res" where
  "replay_case h os loads rs rt base out t =
     (case map_of (rt_cases rt) (ct_id t) of
        None \<Rightarrow> Inl (c1_error ''missing C0 case'')
      | Some saved \<Rightarrow>
          (let dir = path_join out (''cases/'' @ ct_id t); csv = path_join dir ''report.csv'' in
           bind_res (allM (\<lambda>n. raw_artifact h (path_join dir n)) [''result.json'', ''command.json'', ''stdout.txt'', ''stderr.txt'']) (\<lambda>_.
           bind_res (c1_json h os loads (path_join dir ''result.json'')) (\<lambda>rv.
           bind_res (c1_json h os loads (path_join dir ''command.json'')) (\<lambda>cv.
           (case (rv, cv) of
              (PDict retained, PDict command) \<Rightarrow>
                bind_res (text_file h os (path_join dir ''stdout.txt'')) (\<lambda>out_text.
                bind_res (text_file h os (path_join dir ''stderr.txt'')) (\<lambda>err_text.
                bind_res (ditem (rs_cases rs) (ct_id t)) (\<lambda>c0v. bind_res (need_pairs c0v) (\<lambda>c0_case.
                bind_res (need_str (dget (ct_fields t) ''source'')) (\<lambda>source.
                bind_res (retained_report h os csv (path_join base source)) (\<lambda>report.
                (let combined = out_text @ [CHR 0x0A] @ err_text; d = parse_diagnostics combined in
                 bind_res (evaluate_case c0_case (dget command ''returncode'') (dget command ''timed_out'') report d combined) (\<lambda>checks.
                 bind_res (expected_argv (rt_binary rt) (rs_c0 rs) c0_case csv) (\<lambda>argv.
                 Inr \<lparr>ry_case = saved, ry_command = command, ry_retained = retained, ry_report = report,
                      ry_diagnostics = d, ry_checks = checks, ry_argv = argv\<rparr>)))))))))
            | _ \<Rightarrow> Inl (c1_error ''malformed retained case'')))))))"

definition replay_checks :: "string \<Rightarrow> replayed \<Rightarrow> check_row list" where
  "replay_checks ident ry =
     [check_that (ident @ '' retained case'') (PBool True) (PBool (py_eq (ry_case ry) (PDict (ry_retained ry)))),
      check_that (ident @ '' parsed report'') (PBool True) (PBool (py_eq (dget (ry_retained ry) ''report'') (report_value (ry_report ry)))),
      check_that (ident @ '' parsed diagnostics'') (PBool True)
        (PBool (py_eq (dget (ry_retained ry) ''diagnostics'') (diagnostics_value (ry_diagnostics ry)))),
      check_that (ident @ '' recomputed checks'') (PBool True) (PBool (py_eq (dget (ry_retained ry) ''checks'') (checks_value (ry_checks ry)))),
      check_that (ident @ '' terminal pass'') (PBool True) (dget (ry_retained ry) ''passed''),
      check_that (ident @ '' command argv'') (PBool True) (PBool (py_eq (dget (ry_command ry) ''argv'') (PList (ry_argv ry)))),
      check_that (ident @ '' command cwd'') (PBool True) (PBool (py_eq (dget (ry_command ry) ''cwd'') (PStr ''.''))),
      check_that (ident @ '' command environment'') (PBool True)
        (PBool (py_eq (dget (ry_command ry) ''environment'')
           (PDict [(''LC_ALL'', PStr ''C''), (''LANG'', PStr ''C''), (''TZ'', PStr ''UTC'')])))]"

definition replay_consistent :: "replayed \<Rightarrow> bool" where
  "replay_consistent ry =
     (py_eq (ry_case ry) (PDict (ry_retained ry)) \<and> py_eq (dget (ry_retained ry) ''report'') (report_value (ry_report ry))
      \<and> py_eq (dget (ry_retained ry) ''diagnostics'') (diagnostics_value (ry_diagnostics ry))
      \<and> py_eq (dget (ry_retained ry) ''checks'') (checks_value (ry_checks ry)) \<and> dget (ry_retained ry) ''passed'' = PBool True
      \<and> py_eq (dget (ry_command ry) ''argv'') (PList (ry_argv ry)) \<and> py_eq (dget (ry_command ry) ''cwd'') (PStr ''.'')
      \<and> py_eq (dget (ry_command ry) ''environment'') (PDict [(''LC_ALL'', PStr ''C''), (''LANG'', PStr ''C''), (''TZ'', PStr ''UTC'')])
      \<and> all_passed (ry_checks ry))"

definition audit_target :: "host \<Rightarrow> tools \<Rightarrow> json_loads \<Rightarrow> registries \<Rightarrow> c0_retained \<Rightarrow> string \<Rightarrow> string \<Rightarrow> c1_target \<Rightarrow> target_result res" where
  "audit_target h os loads rs rt base out t =
     bind_res (replay_case h os loads rs rt base out t) (\<lambda>ry.
     bind_res (evidence_paths t) (\<lambda>own.
     (let dependencies = sort (remdups (own @ filter (has_key (rt_identities rt)) SEMANTIC_GLOBALS));
          drift = identity_drift (rt_identities rt) (rt_current rt) dependencies in
      bind_res (acceptance_decision t (rt_ok rt \<and> replay_consistent ry \<and> drift = [])) (\<lambda>d.
      Inr \<lparr>tz_target = t, tz_report = ry_report ry, tz_recomputed = ry_checks ry,
           tz_checks = replay_checks (ct_id t) ry, tz_dependencies = dependencies, tz_drift = drift, tz_decision = d\<rparr>))))"

definition C1_INPUTS :: "string list" where
  "C1_INPUTS = [''config/concurrency-models.json'', ''config/concurrency-scopes.json'',
     ''fragma/concurrency_evidence.py'', ''tests/test_concurrency_evidence.py'']"

record c1_audit =
  ca_targets :: "target_result list"
  ca_checks :: "check_row list"
  ca_accepted :: bool
  ca_kernel_count :: nat
  ca_stale :: "string list"

definition path_in :: "string \<Rightarrow> string \<Rightarrow> string" where
  "path_in base p = (if is_absolute p then p else path_join base p)"

definition audit_c1 :: "host \<Rightarrow> tools \<Rightarrow> json_loads \<Rightarrow> json_loads \<Rightarrow> string \<Rightarrow> string \<Rightarrow> string \<Rightarrow> c1_audit res" where
  "audit_c1 h os loads plain project c0_output output =
     (let base = resolve h project; target_dir = path_in base output; out = path_in base c0_output in
      bind_res (c1_check (\<not> (is_file h target_dir \<or> is_dir h target_dir \<or> is_symlink h target_dir)) ''C1 output already exists'') (\<lambda>_.
      bind_res (c1_check (is_dir h out \<and> \<not> is_symlink h out) ''C0 output is missing or unsafe'') (\<lambda>_.
      bind_res (load_registries h os loads plain base) (\<lambda>rs.
      bind_res (retained_base h os loads rs base out) (\<lambda>rt.
      bind_res (mapM (audit_target h os loads rs rt base out) (rs_targets rs)) (\<lambda>results.
      bind_res (allM (\<lambda>s. bind_res (regular_path h base s) (\<lambda>_. Inr ())) C1_INPUTS) (\<lambda>_.
      (let checks = rt_checks rt @ concat (map tz_checks results) in
       Inr \<lparr>ca_targets = results, ca_checks = checks,
            ca_accepted = (all_passed checks \<and> list_all (\<lambda>r. de_evidence (tz_decision r)) results),
            ca_kernel_count = length (filter (\<lambda>r. dget (ct_fields (tz_target r)) ''kernel_scope'' = PBool True
               \<and> de_verification (tz_decision r)) results),
            ca_stale = rt_drift rt\<rparr>)))))))) "

section \<open>What an accepted verification rests on\<close>

lemma no_blockers:
  assumes "blockers_in m kind field names = Inr []" and "n \<in> set names"
  shows "support_status m field n = Inr (PStr ''supported'')"
proof -
  from assms(1) obtain bs where bs: "mapM (\<lambda>n. bind_res (support_status m field n) (\<lambda>s. Inr \<lparr>bk_kind = kind, bk_name = n, bk_status = s\<rparr>)) names = Inr bs"
      "filter (\<lambda>b. bk_status b \<noteq> PStr ''supported'') bs = []"
    unfolding blockers_in_def bind_res_Inr sum.inject by blast
  from assms(2) obtain i where i: "i < length names" "names ! i = n" by (auto simp: in_set_conv_nth)
  from mapM_nth [OF bs(1) i(1)] obtain s where s: "support_status m field n = Inr s" "bk_status (bs ! i) = s"
    unfolding i(2) bind_res_Inr sum.inject by (metis blocker.select_convs(3))
  moreover have "bs ! i \<in> set bs" using i(1) mapM_length [OF bs(1)] by simp
  ultimately have "s = PStr ''supported''" using bs(2) unfolding filter_empty_conv by simp
  then show ?thesis using s(1) by simp
qed

definition supported :: "c1_target \<Rightarrow> bool" where
  "supported t =
     (list_all (\<lambda>n. support_status (cm_fields (ct_model t)) ''dimensions'' n = Inr (PStr ''supported'')) (ct_dimensions t)
      \<and> list_all (\<lambda>n. support_status (cm_fields (ct_model t)) ''primitive_models'' n = Inr (PStr ''supported'')) (ct_primitives t))"

lemma decision_verifies:
  assumes "acceptance_decision t ok = Inr d" and "de_verification d"
  shows "ok \<and> dget (ct_fields t) ''evidence_kind'' = PStr ''verification'' \<and> supported t"
proof -
  from assms obtain ds ps where b: "blockers_in (cm_fields (ct_model t)) ''dimension'' ''dimensions'' (ct_dimensions t) = Inr ds"
      "blockers_in (cm_fields (ct_model t)) ''primitive'' ''primitive_models'' (ct_primitives t) = Inr ps"
      "ok" "dget (ct_fields t) ''evidence_kind'' = PStr ''verification''" "ds = []" "ps = []"
    unfolding acceptance_decision_def bind_res_Inr by auto
  from no_blockers [OF b(1) [unfolded b(5)]] no_blockers [OF b(2) [unfolded b(6)]] show ?thesis
    using b(3,4) by (simp add: supported_def list_all_iff)
qed

text \<open>A dependency whose recorded digest and size are those of the regular file found now.\<close>

definition current_dependency :: "host \<Rightarrow> string \<Rightarrow> pydict \<Rightarrow> string \<Rightarrow> bool" where
  "current_dependency h base identities p =
     (\<exists>q d b. regular_path h base p = Inr q \<and> dget identities p = PDict d \<and> contents h q = Some b
        \<and> dget d ''sha256'' = PStr (sha256_hex h b) \<and> py_eq (dget d ''size'') (PInt (int (length b))))"

lemma dget_in: "dget d k \<noteq> PNone \<Longrightarrow> (k, dget d k) \<in> set d"
  by (auto simp: dget_def dget_or_def split: option.splits dest: map_of_SomeD)

lemma same_identity_current:
  assumes "current_identities h base ids = Inr now" and "same_identity (dget ids p) (dget now p)"
  shows "current_dependency h base ids p"
proof -
  from assms(2) obtain b a where d: "dget ids p = PDict b" "dget now p = PDict a"
      "py_eq (dget b ''sha256'') (dget a ''sha256'')" "py_eq (dget b ''size'') (dget a ''size'')"
    by (auto simp: same_identity_def split: py.splits)
  have "(p, PDict a) \<in> set now" using dget_in [of now p] d(2) by simp
  from mapM_set [OF assms(1) [unfolded current_identities_def] this] obtain q
    where q: "regular_path h base p = Inr q" "found_identity h q = PDict a" by (auto simp: bind_res_Inr)
  from q(2) obtain c where "contents h q = Some c"
      "a = [(''sha256'', PStr (sha256_hex h c)), (''size'', PInt (int (length c)))]"
    by (auto simp: found_identity_def split: option.splits)
  then show ?thesis using d q(1) unfolding current_dependency_def by auto
qed

lemma no_drift_current:
  assumes "current_identities h base ids = Inr now" and "identity_drift ids now ps = []" and "p \<in> set ps"
  shows "current_dependency h base ids p"
  using assms same_identity_current unfolding identity_drift_def filter_empty_conv by blast

lemma retained_base_Inr:
  assumes "retained_base h os loads rs base out = Inr rt"
  shows "current_identities h base (rt_identities rt) = Inr (rt_current rt)"
proof -
  from assms obtain iv sv identities summary current where "iv = PDict identities" "sv = PDict summary"
      "current_identities h base identities = Inr current" "rt_identities rt = identities" "rt_current rt = current"
    unfolding retained_base_def bind_res_Inr Let_def
    by (auto simp: bind_res_Inr case_py_Inr split: prod.splits)
  then show ?thesis by simp
qed

lemma audit_target_Inr:
  assumes "audit_target h os loads rs rt base out t = Inr tr"
  obtains ry d own where "replay_case h os loads rs rt base out t = Inr ry" "evidence_paths t = Inr own"
    "tz_target tr = t" "tz_recomputed tr = ry_checks ry" "set own \<subseteq> set (tz_dependencies tr)"
    "tz_drift tr = identity_drift (rt_identities rt) (rt_current rt) (tz_dependencies tr)"
    "acceptance_decision t (rt_ok rt \<and> replay_consistent ry \<and> tz_drift tr = []) = Inr (tz_decision tr)"
  using assms unfolding audit_target_def bind_res_Inr Let_def sum.inject
  by (elim exE conjE) (rule that; (assumption | erule sym | force))

lemma audit_c1_Inr:
  assumes "audit_c1 h os loads plain project c0_output out = Inr r"
  obtains rs rt where "load_registries h os loads plain (resolve h project) = Inr rs"
    "retained_base h os loads rs (resolve h project) (path_in (resolve h project) c0_output) = Inr rt"
    "mapM (audit_target h os loads rs rt (resolve h project) (path_in (resolve h project) c0_output)) (rs_targets rs) = Inr (ca_targets r)"
  using assms unfolding audit_c1_def bind_res_Inr Let_def sum.inject
  by (elim exE conjE) (rule that; (assumption | force))

lemma dependency_source:
  assumes "evidence_paths t = Inr own"
  shows "\<exists>s. dget (ct_fields t) ''source'' = PStr s \<and> s \<in> set own"
proof -
  from assms obtain s where "need_str (dget (ct_fields t) ''source'') = Inr s" "s \<in> set own"
    unfolding evidence_paths_def bind_res_Inr by auto
  then show ?thesis by (cases "dget (ct_fields t) ''source''") (auto simp: need_str_def)
qed

text \<open>
  C19. A target the C1 gate accepts as verified declares itself a verification, and every support
  dimension and every primitive model it requires is \<^verbatim>\<open>supported\<close>. Its evidence is current and
  consistent: the source and every other recorded dependency is a regular file with the digest
  and size of the C0 run, and the retained result agrees with the report, the diagnostics and the
  checks recomputed from the retained artifacts, all of which pass.
\<close>

theorem c1_verification_sound:
  assumes "audit_c1 h os loads plain project c0_output out = Inr r"
    and "tr \<in> set (ca_targets r)" and "de_verification (tz_decision tr)"
  shows "\<exists>rs rt ry s. load_registries h os loads plain (resolve h project) = Inr rs \<and> tz_target tr \<in> set (rs_targets rs)
    \<and> retained_base h os loads rs (resolve h project) (path_in (resolve h project) c0_output) = Inr rt \<and> rt_ok rt
    \<and> replay_case h os loads rs rt (resolve h project) (path_in (resolve h project) c0_output) (tz_target tr) = Inr ry
    \<and> replay_consistent ry \<and> all_passed (tz_recomputed tr) \<and> tz_recomputed tr = ry_checks ry
    \<and> dget (ct_fields (tz_target tr)) ''evidence_kind'' = PStr ''verification'' \<and> supported (tz_target tr)
    \<and> dget (ct_fields (tz_target tr)) ''source'' = PStr s \<and> s \<in> set (tz_dependencies tr)
    \<and> list_all (current_dependency h (resolve h project) (rt_identities rt)) (tz_dependencies tr)"
proof -
  let ?base = "resolve h project" let ?out = "path_in ?base c0_output"
  from assms(1) obtain rs rt where rs: "load_registries h os loads plain ?base = Inr rs"
    and rt: "retained_base h os loads rs ?base ?out = Inr rt"
    and runs: "mapM (audit_target h os loads rs rt ?base ?out) (rs_targets rs) = Inr (ca_targets r)"
    by (rule audit_c1_Inr)
  from mapM_set [OF runs assms(2)] obtain t where t: "t \<in> set (rs_targets rs)"
      "audit_target h os loads rs rt ?base ?out t = Inr tr" by blast
  from t(2) obtain ry own where ry: "replay_case h os loads rs rt ?base ?out t = Inr ry" "evidence_paths t = Inr own"
    and tr: "tz_target tr = t" "tz_recomputed tr = ry_checks ry" "set own \<subseteq> set (tz_dependencies tr)"
    and drift: "tz_drift tr = identity_drift (rt_identities rt) (rt_current rt) (tz_dependencies tr)"
    and d: "acceptance_decision t (rt_ok rt \<and> replay_consistent ry \<and> tz_drift tr = []) = Inr (tz_decision tr)"
    by (rule audit_target_Inr)
  from decision_verifies [OF d assms(3)] have ok: "rt_ok rt" "replay_consistent ry" "tz_drift tr = []"
      "dget (ct_fields t) ''evidence_kind'' = PStr ''verification''" "supported t" by blast+
  have "list_all (current_dependency h ?base (rt_identities rt)) (tz_dependencies tr)"
    using no_drift_current [OF retained_base_Inr [OF rt] drift [symmetric, unfolded ok(3)]] by (simp add: list_all_iff)
  moreover have "all_passed (ry_checks ry)" using ok(2) by (simp add: replay_consistent_def)
  moreover obtain s where "dget (ct_fields t) ''source'' = PStr s" "s \<in> set (tz_dependencies tr)"
    using dependency_source [OF ry(2)] tr(3) by blast
  ultimately show ?thesis using rs rt t(1) ry(1) ok unfolding tr(1,2)
    by (intro exI [of _ rs] exI [of _ rt] exI [of _ ry] exI [of _ s]) (simp only: simp_thms)
qed

definition c1_content :: "string \<Rightarrow> string option" where
  "c1_content p = (if p = ''/p/t'' then None else if p = ''/p/s'' then Some ''/*@ assert a:''
     else if p = ''/p/o/cases/c/report.csv'' then Some (join [CHR 0x0A] (map (join [CHR 0x09])
       [[''file'', ''line'', ''property kind'', ''status''], [''s'', ''1'', ''user assertion'', ''Valid'']]))
     else Some p)"

definition c1_host :: host where
  "c1_host = c0_host \<lparr>contents := c1_content, is_dir := (\<lambda>p. p = ''/p/o'')\<rparr>"

definition c1_text_list :: py where
  "c1_text_list = PList [PStr ''x'']"

definition c1_registry :: py where
  "c1_registry = PDict [(''schema_version'', PInt 1), (''models'', PList [PDict
     [(''id'', PStr ''m''), (''provider_version'', PStr ''v''), (''provider_binary_sha256'', PStr (replicate 64 CHR ''a'')),
      (''execution_model'', PStr ''x''), (''file_groups'', PDict [(''g'', PList [PStr ''m'', PStr ''i''])]),
      (''dimensions'', PDict (map (\<lambda>d. (d, PDict [(''status'', PStr ''supported''), (''scope'', PStr ''x''),
         (''evidence_cases'', PList [PStr ''c'']), (''limitations'', c1_text_list)])) REQUIRED_DIMENSIONS)),
      (''primitive_models'', PDict [(''lock'', PDict [(''status'', PStr ''supported''), (''semantics'', PStr ''x''),
         (''conservative_argument'', PStr ''x''), (''limitations'', c1_text_list), (''empty_stub_allowed'', PBool False)])])]])]"

definition c1_scopes :: py where
  "c1_scopes = PDict [(''schema_version'', PInt 1), (''targets'', PList [PDict
     [(''id'', PStr ''c''), (''c0_case_id'', PStr ''c''), (''model_id'', PStr ''m''), (''source'', PStr ''s''),
      (''evidence_kind'', PStr ''verification''), (''kernel_scope'', PBool True),
      (''property_scope'', PDict [(''kind'', PStr ''x''), (''claim'', PStr ''x''), (''exclusions'', c1_text_list)]),
      (''model_dependency_groups'', PList [PStr ''g'']), (''required_dimensions'', PList [PStr ''sequential'']),
      (''required_primitives'', PList [PStr ''lock'']), (''synchronization_model'', PStr ''x''), (''synchronization_argument'', PStr ''x''),
      (''memory_order_assumptions'', c1_text_list),
      (''context'', PDict [(''ordinary_threads'', PBool True), (''interrupt_handlers'', PBool False), (''preemption'', PStr ''x'')]),
      (''shared_objects'', PList []), (''external_interference'', PStr ''x'')]])]"

definition c1_retained :: py where
  "c1_retained = (case c0_document of PDict m \<Rightarrow> (case dget m ''cases'' of PList [PDict c] \<Rightarrow>
       (let d = parse_diagnostics ''/p/o/cases/c/stdout.txt'';
            report = (case case_report c1_host c0_tools ''/p/s'' (c1_content ''/p/o/cases/c/report.csv'') of Inr r \<Rightarrow> r | _ \<Rightarrow> None) in
        PDict [(''id'', PStr ''c''), (''report'', report_value report), (''diagnostics'', diagnostics_value d),
          (''checks'', case evaluate_case c (PInt 0) (PBool False) report d ''/p/o/cases/c/stdout.txt'' of Inr cs \<Rightarrow> checks_value cs | _ \<Rightarrow> PNone),
          (''passed'', PBool True)]) | _ \<Rightarrow> PNone) | _ \<Rightarrow> PNone)"

definition c1_command :: py where
  "c1_command = PDict [(''returncode'', PInt 0), (''timed_out'', PBool False), (''cwd'', PStr ''.''),
     (''argv'', strings_value [''/p/b'', ''-mt-threads-lib'', ''pthreads'', ''s'', ''-then'', ''-report'', ''-report-csv'', ''/p/o/cases/c/report.csv'']),
     (''environment'', PDict [(''LC_ALL'', PStr ''C''), (''LANG'', PStr ''C''), (''TZ'', PStr ''UTC'')])]"

definition c1_loads :: json_loads where
  "c1_loads = map_of [(''/p/config/concurrency-models.json'', c1_registry), (''/p/config/concurrency-scopes.json'', c1_scopes),
     (''/p/config/concurrency-c0.json'', c0_document), (''/p/o/manifest.json'', c0_document),
     (''/p/o/input-identities.json'', PDict (map (\<lambda>k. (k, found_identity c1_host (''/p/'' @ k))) [''s'', ''m'', ''i''])),
     (''/p/o/summary.json'', PDict [(''accepted'', PBool True), (''output'', PStr ''/p/o''),
        (''inventory_checks'', PList [PDict [(''passed'', PBool True)]]),
        (''provider'', PDict [(''version'', PStr ''v''), (''binary_sha256'', PStr (replicate 64 CHR ''a''))]),
        (''cases'', PList [c1_retained])]),
     (''/p/o/cases/c/result.json'', c1_retained), (''/p/o/cases/c/command.json'', c1_command)]"

lemma c1_accepts:
  "case audit_c1 c1_host c0_tools c1_loads c1_loads ''/p'' ''o'' ''t'' of
     Inr r \<Rightarrow> list_ex (\<lambda>tr. de_verification (tz_decision tr)) (ca_targets r) | Inl _ \<Rightarrow> False"
  by code_simp

lemma c1_verification_sound_witness:
  "\<exists>rs rt. load_registries c1_host c0_tools c1_loads c1_loads (resolve c1_host ''/p'') = Inr rs
     \<and> retained_base c1_host c0_tools c1_loads rs (resolve c1_host ''/p'') (path_in (resolve c1_host ''/p'') ''o'') = Inr rt
     \<and> list_ex supported (rs_targets rs)"
proof -
  from c1_accepts obtain r tr where r: "audit_c1 c1_host c0_tools c1_loads c1_loads ''/p'' ''o'' ''t'' = Inr r"
      "tr \<in> set (ca_targets r)" "de_verification (tz_decision tr)"
    by (auto simp: list_ex_iff split: sum.splits)
  from c1_verification_sound [OF r] show ?thesis by (auto simp only: list_ex_iff)
qed

end
