(* ===== verification/Ipc_Progress.thy ===== *)
theory Ipc_Progress
  imports Concurrency_Check "HOL-Library.Code_Target_Numeral"
begin

text \<open>
  \<^verbatim>\<open>fragma/concurrency_c3_ipc_refcount.py\<close>, the bounded progress model of the compare-and-swap
  retry loop: one schedule of interference followed by quiescence (\<^verbatim>\<open>_simulate_bounded_schedule\<close>),
  the enumeration of a domain of schedules (\<^verbatim>\<open>_bounded_progress_aggregate\<close>), the two cyclic
  controls, and the verdict on the declared cases. The loop itself is the step relation
  \<open>cas_step\<close>; the simulation is shown to follow it.
\<close>

section \<open>One schedule\<close>

datatype cas_outcome = Successful | ZeroExit | Nonterminating

text \<open>The entries of \<open>trace\<close>, with the counter and the expected value they show.\<close>

datatype cas_event =
    InitialRead int int
  | ZeroExitEvent int int
  | Interference int int
  | CasSuccess int int
  | CasMismatch int int int \<comment> \<open>counter, expected before and after\<close>
  | ZeroExitAfterQuiescence int int
  | QuiescentCasSuccess int int
  | QuiescentStaleExpectedCycle int int

record cas_run =
  cr_refs :: int
  cr_expected :: int
  cr_attempts :: nat
  cr_failures :: nat
  cr_trace :: "cas_event list"

record schedule_row =
  sr_outcome :: cas_outcome
  sr_initial :: int
  sr_schedule :: "int list"
  sr_attempts :: nat
  sr_failures :: nat
  sr_final :: "int \<times> int"
  sr_trace :: "cas_event list"

definition terminal :: "int \<Rightarrow> int list \<Rightarrow> cas_run \<Rightarrow> cas_outcome \<Rightarrow> schedule_row" where
  "terminal initial schedule r out =
     \<lparr>sr_outcome = out, sr_initial = initial, sr_schedule = schedule, sr_attempts = cr_attempts r,
      sr_failures = cr_failures r, sr_final = (cr_refs r, cr_expected r), sr_trace = cr_trace r\<rparr>"

definition emit :: "(int \<Rightarrow> int \<Rightarrow> cas_event) \<Rightarrow> cas_run \<Rightarrow> cas_run" where
  "emit ev r = r\<lparr>cr_trace := cr_trace r @ [ev (cr_refs r) (cr_expected r)]\<rparr>"

text \<open>One value of interference observed, and a failed attempt on it.\<close>

definition observe :: "int \<Rightarrow> cas_run \<Rightarrow> cas_run" where
  "observe v r = (let r1 = emit Interference (r\<lparr>cr_refs := v\<rparr>) in r1\<lparr>cr_attempts := cr_attempts r1 + 1\<rparr>)"

definition mismatch :: "bool \<Rightarrow> cas_run \<Rightarrow> cas_run" where
  "mismatch upd r =
     (let previous = cr_expected r;
          r1 = r\<lparr>cr_failures := cr_failures r + 1, cr_expected := (if upd then cr_refs r else cr_expected r)\<rparr>
      in emit (\<lambda>a b. CasMismatch a previous b) r1)"

lemma emit_simps [simp]:
  "cr_refs (emit ev r) = cr_refs r" "cr_expected (emit ev r) = cr_expected r"
  "cr_attempts (emit ev r) = cr_attempts r" "cr_failures (emit ev r) = cr_failures r"
  by (simp_all add: emit_def)

lemma observe_simps [simp]:
  "cr_refs (observe v r) = v" "cr_expected (observe v r) = cr_expected r"
  "cr_attempts (observe v r) = Suc (cr_attempts r)" "cr_failures (observe v r) = cr_failures r"
  by (simp_all add: observe_def Let_def)

lemma mismatch_simps [simp]:
  "cr_refs (mismatch upd r) = cr_refs r" "cr_expected (mismatch upd r) = (if upd then cr_refs r else cr_expected r)"
  "cr_attempts (mismatch upd r) = cr_attempts r" "cr_failures (mismatch upd r) = Suc (cr_failures r)"
  by (simp_all add: mismatch_def Let_def)

text \<open>The loop over the schedule: the outcome it returns with, if it does, and the run.\<close>

fun prefix_loop :: "int \<Rightarrow> bool \<Rightarrow> cas_run \<Rightarrow> int list \<Rightarrow> cas_outcome option \<times> cas_run" where
  "prefix_loop inc upd r [] = (None, r)"
| "prefix_loop inc upd r (observed # os) =
     (if cr_expected r = 0 then (Some ZeroExit, emit ZeroExitEvent r)
      else
        let r1 = observe observed r
        in if cr_refs r1 = cr_expected r1
           then (Some Successful, emit CasSuccess (r1\<lparr>cr_refs := cr_expected r1 + inc\<rparr>))
           else prefix_loop inc upd (mismatch upd r1) os)"

lemma prefix_loop_miss:
  "cr_expected r \<noteq> 0 \<Longrightarrow> v \<noteq> cr_expected r \<Longrightarrow>
     prefix_loop inc upd r (v # vs) = prefix_loop inc upd (mismatch upd (observe v r)) vs"
  by (simp add: Let_def)

text \<open>The cases of one iteration.\<close>

lemma prefix_loop_induct [case_names Nil zero hit miss]:
  assumes "\<And>r. P r []"
    and "\<And>r v vs. cr_expected r = 0 \<Longrightarrow> P r (v # vs)"
    and "\<And>r v vs. cr_expected r \<noteq> 0 \<Longrightarrow> v = cr_expected r \<Longrightarrow> P r (v # vs)"
    and "\<And>r v vs. cr_expected r \<noteq> 0 \<Longrightarrow> v \<noteq> cr_expected r \<Longrightarrow> P (mismatch upd (observe v r)) vs \<Longrightarrow> P r (v # vs)"
  shows "P r vs"
  using assms by (induction vs arbitrary: r) (simp, metis)

definition start_run :: "int \<Rightarrow> cas_run" where
  "start_run initial = \<lparr>cr_refs = initial, cr_expected = initial, cr_attempts = 0, cr_failures = 0,
     cr_trace = [InitialRead initial initial]\<rparr>"

text \<open>What follows the loop: the last attempt, with nobody interfering.\<close>

definition quiescent_step :: "int \<Rightarrow> bool \<Rightarrow> cas_run \<Rightarrow> (cas_outcome \<times> cas_run) res" where
  "quiescent_step inc upd r =
     (if cr_expected r = 0 then Inr (ZeroExit, emit ZeroExitAfterQuiescence r)
      else
        let r = r\<lparr>cr_attempts := cr_attempts r + 1\<rparr>
        in if cr_refs r = cr_expected r
           then Inr (Successful, emit QuiescentCasSuccess (r\<lparr>cr_refs := cr_expected r + inc\<rparr>))
           else if upd then Inl (Exn IpcRefcountError ''updated expected value disagrees with quiescent counter'')
           else Inr (Nonterminating, emit QuiescentStaleExpectedCycle (r\<lparr>cr_failures := cr_failures r + 1\<rparr>)))"

definition simulate_bounded_schedule :: "int \<Rightarrow> int list \<Rightarrow> int \<Rightarrow> bool \<Rightarrow> schedule_row res" where
  "simulate_bounded_schedule initial schedule inc upd =
     (case prefix_loop inc upd (start_run initial) schedule of
        (Some out, r) \<Rightarrow> Inr (terminal initial schedule r out)
      | (None, r) \<Rightarrow>
          bind_res (quiescent_step inc upd r) (\<lambda>(out, r). Inr (terminal initial schedule r out)))"

section \<open>The retry loop as a step relation\<close>

text \<open>
  \<^verbatim>\<open>do { if (!old) break; } while (!atomic_try_cmpxchg_relaxed(&r->refs, &old, old + i))\<close>: a state at the
  loop head holds the counter and the expected value; an attempt sees the value \<open>v\<close> that the
  environment left in the counter.
\<close>

datatype cas_state = Retry int int | Done cas_outcome int int

inductive cas_step :: "int \<Rightarrow> bool \<Rightarrow> cas_state \<Rightarrow> int \<Rightarrow> cas_state \<Rightarrow> bool" for inc :: int and upd :: bool where
  cas_zero: "cas_step inc upd (Retry r 0) v (Done ZeroExit r 0)"
| cas_success: "e \<noteq> 0 \<Longrightarrow> cas_step inc upd (Retry r e) e (Done Successful (e + inc) e)"
| cas_mismatch: "e \<noteq> 0 \<Longrightarrow> v \<noteq> e \<Longrightarrow> cas_step inc upd (Retry r e) v (Retry v (if upd then v else e))"

inductive cas_steps :: "int \<Rightarrow> bool \<Rightarrow> cas_state \<Rightarrow> int list \<Rightarrow> cas_state \<Rightarrow> bool" for inc :: int and upd :: bool where
  cas_refl: "cas_steps inc upd s [] s"
| cas_trans: "cas_step inc upd s v t \<Longrightarrow> cas_steps inc upd t vs u \<Longrightarrow> cas_steps inc upd s (v # vs) u"

inductive_cases retry_stepE: "cas_step inc upd (Retry r e) v t"
inductive_cases done_stepE: "cas_step inc upd (Done out r e) v t"
inductive_simps done_step [simp]: "cas_step inc upd (Done out r e) v t"

text \<open>The run seen as a state of the loop, and the states it passed.\<close>

lemma prefix_loop_steps:
  "prefix_loop inc upd r vs = (out, r') \<Longrightarrow>
     \<exists>us ws. vs = us @ ws \<and> cas_steps inc upd (Retry (cr_refs r) (cr_expected r)) us
         (case out of None \<Rightarrow> Retry (cr_refs r') (cr_expected r') | Some x \<Rightarrow> Done x (cr_refs r') (cr_expected r'))
       \<and> (out = None \<longrightarrow> ws = [])"
proof (induction r vs arbitrary: out r' rule: prefix_loop_induct [where upd = upd])
  case (Nil r)
  then show ?case by (auto intro: cas_refl)
next
  case (zero r v vs)
  then have "cas_steps inc upd (Retry (cr_refs r) (cr_expected r)) [v] (Done ZeroExit (cr_refs r) 0)"
    using cas_zero [of inc upd "cr_refs r" v] by (auto intro: cas_trans cas_refl)
  with zero show ?case by (intro exI [of _ "[v]"] exI [of _ vs]) auto
next
  case (hit r v vs)
  then have "cas_steps inc upd (Retry (cr_refs r) (cr_expected r)) [v] (Done Successful (v + inc) v)"
    using cas_success [of "cr_expected r" inc upd "cr_refs r"] by (auto intro: cas_trans cas_refl)
  with hit show ?case by (intro exI [of _ "[v]"] exI [of _ vs]) (auto simp: Let_def)
next
  case (miss r v vs)
  from miss.prems miss.hyps have "prefix_loop inc upd (mismatch upd (observe v r)) vs = (out, r')" by (simp add: Let_def)
  from miss.IH [OF this] obtain us ws where us: "vs = us @ ws" "out = None \<longrightarrow> ws = []"
      "cas_steps inc upd (Retry v (if upd then v else cr_expected r)) us
       (case out of None \<Rightarrow> Retry (cr_refs r') (cr_expected r') | Some x \<Rightarrow> Done x (cr_refs r') (cr_expected r'))"
    by (cases upd) auto
  from cas_trans [OF cas_mismatch [OF miss.hyps] us(3)] us(1,2) show ?case
    by (intro exI [of _ "v # us"] exI [of _ ws]) simp
qed

text \<open>What the loop keeps: every attempt but a last successful one is a failure.\<close>

lemma prefix_loop_counts:
  "prefix_loop inc upd r vs = (out, r') \<Longrightarrow> cr_attempts r = cr_failures r \<Longrightarrow>
     cr_failures r' \<le> cr_failures r + length vs
     \<and> cr_attempts r' = cr_failures r' + (if out = Some Successful then 1 else 0)
     \<and> (out = Some Successful \<longrightarrow> cr_failures r' < cr_failures r + length vs
          \<and> cr_expected r' \<noteq> 0 \<and> cr_refs r' = cr_expected r' + inc)
     \<and> (out = Some ZeroExit \<longrightarrow> cr_expected r' = 0)
     \<and> out \<noteq> Some Nonterminating"
proof (induction r vs arbitrary: out r' rule: prefix_loop_induct [where upd = upd])
  case (miss r v vs)
  from miss.IH [of out r'] miss.prems miss.hyps show ?case by (auto simp: Let_def)
qed (auto simp: Let_def)

text \<open>With a strong compare-and-swap the expected value agrees with the counter after the interference.\<close>

lemma prefix_loop_agrees:
  "prefix_loop inc True r vs = (None, r') \<Longrightarrow> cr_refs r = cr_expected r \<Longrightarrow> cr_refs r' = cr_expected r'"
  by (induction r vs arbitrary: r' rule: prefix_loop_induct [where upd = True]) (auto simp: Let_def)

lemma cas_steps_snoc: "cas_steps inc upd s vs t \<Longrightarrow> cas_step inc upd t v u \<Longrightarrow> cas_steps inc upd s (vs @ [v]) u"
  by (induction rule: cas_steps.induct) (auto intro: cas_trans cas_refl)

lemma prefix_loop_last: "prefix_loop inc upd r vs = (None, r') \<Longrightarrow> cr_refs r' = last (cr_refs r # vs)"
  by (induction r vs arbitrary: r' rule: prefix_loop_induct [where upd = upd]) (auto simp: Let_def)

text \<open>
  C23. The simulation follows the retry loop: a row that ends with a success or a zero exit is reached from the
  initial read by steps of the loop that see the interference values in order and then, undisturbed, the last value
  left in the counter; a row reported as nonterminating is in a state that the undisturbed attempt leads back to.
\<close>

theorem simulation_follows_loop:
  assumes "simulate_bounded_schedule initial schedule inc upd = Inr row"
  shows "\<exists>us. prefix us (schedule @ [last (initial # schedule)])
      \<and> (if sr_outcome row = Nonterminating
         then (\<exists>r e. sr_final row = (r, e) \<and> cas_steps inc upd (Retry initial initial) us (Retry r e)
                 \<and> cas_step inc upd (Retry r e) r (Retry r e))
         else cas_steps inc upd (Retry initial initial) us (Done (sr_outcome row) (fst (sr_final row)) (snd (sr_final row))))"
proof -
  let ?start = "Retry initial initial" and ?q = "last (initial # schedule)"
  obtain out r where loop: "prefix_loop inc upd (start_run initial) schedule = (out, r)"
    by (cases "prefix_loop inc upd (start_run initial) schedule")
  from prefix_loop_steps [OF loop] obtain us ws where us: "schedule = us @ ws" "out = None \<longrightarrow> ws = []"
      "cas_steps inc upd ?start us (case out of None \<Rightarrow> Retry (cr_refs r) (cr_expected r) | Some x \<Rightarrow> Done x (cr_refs r) (cr_expected r))"
    by (auto simp: start_run_def)
  show ?thesis
  proof (cases out)
    case (Some x)
    with assms loop have row: "row = terminal initial schedule r x" by (simp add: simulate_bounded_schedule_def)
    have "x \<noteq> Nonterminating" using prefix_loop_counts [OF loop] Some by (auto simp: start_run_def)
    with us Some row show ?thesis by (intro exI [of _ us]) (simp add: terminal_def)
  next
    case None
    with us have steps: "cas_steps inc upd ?start schedule (Retry (cr_refs r) (cr_expected r))" by simp
    have q: "cr_refs r = ?q" using prefix_loop_last [OF loop [unfolded None]] by (simp add: start_run_def)
    from assms loop None obtain y r2 where y: "quiescent_step inc upd r = Inr (y, r2)" "row = terminal initial schedule r2 y"
      by (auto simp: simulate_bounded_schedule_def res_simps)
    then consider (zero) "cr_expected r = 0" "y = ZeroExit" "cr_refs r2 = cr_refs r" "cr_expected r2 = 0"
      | (hit) "cr_expected r \<noteq> 0" "cr_refs r = cr_expected r" "y = Successful" "cr_refs r2 = cr_expected r + inc" "cr_expected r2 = cr_expected r"
      | (miss) "cr_expected r \<noteq> 0" "cr_refs r \<noteq> cr_expected r" "\<not> upd" "y = Nonterminating" "cr_refs r2 = cr_refs r" "cr_expected r2 = cr_expected r"
      by (auto simp: quiescent_step_def Let_def split: if_splits)
    then show ?thesis
    proof cases
      case zero
      with cas_steps_snoc [OF steps, of ?q "Done ZeroExit (cr_refs r) 0"] y(2) show ?thesis
        by (intro exI [of _ "schedule @ [?q]"]) (simp add: terminal_def cas_zero)
    next
      case hit
      with cas_steps_snoc [OF steps, of ?q "Done Successful (cr_expected r + inc) (cr_expected r)"] y(2) q
        cas_success [OF hit(1), of inc upd "cr_refs r"] show ?thesis
        by (intro exI [of _ "schedule @ [?q]"]) (simp add: terminal_def)
    next
      case miss
      with steps y(2) cas_mismatch [OF miss(1) miss(2), of inc upd "cr_refs r"] show ?thesis
        by (intro exI [of _ schedule]) (simp add: terminal_def)
    qed
  qed
qed

section \<open>Progress under quiescence\<close>

lemma simulation_counts:
  assumes "simulate_bounded_schedule initial schedule inc upd = Inr row"
  shows "sr_failures row \<le> length schedule + (if sr_outcome row = Nonterminating then 1 else 0)
    \<and> sr_attempts row = sr_failures row + (if sr_outcome row = Successful then 1 else 0)
    \<and> (sr_outcome row = Successful \<longrightarrow> snd (sr_final row) \<noteq> 0 \<and> fst (sr_final row) = snd (sr_final row) + inc)
    \<and> (sr_outcome row = ZeroExit \<longrightarrow> snd (sr_final row) = 0)"
proof -
  obtain out r where loop: "prefix_loop inc upd (start_run initial) schedule = (out, r)"
    by (cases "prefix_loop inc upd (start_run initial) schedule")
  note c = prefix_loop_counts [OF loop]
  show ?thesis
  proof (cases out)
    case (Some x)
    with assms loop have "row = terminal initial schedule r x" by (simp add: simulate_bounded_schedule_def)
    with c Some show ?thesis by (auto simp: terminal_def start_run_def)
  next
    case None
    with assms loop obtain y r2 where y: "quiescent_step inc upd r = Inr (y, r2)" "row = terminal initial schedule r2 y"
      by (auto simp: simulate_bounded_schedule_def res_simps)
    with c None show ?thesis by (auto simp: quiescent_step_def terminal_def start_run_def Let_def split: if_splits)
  qed
qed

lemma strong_cas_simulates:
  "\<exists>row. simulate_bounded_schedule initial schedule inc True = Inr row
     \<and> sr_outcome row \<in> {Successful, ZeroExit}
     \<and> sr_failures row \<le> length schedule \<and> sr_attempts row \<le> length schedule + 1"
proof -
  obtain out r where loop: "prefix_loop inc True (start_run initial) schedule = (out, r)"
    by (cases "prefix_loop inc True (start_run initial) schedule")
  have "\<exists>row. simulate_bounded_schedule initial schedule inc True = Inr row \<and> sr_outcome row \<noteq> Nonterminating"
  proof (cases out)
    case (Some x)
    with loop prefix_loop_counts [OF loop] show ?thesis
      by (simp add: simulate_bounded_schedule_def terminal_def start_run_def)
  next
    case None
    have "cr_refs r = cr_expected r" using prefix_loop_agrees [OF loop [unfolded None]] by (simp add: start_run_def)
    with loop None show ?thesis by (simp add: simulate_bounded_schedule_def quiescent_step_def terminal_def Let_def)
  qed
  then obtain row where row: "simulate_bounded_schedule initial schedule inc True = Inr row" "sr_outcome row \<noteq> Nonterminating"
    by blast
  with simulation_counts [OF row(1)] show ?thesis by (intro exI [of _ row]) (cases "sr_outcome row"; simp)
qed

text \<open>
  C24. Progress of the retry loop with a strong compare-and-swap, for every initial value, every increment and every
  finite schedule of interference, not only the enumerated ones: the simulation returns, with a success or a zero exit,
  after at most one attempt more than there are interference values.
\<close>

theorem strong_cas_progress:
  "\<exists>row. simulate_bounded_schedule initial schedule inc True = Inr row
     \<and> sr_outcome row \<in> {Successful, ZeroExit}
     \<and> sr_failures row \<le> length schedule \<and> sr_attempts row \<le> length schedule + 1"
  by (rule strong_cas_simulates)

text \<open>
  C39. The loop never resurrects a dead object: a simulated success took its reference from a nonzero count and adds
  exactly the increment to it, and a run that saw zero ends without a reference.
\<close>

theorem no_resurrection:
  assumes "simulate_bounded_schedule initial schedule inc upd = Inr row"
  shows "(sr_outcome row = Successful \<longrightarrow> snd (sr_final row) \<noteq> 0 \<and> fst (sr_final row) = snd (sr_final row) + inc)
    \<and> (sr_outcome row = ZeroExit \<longrightarrow> snd (sr_final row) = 0)"
  using simulation_counts [OF assms] by simp

section \<open>The enumeration of a domain\<close>

record progress_domain =
  pd_initial :: "int list"
  pd_interference :: "int list"
  pd_max_observations :: nat
  pd_increment :: int
  pd_max_attempts :: nat

text \<open>\<^verbatim>\<open>itertools.product(values, repeat=n)\<close>\<close>

fun schedules :: "'a list \<Rightarrow> nat \<Rightarrow> 'a list list" where
  "schedules vs 0 = [[]]"
| "schedules vs (Suc n) = concat (map (\<lambda>v. map (Cons v) (schedules vs n)) vs)"

definition all_schedules :: "progress_domain \<Rightarrow> int list list" where
  "all_schedules dm = concat (map (schedules (pd_interference dm)) [0..<pd_max_observations dm + 1])"

definition domain_rows :: "progress_domain \<Rightarrow> bool \<Rightarrow> schedule_row list res" where
  "domain_rows dm upd =
     mapM (\<lambda>(initial, schedule). simulate_bounded_schedule initial schedule (pd_increment dm) upd)
       (List.product (pd_initial dm) (all_schedules dm))"

text \<open>\<^verbatim>\<open>max(...)\<close> of an empty sequence raises.\<close>

definition max_of :: "'a :: linorder list \<Rightarrow> 'a res" where
  "max_of xs = (case xs of [] \<Rightarrow> Inl (Exn ValueError ''max() arg is an empty sequence'') | x # xs \<Rightarrow> Inr (foldl max x xs))"

record aggregate =
  ag_total :: nat
  ag_successful :: nat
  ag_zero_exit :: nat
  ag_nonterminating :: nat
  ag_max_attempts :: nat
  ag_max_failures :: nat
  ag_witness :: "schedule_row option"
  ag_nonterminating_witness :: "schedule_row option"

definition count_outcome :: "cas_outcome \<Rightarrow> schedule_row list \<Rightarrow> nat" where
  "count_outcome out rows = length (filter (\<lambda>r. sr_outcome r = out) rows)"

definition bounded_progress_aggregate :: "progress_domain \<Rightarrow> bool \<Rightarrow> aggregate res" where
  "bounded_progress_aggregate dm upd =
     bind_res (domain_rows dm upd) (\<lambda>rows.
     bind_res (max_of (map sr_attempts rows)) (\<lambda>max_attempts.
     bind_res (max_of (map sr_failures rows)) (\<lambda>max_failures.
     Inr \<lparr>ag_total = length rows, ag_successful = count_outcome Successful rows,
          ag_zero_exit = count_outcome ZeroExit rows, ag_nonterminating = count_outcome Nonterminating rows,
          ag_max_attempts = max_attempts, ag_max_failures = max_failures,
          ag_witness = find (\<lambda>r. sr_attempts r = max_attempts) rows,
          ag_nonterminating_witness = find (\<lambda>r. sr_outcome r = Nonterminating) rows\<rparr>)))"

lemma length_schedules: "length (schedules vs n) = length vs ^ n"
proof (induction n)
  case (Suc n)
  then show ?case by (simp add: length_concat comp_def sum_list_triv)
qed simp

lemma schedules_length: "s \<in> set (schedules vs n) \<Longrightarrow> length s = n"
  by (induction n arbitrary: s) auto

lemma all_schedules_length: "s \<in> set (all_schedules dm) \<Longrightarrow> length s \<le> pd_max_observations dm"
  by (auto simp: all_schedules_def dest!: schedules_length)

lemma length_all_schedules:
  "length (all_schedules dm) = (\<Sum>l\<leftarrow>[0..<pd_max_observations dm + 1]. length (pd_interference dm) ^ l)"
  by (simp add: all_schedules_def length_concat comp_def length_schedules)

lemma empty_schedule: "[] \<in> set (all_schedules dm)"
  by (auto simp: all_schedules_def simp del: upt_Suc intro!: bexI [of _ "0 :: nat"])

lemma foldl_max: "foldl max (x :: 'a :: linorder) xs = Max (set (x # xs))"
  unfolding foldl_conv_fold Max.set_eq_fold by (intro arg_cong3 [where f = fold] ext refl) (simp add: max.commute)

lemma max_of_Inr: "max_of xs = Inr m \<longleftrightarrow> xs \<noteq> [] \<and> m = Max (set xs)"
  by (cases xs) (auto simp: max_of_def foldl_max simp del: list.set)

lemma count_outcomes:
  "length rows = count_outcome Successful rows + count_outcome ZeroExit rows + count_outcome Nonterminating rows"
proof (induction rows)
  case (Cons r rows)
  then show ?case by (cases "sr_outcome r") (simp_all add: count_outcome_def)
qed (simp add: count_outcome_def)

text \<open>Every row of the enumeration is the simulation of a schedule of the domain.\<close>

lemma domain_rows_mem:
  assumes "domain_rows dm upd = Inr rows" and "row \<in> set rows"
  shows "\<exists>initial schedule. simulate_bounded_schedule initial schedule (pd_increment dm) upd = Inr row
    \<and> length schedule \<le> pd_max_observations dm"
  using mapM_set [OF assms(1) [unfolded domain_rows_def] assms(2)] by (auto dest: all_schedules_length)

lemma mapM_total: "(\<And>x. x \<in> set xs \<Longrightarrow> \<exists>y. f x = Inr y) \<Longrightarrow> \<exists>ys. mapM f xs = Inr ys"
proof (induction xs)
  case (Cons x xs)
  then obtain y ys where "f x = Inr y" "mapM f xs = Inr ys" by (meson list.set_intros)
  then show ?case by simp
qed simp

lemma domain_rows_strong: "\<exists>rows. domain_rows dm True = Inr rows"
  unfolding domain_rows_def
proof (rule mapM_total)
  fix x :: "int \<times> int list"
  show "\<exists>y. (case x of (initial, schedule) \<Rightarrow> simulate_bounded_schedule initial schedule (pd_increment dm) True) = Inr y"
    using strong_cas_simulates by (cases x) fastforce
qed

text \<open>
  The enumeration of any domain with the strong compare-and-swap: it returns, it simulates every pair of an initial
  value and a schedule, none is nonterminating, and no run takes more attempts than one more than the longest schedule.
\<close>

theorem strong_aggregate_terminates:
  assumes "pd_initial dm \<noteq> []"
  shows "\<exists>ag. bounded_progress_aggregate dm True = Inr ag \<and> ag_nonterminating ag = 0
    \<and> ag_total ag = length (pd_initial dm) * (\<Sum>l\<leftarrow>[0..<pd_max_observations dm + 1]. length (pd_interference dm) ^ l)
    \<and> ag_successful ag + ag_zero_exit ag = ag_total ag
    \<and> ag_max_attempts ag \<le> pd_max_observations dm + 1 \<and> ag_max_failures ag \<le> pd_max_observations dm"
proof -
  obtain rows where rows: "domain_rows dm True = Inr rows" using domain_rows_strong by blast
  from mapM_length [OF rows [unfolded domain_rows_def]]
  have len: "length rows = length (pd_initial dm) * length (all_schedules dm)" by simp
  with assms empty_schedule [of dm] have ne: "rows \<noteq> []" by auto
  have row: "sr_outcome r \<noteq> Nonterminating \<and> sr_attempts r \<le> pd_max_observations dm + 1 \<and> sr_failures r \<le> pd_max_observations dm"
    if r: "r \<in> set rows" for r
  proof -
    from domain_rows_mem [OF rows r] obtain initial schedule where
        s: "simulate_bounded_schedule initial schedule (pd_increment dm) True = Inr r" "length schedule \<le> pd_max_observations dm"
      by blast
    from strong_cas_simulates [of initial schedule "pd_increment dm"] s show ?thesis by auto
  qed
  then have none: "count_outcome Nonterminating rows = 0" by (auto simp: count_outcome_def filter_empty_conv)
  have bounds: "Max (set (map sr_attempts rows)) \<le> pd_max_observations dm + 1"
      "Max (set (map sr_failures rows)) \<le> pd_max_observations dm"
    using ne row by (auto simp: Max_le_iff)
  from rows ne none bounds len count_outcomes [of rows] show ?thesis
    by (simp add: bounded_progress_aggregate_def bind_res_Inr max_of_Inr length_all_schedules)
qed

section \<open>The declared cases\<close>

definition outcome_str :: "cas_outcome \<Rightarrow> string" where
  "outcome_str out = (case out of Successful \<Rightarrow> ''successful'' | ZeroExit \<Rightarrow> ''zero_exit'' | Nonterminating \<Rightarrow> ''nonterminating'')"

definition state_dict :: "int \<Rightarrow> int \<Rightarrow> pydict" where
  "state_dict refs expected = [(''refs'', PInt refs), (''expected'', PInt expected)]"

definition event_dict :: "cas_event \<Rightarrow> py" where
  "event_dict ev = PDict (case ev of
     InitialRead r e \<Rightarrow> (''event'', PStr ''initial-read'') # state_dict r e
   | ZeroExitEvent r e \<Rightarrow> (''event'', PStr ''zero-exit'') # state_dict r e
   | Interference r e \<Rightarrow> (''event'', PStr ''interference-observation'') # state_dict r e
   | CasSuccess r e \<Rightarrow> (''event'', PStr ''cas-success'') # state_dict r e
   | CasMismatch r b a \<Rightarrow> [(''event'', PStr ''cas-mismatch''), (''refs'', PInt r), (''expected_before'', PInt b), (''expected_after'', PInt a)]
   | ZeroExitAfterQuiescence r e \<Rightarrow> (''event'', PStr ''zero-exit-after-quiescence'') # state_dict r e
   | QuiescentCasSuccess r e \<Rightarrow> (''event'', PStr ''quiescent-cas-success'') # state_dict r e
   | QuiescentStaleExpectedCycle r e \<Rightarrow> (''event'', PStr ''quiescent-stale-expected-cycle'') # state_dict r e)"

definition row_dict :: "schedule_row \<Rightarrow> py" where
  "row_dict r = PDict [(''outcome'', PStr (outcome_str (sr_outcome r))), (''initial'', PInt (sr_initial r)),
     (''schedule'', PList (map PInt (sr_schedule r))), (''cas_attempts'', PInt (int (sr_attempts r))),
     (''cas_failures'', PInt (int (sr_failures r))), (''final_state'', PDict (state_dict (fst (sr_final r)) (snd (sr_final r)))),
     (''trace'', PList (map event_dict (sr_trace r)))]"

definition option_py :: "('a \<Rightarrow> py) \<Rightarrow> 'a option \<Rightarrow> py" where
  "option_py f x = (case x of None \<Rightarrow> PNone | Some y \<Rightarrow> f y)"

definition aggregate_dict :: "aggregate \<Rightarrow> pydict" where
  "aggregate_dict ag = [(''total_schedules'', PInt (int (ag_total ag))), (''successful'', PInt (int (ag_successful ag))),
     (''zero_exit'', PInt (int (ag_zero_exit ag))), (''nonterminating'', PInt (int (ag_nonterminating ag))),
     (''max_cas_attempts'', PInt (int (ag_max_attempts ag))), (''max_failures'', PInt (int (ag_max_failures ag))),
     (''max_attempt_witness'', option_py row_dict (ag_witness ag)),
     (''nonterminating_witness'', option_py row_dict (ag_nonterminating_witness ag))]"

definition progress_core :: "pydict \<Rightarrow> pydict \<Rightarrow> pydict" where
  "progress_core actual expected = map (\<lambda>k. (k, dget actual k)) (keys expected)"

text \<open>A spurious failure changes neither operand.\<close>

definition spurious_failure_cycle :: pydict where
  "spurious_failure_cycle =
     (let before = state_dict 1 1; after = before in
      [(''cycle_found'', PBool (py_eq (PDict before) (PDict after))), (''cycle_length'', PInt 1), (''state'', PDict after),
       (''trace'', PList [PDict ((''event'', PStr ''loop-head'') # before),
          PDict ((''event'', PStr ''spurious-cas-failure'') # after), PDict ((''event'', PStr ''same-loop-head'') # after)])])"

fun interfere :: "int \<Rightarrow> int list \<Rightarrow> (int list \<times> string list) res" where
  "interfere expected [] = Inr ([], [])"
| "interfere expected (observed # os) =
     (if observed = expected
      then Inl (Exn IpcRefcountError ''unbounded-interference control unexpectedly permits CAS success'')
      else bind_res (interfere observed os) (\<lambda>(states, trace).
        Inr (observed # states, (''observe '' @ int_str observed @ '', fail expected '' @ int_str expected
               @ '', update expected to '' @ int_str observed) # trace)))"

definition unbounded_interference_cycle :: "pydict res" where
  "unbounded_interference_cycle =
     bind_res (interfere 1 [2, 1]) (\<lambda>(states, trace).
       let st = map (\<lambda>v. PDict (state_dict v v)) (1 # states) in
       Inr [(''cycle_found'', PBool (py_eq (last st) (hd st))), (''cycle_length'', PInt 2), (''states'', PList st),
            (''interference'', PList [PInt 2, PInt 1]), (''trace'', PList (map PStr trace))])"

section \<open>Evaluating the enumeration\<close>

text \<open>
  The outcome and the counts of a schedule without its trace: a second, direct reading of the loop that the kernel can
  evaluate on a whole domain.
\<close>

fun quick :: "bool \<Rightarrow> int \<Rightarrow> int \<Rightarrow> nat \<Rightarrow> int list \<Rightarrow> cas_outcome \<times> nat \<times> nat" where
  "quick upd r e f [] =
     (if e = 0 then (ZeroExit, f, f) else if r = e then (Successful, Suc f, f) else (Nonterminating, Suc f, Suc f))"
| "quick upd r e f (v # vs) =
     (if e = 0 then (ZeroExit, f, f) else if v = e then (Successful, Suc f, f)
      else quick upd v (if upd then v else e) (Suc f) vs)"

definition row_counts :: "schedule_row \<Rightarrow> cas_outcome \<times> nat \<times> nat" where
  "row_counts r = (sr_outcome r, sr_attempts r, sr_failures r)"

lemma prefix_loop_quick:
  "prefix_loop inc upd r vs = (out, r') \<Longrightarrow> cr_attempts r = cr_failures r \<Longrightarrow>
     quick upd (cr_refs r) (cr_expected r) (cr_failures r) vs =
       (case out of Some x \<Rightarrow> (x, cr_attempts r', cr_failures r') | None \<Rightarrow> quick upd (cr_refs r') (cr_expected r') (cr_failures r') [])"
proof (induction r vs arbitrary: out r' rule: prefix_loop_induct [where upd = upd])
  case (miss r v vs)
  from miss.prems miss.hyps have "prefix_loop inc upd (mismatch upd (observe v r)) vs = (out, r')" by (simp add: Let_def)
  from miss.IH [OF this] miss.prems miss.hyps show ?case by (cases upd) simp_all
qed (auto simp: Let_def)

lemma simulation_quick:
  assumes "simulate_bounded_schedule initial schedule inc upd = Inr row"
  shows "row_counts row = quick upd initial initial 0 schedule"
proof -
  obtain out r where loop: "prefix_loop inc upd (start_run initial) schedule = (out, r)"
    by (cases "prefix_loop inc upd (start_run initial) schedule")
  note q = prefix_loop_quick [OF loop]
  note c = prefix_loop_counts [OF loop]
  show ?thesis
  proof (cases out)
    case (Some x)
    with assms loop q show ?thesis
      by (auto simp: simulate_bounded_schedule_def terminal_def start_run_def row_counts_def)
  next
    case None
    with assms loop obtain y r2 where y: "quiescent_step inc upd r = Inr (y, r2)" "row = terminal initial schedule r2 y"
      by (auto simp: simulate_bounded_schedule_def res_simps)
    with q c None show ?thesis
      by (auto simp: quiescent_step_def terminal_def start_run_def row_counts_def Let_def split: if_splits)
  qed
qed

lemma simulation_total: "\<exists>row. simulate_bounded_schedule initial schedule inc upd = Inr row"
proof (cases upd)
  case True
  then show ?thesis using strong_cas_simulates [of initial schedule inc] by auto
next
  case False
  then show ?thesis by (auto simp: simulate_bounded_schedule_def quiescent_step_def Let_def split: prod.splits option.splits)
qed

definition quick_counts :: "progress_domain \<Rightarrow> bool \<Rightarrow> (cas_outcome \<times> nat \<times> nat) list" where
  "quick_counts dm upd = map (\<lambda>(initial, schedule). quick upd initial initial 0 schedule)
     (List.product (pd_initial dm) (all_schedules dm))"

lemma domain_rows_quick: "\<exists>rows. domain_rows dm upd = Inr rows \<and> map row_counts rows = quick_counts dm upd"
proof -
  obtain rows where rows: "domain_rows dm upd = Inr rows"
    unfolding domain_rows_def using mapM_total [of "List.product (pd_initial dm) (all_schedules dm)"] simulation_total
    by (metis (mono_tags, lifting) case_prod_conv surj_pair)
  have "list_all2 (\<lambda>x r. row_counts r = (\<lambda>(initial, schedule). quick upd initial initial 0 schedule) x)
      (List.product (pd_initial dm) (all_schedules dm)) rows"
    using rows [unfolded domain_rows_def mapM_Inr_iff]
    by (rule list_all2_mono) (auto simp: simulation_quick)
  then have "map row_counts rows = quick_counts dm upd"
    by (auto simp: quick_counts_def list_eq_iff_nth_eq list_all2_conv_all_nth)
  with rows show ?thesis by blast
qed

definition counts_of :: "(cas_outcome \<times> nat \<times> nat) list \<Rightarrow> nat \<times> nat \<times> nat \<times> nat \<times> nat \<times> nat" where
  "counts_of cs = (length cs, length (filter (\<lambda>c. fst c = Successful) cs), length (filter (\<lambda>c. fst c = ZeroExit) cs),
     length (filter (\<lambda>c. fst c = Nonterminating) cs), foldl max 0 (map (fst \<circ> snd) cs), foldl max 0 (map (snd \<circ> snd) cs))"

lemma foldl_max_zero: "xs \<noteq> [] \<Longrightarrow> foldl max 0 xs = (Max (set xs) :: nat)"
  by (cases xs) (simp_all only: foldl_Cons max_0L foldl_max list.distinct)

lemma aggregate_counts:
  assumes "quick_counts dm upd \<noteq> []"
  shows "\<exists>ag. bounded_progress_aggregate dm upd = Inr ag \<and>
    counts_of (quick_counts dm upd) =
      (ag_total ag, ag_successful ag, ag_zero_exit ag, ag_nonterminating ag, ag_max_attempts ag, ag_max_failures ag)"
proof -
  obtain rows where rows: "domain_rows dm upd = Inr rows" "map row_counts rows = quick_counts dm upd"
    using domain_rows_quick by blast
  then have ne: "rows \<noteq> []" using assms by auto
  have "counts_of (map row_counts rows) = (length rows, count_outcome Successful rows, count_outcome ZeroExit rows,
      count_outcome Nonterminating rows, foldl max 0 (map sr_attempts rows), foldl max 0 (map sr_failures rows))"
    by (simp add: counts_of_def count_outcome_def filter_map comp_def row_counts_def)
  with rows ne show ?thesis
    by (simp add: bounded_progress_aggregate_def bind_res_Inr max_of_Inr foldl_max_zero del: set_map)
qed

section \<open>The pinned cases\<close>

definition declared_domain :: progress_domain where
  "declared_domain = \<lparr>pd_initial = [0, 1, 2, 3], pd_interference = [0, 1, 2, 3], pd_max_observations = 3,
     pd_increment = 1, pd_max_attempts = 4\<rparr>"

definition count_dict :: "int \<Rightarrow> int \<Rightarrow> int \<Rightarrow> int \<Rightarrow> int \<Rightarrow> int \<Rightarrow> pydict" where
  "count_dict t s z n a f = [(''total_schedules'', PInt t), (''successful'', PInt s), (''zero_exit'', PInt z),
     (''nonterminating'', PInt n), (''max_cas_attempts'', PInt a), (''max_failures'', PInt f)]"

definition PROGRESS_CASE_SPECS :: "(string \<times> pydict) list" where
  "PROGRESS_CASE_SPECS =
     [(''bounded_quiescent_strong_cas'',
        [(''role'', PStr ''verification_candidate''), (''variant'', PStr ''update_expected_on_mismatch''),
         (''verification_candidate'', PBool True), (''control_for'', PNone),
         (''expected'', PDict (count_dict 340 150 190 0 4 3))]),
      (''stale_expected_negative'',
        [(''role'', PStr ''required_stale_expected_control''), (''variant'', PStr ''retain_stale_expected_on_mismatch''),
         (''verification_candidate'', PBool False), (''control_for'', PStr ''bounded_quiescent_strong_cas''),
         (''expected'', PDict (count_dict 340 138 85 117 4 4))]),
      (''spurious_failure_negative'',
        [(''role'', PStr ''required_spurious_failure_control''), (''variant'', PStr ''permit_spurious_failure_after_quiescence''),
         (''verification_candidate'', PBool False), (''control_for'', PStr ''bounded_quiescent_strong_cas''),
         (''expected'', PDict [(''cycle_found'', PBool True), (''cycle_length'', PInt 1), (''state'', PDict (state_dict 1 1))])]),
      (''unbounded_interference_negative'',
        [(''role'', PStr ''required_unbounded_interference_control''), (''variant'', PStr ''alternate_counter_forever''),
         (''verification_candidate'', PBool False), (''control_for'', PStr ''bounded_quiescent_strong_cas''),
         (''expected'', PDict [(''cycle_found'', PBool True), (''cycle_length'', PInt 2),
            (''states'', PList [PDict (state_dict 1 1), PDict (state_dict 2 2), PDict (state_dict 1 1)]),
            (''interference'', PList [PInt 2, PInt 1])])])]"

definition actual_by_id :: "progress_domain \<Rightarrow> (string \<times> pydict) list res" where
  "actual_by_id dm =
     bind_res (bounded_progress_aggregate dm True) (\<lambda>strong.
     bind_res (bounded_progress_aggregate dm False) (\<lambda>stale.
     bind_res unbounded_interference_cycle (\<lambda>unbounded.
     Inr [(''bounded_quiescent_strong_cas'', aggregate_dict strong), (''stale_expected_negative'', aggregate_dict stale),
          (''spurious_failure_negative'', spurious_failure_cycle), (''unbounded_interference_negative'', unbounded)])))"

text \<open>The two checks of one case, and the checks of the whole enumeration that end the run.\<close>

definition case_checks :: "string \<Rightarrow> pydict \<Rightarrow> pydict \<Rightarrow> py \<Rightarrow> check_row list" where
  "case_checks cid actual expected candidate =
     [check_that (''progress '' @ cid @ '': expected result'') (PDict expected) (PDict (progress_core actual expected)),
      check_that (''progress '' @ cid @ '': verification eligibility'') (PBool (cid = ''bounded_quiescent_strong_cas'')) candidate]"

definition model_checks :: "progress_domain \<Rightarrow> (string \<times> pydict) list \<Rightarrow> check_row list" where
  "model_checks dm actual =
     (let get = (\<lambda>cid. the (map_of actual cid));
          positive = get ''bounded_quiescent_strong_cas''; stale = get ''stale_expected_negative'';
          spurious = get ''spurious_failure_negative''; unbounded = get ''unbounded_interference_negative'';
          more = (\<lambda>v. case v of PInt n \<Rightarrow> n > 0 | _ \<Rightarrow> False)
      in [check_that ''bounded source model always terminates'' (PInt 0) (dget positive ''nonterminating''),
          check_that ''bounded source model obeys declared CAS bound'' (PInt (int (pd_max_attempts dm))) (dget positive ''max_cas_attempts''),
          check_that ''stale-expected control exposes quiescent cycles'' (PBool True) (PBool (more (dget stale ''nonterminating''))),
          check_that ''spurious-failure control exposes a self-cycle'' (PBool True)
            (PBool (truthy (dget spurious ''cycle_found'') \<and> py_eq (dget spurious ''cycle_length'') (PInt 1))),
          check_that ''unbounded-interference control exposes starvation cycle'' (PBool True)
            (PBool (truthy (dget unbounded ''cycle_found'') \<and> py_eq (dget unbounded ''cycle_length'') (PInt 2)))])"

definition run_cases :: "(string \<times> pydict) list \<Rightarrow> (string \<times> pydict) list \<Rightarrow> check_row list res" where
  "run_cases actual cases =
     map_sum id concat (mapM (\<lambda>(cid, c).
       bind_res (case map_of actual cid of None \<Rightarrow> Inl (Exn KeyError cid) | Some a \<Rightarrow> Inr a) (\<lambda>a.
       case dget c ''expected'' of
         PDict e \<Rightarrow> Inr (case_checks cid a e (dget c ''verification_candidate''))
       | _ \<Rightarrow> Inl (Exn TypeError ''expected''))) cases)"

definition progress_case_checks :: "progress_domain \<Rightarrow> (string \<times> pydict) list \<Rightarrow> check_row list res" where
  "progress_case_checks dm cases =
     bind_res (actual_by_id dm) (\<lambda>actual.
     bind_res (run_cases actual cases) (\<lambda>checks.
     Inr (checks @ model_checks dm actual)))"

lemma strong_counts: "counts_of (quick_counts declared_domain True) = (340, 150, 190, 0, 4, 3)"
  by code_simp

lemma stale_counts: "counts_of (quick_counts declared_domain False) = (340, 138, 85, 117, 4, 4)"
  by code_simp

lemma declared_aggregates:
  "\<exists>ag. bounded_progress_aggregate declared_domain True = Inr ag
     \<and> progress_core (aggregate_dict ag) (count_dict 340 150 190 0 4 3) = count_dict 340 150 190 0 4 3"
  "\<exists>ag. bounded_progress_aggregate declared_domain False = Inr ag
     \<and> progress_core (aggregate_dict ag) (count_dict 340 138 85 117 4 4) = count_dict 340 138 85 117 4 4"
proof -
  have ne: "quick_counts declared_domain upd \<noteq> []" for upd
    using strong_counts stale_counts by (cases upd) (auto simp: counts_of_def)
  show "\<exists>ag. bounded_progress_aggregate declared_domain True = Inr ag
     \<and> progress_core (aggregate_dict ag) (count_dict 340 150 190 0 4 3) = count_dict 340 150 190 0 4 3"
    using aggregate_counts [OF ne, of True] unfolding strong_counts
    by (auto simp: progress_core_def aggregate_dict_def count_dict_def keys_def)
  show "\<exists>ag. bounded_progress_aggregate declared_domain False = Inr ag
     \<and> progress_core (aggregate_dict ag) (count_dict 340 138 85 117 4 4) = count_dict 340 138 85 117 4 4"
    using aggregate_counts [OF ne, of False] unfolding stale_counts
    by (auto simp: progress_core_def aggregate_dict_def count_dict_def keys_def)
qed

lemma pinned_cases_all:
  "\<exists>cs. progress_case_checks declared_domain PROGRESS_CASE_SPECS = Inr cs \<and> all_passed cs"
proof -
  obtain strong stale where ag: "bounded_progress_aggregate declared_domain True = Inr strong"
      "bounded_progress_aggregate declared_domain False = Inr stale"
      "progress_core (aggregate_dict strong) (count_dict 340 150 190 0 4 3) = count_dict 340 150 190 0 4 3"
      "progress_core (aggregate_dict stale) (count_dict 340 138 85 117 4 4) = count_dict 340 138 85 117 4 4"
    using declared_aggregates by blast
  obtain unbounded where un: "unbounded_interference_cycle = Inr unbounded"
      "progress_core unbounded [(''cycle_found'', PBool True), (''cycle_length'', PInt 2),
            (''states'', PList [PDict (state_dict 1 1), PDict (state_dict 2 2), PDict (state_dict 1 1)]),
            (''interference'', PList [PInt 2, PInt 1])] = [(''cycle_found'', PBool True), (''cycle_length'', PInt 2),
            (''states'', PList [PDict (state_dict 1 1), PDict (state_dict 2 2), PDict (state_dict 1 1)]),
            (''interference'', PList [PInt 2, PInt 1])]"
    by (auto simp: unbounded_interference_cycle_def progress_core_def keys_def state_dict_def)
  have ids: "actual_by_id declared_domain = Inr [(''bounded_quiescent_strong_cas'', aggregate_dict strong),
      (''stale_expected_negative'', aggregate_dict stale), (''spurious_failure_negative'', spurious_failure_cycle),
      (''unbounded_interference_negative'', unbounded)]"
    by (simp add: actual_by_id_def ag(1,2) un(1))
  have sp: "progress_core spurious_failure_cycle [(''cycle_found'', PBool True), (''cycle_length'', PInt 1), (''state'', PDict (state_dict 1 1))]
      = [(''cycle_found'', PBool True), (''cycle_length'', PInt 1), (''state'', PDict (state_dict 1 1))]"
    by (simp add: progress_core_def spurious_failure_cycle_def keys_def state_dict_def Let_def)
  have refl: "dict_le (count_dict a b c d e f) (count_dict a b c d e f)" for a b c d e f
    by (simp add: count_dict_def)
  have gets: "dget (aggregate_dict strong) ''nonterminating'' = PInt 0" "dget (aggregate_dict strong) ''max_cas_attempts'' = PInt 4"
      "dget (aggregate_dict stale) ''nonterminating'' = PInt 117"
      "dget unbounded ''cycle_found'' = PBool True" "dget unbounded ''cycle_length'' = PInt 2"
    using ag(3,4) un(2) by (simp_all add: progress_core_def count_dict_def keys_def)
  have models: "all_passed (model_checks declared_domain [(''bounded_quiescent_strong_cas'', aggregate_dict strong),
      (''stale_expected_negative'', aggregate_dict stale), (''spurious_failure_negative'', spurious_failure_cycle),
      (''unbounded_interference_negative'', unbounded)])"
    by (simp add: model_checks_def Let_def gets declared_domain_def spurious_failure_cycle_def state_dict_def)
  show ?thesis
    by (simp add: progress_case_checks_def run_cases_def PROGRESS_CASE_SPECS_def ids case_checks_def ag(3,4) un(2) sp refl models)
       (simp add: state_dict_def)
qed

text \<open>
  The counts the manifest pins are the counts the enumeration produces: for the declared domain the run of the four
  progress cases returns, and every check passes, among them that the strong loop has no nonterminating schedule in 340
  and that the three controls expose their cycles.
\<close>

theorem pinned_cases_pass:
  "\<exists>cs. progress_case_checks declared_domain PROGRESS_CASE_SPECS = Inr cs \<and> all_passed cs"
  by (rule pinned_cases_all)

lemma alternating_schedule:
  assumes "cr_expected r = v" and "v \<in> {1, 2}" and "cr_refs r = v"
  shows "\<exists>vs r'. length vs = n \<and> set vs \<subseteq> {1, 2} \<and> prefix_loop 1 True r vs = (None, r') \<and> cr_refs r' = cr_expected r'
    \<and> cr_expected r' \<in> {1, 2} \<and> cr_attempts r' = cr_attempts r + n \<and> cr_failures r' = cr_failures r + n"
  using assms
proof (induction n arbitrary: r v)
  case 0
  then show ?case by (intro exI [of _ "[]"]) auto
next
  case (Suc n)
  let ?r = "mismatch True (observe (3 - v) r)"
  have "cr_expected ?r = 3 - v" "3 - v \<in> {1, 2}" "cr_refs ?r = 3 - v" using Suc.prems by auto
  from Suc.IH [OF this] obtain vs r' where vs: "length vs = n" "set vs \<subseteq> {1, 2}" "prefix_loop 1 True ?r vs = (None, r')"
      "cr_refs r' = cr_expected r'" "cr_expected r' \<in> {1, 2}" "cr_attempts r' = cr_attempts ?r + n" "cr_failures r' = cr_failures ?r + n"
    by blast
  moreover have "prefix_loop 1 True r ((3 - v) # vs) = prefix_loop 1 True ?r vs"
    using Suc.prems by (intro prefix_loop_miss) auto
  ultimately show ?case using Suc.prems by (intro exI [of _ "(3 - v) # vs"] exI [of _ r']) auto
qed

text \<open>
  The bound on the interference is needed, and the bound on the attempts is tight: an environment that alternates the
  counter between the two values of the reported cycle makes every attempt but the undisturbed one fail, however long
  its schedule is.
\<close>

theorem starvation_without_bound:
  "\<exists>vs row. length vs = n \<and> set vs \<subseteq> {1, 2} \<and> simulate_bounded_schedule 1 vs 1 True = Inr row
     \<and> sr_failures row = n \<and> sr_attempts row = n + 1"
proof -
  obtain vs r' where vs: "length vs = n" "set vs \<subseteq> {1, 2}" "prefix_loop 1 True (start_run 1) vs = (None, r')"
      "cr_refs r' = cr_expected r'" "cr_expected r' \<in> {1, 2}" "cr_attempts r' = n" "cr_failures r' = n"
    using alternating_schedule [of "start_run 1" 1 n] by (auto simp: start_run_def)
  then show ?thesis
    by (intro exI [of _ vs]) (auto simp: simulate_bounded_schedule_def quiescent_step_def terminal_def Let_def)
qed

section \<open>Concrete runs\<close>

lemma sample_run:
  "map_sum id row_counts (simulate_bounded_schedule 1 [2, 3] 1 True) = Inr (Successful, 3, 2)"
  "map_sum id row_counts (simulate_bounded_schedule 1 [2] 1 False) = Inr (Nonterminating, 2, 2)"
  by code_simp+

lemma simulation_follows_loop_witness:
  "\<exists>row us r e. simulate_bounded_schedule 1 [2] 1 False = Inr row \<and> sr_outcome row = Nonterminating
     \<and> cas_steps 1 False (Retry 1 1) us (Retry r e) \<and> cas_step 1 False (Retry r e) r (Retry r e)"
proof -
  obtain row where row: "simulate_bounded_schedule 1 [2] 1 False = Inr row" "sr_outcome row = Nonterminating"
    using sample_run(2) by (auto simp: map_sum_Inr row_counts_def)
  with simulation_follows_loop [OF row(1)] show ?thesis by auto
qed

lemma no_resurrection_witness:
  "\<exists>row. simulate_bounded_schedule 1 [2, 3] 1 True = Inr row \<and> snd (sr_final row) \<noteq> 0
     \<and> fst (sr_final row) = snd (sr_final row) + 1"
proof -
  obtain row where row: "simulate_bounded_schedule 1 [2, 3] 1 True = Inr row" "sr_outcome row = Successful"
    using sample_run(1) by (auto simp: map_sum_Inr row_counts_def)
  with no_resurrection [OF row(1)] show ?thesis by auto
qed

lemma strong_aggregate_terminates_witness:
  "\<exists>ag. bounded_progress_aggregate declared_domain True = Inr ag \<and> ag_nonterminating ag = 0 \<and> ag_max_attempts ag \<le> 4"
  using strong_aggregate_terminates [of declared_domain] by (auto simp: declared_domain_def)

end
