(* ===== verification/Ipc_Manifest.thy ===== *)
theory Ipc_Manifest
  imports Ipc_Progress
begin

text \<open>
  \<^verbatim>\<open>fragma/concurrency_c3_ipc_refcount.py\<close>, the declared scope of the IPC refcount pilot and the
  validators of its manifest: the build profiles, the progress record, the two model cases and
  \<^verbatim>\<open>load_manifest\<close> itself, from the parsed JSON value on. Keys are read with \<open>dget\<close> only after the
  key set of their dictionary was compared, so that no look-up of the code can fail there.
\<close>

section \<open>The profiles\<close>

definition spec_x86_64 :: pydict where
  "spec_x86_64 =
     [(''arch'', PStr ''x86_64''),
      (''subarch'', PNone),
      (''cross_compile'', PNone),
      (''base_recipe'', PStr ''x86_64_defconfig''),
      (''compiler'', PStr ''/usr/bin/gcc''),
      (''compiler_target'', PStr ''x86_64-linux-gnu''),
      (''objdump'', PStr ''/usr/bin/objdump''),
      (''elf'', PList [PInt 2, PInt 1, PInt 62]),
      (''required_config'', PDict [(''CONFIG_64BIT'', PStr ''y''), (''CONFIG_X86_64'', PStr ''y''), (''CONFIG_SMP'', PStr ''y''),
        (''CONFIG_SYSVIPC'', PStr ''y''), (''CONFIG_TREE_RCU'', PStr ''y''), (''CONFIG_PREEMPT_RCU'', PStr ''y''),
        (''CONFIG_RCU_EXPERT'', PStr ''n''), (''CONFIG_KCSAN'', PStr ''n''), (''CONFIG_CC_IS_GCC'', PStr ''y'')])]"

definition spec_arm64 :: pydict where
  "spec_arm64 =
     [(''arch'', PStr ''arm64''),
      (''subarch'', PNone),
      (''cross_compile'', PStr ''/usr/bin/aarch64-linux-gnu-''),
      (''base_recipe'', PStr ''defconfig''),
      (''compiler'', PStr ''/usr/bin/aarch64-linux-gnu-gcc''),
      (''compiler_target'', PStr ''aarch64-linux-gnu''),
      (''objdump'', PStr ''/usr/bin/aarch64-linux-gnu-objdump''),
      (''elf'', PList [PInt 2, PInt 1, PInt 183]),
      (''required_config'', PDict [(''CONFIG_64BIT'', PStr ''y''), (''CONFIG_ARM64'', PStr ''y''), (''CONFIG_SMP'', PStr ''y''),
        (''CONFIG_SYSVIPC'', PStr ''y''), (''CONFIG_TREE_RCU'', PStr ''y''), (''CONFIG_PREEMPT_RCU'', PStr ''y''),
        (''CONFIG_RCU_EXPERT'', PStr ''n''), (''CONFIG_KCSAN'', PStr ''absent''), (''CONFIG_CC_IS_GCC'', PStr ''y'')])]"

definition spec_riscv64 :: pydict where
  "spec_riscv64 =
     [(''arch'', PStr ''riscv''),
      (''subarch'', PNone),
      (''cross_compile'', PStr ''/usr/bin/riscv64-linux-gnu-''),
      (''base_recipe'', PStr ''defconfig''),
      (''compiler'', PStr ''/usr/bin/riscv64-linux-gnu-gcc''),
      (''compiler_target'', PStr ''riscv64-linux-gnu''),
      (''objdump'', PStr ''/usr/bin/riscv64-linux-gnu-objdump''),
      (''elf'', PList [PInt 2, PInt 1, PInt 243]),
      (''required_config'', PDict [(''CONFIG_64BIT'', PStr ''y''), (''CONFIG_RISCV'', PStr ''y''), (''CONFIG_ARCH_RV64I'', PStr ''y''),
        (''CONFIG_SMP'', PStr ''y''), (''CONFIG_SYSVIPC'', PStr ''y''), (''CONFIG_TREE_RCU'', PStr ''y''),
        (''CONFIG_PREEMPT_RCU'', PStr ''absent''), (''CONFIG_RCU_EXPERT'', PStr ''n''), (''CONFIG_KCSAN'', PStr ''absent''),
        (''CONFIG_CC_IS_GCC'', PStr ''y'')])]"

definition spec_s390x :: pydict where
  "spec_s390x =
     [(''arch'', PStr ''s390''),
      (''subarch'', PNone),
      (''cross_compile'', PStr ''/usr/bin/s390x-linux-gnu-''),
      (''base_recipe'', PStr ''defconfig''),
      (''compiler'', PStr ''/usr/bin/s390x-linux-gnu-gcc''),
      (''compiler_target'', PStr ''s390x-linux-gnu''),
      (''objdump'', PStr ''/usr/bin/s390x-linux-gnu-objdump''),
      (''elf'', PList [PInt 2, PInt 2, PInt 22]),
      (''required_config'', PDict [(''CONFIG_64BIT'', PStr ''y''), (''CONFIG_S390'', PStr ''y''), (''CONFIG_CPU_BIG_ENDIAN'', PStr ''y''),
        (''CONFIG_MARCH_Z13'', PStr ''y''), (''CONFIG_SMP'', PStr ''y''), (''CONFIG_SYSVIPC'', PStr ''y''),
        (''CONFIG_TREE_RCU'', PStr ''y''), (''CONFIG_PREEMPT_RCU'', PStr ''absent''), (''CONFIG_RCU_EXPERT'', PStr ''n''),
        (''CONFIG_KCSAN'', PStr ''n''), (''CONFIG_CC_IS_GCC'', PStr ''y'')])]"

definition spec_arm32 :: pydict where
  "spec_arm32 =
     [(''arch'', PStr ''arm''),
      (''subarch'', PNone),
      (''cross_compile'', PStr ''/usr/bin/arm-linux-gnueabi-''),
      (''base_recipe'', PStr ''multi_v7_defconfig''),
      (''compiler'', PStr ''/usr/bin/arm-linux-gnueabi-gcc''),
      (''compiler_target'', PStr ''arm-linux-gnueabi''),
      (''objdump'', PStr ''/usr/bin/arm-linux-gnueabi-objdump''),
      (''elf'', PList [PInt 1, PInt 1, PInt 40]),
      (''required_config'', PDict [(''CONFIG_ARM'', PStr ''y''), (''CONFIG_CPU_V7'', PStr ''y''), (''CONFIG_AEABI'', PStr ''y''),
        (''CONFIG_CPU_LITTLE_ENDIAN'', PStr ''y''), (''CONFIG_CPU_BIG_ENDIAN'', PStr ''n''), (''CONFIG_SMP'', PStr ''y''),
        (''CONFIG_SYSVIPC'', PStr ''y''), (''CONFIG_TREE_RCU'', PStr ''y''), (''CONFIG_PREEMPT_RCU'', PStr ''absent''),
        (''CONFIG_RCU_EXPERT'', PStr ''n''), (''CONFIG_KCSAN'', PStr ''absent''), (''CONFIG_CC_IS_GCC'', PStr ''y'')])]"

definition spec_powerpc32_smp :: pydict where
  "spec_powerpc32_smp =
     [(''arch'', PStr ''powerpc''),
      (''subarch'', PNone),
      (''cross_compile'', PStr ''/usr/bin/powerpc-linux-gnu-''),
      (''base_recipe'', PStr ''chrp32_defconfig''),
      (''compiler'', PStr ''/usr/bin/powerpc-linux-gnu-gcc''),
      (''compiler_target'', PStr ''powerpc-linux-gnu''),
      (''objdump'', PStr ''/usr/bin/powerpc-linux-gnu-objdump''),
      (''elf'', PList [PInt 1, PInt 2, PInt 20]),
      (''required_config'', PDict [(''CONFIG_PPC'', PStr ''y''), (''CONFIG_PPC32'', PStr ''y''), (''CONFIG_PPC64'', PStr ''n''),
        (''CONFIG_CPU_BIG_ENDIAN'', PStr ''y''), (''CONFIG_SMP'', PStr ''y''), (''CONFIG_SYSVIPC'', PStr ''y''),
        (''CONFIG_TREE_RCU'', PStr ''y''), (''CONFIG_PREEMPT_RCU'', PStr ''absent''), (''CONFIG_RCU_EXPERT'', PStr ''n''),
        (''CONFIG_KCSAN'', PStr ''n''), (''CONFIG_CC_IS_GCC'', PStr ''y'')])]"

definition spec_sh_smp :: pydict where
  "spec_sh_smp =
     [(''arch'', PStr ''sh''),
      (''subarch'', PNone),
      (''cross_compile'', PStr ''/usr/bin/sh4-linux-gnu-''),
      (''base_recipe'', PStr ''shx3_defconfig''),
      (''compiler'', PStr ''/usr/bin/sh4-linux-gnu-gcc''),
      (''compiler_target'', PStr ''sh4-linux-gnu''),
      (''objdump'', PStr ''/usr/bin/sh4-linux-gnu-objdump''),
      (''elf'', PList [PInt 1, PInt 1, PInt 42]),
      (''required_config'', PDict [(''CONFIG_SUPERH'', PStr ''y''), (''CONFIG_CPU_SH4'', PStr ''y''), (''CONFIG_CPU_SH4A'', PStr ''y''),
        (''CONFIG_CPU_SUBTYPE_SHX3'', PStr ''y''), (''CONFIG_CPU_LITTLE_ENDIAN'', PStr ''y''), (''CONFIG_CPU_BIG_ENDIAN'', PStr ''n''),
        (''CONFIG_SMP'', PStr ''y''), (''CONFIG_SYSVIPC'', PStr ''y''), (''CONFIG_TREE_RCU'', PStr ''y''),
        (''CONFIG_PREEMPT_RCU'', PStr ''y''), (''CONFIG_RCU_EXPERT'', PStr ''n''), (''CONFIG_KCSAN'', PStr ''absent''),
        (''CONFIG_CC_IS_GCC'', PStr ''y'')])]"

definition spec_alpha_smp :: pydict where
  "spec_alpha_smp =
     [(''arch'', PStr ''alpha''),
      (''subarch'', PNone),
      (''cross_compile'', PStr ''/usr/bin/alpha-linux-gnu-''),
      (''base_recipe'', PStr ''defconfig''),
      (''mutations'', PList [PDict [(''symbol'', PStr ''SMP''), (''operation'', PStr ''enable'')]]),
      (''compiler'', PStr ''/usr/bin/alpha-linux-gnu-gcc''),
      (''compiler_target'', PStr ''alpha-linux-gnu''),
      (''objdump'', PStr ''/usr/bin/alpha-linux-gnu-objdump''),
      (''elf'', PList [PInt 2, PInt 1, PInt 36902]),
      (''required_config'', PDict [(''CONFIG_ALPHA'', PStr ''y''), (''CONFIG_ALPHA_GENERIC'', PStr ''y''), (''CONFIG_64BIT'', PStr ''y''),
        (''CONFIG_SMP'', PStr ''y''), (''CONFIG_SYSVIPC'', PStr ''y''), (''CONFIG_TREE_RCU'', PStr ''y''),
        (''CONFIG_PREEMPT_RCU'', PStr ''absent''), (''CONFIG_RCU_EXPERT'', PStr ''n''), (''CONFIG_KCSAN'', PStr ''absent''),
        (''CONFIG_CC_IS_GCC'', PStr ''y'')])]"

definition spec_loongarch64_clang :: pydict where
  "spec_loongarch64_clang =
     [(''arch'', PStr ''loongarch''),
      (''subarch'', PNone),
      (''cross_compile'', PNone),
      (''make_assignments'', PList [PStr ''LLVM=1'', PStr ''LLVM_IAS=1'']),
      (''base_recipe'', PStr ''loongson64_defconfig''),
      (''compiler'', PStr ''/usr/bin/clang''),
      (''compiler_target'', PStr ''loongarch64-unknown-linux-gnusf''),
      (''compiler_target_args'', PList [PStr ''--target=loongarch64-linux-gnusf'']),
      (''objdump'', PStr ''/usr/bin/llvm-objdump''),
      (''disassemble_symbol_option'', PStr ''--disassemble-symbols''),
      (''elf'', PList [PInt 2, PInt 1, PInt 258]),
      (''required_config'', PDict [(''CONFIG_LOONGARCH'', PStr ''y''), (''CONFIG_64BIT'', PStr ''y''), (''CONFIG_MACH_LOONGSON64'', PStr ''y''),
        (''CONFIG_SMP'', PStr ''y''), (''CONFIG_SYSVIPC'', PStr ''y''), (''CONFIG_TREE_RCU'', PStr ''y''),
        (''CONFIG_PREEMPT_RCU'', PStr ''y''), (''CONFIG_RCU_EXPERT'', PStr ''n''), (''CONFIG_KCSAN'', PStr ''absent''),
        (''CONFIG_CPU_HAS_AMO'', PStr ''y''), (''CONFIG_AS_HAS_SCQ_EXTENSION'', PStr ''y''), (''CONFIG_LTO_NONE'', PStr ''y''),
        (''CONFIG_CC_IS_GCC'', PStr ''absent''), (''CONFIG_CC_IS_CLANG'', PStr ''y'')])]"

definition spec_mips32el_clang :: pydict where
  "spec_mips32el_clang =
     [(''arch'', PStr ''mips''),
      (''subarch'', PNone),
      (''cross_compile'', PNone),
      (''make_assignments'', PList [PStr ''LLVM=1'', PStr ''LLVM_IAS=1'']),
      (''base_recipe'', PStr ''malta_defconfig''),
      (''compiler'', PStr ''/usr/bin/clang''),
      (''compiler_target'', PStr ''mipsel-unknown-linux-gnu''),
      (''compiler_target_args'', PList [PStr ''--target=mipsel-linux-gnu'']),
      (''objdump'', PStr ''/usr/bin/llvm-objdump''),
      (''disassemble_symbol_option'', PStr ''--disassemble-symbols''),
      (''elf'', PList [PInt 1, PInt 1, PInt 8]),
      (''required_config'', PDict [(''CONFIG_MIPS'', PStr ''y''), (''CONFIG_32BIT'', PStr ''y''), (''CONFIG_64BIT'', PStr ''absent''),
        (''CONFIG_CPU_MIPS32_R2'', PStr ''y''), (''CONFIG_CPU_LITTLE_ENDIAN'', PStr ''y''), (''CONFIG_CPU_BIG_ENDIAN'', PStr ''n''),
        (''CONFIG_MIPS_MT_SMP'', PStr ''y''), (''CONFIG_SMP'', PStr ''y''), (''CONFIG_SYSVIPC'', PStr ''y''),
        (''CONFIG_TREE_RCU'', PStr ''y''), (''CONFIG_PREEMPT_RCU'', PStr ''absent''), (''CONFIG_RCU_EXPERT'', PStr ''n''),
        (''CONFIG_KCSAN'', PStr ''absent''), (''CONFIG_CPU_HAS_SYNC'', PStr ''y''), (''CONFIG_WEAK_ORDERING'', PStr ''absent''),
        (''CONFIG_WEAK_REORDERING_BEYOND_LLSC'', PStr ''absent''), (''CONFIG_LTO_NONE'', PStr ''y''), (''CONFIG_CC_IS_GCC'', PStr ''absent''),
        (''CONFIG_CC_IS_CLANG'', PStr ''y'')])]"

definition spec_um_x86_64_smp :: pydict where
  "spec_um_x86_64_smp =
     [(''arch'', PStr ''um''),
      (''subarch'', PStr ''x86_64''),
      (''cross_compile'', PNone),
      (''base_recipe'', PStr ''x86_64_defconfig''),
      (''mutations'', PList [PDict [(''symbol'', PStr ''SMP''), (''operation'', PStr ''enable'')]]),
      (''compiler'', PStr ''/usr/bin/gcc''),
      (''compiler_target'', PStr ''x86_64-linux-gnu''),
      (''objdump'', PStr ''/usr/bin/objdump''),
      (''elf'', PList [PInt 2, PInt 1, PInt 62]),
      (''required_config'', PDict [(''CONFIG_UML'', PStr ''y''), (''CONFIG_UML_X86'', PStr ''y''), (''CONFIG_64BIT'', PStr ''y''),
        (''CONFIG_X86_64'', PStr ''y''), (''CONFIG_X86_32'', PStr ''absent''), (''CONFIG_SMP'', PStr ''y''),
        (''CONFIG_SYSVIPC'', PStr ''y''), (''CONFIG_TREE_RCU'', PStr ''y''), (''CONFIG_PREEMPT_RCU'', PStr ''absent''),
        (''CONFIG_RCU_EXPERT'', PStr ''n''), (''CONFIG_KCSAN'', PStr ''absent''), (''CONFIG_CC_IS_GCC'', PStr ''y'')])]"

definition PROFILE_SPECS :: "(string \<times> pydict) list" where
  "PROFILE_SPECS =
     [(''x86_64-ipc-refcount-c3'', spec_x86_64),
      (''arm64-ipc-refcount-c3'', spec_arm64),
      (''riscv64-ipc-refcount-c3'', spec_riscv64),
      (''s390x-ipc-refcount-c3'', spec_s390x),
      (''arm32-ipc-refcount-c3'', spec_arm32),
      (''powerpc32-smp-ipc-refcount-c3'', spec_powerpc32_smp),
      (''sh-smp-ipc-refcount-c3'', spec_sh_smp),
      (''alpha-smp-ipc-refcount-c3'', spec_alpha_smp),
      (''loongarch64-clang-ipc-refcount-c3'', spec_loongarch64_clang),
      (''mips32el-clang-ipc-refcount-c3'', spec_mips32el_clang),
      (''um-x86_64-smp-ipc-refcount-c3'', spec_um_x86_64_smp)]"

definition PROFILE_IDS :: "string list" where
  "PROFILE_IDS = map fst PROFILE_SPECS"

definition EMPTY_BUILD_DIAGNOSTICS :: pydict where
  "EMPTY_BUILD_DIAGNOSTICS =
     [(''base-config'', PList []), (''config-mutation'', PList []), (''finalize-config'', PList []), (''object'', PList [])]"

definition profile_diagnostics :: "string \<Rightarrow> pydict" where
  "profile_diagnostics pid =
     (if pid = ''sh-smp-ipc-refcount-c3''
      then dset EMPTY_BUILD_DIAGNOSTICS ''object''
        (PList [PStr ''<stdin>:1519:2: warning: #warning syscall clone3 not implemented [-Wcpp]''])
      else EMPTY_BUILD_DIAGNOSTICS)"

definition ARCHITECTURE_EXCLUSION :: string where
  "ARCHITECTURE_EXCLUSION =
     ''No architecture implementation other than the eleven configured SMP '' @
     ''x86-64, arm64, riscv64, s390x, ARM32, PowerPC32, SuperH, Alpha, '' @
     ''LoongArch64, MIPS32 little-endian and UML x86-64 '' @
     ''profiles is accepted by this source-linked pilot; every other '' @
     ''architecture remains outside the claim.''"

section \<open>Validators of records\<close>

abbreviation ipc_error :: "string \<Rightarrow> exn" where
  "ipc_error m \<equiv> Exn IpcRefcountError m"

abbreviation ipc_digest :: "nat \<Rightarrow> py \<Rightarrow> string res" where
  "ipc_digest \<equiv> digest_of IpcRefcountError"

abbreviation ipc_nonempty :: "py \<Rightarrow> string res" where
  "ipc_nonempty \<equiv> nonempty_str IpcRefcountError"

abbreviation ipc_strings :: "py \<Rightarrow> string list res" where
  "ipc_strings \<equiv> unique_strings IpcRefcountError"

definition unit_of :: "'a res \<Rightarrow> unit res" where
  "unit_of r = bind_res r (\<lambda>_. Inr ())"

text \<open>\<^verbatim>\<open>" ".join(items).lower()\<close> and the boundaries that must occur in it.\<close>

definition lower_text :: "string list \<Rightarrow> string" where
  "lower_text items = to_lower (join '' '' items)"

definition mentions_all :: "exn \<Rightarrow> string list \<Rightarrow> string \<Rightarrow> unit res" where
  "mentions_all e tokens s = allM (\<lambda>t. check (contains t s) e) tokens"

lemma mentions_all_code [code]:
  "mentions_all e tokens [] = allM (\<lambda>t. check (contains t []) e) tokens"
  "mentions_all e tokens (c # s) = allM (\<lambda>t. check (contains t (c # s)) e) tokens"
  by (simp_all add: mentions_all_def)

definition tool_argument :: "py \<Rightarrow> bool" where
  "tool_argument v = (case v of
     PStr s \<Rightarrow> s \<noteq> [] \<and> CHR 0x00 \<notin> set s \<and> CHR 0x0D \<notin> set s \<and> CHR 0x0A \<notin> set s
   | _ \<Rightarrow> False)"

text \<open>\<^verbatim>\<open>value in {...}\<close> of strings: a list or a dictionary cannot be hashed.\<close>

definition in_string_set :: "py \<Rightarrow> string list \<Rightarrow> bool res" where
  "in_string_set v ss = (case v of
     PList _ \<Rightarrow> Inl (Exn TypeError ''unhashable type'') | PDict _ \<Rightarrow> Inl (Exn TypeError ''unhashable type'')
   | PStr s \<Rightarrow> Inr (s \<in> set ss) | _ \<Rightarrow> Inr False)"

definition validate_tool :: "host \<Rightarrow> py \<Rightarrow> bool \<Rightarrow> bool \<Rightarrow> unit res" where
  "validate_tool h v target disassembler =
     (let ks = [''binary'', ''realpath'', ''sha256'', ''version_line''] @ (if target then [''target'', ''target_args''] else [])
        @ (if disassembler then [''disassemble_symbol_option''] else [])
      in bind_res (exact_dict (ipc_error ''tool record is not exact'') ks v) (\<lambda>d.
      bind_res (ipc_nonempty (dget d ''binary'')) (\<lambda>binary.
      bind_res (check (is_absolute binary \<and> is_file h binary) (ipc_error ''must be absolute'')) (\<lambda>_.
      bind_res (ipc_nonempty (dget d ''realpath'')) (\<lambda>realpath.
      bind_res (check (is_absolute realpath) (ipc_error ''must be absolute'')) (\<lambda>_.
      bind_res (ipc_digest 64 (dget d ''sha256'')) (\<lambda>_.
      bind_res (ipc_nonempty (dget d ''version_line'')) (\<lambda>_.
      bind_res (if target then
          bind_res (ipc_nonempty (dget d ''target'')) (\<lambda>_.
            check (case dget d ''target_args'' of PList args \<Rightarrow> list_all tool_argument args | _ \<Rightarrow> False)
              (ipc_error ''target arguments must be an exact string list''))
        else Inr ()) (\<lambda>_.
      if disassembler then
        bind_res (in_string_set (dget d ''disassemble_symbol_option'') [''--disassemble'', ''--disassemble-symbols'']) (\<lambda>ok.
          check ok (ipc_error ''symbol option is unsupported''))
      else Inr ())))))))))"

definition EXPECTED_KEYS :: "string list" where
  "EXPECTED_KEYS = [''test'', ''disposition'', ''states'', ''marker'', ''positive'', ''negative'', ''flags'', ''condition'',
     ''observation'', ''hash'']"

definition natural_int :: "py \<Rightarrow> bool" where
  "natural_int v = (case v of PInt n \<Rightarrow> n \<ge> 0 | _ \<Rightarrow> False)"

definition validate_expected :: "py \<Rightarrow> unit res" where
  "validate_expected v =
     bind_res (exact_dict (ipc_error ''expected output is not exact'') EXPECTED_KEYS v) (\<lambda>d.
     bind_res (allM (\<lambda>k. unit_of (ipc_nonempty (dget d k))) [''test'', ''disposition'', ''marker'', ''condition'', ''observation'']) (\<lambda>_.
     bind_res (allM (\<lambda>k. check (natural_int (dget d k)) (ipc_error ''expected count is invalid'')) [''states'', ''positive'', ''negative'']) (\<lambda>_.
     bind_res (check (py_eq (dget d ''flags'') (PList [])) (ipc_error ''flags must be empty'')) (\<lambda>_.
     unit_of (ipc_digest 32 (dget d ''hash''))))))"

section \<open>The progress record\<close>

definition PROGRESS_KEYS :: "string list" where
  "PROGRESS_KEYS = [''kind'', ''claim'', ''backend'', ''source_function'', ''selected_caller'', ''implementation_profiles'',
     ''domain'', ''semantics'', ''assumptions'', ''exclusions'', ''cases'']"

definition IMPLEMENTATION_PROFILES :: "string list" where
  "IMPLEMENTATION_PROFILES = [''x86_64-ipc-refcount-c3'', ''s390x-ipc-refcount-c3'', ''um-x86_64-smp-ipc-refcount-c3'']"

definition DECLARED_DOMAIN :: pydict where
  "DECLARED_DOMAIN = [(''initial_values'', PList [PInt 0, PInt 1, PInt 2, PInt 3]),
     (''interference_values'', PList [PInt 0, PInt 1, PInt 2, PInt 3]),
     (''max_interference_observations'', PInt 3), (''increment'', PInt 1), (''max_cas_attempts'', PInt 4)]"

definition ASSUMPTION_TOKENS :: "string list" where
  "ASSUMPTION_TOKENS = [''caller-locking'', ''storage valid'', ''scheduled'', ''strong'', ''non-spurious'', ''updates old'',
     ''three'', ''saturation'', ''x86 cmpxchg'', ''s390 cs'', ''comparison operand'', ''hardware failure'']"

definition PROGRESS_EXCLUSION_TOKENS :: "string list" where
  "PROGRESS_EXCLUSION_TOKENS = [''unbounded interference'', ''wait-free'', ''spurious'', ''ll/sc'', ''saturation'',
     ''scheduler fairness'', ''whole-kernel'']"

definition case_id :: "py \<Rightarrow> py" where
  "case_id v = (case v of PDict d \<Rightarrow> dget d ''id'' | _ \<Rightarrow> PNone)"

definition validate_progress_case :: "py \<Rightarrow> unit res" where
  "validate_progress_case v =
     bind_res (exact_dict (ipc_error ''IPC progress case is not exact'')
        [''id'', ''role'', ''variant'', ''verification_candidate'', ''control_for'', ''expected''] v) (\<lambda>d.
     case dget d ''id'' of
       PStr cid \<Rightarrow> (case map_of PROGRESS_CASE_SPECS cid of
           None \<Rightarrow> Inl (Exn KeyError cid)
         | Some spec \<Rightarrow> check (py_eq (PDict (map (\<lambda>k. (k, dget d k)) (keys spec))) (PDict spec))
             (ipc_error ''IPC progress case cannot satisfy its evidence role''))
     | _ \<Rightarrow> Inl (Exn KeyError ''id''))"

definition validate_progress :: "py \<Rightarrow> unit res" where
  "validate_progress v =
     bind_res (exact_dict (ipc_error ''IPC progress record is not exact'') PROGRESS_KEYS v) (\<lambda>p.
     bind_res (check (py_eq (dget p ''kind'') (PStr ''bounded_quiescent_retry_progress'')
         \<and> py_eq (dget p ''backend'') (PStr ''project-owned-exhaustive-finite-state-enumerator'')
         \<and> py_eq (dget p ''source_function'') (PStr ''__refcount_add_not_zero'')
         \<and> py_eq (dget p ''selected_caller'') (PStr ''ipc_rcu_getref'')
         \<and> py_eq (dget p ''implementation_profiles'') (PList (map PStr IMPLEMENTATION_PROFILES)))
       (ipc_error ''unexpected IPC progress scope'')) (\<lambda>_.
     bind_res (ipc_nonempty (dget p ''claim'')) (\<lambda>_.
     bind_res (check (py_eq (dget p ''domain'') (PDict DECLARED_DOMAIN)) (ipc_error ''IPC progress domain is not exact'')) (\<lambda>_.
     bind_res (exact_dict (ipc_error ''IPC progress semantics are not exact'')
         [''loop_head_zero'', ''strong_cas_match'', ''strong_cas_mismatch'', ''quiescence''] (dget p ''semantics'')) (\<lambda>sem.
     bind_res (allM (\<lambda>(k, v). unit_of (ipc_nonempty v)) sem) (\<lambda>_.
     bind_res (ipc_strings (dget p ''assumptions'')) (\<lambda>assumptions.
     bind_res (mentions_all (ipc_error ''IPC progress assumptions omit'') ASSUMPTION_TOKENS (lower_text assumptions)) (\<lambda>_.
     bind_res (ipc_strings (dget p ''exclusions'')) (\<lambda>exclusions.
     bind_res (mentions_all (ipc_error ''IPC progress exclusions omit'') PROGRESS_EXCLUSION_TOKENS (lower_text exclusions)) (\<lambda>_.
     case dget p ''cases'' of
       PList cases \<Rightarrow>
         bind_res (check (py_eq (PList (map case_id cases)) (PList (map (PStr \<circ> fst) PROGRESS_CASE_SPECS)))
           (ipc_error ''IPC progress case inventory is not exact'')) (\<lambda>_.
         allM validate_progress_case cases)
     | _ \<Rightarrow> Inl (ipc_error ''IPC progress case inventory is not exact'')))))))))))"

section \<open>A build profile\<close>

definition PROFILE_KEYS :: "string list" where
  "PROFILE_KEYS = [''id'', ''arch'', ''subarch'', ''cross_compile'', ''make_assignments'', ''jobs'', ''build_directory'',
     ''config'', ''config_sha256'', ''execution_scope'', ''configuration'', ''required_config'', ''allowed_diagnostics'',
     ''make'', ''compiler'', ''objdump'', ''configured_compile'']"

definition COMPILE_KEYS :: "string list" where
  "COMPILE_KEYS = [''target'', ''object'', ''command_file'', ''object_sha256'', ''command_sha256'', ''elf_class'', ''elf_data'',
     ''elf_machine'', ''required_command_tokens'', ''functions'']"

definition int_between :: "int \<Rightarrow> int \<Rightarrow> py \<Rightarrow> bool" where
  "int_between lo hi v = (case v of PInt n \<Rightarrow> lo \<le> n \<and> n \<le> hi | _ \<Rightarrow> False)"

text \<open>The key \<open>k\<close> of the tool record \<open>tool\<close> of the profile, both of them present.\<close>

definition tool_field :: "pydict \<Rightarrow> string \<Rightarrow> string \<Rightarrow> py" where
  "tool_field p tool k = (case dget p tool of PDict d \<Rightarrow> dget d k | _ \<Rightarrow> PNone)"

definition inside_build :: "host \<Rightarrow> string \<Rightarrow> string \<Rightarrow> unit res" where
  "inside_build h build p = check (is_relative_to (resolve h p) (resolve h build)) (ipc_error ''is outside the build directory'')"

definition validate_tools :: "host \<Rightarrow> pydict \<Rightarrow> pydict \<Rightarrow> unit res" where
  "validate_tools h p spec =
     bind_res (validate_tool h (dget p ''make'') False False) (\<lambda>_.
     bind_res (validate_tool h (dget p ''compiler'') True False) (\<lambda>_.
     bind_res (validate_tool h (dget p ''objdump'') False True) (\<lambda>_.
     check (py_eq (tool_field p ''make'' ''binary'') (PStr ''/usr/bin/make'')
         \<and> py_eq (tool_field p ''compiler'' ''binary'') (dget spec ''compiler'')
         \<and> py_eq (tool_field p ''compiler'' ''target'') (dget spec ''compiler_target'')
         \<and> py_eq (tool_field p ''compiler'' ''target_args'') (dget_or spec ''compiler_target_args'' (PList []))
         \<and> py_eq (tool_field p ''objdump'' ''binary'') (dget spec ''objdump'')
         \<and> py_eq (tool_field p ''objdump'' ''disassemble_symbol_option'')
             (dget_or spec ''disassemble_symbol_option'' (PStr ''--disassemble'')))
       (ipc_error ''unexpected tool mapping''))))"

definition validate_function :: "nat \<Rightarrow> string \<Rightarrow> py \<Rightarrow> unit res" where
  "validate_function digits name v =
     bind_res (exact_dict (ipc_error ''invalid configured function'') [''section'', ''value'', ''size'', ''disassembly_order''] v) (\<lambda>f.
     bind_res (check (py_eq (dget f ''section'') (PStr ''.text'')) (ipc_error ''invalid configured function'')) (\<lambda>_.
     bind_res (case dget f ''value'' of PStr s \<Rightarrow> check (is_hex digits s) (ipc_error ''invalid configured function'')
               | _ \<Rightarrow> Inl (Exn TypeError ''expected string'')) (\<lambda>_.
     bind_res (check (case dget f ''size'' of PInt n \<Rightarrow> n \<ge> 1 | _ \<Rightarrow> False) (ipc_error ''invalid configured function'')) (\<lambda>_.
     bind_res (ipc_strings (dget f ''disassembly_order'')) (\<lambda>order.
     check (hd order = ''<'' @ name @ ''>:'') (ipc_error ''disassembly does not start at the function''))))))"

definition validate_compile :: "host \<Rightarrow> string \<Rightarrow> string \<Rightarrow> pydict \<Rightarrow> string \<Rightarrow> string \<Rightarrow> py \<Rightarrow> unit res" where
  "validate_compile h root_dir build spec expected_build compiler v =
     bind_res (exact_dict (ipc_error ''configured IPC compile is not exact'') COMPILE_KEYS v) (\<lambda>c.
     bind_res (check (py_eq (dget c ''target'') (PStr ''ipc/util.o'')) (ipc_error ''unexpected IPC object target'')) (\<lambda>_.
     bind_res (allM (\<lambda>(k, expected).
         bind_res (check (py_eq (dget c k) (PStr expected)) (ipc_error ''unexpected configured path'')) (\<lambda>_.
         bind_res (declared_path h IpcRefcountError root_dir (dget c k)) (\<lambda>p.
         inside_build h build p)))
       [(''object'', expected_build @ ''/ipc/util.o''), (''command_file'', expected_build @ ''/ipc/.util.o.cmd'')]) (\<lambda>_.
     bind_res (ipc_digest 64 (dget c ''object_sha256'')) (\<lambda>_.
     bind_res (ipc_digest 64 (dget c ''command_sha256'')) (\<lambda>_.
     bind_res (check (py_eq (PList [dget c ''elf_class'', dget c ''elf_data'', dget c ''elf_machine'']) (dget spec ''elf''))
       (ipc_error ''configured object has the wrong ELF identity'')) (\<lambda>_.
     bind_res (ipc_strings (dget c ''required_command_tokens'')) (\<lambda>tokens.
     bind_res (allM (\<lambda>t. check (t \<in> set tokens) (ipc_error ''compile command omits''))
       [compiler, ''-D__KERNEL__'', ''ipc/util.o'', ''ipc/util.c'']) (\<lambda>_.
     bind_res (exact_dict (ipc_error ''configured function inventory is not exact'') [''ipc_rcu_getref'', ''ipc_rcu_putref'']
       (dget c ''functions'')) (\<lambda>functions.
     allM (\<lambda>(name, f). validate_function (if py_eq (dget c ''elf_class'') (PInt 1) then 8 else 16) name f) functions)))))))))"

definition spec_str :: "pydict \<Rightarrow> string \<Rightarrow> string" where
  "spec_str spec k = (case dget spec k of PStr s \<Rightarrow> s | _ \<Rightarrow> [])"

definition profile_spec :: "string \<Rightarrow> pydict res" where
  "profile_spec pid = (case map_of PROFILE_SPECS pid of None \<Rightarrow> Inl (Exn KeyError pid) | Some s \<Rightarrow> Inr s)"

lemma profile_spec_Inr [res_simps]: "profile_spec pid = Inr spec \<longleftrightarrow> map_of PROFILE_SPECS pid = Some spec"
  by (simp add: profile_spec_def split: option.splits)

definition validate_profile :: "host \<Rightarrow> string \<Rightarrow> py \<Rightarrow> string \<Rightarrow> unit res" where
  "validate_profile h root_dir v expected_id =
     bind_res (exact_dict (ipc_error ''IPC build profile is not exact'') PROFILE_KEYS v) (\<lambda>p.
     bind_res (profile_spec expected_id) (\<lambda>spec.
     bind_res (check (py_eq (dget p ''id'') (PStr expected_id) \<and> py_eq (dget p ''arch'') (dget spec ''arch'')
         \<and> py_eq (dget p ''subarch'') (dget spec ''subarch'') \<and> py_eq (dget p ''cross_compile'') (dget spec ''cross_compile'')
         \<and> py_eq (dget p ''make_assignments'') (dget_or spec ''make_assignments'' (PList []))
         \<and> int_between 1 256 (dget p ''jobs''))
       (ipc_error ''unexpected IPC build profile'')) (\<lambda>_.
     bind_res (check (py_eq (dget p ''execution_scope'') (PStr ''smp-multicpu'')) (ipc_error ''unexpected execution scope'')) (\<lambda>_.
     let expected_build = ''build/kernel/'' @ expected_id in
     bind_res (declared_path h IpcRefcountError root_dir (dget p ''build_directory'')) (\<lambda>build.
     bind_res (check (py_eq (dget p ''build_directory'') (PStr expected_build)) (ipc_error ''unexpected build directory'')) (\<lambda>_.
     bind_res (declared_path h IpcRefcountError root_dir (dget p ''config'')) (\<lambda>config.
     bind_res (check (py_eq (dget p ''config'') (PStr (expected_build @ ''/.config''))) (ipc_error ''unexpected config path'')) (\<lambda>_.
     bind_res (inside_build h build config) (\<lambda>_.
     bind_res (ipc_digest 64 (dget p ''config_sha256'')) (\<lambda>_.
     bind_res (check (py_eq (dget p ''configuration'') (PDict [(''base_recipe'', dget spec ''base_recipe''),
         (''mutations'', dget_or spec ''mutations'' (PList [])), (''finalize_recipe'', PStr ''olddefconfig'')]))
       (ipc_error ''unexpected IPC config recipe'')) (\<lambda>_.
     bind_res (check (py_eq (dget p ''required_config'') (dget spec ''required_config''))
       (ipc_error ''IPC config requirements are not exact'')) (\<lambda>_.
     bind_res (check (py_eq (dget p ''allowed_diagnostics'') (PDict (profile_diagnostics expected_id)))
       (ipc_error ''IPC diagnostic allowlist is not exact'')) (\<lambda>_.
     bind_res (validate_tools h p spec) (\<lambda>_.
     validate_compile h root_dir build spec expected_build (spec_str spec ''compiler'') (dget p ''configured_compile'')))))))))))))))"

section \<open>The manifest\<close>

definition validate_kernel :: "host \<Rightarrow> string \<Rightarrow> py \<Rightarrow> unit res" where
  "validate_kernel h root_dir v =
     bind_res (exact_dict (ipc_error ''IPC refcount kernel record is not exact'')
       [''revision'', ''git_tree'', ''source_root'', ''source_receipt'', ''source_identities''] v) (\<lambda>k.
     bind_res (ipc_digest 40 (dget k ''revision'')) (\<lambda>_.
     bind_res (ipc_digest 40 (dget k ''git_tree'')) (\<lambda>_.
     bind_res (existing_path h IpcRefcountError root_dir (dget k ''source_root'') True) (\<lambda>source_root.
     bind_res (existing_path h IpcRefcountError root_dir (dget k ''source_receipt'') False) (\<lambda>receipt.
     bind_res (check (is_relative_to (resolve h receipt) (resolve h source_root)) (ipc_error ''source receipt is outside kernel source'')) (\<lambda>_.
     case dget k ''source_identities'' of
       PDict ids \<Rightarrow>
         bind_res (check (length ids = 59) (ipc_error ''IPC refcount source identity set is not exact'')) (\<lambda>_.
         allM (\<lambda>(name, digest).
           bind_res (existing_path h IpcRefcountError root_dir (PStr name) False) (\<lambda>_. unit_of (ipc_digest 64 digest))) ids)
     | _ \<Rightarrow> Inl (ipc_error ''IPC refcount source identity set is not exact'')))))))"

definition validate_baseline :: "host \<Rightarrow> string \<Rightarrow> py \<Rightarrow> unit res" where
  "validate_baseline h root_dir v =
     bind_res (exact_dict (ipc_error ''IPC baseline link is not exact'') [''manifest'', ''id'', ''required_capability''] v) (\<lambda>b.
     bind_res (existing_path h IpcRefcountError root_dir (dget b ''manifest'') False) (\<lambda>_.
     check (py_eq (dget b ''id'') (PStr ''linux-lkmm-herd7-c3-calibration'')
         \<and> py_eq (dget b ''required_capability'') (PStr ''c3_capability_baseline_complete''))
       (ipc_error ''IPC pilot names the wrong baseline'')))"

fun validate_profiles :: "host \<Rightarrow> string \<Rightarrow> py list \<Rightarrow> string list \<Rightarrow> unit res" where
  "validate_profiles h root_dir (p # ps) (i # is) =
     bind_res (validate_profile h root_dir p i) (\<lambda>_. validate_profiles h root_dir ps is)"
| "validate_profiles h root_dir _ _ = Inr ()"

definition PROPERTY_KEYS :: "string list" where
  "PROPERTY_KEYS = [''kind'', ''claim'', ''source_file'', ''contract_file'', ''refcount_file'', ''get_function'', ''put_function'',
     ''get_source'', ''put_test_source'', ''put_destroy_source'', ''initial_refcount'', ''stability_argument'',
     ''lifetime_argument'', ''model_argument'', ''implementation_argument'', ''exclusions'']"

definition PROPERTY_BOUNDARIES :: "string list" where
  "PROPERTY_BOUNDARIES = [''caller-locking'', ''third refcount update'', ''rcu grace'', ''saturation'', ''control-dependency'',
     ''detecting control'', ''architecture'', ''progress'', ''whole-kernel'']"

definition validate_property :: "host \<Rightarrow> string \<Rightarrow> py \<Rightarrow> unit res" where
  "validate_property h root_dir v =
     bind_res (exact_dict (ipc_error ''IPC refcount property record is not exact'') PROPERTY_KEYS v) (\<lambda>p.
     bind_res (check (py_eq (dget p ''kind'') (PStr ''kernel_refcount_final_put_vs_get_unless_zero'')
         \<and> py_eq (dget p ''get_function'') (PStr ''ipc_rcu_getref'') \<and> py_eq (dget p ''put_function'') (PStr ''ipc_rcu_putref'')
         \<and> py_eq (dget p ''get_source'') (PStr ''return refcount_inc_not_zero(&ptr->refcount);'')
         \<and> py_eq (dget p ''put_test_source'') (PStr ''if (!refcount_dec_and_test(&ptr->refcount))'')
         \<and> py_eq (dget p ''put_destroy_source'') (PStr ''call_rcu(&ptr->rcu, func);'')
         \<and> py_eq (dget p ''initial_refcount'') (PInt 1))
       (ipc_error ''unexpected IPC refcount property'')) (\<lambda>_.
     bind_res (allM (\<lambda>k. unit_of (existing_path h IpcRefcountError root_dir (dget p k) False))
       [''source_file'', ''contract_file'', ''refcount_file'']) (\<lambda>_.
     bind_res (allM (\<lambda>k. unit_of (ipc_nonempty (dget p k)))
       [''claim'', ''stability_argument'', ''lifetime_argument'', ''model_argument'', ''implementation_argument'']) (\<lambda>_.
     bind_res (ipc_strings (dget p ''exclusions'')) (\<lambda>exclusions.
     bind_res (check (ARCHITECTURE_EXCLUSION \<in> set exclusions)
       (ipc_error ''IPC property architecture exclusion does not match its profiles'')) (\<lambda>_.
     mentions_all (ipc_error ''IPC property omits an exclusion'') PROPERTY_BOUNDARIES (lower_text exclusions)))))))"

section \<open>The model cases\<close>

definition CASE_IDS :: "string list" where
  "CASE_IDS = [''refcount_put_get_positive'', ''unconditional_resurrection_negative'']"

definition MODEL_CONDITION :: string where
  "MODEL_CONDITION = ''exists (0:released=1 /'' @ [CHR 0x5C] @ '' 1:acquired=1)''"

definition MODEL_PAIR :: pydict where
  "MODEL_PAIR = [(''id'', PStr ''ipc_refcount_no_final_put_get_overlap''), (''positive'', PStr ''refcount_put_get_positive''),
     (''negative'', PStr ''unconditional_resurrection_negative''), (''expected_transition'', PStr ''Sometimes->Never'')]"

definition sub :: "pydict \<Rightarrow> string \<Rightarrow> string \<Rightarrow> py" where
  "sub d k1 k2 = (case dget d k1 of PDict e \<Rightarrow> dget e k2 | _ \<Rightarrow> PNone)"

text \<open>One iteration of the loop over the cases, with the cases read before it.\<close>

definition validate_case ::
  "host \<Rightarrow> string \<Rightarrow> py \<Rightarrow> (string \<times> pydict) list \<Rightarrow> py \<Rightarrow> (string \<times> pydict) list res" where
  "validate_case h root_dir condition by_id v =
     bind_res (exact_dict (ipc_error ''IPC case record is not exact'')
       [''id'', ''path'', ''sha256'', ''role'', ''verification_candidate'', ''control_for'', ''required_operations'',
        ''forbidden_operations'', ''expected''] v) (\<lambda>c.
     bind_res (in_string_set (dget c ''id'') CASE_IDS) (\<lambda>known.
     bind_res (case dget c ''id'' of
         PStr i \<Rightarrow> if known \<and> map_of by_id i = None then Inr i else Inl (ipc_error ''invalid or duplicate IPC case'')
       | _ \<Rightarrow> Inl (ipc_error ''invalid or duplicate IPC case'')) (\<lambda>cid.
     bind_res (existing_path h IpcRefcountError root_dir (dget c ''path'') False) (\<lambda>_.
     bind_res (ipc_digest 64 (dget c ''sha256'')) (\<lambda>_.
     bind_res (ipc_strings (dget c ''required_operations'')) (\<lambda>required.
     bind_res (ipc_strings (dget c ''forbidden_operations'')) (\<lambda>forbidden.
     bind_res (check (set required \<inter> set forbidden = {}) (ipc_error ''contradictory operations'')) (\<lambda>_.
     bind_res (validate_expected (dget c ''expected'')) (\<lambda>_.
     bind_res (check (py_eq (sub c ''expected'' ''disposition'') (PStr ''Allowed'')
         \<and> py_eq (sub c ''expected'' ''condition'') condition) (ipc_error ''query or condition drift'')) (\<lambda>_.
     Inr (by_id @ [(cid, c)])))))))))))"

definition positive_role :: "pydict \<Rightarrow> bool" where
  "positive_role c =
     (py_eq (dget c ''role'') (PStr ''verification_candidate'') \<and> dget c ''verification_candidate'' = PBool True
      \<and> dget c ''control_for'' = PNone \<and> py_eq (sub c ''expected'' ''observation'') (PStr ''Never'')
      \<and> py_eq (sub c ''expected'' ''positive'') (PInt 0) \<and> py_eq (sub c ''expected'' ''marker'') (PStr ''No''))"

definition negative_role :: "pydict \<Rightarrow> pydict \<Rightarrow> bool" where
  "negative_role pos c =
     (py_eq (dget c ''role'') (PStr ''required_unsafe_control'') \<and> dget c ''verification_candidate'' = PBool False
      \<and> py_eq (dget c ''control_for'') (dget pos ''id'') \<and> py_eq (sub c ''expected'' ''observation'') (PStr ''Sometimes'')
      \<and> (case sub c ''expected'' ''positive'' of PInt n \<Rightarrow> \<not> n < 1 | _ \<Rightarrow> False)
      \<and> py_eq (sub c ''expected'' ''marker'') (PStr ''Ok''))"

definition validate_model :: "host \<Rightarrow> string \<Rightarrow> py \<Rightarrow> unit res" where
  "validate_model h root_dir v =
     bind_res (exact_dict (ipc_error ''IPC model record is not exact'') [''condition'', ''abstraction'', ''pair'', ''cases''] v) (\<lambda>m.
     bind_res (check (py_eq (dget m ''condition'') (PStr MODEL_CONDITION)) (ipc_error ''unexpected IPC model condition'')) (\<lambda>_.
     bind_res (exact_dict (ipc_error ''IPC abstraction is not exact'')
       [''refcount'', ''put'', ''get'', ''control'', ''omitted''] (dget m ''abstraction'')) (\<lambda>abstraction.
     bind_res (allM (\<lambda>(k, v). unit_of (ipc_nonempty v)) abstraction) (\<lambda>_.
     bind_res (check (py_eq (dget m ''pair'') (PDict MODEL_PAIR)) (ipc_error ''IPC A/B pair is not exact'')) (\<lambda>_.
     case dget m ''cases'' of
       PList cases \<Rightarrow>
         bind_res (check (length cases = 2) (ipc_error ''IPC pilot requires two cases'')) (\<lambda>_.
         bind_res (foldM (validate_case h root_dir (dget m ''condition'')) [] cases) (\<lambda>by_id.
         bind_res (check (set (map fst by_id) = set CASE_IDS) (ipc_error ''IPC case inventory is incomplete'')) (\<lambda>_.
         let pos = the (map_of by_id ''refcount_put_get_positive'');
             neg = the (map_of by_id ''unconditional_resurrection_negative'')
         in bind_res (check (positive_role pos) (ipc_error ''positive IPC case cannot satisfy its evidence role'')) (\<lambda>_.
            check (negative_role pos neg) (ipc_error ''unsafe IPC control cannot satisfy its evidence role'')))))
     | _ \<Rightarrow> Inl (ipc_error ''IPC pilot requires two cases''))))))"

definition load_ipc_manifest :: "host \<Rightarrow> string \<Rightarrow> py \<Rightarrow> pydict res" where
  "load_ipc_manifest h root_dir v =
     bind_res (exact_dict (ipc_error ''unsupported IPC refcount C3 schema'')
       [''schema_version'', ''id'', ''kernel'', ''baseline'', ''profiles'', ''property'', ''progress'', ''model''] v) (\<lambda>m.
     bind_res (check (py_eq (dget m ''schema_version'') (PInt 6)
         \<and> py_eq (dget m ''id'') (PStr ''linux-ipc-refcount-lifetime-multiarch-c3''))
       (ipc_error ''unsupported IPC refcount C3 schema'')) (\<lambda>_.
     bind_res (validate_kernel h root_dir (dget m ''kernel'')) (\<lambda>_.
     bind_res (validate_baseline h root_dir (dget m ''baseline'')) (\<lambda>_.
     bind_res (case dget m ''profiles'' of
         PList ps \<Rightarrow> check (py_eq (PList (map case_id ps)) (PList (map PStr PROFILE_IDS)))
             (ipc_error ''IPC architecture profile inventory is not exact'')
       | _ \<Rightarrow> Inl (ipc_error ''IPC architecture profile inventory is not exact'')) (\<lambda>_.
     bind_res (case dget m ''profiles'' of PList ps \<Rightarrow> validate_profiles h root_dir ps PROFILE_IDS | _ \<Rightarrow> Inr ()) (\<lambda>_.
     bind_res (validate_property h root_dir (dget m ''property'')) (\<lambda>_.
     bind_res (validate_progress (dget m ''progress'')) (\<lambda>_.
     bind_res (validate_model h root_dir (dget m ''model'')) (\<lambda>_.
     Inr m)))))))))"

section \<open>What an accepted manifest declares\<close>

lemma unit_of_Inr [res_simps]: "unit_of r = Inr u \<longleftrightarrow> (\<exists>x. r = Inr x)"
  by (auto simp: unit_of_def res_simps)

lemma in_string_set_Inr [res_simps]:
  "in_string_set v ss = Inr True \<longleftrightarrow> (\<exists>s. v = PStr s \<and> s \<in> set ss)"
  by (cases v) (auto simp: in_string_set_def)

definition case_ok :: "host \<Rightarrow> string \<Rightarrow> string \<times> pydict \<Rightarrow> bool" where
  "case_ok h root_dir x =
     (case x of (cid, c) \<Rightarrow> cid \<in> set CASE_IDS \<and> dget c ''id'' = PStr cid
        \<and> (\<exists>required forbidden. dget c ''required_operations'' = PList (map PStr required)
             \<and> dget c ''forbidden_operations'' = PList (map PStr forbidden) \<and> set required \<inter> set forbidden = {}
             \<and> required \<noteq> [] \<and> forbidden \<noteq> [])
        \<and> res_ok (existing_path h IpcRefcountError root_dir (dget c ''path'') False)
        \<and> validate_expected (dget c ''expected'') = Inr ()
        \<and> sub c ''expected'' ''condition'' = PStr MODEL_CONDITION)"

lemma validate_case_Inr:
  assumes "validate_case h root_dir condition by_id v = Inr by_id'"
  obtains cid c where "v = PDict c" and "by_id' = by_id @ [(cid, c)]" and "dget c ''id'' = PStr cid" and "cid \<in> set CASE_IDS"
    and "map_of by_id cid = None"
    and "\<exists>required forbidden. ipc_strings (dget c ''required_operations'') = Inr required
      \<and> ipc_strings (dget c ''forbidden_operations'') = Inr forbidden \<and> set required \<inter> set forbidden = {}"
    and "res_ok (existing_path h IpcRefcountError root_dir (dget c ''path'') False)"
    and "validate_expected (dget c ''expected'') = Inr ()" and "py_eq (sub c ''expected'' ''condition'') condition"
  using assms unfolding validate_case_def bind_res_Inr exact_dict_Inr check_iff case_py_Inr if_Inl_Inr res_ok_iff
  by (elim exE conjE) (auto simp: in_string_set_def)

lemma validate_case_ok:
  assumes "validate_case h root_dir (PStr MODEL_CONDITION) by_id v = Inr by_id'" and "distinct (map fst by_id)"
    and "list_all (case_ok h root_dir) by_id"
  shows "distinct (map fst by_id') \<and> list_all (case_ok h root_dir) by_id' \<and> length by_id' = Suc (length by_id)"
proof (rule validate_case_Inr [OF assms(1)])
  fix cid c
  assume c: "by_id' = by_id @ [(cid, c)]" "dget c ''id'' = PStr cid" "cid \<in> set CASE_IDS" "map_of by_id cid = None"
    "\<exists>required forbidden. ipc_strings (dget c ''required_operations'') = Inr required
      \<and> ipc_strings (dget c ''forbidden_operations'') = Inr forbidden \<and> set required \<inter> set forbidden = {}"
    "res_ok (existing_path h IpcRefcountError root_dir (dget c ''path'') False)"
    "validate_expected (dget c ''expected'') = Inr ()" "py_eq (sub c ''expected'' ''condition'') (PStr MODEL_CONDITION)"
  then have "case_ok h root_dir (cid, c)" by (auto simp: case_ok_def unique_strings_Inr)
  with c(1,4) assms(2,3) show ?thesis by (auto simp: map_of_eq_None_iff)
qed

lemma validate_cases_ok:
  assumes "foldM (validate_case h root_dir (PStr MODEL_CONDITION)) [] cases = Inr by_id"
  shows "distinct (map fst by_id) \<and> list_all (case_ok h root_dir) by_id \<and> map (PDict \<circ> snd) by_id = cases"
proof -
  have "(distinct (map fst by_id) \<and> list_all (case_ok h root_dir) by_id) \<and> map (PDict \<circ> snd) by_id = [] @ cases"
  proof (rule foldM_prefix_invariant [OF assms, where P = "\<lambda>xs s. (distinct (map fst s) \<and> list_all (case_ok h root_dir) s) \<and> map (PDict \<circ> snd) s = xs"])
    fix ys s x s'
    assume P: "(distinct (map fst s) \<and> list_all (case_ok h root_dir) s) \<and> map (PDict \<circ> snd) s = ys"
      and step: "validate_case h root_dir (PStr MODEL_CONDITION) s x = Inr s'"
    from validate_case_Inr [OF step] obtain cid c where "x = PDict c" "s' = s @ [(cid, c)]" by metis
    with P validate_case_ok [OF step] show
        "(distinct (map fst s') \<and> list_all (case_ok h root_dir) s') \<and> map (PDict \<circ> snd) s' = ys @ [x]" by simp
  qed simp
  then show ?thesis by simp
qed

lemma two_cases:
  assumes "length by_id = 2" and "distinct (map fst by_id)" and "set (map fst by_id) = set CASE_IDS"
  shows "\<exists>pos neg. map_of by_id ''refcount_put_get_positive'' = Some pos
    \<and> map_of by_id ''unconditional_resurrection_negative'' = Some neg \<and> set (map snd by_id) = {pos, neg}"
proof -
  obtain a b c d where by_id: "by_id = [(a, b), (c, d)]"
  proof -
    from assms(1) obtain x y where "by_id = [x, y]" by (auto simp: numeral_2_eq_2 length_Suc_conv)
    then show thesis using that by (cases x, cases y) auto
  qed
  from assms(2,3) have "a \<noteq> c" "{a, c} = {''refcount_put_get_positive'', ''unconditional_resurrection_negative''}"
    unfolding by_id CASE_IDS_def by simp_all
  then have "a = ''refcount_put_get_positive'' \<and> c = ''unconditional_resurrection_negative''
      \<or> a = ''unconditional_resurrection_negative'' \<and> c = ''refcount_put_get_positive''" by (auto simp: doubleton_eq_iff)
  then show ?thesis unfolding by_id by (elim disjE conjE) (simp_all, simp_all add: insert_commute)
qed

lemma validate_model_Inr:
  assumes "validate_model h root_dir v = Inr u"
  shows "\<exists>m cases by_id pos neg. v = PDict m \<and> dget m ''cases'' = PList cases
    \<and> map_of by_id ''refcount_put_get_positive'' = Some pos \<and> map_of by_id ''unconditional_resurrection_negative'' = Some neg
    \<and> set cases = {PDict pos, PDict neg} \<and> length cases = 2 \<and> positive_role pos \<and> negative_role pos neg
    \<and> list_all (case_ok h root_dir) by_id"
proof -
  from assms obtain m cases by_id where v: "v = PDict m" and cond: "dget m ''condition'' = PStr MODEL_CONDITION"
      and cases: "dget m ''cases'' = PList cases" "length cases = 2"
      and fold: "foldM (validate_case h root_dir (dget m ''condition'')) [] cases = Inr by_id"
      and ids: "set (map fst by_id) = set CASE_IDS"
      and roles: "positive_role (the (map_of by_id ''refcount_put_get_positive''))"
        "negative_role (the (map_of by_id ''refcount_put_get_positive'')) (the (map_of by_id ''unconditional_resurrection_negative''))"
    unfolding validate_model_def Let_def bind_res_Inr exact_dict_Inr check_iff case_py_Inr py_eq_PStr by (elim exE conjE) blast
  note ok = validate_cases_ok [OF fold [unfolded cond]]
  from ok cases(2) have len: "length by_id = 2" by (metis length_map)
  from two_cases [OF len] ok ids obtain pos neg where
      pn: "map_of by_id ''refcount_put_get_positive'' = Some pos" "map_of by_id ''unconditional_resurrection_negative'' = Some neg"
      "set (map snd by_id) = {pos, neg}" by blast
  have "set cases = PDict ` set (map snd by_id)" using ok by (metis image_set list.map_comp)
  with v cases pn roles ok show ?thesis by auto
qed

text \<open>
  C26. The evidence roles of an accepted manifest: it has exactly two model cases, over the same condition; the positive
  one is the only verification candidate, expected never to show the bad outcome (no positive witness), and the other
  is its detecting control, expected to show it at least once.
\<close>

theorem ipc_manifest_roles:
  assumes "load_ipc_manifest h root_dir v = Inr m"
  shows "\<exists>model cases pos neg. dget m ''model'' = PDict model \<and> dget model ''cases'' = PList cases
    \<and> length cases = 2 \<and> set cases = {PDict pos, PDict neg}
    \<and> dget pos ''verification_candidate'' = PBool True \<and> dget neg ''verification_candidate'' = PBool False
    \<and> sub pos ''expected'' ''observation'' = PStr ''Never'' \<and> py_eq (sub pos ''expected'' ''positive'') (PInt 0)
    \<and> sub neg ''expected'' ''observation'' = PStr ''Sometimes'' \<and> dget neg ''control_for'' = dget pos ''id''
    \<and> sub pos ''expected'' ''condition'' = PStr MODEL_CONDITION \<and> sub neg ''expected'' ''condition'' = PStr MODEL_CONDITION"
proof -
  from assms have "validate_model h root_dir (dget m ''model'') = Inr ()"
    unfolding load_ipc_manifest_def bind_res_Inr by (elim exE conjE) simp
  from validate_model_Inr [OF this] obtain model cases by_id pos neg where
      m: "dget m ''model'' = PDict model" "dget model ''cases'' = PList cases"
      "map_of by_id ''refcount_put_get_positive'' = Some pos" "map_of by_id ''unconditional_resurrection_negative'' = Some neg"
      "set cases = {PDict pos, PDict neg}" "length cases = 2" "positive_role pos" "negative_role pos neg"
      "list_all (case_ok h root_dir) by_id" by blast
  have ok: "case_ok h root_dir (''refcount_put_get_positive'', pos)" "case_ok h root_dir (''unconditional_resurrection_negative'', neg)"
    using m(9) map_of_SomeD [OF m(3)] map_of_SomeD [OF m(4)] by (auto simp: list_all_iff)
  then have "dget neg ''control_for'' = dget pos ''id''" using m(8) by (auto simp: negative_role_def case_ok_def)
  with m ok show ?thesis
    by (intro exI [of _ model] exI [of _ cases] exI [of _ pos] exI [of _ neg])
       (simp add: positive_role_def negative_role_def case_ok_def)
qed

section \<open>The mapping checks of the progress model\<close>

definition RETRY_TOKENS :: "(string \<times> string list) list" where
  "RETRY_TOKENS =
     [(''x86_64-ipc-refcount-c3'', [''lock cmpxchg'', ''mov    %eax,%edx'', ''jmp    bfe <ipc_rcu_getref+0xe>'']),
      (''s390x-ipc-refcount-c3'', [''cs'' @ [CHR 0x09] @ ''%r1,%r2,0(%r3)'', ''jne'' @ [CHR 0x09] @ ''f34 <ipc_rcu_getref+0x24>'']),
      (''um-x86_64-smp-ipc-refcount-c3'', [''lock cmpxchg'', ''mov    %eax,%ebx'', ''jmp    9c9 <ipc_rcu_getref+0x14>''])]"

definition py_elements :: "py \<Rightarrow> py list res" where
  "py_elements v = (case v of PList vs \<Rightarrow> Inr vs | _ \<Rightarrow> Inl (Exn TypeError ''not iterable''))"

definition key_of :: "py \<Rightarrow> string res" where
  "key_of v = (case v of PStr s \<Rightarrow> Inr s | _ \<Rightarrow> Inl (Exn KeyError ''not a string''))"

text \<open>
  The part of \<^verbatim>\<open>_run_progress_model\<close> that binds the checked retry lowering of each implementation profile: its build
  must be accepted and every retry token must be listed in the declared disassembly order. Every index is as in the code.
\<close>

definition disassembly_order :: "pydict \<Rightarrow> string \<Rightarrow> py res" where
  "disassembly_order manifest pid =
     bind_res (bind_res (ditem manifest ''profiles'') py_elements) (\<lambda>ps.
     bind_res (mapM (\<lambda>p. bind_res (bind_res (pindex p ''id'') key_of) (\<lambda>i. Inr (i, p))) ps) (\<lambda>by_id.
     bind_res (ditem (rev by_id) pid) (\<lambda>p.
     bind_res (pindex p ''configured_compile'') (\<lambda>c.
     bind_res (pindex c ''functions'') (\<lambda>fs.
     bind_res (pindex fs ''ipc_rcu_getref'') (\<lambda>f.
     pindex f ''disassembly_order''))))))"

definition mapping_checks :: "pydict \<Rightarrow> (string \<times> py) list \<Rightarrow> check_row list res" where
  "mapping_checks manifest accepted =
     bind_res (bind_res (ditem manifest ''progress'') (\<lambda>p. bind_res (pindex p ''implementation_profiles'') py_elements)) (\<lambda>ids.
     bind_res (mapM (\<lambda>v.
         bind_res (key_of v) (\<lambda>pid.
         bind_res (ditem accepted pid) (\<lambda>acc.
         bind_res (bind_res (disassembly_order manifest pid) py_elements) (\<lambda>order.
         bind_res (case map_of RETRY_TOKENS pid of None \<Rightarrow> Inl (Exn KeyError pid) | Some ts \<Rightarrow> Inr ts) (\<lambda>tokens.
         Inr [check_that (''progress mapping '' @ pid @ '': build gate'') (PBool True) acc,
              check_that (''progress mapping '' @ pid @ '': strong CAS retry lowering'') (PBool True)
                (PBool (list_all (\<lambda>t. PStr t \<in> set order) tokens))]))))) ids) (\<lambda>rows.
     Inr (concat rows)))"

text \<open>What the profile validator establishes of one profile.\<close>

definition profile_shape :: "host \<Rightarrow> string \<Rightarrow> py \<Rightarrow> string \<Rightarrow> bool" where
  "profile_shape h root_dir v pid =
     (\<exists>p c fs spec. v = PDict p \<and> dget p ''id'' = PStr pid \<and> map_of PROFILE_SPECS pid = Some spec
        \<and> map_of p ''id'' = Some (PStr pid) \<and> map_of p ''configured_compile'' = Some (PDict c)
        \<and> map_of c ''functions'' = Some (PDict fs)
        \<and> py_eq (dget p ''required_config'') (dget spec ''required_config'')
        \<and> (\<exists>b. tool_field p ''compiler'' ''binary'' = PStr b \<and> is_file h b)
        \<and> (\<forall>f\<in>{''ipc_rcu_getref'', ''ipc_rcu_putref''}. \<exists>d order. map_of fs f = Some (PDict d)
             \<and> map_of d ''disassembly_order'' = Some (PList (map PStr order)) \<and> order \<noteq> [] \<and> hd order = ''<'' @ f @ ''>:''))"

lemma dget_has: "k \<in> set (keys d) \<Longrightarrow> map_of d k = Some (dget d k)"
  by (cases "map_of d k") (auto simp: dget_def keys_def map_of_eq_None_iff)

lemma validate_function_Inr:
  assumes "validate_function digits name v = Inr u"
  shows "\<exists>d order. v = PDict d \<and> map_of d ''disassembly_order'' = Some (PList (map PStr order)) \<and> order \<noteq> []
    \<and> hd order = ''<'' @ name @ ''>:''"
proof -
  from assms obtain d order where d: "v = PDict d" "set (keys d) = set [''section'', ''value'', ''size'', ''disassembly_order'']"
      "ipc_strings (dget d ''disassembly_order'') = Inr order" "hd order = ''<'' @ name @ ''>:''"
    unfolding validate_function_def bind_res_Inr exact_dict_Inr check_iff by (elim exE conjE) blast
  from d(2) have "map_of d ''disassembly_order'' = Some (dget d ''disassembly_order'')" by (intro dget_has) simp
  with d show ?thesis by (auto simp: unique_strings_Inr)
qed

lemma validate_compile_Inr:
  assumes "validate_compile h root_dir build spec eb compiler v = Inr u"
  shows "\<exists>c fs. v = PDict c \<and> map_of c ''functions'' = Some (PDict fs) \<and>
    (\<forall>f\<in>{''ipc_rcu_getref'', ''ipc_rcu_putref''}. \<exists>d order. map_of fs f = Some (PDict d)
             \<and> map_of d ''disassembly_order'' = Some (PList (map PStr order)) \<and> order \<noteq> [] \<and> hd order = ''<'' @ f @ ''>:'')"
proof -
  from assms obtain c fs where c: "v = PDict c" "set (keys c) = set COMPILE_KEYS" "dget c ''functions'' = PDict fs"
      "set (keys fs) = set [''ipc_rcu_getref'', ''ipc_rcu_putref'']"
      "allM (\<lambda>(name, f). validate_function (if py_eq (dget c ''elf_class'') (PInt 1) then 8 else 16) name f) fs = Inr u"
    unfolding validate_compile_def bind_res_Inr exact_dict_Inr by (elim exE conjE) (rule that; assumption)
  from c(2) have "map_of c ''functions'' = Some (PDict fs)"
    using dget_has [of "''functions''" c] by (simp add: COMPILE_KEYS_def c(3))
  moreover have "\<exists>d order. map_of fs f = Some (PDict d) \<and> map_of d ''disassembly_order'' = Some (PList (map PStr order))
      \<and> order \<noteq> [] \<and> hd order = ''<'' @ f @ ''>:''" if "f \<in> {''ipc_rcu_getref'', ''ipc_rcu_putref''}" for f
  proof -
    from that c(4) have f: "map_of fs f = Some (dget fs f)" by (intro dget_has) auto
    then have "(f, dget fs f) \<in> set fs" by (rule map_of_SomeD)
    with c(5) have "validate_function (if py_eq (dget c ''elf_class'') (PInt 1) then 8 else 16) f (dget fs f) = Inr ()"
      by (fastforce simp: allM_iff)
    from validate_function_Inr [OF this] f show ?thesis by auto
  qed
  ultimately show ?thesis using c(1) by blast
qed

lemma validate_tool_Inr:
  assumes "validate_tool h v target disassembler = Inr u"
  shows "\<exists>d b. v = PDict d \<and> dget d ''binary'' = PStr b \<and> is_file h b"
  using assms unfolding validate_tool_def Let_def bind_res_Inr exact_dict_Inr nonempty_str_Inr check_iff
  by (elim exE conjE) (intro exI conjI; assumption)

lemma validate_profile_Inr:
  assumes "validate_profile h root_dir v pid = Inr u"
  shows "profile_shape h root_dir v pid"
proof -
  from assms obtain p spec build u1 where p: "v = PDict p" "set (keys p) = set PROFILE_KEYS"
      "map_of PROFILE_SPECS pid = Some spec" "dget p ''id'' = PStr pid"
      "py_eq (dget p ''required_config'') (dget spec ''required_config'')" "validate_tools h p spec = Inr u1"
      "validate_compile h root_dir build spec (''build/kernel/'' @ pid) (spec_str spec ''compiler'') (dget p ''configured_compile'') = Inr u"
    unfolding validate_profile_def Let_def bind_res_Inr exact_dict_Inr check_iff profile_spec_Inr py_eq_PStr
    by (elim exE conjE) (rule that; assumption)
  have ids: "map_of p ''id'' = Some (PStr pid)" "map_of p ''configured_compile'' = Some (dget p ''configured_compile'')"
    using dget_has [of _ p] p(2,4) by (simp_all add: PROFILE_KEYS_def)
  from p(6) have "validate_tool h (dget p ''compiler'') True False = Inr ()"
    unfolding validate_tools_def bind_res_Inr by (elim exE conjE) simp
  from validate_tool_Inr [OF this] have tool: "\<exists>b. tool_field p ''compiler'' ''binary'' = PStr b \<and> is_file h b"
    by (auto simp: tool_field_def)
  from validate_compile_Inr [OF p(7)] obtain c fs where "dget p ''configured_compile'' = PDict c" "map_of c ''functions'' = Some (PDict fs)"
      "\<forall>f\<in>{''ipc_rcu_getref'', ''ipc_rcu_putref''}. \<exists>d order. map_of fs f = Some (PDict d)
             \<and> map_of d ''disassembly_order'' = Some (PList (map PStr order)) \<and> order \<noteq> [] \<and> hd order = ''<'' @ f @ ''>:''" by blast
  with p ids tool show ?thesis unfolding profile_shape_def
    by (intro exI [of _ p] exI [of _ c] exI [of _ fs] exI [of _ spec]) simp
qed

lemma validate_profiles_Inr:
  "validate_profiles h root_dir ps is = Inr u \<Longrightarrow> length ps = length is \<Longrightarrow> list_all2 (profile_shape h root_dir) ps is"
proof (induction h root_dir ps "is" rule: validate_profiles.induct)
  case (1 h root_dir p ps i "is")
  then obtain w where "validate_profile h root_dir p i = Inr w" "validate_profiles h root_dir ps is = Inr u"
    by (auto simp: res_simps)
  with 1 show ?case by (auto intro: validate_profile_Inr)
qed auto

lemma PROFILE_IDS_distinct [simp]: "distinct PROFILE_IDS"
  by (simp add: PROFILE_IDS_def PROFILE_SPECS_def)

lemma validate_progress_Inr:
  assumes "validate_progress v = Inr u"
  shows "\<exists>p. v = PDict p \<and> map_of p ''implementation_profiles'' = Some (PList (map PStr IMPLEMENTATION_PROFILES))"
proof -
  from assms obtain p where p: "v = PDict p" "set (keys p) = set PROGRESS_KEYS"
      "dget p ''implementation_profiles'' = PList (map PStr IMPLEMENTATION_PROFILES)"
    unfolding validate_progress_def bind_res_Inr exact_dict_Inr check_iff py_eq_strings by (elim exE conjE) (rule that; assumption)
  then show ?thesis using dget_has [of "''implementation_profiles''" p] by (simp add: PROGRESS_KEYS_def)
qed

lemma load_ipc_manifest_Inr:
  assumes "load_ipc_manifest h root_dir v = Inr m"
  shows "\<exists>ps pr. map_of m ''profiles'' = Some (PList ps) \<and> list_all2 (profile_shape h root_dir) ps PROFILE_IDS
    \<and> map_of m ''progress'' = Some (PDict pr)
    \<and> map_of pr ''implementation_profiles'' = Some (PList (map PStr IMPLEMENTATION_PROFILES))"
proof -
  from assms have ks: "set (keys m) = set [''schema_version'', ''id'', ''kernel'', ''baseline'', ''profiles'', ''property'', ''progress'', ''model'']"
    unfolding load_ipc_manifest_def bind_res_Inr exact_dict_Inr by (elim exE conjE) simp
  from assms obtain ps u where ps: "dget m ''profiles'' = PList ps" "map case_id ps = map PStr PROFILE_IDS"
      "validate_profiles h root_dir ps PROFILE_IDS = Inr u" "validate_progress (dget m ''progress'') = Inr ()"
    unfolding load_ipc_manifest_def bind_res_Inr exact_dict_Inr case_py_Inr check_iff py_eq_strings by (elim exE conjE) simp
  from ps(2) have "length ps = length PROFILE_IDS" by (metis length_map)
  with validate_profiles_Inr [OF ps(3)] validate_progress_Inr [OF ps(4)] show ?thesis
    using dget_has [of "''profiles''" m] dget_has [of "''progress''" m] by (auto simp: ks ps(1))
qed

lemma ditem_Some: "map_of d k = Some v \<Longrightarrow> ditem d k = Inr v"
  by (simp add: ditem_def)

lemma pindex_PDict: "pindex (PDict d) k = ditem d k"
  by (simp add: pindex_def)

text \<open>The index over the profiles that the progress model builds.\<close>

lemma profile_index:
  assumes "list_all2 (profile_shape h root_dir) ps is"
  shows "mapM (\<lambda>p. bind_res (bind_res (pindex p ''id'') key_of) (\<lambda>i. Inr (i, p))) ps = Inr (zip is ps)"
  using assms
proof (induction rule: list_all2_induct)
  case (Cons p ps i "is")
  then obtain d where "p = PDict d" "map_of d ''id'' = Some (PStr i)" by (auto simp: profile_shape_def)
  with Cons show ?case by (simp add: pindex_def ditem_def key_of_def)
qed simp

lemma disassembly_order_ok:
  assumes ps: "map_of m ''profiles'' = Some (PList ps)" "list_all2 (profile_shape h root_dir) ps PROFILE_IDS" and pid: "pid \<in> set PROFILE_IDS"
  shows "\<exists>order. disassembly_order m pid = Inr (PList (map PStr order)) \<and> order \<noteq> []"
proof -
  have len: "length PROFILE_IDS = length ps" using ps(2) by (metis list_all2_lengthD)
  from pid obtain i where i: "i < length PROFILE_IDS" "PROFILE_IDS ! i = pid" by (auto simp: in_set_conv_nth)
  then have "(pid, ps ! i) \<in> set (rev (zip PROFILE_IDS ps))" using len by (auto simp: set_zip)
  then have look: "map_of (rev (zip PROFILE_IDS ps)) pid = Some (ps ! i)"
    using len by (intro map_of_is_SomeI) (simp_all add: rev_map [symmetric])
  from ps(2) i have "profile_shape h root_dir (ps ! i) pid" by (auto simp: list_all2_conv_all_nth)
  then obtain p c fs d order where "ps ! i = PDict p" "map_of p ''configured_compile'' = Some (PDict c)"
      "map_of c ''functions'' = Some (PDict fs)" "map_of fs ''ipc_rcu_getref'' = Some (PDict d)"
      "map_of d ''disassembly_order'' = Some (PList (map PStr order))" "order \<noteq> []"
    unfolding profile_shape_def by auto
  with look ps show ?thesis
    by (intro exI [of _ order]) (simp add: disassembly_order_def ditem_Some py_elements_def profile_index [OF ps(2)] pindex_PDict)
qed

lemma mapping_check_ok:
  assumes "map_of m ''profiles'' = Some (PList ps)" "list_all2 (profile_shape h root_dir) ps PROFILE_IDS"
    and "pid \<in> set IMPLEMENTATION_PROFILES"
  shows "\<exists>order tokens. disassembly_order m pid = Inr (PList (map PStr order)) \<and> map_of RETRY_TOKENS pid = Some tokens"
proof -
  have "pid \<in> set PROFILE_IDS" "\<exists>ts. map_of RETRY_TOKENS pid = Some ts"
    using assms(3) by (auto simp: IMPLEMENTATION_PROFILES_def PROFILE_IDS_def PROFILE_SPECS_def RETRY_TOKENS_def)
  with disassembly_order_ok [OF assms(1,2)] show ?thesis by blast
qed

lemma mapM_all: "(\<And>x. x \<in> set xs \<Longrightarrow> \<exists>y. f x = Inr y \<and> P y) \<Longrightarrow> \<exists>ys. mapM f xs = Inr ys \<and> list_all P ys"
proof (induction xs)
  case (Cons x xs)
  from Cons.prems [of x] obtain y where "f x = Inr y" "P y" by auto
  moreover from Cons.IH Cons.prems obtain ys where "mapM f xs = Inr ys" "list_all P ys" by auto
  ultimately show ?case by simp
qed simp

lemma length_concat_two: "list_all (\<lambda>ys. length ys = 2) xss \<Longrightarrow> length (concat xss) = 2 * length xss"
  by (induction xss) auto

text \<open>
  C40. An accepted manifest is well typed for the progress model: every look-up of its mapping checks succeeds (no
  missing key, no value of the wrong type), and they are six, two for each implementation profile.
\<close>

theorem mapping_checks_typed:
  assumes "load_ipc_manifest h root_dir v = Inr m"
    and "\<forall>pid\<in>set IMPLEMENTATION_PROFILES. \<exists>b. map_of accepted pid = Some (PBool b)"
  shows "\<exists>rows. mapping_checks m accepted = Inr rows \<and> length rows = 6"
proof -
  from load_ipc_manifest_Inr [OF assms(1)] obtain ps pr where m: "map_of m ''profiles'' = Some (PList ps)"
      "list_all2 (profile_shape h root_dir) ps PROFILE_IDS" "map_of m ''progress'' = Some (PDict pr)"
      "map_of pr ''implementation_profiles'' = Some (PList (map PStr IMPLEMENTATION_PROFILES))" by blast
  let ?f = "\<lambda>v. bind_res (key_of v) (\<lambda>pid.
         bind_res (ditem accepted pid) (\<lambda>acc.
         bind_res (bind_res (disassembly_order m pid) py_elements) (\<lambda>order.
         bind_res (case map_of RETRY_TOKENS pid of None \<Rightarrow> Inl (Exn KeyError pid) | Some ts \<Rightarrow> Inr ts) (\<lambda>tokens.
         Inr [check_that (''progress mapping '' @ pid @ '': build gate'') (PBool True) acc,
              check_that (''progress mapping '' @ pid @ '': strong CAS retry lowering'') (PBool True)
                (PBool (list_all (\<lambda>t. PStr t \<in> set order) tokens))]))))"
  have "\<exists>ys. ?f v = Inr ys \<and> length ys = 2" if v: "v \<in> set (map PStr IMPLEMENTATION_PROFILES)" for v
  proof -
    from v obtain pid where pid: "v = PStr pid" "pid \<in> set IMPLEMENTATION_PROFILES" by auto
    from assms(2) pid(2) obtain b where "map_of accepted pid = Some (PBool b)" by blast
    with mapping_check_ok [OF m(1,2) pid(2)] pid(1) show ?thesis
      by (auto simp: key_of_def ditem_def py_elements_def)
  qed
  from mapM_all [where f = ?f and P = "\<lambda>ys. length ys = 2", OF this] obtain rows where
      rows: "mapM ?f (map PStr IMPLEMENTATION_PROFILES) = Inr rows" "list_all (\<lambda>ys. length ys = 2) rows" by blast
  then have "length (concat rows) = 6"
    using mapM_length [OF rows(1)] by (simp add: length_concat_two IMPLEMENTATION_PROFILES_def)
  with m rows show ?thesis
    by (intro exI [of _ "concat rows"]) (simp add: mapping_checks_def ditem_def pindex_def py_elements_def)
qed

end
