(* ===== verification/Ipc_Declared.thy ===== *)
theory Ipc_Declared
  imports Ipc_Manifest "HOL-Library.Code_Target_Nat"
begin

text \<open>
  The manifest of the repository (\<^verbatim>\<open>config/concurrency-c3-ipc-refcount.json\<close>) as a value, with its longest prose
  shortened, on a host where every declared path exists: it is accepted, section by section, and is the input of the
  witnesses of \<open>Ipc_Manifest\<close>.
\<close>

definition declared_x86_64 :: pydict where
  "declared_x86_64 =
     [(''id'', PStr ''x86_64-ipc-refcount-c3''), (''arch'', PStr ''x86_64''), (''subarch'', PNone), (''cross_compile'', PNone),
     (''make_assignments'', PList []), (''jobs'', PInt 8), (''build_directory'', PStr ''build/kernel/x86_64-ipc-refcount-c3''),
     (''config'', PStr ''build/kernel/x86_64-ipc-refcount-c3/.config''), (''config_sha256'',
     PStr ''c1d909f833602f5d8fb7fba52322c1f411c44fe4e41a44b52ac5d897e3f3033e''), (''execution_scope'', PStr ''smp-multicpu''),
     (''configuration'', PDict [(''base_recipe'', PStr ''x86_64_defconfig''), (''mutations'', PList []), (''finalize_recipe'',
     PStr ''olddefconfig'')]), (''required_config'', PDict [(''CONFIG_64BIT'', PStr ''y''), (''CONFIG_X86_64'', PStr ''y''),
     (''CONFIG_SMP'', PStr ''y''), (''CONFIG_SYSVIPC'', PStr ''y''), (''CONFIG_TREE_RCU'', PStr ''y''), (''CONFIG_PREEMPT_RCU'',
     PStr ''y''), (''CONFIG_RCU_EXPERT'', PStr ''n''), (''CONFIG_KCSAN'', PStr ''n''), (''CONFIG_CC_IS_GCC'', PStr ''y'')]),
     (''allowed_diagnostics'', PDict [(''base-config'', PList []), (''config-mutation'', PList []), (''finalize-config'',
     PList []), (''object'', PList [])]), (''make'', PDict [(''binary'', PStr ''/usr/bin/make''), (''realpath'',
     PStr ''/usr/bin/make''), (''sha256'', PStr ''27c9f6d806aee15882b01c2c61848f7aa75caa14bc7b6f608ba422f9e46a7d49''),
     (''version_line'', PStr ''GNU Make 4.4.1'')]), (''compiler'', PDict [(''binary'', PStr ''/usr/bin/gcc''), (''realpath'',
     PStr ''/usr/bin/x86_64-linux-gnu-gcc-15''), (''sha256'',
     PStr ''b5f1b773a7c733738352000c92a077dc5852a1a2fc6d836b1e411be1e9ec5f88''), (''version_line'',
     PStr ''gcc (Ubuntu 15.2.0-16ubuntu1) 15.2.0''), (''target'', PStr ''x86_64-linux-gnu''), (''target_args'', PList [])]),
     (''objdump'', PDict [(''binary'', PStr ''/usr/bin/objdump''), (''realpath'', PStr ''/usr/bin/x86_64-linux-gnu-objdump''),
     (''sha256'', PStr ''44f07f8da860b15bd4dec909f229dec536595fb170a616fe3ab29c7b21c9736f''), (''version_line'',
     PStr ''GNU objdump (GNU Binutils for Ubuntu) 2.46''), (''disassemble_symbol_option'', PStr ''--disassemble'')]),
     (''configured_compile'', PDict [(''target'', PStr ''ipc/util.o''), (''object'',
     PStr ''build/kernel/x86_64-ipc-refcount-c3/ipc/util.o''), (''command_file'',
     PStr ''build/kernel/x86_64-ipc-refcount-c3/ipc/.util.o.cmd''), (''object_sha256'',
     PStr ''00b7dfa8b08c8d76546e13cc8adb5e5102480225c444902ea46aa6c993525d6d''), (''command_sha256'',
     PStr ''d1ab093851e723a995bced4f6380b3cb9a8c15717166eb8665b98d3736d9b8a5''), (''elf_class'', PInt 2), (''elf_data'', PInt 1),
     (''elf_machine'', PInt 62), (''required_command_tokens'', PList [PStr ''/usr/bin/gcc'', PStr ''-D__KERNEL__'',
     PStr ''-std=gnu11'', PStr ''-m64'', PStr ''-march=x86-64'', PStr ''-O2'', PStr ''-fno-allow-store-data-races'',
     PStr ''ipc/util.o'', PStr ''ipc/util.c'']), (''functions'', PDict [(''ipc_rcu_getref'', PDict [(''section'',
     PStr ''.text''), (''value'', PStr ''0000000000000bf0''), (''size'', PInt 84), (''disassembly_order'',
     PList [PStr ''<ipc_rcu_getref>:'', PStr ''test   %edx,%edx'', PStr ''lock cmpxchg'', PStr ''sete'',
     PStr ''jne    c3b <ipc_rcu_getref+0x4b>'', PStr ''refcount_warn_saturate'', PStr ''mov    %eax,%edx'',
     PStr ''jmp    bfe <ipc_rcu_getref+0xe>''])]), (''ipc_rcu_putref'', PDict [(''section'', PStr ''.text''), (''value'',
     PStr ''0000000000000c60''), (''size'', PInt 54), (''disassembly_order'', PList [PStr ''<ipc_rcu_putref>:'',
     PStr ''lock xadd'', PStr ''cmp    $0x1,%eax'', PStr ''call_rcu-0x4'', PStr ''refcount_warn_saturate''])])])])]"

definition declared_arm64 :: pydict where
  "declared_arm64 =
     [(''id'', PStr ''arm64-ipc-refcount-c3''), (''arch'', PStr ''arm64''), (''subarch'', PNone), (''cross_compile'',
     PStr ''/usr/bin/aarch64-linux-gnu-''), (''make_assignments'', PList []), (''jobs'', PInt 8), (''build_directory'',
     PStr ''build/kernel/arm64-ipc-refcount-c3''), (''config'', PStr ''build/kernel/arm64-ipc-refcount-c3/.config''),
     (''config_sha256'', PStr ''d28c867e07d4ade1ce14ea23b0b45707fde9459c526d492e0cdec042bcbf0219''), (''execution_scope'',
     PStr ''smp-multicpu''), (''configuration'', PDict [(''base_recipe'', PStr ''defconfig''), (''mutations'', PList []),
     (''finalize_recipe'', PStr ''olddefconfig'')]), (''required_config'', PDict [(''CONFIG_64BIT'', PStr ''y''),
     (''CONFIG_ARM64'', PStr ''y''), (''CONFIG_SMP'', PStr ''y''), (''CONFIG_SYSVIPC'', PStr ''y''), (''CONFIG_TREE_RCU'',
     PStr ''y''), (''CONFIG_PREEMPT_RCU'', PStr ''y''), (''CONFIG_RCU_EXPERT'', PStr ''n''), (''CONFIG_KCSAN'', PStr ''absent''),
     (''CONFIG_CC_IS_GCC'', PStr ''y'')]), (''allowed_diagnostics'', PDict [(''base-config'', PList []), (''config-mutation'',
     PList []), (''finalize-config'', PList []), (''object'', PList [])]), (''make'', PDict [(''binary'',
     PStr ''/usr/bin/make''), (''realpath'', PStr ''/usr/bin/make''), (''sha256'',
     PStr ''27c9f6d806aee15882b01c2c61848f7aa75caa14bc7b6f608ba422f9e46a7d49''), (''version_line'', PStr ''GNU Make 4.4.1'')]),
     (''compiler'', PDict [(''binary'', PStr ''/usr/bin/aarch64-linux-gnu-gcc''), (''realpath'',
     PStr ''/usr/bin/aarch64-linux-gnu-gcc-15''), (''sha256'',
     PStr ''50d0961827e521a7c06d7794d4b15282559a117d365a149aaca5726917ab1603''), (''version_line'',
     PStr ''aarch64-linux-gnu-gcc (Ubuntu 15.2.0-16ubuntu1) 15.2.0''), (''target'', PStr ''aarch64-linux-gnu''),
     (''target_args'', PList [])]), (''objdump'', PDict [(''binary'', PStr ''/usr/bin/aarch64-linux-gnu-objdump''),
     (''realpath'', PStr ''/usr/bin/aarch64-linux-gnu-objdump''), (''sha256'',
     PStr ''f169f3bd85dd3c44f640cdb0980cae98ca0bd585e755e909bdc146e019c0fe33''), (''version_line'',
     PStr ''GNU objdump (GNU Binutils for Ubuntu) 2.46''), (''disassemble_symbol_option'', PStr ''--disassemble'')]),
     (''configured_compile'', PDict [(''target'', PStr ''ipc/util.o''), (''object'',
     PStr ''build/kernel/arm64-ipc-refcount-c3/ipc/util.o''), (''command_file'',
     PStr ''build/kernel/arm64-ipc-refcount-c3/ipc/.util.o.cmd''), (''object_sha256'',
     PStr ''1bda4df1720f4a58034f1163ee31ff19d36dea2307435c75e7c6518e4688a7d9''), (''command_sha256'',
     PStr ''66a066114bd657c4c1b0f0bf186e4b74c2dab497bc5d67b924e73d7fe8b44dcb''), (''elf_class'', PInt 2), (''elf_data'', PInt 1),
     (''elf_machine'', PInt 183), (''required_command_tokens'', PList [PStr ''/usr/bin/aarch64-linux-gnu-gcc'',
     PStr ''-D__KERNEL__'', PStr ''-mlittle-endian'', PStr ''-std=gnu11'', PStr ''-mgeneral-regs-only'', PStr ''-mabi=lp64'',
     PStr ''-Wa,-march=armv8.5-a'', PStr ''-O2'', PStr ''-fno-allow-store-data-races'', PStr ''ipc/util.o'',
     PStr ''ipc/util.c'']), (''functions'', PDict [(''ipc_rcu_getref'', PDict [(''section'', PStr ''.text''), (''value'',
     PStr ''0000000000000e60''), (''size'', PInt 144), (''disassembly_order'', PList [PStr ''<ipc_rcu_getref>:'',
     PStr (''cbz'' @ [CHR 0x09] @ ''w2''), PStr (''cas'' @ [CHR 0x09] @ ''w3, w1, [x4]''),
     PStr (''ldxr'' @ [CHR 0x09] @ ''w3, [x4]''), PStr (''stxr'' @ [CHR 0x09] @ ''w5, w1, [x4]''),
     PStr (''R_AARCH64_CALL26'' @ [CHR 0x09] @ ''refcount_warn_saturate'')])]), (''ipc_rcu_putref'', PDict [(''section'',
     PStr ''.text''), (''value'', PStr ''0000000000000ef0''), (''size'', PInt 140), (''disassembly_order'',
     PList [PStr ''<ipc_rcu_putref>:'', PStr (''ldaddl'' @ [CHR 0x09] @ ''w2, w2, [x4]''),
     PStr (''ldxr'' @ [CHR 0x09] @ ''w2, [x7]''), PStr (''stlxr'' @ [CHR 0x09] @ ''w6, w5, [x7]''),
     PStr (''dmb'' @ [CHR 0x09] @ ''ishld''), PStr (''R_AARCH64_CALL26'' @ [CHR 0x09] @ ''call_rcu'')])])])])]"

definition declared_riscv64 :: pydict where
  "declared_riscv64 =
     [(''id'', PStr ''riscv64-ipc-refcount-c3''), (''arch'', PStr ''riscv''), (''subarch'', PNone), (''cross_compile'',
     PStr ''/usr/bin/riscv64-linux-gnu-''), (''make_assignments'', PList []), (''jobs'', PInt 8), (''build_directory'',
     PStr ''build/kernel/riscv64-ipc-refcount-c3''), (''config'', PStr ''build/kernel/riscv64-ipc-refcount-c3/.config''),
     (''config_sha256'', PStr ''fe92d0e05bc9be603ec62108f63b02ac7fbf2e20f08789903525fdea8f58f19b''), (''execution_scope'',
     PStr ''smp-multicpu''), (''configuration'', PDict [(''base_recipe'', PStr ''defconfig''), (''mutations'', PList []),
     (''finalize_recipe'', PStr ''olddefconfig'')]), (''required_config'', PDict [(''CONFIG_64BIT'', PStr ''y''),
     (''CONFIG_RISCV'', PStr ''y''), (''CONFIG_ARCH_RV64I'', PStr ''y''), (''CONFIG_SMP'', PStr ''y''), (''CONFIG_SYSVIPC'',
     PStr ''y''), (''CONFIG_TREE_RCU'', PStr ''y''), (''CONFIG_PREEMPT_RCU'', PStr ''absent''), (''CONFIG_RCU_EXPERT'',
     PStr ''n''), (''CONFIG_KCSAN'', PStr ''absent''), (''CONFIG_CC_IS_GCC'', PStr ''y'')]), (''allowed_diagnostics'',
     PDict [(''base-config'', PList []), (''config-mutation'', PList []), (''finalize-config'', PList []), (''object'',
     PList [])]), (''make'', PDict [(''binary'', PStr ''/usr/bin/make''), (''realpath'', PStr ''/usr/bin/make''), (''sha256'',
     PStr ''27c9f6d806aee15882b01c2c61848f7aa75caa14bc7b6f608ba422f9e46a7d49''), (''version_line'', PStr ''GNU Make 4.4.1'')]),
     (''compiler'', PDict [(''binary'', PStr ''/usr/bin/riscv64-linux-gnu-gcc''), (''realpath'',
     PStr ''/usr/bin/riscv64-linux-gnu-gcc-15''), (''sha256'',
     PStr ''fdcd0a16c510b9a7328b7bfba0e02c49b85d12364faac3a02ed1da304a2ea6be''), (''version_line'',
     PStr ''riscv64-linux-gnu-gcc (Ubuntu 15.2.0-16ubuntu1) 15.2.0''), (''target'', PStr ''riscv64-linux-gnu''),
     (''target_args'', PList [])]), (''objdump'', PDict [(''binary'', PStr ''/usr/bin/riscv64-linux-gnu-objdump''),
     (''realpath'', PStr ''/usr/bin/riscv64-linux-gnu-objdump''), (''sha256'',
     PStr ''25655c4bc10524d230b8f607d0c9e7901c685f908776955f0df823c520b80bab''), (''version_line'',
     PStr ''GNU objdump (GNU Binutils for Ubuntu) 2.46''), (''disassemble_symbol_option'', PStr ''--disassemble'')]),
     (''configured_compile'', PDict [(''target'', PStr ''ipc/util.o''), (''object'',
     PStr ''build/kernel/riscv64-ipc-refcount-c3/ipc/util.o''), (''command_file'',
     PStr ''build/kernel/riscv64-ipc-refcount-c3/ipc/.util.o.cmd''), (''object_sha256'',
     PStr ''54b28e7a322a688cd1a196b153a037c92db1f317dbdb50c4268856f41944c92d''), (''command_sha256'',
     PStr ''cb82c7f498ee31dd1dff6cb20df9f9eb6b4f6101f7ec95583be4c19d262206bf''), (''elf_class'', PInt 2), (''elf_data'', PInt 1),
     (''elf_machine'', PInt 243), (''required_command_tokens'', PList [PStr ''/usr/bin/riscv64-linux-gnu-gcc'',
     PStr ''-D__KERNEL__'', PStr ''-std=gnu11'', PStr ''-mabi=lp64'', PStr ''-march=rv64imac_zicsr_zifencei_zacas_zabha'',
     PStr ''-mno-save-restore'', PStr ''-mstrict-align'', PStr ''-O2'', PStr ''-fno-allow-store-data-races'',
     PStr ''ipc/util.o'', PStr ''ipc/util.c'']), (''functions'', PDict [(''ipc_rcu_getref'', PDict [(''section'',
     PStr ''.text''), (''value'', PStr ''0000000000000dc8''), (''size'', PInt 100), (''disassembly_order'',
     PList [PStr ''<ipc_rcu_getref>:'', PStr (''beqz'' @ [CHR 0x09] @ ''a5''), PStr (''lr.w'' @ [CHR 0x09] @ ''a4,(a0)''),
     PStr (''sc.w'' @ [CHR 0x09] @ ''a2,a3,(a0)''), PStr (''amocas.w'' @ [CHR 0x09] @ ''a4,a3,(a0)''),
     PStr (''R_RISCV_CALL_PLT'' @ [CHR 0x09] @ ''refcount_warn_saturate'')])]), (''ipc_rcu_putref'', PDict [(''section'',
     PStr ''.text''), (''value'', PStr ''0000000000000e2c''), (''size'', PInt 88), (''disassembly_order'',
     PList [PStr ''<ipc_rcu_putref>:'', PStr (''fence'' @ [CHR 0x09] @ ''rw,w''),
     PStr (''amoadd.w'' @ [CHR 0x09] @ ''a5,a5,(a4)''), PStr (''beq'' @ [CHR 0x09] @ ''a5,a4''),
     PStr (''fence'' @ [CHR 0x09] @ ''r,r''), PStr (''R_RISCV_CALL_PLT'' @ [CHR 0x09] @ ''call_rcu'')])])])])]"

definition declared_s390x :: pydict where
  "declared_s390x =
     [(''id'', PStr ''s390x-ipc-refcount-c3''), (''arch'', PStr ''s390''), (''subarch'', PNone), (''cross_compile'',
     PStr ''/usr/bin/s390x-linux-gnu-''), (''make_assignments'', PList []), (''jobs'', PInt 8), (''build_directory'',
     PStr ''build/kernel/s390x-ipc-refcount-c3''), (''config'', PStr ''build/kernel/s390x-ipc-refcount-c3/.config''),
     (''config_sha256'', PStr ''a7676e53663ef8a496f2da61cd36b0ef67e62420d3fa50d233aa146cef155d01''), (''execution_scope'',
     PStr ''smp-multicpu''), (''configuration'', PDict [(''base_recipe'', PStr ''defconfig''), (''mutations'', PList []),
     (''finalize_recipe'', PStr ''olddefconfig'')]), (''required_config'', PDict [(''CONFIG_64BIT'', PStr ''y''),
     (''CONFIG_S390'', PStr ''y''), (''CONFIG_CPU_BIG_ENDIAN'', PStr ''y''), (''CONFIG_MARCH_Z13'', PStr ''y''), (''CONFIG_SMP'',
     PStr ''y''), (''CONFIG_SYSVIPC'', PStr ''y''), (''CONFIG_TREE_RCU'', PStr ''y''), (''CONFIG_PREEMPT_RCU'', PStr ''absent''),
     (''CONFIG_RCU_EXPERT'', PStr ''n''), (''CONFIG_KCSAN'', PStr ''n''), (''CONFIG_CC_IS_GCC'', PStr ''y'')]),
     (''allowed_diagnostics'', PDict [(''base-config'', PList []), (''config-mutation'', PList []), (''finalize-config'',
     PList []), (''object'', PList [])]), (''make'', PDict [(''binary'', PStr ''/usr/bin/make''), (''realpath'',
     PStr ''/usr/bin/make''), (''sha256'', PStr ''27c9f6d806aee15882b01c2c61848f7aa75caa14bc7b6f608ba422f9e46a7d49''),
     (''version_line'', PStr ''GNU Make 4.4.1'')]), (''compiler'', PDict [(''binary'', PStr ''/usr/bin/s390x-linux-gnu-gcc''),
     (''realpath'', PStr ''/usr/bin/s390x-linux-gnu-gcc-15''), (''sha256'',
     PStr ''7460813207bc4c0520dcf8181fca5abf25ff07eae515d57f56388446ce409b6d''), (''version_line'',
     PStr ''s390x-linux-gnu-gcc (Ubuntu 15.2.0-16ubuntu1) 15.2.0''), (''target'', PStr ''s390x-linux-gnu''), (''target_args'',
     PList [])]), (''objdump'', PDict [(''binary'', PStr ''/usr/bin/s390x-linux-gnu-objdump''), (''realpath'',
     PStr ''/usr/bin/s390x-linux-gnu-objdump''), (''sha256'',
     PStr ''ff27ef648bd53f49f9cb1422dda7670876bdca1938c1227b76a0e6eb2ce58277''), (''version_line'',
     PStr ''GNU objdump (GNU Binutils for Ubuntu) 2.46''), (''disassemble_symbol_option'', PStr ''--disassemble'')]),
     (''configured_compile'', PDict [(''target'', PStr ''ipc/util.o''), (''object'',
     PStr ''build/kernel/s390x-ipc-refcount-c3/ipc/util.o''), (''command_file'',
     PStr ''build/kernel/s390x-ipc-refcount-c3/ipc/.util.o.cmd''), (''object_sha256'',
     PStr ''b92d6cb9350e9b4fefa88b75b7a69a83ad7d7231106813e89d8e6f8b704346d3''), (''command_sha256'',
     PStr ''09f9d4daba6f85ed3cb8fae50f277cc3b237e9a999c6a1590f52d7fa58ef1433''), (''elf_class'', PInt 2), (''elf_data'', PInt 2),
     (''elf_machine'', PInt 22), (''required_command_tokens'', PList [PStr ''/usr/bin/s390x-linux-gnu-gcc'',
     PStr ''-D__KERNEL__'', PStr ''-m64'', PStr ''-std=gnu11'', PStr ''-mpacked-stack'', PStr ''-mbackchain'',
     PStr ''-msoft-float'', PStr ''-march=z13'', PStr ''-mtune=z13'', PStr ''-O2'', PStr ''-fno-allow-store-data-races'',
     PStr ''ipc/util.o'', PStr ''ipc/util.c'']), (''functions'', PDict [(''ipc_rcu_getref'', PDict [(''section'',
     PStr ''.text''), (''value'', PStr ''0000000000000f10''), (''size'', PInt 136), (''disassembly_order'',
     PList [PStr ''<ipc_rcu_getref>:'', PStr (''cije'' @ [CHR 0x09] @ ''%r1,0''),
     PStr (''cs'' @ [CHR 0x09] @ ''%r1,%r2,0(%r3)''), PStr (''jne'' @ [CHR 0x09] @ ''f34 <ipc_rcu_getref+0x24>''),
     PStr (''R_390_PLT32DBL'' @ [CHR 0x09] @ ''refcount_warn_saturate'')])]), (''ipc_rcu_putref'', PDict [(''section'',
     PStr ''.text''), (''value'', PStr ''0000000000000fa0''), (''size'', PInt 64), (''disassembly_order'',
     PList [PStr ''<ipc_rcu_putref>:'', PStr (''laa'' @ [CHR 0x09] @ ''%r0,%r4,80(%r1)''),
     PStr (''cije'' @ [CHR 0x09] @ ''%r0,1''), PStr (''R_390_PLT32DBL'' @ [CHR 0x09] @ ''call_rcu''),
     PStr (''R_390_PLT32DBL'' @ [CHR 0x09] @ ''refcount_warn_saturate'')])])])])]"

definition declared_arm32 :: pydict where
  "declared_arm32 =
     [(''id'', PStr ''arm32-ipc-refcount-c3''), (''arch'', PStr ''arm''), (''subarch'', PNone), (''cross_compile'',
     PStr ''/usr/bin/arm-linux-gnueabi-''), (''make_assignments'', PList []), (''jobs'', PInt 8), (''build_directory'',
     PStr ''build/kernel/arm32-ipc-refcount-c3''), (''config'', PStr ''build/kernel/arm32-ipc-refcount-c3/.config''),
     (''config_sha256'', PStr ''9001027fc1668165f240e4012d7a0505953839ac85c128d15ab8e39daaf0b412''), (''execution_scope'',
     PStr ''smp-multicpu''), (''configuration'', PDict [(''base_recipe'', PStr ''multi_v7_defconfig''), (''mutations'',
     PList []), (''finalize_recipe'', PStr ''olddefconfig'')]), (''required_config'', PDict [(''CONFIG_ARM'', PStr ''y''),
     (''CONFIG_CPU_V7'', PStr ''y''), (''CONFIG_AEABI'', PStr ''y''), (''CONFIG_CPU_LITTLE_ENDIAN'', PStr ''y''),
     (''CONFIG_CPU_BIG_ENDIAN'', PStr ''n''), (''CONFIG_SMP'', PStr ''y''), (''CONFIG_SYSVIPC'', PStr ''y''),
     (''CONFIG_TREE_RCU'', PStr ''y''), (''CONFIG_PREEMPT_RCU'', PStr ''absent''), (''CONFIG_RCU_EXPERT'', PStr ''n''),
     (''CONFIG_KCSAN'', PStr ''absent''), (''CONFIG_CC_IS_GCC'', PStr ''y'')]), (''allowed_diagnostics'',
     PDict [(''base-config'', PList []), (''config-mutation'', PList []), (''finalize-config'', PList []), (''object'',
     PList [])]), (''make'', PDict [(''binary'', PStr ''/usr/bin/make''), (''realpath'', PStr ''/usr/bin/make''), (''sha256'',
     PStr ''27c9f6d806aee15882b01c2c61848f7aa75caa14bc7b6f608ba422f9e46a7d49''), (''version_line'', PStr ''GNU Make 4.4.1'')]),
     (''compiler'', PDict [(''binary'', PStr ''/usr/bin/arm-linux-gnueabi-gcc''), (''realpath'',
     PStr ''/usr/bin/arm-linux-gnueabi-gcc-15''), (''sha256'',
     PStr ''b417460992a88c2df65d82f82c6af452210d25e8def84d35701393063afd30bd''), (''version_line'',
     PStr ''arm-linux-gnueabi-gcc (Ubuntu 15.2.0-16ubuntu1) 15.2.0''), (''target'', PStr ''arm-linux-gnueabi''),
     (''target_args'', PList [])]), (''objdump'', PDict [(''binary'', PStr ''/usr/bin/arm-linux-gnueabi-objdump''),
     (''realpath'', PStr ''/usr/bin/arm-linux-gnueabi-objdump''), (''sha256'',
     PStr ''d37181d5d57396634f1548ac67bb95415b9c8cb8c0a3396340ff048c4085cd2d''), (''version_line'',
     PStr ''GNU objdump (GNU Binutils for Ubuntu) 2.46''), (''disassemble_symbol_option'', PStr ''--disassemble'')]),
     (''configured_compile'', PDict [(''target'', PStr ''ipc/util.o''), (''object'',
     PStr ''build/kernel/arm32-ipc-refcount-c3/ipc/util.o''), (''command_file'',
     PStr ''build/kernel/arm32-ipc-refcount-c3/ipc/.util.o.cmd''), (''object_sha256'',
     PStr ''17f07ba07cdcdaafe3eb4c9f65c872acf3bba7cc697acc8df7dec419059e4b20''), (''command_sha256'',
     PStr ''ebab24efed964ebcc4d097d9884724dcc04d47ac86913ea67b2f5ea78ca25c79''), (''elf_class'', PInt 1), (''elf_data'', PInt 1),
     (''elf_machine'', PInt 40), (''required_command_tokens'', PList [PStr ''/usr/bin/arm-linux-gnueabi-gcc'',
     PStr ''-D__KERNEL__'', PStr ''-mlittle-endian'', PStr ''-D__LINUX_ARM_ARCH__=7'', PStr ''-std=gnu11'',
     PStr ''-mabi=aapcs-linux'', PStr ''-marm'', PStr ''-march=armv7-a'', PStr ''-msoft-float'', PStr ''-O2'',
     PStr ''-fno-allow-store-data-races'', PStr ''ipc/util.o'', PStr ''ipc/util.c'']), (''functions'',
     PDict [(''ipc_rcu_getref'', PDict [(''section'', PStr ''.text''), (''value'', PStr ''00000bc8''), (''size'', PInt 108),
     (''disassembly_order'', PList [PStr ''<ipc_rcu_getref>:'', PStr (''cmp'' @ [CHR 0x09] @ ''r0, #0''),
     PStr (''ldrex'' @ [CHR 0x09] @ ''r12, [r3]''), PStr (''strexeq'' @ [CHR 0x09] @ ''r1, r2, [r3]''),
     PStr (''R_ARM_CALL'' @ [CHR 0x09] @ ''refcount_warn_saturate'')])]), (''ipc_rcu_putref'', PDict [(''section'',
     PStr ''.text''), (''value'', PStr ''00000c34''), (''size'', PInt 84), (''disassembly_order'',
     PList [PStr ''<ipc_rcu_putref>:'', PStr (''dmb'' @ [CHR 0x09] @ ''ish''), PStr (''ldrex'' @ [CHR 0x09] @ ''r2, [r3]''),
     PStr (''strex'' @ [CHR 0x09] @ ''lr, ip, [r3]''), PStr (''cmp'' @ [CHR 0x09] @ ''r2, #1''),
     PStr (''R_ARM_JUMP24'' @ [CHR 0x09] @ ''call_rcu'')])])])])]"

definition declared_powerpc32_smp :: pydict where
  "declared_powerpc32_smp =
     [(''id'', PStr ''powerpc32-smp-ipc-refcount-c3''), (''arch'', PStr ''powerpc''), (''subarch'', PNone), (''cross_compile'',
     PStr ''/usr/bin/powerpc-linux-gnu-''), (''make_assignments'', PList []), (''jobs'', PInt 8), (''build_directory'',
     PStr ''build/kernel/powerpc32-smp-ipc-refcount-c3''), (''config'',
     PStr ''build/kernel/powerpc32-smp-ipc-refcount-c3/.config''), (''config_sha256'',
     PStr ''2ce33c1da81f6882148455cd62c55ecb5a7f8ebe83a11b0ba452ed3cc50ec1e7''), (''execution_scope'', PStr ''smp-multicpu''),
     (''configuration'', PDict [(''base_recipe'', PStr ''chrp32_defconfig''), (''mutations'', PList []), (''finalize_recipe'',
     PStr ''olddefconfig'')]), (''required_config'', PDict [(''CONFIG_PPC'', PStr ''y''), (''CONFIG_PPC32'', PStr ''y''),
     (''CONFIG_PPC64'', PStr ''n''), (''CONFIG_CPU_BIG_ENDIAN'', PStr ''y''), (''CONFIG_SMP'', PStr ''y''), (''CONFIG_SYSVIPC'',
     PStr ''y''), (''CONFIG_TREE_RCU'', PStr ''y''), (''CONFIG_PREEMPT_RCU'', PStr ''absent''), (''CONFIG_RCU_EXPERT'',
     PStr ''n''), (''CONFIG_KCSAN'', PStr ''n''), (''CONFIG_CC_IS_GCC'', PStr ''y'')]), (''allowed_diagnostics'',
     PDict [(''base-config'', PList []), (''config-mutation'', PList []), (''finalize-config'', PList []), (''object'',
     PList [])]), (''make'', PDict [(''binary'', PStr ''/usr/bin/make''), (''realpath'', PStr ''/usr/bin/make''), (''sha256'',
     PStr ''27c9f6d806aee15882b01c2c61848f7aa75caa14bc7b6f608ba422f9e46a7d49''), (''version_line'', PStr ''GNU Make 4.4.1'')]),
     (''compiler'', PDict [(''binary'', PStr ''/usr/bin/powerpc-linux-gnu-gcc''), (''realpath'',
     PStr ''/usr/bin/powerpc-linux-gnu-gcc-15''), (''sha256'',
     PStr ''ff435633e9d6087fa654443fea45a94dd9c4edfcbe691d10158b802a0c3cc363''), (''version_line'',
     PStr ''powerpc-linux-gnu-gcc (Ubuntu 15.2.0-16ubuntu1) 15.2.0''), (''target'', PStr ''powerpc-linux-gnu''),
     (''target_args'', PList [])]), (''objdump'', PDict [(''binary'', PStr ''/usr/bin/powerpc-linux-gnu-objdump''),
     (''realpath'', PStr ''/usr/bin/powerpc-linux-gnu-objdump''), (''sha256'',
     PStr ''98cf195e4d82c381b77076acba20a7deba5d31c304c220f762eacf292e9ab79d''), (''version_line'',
     PStr ''GNU objdump (GNU Binutils for Ubuntu) 2.46''), (''disassemble_symbol_option'', PStr ''--disassemble'')]),
     (''configured_compile'', PDict [(''target'', PStr ''ipc/util.o''), (''object'',
     PStr ''build/kernel/powerpc32-smp-ipc-refcount-c3/ipc/util.o''), (''command_file'',
     PStr ''build/kernel/powerpc32-smp-ipc-refcount-c3/ipc/.util.o.cmd''), (''object_sha256'',
     PStr ''68021ae57fdbf7ce71efe35877ca5d98fdd09fe7160e7f0e1486bd82a469fad3''), (''command_sha256'',
     PStr ''ca3a010757d7d2f25c024848454e5387a4148623cc75b9bc7e19d49dcca17898''), (''elf_class'', PInt 1), (''elf_data'', PInt 2),
     (''elf_machine'', PInt 20), (''required_command_tokens'', PList [PStr ''/usr/bin/powerpc-linux-gnu-gcc'',
     PStr ''-D__KERNEL__'', PStr ''-mbig-endian'', PStr ''-m32'', PStr ''-std=gnu11'', PStr ''-mcpu=powerpc'', PStr ''-O2'',
     PStr ''-fno-allow-store-data-races'', PStr ''ipc/util.o'', PStr ''ipc/util.c'']), (''functions'',
     PDict [(''ipc_rcu_getref'', PDict [(''section'', PStr ''.text''), (''value'', PStr ''00001178''), (''size'', PInt 132),
     (''disassembly_order'', PList [PStr ''<ipc_rcu_getref>:'', PStr ''cmpwi   r9,0'', PStr ''lwarx   r7,0,r10'',
     PStr ''stwcx.  r8,0,r10'', PStr (''R_PPC_REL24'' @ [CHR 0x09] @ ''refcount_warn_saturate'')])]), (''ipc_rcu_putref'',
     PDict [(''section'', PStr ''.text''), (''value'', PStr ''000011fc''), (''size'', PInt 84), (''disassembly_order'',
     PList [PStr ''<ipc_rcu_putref>:'', PStr ''hwsync'', PStr ''lwarx   r10,0,r3'', PStr ''stwcx.  r8,0,r3'',
     PStr ''cmpwi   r10,1'', PStr (''R_PPC_REL24'' @ [CHR 0x09] @ ''call_rcu'')])])])])]"

definition declared_sh_smp :: pydict where
  "declared_sh_smp =
     [(''id'', PStr ''sh-smp-ipc-refcount-c3''), (''arch'', PStr ''sh''), (''subarch'', PNone), (''cross_compile'',
     PStr ''/usr/bin/sh4-linux-gnu-''), (''make_assignments'', PList []), (''jobs'', PInt 8), (''build_directory'',
     PStr ''build/kernel/sh-smp-ipc-refcount-c3''), (''config'', PStr ''build/kernel/sh-smp-ipc-refcount-c3/.config''),
     (''config_sha256'', PStr ''e53d91d1ed9b63b39c7abf0a3c9711c88c0ef0ffb30d17309720098cd9538047''), (''execution_scope'',
     PStr ''smp-multicpu''), (''configuration'', PDict [(''base_recipe'', PStr ''shx3_defconfig''), (''mutations'', PList []),
     (''finalize_recipe'', PStr ''olddefconfig'')]), (''required_config'', PDict [(''CONFIG_SUPERH'', PStr ''y''),
     (''CONFIG_CPU_SH4'', PStr ''y''), (''CONFIG_CPU_SH4A'', PStr ''y''), (''CONFIG_CPU_SUBTYPE_SHX3'', PStr ''y''),
     (''CONFIG_CPU_LITTLE_ENDIAN'', PStr ''y''), (''CONFIG_CPU_BIG_ENDIAN'', PStr ''n''), (''CONFIG_SMP'', PStr ''y''),
     (''CONFIG_SYSVIPC'', PStr ''y''), (''CONFIG_TREE_RCU'', PStr ''y''), (''CONFIG_PREEMPT_RCU'', PStr ''y''),
     (''CONFIG_RCU_EXPERT'', PStr ''n''), (''CONFIG_KCSAN'', PStr ''absent''), (''CONFIG_CC_IS_GCC'', PStr ''y'')]),
     (''allowed_diagnostics'', PDict [(''base-config'', PList []), (''config-mutation'', PList []), (''finalize-config'',
     PList []), (''object'', PList [PStr ''<stdin>:1519:2: warning: #warning syscall clone3 not implemented [-Wcpp]''])]),
     (''make'', PDict [(''binary'', PStr ''/usr/bin/make''), (''realpath'', PStr ''/usr/bin/make''), (''sha256'',
     PStr ''27c9f6d806aee15882b01c2c61848f7aa75caa14bc7b6f608ba422f9e46a7d49''), (''version_line'', PStr ''GNU Make 4.4.1'')]),
     (''compiler'', PDict [(''binary'', PStr ''/usr/bin/sh4-linux-gnu-gcc''), (''realpath'',
     PStr ''/usr/bin/sh4-linux-gnu-gcc-15''), (''sha256'',
     PStr ''df27248ebba071edec01891da2a3f7e197b6e30676f5c2ccd42eab505537f353''), (''version_line'',
     PStr ''sh4-linux-gnu-gcc (Ubuntu 15.2.0-16ubuntu1) 15.2.0''), (''target'', PStr ''sh4-linux-gnu''), (''target_args'',
     PList [])]), (''objdump'', PDict [(''binary'', PStr ''/usr/bin/sh4-linux-gnu-objdump''), (''realpath'',
     PStr ''/usr/bin/sh4-linux-gnu-objdump''), (''sha256'',
     PStr ''17474854a45fcd1f6a600e7eac6f471abe96cc0c8a7a11844bded0d9ac2b74b9''), (''version_line'',
     PStr ''GNU objdump (GNU Binutils for Ubuntu) 2.46''), (''disassemble_symbol_option'', PStr ''--disassemble'')]),
     (''configured_compile'', PDict [(''target'', PStr ''ipc/util.o''), (''object'',
     PStr ''build/kernel/sh-smp-ipc-refcount-c3/ipc/util.o''), (''command_file'',
     PStr ''build/kernel/sh-smp-ipc-refcount-c3/ipc/.util.o.cmd''), (''object_sha256'',
     PStr ''b1fef80ad64b4fdd77542c261c027a05d260b90d92ff53b8454665f8a8084791''), (''command_sha256'',
     PStr ''6d0f4cdc9fa830f144698d6fd6fea07c4e9d529495ae28dfd273117bb9947d01''), (''elf_class'', PInt 1), (''elf_data'', PInt 1),
     (''elf_machine'', PInt 42), (''required_command_tokens'', PList [PStr ''/usr/bin/sh4-linux-gnu-gcc'', PStr ''-D__KERNEL__'',
     PStr ''-std=gnu11'', PStr ''-m4'', PStr ''-m4a'', PStr ''-ml'', PStr ''-Wa,-isa=sh4a-up'', PStr ''-O2'',
     PStr ''-fno-allow-store-data-races'', PStr ''ipc/util.o'', PStr ''ipc/util.c'']), (''functions'',
     PDict [(''ipc_rcu_getref'', PDict [(''section'', PStr ''.text''), (''value'', PStr ''00000c1c''), (''size'', PInt 80),
     (''disassembly_order'', PList [PStr ''<ipc_rcu_getref>:'', PStr (''tst'' @ [CHR 0x09] @ ''r1,r1''),
     PStr (''movli.l'' @ [CHR 0x09] @ ''@r3,r0''), PStr (''movco.l'' @ [CHR 0x09] @ ''r0,@r3''), PStr ''synco'',
     PStr (''R_SH_DIR32'' @ [CHR 0x09] @ ''refcount_warn_saturate'')])]), (''ipc_rcu_putref'', PDict [(''section'',
     PStr ''.text''), (''value'', PStr ''00000c6c''), (''size'', PInt 84), (''disassembly_order'',
     PList [PStr ''<ipc_rcu_putref>:'', PStr (''movli.l'' @ [CHR 0x09] @ ''@r1,r0''),
     PStr (''movco.l'' @ [CHR 0x09] @ ''r0,@r1''), PStr ''synco'', PStr (''cmp/eq'' @ [CHR 0x09] @ ''#1,r0''),
     PStr (''R_SH_DIR32'' @ [CHR 0x09] @ ''call_rcu'')])])])])]"

definition declared_alpha_smp :: pydict where
  "declared_alpha_smp =
     [(''id'', PStr ''alpha-smp-ipc-refcount-c3''), (''arch'', PStr ''alpha''), (''subarch'', PNone), (''cross_compile'',
     PStr ''/usr/bin/alpha-linux-gnu-''), (''make_assignments'', PList []), (''jobs'', PInt 8), (''build_directory'',
     PStr ''build/kernel/alpha-smp-ipc-refcount-c3''), (''config'', PStr ''build/kernel/alpha-smp-ipc-refcount-c3/.config''),
     (''config_sha256'', PStr ''21d6b92b20bfb82d67380adc6624e767aeacd54be1bec0950e3ccca309816902''), (''execution_scope'',
     PStr ''smp-multicpu''), (''configuration'', PDict [(''base_recipe'', PStr ''defconfig''), (''mutations'',
     PList [PDict [(''symbol'', PStr ''SMP''), (''operation'', PStr ''enable'')]]), (''finalize_recipe'',
     PStr ''olddefconfig'')]), (''required_config'', PDict [(''CONFIG_ALPHA'', PStr ''y''), (''CONFIG_ALPHA_GENERIC'',
     PStr ''y''), (''CONFIG_64BIT'', PStr ''y''), (''CONFIG_SMP'', PStr ''y''), (''CONFIG_SYSVIPC'', PStr ''y''),
     (''CONFIG_TREE_RCU'', PStr ''y''), (''CONFIG_PREEMPT_RCU'', PStr ''absent''), (''CONFIG_RCU_EXPERT'', PStr ''n''),
     (''CONFIG_KCSAN'', PStr ''absent''), (''CONFIG_CC_IS_GCC'', PStr ''y'')]), (''allowed_diagnostics'',
     PDict [(''base-config'', PList []), (''config-mutation'', PList []), (''finalize-config'', PList []), (''object'',
     PList [])]), (''make'', PDict [(''binary'', PStr ''/usr/bin/make''), (''realpath'', PStr ''/usr/bin/make''), (''sha256'',
     PStr ''27c9f6d806aee15882b01c2c61848f7aa75caa14bc7b6f608ba422f9e46a7d49''), (''version_line'', PStr ''GNU Make 4.4.1'')]),
     (''compiler'', PDict [(''binary'', PStr ''/usr/bin/alpha-linux-gnu-gcc''), (''realpath'',
     PStr ''/usr/bin/alpha-linux-gnu-gcc-15''), (''sha256'',
     PStr ''498e83234f815b51d56d7bdad9605c54313e41f40700d0c3c4da7a75944125c3''), (''version_line'',
     PStr ''alpha-linux-gnu-gcc (Ubuntu 15.2.0-16ubuntu1) 15.2.0''), (''target'', PStr ''alpha-linux-gnu''), (''target_args'',
     PList [])]), (''objdump'', PDict [(''binary'', PStr ''/usr/bin/alpha-linux-gnu-objdump''), (''realpath'',
     PStr ''/usr/bin/alpha-linux-gnu-objdump''), (''sha256'',
     PStr ''7ff2a14d9131d29f719c2d022880e5c90bf786551749316c3c9c214178dc48b8''), (''version_line'',
     PStr ''GNU objdump (GNU Binutils for Ubuntu) 2.46''), (''disassemble_symbol_option'', PStr ''--disassemble'')]),
     (''configured_compile'', PDict [(''target'', PStr ''ipc/util.o''), (''object'',
     PStr ''build/kernel/alpha-smp-ipc-refcount-c3/ipc/util.o''), (''command_file'',
     PStr ''build/kernel/alpha-smp-ipc-refcount-c3/ipc/.util.o.cmd''), (''object_sha256'',
     PStr ''cb63e40524cedb288279cb14d469a7a851046dead44dda22d45be8066c8986b5''), (''command_sha256'',
     PStr ''8b288c9b4da9bb4cf575b49992c542e31c285dd264db6d90f6434ad640ae180c''), (''elf_class'', PInt 2), (''elf_data'', PInt 1),
     (''elf_machine'', PInt 36902), (''required_command_tokens'', PList [PStr ''/usr/bin/alpha-linux-gnu-gcc'',
     PStr ''-D__KERNEL__'', PStr ''-std=gnu11'', PStr ''-mno-fp-regs'', PStr ''-mcpu=ev56'', PStr ''-mtune=ev6'',
     PStr ''-Wa,-mev6'', PStr ''-O2'', PStr ''-fno-allow-store-data-races'', PStr ''ipc/util.o'', PStr ''ipc/util.c'']),
     (''functions'', PDict [(''ipc_rcu_getref'', PDict [(''section'', PStr ''.text''), (''value'', PStr ''0000000000000f90''),
     (''size'', PInt 168), (''disassembly_order'', PList [PStr ''<ipc_rcu_getref>:'', PStr ''mb'',
     PStr (''ldl_l'' @ [CHR 0x09] @ ''t2,0(a0)''), PStr (''stl_c'' @ [CHR 0x09] @ ''t3,0(a0)''),
     PStr (''ELF_LITERAL'' @ [CHR 0x09] @ ''refcount_warn_saturate'')])]), (''ipc_rcu_putref'', PDict [(''section'',
     PStr ''.text''), (''value'', PStr ''0000000000001040''), (''size'', PInt 164), (''disassembly_order'',
     PList [PStr ''<ipc_rcu_putref>:'', PStr ''mb'', PStr (''ldl_l'' @ [CHR 0x09] @ ''t0,80(a0)''),
     PStr (''stl_c'' @ [CHR 0x09] @ ''t1,80(a0)''), PStr (''cmpeq'' @ [CHR 0x09] @ ''t0,0x1,t1''),
     PStr (''ELF_LITERAL'' @ [CHR 0x09] @ ''call_rcu'')])])])])]"

definition declared_loongarch64_clang :: pydict where
  "declared_loongarch64_clang =
     [(''id'', PStr ''loongarch64-clang-ipc-refcount-c3''), (''arch'', PStr ''loongarch''), (''subarch'', PNone),
     (''cross_compile'', PNone), (''make_assignments'', PList [PStr ''LLVM=1'', PStr ''LLVM_IAS=1'']), (''jobs'', PInt 8),
     (''build_directory'', PStr ''build/kernel/loongarch64-clang-ipc-refcount-c3''), (''config'',
     PStr ''build/kernel/loongarch64-clang-ipc-refcount-c3/.config''), (''config_sha256'',
     PStr ''61662dbfd894d861f1a31bc1f9fdaafd4e74c34297a57ce583c3e8686e6c066e''), (''execution_scope'', PStr ''smp-multicpu''),
     (''configuration'', PDict [(''base_recipe'', PStr ''loongson64_defconfig''), (''mutations'', PList []),
     (''finalize_recipe'', PStr ''olddefconfig'')]), (''required_config'', PDict [(''CONFIG_LOONGARCH'', PStr ''y''),
     (''CONFIG_64BIT'', PStr ''y''), (''CONFIG_MACH_LOONGSON64'', PStr ''y''), (''CONFIG_SMP'', PStr ''y''), (''CONFIG_SYSVIPC'',
     PStr ''y''), (''CONFIG_TREE_RCU'', PStr ''y''), (''CONFIG_PREEMPT_RCU'', PStr ''y''), (''CONFIG_RCU_EXPERT'', PStr ''n''),
     (''CONFIG_KCSAN'', PStr ''absent''), (''CONFIG_CPU_HAS_AMO'', PStr ''y''), (''CONFIG_AS_HAS_SCQ_EXTENSION'', PStr ''y''),
     (''CONFIG_LTO_NONE'', PStr ''y''), (''CONFIG_CC_IS_GCC'', PStr ''absent''), (''CONFIG_CC_IS_CLANG'', PStr ''y'')]),
     (''allowed_diagnostics'', PDict [(''base-config'', PList []), (''config-mutation'', PList []), (''finalize-config'',
     PList []), (''object'', PList [])]), (''make'', PDict [(''binary'', PStr ''/usr/bin/make''), (''realpath'',
     PStr ''/usr/bin/make''), (''sha256'', PStr ''27c9f6d806aee15882b01c2c61848f7aa75caa14bc7b6f608ba422f9e46a7d49''),
     (''version_line'', PStr ''GNU Make 4.4.1'')]), (''compiler'', PDict [(''binary'', PStr ''/usr/bin/clang''), (''realpath'',
     PStr ''/usr/lib/llvm-21/bin/clang''), (''sha256'',
     PStr ''412bbe8c60571a1eb06f48fde89635033621caeb01a9b4ee76d46711bae8e932''), (''version_line'',
     PStr ''Ubuntu clang version 21.1.8 (6ubuntu1)''), (''target'', PStr ''loongarch64-unknown-linux-gnusf''), (''target_args'',
     PList [PStr ''--target=loongarch64-linux-gnusf''])]), (''objdump'', PDict [(''binary'', PStr ''/usr/bin/llvm-objdump''),
     (''realpath'', PStr ''/usr/lib/llvm-21/bin/llvm-objdump''), (''sha256'',
     PStr ''488163ed1ce6e9dcd82730dd1643e382ea811e835d41d4724b82bd34ccc0af8b''), (''version_line'',
     PStr ''Ubuntu LLVM version 21.1.8''), (''disassemble_symbol_option'', PStr ''--disassemble-symbols'')]),
     (''configured_compile'', PDict [(''target'', PStr ''ipc/util.o''), (''object'',
     PStr ''build/kernel/loongarch64-clang-ipc-refcount-c3/ipc/util.o''), (''command_file'',
     PStr ''build/kernel/loongarch64-clang-ipc-refcount-c3/ipc/.util.o.cmd''), (''object_sha256'',
     PStr ''dfaec38ff50e09786c0b50fcada8fe33c0d76e1b432bc4624eb79b018921d96a''), (''command_sha256'',
     PStr ''78914f10121d670ce676244c35be41ce82e76e4a7f58665da6393d8e88782db6''), (''elf_class'', PInt 2), (''elf_data'', PInt 1),
     (''elf_machine'', PInt 258), (''required_command_tokens'', PList [PStr ''/usr/bin/clang'', PStr ''-D__KERNEL__'',
     PStr ''--target=loongarch64-linux-gnusf'', PStr ''-fintegrated-as'', PStr ''-std=gnu11'', PStr ''-m64'',
     PStr ''-march=loongarch64'', PStr ''-mabi=lp64s'', PStr ''-msoft-float'', PStr ''-O2'', PStr ''ipc/util.o'',
     PStr ''ipc/util.c'']), (''functions'', PDict [(''ipc_rcu_getref'', PDict [(''section'', PStr ''.text''), (''value'',
     PStr ''0000000000000a40''), (''size'', PInt 144), (''disassembly_order'', PList [PStr ''<ipc_rcu_getref>:'',
     PStr (''ll.w'' @ [CHR 0x09] @ ''$a2, $a0, 0''), PStr (''bne'' @ [CHR 0x09] @ ''$a2, $a1''),
     PStr (''sc.w'' @ [CHR 0x09] @ ''$t0, $a0, 0''), PStr (''beqz'' @ [CHR 0x09] @ ''$t0, -16''),
     PStr (''dbar'' @ [CHR 0x09] @ ''1792''), PStr (''R_LARCH_B26'' @ [CHR 0x09] @ ''refcount_warn_saturate'')])]),
     (''ipc_rcu_putref'', PDict [(''section'', PStr ''.text''), (''value'', PStr ''0000000000000ae0''), (''size'', PInt 56),
     (''disassembly_order'', PList [PStr ''<ipc_rcu_putref>:'', PStr (''amadd_db.w'' @ [CHR 0x09] @ ''$a4, $a3, $a0''),
     PStr (''dbar'' @ [CHR 0x09] @ ''21''), PStr (''R_LARCH_B26'' @ [CHR 0x09] @ ''call_rcu''),
     PStr (''R_LARCH_B26'' @ [CHR 0x09] @ ''refcount_warn_saturate'')])])])])]"

definition declared_mips32el_clang :: pydict where
  "declared_mips32el_clang =
     [(''id'', PStr ''mips32el-clang-ipc-refcount-c3''), (''arch'', PStr ''mips''), (''subarch'', PNone), (''cross_compile'',
     PNone), (''make_assignments'', PList [PStr ''LLVM=1'', PStr ''LLVM_IAS=1'']), (''jobs'', PInt 8), (''build_directory'',
     PStr ''build/kernel/mips32el-clang-ipc-refcount-c3''), (''config'',
     PStr ''build/kernel/mips32el-clang-ipc-refcount-c3/.config''), (''config_sha256'',
     PStr ''a45ad683e9c792341dbd8ae53afbfcd0ac919bcbaa3f34e988ff0b04fc3f7278''), (''execution_scope'', PStr ''smp-multicpu''),
     (''configuration'', PDict [(''base_recipe'', PStr ''malta_defconfig''), (''mutations'', PList []), (''finalize_recipe'',
     PStr ''olddefconfig'')]), (''required_config'', PDict [(''CONFIG_MIPS'', PStr ''y''), (''CONFIG_32BIT'', PStr ''y''),
     (''CONFIG_64BIT'', PStr ''absent''), (''CONFIG_CPU_MIPS32_R2'', PStr ''y''), (''CONFIG_CPU_LITTLE_ENDIAN'', PStr ''y''),
     (''CONFIG_CPU_BIG_ENDIAN'', PStr ''n''), (''CONFIG_MIPS_MT_SMP'', PStr ''y''), (''CONFIG_SMP'', PStr ''y''),
     (''CONFIG_SYSVIPC'', PStr ''y''), (''CONFIG_TREE_RCU'', PStr ''y''), (''CONFIG_PREEMPT_RCU'', PStr ''absent''),
     (''CONFIG_RCU_EXPERT'', PStr ''n''), (''CONFIG_KCSAN'', PStr ''absent''), (''CONFIG_CPU_HAS_SYNC'', PStr ''y''),
     (''CONFIG_WEAK_ORDERING'', PStr ''absent''), (''CONFIG_WEAK_REORDERING_BEYOND_LLSC'', PStr ''absent''),
     (''CONFIG_LTO_NONE'', PStr ''y''), (''CONFIG_CC_IS_GCC'', PStr ''absent''), (''CONFIG_CC_IS_CLANG'', PStr ''y'')]),
     (''allowed_diagnostics'', PDict [(''base-config'', PList []), (''config-mutation'', PList []), (''finalize-config'',
     PList []), (''object'', PList [])]), (''make'', PDict [(''binary'', PStr ''/usr/bin/make''), (''realpath'',
     PStr ''/usr/bin/make''), (''sha256'', PStr ''27c9f6d806aee15882b01c2c61848f7aa75caa14bc7b6f608ba422f9e46a7d49''),
     (''version_line'', PStr ''GNU Make 4.4.1'')]), (''compiler'', PDict [(''binary'', PStr ''/usr/bin/clang''), (''realpath'',
     PStr ''/usr/lib/llvm-21/bin/clang''), (''sha256'',
     PStr ''412bbe8c60571a1eb06f48fde89635033621caeb01a9b4ee76d46711bae8e932''), (''version_line'',
     PStr ''Ubuntu clang version 21.1.8 (6ubuntu1)''), (''target'', PStr ''mipsel-unknown-linux-gnu''), (''target_args'',
     PList [PStr ''--target=mipsel-linux-gnu''])]), (''objdump'', PDict [(''binary'', PStr ''/usr/bin/llvm-objdump''),
     (''realpath'', PStr ''/usr/lib/llvm-21/bin/llvm-objdump''), (''sha256'',
     PStr ''488163ed1ce6e9dcd82730dd1643e382ea811e835d41d4724b82bd34ccc0af8b''), (''version_line'',
     PStr ''Ubuntu LLVM version 21.1.8''), (''disassemble_symbol_option'', PStr ''--disassemble-symbols'')]),
     (''configured_compile'', PDict [(''target'', PStr ''ipc/util.o''), (''object'',
     PStr ''build/kernel/mips32el-clang-ipc-refcount-c3/ipc/util.o''), (''command_file'',
     PStr ''build/kernel/mips32el-clang-ipc-refcount-c3/ipc/.util.o.cmd''), (''object_sha256'',
     PStr ''bfc8d8134c04b6b892deb8ccf4ccbf451d1435e3fbd13eb60878acbd09b77ff8''), (''command_sha256'',
     PStr ''3a50e9baf3ed7a327de55118b7992513a1b867c1e39601ef789303d6f828bc4e''), (''elf_class'', PInt 1), (''elf_data'', PInt 1),
     (''elf_machine'', PInt 8), (''required_command_tokens'', PList [PStr ''/usr/bin/clang'', PStr ''-D__KERNEL__'',
     PStr ''--target=mipsel-linux-gnu'', PStr ''-fintegrated-as'', PStr ''-std=gnu11'', PStr ''-mabi=32'', PStr ''-G 0'',
     PStr ''-mno-abicalls'', PStr ''-fno-pic'', PStr ''-msoft-float'', PStr ''-EL'', PStr ''-march=mips32r2'',
     PStr ''-Wa,--trap'', PStr ''-O2'', PStr ''ipc/util.o'', PStr ''ipc/util.c'']), (''functions'', PDict [(''ipc_rcu_getref'',
     PDict [(''section'', PStr ''.text''), (''value'', PStr ''00000a14''), (''size'', PInt 148), (''disassembly_order'',
     PList [PStr ''<ipc_rcu_getref>:'', PStr (''ll'' @ [CHR 0x09] @ ''$3, 0x0($4)''), PStr (''bne'' @ [CHR 0x09] @ ''$3, $16''),
     PStr (''sc'' @ [CHR 0x09] @ ''$1, 0x0($4)''), PStr (''beqz'' @ [CHR 0x09] @ ''$1, 0xa34''),
     PStr (''bnez'' @ [CHR 0x09] @ ''$2, 0xa2c''), PStr (''R_MIPS_26'' @ [CHR 0x09] @ ''refcount_warn_saturate'')])]),
     (''ipc_rcu_putref'', PDict [(''section'', PStr ''.text''), (''value'', PStr ''00000aa8''), (''size'', PInt 104),
     (''disassembly_order'', PList [PStr ''<ipc_rcu_putref>:'', PStr (''ll'' @ [CHR 0x09] @ ''$3, 0x38($4)''),
     PStr (''sc'' @ [CHR 0x09] @ ''$2, 0x38($4)''), PStr (''beqz'' @ [CHR 0x09] @ ''$2, 0xab0''),
     PStr (''bne'' @ [CHR 0x09] @ ''$2, $1''), PStr (''R_MIPS_26'' @ [CHR 0x09] @ ''call_rcu''),
     PStr (''blez'' @ [CHR 0x09] @ ''$2''), PStr (''R_MIPS_26'' @ [CHR 0x09] @ ''refcount_warn_saturate'')])])])])]"

definition declared_um_x86_64_smp :: pydict where
  "declared_um_x86_64_smp =
     [(''id'', PStr ''um-x86_64-smp-ipc-refcount-c3''), (''arch'', PStr ''um''), (''subarch'', PStr ''x86_64''),
     (''cross_compile'', PNone), (''make_assignments'', PList []), (''jobs'', PInt 8), (''build_directory'',
     PStr ''build/kernel/um-x86_64-smp-ipc-refcount-c3''), (''config'',
     PStr ''build/kernel/um-x86_64-smp-ipc-refcount-c3/.config''), (''config_sha256'',
     PStr ''d1152890f190eca30f4d27785da89871dd2d95c2378ed5b479114aa29e8ca2d1''), (''execution_scope'', PStr ''smp-multicpu''),
     (''configuration'', PDict [(''base_recipe'', PStr ''x86_64_defconfig''), (''mutations'', PList [PDict [(''symbol'',
     PStr ''SMP''), (''operation'', PStr ''enable'')]]), (''finalize_recipe'', PStr ''olddefconfig'')]), (''required_config'',
     PDict [(''CONFIG_UML'', PStr ''y''), (''CONFIG_UML_X86'', PStr ''y''), (''CONFIG_64BIT'', PStr ''y''), (''CONFIG_X86_64'',
     PStr ''y''), (''CONFIG_X86_32'', PStr ''absent''), (''CONFIG_SMP'', PStr ''y''), (''CONFIG_SYSVIPC'', PStr ''y''),
     (''CONFIG_TREE_RCU'', PStr ''y''), (''CONFIG_PREEMPT_RCU'', PStr ''absent''), (''CONFIG_RCU_EXPERT'', PStr ''n''),
     (''CONFIG_KCSAN'', PStr ''absent''), (''CONFIG_CC_IS_GCC'', PStr ''y'')]), (''allowed_diagnostics'',
     PDict [(''base-config'', PList []), (''config-mutation'', PList []), (''finalize-config'', PList []), (''object'',
     PList [])]), (''make'', PDict [(''binary'', PStr ''/usr/bin/make''), (''realpath'', PStr ''/usr/bin/make''), (''sha256'',
     PStr ''27c9f6d806aee15882b01c2c61848f7aa75caa14bc7b6f608ba422f9e46a7d49''), (''version_line'', PStr ''GNU Make 4.4.1'')]),
     (''compiler'', PDict [(''binary'', PStr ''/usr/bin/gcc''), (''realpath'', PStr ''/usr/bin/x86_64-linux-gnu-gcc-15''),
     (''sha256'', PStr ''b5f1b773a7c733738352000c92a077dc5852a1a2fc6d836b1e411be1e9ec5f88''), (''version_line'',
     PStr ''gcc (Ubuntu 15.2.0-16ubuntu1) 15.2.0''), (''target'', PStr ''x86_64-linux-gnu''), (''target_args'', PList [])]),
     (''objdump'', PDict [(''binary'', PStr ''/usr/bin/objdump''), (''realpath'', PStr ''/usr/bin/x86_64-linux-gnu-objdump''),
     (''sha256'', PStr ''44f07f8da860b15bd4dec909f229dec536595fb170a616fe3ab29c7b21c9736f''), (''version_line'',
     PStr ''GNU objdump (GNU Binutils for Ubuntu) 2.46''), (''disassemble_symbol_option'', PStr ''--disassemble'')]),
     (''configured_compile'', PDict [(''target'', PStr ''ipc/util.o''), (''object'',
     PStr ''build/kernel/um-x86_64-smp-ipc-refcount-c3/ipc/util.o''), (''command_file'',
     PStr ''build/kernel/um-x86_64-smp-ipc-refcount-c3/ipc/.util.o.cmd''), (''object_sha256'',
     PStr ''fdecff20215771537646f5604c476691260b94d44d70020ff350220de2a34c31''), (''command_sha256'',
     PStr ''90e03feee0b964a380c5c22c4ef8aeb4cd7254c8bdd98916d91f89790c6cd081''), (''elf_class'', PInt 2), (''elf_data'', PInt 1),
     (''elf_machine'', PInt 62), (''required_command_tokens'', PList [PStr ''/usr/bin/gcc'', PStr ''-D__KERNEL__'',
     PStr ''-std=gnu11'', PStr ''-m64'', PStr ''-mcmodel=large'', PStr ''-D__arch_um__'', PStr ''-Os'',
     PStr ''-fno-allow-store-data-races'', PStr ''ipc/util.o'', PStr ''ipc/util.c'']), (''functions'',
     PDict [(''ipc_rcu_getref'', PDict [(''section'', PStr ''.text''), (''value'', PStr ''00000000000009b5''), (''size'',
     PInt 68), (''disassembly_order'', PList [PStr ''<ipc_rcu_getref>:'', PStr ''test   %ebx,%ebx'', PStr ''lock cmpxchg'',
     PStr ''jne    9ec <ipc_rcu_getref+0x37>'', PStr (''R_X86_64_64'' @ [CHR 0x09] @ ''refcount_warn_saturate''),
     PStr ''mov    %eax,%ebx'', PStr ''jmp    9c9 <ipc_rcu_getref+0x14>''])]), (''ipc_rcu_putref'', PDict [(''section'',
     PStr ''.text''), (''value'', PStr ''00000000000009f9''), (''size'', PInt 71), (''disassembly_order'',
     PList [PStr ''<ipc_rcu_putref>:'', PStr ''lock xadd'', PStr ''cmp    $0x1,%eax'', PStr ''lfence'',
     PStr (''R_X86_64_64'' @ [CHR 0x09] @ ''call_rcu''),
     PStr (''R_X86_64_64'' @ [CHR 0x09] @ ''refcount_warn_saturate'')])])])])]"

definition declared_kernel :: pydict where
  "declared_kernel =
     [(''revision'', PStr ''b9b3e33b70b71e516930117e21de3ad2a7723747''), (''git_tree'',
     PStr ''054b6818c409ab20ae89b1031a1a7c358f673d87''), (''source_root'', PStr ''build/sources/linux-b9b3e33b70b71''),
     (''source_receipt'', PStr ''build/sources/linux-b9b3e33b70b71/.fragma-source.json''), (''source_identities'',
     PDict [(''build/sources/linux-b9b3e33b70b71/.fragma-source.json'',
     PStr ''93cffd1d937e730bf3010bfc904db8ce5c8ebc8df6e8d610032dda667c2950bd''),
     (''build/sources/linux-b9b3e33b70b71/ipc/util.c'',
     PStr ''5f4e4b0eb08ce302dae805703340052eb8406d5c1b0cf7856a24eb8909ad3a5e''),
     (''build/sources/linux-b9b3e33b70b71/ipc/util.h'',
     PStr ''660560ebc799c8b47b15fc6fbdf2471652bb8e80031320438571f91fcc8804cd''),
     (''build/sources/linux-b9b3e33b70b71/ipc/Makefile'',
     PStr ''90addad9f42eafc5f475a54631006c7317ebe60c6546ce1278a594674e2d4612''),
     (''build/sources/linux-b9b3e33b70b71/init/Kconfig'',
     PStr ''a43f09d89309a6bd7036c96e0836c30c021f2d56b042be288a15533dd9e944bd''),
     (''build/sources/linux-b9b3e33b70b71/include/linux/refcount.h'',
     PStr ''fcfc732fc56a2e05da4d9b23d86904687860ecdac2e249ee95621db93b77d6fc''),
     (''build/sources/linux-b9b3e33b70b71/include/linux/refcount_types.h'',
     PStr ''1cd15b66e38dc4408329d4bd61ec605222a5c440dde64a0af7e73dcfc1a2472f''),
     (''build/sources/linux-b9b3e33b70b71/Documentation/core-api/refcount-vs-atomic.rst'',
     PStr ''74ee85eb1b442f9f7a864d660545180225dd60a09ce8462f4a7166d9382ebd22''),
     (''build/sources/linux-b9b3e33b70b71/include/linux/atomic/atomic-instrumented.h'',
     PStr ''6fd766b72f7a633593d83e559998112ce49355273a55f79c0a6187d688b48f22''),
     (''build/sources/linux-b9b3e33b70b71/include/linux/atomic/atomic-arch-fallback.h'',
     PStr ''df526d6b93b043fb2a25296d82b0c4e4187ef8ddeb4d6789897989f7ad7ed6d0''),
     (''build/sources/linux-b9b3e33b70b71/arch/x86/include/asm/atomic.h'',
     PStr ''1ba1e1ef1403c9be2f00494c1ba22cff87044d442ef90a5da18a863877e88b18''),
     (''build/sources/linux-b9b3e33b70b71/arch/x86/include/asm/cmpxchg.h'',
     PStr ''70dc12e5c2f1bf7b3ff0fcc4f7bf908a9d2a79786ef86d8b3ba71c3e04d3ec9c''),
     (''build/sources/linux-b9b3e33b70b71/arch/arm64/include/asm/atomic.h'',
     PStr ''88bbe47c1a12633922aa30762c3beb46175520ae0d36bbd0bf0877dd82268904''),
     (''build/sources/linux-b9b3e33b70b71/arch/arm64/include/asm/atomic_ll_sc.h'',
     PStr ''12c0b4606f2247319ac82ef25c5127225fd4f80079591e33962882d1d33c59e8''),
     (''build/sources/linux-b9b3e33b70b71/arch/arm64/include/asm/atomic_lse.h'',
     PStr ''a31e91facc36f8cadf7e0bbcbd2a8302d9e75a5d2536602aa3e8b461cde1b1e1''),
     (''build/sources/linux-b9b3e33b70b71/arch/arm64/include/asm/cmpxchg.h'',
     PStr ''d8ee30b9da0ddf4339f8b9f22d33945e2af36e4e28da4c9df0442267b88a45c4''),
     (''build/sources/linux-b9b3e33b70b71/arch/arm64/include/asm/lse.h'',
     PStr ''13a2a66a622ebcd4406bffad86c0f3df9e6dad488b91ec6501edcb490d31c6db''),
     (''build/sources/linux-b9b3e33b70b71/arch/riscv/include/asm/atomic.h'',
     PStr ''1dd07f26feaa310edbec0fa719de81b16742528484a6c6256fcbcb7c318c0206''),
     (''build/sources/linux-b9b3e33b70b71/arch/riscv/include/asm/cmpxchg.h'',
     PStr ''e531073ca1500c8a761f833c79f55a2ceb6e87521b3218885c5255552e4da45d''),
     (''build/sources/linux-b9b3e33b70b71/arch/riscv/include/asm/barrier.h'',
     PStr ''93e01e1043ce6a4d5bfa5396fd566319316b2ba846aa28ac85c5dafae7552753''),
     (''build/sources/linux-b9b3e33b70b71/arch/s390/include/asm/atomic.h'',
     PStr ''30cf3e533e063f68d138893580698845033d172f46c42d26a9b4b6c584d2383b''),
     (''build/sources/linux-b9b3e33b70b71/arch/s390/include/asm/atomic_ops.h'',
     PStr ''60253e41689c785bd151b53ab1f7c1a2f82213af23392a985e0d361e8fb4e1d7''),
     (''build/sources/linux-b9b3e33b70b71/arch/s390/include/asm/cmpxchg.h'',
     PStr ''2ba71db92fff82e39830c36a7068921f0029bdd9b2db907eb39d94ac01f9f4da''),
     (''build/sources/linux-b9b3e33b70b71/arch/s390/include/asm/barrier.h'',
     PStr ''fc147b7409686eb35f3c5e018badceadf74b63bbd173be8efff52ba2706dd733''),
     (''build/sources/linux-b9b3e33b70b71/arch/arm/include/asm/atomic.h'',
     PStr ''8191608ff79d06b5e09936d0eeac489d2b2dd1d6b407991f5ce43e1f459eff32''),
     (''build/sources/linux-b9b3e33b70b71/arch/arm/include/asm/cmpxchg.h'',
     PStr ''0ddc11af75f4d242d33f4da6469f76bb1c033c5a0ea39d66f4090ccb99789e03''),
     (''build/sources/linux-b9b3e33b70b71/arch/arm/include/asm/barrier.h'',
     PStr ''81af4951183749c6918dee9f6dbb5b2493e6eb2e5122ba8d9f2a0f9ab8692a55''),
     (''build/sources/linux-b9b3e33b70b71/arch/powerpc/include/asm/atomic.h'',
     PStr ''c725e0ef6590cf0598ed7255d8ccbacc72a1ec94cf639f74777104ae2c89185f''),
     (''build/sources/linux-b9b3e33b70b71/arch/powerpc/include/asm/cmpxchg.h'',
     PStr ''03edecfa8aa92d80708e26608803f719d2ad2cce2bc0dd37ac2e9dff8b2235a8''),
     (''build/sources/linux-b9b3e33b70b71/arch/powerpc/include/asm/barrier.h'',
     PStr ''8bb93932f2d9a52b67f276eca573b203b7803ee9cee2230b53af299cb85d5bec''),
     (''build/sources/linux-b9b3e33b70b71/arch/sh/include/asm/atomic.h'',
     PStr ''c3925b56718fcc0fd63398e5c106fddf18e718e25161105efa2158dc49460884''),
     (''build/sources/linux-b9b3e33b70b71/arch/sh/include/asm/atomic-llsc.h'',
     PStr ''393ffefd4a87e9c10a3090608d308d5d93524e4186e84bc5d9e879bacdb7f085''),
     (''build/sources/linux-b9b3e33b70b71/arch/sh/include/asm/cmpxchg.h'',
     PStr ''bb0f53e58d12918ecf90d50db9d72dd71c95725e55b59de6f627404ba8cf4633''),
     (''build/sources/linux-b9b3e33b70b71/arch/sh/include/asm/cmpxchg-llsc.h'',
     PStr ''0012886f91acac1840e83d60ee6fc136031fd094f1da9d979b9fe3b627efb240''),
     (''build/sources/linux-b9b3e33b70b71/arch/sh/include/asm/barrier.h'',
     PStr ''b23d724a473e091db004993c6a03a8313c8c3cc642f5555742e9f5fcb92bf073''),
     (''build/sources/linux-b9b3e33b70b71/arch/alpha/include/asm/atomic.h'',
     PStr ''fb2eab784adb702a92f31a05d4b7d9df3c8ada4035f1590b70631398ea90e688''),
     (''build/sources/linux-b9b3e33b70b71/arch/alpha/include/asm/cmpxchg.h'',
     PStr ''adf371620fb04a0a14ca1770f94f52d3fc851fb718ae8d86c2f8f889662c497e''),
     (''build/sources/linux-b9b3e33b70b71/arch/alpha/include/asm/barrier.h'',
     PStr ''3b1866060325fa59945a1e9872f0f0f41d816d4a05650c4a74226d79be5cacff''),
     (''build/sources/linux-b9b3e33b70b71/arch/alpha/Kconfig'',
     PStr ''6fba21503c4e3b90ad7c70cb0981ec9d4203547808b4f68e53f6cef06afd8062''),
     (''build/sources/linux-b9b3e33b70b71/arch/loongarch/include/asm/atomic.h'',
     PStr ''64c939b06902294e2cc8a5a66533590a84be9c6eb404f0c37c7f88b07804b5eb''),
     (''build/sources/linux-b9b3e33b70b71/arch/loongarch/include/asm/atomic-amo.h'',
     PStr ''bf4fe64a8f4b181622c5ec054137dbfc84147825597a68d62d3baf69a4b272dc''),
     (''build/sources/linux-b9b3e33b70b71/arch/loongarch/include/asm/cmpxchg.h'',
     PStr ''d4379ee53c45ad865983f292e4b9ba3fc8a6a556a0ef8d2fb3eb098eabe2bdf6''),
     (''build/sources/linux-b9b3e33b70b71/arch/loongarch/include/asm/barrier.h'',
     PStr ''8a509de398ed8e085ed1156e1b6094eccaa62c7ccd5d73f2e385e9a9d4c2d020''),
     (''build/sources/linux-b9b3e33b70b71/arch/loongarch/Kconfig'',
     PStr ''12640e68c3c0628c08d9c5549a2eea27dd9fab09323e4ce43c9e3952420837ad''),
     (''build/sources/linux-b9b3e33b70b71/arch/mips/include/asm/atomic.h'',
     PStr ''5190d2be6bf3e50e7eb09622bf9ec7fe54171e5281f6ea5f5b9d2810b6ccf86c''),
     (''build/sources/linux-b9b3e33b70b71/arch/mips/include/asm/cmpxchg.h'',
     PStr ''551b52fb9216d64f2a8481db42b07e48dd78948759677856441315ffaded0449''),
     (''build/sources/linux-b9b3e33b70b71/arch/mips/include/asm/barrier.h'',
     PStr ''ddcffb0bcb9e1bfd6f7988e069a7509c1c991fecc53e5985ec8c12c0f09e955d''),
     (''build/sources/linux-b9b3e33b70b71/arch/mips/include/asm/cpu-features.h'',
     PStr ''9b214f4026aff73b4bb0d41d2296d86cb65a2d788f1183b75cebab6520086975''),
     (''build/sources/linux-b9b3e33b70b71/arch/mips/include/asm/asm.h'',
     PStr ''da92ec2427ae03a6085c7a87249471009f268d72d2ca556ecfad960fe13eb673''),
     (''build/sources/linux-b9b3e33b70b71/arch/mips/Kconfig'',
     PStr ''3475d8e5b5a0914d9a1042031f3a377ad7d5d312b0e42787e1b8920636992c9d''),
     (''build/sources/linux-b9b3e33b70b71/scripts/Makefile.clang'',
     PStr ''c385b73ad4c36348bf4a7cd8ddc0f6afb88e4804579f8d5f3f18de0f1fa2c8d7''),
     (''build/sources/linux-b9b3e33b70b71/arch/um/Kconfig'',
     PStr ''82c63a238de3a3013fac9a846d1ee55f0cb71f6b7d39ca5a460aa6084dd245b1''),
     (''build/sources/linux-b9b3e33b70b71/arch/um/Makefile'',
     PStr ''0b723adb41e48d9b3033f5a65d3977af8b9efe751f0eaa9ec56c9e94602cc225''),
     (''build/sources/linux-b9b3e33b70b71/arch/x86/um/Kconfig'',
     PStr ''05fadf8c8be149e1872c77c6203c55d5bf220831790f7bb70e1674a090705eca''),
     (''build/sources/linux-b9b3e33b70b71/arch/x86/um/asm/barrier.h'',
     PStr ''d56a04b84c055b08677b3c5890d7d07681024d058df40d59bd79b688ddb31af8''),
     (''build/sources/linux-b9b3e33b70b71/scripts/config'',
     PStr ''a05f1a7669fd88820761bbeb1c3f321cc4c48e65624f9ae39572f58c264f1e85''),
     (''build/sources/linux-b9b3e33b70b71/include/asm-generic/barrier.h'',
     PStr ''72ccf9fddb2f4f34161641eb4af082b6d01a2b256ad0bf80770858aecbdcf410''),
     (''build/sources/linux-b9b3e33b70b71/tools/memory-model/linux-kernel.def'',
     PStr ''a04911d85fd86f5dbcf8ed436c7a2570fcc615f768c0c19b0a101f6212d2504c''),
     (''build/sources/linux-b9b3e33b70b71/tools/memory-model/linux-kernel.cat'',
     PStr ''250207709250d308e0a0a6f391c4eda0bbf4876cbc55eccbfbcd495676a179be'')])]"

definition declared_baseline :: pydict where
  "declared_baseline =
     [(''manifest'', PStr ''config/concurrency-c3-lkmm.json''), (''id'', PStr ''linux-lkmm-herd7-c3-calibration''),
     (''required_capability'', PStr ''c3_capability_baseline_complete'')]"

definition declared_property :: pydict where
  "declared_property =
     [(''kind'', PStr ''kernel_refcount_final_put_vs_get_unless_zero''), (''claim'',
     PStr ''For a locking-stabilized System V IPC''), (''source_file'', PStr ''build/sources/linux-b9b3e33b70b71/ipc/util.c''),
     (''contract_file'', PStr ''build/sources/linux-b9b3e33b70b71/ipc/util.h''), (''refcount_file'',
     PStr ''build/sources/linux-b9b3e33b70b71/include/linux/refcount.h''), (''get_function'', PStr ''ipc_rcu_getref''),
     (''put_function'', PStr ''ipc_rcu_putref''), (''get_source'', PStr ''return refcount_inc_not_zero(&ptr->refcount);''),
     (''put_test_source'', PStr ''if (!refcount_dec_and_test(&ptr->refcount))''), (''put_destroy_source'',
     PStr ''call_rcu(&ptr->rcu, func);''), (''initial_refcount'', PInt 1), (''stability_argument'',
     PStr ''The pinned IPC contract requires caller''), (''lifetime_argument'', PStr ''The final decrement schedules RCU''),
     (''model_argument'', PStr ''With initial value one and exactly one''), (''implementation_argument'',
     PStr ''The pinned LKMM treats the selected''), (''exclusions'',
     PList [PStr ''No architecture implementation other than the eleven configured SMP x86-64, arm64, riscv64, s390x, ARM32, PowerPC32, SuperH, Alpha, LoongArch64, MIPS32 little-endian and UML x86-64 profiles is accepted by this source-linked pilot; every other architecture remains outside the claim.'',
     PStr ''caller-locking; third refcount update; rcu grace; saturation'',
     PStr ''control-dependency; detecting control; progress; whole-kernel''])]"

definition declared_progress :: pydict where
  "declared_progress =
     [(''kind'', PStr ''bounded_quiescent_retry_progress''), (''claim'', PStr ''For the selected native x86-64, s390x''),
     (''backend'', PStr ''project-owned-exhaustive-finite-state-enumerator''), (''source_function'',
     PStr ''__refcount_add_not_zero''), (''selected_caller'', PStr ''ipc_rcu_getref''), (''implementation_profiles'',
     PList [PStr ''x86_64-ipc-refcount-c3'', PStr ''s390x-ipc-refcount-c3'', PStr ''um-x86_64-smp-ipc-refcount-c3'']),
     (''domain'', PDict [(''initial_values'', PList [PInt 0, PInt 1, PInt 2, PInt 3]), (''interference_values'', PList [PInt 0,
     PInt 1, PInt 2, PInt 3]), (''max_interference_observations'', PInt 3), (''increment'', PInt 1), (''max_cas_attempts'',
     PInt 4)]), (''semantics'', PDict [(''loop_head_zero'', PStr ''return false before''), (''strong_cas_match'',
     PStr ''atomically write expected plus''), (''strong_cas_mismatch'', PStr ''leave the counter unchanged, update''),
     (''quiescence'', PStr ''after the finite interference schedule'')]), (''assumptions'',
     PList [PStr ''caller-locking; storage valid; scheduled; strong; non-spurious; updates old'',
     PStr ''three; saturation; x86 cmpxchg; s390 cs; comparison operand; hardware failure'']), (''exclusions'',
     PList [PStr ''unbounded interference; wait-free; spurious; ll/sc'', PStr ''saturation; scheduler fairness; whole-kernel'']),
     (''cases'', PList [PDict [(''id'', PStr ''bounded_quiescent_strong_cas''), (''role'', PStr ''verification_candidate''),
     (''variant'', PStr ''update_expected_on_mismatch''), (''verification_candidate'', PBool True), (''control_for'', PNone),
     (''expected'', PDict [(''total_schedules'', PInt 340), (''successful'', PInt 150), (''zero_exit'', PInt 190),
     (''nonterminating'', PInt 0), (''max_cas_attempts'', PInt 4), (''max_failures'', PInt 3)])], PDict [(''id'',
     PStr ''stale_expected_negative''), (''role'', PStr ''required_stale_expected_control''), (''variant'',
     PStr ''retain_stale_expected_on_mismatch''), (''verification_candidate'', PBool False), (''control_for'',
     PStr ''bounded_quiescent_strong_cas''), (''expected'', PDict [(''total_schedules'', PInt 340), (''successful'', PInt 138),
     (''zero_exit'', PInt 85), (''nonterminating'', PInt 117), (''max_cas_attempts'', PInt 4), (''max_failures'', PInt 4)])],
     PDict [(''id'', PStr ''spurious_failure_negative''), (''role'', PStr ''required_spurious_failure_control''), (''variant'',
     PStr ''permit_spurious_failure_after_quiescence''), (''verification_candidate'', PBool False), (''control_for'',
     PStr ''bounded_quiescent_strong_cas''), (''expected'', PDict [(''cycle_found'', PBool True), (''cycle_length'', PInt 1),
     (''state'', PDict [(''refs'', PInt 1), (''expected'', PInt 1)])])], PDict [(''id'',
     PStr ''unbounded_interference_negative''), (''role'', PStr ''required_unbounded_interference_control''), (''variant'',
     PStr ''alternate_counter_forever''), (''verification_candidate'', PBool False), (''control_for'',
     PStr ''bounded_quiescent_strong_cas''), (''expected'', PDict [(''cycle_found'', PBool True), (''cycle_length'', PInt 2),
     (''states'', PList [PDict [(''refs'', PInt 1), (''expected'', PInt 1)], PDict [(''refs'', PInt 2), (''expected'', PInt 2)],
     PDict [(''refs'', PInt 1), (''expected'', PInt 1)]]), (''interference'', PList [PInt 2, PInt 1])])]])]"

definition declared_model :: pydict where
  "declared_model =
     [(''condition'', PStr (''exists (0:released=1 /'' @ [CHR 0x5C] @ '' 1:acquired=1)'')), (''abstraction'',
     PDict [(''refcount'', PStr ''ptr->refcount is represented by refs''), (''put'',
     PStr (''ipc_rcu_putref'' @ [CHR 0x27] @ ''s successful'')), (''get'',
     PStr (''ipc_rcu_getref'' @ [CHR 0x27] @ ''s successful bounded'')), (''control'', PStr ''The unsafe control replaces the''),
     (''omitted'', PStr ''The IPC payload, locks, RCU callback'')]), (''pair'', PDict [(''id'',
     PStr ''ipc_refcount_no_final_put_get_overlap''), (''positive'', PStr ''refcount_put_get_positive''), (''negative'',
     PStr ''unconditional_resurrection_negative''), (''expected_transition'', PStr ''Sometimes->Never'')]), (''cases'',
     PList [PDict [(''id'', PStr ''refcount_put_get_positive''), (''path'', PStr ''concurrency/c3/refcount_put_get.litmus''),
     (''sha256'', PStr ''df60c96b3365df18c8af00938dd6f2dda2cb67fa136aaba0b2d17e774f1fe5d8''), (''role'',
     PStr ''verification_candidate''), (''verification_candidate'', PBool True), (''control_for'', PNone),
     (''required_operations'', PList [PStr ''atomic_fetch_sub_release'', PStr ''atomic_cmpxchg_relaxed'']),
     (''forbidden_operations'', PList [PStr ''atomic_fetch_inc_relaxed'']), (''expected'', PDict [(''test'',
     PStr ''Fragma-refcount-put-get''), (''disposition'', PStr ''Allowed''), (''states'', PInt 2), (''marker'', PStr ''No''),
     (''positive'', PInt 0), (''negative'', PInt 2), (''flags'', PList []), (''condition'',
     PStr (''exists (0:released=1 /'' @ [CHR 0x5C] @ '' 1:acquired=1)'')), (''observation'', PStr ''Never''), (''hash'',
     PStr ''e315d2aff7685cce1c97f736d48946c0'')])], PDict [(''id'', PStr ''unconditional_resurrection_negative''), (''path'',
     PStr ''concurrency/c3/refcount_resurrection.litmus''), (''sha256'',
     PStr ''ca3d5dd2b924df2d4a0bff14351c7de6ab59817a09206b9356ab456c6d45bc33''), (''role'', PStr ''required_unsafe_control''),
     (''verification_candidate'', PBool False), (''control_for'', PStr ''refcount_put_get_positive''), (''required_operations'',
     PList [PStr ''atomic_fetch_sub_release'', PStr ''atomic_fetch_inc_relaxed'']), (''forbidden_operations'',
     PList [PStr ''atomic_cmpxchg_relaxed'']), (''expected'', PDict [(''test'', PStr ''Fragma-refcount-resurrection''),
     (''disposition'', PStr ''Allowed''), (''states'', PInt 2), (''marker'', PStr ''Ok''), (''positive'', PInt 1), (''negative'',
     PInt 1), (''flags'', PList []), (''condition'', PStr (''exists (0:released=1 /'' @ [CHR 0x5C] @ '' 1:acquired=1)'')),
     (''observation'', PStr ''Sometimes''), (''hash'', PStr ''ff8861bc39ed551fc8e17a2363b6da9c'')])]])]"

definition declared_manifest :: pydict where
  "declared_manifest =
     [(''schema_version'', PInt 6), (''id'', PStr ''linux-ipc-refcount-lifetime-multiarch-c3''), (''kernel'',
     PDict declared_kernel), (''baseline'', PDict declared_baseline), (''profiles'', PList [PDict declared_x86_64,
     PDict declared_arm64, PDict declared_riscv64, PDict declared_s390x, PDict declared_arm32, PDict declared_powerpc32_smp,
     PDict declared_sh_smp, PDict declared_alpha_smp, PDict declared_loongarch64_clang, PDict declared_mips32el_clang,
     PDict declared_um_x86_64_smp]), (''property'', PDict declared_property), (''progress'', PDict declared_progress),
     (''model'', PDict declared_model)]"

definition declared_host :: host where
  "declared_host = \<lparr>contents = (\<lambda>p. Some []), is_symlink = (\<lambda>p. False), is_dir = (\<lambda>p. True), resolve = (\<lambda>p. p),
     sha256_hex = (\<lambda>s. []), float_text = (\<lambda>f. [])\<rparr>"

lemma accepted_x86_64: "validate_profile declared_host ''/repo'' (PDict declared_x86_64) ''x86_64-ipc-refcount-c3'' = Inr ()"
  by code_simp

lemma accepted_arm64: "validate_profile declared_host ''/repo'' (PDict declared_arm64) ''arm64-ipc-refcount-c3'' = Inr ()"
  by code_simp

lemma accepted_riscv64: "validate_profile declared_host ''/repo'' (PDict declared_riscv64) ''riscv64-ipc-refcount-c3'' = Inr ()"
  by code_simp

lemma accepted_s390x: "validate_profile declared_host ''/repo'' (PDict declared_s390x) ''s390x-ipc-refcount-c3'' = Inr ()"
  by code_simp

lemma accepted_arm32: "validate_profile declared_host ''/repo'' (PDict declared_arm32) ''arm32-ipc-refcount-c3'' = Inr ()"
  by code_simp

lemma accepted_powerpc32_smp: "validate_profile declared_host ''/repo'' (PDict declared_powerpc32_smp) ''powerpc32-smp-ipc-refcount-c3'' = Inr ()"
  by code_simp

lemma accepted_sh_smp: "validate_profile declared_host ''/repo'' (PDict declared_sh_smp) ''sh-smp-ipc-refcount-c3'' = Inr ()"
  by code_simp

lemma accepted_alpha_smp: "validate_profile declared_host ''/repo'' (PDict declared_alpha_smp) ''alpha-smp-ipc-refcount-c3'' = Inr ()"
  by code_simp

lemma accepted_loongarch64_clang: "validate_profile declared_host ''/repo'' (PDict declared_loongarch64_clang) ''loongarch64-clang-ipc-refcount-c3'' = Inr ()"
  by code_simp

lemma accepted_mips32el_clang: "validate_profile declared_host ''/repo'' (PDict declared_mips32el_clang) ''mips32el-clang-ipc-refcount-c3'' = Inr ()"
  by code_simp

lemma accepted_um_x86_64_smp: "validate_profile declared_host ''/repo'' (PDict declared_um_x86_64_smp) ''um-x86_64-smp-ipc-refcount-c3'' = Inr ()"
  by code_simp

lemma accepted_kernel: "validate_kernel declared_host ''/repo'' (PDict declared_kernel) = Inr ()"
  by code_simp

lemma accepted_baseline: "validate_baseline declared_host ''/repo'' (PDict declared_baseline) = Inr ()"
  by code_simp

lemma accepted_property: "validate_property declared_host ''/repo'' (PDict declared_property) = Inr ()"
  by code_simp

lemma accepted_model: "validate_model declared_host ''/repo'' (PDict declared_model) = Inr ()"
  by code_simp

lemma accepted_progress: "validate_progress (PDict declared_progress) = Inr ()"
  by code_simp

lemmas accepted_sections = accepted_kernel accepted_baseline accepted_property accepted_progress accepted_model
lemmas accepted_profiles = accepted_x86_64 accepted_arm64 accepted_riscv64 accepted_s390x accepted_arm32
  accepted_powerpc32_smp accepted_sh_smp accepted_alpha_smp accepted_loongarch64_clang accepted_mips32el_clang
  accepted_um_x86_64_smp

lemma declared_ids:
  "case_id (PDict declared_x86_64) = PStr ''x86_64-ipc-refcount-c3''"
  "case_id (PDict declared_arm64) = PStr ''arm64-ipc-refcount-c3''"
  "case_id (PDict declared_riscv64) = PStr ''riscv64-ipc-refcount-c3''"
  "case_id (PDict declared_s390x) = PStr ''s390x-ipc-refcount-c3''"
  "case_id (PDict declared_arm32) = PStr ''arm32-ipc-refcount-c3''"
  "case_id (PDict declared_powerpc32_smp) = PStr ''powerpc32-smp-ipc-refcount-c3''"
  "case_id (PDict declared_sh_smp) = PStr ''sh-smp-ipc-refcount-c3''"
  "case_id (PDict declared_alpha_smp) = PStr ''alpha-smp-ipc-refcount-c3''"
  "case_id (PDict declared_loongarch64_clang) = PStr ''loongarch64-clang-ipc-refcount-c3''"
  "case_id (PDict declared_mips32el_clang) = PStr ''mips32el-clang-ipc-refcount-c3''"
  "case_id (PDict declared_um_x86_64_smp) = PStr ''um-x86_64-smp-ipc-refcount-c3''"
  by (simp_all add: case_id_def declared_x86_64_def declared_arm64_def declared_riscv64_def declared_s390x_def
    declared_arm32_def declared_powerpc32_smp_def declared_sh_smp_def declared_alpha_smp_def
    declared_loongarch64_clang_def declared_mips32el_clang_def declared_um_x86_64_smp_def)

lemma PROFILE_IDS_list: "PROFILE_IDS = [''x86_64-ipc-refcount-c3'', ''arm64-ipc-refcount-c3'', ''riscv64-ipc-refcount-c3'',
    ''s390x-ipc-refcount-c3'', ''arm32-ipc-refcount-c3'', ''powerpc32-smp-ipc-refcount-c3'', ''sh-smp-ipc-refcount-c3'',
    ''alpha-smp-ipc-refcount-c3'', ''loongarch64-clang-ipc-refcount-c3'', ''mips32el-clang-ipc-refcount-c3'',
    ''um-x86_64-smp-ipc-refcount-c3'']"
  by (simp add: PROFILE_IDS_def PROFILE_SPECS_def)

lemma declared_accepted: "load_ipc_manifest declared_host ''/repo'' (PDict declared_manifest) = Inr declared_manifest"
  by (simp add: load_ipc_manifest_def exact_dict_def exact_keys_def keys_def declared_manifest_def accepted_sections
    PROFILE_IDS_list declared_ids accepted_profiles insert_commute)

theorem ipc_manifest_roles_witness:
  "\<exists>model cases pos neg. dget declared_manifest ''model'' = PDict model \<and> dget model ''cases'' = PList cases
    \<and> length cases = 2 \<and> set cases = {PDict pos, PDict neg}
    \<and> dget pos ''verification_candidate'' = PBool True \<and> dget neg ''verification_candidate'' = PBool False
    \<and> sub pos ''expected'' ''observation'' = PStr ''Never'' \<and> py_eq (sub pos ''expected'' ''positive'') (PInt 0)
    \<and> sub neg ''expected'' ''observation'' = PStr ''Sometimes'' \<and> dget neg ''control_for'' = dget pos ''id''
    \<and> sub pos ''expected'' ''condition'' = PStr MODEL_CONDITION \<and> sub neg ''expected'' ''condition'' = PStr MODEL_CONDITION"
  by (rule ipc_manifest_roles [OF declared_accepted])

theorem mapping_checks_typed_witness:
  "\<exists>rows. mapping_checks declared_manifest (map (\<lambda>i. (i, PBool True)) IMPLEMENTATION_PROFILES) = Inr rows \<and> length rows = 6"
  by (rule mapping_checks_typed [OF declared_accepted]) (simp add: IMPLEMENTATION_PROFILES_def, blast)

end
