(* ===== verification/Ipc_Run.thy ===== *)
theory Ipc_Run
  imports Ipc_Declared
begin

text \<open>
  \<^verbatim>\<open>_run_progress_model\<close> of \<^verbatim>\<open>fragma/concurrency_c3_ipc_refcount.py\<close> as a whole: the four cases, the source texts
  that bind the model to the kernel, the mapping checks of the implementation profiles and the checks of the
  enumeration, in that order, and what the result counts as verified. The four source texts are arguments.
\<close>

section \<open>The bound source texts\<close>

text \<open>\<^verbatim>\<open>text.count(p)\<close> of a nonempty string: occurrences that do not overlap, \<open>k\<close> characters of one still to pass.\<close>

fun count_sub :: "string \<Rightarrow> nat \<Rightarrow> string \<Rightarrow> nat" where
  "count_sub p k [] = 0"
| "count_sub p (Suc k) (c # s) = count_sub p k s"
| "count_sub p 0 (c # s) = (if starts_with p (c # s) then Suc (count_sub p (length p - 1) s) else count_sub p 0 s)"

record progress_sources =
  ps_add_not_zero :: string
  ps_fallback :: string
  ps_x86 :: string
  ps_s390 :: string

definition quoted :: "string \<Rightarrow> string" where
  "quoted s = [CHR 0x22] @ s @ [CHR 0x22]"

definition S390_CS :: string where
  "S390_CS = quoted ([CHR 0x09] @ ''cs'' @ [CHR 0x09] @ ''%[__old],%[__new],%[__ptr]'')"

definition source_checks :: "progress_sources \<Rightarrow> check_row list" where
  "source_checks src =
     [check_that ''progress loop starts from one atomic read'' (PInt 1)
        (PInt (int (count_sub ''int old = refcount_read(r);'' 0 (ps_add_not_zero src)))),
      check_that ''progress loop exits on observed zero before CAS'' (PBool True)
        (PBool (ordered (ps_add_not_zero src) [''if (!old)'', ''break;'', ''atomic_try_cmpxchg_relaxed''])),
      check_that ''progress loop passes expected by address'' (PInt 1)
        (PInt (int (count_sub ''atomic_try_cmpxchg_relaxed(&r->refs, &old, old + i)'' 0 (ps_add_not_zero src)))),
      check_that ''strong CAS contract updates expected on mismatch'' (PBool True)
        (PBool (ordered (ps_fallback src) [''If (@v == @old), atomically updates @v to @new'',
          ''Otherwise, @v is not modified, @old is updated to the current value'',
          ''Return: @true if the exchange occurred, @false otherwise.''])),
      check_that ''generic strong CAS fallback writes current expected'' (PBool True)
        (PBool (ordered (ps_fallback src) [''r = raw_atomic_cmpxchg_relaxed(v, o, new);'', ''if (unlikely(r != o))'',
          ''*old = r;'', ''return likely(r == o);''])),
      check_that ''x86 strong CAS writes instruction result on failure'' (PBool True)
        (PBool (ordered (ps_x86 src) [''#define __raw_try_cmpxchg'',
          ''asm_inline volatile(lock '' @ quoted ''cmpxchgl %[new], %[ptr]'',
          ''if (unlikely(!success))'', ''*_old = __old;'', ''likely(success);''])),
      check_that ''s390 strong CAS uses one CS with an in/out expected operand'' (PBool True)
        (PBool (ordered (ps_s390 src) [''#ifdef __HAVE_ASM_FLAG_OUTPUTS__'', ''#define arch_try_cmpxchg(ptr, oldp, new)'',
          ''case 4:'', S390_CS, '': [__old] '' @ quoted ''+d'' @ '' (*__oldp)'', quoted ''=@cc'' @ '' (__cc)'',
          ''likely(__cc == 0);'']))]"

section \<open>The run\<close>

record progress_result =
  pr_checks :: "check_row list"
  pr_accepted :: bool
  pr_verifications :: nat
  pr_controls :: nat

definition run_progress_model ::
  "progress_domain \<Rightarrow> (string \<times> pydict) list \<Rightarrow> progress_sources \<Rightarrow> pydict \<Rightarrow> (string \<times> py) list \<Rightarrow> progress_result res" where
  "run_progress_model dm cases src manifest profile_results =
     bind_res (actual_by_id dm) (\<lambda>actual.
     bind_res (run_cases actual cases) (\<lambda>case_rows.
     bind_res (mapping_checks manifest profile_results) (\<lambda>mapping.
     let checks = case_rows @ source_checks src @ mapping @ model_checks dm actual;
         accepted = all_passed checks
     in Inr \<lparr>pr_checks = checks, pr_accepted = accepted, pr_verifications = (if accepted then 1 else 0),
             pr_controls = (if accepted then 3 else 0)\<rparr>)))"

lemma run_progress_model_Inr:
  "run_progress_model dm cases src manifest profile_results = Inr r \<longleftrightarrow>
     (\<exists>actual case_rows mapping. actual_by_id dm = Inr actual \<and> run_cases actual cases = Inr case_rows
        \<and> mapping_checks manifest profile_results = Inr mapping
        \<and> r = (let checks = case_rows @ source_checks src @ mapping @ model_checks dm actual; accepted = all_passed checks
               in \<lparr>pr_checks = checks, pr_accepted = accepted, pr_verifications = (if accepted then 1 else 0),
                   pr_controls = (if accepted then 3 else 0)\<rparr>))"
  by (auto simp: run_progress_model_def bind_res_Inr Let_def)

lemma check_pair_passed [simp]: "all_passed [a, b] \<longleftrightarrow> ck_passed a \<and> ck_passed b"
  by simp

text \<open>What the passed mapping checks say of one implementation profile.\<close>

lemma mapping_checks_passed:
  assumes m: "map_of m ''progress'' = Some (PDict pr)" "map_of pr ''implementation_profiles'' = Some (PList (map PStr ids))"
    and rows: "mapping_checks m results = Inr rows" "all_passed rows" and pid: "pid \<in> set ids"
  shows "\<exists>acc order tokens. map_of results pid = Some acc \<and> py_eq (PBool True) acc \<and> disassembly_order m pid = Inr (PList order)
    \<and> map_of RETRY_TOKENS pid = Some tokens \<and> PStr ` set tokens \<subseteq> set order"
proof -
  let ?f = "\<lambda>v. bind_res (key_of v) (\<lambda>pid.
         bind_res (ditem results pid) (\<lambda>acc.
         bind_res (bind_res (disassembly_order m pid) py_elements) (\<lambda>order.
         bind_res (case map_of RETRY_TOKENS pid of None \<Rightarrow> Inl (Exn KeyError pid) | Some ts \<Rightarrow> Inr ts) (\<lambda>tokens.
         Inr [check_that (''progress mapping '' @ pid @ '': build gate'') (PBool True) acc,
              check_that (''progress mapping '' @ pid @ '': strong CAS retry lowering'') (PBool True)
                (PBool (list_all (\<lambda>t. PStr t \<in> set order) tokens))]))))"
  from rows(1) m obtain rs where rs: "mapM ?f (map PStr ids) = Inr rs" "rows = concat rs"
    by (auto simp: mapping_checks_def ditem_Some pindex_PDict py_elements_def bind_res_Inr)
  from pid obtain i where i: "i < length ids" "ids ! i = pid" by (auto simp: in_set_conv_nth)
  from mapM_nth [OF rs(1), of i] mapM_length [OF rs(1)] i have f: "?f (PStr pid) = Inr (rs ! i)" "i < length rs" by simp_all
  with rows(2) rs(2) have passed: "all_passed (rs ! i)" by (simp add: list_all_length)
  have elements: "py_elements v = Inr order \<longleftrightarrow> v = PList order" for v order by (cases v) (auto simp: py_elements_def)
  from f(1) obtain acc order tokens where look: "map_of results pid = Some acc" "disassembly_order m pid = Inr (PList order)"
      "map_of RETRY_TOKENS pid = Some tokens"
      and rows_i: "[check_that (''progress mapping '' @ pid @ '': build gate'') (PBool True) acc,
         check_that (''progress mapping '' @ pid @ '': strong CAS retry lowering'') (PBool True)
           (PBool (list_all (\<lambda>t. PStr t \<in> set order) tokens))] = rs ! i"
    unfolding bind_res_Inr key_of_def py.case sum.inject ditem_Inr elements case_option_Inr by (elim exE conjE) (rule that; simp)
  from passed have "py_eq (PBool True) acc" "list_all (\<lambda>t. PStr t \<in> set order) tokens" unfolding rows_i [symmetric] by simp_all
  with look show ?thesis by (intro exI [of _ acc] exI [of _ order] exI [of _ tokens]) (auto simp: list_all_iff simp del: py_eq.simps)
qed

lemma model_checks_passed:
  assumes "actual_by_id dm = Inr actual" and "all_passed (model_checks dm actual)"
  shows "\<exists>ag. bounded_progress_aggregate dm True = Inr ag \<and> ag_nonterminating ag = 0 \<and> ag_max_attempts ag = pd_max_attempts dm"
proof -
  from assms(1) obtain strong stale unbounded where "bounded_progress_aggregate dm True = Inr strong"
      "actual = [(''bounded_quiescent_strong_cas'', aggregate_dict strong), (''stale_expected_negative'', aggregate_dict stale),
        (''spurious_failure_negative'', spurious_failure_cycle), (''unbounded_interference_negative'', unbounded)]"
    by (auto simp: actual_by_id_def bind_res_Inr)
  with assms(2) show ?thesis by (auto simp: model_checks_def Let_def aggregate_dict_def)
qed


section \<open>A run of the declared manifest\<close>

definition sample_sources :: progress_sources where
  "sample_sources = \<lparr>
     ps_add_not_zero = ''int old = refcount_read(r); do { if (!old) break; } while (!atomic_try_cmpxchg_relaxed(&r->refs, &old, old + i));'',
     ps_fallback = ''If (@v == @old), atomically updates @v to @new '' @
       ''Otherwise, @v is not modified, @old is updated to the current value '' @
       ''Return: @true if the exchange occurred, @false otherwise. '' @
       ''r = raw_atomic_cmpxchg_relaxed(v, o, new); if (unlikely(r != o)) *old = r; return likely(r == o);'',
     ps_x86 = ''#define __raw_try_cmpxchg asm_inline volatile(lock '' @ quoted ''cmpxchgl %[new], %[ptr]'' @
       '' if (unlikely(!success)) *_old = __old; likely(success);'',
     ps_s390 = ''#ifdef __HAVE_ASM_FLAG_OUTPUTS__ #define arch_try_cmpxchg(ptr, oldp, new) case 4: '' @ S390_CS @
       '': [__old] '' @ quoted ''+d'' @ '' (*__oldp) '' @ quoted ''=@cc'' @ '' (__cc) likely(__cc == 0);''\<rparr>"

definition sample_results :: "(string \<times> py) list" where
  "sample_results = map (\<lambda>i. (i, PBool True)) IMPLEMENTATION_PROFILES"

lemma sample_sources_passed: "all_passed (source_checks sample_sources)"
  by code_simp

lemmas declared_profile_defs = declared_x86_64_def declared_arm64_def declared_riscv64_def declared_s390x_def
  declared_arm32_def declared_powerpc32_smp_def declared_sh_smp_def declared_alpha_smp_def
  declared_loongarch64_clang_def declared_mips32el_clang_def declared_um_x86_64_smp_def

lemma declared_profile_ids:
  "map_of declared_x86_64 ''id'' = Some (PStr ''x86_64-ipc-refcount-c3'')"
  "map_of declared_arm64 ''id'' = Some (PStr ''arm64-ipc-refcount-c3'')"
  "map_of declared_riscv64 ''id'' = Some (PStr ''riscv64-ipc-refcount-c3'')"
  "map_of declared_s390x ''id'' = Some (PStr ''s390x-ipc-refcount-c3'')"
  "map_of declared_arm32 ''id'' = Some (PStr ''arm32-ipc-refcount-c3'')"
  "map_of declared_powerpc32_smp ''id'' = Some (PStr ''powerpc32-smp-ipc-refcount-c3'')"
  "map_of declared_sh_smp ''id'' = Some (PStr ''sh-smp-ipc-refcount-c3'')"
  "map_of declared_alpha_smp ''id'' = Some (PStr ''alpha-smp-ipc-refcount-c3'')"
  "map_of declared_loongarch64_clang ''id'' = Some (PStr ''loongarch64-clang-ipc-refcount-c3'')"
  "map_of declared_mips32el_clang ''id'' = Some (PStr ''mips32el-clang-ipc-refcount-c3'')"
  "map_of declared_um_x86_64_smp ''id'' = Some (PStr ''um-x86_64-smp-ipc-refcount-c3'')"
  by (simp_all add: declared_profile_defs)

lemma declared_mapping: "\<exists>rows. mapping_checks declared_manifest sample_results = Inr rows \<and> all_passed rows"
proof -
  have p: "map_of declared_manifest ''progress'' = Some (PDict declared_progress)"
      "map_of declared_progress ''implementation_profiles'' = Some (PList (map PStr IMPLEMENTATION_PROFILES))"
    by (simp_all add: declared_manifest_def declared_progress_def IMPLEMENTATION_PROFILES_def)
  let ?ps = "[PDict declared_x86_64, PDict declared_arm64, PDict declared_riscv64, PDict declared_s390x, PDict declared_arm32,
    PDict declared_powerpc32_smp, PDict declared_sh_smp, PDict declared_alpha_smp, PDict declared_loongarch64_clang,
    PDict declared_mips32el_clang, PDict declared_um_x86_64_smp]"
  have ps: "map_of declared_manifest ''profiles'' = Some (PList ?ps)" by (simp add: declared_manifest_def)
  have index: "mapM (\<lambda>p. bind_res (bind_res (pindex p ''id'') key_of) (\<lambda>i. Inr (i, p))) ?ps = Inr (zip PROFILE_IDS ?ps)"
    by (simp add: pindex_PDict declared_profile_ids [THEN ditem_Some] key_of_def PROFILE_IDS_list)
  have look: "ditem (rev (zip PROFILE_IDS ?ps)) ''x86_64-ipc-refcount-c3'' = Inr (PDict declared_x86_64)"
      "ditem (rev (zip PROFILE_IDS ?ps)) ''s390x-ipc-refcount-c3'' = Inr (PDict declared_s390x)"
      "ditem (rev (zip PROFILE_IDS ?ps)) ''um-x86_64-smp-ipc-refcount-c3'' = Inr (PDict declared_um_x86_64_smp)"
    by (simp_all add: PROFILE_IDS_list ditem_def)
  have order: "disassembly_order declared_manifest pid = bind_res (ditem (rev (zip PROFILE_IDS ?ps)) pid) (\<lambda>p.
     bind_res (pindex p ''configured_compile'') (\<lambda>c. bind_res (pindex c ''functions'') (\<lambda>fs.
     bind_res (pindex fs ''ipc_rcu_getref'') (\<lambda>f. pindex f ''disassembly_order''))))" for pid
    by (simp only: disassembly_order_def ditem_Some [OF ps] bind_res_simps py_elements_def py.case index)
  have tokens: "\<exists>order. disassembly_order declared_manifest pid = Inr (PList order)
      \<and> list_all (\<lambda>t. PStr t \<in> set order) (the (map_of RETRY_TOKENS pid)) \<and> map_of RETRY_TOKENS pid \<noteq> None"
    if "pid \<in> {''x86_64-ipc-refcount-c3'', ''s390x-ipc-refcount-c3'', ''um-x86_64-smp-ipc-refcount-c3''}" for pid
    using that unfolding order
    by (elim insertE emptyE) (simp_all only: look bind_res_simps,
      simp_all add: declared_x86_64_def declared_s390x_def declared_um_x86_64_smp_def pindex_PDict ditem_def RETRY_TOKENS_def)
  then obtain o1 o2 o3 where o: "disassembly_order declared_manifest ''x86_64-ipc-refcount-c3'' = Inr (PList o1)"
      "list_all (\<lambda>t. PStr t \<in> set o1) (the (map_of RETRY_TOKENS ''x86_64-ipc-refcount-c3''))"
      "disassembly_order declared_manifest ''s390x-ipc-refcount-c3'' = Inr (PList o2)"
      "list_all (\<lambda>t. PStr t \<in> set o2) (the (map_of RETRY_TOKENS ''s390x-ipc-refcount-c3''))"
      "disassembly_order declared_manifest ''um-x86_64-smp-ipc-refcount-c3'' = Inr (PList o3)"
      "list_all (\<lambda>t. PStr t \<in> set o3) (the (map_of RETRY_TOKENS ''um-x86_64-smp-ipc-refcount-c3''))"
    by (meson insertI1 insertI2)
  show ?thesis
    by (simp only: mapping_checks_def ditem_Some [OF p(1)] bind_res_simps pindex_PDict ditem_Some [OF p(2)] py_elements_def py.case)
       (use o in \<open>simp add: IMPLEMENTATION_PROFILES_def py_elements_def key_of_def sample_results_def ditem_def RETRY_TOKENS_def\<close>)
qed


end
