(* ===== verification/Llsc_Progress.thy ===== *)
theory Llsc_Progress
  imports Ipc_Manifest
begin

text \<open>
  \<^verbatim>\<open>fragma/concurrency_c3_llsc_progress.py\<close>, the audit of the load-linked/store-conditional profiles that the
  progress pilot leaves out: the validator of its manifest, the enumeration of reservation failures, the read-back of the
  evidence it builds on, the assessment of each profile and the verdict. Parsed JSON values, the UTF-8 decoder and the
  disassembler are arguments; writing the results is not modelled.
\<close>

section \<open>The manifest\<close>

abbreviation llsc_error :: "string \<Rightarrow> exn" where
  "llsc_error m \<equiv> Exn LlscProgressError m"

definition PROFILE_SCOPE :: "(string \<times> string \<times> string) list" where
  "PROFILE_SCOPE =
     [(''arm64-ipc-refcount-c3'', ''arm64'', ''runtime_dual_native_cas_llsc''),
      (''riscv64-ipc-refcount-c3'', ''riscv64'', ''runtime_dual_native_cas_llsc''),
      (''arm32-ipc-refcount-c3'', ''arm32'', ''llsc_only_selected_object''),
      (''powerpc32-smp-ipc-refcount-c3'', ''powerpc32'', ''llsc_only_selected_object''),
      (''sh-smp-ipc-refcount-c3'', ''superh'', ''llsc_only_selected_object''),
      (''alpha-smp-ipc-refcount-c3'', ''alpha'', ''llsc_only_selected_object_with_trampoline''),
      (''loongarch64-clang-ipc-refcount-c3'', ''loongarch64'', ''llsc_get_with_native_amo_put''),
      (''mips32el-clang-ipc-refcount-c3'', ''mips32el'', ''llsc_only_selected_object'')]"

definition LLSC_PROFILE_IDS :: "string list" where
  "LLSC_PROFILE_IDS = map fst PROFILE_SCOPE"

definition ALLOWED_KINDS :: "string list" where
  "ALLOWED_KINDS = [''runtime_dual_native_cas_llsc'', ''llsc_only_selected_object'',
     ''llsc_only_selected_object_with_trampoline'', ''llsc_get_with_native_amo_put'']"

text \<open>Unlike the validator of the pilot this one admits repeated strings.\<close>

definition llsc_strings :: "py \<Rightarrow> string list res" where
  "llsc_strings v = (case as_strs v of
     None \<Rightarrow> Inl (llsc_error ''must be nonempty strings'')
   | Some ss \<Rightarrow> if ss = [] \<or> [] \<in> set ss then Inl (llsc_error ''must be nonempty strings'') else Inr ss)"

abbreviation llsc_digest :: "py \<Rightarrow> string res" where
  "llsc_digest \<equiv> digest_of LlscProgressError 64"

definition llsc_kernel :: "py \<Rightarrow> unit res" where
  "llsc_kernel v =
     bind_res (exact_dict (llsc_error ''LL/SC kernel record is not exact'') [''revision'', ''git_tree'', ''source_root''] v) (\<lambda>k.
     check (py_eq (dget k ''revision'') (PStr ''b9b3e33b70b71e516930117e21de3ad2a7723747'')
         \<and> py_eq (dget k ''git_tree'') (PStr ''054b6818c409ab20ae89b1031a1a7c358f673d87'')
         \<and> py_eq (dget k ''source_root'') (PStr ''build/sources/linux-b9b3e33b70b71''))
       (llsc_error ''unexpected LL/SC kernel identity''))"

definition BASE_SCOPE :: pydict where
  "BASE_SCOPE = [(''target'', PStr ''linux-ipc-refcount-lifetime-multiarch-c3''), (''schema_version'', PInt 6),
     (''evidence_checks'', PInt 1036), (''input_identity_count'', PInt 91), (''raw_artifact_count'', PInt 395),
     (''architecture_mapping_count'', PInt 11), (''kernel_verification_count'', PInt 2),
     (''progress_kernel_verification_count'', PInt 1), (''progress_implementation_mapping_count'', PInt 3),
     (''progress_implementation_profiles'', PList [PStr ''x86_64-ipc-refcount-c3'', PStr ''s390x-ipc-refcount-c3'',
        PStr ''um-x86_64-smp-ipc-refcount-c3''])]"

definition llsc_base :: "py \<Rightarrow> unit res" where
  "llsc_base v =
     bind_res (exact_dict (llsc_error ''LL/SC base requirements are not exact'') (keys BASE_SCOPE) v) (\<lambda>b.
     check (list_all (\<lambda>(k, expected). py_eq (dget b k) expected) BASE_SCOPE) (llsc_error ''unexpected LL/SC base scope''))"

definition llsc_documentation :: "py \<Rightarrow> unit res" where
  "llsc_documentation v =
     bind_res (exact_dict (llsc_error ''LL/SC documentation record is not exact'') [''path'', ''sha256'', ''required_order''] v) (\<lambda>d.
     bind_res (check (py_eq (dget d ''path'') (PStr ''build/sources/linux-b9b3e33b70b71/Documentation/atomic_t.txt''))
       (llsc_error ''unexpected LL/SC documentation path'')) (\<lambda>_.
     bind_res (llsc_digest (dget d ''sha256'')) (\<lambda>_.
     unit_of (llsc_strings (dget d ''required_order'')))))"

definition DIAGNOSTIC_EXPECTED :: pydict where
  "DIAGNOSTIC_EXPECTED = [(''finite_schedules'', PInt 120), (''max_source_cas_attempts'', PInt 4),
     (''max_store_conditional_attempts'', PInt 12), (''max_store_conditional_failures'', PInt 8), (''nonterminating'', PInt 0)]"

definition LOST_STATE :: pydict where
  "LOST_STATE = [(''refs'', PInt 1), (''expected'', PInt 1), (''reservation'', PStr ''lost'')]"

definition CONTROL_EXPECTED :: pydict where
  "CONTROL_EXPECTED = [(''cycle_found'', PBool True), (''cycle_length'', PInt 1), (''state'', PDict LOST_STATE)]"

definition llsc_control :: "py \<Rightarrow> bool" where
  "llsc_control v = (case v of
     PDict c \<Rightarrow> exact_keys c [''role'', ''verification_candidate'', ''expected'']
       \<and> py_eq (dget c ''role'') (PStr ''required_nontermination_control'')
       \<and> dget c ''verification_candidate'' = PBool False \<and> py_eq (dget c ''expected'') (PDict CONTROL_EXPECTED)
   | _ \<Rightarrow> False)"

definition llsc_diagnostic :: "py \<Rightarrow> unit res" where
  "llsc_diagnostic v =
     bind_res (exact_dict (llsc_error ''LL/SC diagnostic is not exact'')
       [''kind'', ''verification_candidate'', ''premise'', ''source_cas_attempts'',
        ''max_store_conditional_failures_per_cas'', ''expected'', ''unbounded_failure_control''] v) (\<lambda>d.
     check (py_eq (dget d ''kind'') (PStr ''bounded_store_conditional_failure_diagnostic'')
         \<and> dget d ''verification_candidate'' = PBool False
         \<and> (case dget d ''premise'' of PStr s \<Rightarrow> contains ''no selected Linux profile establishes'' s | _ \<Rightarrow> False)
         \<and> py_eq (dget d ''source_cas_attempts'') (PList [PInt 1, PInt 2, PInt 3, PInt 4])
         \<and> py_eq (dget d ''max_store_conditional_failures_per_cas'') (PInt 2)
         \<and> py_eq (dget d ''expected'') (PDict DIAGNOSTIC_EXPECTED)
         \<and> llsc_control (dget d ''unbounded_failure_control''))
       (llsc_error ''LL/SC diagnostic cannot satisfy its evidence role''))"

text \<open>One source of one profile; the paths seen so far are a Python set, whose members must be hashable.\<close>

definition llsc_source :: "py list \<Rightarrow> py \<Rightarrow> py list res" where
  "llsc_source seen v =
     bind_res (exact_dict (llsc_error ''source check is not exact'') [''path'', ''sha256'', ''ordered_tokens''] v) (\<lambda>s.
     bind_res (check (\<not> is_list (dget s ''path'') \<and> \<not> is_dict (dget s ''path'')) (Exn TypeError ''unhashable type'')) (\<lambda>_.
     bind_res (check (\<not> list_ex (py_eq (dget s ''path'')) seen) (llsc_error ''duplicate LL/SC source path'')) (\<lambda>_.
     bind_res (llsc_digest (dget s ''sha256'')) (\<lambda>_.
     bind_res (llsc_strings (dget s ''ordered_tokens'')) (\<lambda>_.
     Inr (seen @ [dget s ''path'']))))))"

definition in_scope :: "pydict \<Rightarrow> string \<Rightarrow> bool" where
  "in_scope p pid = (case map_of PROFILE_SCOPE pid of None \<Rightarrow> False
     | Some (arch, kind) \<Rightarrow> py_eq (dget p ''architecture'') (PStr arch) \<and> py_eq (dget p ''implementation_kind'') (PStr kind)
         \<and> kind \<in> set ALLOWED_KINDS)"

definition blocked :: "py \<Rightarrow> bool" where
  "blocked v = (case v of PStr s \<Rightarrow> contains ''without'' (to_lower s) \<and> contains ''failure'' (to_lower s) | _ \<Rightarrow> False)"

definition llsc_profile :: "py list \<Rightarrow> py \<times> string \<Rightarrow> py list res" where
  "llsc_profile seen x = (case x of (v, pid) \<Rightarrow>
     bind_res (exact_dict (llsc_error ''LL/SC profile is not exact'')
       [''id'', ''architecture'', ''implementation_kind'', ''source_checks'', ''disassembly_order'', ''verification_candidate'',
        ''decision'', ''blocking_reason''] v) (\<lambda>p.
     bind_res (check (in_scope p pid \<and> dget p ''verification_candidate'' = PBool False
         \<and> py_eq (dget p ''decision'') (PStr ''not_promoted'') \<and> blocked (dget p ''blocking_reason''))
       (llsc_error ''LL/SC profile cannot be promoted'')) (\<lambda>_.
     bind_res (llsc_strings (dget p ''disassembly_order'')) (\<lambda>_.
     case dget p ''source_checks'' of
       PList sources \<Rightarrow>
         if sources = [] then Inl (llsc_error ''source checks are empty'') else foldM llsc_source seen sources
     | _ \<Rightarrow> Inl (llsc_error ''source checks are empty'')))))"

definition LLSC_BOUNDARIES :: "string list" where
  "LLSC_BOUNDARIES = [''no ll/sc profile'', ''hypothetical'', ''native lse'', ''zacas'', ''loongarch'', ''mips'',
     ''scheduler fairness'', ''wait-freedom'', ''rcu progress'', ''whole-kernel'']"

definition load_llsc_manifest :: "py \<Rightarrow> pydict res" where
  "load_llsc_manifest v =
     bind_res (exact_dict (llsc_error ''LL/SC manifest is not exact'')
       [''schema_version'', ''id'', ''kernel'', ''base'', ''documentation'', ''conditional_diagnostic'', ''profiles'', ''exclusions''] v) (\<lambda>m.
     bind_res (check (py_eq (dget m ''schema_version'') (PInt 1)
         \<and> py_eq (dget m ''id'') (PStr ''linux-ipc-refcount-llsc-progress-capability-c3''))
       (llsc_error ''unsupported LL/SC manifest schema'')) (\<lambda>_.
     bind_res (llsc_kernel (dget m ''kernel'')) (\<lambda>_.
     bind_res (llsc_base (dget m ''base'')) (\<lambda>_.
     bind_res (llsc_documentation (dget m ''documentation'')) (\<lambda>_.
     bind_res (llsc_diagnostic (dget m ''conditional_diagnostic'')) (\<lambda>_.
     bind_res (case dget m ''profiles'' of
         PList ps \<Rightarrow> if py_eq (PList (map case_id ps)) (PList (map PStr LLSC_PROFILE_IDS)) then Inr ps
             else Inl (llsc_error ''LL/SC profile inventory is not exact'')
       | _ \<Rightarrow> Inl (llsc_error ''LL/SC profile inventory is not exact'')) (\<lambda>ps.
     bind_res (foldM llsc_profile [] (zip ps LLSC_PROFILE_IDS)) (\<lambda>_.
     bind_res (llsc_strings (dget m ''exclusions'')) (\<lambda>exclusions.
     bind_res (mentions_all (llsc_error ''LL/SC exclusions omit'') LLSC_BOUNDARIES (lower_text exclusions)) (\<lambda>_.
     Inr m))))))))))"

section \<open>The bounded diagnostic\<close>

record llsc_row =
  lr_source_attempts :: nat
  lr_failures :: int
  lr_attempts :: int
  lr_schedule :: "int list"
  lr_outcome :: string

definition failure_row :: "nat \<Rightarrow> int list \<Rightarrow> llsc_row" where
  "failure_row n failures =
     \<lparr>lr_source_attempts = n, lr_failures = sum_list failures, lr_attempts = sum_list (map (\<lambda>v. v + 1) failures),
      lr_schedule = failures, lr_outcome = ''completed_under_hypothetical_bound''\<rparr>"

definition failure_rows :: "int \<Rightarrow> nat \<Rightarrow> llsc_row list" where
  "failure_rows maximum n = map (failure_row n) (schedules [0..maximum] n)"

text \<open>An integer argument of \<^verbatim>\<open>range\<close> and \<^verbatim>\<open>product\<close>: a boolean is one, a float is not.\<close>

definition as_index :: "py \<Rightarrow> int res" where
  "as_index v = (case v of PInt n \<Rightarrow> Inr n | PBool b \<Rightarrow> Inr (of_bool_int b) | _ \<Rightarrow> Inl (Exn TypeError ''not an integer''))"

definition diagnostic_rows :: "py \<Rightarrow> py \<Rightarrow> llsc_row list res" where
  "diagnostic_rows maximum sources =
     bind_res (py_elements sources) (\<lambda>ss.
     map_sum id concat (mapM (\<lambda>s.
       bind_res (as_index maximum) (\<lambda>m.
       bind_res (as_index s) (\<lambda>n.
       if n < 0 then Inl (Exn ValueError ''repeat argument cannot be negative'') else Inr (failure_rows m (nat n))))) ss))"

definition llsc_row_dict :: "llsc_row \<Rightarrow> py" where
  "llsc_row_dict r = PDict [(''source_cas_attempts'', PInt (int (lr_source_attempts r))),
     (''store_conditional_failures'', PInt (lr_failures r)), (''store_conditional_attempts'', PInt (lr_attempts r)),
     (''failure_schedule'', PList (map PInt (lr_schedule r))), (''outcome'', PStr (lr_outcome r))]"

definition bounded_diagnostic :: "pydict \<Rightarrow> pydict res" where
  "bounded_diagnostic d =
     bind_res (diagnostic_rows (dget d ''max_store_conditional_failures_per_cas'') (dget d ''source_cas_attempts'')) (\<lambda>rows.
     bind_res (max_of (map lr_attempts rows)) (\<lambda>max_attempts.
     bind_res (max_of (map lr_failures rows)) (\<lambda>max_failures.
     bind_res (max_of (map (int \<circ> lr_source_attempts) rows)) (\<lambda>max_source.
     Inr [(''finite_schedules'', PInt (int (length rows))), (''max_source_cas_attempts'', PInt max_source),
          (''max_store_conditional_attempts'', PInt max_attempts), (''max_store_conditional_failures'', PInt max_failures),
          (''nonterminating'', PInt (int (length (filter (\<lambda>r. lr_outcome r = ''nonterminating'') rows)))),
          (''maximum_witness'', option_py llsc_row_dict (find (\<lambda>r. lr_attempts r = max_attempts) rows))]))))"

definition unbounded_failure_cycle :: pydict where
  "unbounded_failure_cycle =
     (let after = LOST_STATE in
      [(''cycle_found'', PBool (py_eq (PDict LOST_STATE) (PDict after))), (''cycle_length'', PInt 1), (''state'', PDict after),
       (''trace'', PList [PDict [(''event'', PStr ''load-linked''), (''refs'', PInt 1), (''expected'', PInt 1)],
          PDict [(''event'', PStr ''store-conditional-failure''), (''reservation'', PStr ''lost'')],
          PDict ((''event'', PStr ''retry-same-cas'') # after)])])"

section \<open>The evidence the audit builds on\<close>

text \<open>\<^verbatim>\<open>{"sha256": ..., "size": ...}\<close> of a regular file.\<close>

definition identity_of :: "host \<Rightarrow> string \<Rightarrow> pydict" where
  "identity_of h s = [(''sha256'', PStr (sha256_hex h s)), (''size'', PInt (int (length s)))]"

definition file_identity :: "host \<Rightarrow> string \<Rightarrow> pydict res" where
  "file_identity h p = (case contents h p of None \<Rightarrow> Inl (Exn OSError p) | Some s \<Rightarrow> Inr (identity_of h s))"

definition safe_result_file :: "host \<Rightarrow> string \<Rightarrow> string \<Rightarrow> string res" where
  "safe_result_file h base name =
     bind_res (check (name \<noteq> [] \<and> \<not> is_absolute name) (llsc_error ''base artifact path is not relative'')) (\<lambda>_.
     let p = path_join base name in
     bind_res (check (is_relative_to (resolve h p) (resolve h base)) (llsc_error ''base artifact escapes result'')) (\<lambda>_.
     bind_res (check (is_file h p \<and> \<not> is_symlink h p) (llsc_error ''base artifact is not a regular file'')) (\<lambda>_.
     Inr p)))"

definition py_len :: "py \<Rightarrow> nat res" where
  "py_len v = (case v of PList vs \<Rightarrow> Inr (length vs) | PDict d \<Rightarrow> Inr (length d) | PStr s \<Rightarrow> Inr (length s)
     | _ \<Rightarrow> Inl (Exn TypeError ''no len()''))"

text \<open>Iterating a dictionary or a string yields strings.\<close>

definition py_iter :: "py \<Rightarrow> py list res" where
  "py_iter v = (case v of PList vs \<Rightarrow> Inr vs | PDict d \<Rightarrow> Inr (map PStr (keys d)) | PStr s \<Rightarrow> Inr (map (\<lambda>c. PStr [c]) s)
     | _ \<Rightarrow> Inl (Exn TypeError ''not iterable''))"

definition count_passed :: "py \<Rightarrow> nat res" where
  "count_passed v =
     bind_res (py_iter v) (\<lambda>items.
     bind_res (mapM (\<lambda>i. pget i ''passed'') items) (\<lambda>ps. Inr (length (filter (\<lambda>p. p = PBool True) ps))))"

text \<open>\<^verbatim>\<open>(audit.get("progress") or {}).get(k)\<close>\<close>

definition nested_get :: "py \<Rightarrow> string \<Rightarrow> py res" where
  "nested_get v k = pget (if truthy v then v else PDict []) k"

definition base_checks :: "pydict \<Rightarrow> pydict \<Rightarrow> pydict \<Rightarrow> check_row list res" where
  "base_checks kern required audit =
     bind_res (py_len (dget_or audit ''checks'' (PList []))) (\<lambda>total.
     bind_res (count_passed (dget_or audit ''checks'' (PList []))) (\<lambda>passed.
     bind_res (nested_get (dget audit ''progress'') ''accepted'') (\<lambda>progress_accepted.
     bind_res (nested_get (dget audit ''progress'') ''kernel_verification_count'') (\<lambda>progress_count.
     bind_res (nested_get (dget audit ''progress'') ''implementation_profiles'') (\<lambda>progress_profiles.
     Inr [check_that ''base audit accepted'' (PBool True) (dget audit ''accepted''),
       check_that ''base target'' (dget required ''target'') (dget audit ''target''),
       check_that ''base schema'' (dget required ''schema_version'') (dget audit ''schema_version''),
       check_that ''base kernel revision'' (dget kern ''revision'') (dget audit ''kernel_revision''),
       check_that ''base kernel tree'' (dget kern ''git_tree'') (dget audit ''kernel_tree''),
       check_that ''base evidence check count'' (dget required ''evidence_checks'') (PInt (int total)),
       check_that ''base evidence checks pass'' (dget required ''evidence_checks'') (PInt (int passed)),
       check_that ''base architecture mappings'' (dget required ''architecture_mapping_count'') (dget audit ''architecture_mapping_count''),
       check_that ''base kernel verification count'' (dget required ''kernel_verification_count'') (dget audit ''kernel_verification_count''),
       check_that ''base lifetime pilot complete'' (PBool True) (dget audit ''c3_lifetime_functional_pilot_complete''),
       check_that ''base progress pilot complete'' (PBool True) (dget audit ''c3_bounded_progress_pilot_complete''),
       check_that ''base architecture mapping pilot complete'' (PBool True) (dget audit ''c3_selected_architecture_mappings_complete''),
       check_that ''base progress result accepted'' (PBool True) progress_accepted,
       check_that ''base progress kernel verification count'' (dget required ''progress_kernel_verification_count'') progress_count,
       check_that ''base progress implementation mapping count'' (dget required ''progress_implementation_mapping_count'')
         (dget audit ''progress_implementation_mapping_count''),
       check_that ''base progress implementations'' (dget required ''progress_implementation_profiles'') progress_profiles,
       check_that ''base remains partial C3'' (PBool False) (dget audit ''c3_stage_complete''),
       check_that ''base used no install or sudo'' (PBool False) (dget audit ''sudo_or_install_used'')])))))"

text \<open>\<^verbatim>\<open>"realpath" in expected\<close>\<close>

definition declares_realpath :: "py \<Rightarrow> bool res" where
  "declares_realpath v = (case v of
     PDict d \<Rightarrow> Inr (has_key d ''realpath'') | PList vs \<Rightarrow> Inr (list_ex (\<lambda>x. py_eq x (PStr ''realpath'')) vs)
   | PStr s \<Rightarrow> Inr (contains ''realpath'' s) | _ \<Rightarrow> Inl (Exn TypeError ''not iterable''))"

definition input_readback :: "host \<Rightarrow> string \<Rightarrow> string \<Rightarrow> py \<Rightarrow> py res" where
  "input_readback h root_dir name expected =
     (let p = (if is_absolute name then path_str name else path_join root_dir name) in
      case contents h p of
        None \<Rightarrow> Inr PNone
      | Some s \<Rightarrow>
          bind_res (declares_realpath expected) (\<lambda>r.
          Inr (PDict (identity_of h s @ (if r then [(''realpath'', PStr (path_str (resolve h p)))] else [])))))"

definition artifact_readback :: "host \<Rightarrow> string \<Rightarrow> string \<Rightarrow> py res" where
  "artifact_readback h base name =
     bind_res (safe_result_file h base name) (\<lambda>p. map_sum id PDict (file_identity h p))"

text \<open>\<^verbatim>\<open>manifest["base"]\<close> and \<^verbatim>\<open>manifest["kernel"]\<close>, whose entries are indexed.\<close>

definition dict_item :: "pydict \<Rightarrow> string \<Rightarrow> pydict res" where
  "dict_item d k = bind_res (ditem d k) (\<lambda>v. case v of PDict e \<Rightarrow> Inr e | _ \<Rightarrow> Inl (Exn TypeError k))"

definition audit_dict :: "py \<Rightarrow> pydict res" where
  "audit_dict v = (case v of PDict a \<Rightarrow> Inr a | _ \<Rightarrow> Inl (Exn AttributeError ''get''))"

definition inventories :: "pydict \<Rightarrow> (pydict \<times> pydict) res" where
  "inventories audit = (case (dget audit ''input_identities'', dget audit ''raw_artifacts'') of
     (PDict i, PDict a) \<Rightarrow> Inr (i, a) | _ \<Rightarrow> Inl (llsc_error ''base identity inventories are malformed''))"

text \<open>A loop over an inventory: the recorded value of each name and the one read back, then its checks.\<close>

definition readbacks :: "(string \<Rightarrow> py \<Rightarrow> py res) \<Rightarrow> pydict \<Rightarrow> (string \<times> py \<times> py) list res" where
  "readbacks f d = mapM (\<lambda>(name, expected). bind_res (f name expected) (\<lambda>a. Inr (name, expected, a))) d"

definition readback_rows :: "string \<Rightarrow> (string \<times> py \<times> py) list \<Rightarrow> check_row list" where
  "readback_rows label xs = map (\<lambda>(name, expected, a). check_that (label @ name) expected a) xs"

definition actuals :: "(string \<times> py \<times> py) list \<Rightarrow> (string \<times> py) list" where
  "actuals xs = map (\<lambda>(name, expected, a). (name, a)) xs"

record base_evidence =
  be_audit :: pydict
  be_checks :: "check_row list"
  be_inputs :: "(string \<times> py) list"
  be_artifacts :: "(string \<times> py) list"

text \<open>
  \<^verbatim>\<open>_verify_base\<close>, with the parsed audit file as an argument: its checks in the order of the code, and what was read back
  of every recorded input and artifact.
\<close>

definition verify_base :: "host \<Rightarrow> string \<Rightarrow> string \<Rightarrow> pydict \<Rightarrow> py \<Rightarrow> base_evidence res" where
  "verify_base h root_dir base manifest v =
     bind_res (check (\<not> is_symlink h base \<and> is_dir h base) (llsc_error ''IPC base result must be a directory'')) (\<lambda>_.
     bind_res (safe_result_file h base ''pilot-audit.json'') (\<lambda>_.
     bind_res (dict_item manifest ''base'') (\<lambda>required.
     bind_res (dict_item manifest ''kernel'') (\<lambda>kern.
     bind_res (audit_dict v) (\<lambda>audit.
     bind_res (base_checks kern required audit) (\<lambda>checks.
     bind_res (inventories audit) (\<lambda>ivs.
     bind_res (readbacks (input_readback h root_dir) (fst ivs)) (\<lambda>inputs.
     bind_res (readbacks (\<lambda>name _. artifact_readback h base name) (snd ivs)) (\<lambda>files.
     Inr \<lparr>be_audit = audit, be_checks = checks
         @ [check_that ''base input identity count'' (dget required ''input_identity_count'') (PInt (int (length (fst ivs)))),
            check_that ''base raw artifact count'' (dget required ''raw_artifact_count'') (PInt (int (length (snd ivs))))]
         @ readback_rows ''base input readback: '' inputs @ readback_rows ''base artifact readback: '' files,
       be_inputs = actuals inputs, be_artifacts = actuals files\<rparr>)))))))))"

section \<open>One profile\<close>

record process =
  pr_returncode :: int
  pr_stdout :: string
  pr_stderr :: string
  pr_timed_out :: bool

text \<open>The UTF-8 decoder and the disassembler; reading a text translates its line ends.\<close>

record llsc_env =
  le_decode :: "string \<Rightarrow> string option"
  le_run :: "string list \<Rightarrow> process"

definition read_text :: "host \<Rightarrow> llsc_env \<Rightarrow> string \<Rightarrow> string res" where
  "read_text h env p = (case contents h p of
     None \<Rightarrow> Inl (Exn OSError p)
   | Some b \<Rightarrow> (case le_decode env b of None \<Rightarrow> Inl (Exn UnicodeError p) | Some s \<Rightarrow> Inr (universal_newlines s)))"

definition strings_of :: "py \<Rightarrow> string list" where
  "strings_of v = (case as_strs v of None \<Rightarrow> [] | Some ss \<Rightarrow> ss)"

definition source_check_rows :: "host \<Rightarrow> llsc_env \<Rightarrow> string \<Rightarrow> string \<Rightarrow> pydict \<Rightarrow> check_row list res" where
  "source_check_rows h env root_dir pid s =
     bind_res (existing_path h IpcRefcountError root_dir (dget s ''path'') False) (\<lambda>p.
     bind_res (read_text h env p) (\<lambda>text.
     bind_res (file_identity h p) (\<lambda>i.
     Inr [check_that (pid @ '' source identity: '' @ spec_str s ''path'') (dget s ''sha256'') (dget i ''sha256''),
          check_that (pid @ '' source order: '' @ spec_str s ''path'') (PBool True) (PBool (ordered text (strings_of (dget s ''ordered_tokens''))))])))"

record profile_assessment =
  pa_id :: string
  pa_checks :: "check_row list"
  pa_candidate :: py
  pa_decision :: string
  pa_passed :: bool

definition or_empty :: "py \<Rightarrow> py" where
  "or_empty v = (if truthy v then v else PDict [])"

definition object_checks :: "string \<Rightarrow> py \<Rightarrow> py \<Rightarrow> pydict \<Rightarrow> check_row list" where
  "object_checks pid sha sz identity =
     [check_that (pid @ '' accepted object identity'') sha (dget identity ''sha256''),
      check_that (pid @ '' accepted object size'') sz (dget identity ''size'')]"

definition command_checks :: "string \<Rightarrow> pydict \<Rightarrow> process \<Rightarrow> check_row list" where
  "command_checks pid profile p =
     [check_that (pid @ '' disassembly timed out'') (PBool False) (PBool (pr_timed_out p)),
      check_that (pid @ '' disassembly exit'') (PInt 0) (PInt (pr_returncode p)),
      check_that (pid @ '' disassembly stderr'') (PStr []) (PStr (pr_stderr p)),
      check_that (pid @ '' LL/SC control flow'') (PBool True)
        (PBool (ordered (pr_stdout p) (strings_of (dget profile ''disassembly_order'')))),
      check_that (pid @ '' remains ineligible'') (PBool False) (dget profile ''verification_candidate''),
      check_that (pid @ '' decision'') (PStr ''not_promoted'') (dget profile ''decision'')]"

definition assessment :: "string \<Rightarrow> check_row list \<Rightarrow> profile_assessment" where
  "assessment pid checks = \<lparr>pa_id = pid, pa_checks = checks, pa_candidate = PBool False, pa_decision = ''not_promoted'',
     pa_passed = all_passed checks\<rparr>"

text \<open>\<^verbatim>\<open>spec_str profile "id"\<close> is the identifier of a validated profile.\<close>

definition run_profile_assessment ::
  "host \<Rightarrow> llsc_env \<Rightarrow> string \<Rightarrow> pydict \<Rightarrow> py \<Rightarrow> pydict \<Rightarrow> profile_assessment res" where
  "run_profile_assessment h env root_dir profile base_profile accepted =
     bind_res (case dget profile ''source_checks'' of
         PList ss \<Rightarrow> mapM (\<lambda>s. case s of
             PDict d \<Rightarrow> source_check_rows h env root_dir (spec_str profile ''id'') d | _ \<Rightarrow> Inl (Exn TypeError ''source'')) ss
       | _ \<Rightarrow> Inl (Exn TypeError ''source_checks'')) (\<lambda>sources.
     bind_res (bind_res (bind_res (pindex base_profile ''objdump'') (\<lambda>o'. pindex o' ''binary'')) key_of) (\<lambda>objdump.
     bind_res (bind_res (bind_res (pindex base_profile ''configured_compile'') (\<lambda>c. pindex c ''object''))
        (\<lambda>v. existing_path h IpcRefcountError root_dir v False)) (\<lambda>object.
     bind_res (file_identity h object) (\<lambda>identity.
     bind_res (pget (or_empty (dget accepted ''configured_object'')) ''sha256'') (\<lambda>sha.
     bind_res (pget (or_empty (dget accepted ''configured_object'')) ''size'') (\<lambda>sz.
     Inr (assessment (spec_str profile ''id'') (concat sources @ object_checks (spec_str profile ''id'') sha sz identity
       @ command_checks (spec_str profile ''id'') profile
           (le_run env [objdump, ''-dr'', ''--no-show-raw-insn'', object])))))))))"

section \<open>The audit\<close>

definition control_core :: "pydict \<Rightarrow> py \<Rightarrow> py res" where
  "control_core actual expected =
     (case expected of PDict e \<Rightarrow> map_sum id PDict (mapM (\<lambda>k. bind_res (ditem actual k) (\<lambda>v. Inr (k, v))) (keys e))
      | _ \<Rightarrow> Inl (Exn TypeError ''expected''))"

definition diagnostic_checks :: "pydict \<Rightarrow> profile_assessment list \<Rightarrow> check_row list res" where
  "diagnostic_checks diag results =
     bind_res (bounded_diagnostic diag) (\<lambda>bounded.
     bind_res (control_core bounded (dget diag ''expected'')) (\<lambda>bounded_core.
     bind_res (control_core unbounded_failure_cycle (sub diag ''unbounded_failure_control'' ''expected'')) (\<lambda>core.
     Inr [check_that ''bounded LL/SC diagnostic result'' (dget diag ''expected'') bounded_core,
          check_that ''bounded LL/SC diagnostic is not verification'' (PBool False) (dget diag ''verification_candidate''),
          check_that ''unbounded LL/SC failure exposes retry cycle'' (sub diag ''unbounded_failure_control'' ''expected'') core,
          check_that ''unbounded LL/SC control is not verification'' (PBool False)
            (sub diag ''unbounded_failure_control'' ''verification_candidate''),
          check_that ''no LL/SC profile is promoted'' (PInt 0)
            (PInt (int (length (filter (\<lambda>r. truthy (pa_candidate r)) results))))])))"

definition documentation_checks :: "host \<Rightarrow> llsc_env \<Rightarrow> string \<Rightarrow> pydict \<Rightarrow> check_row list res" where
  "documentation_checks h env root_dir doc =
     bind_res (existing_path h IpcRefcountError root_dir (dget doc ''path'') False) (\<lambda>p.
     bind_res (read_text h env p) (\<lambda>text.
     bind_res (file_identity h p) (\<lambda>i.
     Inr [check_that ''LL/SC documentation identity'' (dget doc ''sha256'') (dget i ''sha256''),
          check_that ''LL/SC documentation warning order'' (PBool True) (PBool (ordered text (strings_of (dget doc ''required_order''))))])))"

text \<open>\<^verbatim>\<open>{item["id"]: item for item in items}\<close>; an identifier that is not a string is never looked up here.\<close>

definition index_by_id :: "py list \<Rightarrow> (string \<times> py) list res" where
  "index_by_id items =
     bind_res (mapM (\<lambda>p. bind_res (pindex p ''id'') (\<lambda>i.
        case i of PList _ \<Rightarrow> Inl (Exn TypeError ''unhashable type'') | PDict _ \<Rightarrow> Inl (Exn TypeError ''unhashable type'')
        | PStr s \<Rightarrow> Inr [(s, p)] | _ \<Rightarrow> Inr [])) items) (\<lambda>xss. Inr (rev (concat xss)))"

text \<open>One iteration of the loop over the profiles: its first check and the assessment.\<close>

definition assess_profile ::
  "host \<Rightarrow> llsc_env \<Rightarrow> string \<Rightarrow> (string \<times> py) list \<Rightarrow> (string \<times> py) list \<Rightarrow> py \<Rightarrow> (check_row \<times> profile_assessment) res" where
  "assess_profile h env root_dir base_profiles accepted_profiles v =
     bind_res (case v of PDict p \<Rightarrow> Inr p | _ \<Rightarrow> Inl (Exn TypeError ''profile'')) (\<lambda>p.
     bind_res (bind_res (ditem p ''id'') key_of) (\<lambda>pid.
     bind_res (case dget_or accepted_profiles pid (PDict []) of PDict a \<Rightarrow> Inr a | _ \<Rightarrow> Inl (Exn AttributeError ''get'')) (\<lambda>accepted.
     bind_res (ditem base_profiles pid) (\<lambda>base_profile.
     bind_res (run_profile_assessment h env root_dir p base_profile accepted) (\<lambda>r.
     Inr (check_that (pid @ '' base profile accepted'') (PBool True) (dget accepted ''accepted''), r))))))"

record llsc_audit =
  la_checks :: "check_row list"
  la_profiles :: "profile_assessment list"
  la_accepted :: bool
  la_assessments :: nat
  la_verifications :: nat
  la_mappings :: nat
  la_controls :: nat

definition profile_rows :: "(check_row \<times> profile_assessment) list \<Rightarrow> check_row list" where
  "profile_rows results = concat (map (\<lambda>(c, r). c # pa_checks r) results)"

text \<open>The verdict and what it counts: nothing is verified, whatever the checks say.\<close>

definition audit_result :: "check_row list \<Rightarrow> profile_assessment list \<Rightarrow> llsc_audit" where
  "audit_result checks results =
     \<lparr>la_checks = checks, la_profiles = results, la_accepted = all_passed checks,
      la_assessments = (if all_passed checks then length results else 0), la_verifications = 0, la_mappings = 0,
      la_controls = (if all_passed checks then 1 else 0)\<rparr>"

text \<open>
  \<^verbatim>\<open>audit_llsc_progress\<close> with its manifest, the manifest of the pilot and the audit file parsed; the directories it
  makes and the files it writes are left out.
\<close>

definition audit_llsc_progress ::
  "host \<Rightarrow> llsc_env \<Rightarrow> string \<Rightarrow> string \<Rightarrow> pydict \<Rightarrow> pydict \<Rightarrow> py \<Rightarrow> llsc_audit res" where
  "audit_llsc_progress h env root_dir base manifest base_manifest v =
     bind_res (verify_base h root_dir base manifest v) (\<lambda>ev.
     bind_res (documentation_checks h env root_dir (case dget manifest ''documentation'' of PDict d \<Rightarrow> d | _ \<Rightarrow> [])) (\<lambda>doc_rows.
     bind_res (bind_res (bind_res (ditem base_manifest ''profiles'') py_iter) index_by_id) (\<lambda>base_profiles.
     bind_res (bind_res (py_iter (dget_or (be_audit ev) ''profiles'' (PList []))) index_by_id) (\<lambda>accepted_profiles.
     bind_res (bind_res (bind_res (ditem manifest ''profiles'') py_iter)
        (mapM (assess_profile h env root_dir base_profiles accepted_profiles))) (\<lambda>results.
     bind_res (diagnostic_checks (case dget manifest ''conditional_diagnostic'' of PDict d \<Rightarrow> d | _ \<Rightarrow> []) (map snd results)) (\<lambda>diag_rows.
     Inr (audit_result (be_checks ev @ doc_rows @ profile_rows results @ diag_rows) (map snd results))))))))"

section \<open>What the diagnostic computes\<close>

lemma schedules_values: "s \<in> set (schedules vs n) \<Longrightarrow> set s \<subseteq> set vs"
  by (induction n arbitrary: s) fastforce+

lemma replicate_schedule: "v \<in> set vs \<Longrightarrow> replicate n v \<in> set (schedules vs n)"
  by (induction n) auto

lemma sum_list_at_most: "(\<forall>x\<in>set xs. x \<le> (k :: int)) \<Longrightarrow> sum_list xs \<le> int (length xs) * k"
  by (induction xs) (auto simp: algebra_simps)

lemma failure_rows_bounds:
  assumes "r \<in> set (failure_rows (int k) n)"
  shows "lr_source_attempts r = n \<and> lr_failures r \<le> int n * int k \<and> lr_attempts r \<le> int n * (int k + 1)
    \<and> lr_outcome r = ''completed_under_hypothetical_bound''"
proof -
  from assms obtain s where s: "r = failure_row n s" "s \<in> set (schedules [0..int k] n)" by (auto simp: failure_rows_def)
  then have "\<forall>x\<in>set s. x \<le> int k" "length s = n" using schedules_values [OF s(2)] schedules_length [OF s(2)] by auto
  with sum_list_at_most [of s "int k"] sum_list_at_most [of "map (\<lambda>v. v + 1) s" "int k + 1"] s(1)
  show ?thesis by (simp add: failure_row_def)
qed

lemma failure_rows_worst:
  "failure_row n (replicate n (int k)) \<in> set (failure_rows (int k) n)"
  "lr_failures (failure_row n (replicate n (int k))) = int n * int k"
  "lr_attempts (failure_row n (replicate n (int k))) = int n * (int k + 1)"
proof -
  show "failure_row n (replicate n (int k)) \<in> set (failure_rows (int k) n)"
    unfolding failure_rows_def set_map by (rule imageI) (rule replicate_schedule, simp)
qed (simp_all add: failure_row_def sum_list_replicate)

lemma length_failure_rows: "length (failure_rows (int k) n) = (k + 1) ^ n"
  by (simp add: failure_rows_def length_schedules nat_add_distrib)

lemma diagnostic_rows_nat:
  "diagnostic_rows (PInt (int k)) (PList (map (PInt \<circ> int) ns)) = Inr (concat (map (failure_rows (int k)) ns))"
proof -
  have "mapM (\<lambda>s. bind_res (as_index (PInt (int k))) (\<lambda>m. bind_res (as_index s) (\<lambda>n.
       if n < 0 then Inl (Exn ValueError ''repeat argument cannot be negative'') else Inr (failure_rows m (nat n)))))
     (map (PInt \<circ> int) ns) = Inr (map (failure_rows (int k)) ns)"
    by (rule mapM_map) (simp add: as_index_def)
  then show ?thesis by (simp add: diagnostic_rows_def py_elements_def)
qed

text \<open>A maximum that every row of a group stays below in proportion to its number, and the worst row reaches.\<close>

lemma max_of_groups:
  assumes "ns \<noteq> []" and "c \<ge> 0"
    and "\<And>n r. r \<in> set (g n) \<Longrightarrow> f r \<le> int n * c" and "\<And>n. \<exists>r\<in>set (g n). f r = int n * c"
  shows "max_of (map f (concat (map g ns))) = Inr (int (Max (set ns)) * c)"
proof -
  have le: "x \<le> int (Max (set ns)) * c" if "x \<in> set (map f (concat (map g ns)))" for x
  proof -
    from that obtain n r where n: "n \<in> set ns" "r \<in> set (g n)" "x = f r" by auto
    then have "x \<le> int n * c" using assms(3) by simp
    also have "\<dots> \<le> int (Max (set ns)) * c" using n(1) assms(2) by (intro mult_right_mono) auto
    finally show ?thesis .
  qed
  have "Max (set ns) \<in> set ns" using assms(1) by (intro Max_in) auto
  with assms(4) [of "Max (set ns)"] have mem: "int (Max (set ns)) * c \<in> set (map f (concat (map g ns)))" by force
  then have "Max (set (map f (concat (map g ns)))) = int (Max (set ns)) * c"
    using le by (intro Max_eqI) auto
  with mem show ?thesis by (metis length_pos_if_in_set less_numeral_extra(3) list.size(3) max_of_Inr)
qed

text \<open>
  What the bounded diagnostic counts, for any bound on the failures per attempt and any list of numbers of attempts:
  all failure schedules, none nonterminating, and maxima that are exactly the worst case of the longest run.
\<close>

theorem bounded_diagnostic_counts:
  assumes "dget d ''max_store_conditional_failures_per_cas'' = PInt (int k)"
    and "dget d ''source_cas_attempts'' = PList (map (PInt \<circ> int) ns)" and "ns \<noteq> []"
  shows "\<exists>r. bounded_diagnostic d = Inr r
    \<and> dget r ''finite_schedules'' = PInt (int (\<Sum>n\<leftarrow>ns. (k + 1) ^ n))
    \<and> dget r ''max_source_cas_attempts'' = PInt (int (Max (set ns)))
    \<and> dget r ''max_store_conditional_attempts'' = PInt (int (Max (set ns)) * (int k + 1))
    \<and> dget r ''max_store_conditional_failures'' = PInt (int (Max (set ns)) * int k)
    \<and> dget r ''nonterminating'' = PInt 0"
proof -
  let ?rows = "concat (map (failure_rows (int k)) ns)"
  have worst: "\<exists>r\<in>set (failure_rows (int k) n). lr_attempts r = int n * (int k + 1)"
      "\<exists>r\<in>set (failure_rows (int k) n). lr_failures r = int n * int k"
      "\<exists>r\<in>set (failure_rows (int k) n). (int \<circ> lr_source_attempts) r = int n * 1" for n
    using failure_rows_worst [of n k] by (auto simp: failure_row_def intro!: bexI [OF _ failure_rows_worst(1)])
  have "max_of (map lr_attempts ?rows) = Inr (int (Max (set ns)) * (int k + 1))"
      "max_of (map lr_failures ?rows) = Inr (int (Max (set ns)) * int k)"
      "max_of (map (int \<circ> lr_source_attempts) ?rows) = Inr (int (Max (set ns)) * 1)"
    using worst failure_rows_bounds by (intro max_of_groups assms(3); simp)+
  moreover have "filter (\<lambda>r. lr_outcome r = ''nonterminating'') ?rows = []"
    using failure_rows_bounds by (fastforce simp: filter_empty_conv)
  moreover have "length ?rows = (\<Sum>n\<leftarrow>ns. (k + 1) ^ n)"
    by (simp add: length_concat comp_def length_failure_rows)
  ultimately show ?thesis using assms(1,2) by (simp add: bounded_diagnostic_def diagnostic_rows_nat)
qed

theorem bounded_diagnostic_counts_witness:
  "\<exists>r. bounded_diagnostic [(''source_cas_attempts'', PList [PInt 1, PInt 2, PInt 3, PInt 4]),
       (''max_store_conditional_failures_per_cas'', PInt 2)] = Inr r
    \<and> py_eq (PDict (progress_core r DIAGNOSTIC_EXPECTED)) (PDict DIAGNOSTIC_EXPECTED)"
  using bounded_diagnostic_counts [of "[(''source_cas_attempts'', PList [PInt 1, PInt 2, PInt 3, PInt 4]),
       (''max_store_conditional_failures_per_cas'', PInt 2)]" 2 "[1, 2, 3, 4]"]
  by (auto simp: progress_core_def DIAGNOSTIC_EXPECTED_def keys_def)

section \<open>What the audit establishes\<close>

definition not_promoted :: "py \<Rightarrow> string \<Rightarrow> bool" where
  "not_promoted v pid = (\<exists>p. v = PDict p \<and> in_scope p pid \<and> dget p ''verification_candidate'' = PBool False
     \<and> dget p ''decision'' = PStr ''not_promoted'' \<and> blocked (dget p ''blocking_reason''))"

lemma llsc_profile_Inr:
  assumes "llsc_profile seen (v, pid) = Inr seen'"
  shows "not_promoted v pid"
proof -
  from assms obtain p where "v = PDict p" "in_scope p pid" "dget p ''verification_candidate'' = PBool False"
      "dget p ''decision'' = PStr ''not_promoted''" "blocked (dget p ''blocking_reason'')"
    unfolding llsc_profile_def prod.case bind_res_Inr exact_dict_Inr check_iff py_eq_PStr by (elim exE conjE) (rule that; assumption)
  then show ?thesis unfolding not_promoted_def by (intro exI [of _ p]) simp
qed

lemma llsc_profiles_Inr:
  "foldM llsc_profile seen xs = Inr seen' \<Longrightarrow> \<forall>(v, pid)\<in>set xs. not_promoted v pid"
proof (induction xs arbitrary: seen)
  case (Cons x xs)
  then obtain s where "llsc_profile seen x = Inr s" "foldM llsc_profile s xs = Inr seen'" by (auto simp: bind_res_Inr)
  with Cons.IH llsc_profile_Inr [of seen "fst x" "snd x" s] show ?case by auto
qed simp

text \<open>
  C29. No profile of an accepted manifest is a candidate for verification: its profiles are the eight load-linked ones in
  order, each within its declared architecture and kind, not promoted and with a reason that blocks it; nor is its
  diagnostic one, nor the control.
\<close>

theorem llsc_manifest_closed:
  assumes "load_llsc_manifest v = Inr m"
  shows "\<exists>ps diag. dget m ''profiles'' = PList ps \<and> map case_id ps = map PStr LLSC_PROFILE_IDS
    \<and> list_all2 not_promoted ps LLSC_PROFILE_IDS
    \<and> dget m ''conditional_diagnostic'' = PDict diag \<and> dget diag ''verification_candidate'' = PBool False
    \<and> sub diag ''unbounded_failure_control'' ''verification_candidate'' = PBool False"
proof -
  from assms obtain ps seen u where m: "dget m ''profiles'' = PList ps" "map case_id ps = map PStr LLSC_PROFILE_IDS"
      "foldM llsc_profile [] (zip ps LLSC_PROFILE_IDS) = Inr seen" "llsc_diagnostic (dget m ''conditional_diagnostic'') = Inr u"
    unfolding load_llsc_manifest_def bind_res_Inr exact_dict_Inr case_py_Inr if_Inl_Inr py_eq_strings sum.inject py.inject
    by (elim exE conjE, hypsubst) (rule that; assumption)
  have len: "length ps = length LLSC_PROFILE_IDS" using m(2) by (metis length_map)
  then have "list_all2 not_promoted ps LLSC_PROFILE_IDS" using llsc_profiles_Inr [OF m(3)] by (auto simp: list_all2_iff)
  moreover from m(4) obtain diag where "dget m ''conditional_diagnostic'' = PDict diag" "dget diag ''verification_candidate'' = PBool False"
      "llsc_control (dget diag ''unbounded_failure_control'')"
    unfolding llsc_diagnostic_def bind_res_Inr exact_dict_Inr check_iff by (elim exE conjE) (rule that; assumption)
  moreover from this(3) have "sub diag ''unbounded_failure_control'' ''verification_candidate'' = PBool False"
    by (auto simp: llsc_control_def sub_def split: py.splits)
  ultimately show ?thesis using m(1,2) by blast
qed

lemma safe_result_file_Inr [res_simps]:
  "safe_result_file h base name = Inr p \<longleftrightarrow> name \<noteq> [] \<and> \<not> is_absolute name \<and> p = path_join base name
     \<and> is_relative_to (resolve h p) (resolve h base) \<and> is_file h p \<and> \<not> is_symlink h p"
  by (auto simp: safe_result_file_def Let_def bind_res_Inr check_iff)

lemma file_identity_Inr [res_simps]:
  "file_identity h p = Inr d \<longleftrightarrow> (\<exists>s. contents h p = Some s \<and> d = identity_of h s)"
  by (auto simp: file_identity_def split: option.splits)

lemma dict_item_Inr [res_simps]: "dict_item d k = Inr e \<longleftrightarrow> map_of d k = Some (PDict e)"
  unfolding dict_item_def bind_res_Inr ditem_Inr case_py_Inr by auto

lemma audit_dict_Inr [res_simps]: "audit_dict v = Inr a \<longleftrightarrow> v = PDict a"
  by (cases v) (auto simp: audit_dict_def)

lemma inventories_Inr:
  "inventories audit = Inr ivs \<longleftrightarrow> dget audit ''input_identities'' = PDict (fst ivs) \<and> dget audit ''raw_artifacts'' = PDict (snd ivs)"
  by (cases ivs) (auto simp: inventories_def split: py.splits)

text \<open>What \<^verbatim>\<open>_verify_base\<close> returns, its parts named.\<close>

lemma verify_base_Inr:
  assumes "verify_base h root_dir base manifest v = Inr ev"
  obtains required kern rows ivs ins fs where "dget manifest ''base'' = PDict required"
    and "base_checks kern required (be_audit ev) = Inr rows"
    and "dget (be_audit ev) ''input_identities'' = PDict (fst ivs)" and "dget (be_audit ev) ''raw_artifacts'' = PDict (snd ivs)"
    and "readbacks (input_readback h root_dir) (fst ivs) = Inr ins"
    and "readbacks (\<lambda>name _. artifact_readback h base name) (snd ivs) = Inr fs"
    and "be_checks ev = rows
         @ [check_that ''base input identity count'' (dget required ''input_identity_count'') (PInt (int (length (fst ivs)))),
            check_that ''base raw artifact count'' (dget required ''raw_artifact_count'') (PInt (int (length (snd ivs))))]
         @ readback_rows ''base input readback: '' ins @ readback_rows ''base artifact readback: '' fs"
proof -
  from assms obtain required kern audit rows ivs ins fs where
      p: "map_of manifest ''base'' = Some (PDict required)" "base_checks kern required audit = Inr rows"
      "dget audit ''input_identities'' = PDict (fst ivs)" "dget audit ''raw_artifacts'' = PDict (snd ivs)"
      "readbacks (input_readback h root_dir) (fst ivs) = Inr ins"
      "readbacks (\<lambda>name _. artifact_readback h base name) (snd ivs) = Inr fs"
      and ev: "\<lparr>be_audit = audit, be_checks = rows
         @ [check_that ''base input identity count'' (dget required ''input_identity_count'') (PInt (int (length (fst ivs)))),
            check_that ''base raw artifact count'' (dget required ''raw_artifact_count'') (PInt (int (length (snd ivs))))]
         @ readback_rows ''base input readback: '' ins @ readback_rows ''base artifact readback: '' fs,
       be_inputs = actuals ins, be_artifacts = actuals fs\<rparr> = ev"
    unfolding verify_base_def bind_res_Inr dict_item_Inr audit_dict_Inr inventories_Inr sum.inject
    by (elim exE conjE) (rule that; assumption)
  from p(1) have "dget manifest ''base'' = PDict required" by (simp add: dget_def)
  with p show ?thesis by (intro that) (simp_all add: ev [symmetric])
qed

lemma readback_passed:
  assumes "readbacks f d = Inr xs" and "all_passed (readback_rows label xs)" and "(name, expected) \<in> set d"
  shows "\<exists>a. f name expected = Inr a \<and> py_eq expected a"
proof -
  from assms(3) obtain i where i: "i < length d" "d ! i = (name, expected)" by (auto simp: in_set_conv_nth)
  from mapM_nth [OF assms(1) [unfolded readbacks_def] i(1)] i(2) obtain a where a: "f name expected = Inr a" "xs ! i = (name, expected, a)"
    by (auto simp: bind_res_Inr)
  with assms(2) i(1) mapM_length [OF assms(1) [unfolded readbacks_def]] show ?thesis
    by (auto simp: readback_rows_def all_passed_def list_all_length dest!: spec [of _ i])
qed

text \<open>
  C27. Evidence that passes the read-back is the evidence on disk: every artifact the base audit records is a regular file
  inside the result directory whose digest and size are the recorded ones, every recorded input has the recorded
  identity now, the inventories have the required sizes and every check of the audit passed.
\<close>

theorem verify_base_sound:
  assumes "verify_base h root_dir base manifest v = Inr ev" and "all_passed (be_checks ev)"
  shows "\<exists>required identities artifacts n. dget manifest ''base'' = PDict required
    \<and> dget (be_audit ev) ''input_identities'' = PDict identities \<and> dget (be_audit ev) ''raw_artifacts'' = PDict artifacts
    \<and> py_eq (dget required ''raw_artifact_count'') (PInt (int (length artifacts)))
    \<and> (\<forall>(name, expected)\<in>set artifacts. \<exists>s. contents h (path_join base name) = Some s \<and> py_eq expected (PDict (identity_of h s))
         \<and> \<not> is_symlink h (path_join base name) \<and> is_relative_to (resolve h (path_join base name)) (resolve h base))
    \<and> (\<forall>(name, expected)\<in>set identities. \<exists>a. input_readback h root_dir name expected = Inr a \<and> py_eq expected a)
    \<and> count_passed (dget_or (be_audit ev) ''checks'' (PList [])) = Inr n \<and> py_len (dget_or (be_audit ev) ''checks'' (PList [])) = Inr n
    \<and> py_eq (dget required ''evidence_checks'') (PInt (int n))"
proof -
  from verify_base_Inr [OF assms(1)] obtain required kern rows ivs ins fs where b: "dget manifest ''base'' = PDict required"
      "base_checks kern required (be_audit ev) = Inr rows"
      "dget (be_audit ev) ''input_identities'' = PDict (fst ivs)" "dget (be_audit ev) ''raw_artifacts'' = PDict (snd ivs)"
      "readbacks (input_readback h root_dir) (fst ivs) = Inr ins"
      "readbacks (\<lambda>name _. artifact_readback h base name) (snd ivs) = Inr fs"
      "be_checks ev = rows
         @ [check_that ''base input identity count'' (dget required ''input_identity_count'') (PInt (int (length (fst ivs)))),
            check_that ''base raw artifact count'' (dget required ''raw_artifact_count'') (PInt (int (length (snd ivs))))]
         @ readback_rows ''base input readback: '' ins @ readback_rows ''base artifact readback: '' fs" by blast
  have parts: "all_passed rows" "py_eq (dget required ''raw_artifact_count'') (PInt (int (length (snd ivs))))"
      "all_passed (readback_rows ''base input readback: '' ins)"
      "all_passed (readback_rows ''base artifact readback: '' fs)"
    using assms(2) unfolding b(7) all_passed_simps check_that_passed by blast+
  from b(2) obtain total passed where n: "py_len (dget_or (be_audit ev) ''checks'' (PList [])) = Inr total"
      "count_passed (dget_or (be_audit ev) ''checks'' (PList [])) = Inr passed"
      "rows ! 5 = check_that ''base evidence check count'' (dget required ''evidence_checks'') (PInt (int total))"
      "rows ! 6 = check_that ''base evidence checks pass'' (dget required ''evidence_checks'') (PInt (int passed))" "length rows = 18"
    unfolding base_checks_def bind_res_Inr sum.inject by (elim exE conjE, hypsubst) (rule that; (assumption | simp))
  have "ck_passed (rows ! 5)" "ck_passed (rows ! 6)" using parts(1) n(5) by (auto simp: all_passed_def list_all_length)
  then have eq: "py_eq (dget required ''evidence_checks'') (PInt (int total))" "py_eq (dget required ''evidence_checks'') (PInt (int passed))"
    unfolding n(3,4) check_that_passed by blast+
  then have same: "total = passed" by (auto simp: py_eq_PInt of_bool_int_def split: if_splits)
  have "\<exists>s. contents h (path_join base name) = Some s \<and> py_eq expected (PDict (identity_of h s))
         \<and> \<not> is_symlink h (path_join base name) \<and> is_relative_to (resolve h (path_join base name)) (resolve h base)"
    if "(name, expected) \<in> set (snd ivs)" for name expected
    using readback_passed [OF b(6) parts(4) that]
    by (auto simp: artifact_readback_def bind_res_Inr safe_result_file_Inr map_sum_Inr file_identity_Inr)
  then have artifacts: "\<forall>(name, expected)\<in>set (snd ivs). \<exists>s. contents h (path_join base name) = Some s \<and> py_eq expected (PDict (identity_of h s))
         \<and> \<not> is_symlink h (path_join base name) \<and> is_relative_to (resolve h (path_join base name)) (resolve h base)" by blast
  have identities: "\<forall>(name, expected)\<in>set (fst ivs). \<exists>a. input_readback h root_dir name expected = Inr a \<and> py_eq expected a"
    using readback_passed [OF b(5) parts(3)] by blast
  show ?thesis
    by (intro exI [of _ required] exI [of _ "fst ivs"] exI [of _ "snd ivs"] exI [of _ passed] conjI)
       (use b parts(2) artifacts identities n eq same in simp_all)
qed

text \<open>What a passed assessment of one profile says of its object and its sources.\<close>

definition shows_llsc_path :: "host \<Rightarrow> llsc_env \<Rightarrow> pydict \<Rightarrow> bool" where
  "shows_llsc_path h env p = (\<exists>objdump object. is_file h object \<and>
     (let run = le_run env [objdump, ''-dr'', ''--no-show-raw-insn'', object]
      in pr_returncode run = 0 \<and> \<not> pr_timed_out run \<and> pr_stderr run = []
         \<and> occur_in_order (pr_stdout run) (strings_of (dget p ''disassembly_order''))))"

definition source_bound :: "host \<Rightarrow> string \<Rightarrow> py \<Rightarrow> bool" where
  "source_bound h root_dir v = (\<exists>s path b. v = PDict s
     \<and> existing_path h IpcRefcountError root_dir (dget s ''path'') False = Inr path
     \<and> contents h path = Some b \<and> dget s ''sha256'' = PStr (sha256_hex h b))"

lemma source_check_rows_passed:
  assumes "source_check_rows h env root_dir pid s = Inr rows" and "all_passed rows"
  shows "source_bound h root_dir (PDict s)"
proof -
  from assms(1) obtain path "text" i where s: "existing_path h IpcRefcountError root_dir (dget s ''path'') False = Inr path"
      "file_identity h path = Inr i"
      "[check_that (pid @ '' source identity: '' @ spec_str s ''path'') (dget s ''sha256'') (dget i ''sha256''),
          check_that (pid @ '' source order: '' @ spec_str s ''path'') (PBool True)
            (PBool (ordered text (strings_of (dget s ''ordered_tokens''))))] = rows"
    unfolding source_check_rows_def bind_res_Inr sum.inject by (elim exE conjE) (rule that; assumption)
  from s(2) obtain b where b: "contents h path = Some b" "i = identity_of h b" by (auto simp: file_identity_Inr)
  from assms(2) have "dget s ''sha256'' = PStr (sha256_hex h b)" by (simp add: s(3) [symmetric] b(2) identity_of_def)
  with s(1) b(1) show ?thesis by (auto simp: source_bound_def)
qed

lemma source_rows_passed:
  assumes "mapM (\<lambda>s. case s of PDict d \<Rightarrow> source_check_rows h env root_dir pid d | _ \<Rightarrow> Inl (Exn TypeError ''source'')) ss = Inr rows"
    and "all_passed (concat rows)" and "v \<in> set ss"
  shows "source_bound h root_dir v"
proof -
  from assms(3) obtain i where i: "i < length ss" "ss ! i = v" by (auto simp: in_set_conv_nth)
  from mapM_nth [OF assms(1) i(1)] i(2) obtain d where d: "v = PDict d" "source_check_rows h env root_dir pid d = Inr (rows ! i)"
    by (auto split: py.splits)
  from assms(2) i(1) mapM_length [OF assms(1)] have "all_passed (rows ! i)" by (simp add: list_all_length)
  with d show ?thesis using source_check_rows_passed by blast
qed

lemma run_profile_assessment_passed:
  assumes "run_profile_assessment h env root_dir p base_profile accepted = Inr r" and "all_passed (pa_checks r)"
  shows "shows_llsc_path h env p \<and> (\<exists>ss. dget p ''source_checks'' = PList ss \<and> (\<forall>s\<in>set ss. source_bound h root_dir s))
    \<and> pa_candidate r = PBool False \<and> pa_decision r = ''not_promoted''"
proof -
  let ?pid = "spec_str p ''id''"
  from assms(1) obtain ss sources objdump object identity sha sz where
      s: "dget p ''source_checks'' = PList ss"
      "mapM (\<lambda>s. case s of PDict d \<Rightarrow> source_check_rows h env root_dir ?pid d | _ \<Rightarrow> Inl (Exn TypeError ''source'')) ss = Inr sources"
      and f: "file_identity h object = Inr identity"
      and r: "assessment ?pid (concat sources @ object_checks ?pid sha sz identity
       @ command_checks ?pid p (le_run env [objdump, ''-dr'', ''--no-show-raw-insn'', object])) = r"
    unfolding run_profile_assessment_def bind_res_Inr case_py_Inr sum.inject by (elim exE conjE) (rule that; assumption)
  have regular: "is_file h object" using f by (auto simp: file_identity_Inr is_file_def)
  have passed: "all_passed (concat sources)"
      "all_passed (command_checks ?pid p (le_run env [objdump, ''-dr'', ''--no-show-raw-insn'', object]))"
    using assms(2) by (simp_all add: r [symmetric] assessment_def)
  have "shows_llsc_path h env p"
    unfolding shows_llsc_path_def Let_def using regular passed(2)
    by (intro exI [of _ objdump] exI [of _ object]) (simp add: command_checks_def ordered_occurs)
  with source_rows_passed [OF s(2) passed(1)] s(1) show ?thesis by (auto simp: r [symmetric] assessment_def)
qed

lemma assess_profile_passed:
  assumes "assess_profile h env root_dir base_profiles accepted_profiles v = Inr (c, r)" and "ck_passed c" and "all_passed (pa_checks r)"
  shows "\<exists>p ss. v = PDict p \<and> shows_llsc_path h env p \<and> dget p ''source_checks'' = PList ss \<and> (\<forall>s\<in>set ss. source_bound h root_dir s)"
proof -
  from assms(1) obtain p base_profile accepted where "v = PDict p" "run_profile_assessment h env root_dir p base_profile accepted = Inr r"
    unfolding assess_profile_def bind_res_Inr case_py_Inr sum.inject prod.inject by (elim exE conjE) (rule that; simp)
  with run_profile_assessment_passed [OF this(2) assms(3)] show ?thesis by blast
qed

text \<open>
  C28. What an accepted audit rests on and what it claims: every profile of the manifest was assessed, with a disassembler
  that ended cleanly and showed the pinned load-linked path in order, and with every pinned source unchanged, and still
  neither a verification nor a mapping is counted.
\<close>

theorem llsc_audit_accepted:
  assumes "audit_llsc_progress h env root_dir base manifest base_manifest v = Inr a" and "la_accepted a"
    and "dget manifest ''profiles'' = PList ps"
  shows "la_verifications a = 0 \<and> la_mappings a = 0 \<and> la_assessments a = length ps \<and> length (la_profiles a) = length ps
    \<and> (\<forall>q\<in>set ps. \<exists>p ss. q = PDict p \<and> shows_llsc_path h env p \<and> dget p ''source_checks'' = PList ss
         \<and> (\<forall>s\<in>set ss. source_bound h root_dir s))"
proof -
  from assms(1) obtain ev :: base_evidence and doc_rows base_profiles accepted_profiles profiles qs results diag_rows where
      p: "ditem manifest ''profiles'' = Inr profiles" "py_iter profiles = Inr qs"
      "mapM (assess_profile h env root_dir base_profiles accepted_profiles) qs = Inr results"
      and a: "audit_result (be_checks ev @ doc_rows @ profile_rows results @ diag_rows) (map snd results) = a"
    unfolding audit_llsc_progress_def bind_res_Inr sum.inject by (elim exE conjE) (rule that; assumption)
  from p(1,2) assms(3) have qs: "qs = ps" by (auto simp: ditem_Inr dget_def py_iter_def)
  from a assms(2) have passed: "all_passed (concat (map (\<lambda>(c, r). c # pa_checks r) results))"
      and counts: "la_verifications a = 0 \<and> la_mappings a = 0 \<and> la_assessments a = length results \<and> la_profiles a = map snd results"
    by (auto simp: audit_result_def profile_rows_def)
  have "\<exists>p ss. q = PDict p \<and> shows_llsc_path h env p \<and> dget p ''source_checks'' = PList ss \<and> (\<forall>s\<in>set ss. source_bound h root_dir s)"
    if "q \<in> set ps" for q
  proof -
    from that obtain i where i: "i < length qs" "qs ! i = q" unfolding qs by (auto simp: in_set_conv_nth)
    obtain c r where cr: "results ! i = (c, r)" by fastforce
    from mapM_nth [OF p(3) i(1)] i(2) cr have "assess_profile h env root_dir base_profiles accepted_profiles q = Inr (c, r)" by simp
    moreover have "i < length results" using mapM_length [OF p(3)] i(1) by simp
    with passed cr have "ck_passed c" "all_passed (pa_checks r)" by (auto simp: list_all_length dest!: spec [of _ i])
    ultimately show ?thesis by (rule assess_profile_passed)
  qed
  with counts mapM_length [OF p(3)] qs show ?thesis by auto
qed

end
