(* ===== verification/Llsc_Declared.thy ===== *)
theory Llsc_Declared
  imports Llsc_Progress "HOL-Library.Code_Target_Nat"
begin

text \<open>
  Inputs of the witnesses of \<open>Llsc_Progress\<close>: the manifest of the repository
  (\<^verbatim>\<open>config/concurrency-c3-llsc-progress.json\<close>) with its prose shortened, and a small audit of one profile.
\<close>

section \<open>The declared manifest\<close>

definition llsc_arm64 :: pydict where
  "llsc_arm64 =
     [(''id'', PStr ''arm64-ipc-refcount-c3''), (''architecture'', PStr ''arm64''), (''implementation_kind'',
     PStr ''runtime_dual_native_cas_llsc''), (''source_checks'', PList [PDict [(''path'',
     PStr ''build/sources/linux-b9b3e33b70b71/arch/arm64/include/asm/lse.h''), (''sha256'',
     PStr ''13a2a66a622ebcd4406bffad86c0f3df9e6dad488b91ec6501edcb490d31c6db''), (''ordered_tokens'',
     PList [PStr ''#define __lse_ll_sc_body(op, .'', PStr ''alternative_has_cap_likely(ARM'', PStr ''__lse_##op(__VA_ARGS__)'',
     PStr ''__ll_sc_##op(__VA_ARGS__)''])], PDict [(''path'',
     PStr ''build/sources/linux-b9b3e33b70b71/arch/arm64/include/asm/atomic_ll_sc.h''), (''sha256'',
     PStr ''12c0b4606f2247319ac82ef25c5127225fd4f80079591e33962882d1d33c59e8''), (''ordered_tokens'',
     PList [PStr ''__ll_sc__cmpxchg_case_##name##'', PStr (''1:'' @ [CHR 0x09] @ ''ld''), PStr ''eor'', PStr ''cbnz'',
     PStr ''st'', PStr ''xr'', PStr (''cbnz'' @ [CHR 0x09] @ ''%w[tmp], 1b''), PStr ''return oldval;''])], PDict [(''path'',
     PStr ''build/sources/linux-b9b3e33b70b71/arch/arm64/include/asm/atomic_lse.h''), (''sha256'',
     PStr ''a31e91facc36f8cadf7e0bbcbd2a8302d9e75a5d2536602aa3e8b461cde1b1e1''), (''ordered_tokens'',
     PList [PStr ''__lse__cmpxchg_case_##name##sz'', PStr ''cas'',
     PStr (''[old] '' @ [CHR 0x22] @ ''+r'' @ [CHR 0x22] @ '' (old)''), PStr ''return old;''])]]), (''disassembly_order'',
     PList [PStr ''<ipc_rcu_getref>:'', PStr (''cas'' @ [CHR 0x09] @ ''w3, w1, [x4]''),
     PStr (''ldxr'' @ [CHR 0x09] @ ''w3, [x4]''), PStr (''eor'' @ [CHR 0x09] @ ''w5, w3, w0''),
     PStr (''stxr'' @ [CHR 0x09] @ ''w5, w1, [x4]''), PStr (''cbnz'' @ [CHR 0x09] @ ''w5, e9c <ipc_rcu_getref+0x3c>''),
     PStr (''mov'' @ [CHR 0x09] @ ''w2, w3''), PStr (''b'' @ [CHR 0x09] @ ''e68 <ipc_rcu_getref+0x8>'')]),
     (''verification_candidate'', PBool False), (''decision'', PStr ''not_promoted''), (''blocking_reason'',
     PStr ''without a bound on the failure of a conditional store'')]"

definition llsc_riscv64 :: pydict where
  "llsc_riscv64 =
     [(''id'', PStr ''riscv64-ipc-refcount-c3''), (''architecture'', PStr ''riscv64''), (''implementation_kind'',
     PStr ''runtime_dual_native_cas_llsc''), (''source_checks'', PList [PDict [(''path'',
     PStr ''build/sources/linux-b9b3e33b70b71/arch/riscv/include/asm/cmpxchg.h''), (''sha256'',
     PStr ''e531073ca1500c8a761f833c79f55a2ceb6e87521b3218885c5255552e4da45d''), (''ordered_tokens'',
     PList [PStr ''IS_ENABLED(CONFIG_RISCV_ISA_ZA'', PStr ''riscv_has_extension_unlikely(R'', PStr ''amocas'',
     PStr (''0:'' @ [CHR 0x09] @ ''lr.w''), PStr ''bne'', PStr ''sc.w'', PStr ''bnez %1, 0b'',
     PStr ''#define arch_cmpxchg_relaxed''])]]), (''disassembly_order'', PList [PStr ''<ipc_rcu_getref>:'',
     PStr (''lr.w'' @ [CHR 0x09] @ ''a4,(a0)''), PStr (''sc.w'' @ [CHR 0x09] @ ''a2,a3,(a0)''),
     PStr (''bnez'' @ [CHR 0x09] @ ''a2,dda <.L0^B1>''), PStr (''amocas.w'' @ [CHR 0x09] @ ''a4,a3,(a0)''),
     PStr (''mv'' @ [CHR 0x09] @ ''a5,a4''), PStr (''j'' @ [CHR 0x09] @ ''dd0 <.L304>'')]), (''verification_candidate'',
     PBool False), (''decision'', PStr ''not_promoted''), (''blocking_reason'',
     PStr ''without a bound on the failure of a conditional store'')]"

definition llsc_arm32 :: pydict where
  "llsc_arm32 =
     [(''id'', PStr ''arm32-ipc-refcount-c3''), (''architecture'', PStr ''arm32''), (''implementation_kind'',
     PStr ''llsc_only_selected_object''), (''source_checks'', PList [PDict [(''path'',
     PStr ''build/sources/linux-b9b3e33b70b71/arch/arm/include/asm/cmpxchg.h''), (''sha256'',
     PStr ''0ddc11af75f4d242d33f4da6469f76bb1c033c5a0ea39d66f4090ccb99789e03''), (''ordered_tokens'', PList [PStr ''case 4:'',
     PStr ''do {'', PStr ''ldrex'', PStr ''teq'', PStr ''strexeq'', PStr ''} while (res);'', PStr ''return oldval;''])]]),
     (''disassembly_order'', PList [PStr ''<ipc_rcu_getref>:'', PStr (''ldrex'' @ [CHR 0x09] @ ''r12, [r3]''),
     PStr (''teq'' @ [CHR 0x09] @ ''ip, r0''), PStr (''strexeq'' @ [CHR 0x09] @ ''r1, r2, [r3]''),
     PStr (''bne'' @ [CHR 0x09] @ ''be0 <ipc_rcu_getref+0x18>''), PStr (''mov'' @ [CHR 0x09] @ ''r0, ip''),
     PStr (''bne'' @ [CHR 0x09] @ ''bd8 <ipc_rcu_getref+0x10>'')]), (''verification_candidate'', PBool False), (''decision'',
     PStr ''not_promoted''), (''blocking_reason'', PStr ''without a bound on the failure of a conditional store'')]"

definition llsc_powerpc32_smp :: pydict where
  "llsc_powerpc32_smp =
     [(''id'', PStr ''powerpc32-smp-ipc-refcount-c3''), (''architecture'', PStr ''powerpc32''), (''implementation_kind'',
     PStr ''llsc_only_selected_object''), (''source_checks'', PList [PDict [(''path'',
     PStr ''build/sources/linux-b9b3e33b70b71/arch/powerpc/include/asm/cmpxchg.h''), (''sha256'',
     PStr ''03edecfa8aa92d80708e26608803f719d2ad2cce2bc0dd37ac2e9dff8b2235a8''), (''ordered_tokens'',
     PList [PStr ''__cmpxchg_u32_relaxed'', PStr (''1:'' @ [CHR 0x09] @ ''lwarx''), PStr ''cmpw'',
     PStr (''bne-'' @ [CHR 0x09] @ ''2f''), PStr ''stwcx.'', PStr (''bne-'' @ [CHR 0x09] @ ''1b''), PStr ''return prev;''])]]),
     (''disassembly_order'', PList [PStr ''<ipc_rcu_getref>:'', PStr ''lwarx   r7,0,r10'', PStr ''cmpw    r7,r9'',
     PStr ''stwcx.  r8,0,r10'', PStr ''bne     118c <ipc_rcu_getref+0x14>'', PStr ''mr      r9,r7'',
     PStr ''b       1180 <ipc_rcu_getref+0x8>'']), (''verification_candidate'', PBool False), (''decision'',
     PStr ''not_promoted''), (''blocking_reason'', PStr ''without a bound on the failure of a conditional store'')]"

definition llsc_sh_smp :: pydict where
  "llsc_sh_smp =
     [(''id'', PStr ''sh-smp-ipc-refcount-c3''), (''architecture'', PStr ''superh''), (''implementation_kind'',
     PStr ''llsc_only_selected_object''), (''source_checks'', PList [PDict [(''path'',
     PStr ''build/sources/linux-b9b3e33b70b71/arch/sh/include/asm/cmpxchg-llsc.h''), (''sha256'',
     PStr ''0012886f91acac1840e83d60ee6fc136031fd094f1da9d979b9fe3b627efb240''), (''ordered_tokens'',
     PList [PStr ''__cmpxchg_u32'', PStr ''movli.l'', PStr ''cmp/eq'', PStr ''movco.l'',
     PStr (''bf'' @ [CHR 0x09] @ [CHR 0x09] @ ''1b''), PStr ''synco'', PStr ''return retval;''])]]), (''disassembly_order'',
     PList [PStr ''<ipc_rcu_getref>:'', PStr (''movli.l'' @ [CHR 0x09] @ ''@r3,r0''), PStr (''cmp/eq'' @ [CHR 0x09] @ ''r7,r1''),
     PStr (''movco.l'' @ [CHR 0x09] @ ''r0,@r3''), PStr (''bf'' @ [CHR 0x09] @ ''c30 <ipc_rcu_getref+0x14>''),
     PStr (''mov'' @ [CHR 0x09] @ ''r7,r1'')]), (''verification_candidate'', PBool False), (''decision'', PStr ''not_promoted''),
     (''blocking_reason'', PStr ''without a bound on the failure of a conditional store'')]"

definition llsc_alpha_smp :: pydict where
  "llsc_alpha_smp =
     [(''id'', PStr ''alpha-smp-ipc-refcount-c3''), (''architecture'', PStr ''alpha''), (''implementation_kind'',
     PStr ''llsc_only_selected_object_with_trampoline''), (''source_checks'', PList [PDict [(''path'',
     PStr ''build/sources/linux-b9b3e33b70b71/arch/alpha/include/asm/cmpxchg.h''), (''sha256'',
     PStr ''adf371620fb04a0a14ca1770f94f52d3fc851fb718ae8d86c2f8f889662c497e''), (''ordered_tokens'',
     PList [PStr ''____cmpxchg_u32'', PStr (''1:'' @ [CHR 0x09] @ ''ldl_l''), PStr ''cmpeq'', PStr ''stl_c'', PStr ''beq %1,3f'',
     PStr ''.subsection 2'', PStr (''3:'' @ [CHR 0x09] @ ''br 1b''), PStr ''return prev;''])]]), (''disassembly_order'',
     PList [PStr ''<ipc_rcu_getref>:'', PStr (''ldl_l'' @ [CHR 0x09] @ ''t2,0(a0)''),
     PStr (''stl_c'' @ [CHR 0x09] @ ''t3,0(a0)''), PStr (''beq'' @ [CHR 0x09] @ ''t3,1984 <ipc_seq_pid_ns+0x34>''),
     PStr (''mov'' @ [CHR 0x09] @ ''t2,t0''), PStr (''br'' @ [CHR 0x09] @ ''fb0 <ipc_rcu_getref+0x20>''),
     PStr (''1984:'' @ [CHR 0x09] @ ''br'' @ [CHR 0x09] @ ''fbc <ipc_rcu_getref+0x2c>'')]), (''verification_candidate'',
     PBool False), (''decision'', PStr ''not_promoted''), (''blocking_reason'',
     PStr ''without a bound on the failure of a conditional store'')]"

definition llsc_loongarch64_clang :: pydict where
  "llsc_loongarch64_clang =
     [(''id'', PStr ''loongarch64-clang-ipc-refcount-c3''), (''architecture'', PStr ''loongarch64''), (''implementation_kind'',
     PStr ''llsc_get_with_native_amo_put''), (''source_checks'', PList [PDict [(''path'',
     PStr ''build/sources/linux-b9b3e33b70b71/arch/loongarch/include/asm/cmpxchg.h''), (''sha256'',
     PStr ''d4379ee53c45ad865983f292e4b9ba3fc8a6a556a0ef8d2fb3eb098eabe2bdf6''), (''ordered_tokens'',
     PList [PStr ''#define __cmpxchg_asm(ld, st, '', PStr (''1:'' @ [CHR 0x09] @ [CHR 0x22] @ '' ld''),
     PStr (''bne'' @ [CHR 0x09] @ ''%0, %z3, 2f''), PStr (''st '' @ [CHR 0x22] @ [CHR 0x09] @ ''$t0''),
     PStr (''beqz'' @ [CHR 0x09] @ ''$t0, 1b''),
     PStr (''return __cmpxchg_asm('' @ [CHR 0x22] @ ''ll.w'' @ [CHR 0x22] @ '', '' @ [CHR 0x22])])]]), (''disassembly_order'',
     PList [PStr ''<ipc_rcu_getref>:'', PStr (''ll.w'' @ [CHR 0x09] @ ''$a2, $a0, 0''),
     PStr (''bne'' @ [CHR 0x09] @ ''$a2, $a1''), PStr (''sc.w'' @ [CHR 0x09] @ ''$t0, $a0, 0''),
     PStr (''beqz'' @ [CHR 0x09] @ ''$t0, -16''), PStr (''dbar'' @ [CHR 0x09] @ ''1792''),
     PStr (''bnez'' @ [CHR 0x09] @ ''$a3, -52'')]), (''verification_candidate'', PBool False), (''decision'',
     PStr ''not_promoted''), (''blocking_reason'', PStr ''without a bound on the failure of a conditional store'')]"

definition llsc_mips32el_clang :: pydict where
  "llsc_mips32el_clang =
     [(''id'', PStr ''mips32el-clang-ipc-refcount-c3''), (''architecture'', PStr ''mips32el''), (''implementation_kind'',
     PStr ''llsc_only_selected_object''), (''source_checks'', PList [PDict [(''path'',
     PStr ''build/sources/linux-b9b3e33b70b71/arch/mips/include/asm/cmpxchg.h''), (''sha256'',
     PStr ''551b52fb9216d64f2a8481db42b07e48dd78948759677856441315ffaded0449''), (''ordered_tokens'',
     PList [PStr ''#define __cmpxchg_asm(ld, st, '', PStr (''1:'' @ [CHR 0x09] @ [CHR 0x22] @ '' ld''),
     PStr (''bne'' @ [CHR 0x09] @ ''%0, %z3, 2f''), PStr (''st '' @ [CHR 0x22] @ [CHR 0x09] @ ''$1, %1''),
     PStr ''__stringify(SC_BEQZ)'',
     PStr (''return __cmpxchg_asm('' @ [CHR 0x22] @ ''ll'' @ [CHR 0x22] @ '', '' @ [CHR 0x22] @ ''sc'')])], PDict [(''path'',
     PStr ''build/sources/linux-b9b3e33b70b71/arch/mips/include/asm/cpu-features.h''), (''sha256'',
     PStr ''9b214f4026aff73b4bb0d41d2296d86cb65a2d788f1183b75cebab6520086975''), (''ordered_tokens'',
     PList [PStr ''#ifndef cpu_has_llsc'', PStr (''#define cpu_has_llsc'' @ [CHR 0x09] @ [CHR 0x09] @ ''__isa_ge''),
     PStr ''#ifndef kernel_uses_llsc'', PStr (''#define kernel_uses_llsc'' @ [CHR 0x09] @ ''cpu_h'')])], PDict [(''path'',
     PStr ''build/sources/linux-b9b3e33b70b71/arch/mips/include/asm/asm.h''), (''sha256'',
     PStr ''da92ec2427ae03a6085c7a87249471009f268d72d2ca556ecfad960fe13eb673''), (''ordered_tokens'',
     PList [PStr ''#ifdef CONFIG_WAR_R10000_LLSC'', PStr (''# define SC_BEQZ'' @ [CHR 0x09] @ ''beqzl''),
     PStr ''#elif !defined(CONFIG_CC_HAS_B'', PStr (''# define SC_BEQZ'' @ [CHR 0x09] @ ''beqzc''), PStr ''#else'',
     PStr (''# define SC_BEQZ'' @ [CHR 0x09] @ ''beqz'')])]]), (''disassembly_order'', PList [PStr ''<ipc_rcu_getref>:'',
     PStr (''ll'' @ [CHR 0x09] @ ''$3, 0x0($4)''), PStr (''bne'' @ [CHR 0x09] @ ''$3, $16''),
     PStr (''sc'' @ [CHR 0x09] @ ''$1, 0x0($4)''), PStr (''beqz'' @ [CHR 0x09] @ ''$1, 0xa34''),
     PStr (''bnez'' @ [CHR 0x09] @ ''$2, 0xa2c'')]), (''verification_candidate'', PBool False), (''decision'',
     PStr ''not_promoted''), (''blocking_reason'', PStr ''without a bound on the failure of a conditional store'')]"

definition llsc_declared_kernel :: pydict where
  "llsc_declared_kernel =
     [(''revision'', PStr ''b9b3e33b70b71e516930117e21de3ad2a7723747''), (''git_tree'',
     PStr ''054b6818c409ab20ae89b1031a1a7c358f673d87''), (''source_root'', PStr ''build/sources/linux-b9b3e33b70b71'')]"

definition llsc_declared_base :: pydict where
  "llsc_declared_base =
     [(''target'', PStr ''linux-ipc-refcount-lifetime-multiarch-c3''), (''schema_version'', PInt 6), (''evidence_checks'',
     PInt 1036), (''input_identity_count'', PInt 91), (''raw_artifact_count'', PInt 395), (''architecture_mapping_count'',
     PInt 11), (''kernel_verification_count'', PInt 2), (''progress_kernel_verification_count'', PInt 1),
     (''progress_implementation_mapping_count'', PInt 3), (''progress_implementation_profiles'',
     PList [PStr ''x86_64-ipc-refcount-c3'', PStr ''s390x-ipc-refcount-c3'', PStr ''um-x86_64-smp-ipc-refcount-c3''])]"

definition llsc_declared_documentation :: pydict where
  "llsc_declared_documentation =
     [(''path'', PStr ''build/sources/linux-b9b3e33b70b71/Documentation/atomic_t.txt''), (''sha256'',
     PStr ''717673f723f57ea07ca03d919e2a21e8fc2ce8c8808d3a1c6a9c36ae79885fe0''), (''required_order'',
     PList [PStr ''FORWARD PROGRESS'', PStr (''Specifically '' @ [CHR 0x27] @ ''simple'' @ [CHR 0x27] @ '' cmpxchg() loops ar''),
     PStr ''this is not evident on LL/SC architectur'', PStr ''such a guarantee does not'',
     PStr ''transfer to cmpxchg() implemented using '', PStr ''However, even the forward branch from th'',
     PStr ''there is no guarantee what so ever the c'', PStr ''Even native CAS architectures can fail t'',
     PStr ''exponential backoff loops''])]"

definition llsc_declared_conditional_diagnostic :: pydict where
  "llsc_declared_conditional_diagnostic =
     [(''kind'', PStr ''bounded_store_conditional_failure_diagnostic''), (''verification_candidate'', PBool False), (''premise'',
     PStr ''no selected Linux profile establishes this''), (''source_cas_attempts'', PList [PInt 1, PInt 2, PInt 3, PInt 4]),
     (''max_store_conditional_failures_per_cas'', PInt 2), (''expected'', PDict [(''finite_schedules'', PInt 120),
     (''max_source_cas_attempts'', PInt 4), (''max_store_conditional_attempts'', PInt 12), (''max_store_conditional_failures'',
     PInt 8), (''nonterminating'', PInt 0)]), (''unbounded_failure_control'', PDict [(''role'',
     PStr ''required_nontermination_control''), (''verification_candidate'', PBool False), (''expected'',
     PDict [(''cycle_found'', PBool True), (''cycle_length'', PInt 1), (''state'', PDict [(''refs'', PInt 1), (''expected'',
     PInt 1), (''reservation'', PStr ''lost'')])])])]"

definition llsc_declared :: pydict where
  "llsc_declared =
     [(''schema_version'', PInt 1), (''id'', PStr ''linux-ipc-refcount-llsc-progress-capability-c3''), (''kernel'',
     PDict llsc_declared_kernel), (''base'', PDict llsc_declared_base), (''documentation'', PDict llsc_declared_documentation),
     (''conditional_diagnostic'', PDict llsc_declared_conditional_diagnostic), (''profiles'', PList [PDict llsc_arm64,
     PDict llsc_riscv64, PDict llsc_arm32, PDict llsc_powerpc32_smp, PDict llsc_sh_smp, PDict llsc_alpha_smp,
     PDict llsc_loongarch64_clang, PDict llsc_mips32el_clang]), (''exclusions'',
     PList [PStr ''No LL/SC profile; hypothetical; native LSE; Zacas; LoongArch'',
     PStr ''MIPS; scheduler fairness; wait-freedom; RCU progress; whole-kernel''])]"

lemma llsc_declared_accepted: "load_llsc_manifest (PDict llsc_declared) = Inr llsc_declared"
  by code_simp

theorem llsc_manifest_closed_witness:
  "\<exists>ps. dget llsc_declared ''profiles'' = PList ps \<and> list_all2 not_promoted ps LLSC_PROFILE_IDS"
  using llsc_manifest_closed [OF llsc_declared_accepted] by blast

section \<open>A small audit\<close>

definition world :: host where
  "world = \<lparr>contents = map_of [(''/r/res/pilot-audit.json'', ''{}''), (''/r/res/log.txt'', ''ok''), (''/r/in.c'', ''int''),
       (''/r/doc.txt'', ''forward progress''), (''/r/atomic.h'', ''ll sc''), (''/r/util.o'', ''ELF'')],
     is_symlink = (\<lambda>p. False), is_dir = (\<lambda>p. True), resolve = (\<lambda>p. p), sha256_hex = (\<lambda>s. s), float_text = (\<lambda>f. [])\<rparr>"

definition world_env :: llsc_env where
  "world_env = \<lparr>le_decode = Some, le_run = (\<lambda>argv. \<lparr>pr_returncode = 0, pr_stdout = ''ldrex; strex; bne'', pr_stderr = [],
     pr_timed_out = False\<rparr>)\<rparr>"

definition world_manifest :: pydict where
  "world_manifest =
     [(''kernel'', PDict [(''revision'', PStr ''r''), (''git_tree'', PStr ''t'')]),
      (''base'', PDict [(''target'', PStr ''pilot''), (''schema_version'', PInt 6), (''evidence_checks'', PInt 1),
         (''input_identity_count'', PInt 1), (''raw_artifact_count'', PInt 1), (''architecture_mapping_count'', PInt 1),
         (''kernel_verification_count'', PInt 2), (''progress_kernel_verification_count'', PInt 1),
         (''progress_implementation_mapping_count'', PInt 3), (''progress_implementation_profiles'', PList [])]),
      (''documentation'', PDict [(''path'', PStr ''doc.txt''), (''sha256'', PStr ''forward progress''),
         (''required_order'', PList [PStr ''forward'', PStr ''progress''])]),
      (''conditional_diagnostic'', PDict llsc_declared_conditional_diagnostic),
      (''profiles'', PList [PDict [(''id'', PStr ''arm''), (''source_checks'', PList [PDict [(''path'', PStr ''atomic.h''),
            (''sha256'', PStr ''ll sc''), (''ordered_tokens'', PList [PStr ''ll'', PStr ''sc''])]]),
         (''disassembly_order'', PList [PStr ''ldrex'', PStr ''strex'']), (''verification_candidate'', PBool False),
         (''decision'', PStr ''not_promoted'')]])]"

definition world_pilot :: pydict where
  "world_pilot = [(''profiles'', PList [PDict [(''id'', PStr ''arm''), (''objdump'', PDict [(''binary'', PStr ''/usr/bin/objdump'')]),
     (''configured_compile'', PDict [(''object'', PStr ''util.o'')])]])]"

definition world_audit :: pydict where
  "world_audit = [(''accepted'', PBool True), (''target'', PStr ''pilot''), (''schema_version'', PInt 6), (''kernel_revision'', PStr ''r''),
     (''kernel_tree'', PStr ''t''), (''checks'', PList [PDict [(''passed'', PBool True)]]), (''architecture_mapping_count'', PInt 1),
     (''kernel_verification_count'', PInt 2), (''c3_lifetime_functional_pilot_complete'', PBool True),
     (''c3_bounded_progress_pilot_complete'', PBool True), (''c3_selected_architecture_mappings_complete'', PBool True),
     (''progress'', PDict [(''accepted'', PBool True), (''kernel_verification_count'', PInt 1), (''implementation_profiles'', PList [])]),
     (''progress_implementation_mapping_count'', PInt 3), (''c3_stage_complete'', PBool False), (''sudo_or_install_used'', PBool False),
     (''input_identities'', PDict [(''in.c'', PDict [(''sha256'', PStr ''int''), (''size'', PInt 3)])]),
     (''raw_artifacts'', PDict [(''log.txt'', PDict [(''sha256'', PStr ''ok''), (''size'', PInt 2)])]),
     (''profiles'', PList [PDict [(''id'', PStr ''arm''), (''accepted'', PBool True),
        (''configured_object'', PDict [(''sha256'', PStr ''ELF''), (''size'', PInt 3)])]])]"

lemma world_base: "case verify_base world ''/r'' ''/r/res'' world_manifest (PDict world_audit) of
    Inl e \<Rightarrow> False | Inr ev \<Rightarrow> all_passed (be_checks ev) \<and> be_audit ev = world_audit"
  by code_simp

theorem verify_base_sound_witness:
  "\<exists>s. contents world ''/r/res/log.txt'' = Some s \<and> py_eq (PDict [(''sha256'', PStr ''ok''), (''size'', PInt 2)]) (PDict (identity_of world s))"
proof -
  from world_base obtain ev where ev: "verify_base world ''/r'' ''/r/res'' world_manifest (PDict world_audit) = Inr ev"
      "all_passed (be_checks ev)" "be_audit ev = world_audit" by (auto split: sum.splits)
  have path: "path_join ''/r/res'' ''log.txt'' = ''/r/res/log.txt''" by code_simp
  from verify_base_sound [OF ev(1,2)] show ?thesis unfolding ev(3) by (auto simp: world_audit_def path simp del: py_eq.simps)
qed

lemma world_accepted: "case audit_llsc_progress world world_env ''/r'' ''/r/res'' world_manifest world_pilot (PDict world_audit) of
    Inl e \<Rightarrow> False | Inr a \<Rightarrow> la_accepted a"
  by code_simp

theorem llsc_audit_accepted_witness:
  "\<exists>a. audit_llsc_progress world world_env ''/r'' ''/r/res'' world_manifest world_pilot (PDict world_audit) = Inr a
     \<and> la_accepted a \<and> la_verifications a = 0 \<and> la_assessments a = 1"
proof -
  from world_accepted obtain a where a: "audit_llsc_progress world world_env ''/r'' ''/r/res'' world_manifest world_pilot (PDict world_audit) = Inr a"
      "la_accepted a" by (auto split: sum.splits)
  have "\<exists>p. dget world_manifest ''profiles'' = PList [p]" by (simp add: world_manifest_def)
  then obtain p where "dget world_manifest ''profiles'' = PList [p]" by blast
  from llsc_audit_accepted [OF a this] a show ?thesis by simp
qed

end
